(* ===== verification/Prelude.thy ===== *)
theory Prelude
  imports Main "HOL-Library.Sublist" "HOL-Library.Char_ord"
begin

text \<open>
  The base of the development: the collections of rewrite rules the component theories fill,
  the errors of the Go code as values, the environment an operation runs in, and the lemmas on
  lists the components share.

  Errors.  A Go \<open>error\<close> is a value of \<open>err\<close>: the sentinel errors of \<open>internal/core\<close> and
  \<open>database/sql\<close>, the errors of the SQLite driver, plain messages, and a message that wraps
  another error (\<open>fmt.Errorf("...: %w", err)\<close>).  \<open>err_text\<close> is \<open>err.Error()\<close>, \<open>err_is\<close> is
  \<open>errors.Is\<close> for a sentinel.  A fallible function returns \<open>err + 'a\<close>.

  Environment.  An operation reads the wall clock, sends statements to SQLite and may find its
  context cancelled; \<open>env\<close> records what it meets: \<open>clock e i\<close> is its \<open>i\<close>-th reading of the
  clock in milliseconds, \<open>fault e i k\<close> the driver error of attempt \<open>k\<close> of its \<open>i\<close>-th statement
  (\<open>None\<close> when the statement runs; a statement that reports an error has changed nothing),
  \<open>ctx_done e i k\<close> the error of the context if it is over when that attempt is.  Every theorem quantifies over the environment.
\<close>

named_theorems row_simps \<open>what an operation does to the fields of a row\<close>
named_theorems op_simps \<open>the branches of the operations\<close>
named_theorems inv_intros \<open>preservation of the invariants\<close>

section \<open>Errors\<close>

datatype err =
    ErrNotFound
  | ErrNoRows
  | ErrDeadline
  | ErrCanceled
  | EUnique string
  | EConstraint string
  | EDriver string
  | EMsg string
  | EWrap string err

fun err_text :: "err \<Rightarrow> string" where
  "err_text ErrNotFound = ''not found''"
| "err_text ErrNoRows = ''sql: no rows in result set''"
| "err_text ErrDeadline = ''context deadline exceeded''"
| "err_text ErrCanceled = ''context canceled''"
| "err_text (EUnique c) = ''UNIQUE constraint failed: '' @ c"
| "err_text (EConstraint c) = c"
| "err_text (EDriver m) = m"
| "err_text (EMsg m) = m"
| "err_text (EWrap m e) = m @ '': '' @ err_text e"

fun err_is :: "err \<Rightarrow> err \<Rightarrow> bool" where
  "err_is (EWrap m e) t = (EWrap m e = t \<or> err_is e t)"
| "err_is e t = (e = t)"

definition wrap :: "string \<Rightarrow> err + 'a \<Rightarrow> err + 'a" where
  "wrap m r = (case r of Inl e \<Rightarrow> Inl (EWrap m e) | Inr a \<Rightarrow> Inr a)"

lemma wrap_Inr [simp]: "wrap m (Inr a) = Inr a"
  and wrap_Inl [simp]: "wrap m (Inl e) = Inl (EWrap m e)"
  and wrap_eq_Inr [simp]: "wrap m r = Inr a \<longleftrightarrow> r = Inr a"
  by (auto simp: wrap_def split: sum.splits)

section \<open>The environment of an operation\<close>

record env =
  clock :: "nat \<Rightarrow> int"
  fault :: "nat \<Rightarrow> nat \<Rightarrow> err option"
  ctx_done :: "nat \<Rightarrow> nat \<Rightarrow> err option"

text \<open>The environment the rest of an operation sees after \<open>i\<close> statements and clock readings.\<close>

definition env_from :: "nat \<Rightarrow> env \<Rightarrow> env" where
  "env_from n e = \<lparr>clock = (\<lambda>i. clock e (n + i)), fault = (\<lambda>i. fault e (n + i)),
     ctx_done = (\<lambda>i. ctx_done e (n + i))\<rparr>"

text \<open>A clock that stands still and a database that answers: the environment of the examples.\<close>

definition calm :: "int \<Rightarrow> env" where
  "calm t = \<lparr>clock = (\<lambda>_. t), fault = (\<lambda>_ _. None), ctx_done = (\<lambda>_ _. None)\<rparr>"

lemma calm_simps [simp]:
  "clock (calm t) i = t" "fault (calm t) i k = None" "ctx_done (calm t) i k = None"
  by (simp_all add: calm_def)

lemma env_from_simps [simp]:
  "clock (env_from n e) i = clock e (n + i)"
  "fault (env_from n e) i k = fault e (n + i) k"
  "ctx_done (env_from n e) i k = ctx_done e (n + i) k"
  by (simp_all add: env_from_def)

lemma env_from_calm [simp]: "env_from n (calm t) = calm t"
  by (simp add: env_from_def calm_def)

text \<open>The instant Go's \<open>time.Time{}\<close> stands for, in milliseconds: \<open>t.IsZero()\<close> is \<open>t = zero_time\<close>.\<close>

definition zero_time :: int where
  "zero_time = - 62135596800000"

section \<open>Integers of 64 bits\<close>

text \<open>Go's int64 and SQLite's INTEGER; \<open>max_key\<close> is the last key AUTOINCREMENT hands out.\<close>

definition int64 :: "int \<Rightarrow> bool" where
  "int64 i \<longleftrightarrow> - (2 ^ 63) \<le> i \<and> i < 2 ^ 63"

definition max_key :: int where
  "max_key = 2 ^ 63 - 1"

definition sqlite_full :: err where
  "sqlite_full = EDriver ''database or disk is full''"

lemma int64_0 [simp]: "int64 0"
  by (simp add: int64_def)

definition env_int64 :: "env \<Rightarrow> bool" where
  "env_int64 e \<longleftrightarrow> (\<forall>i. int64 (clock e i))"

lemma env_int64_clock [simp]: "env_int64 e \<Longrightarrow> int64 (clock e i)"
  by (simp add: env_int64_def)

lemma env_int64_calm [simp]: "env_int64 (calm t) \<longleftrightarrow> int64 t"
  by (simp add: env_int64_def)

section \<open>One statement\<close>

text \<open>Statement \<open>i\<close>, run once: the driver's error, or what the statement gives.\<close>

definition stmt :: "env \<Rightarrow> nat \<Rightarrow> err + 'a \<Rightarrow> err + 'a" where
  "stmt e i r = (case fault e i 0 of Some er \<Rightarrow> Inl er | None \<Rightarrow> r)"

lemma stmt_Inr [simp]: "stmt e i r = Inr a \<longleftrightarrow> fault e i 0 = None \<and> r = Inr a"
  by (simp add: stmt_def split: option.splits)

lemma stmt_calm [simp]: "stmt (calm t) i r = r"
  by (simp add: stmt_def)

section \<open>Lists\<close>

definition first_row :: "'a list \<Rightarrow> 'a option" where
  "first_row xs = (case xs of [] \<Rightarrow> None | x # _ \<Rightarrow> Some x)"

lemma first_row_simps [simp]: "first_row [] = None" "first_row (x # xs) = Some x"
  by (simp_all add: first_row_def)

lemma first_row_None [simp]: "first_row xs = None \<longleftrightarrow> xs = []"
  by (cases xs) auto

lemma first_row_in: "first_row xs = Some x \<Longrightarrow> x \<in> set xs"
  by (cases xs) auto

lemma first_row_sort_key_le:
  assumes "first_row (sort_key f xs) = Some x" and "y \<in> set xs"
  shows "f x \<le> f y"
proof -
  obtain zs where zs: "sort_key f xs = x # zs"
    using assms(1) by (cases "sort_key f xs") auto
  have "sorted (map f (x # zs))"
    using sorted_sort_key[of f xs] by (simp only: zs)
  moreover have "y \<in> set (x # zs)"
    using assms(2) by (metis set_sort zs)
  ultimately show ?thesis by auto
qed

lemma distinct_map_filter_eq:
  "distinct (map f xs) \<Longrightarrow> x \<in> set xs \<Longrightarrow> filter (\<lambda>y. f y = f x) xs = [x]"
proof (induction xs)
  case (Cons a xs)
  show ?case
  proof (cases "a = x")
    case True
    with Cons.prems have "filter (\<lambda>y. f y = f x) xs = []"
      by (simp add: filter_empty_conv) (metis image_eqI)
    with True show ?thesis by simp
  next
    case False
    with Cons show ?thesis by auto
  qed
qed simp

end
