(* ===== verification/Tables.thy ===== *)
theory Tables
  imports Prelude
begin

text \<open>
  SQLite tables.  A table with an \<open>INTEGER PRIMARY KEY AUTOINCREMENT\<close> column is the list of its
  rows in the order of that key, with the next key to hand out: keys are positive, strictly
  increasing and never handed out twice.  The statements of the source are translated one by one
  into \<open>tbl_insert\<close>, \<open>tbl_select\<close> and \<open>tbl_update\<close>; \<open>ORDER BY\<close> is a stable sort, so rows with
  equal sort keys come in the order of their primary key, and \<open>LIMIT\<close> is \<open>take\<close>.
  The locale \<open>keyed_table\<close> is the contract of one table: where its key is and how a new row is
  made.  Each component interprets it for its own rows.
\<close>

section \<open>Tables and statements\<close>

record 'r table =
  tbl_rows :: "'r list"
  tbl_next :: int

definition tbl_empty :: "'r table" where
  "tbl_empty = \<lparr>tbl_rows = [], tbl_next = 1\<rparr>"

definition tbl_select :: "('r \<Rightarrow> bool) \<Rightarrow> 'r table \<Rightarrow> 'r list" where
  "tbl_select P t = filter P (tbl_rows t)"

definition tbl_insert :: "(int \<Rightarrow> 'r) \<Rightarrow> 'r table \<Rightarrow> 'r table" where
  "tbl_insert mk t = t\<lparr>tbl_rows := tbl_rows t @ [mk (tbl_next t)], tbl_next := tbl_next t + 1\<rparr>"

definition tbl_update :: "('r \<Rightarrow> bool) \<Rightarrow> ('r \<Rightarrow> 'r) \<Rightarrow> 'r table \<Rightarrow> 'r table" where
  "tbl_update P f t = t\<lparr>tbl_rows := map (\<lambda>r. if P r then f r else r) (tbl_rows t)\<rparr>"

text \<open>\<open>RowsAffected\<close> of an update.\<close>

definition tbl_affected :: "('r \<Rightarrow> bool) \<Rightarrow> 'r table \<Rightarrow> nat" where
  "tbl_affected P t = length (tbl_select P t)"

text \<open>\<open>SELECT ... WHERE key = ?\<close>\<close>

definition tbl_get :: "('r \<Rightarrow> int) \<Rightarrow> int \<Rightarrow> 'r table \<Rightarrow> 'r option" where
  "tbl_get key i t = first_row (tbl_select (\<lambda>r. key r = i) t)"

definition order_by :: "('r \<Rightarrow> int) \<Rightarrow> 'r list \<Rightarrow> 'r list" where
  "order_by k rs = sort_key k rs"

definition order_desc :: "('r \<Rightarrow> int) \<Rightarrow> 'r list \<Rightarrow> 'r list" where
  "order_desc k rs = sort_key (\<lambda>r. - k r) rs"

definition limit_rows :: "int \<Rightarrow> 'r list \<Rightarrow> 'r list" where
  "limit_rows n rs = take (nat n) rs"

text \<open>A unique index over the rows \<open>P\<close> holds of, by the column \<open>k\<close>.\<close>

definition unique_on :: "('r \<Rightarrow> bool) \<Rightarrow> ('r \<Rightarrow> 'k) \<Rightarrow> 'r list \<Rightarrow> bool" where
  "unique_on P k rs \<longleftrightarrow> distinct (map k (filter P rs))"

section \<open>Lemmas on statements\<close>

lemma tbl_select_set [simp]: "r \<in> set (tbl_select P t) \<longleftrightarrow> r \<in> set (tbl_rows t) \<and> P r"
  by (auto simp: tbl_select_def)

lemma tbl_select_empty [simp]: "tbl_select P tbl_empty = []"
  by (simp add: tbl_select_def tbl_empty_def)

lemma tbl_select_cong: "(\<And>r. r \<in> set (tbl_rows t) \<Longrightarrow> P r = Q r) \<Longrightarrow> tbl_select P t = tbl_select Q t"
  by (auto simp: tbl_select_def intro: filter_cong)

lemma tbl_rows_insert [simp]: "tbl_rows (tbl_insert mk t) = tbl_rows t @ [mk (tbl_next t)]"
  and tbl_next_insert [simp]: "tbl_next (tbl_insert mk t) = tbl_next t + 1"
  and tbl_rows_update [simp]:
    "tbl_rows (tbl_update P f t) = map (\<lambda>r. if P r then f r else r) (tbl_rows t)"
  and tbl_next_update [simp]: "tbl_next (tbl_update P f t) = tbl_next t"
  by (simp_all add: tbl_insert_def tbl_update_def)

lemma tbl_affected_0: "tbl_affected P t = 0 \<longleftrightarrow> (\<forall>r \<in> set (tbl_rows t). \<not> P r)"
  by (simp add: tbl_affected_def tbl_select_def filter_empty_conv)

lemma tbl_update_none: "tbl_affected P t = 0 \<Longrightarrow> tbl_update P f t = t"
  by (cases t) (simp add: tbl_affected_0 tbl_update_def map_idI)

lemma order_by_set [simp]: "set (order_by k rs) = set rs"
  and order_desc_set [simp]: "set (order_desc k rs) = set rs"
  by (simp_all add: order_by_def order_desc_def)

lemma order_by_Nil [simp]: "order_by k rs = [] \<longleftrightarrow> rs = []"
  and order_desc_Nil [simp]: "order_desc k rs = [] \<longleftrightarrow> rs = []"
  using set_empty[of "order_by k rs"] set_empty[of "order_desc k rs"] by auto

lemma order_empty [simp]: "order_by k [] = []" "order_desc k [] = []"
  by (simp_all add: order_by_def order_desc_def)

lemma first_order_by_le:
  "first_row (order_by k rs) = Some r \<Longrightarrow> r' \<in> set rs \<Longrightarrow> k r \<le> k r'"
  unfolding order_by_def by (rule first_row_sort_key_le)

lemma first_order_desc_ge:
  "first_row (order_desc k rs) = Some r \<Longrightarrow> r' \<in> set rs \<Longrightarrow> k r' \<le> k r"
  unfolding order_desc_def using first_row_sort_key_le by fastforce

lemma first_order_in: "first_row (order_by k rs) = Some r \<Longrightarrow> r \<in> set rs"
  and first_order_desc_in: "first_row (order_desc k rs) = Some r \<Longrightarrow> r \<in> set rs"
  using first_row_in by (metis order_by_set, metis order_desc_set)

lemma tbl_get_SomeD: "tbl_get key i t = Some r \<Longrightarrow> r \<in> set (tbl_rows t) \<and> key r = i"
  using first_row_in by (fastforce simp: tbl_get_def)

lemma tbl_get_None: "tbl_get key i t = None \<longleftrightarrow> (\<forall>r \<in> set (tbl_rows t). key r \<noteq> i)"
  by (simp add: tbl_get_def tbl_select_def filter_empty_conv)

lemma limit_rows_subset: "set (limit_rows n rs) \<subseteq> set rs"
  by (simp add: limit_rows_def set_take_subset)

section \<open>Keys\<close>

definition keys_ok :: "('r \<Rightarrow> int) \<Rightarrow> 'r table \<Rightarrow> bool" where
  "keys_ok key t \<longleftrightarrow>
     0 < tbl_next t \<and> distinct (map key (tbl_rows t)) \<and>
     (\<forall>r \<in> set (tbl_rows t). 0 < key r \<and> key r < tbl_next t)"

lemma keys_ok_empty [simp]: "keys_ok key tbl_empty"
  by (simp add: keys_ok_def tbl_empty_def)

lemma keys_ok_update:
  assumes "keys_ok key t" and "\<And>r. key (f r) = key r"
  shows "keys_ok key (tbl_update P f t)"
proof -
  have eq: "key \<circ> (\<lambda>r. if P r then f r else r) = key"
    using assms(2) by auto
  then have "map key (map (\<lambda>r. if P r then f r else r) (tbl_rows t)) = map key (tbl_rows t)"
    by (simp only: map_map)
  then show ?thesis
    using assms by (auto simp: keys_ok_def eq)
qed

lemma keys_ok_get:
  assumes "keys_ok key t" and "r \<in> set (tbl_rows t)"
  shows "tbl_get key (key r) t = Some r"
  using assms distinct_map_filter_eq[of key "tbl_rows t" r]
  by (simp add: keys_ok_def tbl_get_def tbl_select_def)

lemma keys_ok_get_iff:
  "keys_ok key t \<Longrightarrow> tbl_get key i t = Some r \<longleftrightarrow> r \<in> set (tbl_rows t) \<and> key r = i"
  using keys_ok_get tbl_get_SomeD by metis

lemma keys_ok_inj:
  "keys_ok key t \<Longrightarrow> r \<in> set (tbl_rows t) \<Longrightarrow> r' \<in> set (tbl_rows t) \<Longrightarrow> key r = key r' \<Longrightarrow> r = r'"
  by (auto simp: keys_ok_def distinct_map inj_on_def)

lemma tbl_get_update:
  assumes "\<And>r. key (f r) = key r"
  shows "tbl_get key i (tbl_update P f t) =
    map_option (\<lambda>r. if P r then f r else r) (tbl_get key i t)"
proof -
  have "filter (\<lambda>r. key r = i) (map (\<lambda>r. if P r then f r else r) rs) =
      map (\<lambda>r. if P r then f r else r) (filter (\<lambda>r. key r = i) rs)" for rs
    using assms by (induction rs) auto
  then show ?thesis
    by (auto simp: tbl_get_def tbl_select_def first_row_def split: list.splits)
qed

lemma unique_on_update:
  assumes "unique_on P k rs"
    and "\<And>r. r \<in> set rs \<Longrightarrow> P (f r) \<Longrightarrow> P r \<and> k (f r) = k r"
  shows "unique_on P k (map f rs)"
  using assms
proof (induction rs)
  case (Cons a rs)
  have "k (f a) \<notin> k ` (set (filter P (map f rs)))" if "P (f a)"
  proof
    assume "k (f a) \<in> k ` (set (filter P (map f rs)))"
    then obtain b where b: "b \<in> set rs" "P (f b)" "k (f b) = k (f a)" by auto
    with Cons.prems(2) that have "P b" "k b = k a" "P a" by force+
    with b(1) have "k a \<in> k ` {x \<in> set rs. P x}" by (metis (mono_tags) imageI mem_Collect_eq)
    with \<open>P a\<close> Cons.prems(1) show False by (simp add: unique_on_def)
  qed
  moreover have "unique_on P k rs" using Cons.prems(1) by (auto simp: unique_on_def split: if_splits)
  then have "unique_on P k (map f rs)" using Cons by simp
  ultimately show ?case by (simp add: unique_on_def)
qed (simp add: unique_on_def)

lemma unique_onD:
  "unique_on P k rs \<Longrightarrow> r \<in> set rs \<Longrightarrow> r' \<in> set rs \<Longrightarrow> P r \<Longrightarrow> P r' \<Longrightarrow> k r = k r' \<Longrightarrow> r = r'"
  by (auto simp: unique_on_def distinct_map inj_on_def)

lemma unique_on_snoc:
  "unique_on P k rs \<Longrightarrow> (P r \<Longrightarrow> \<forall>r' \<in> set rs. P r' \<longrightarrow> k r' \<noteq> k r) \<Longrightarrow> unique_on P k (rs @ [r])"
  by (auto simp: unique_on_def)

section \<open>One table after another\<close>

text \<open>
  \<open>table_rel key R t t'\<close>: every row of \<open>t\<close> is still in \<open>t'\<close>, under its key, related to what it
  was by \<open>R\<close>; rows are never deleted and keys never used again.
\<close>

definition table_rel :: "('r \<Rightarrow> int) \<Rightarrow> ('r \<Rightarrow> 'r \<Rightarrow> bool) \<Rightarrow> 'r table \<Rightarrow> 'r table \<Rightarrow> bool" where
  "table_rel key R t t' \<longleftrightarrow> tbl_next t \<le> tbl_next t' \<and>
     (\<forall>i < tbl_next t. rel_option R (tbl_get key i t) (tbl_get key i t'))"

lemma table_rel_refl: "(\<And>r. R r r) \<Longrightarrow> table_rel key R t t"
  by (auto simp: table_rel_def option.rel_refl)

lemma table_rel_trans:
  assumes "\<And>a b c. R a b \<Longrightarrow> R b c \<Longrightarrow> R a c" and "table_rel key R t t'" and "table_rel key R t' t''"
  shows "table_rel key R t t''"
proof -
  have "rel_option R x z" if "rel_option R x y" "rel_option R y z" for x y z
    using that assms(1) option.rel_transp[of R] by (metis transpD transpI)
  with assms(2,3) show ?thesis unfolding table_rel_def
    by (metis order_trans order_less_le_trans)
qed

lemma table_rel_mono: "(\<And>a b. R a b \<Longrightarrow> S a b) \<Longrightarrow> table_rel key R t t' \<Longrightarrow> table_rel key S t t'"
  unfolding table_rel_def by (metis option.rel_mono_strong)

lemma table_rel_update:
  assumes "\<And>r. key (f r) = key r" and "\<And>r. R r r"
    and "\<And>r. r \<in> set (tbl_rows t) \<Longrightarrow> P r \<Longrightarrow> R r (f r)"
  shows "table_rel key R t (tbl_update P f t)"
proof -
  have "rel_option R (tbl_get key i t) (tbl_get key i (tbl_update P f t))" for i
  proof (cases "tbl_get key i t")
    case (Some r)
    then have "r \<in> set (tbl_rows t)" using tbl_get_SomeD by metis
    with Some assms show ?thesis by (simp add: tbl_get_update)
  qed (simp add: tbl_get_update assms(1))
  then show ?thesis by (simp add: table_rel_def)
qed

lemma rel_get:
  assumes "table_rel key R t t'" and "keys_ok key t" and "tbl_get key i t = Some r"
  shows "\<exists>r'. tbl_get key i t' = Some r' \<and> R r r'"
proof -
  have "r \<in> set (tbl_rows t)" "key r = i" using tbl_get_SomeD[OF assms(3)] by auto
  with assms(2) have "i < tbl_next t" by (auto simp: keys_ok_def)
  with assms(1,3) show ?thesis by (auto simp: table_rel_def option_rel_Some1)
qed

section \<open>The contract of a table\<close>

text \<open>
  \<open>key\<close> is the primary key of a row, \<open>mk a i\<close> the row an \<open>INSERT\<close> with the values \<open>a\<close> makes
  under the key \<open>i\<close>.
\<close>

locale keyed_table =
  fixes key :: "'r \<Rightarrow> int" and mk :: "'a \<Rightarrow> int \<Rightarrow> 'r"
  assumes key_mk: "key (mk a i) = i"
begin

lemma insert_keys_ok: "keys_ok key t \<Longrightarrow> keys_ok key (tbl_insert (mk a) t)"
  using key_mk by (fastforce simp: keys_ok_def)

lemma insert_fresh: "keys_ok key t \<Longrightarrow> tbl_get key (tbl_next t) t = None"
  by (force simp: keys_ok_def tbl_get_None)

lemma get_inserted:
  "keys_ok key t \<Longrightarrow> tbl_get key (tbl_next t) (tbl_insert (mk a) t) = Some (mk a (tbl_next t))"
  using keys_ok_get[OF insert_keys_ok[of t a], of "mk a (tbl_next t)"] by (simp add: key_mk)

lemma get_other:
  "i \<noteq> tbl_next t \<Longrightarrow> tbl_get key i (tbl_insert (mk a) t) = tbl_get key i t"
  by (auto simp: tbl_get_def tbl_select_def key_mk first_row_def split: list.splits)

lemma get_below:
  "keys_ok key t \<Longrightarrow> tbl_get key i t = Some r \<Longrightarrow> tbl_get key i (tbl_insert (mk a) t) = Some r"
  using insert_fresh get_other by (metis option.distinct(1))

lemma insert_rel: "(\<And>r. R r r) \<Longrightarrow> table_rel key R t (tbl_insert (mk a) t)"
  by (auto simp: table_rel_def get_other option.rel_refl)

lemma next_positive: "keys_ok key t \<Longrightarrow> 0 < tbl_next t"
  by (simp add: keys_ok_def)

end

end
