(* ===== verification/Go_Strings.thy ===== *)
theory Go_Strings
  imports Prelude
begin

text \<open>
  The functions of Go's \<open>strings\<close>, \<open>strconv\<close> and \<open>fmt\<close> packages the source uses.  A Go string
  is a sequence of bytes, here a \<open>string\<close> (a list of \<open>char\<close>).  \<open>TrimSpace\<close> removes the UTF-8
  encodings of all the Unicode white space characters, not only the ASCII ones.  \<open>ToLower\<close> maps
  the ASCII letters and leaves the bytes of other characters alone: the source lowers names of
  modes, platforms and tools, which are ASCII.
\<close>

section \<open>TrimSpace\<close>

definition go_spaces :: "string list" where
  "go_spaces =
     [[CHR 0x09], [CHR 0x0A], [CHR 0x0B], [CHR 0x0C], [CHR 0x0D], [CHR 0x20],
      [CHR 0xC2, CHR 0x85], [CHR 0xC2, CHR 0xA0], [CHR 0xE1, CHR 0x9A, CHR 0x80],
      [CHR 0xE2, CHR 0x80, CHR 0x80], [CHR 0xE2, CHR 0x80, CHR 0x81],
      [CHR 0xE2, CHR 0x80, CHR 0x82], [CHR 0xE2, CHR 0x80, CHR 0x83],
      [CHR 0xE2, CHR 0x80, CHR 0x84], [CHR 0xE2, CHR 0x80, CHR 0x85],
      [CHR 0xE2, CHR 0x80, CHR 0x86], [CHR 0xE2, CHR 0x80, CHR 0x87],
      [CHR 0xE2, CHR 0x80, CHR 0x88], [CHR 0xE2, CHR 0x80, CHR 0x89],
      [CHR 0xE2, CHR 0x80, CHR 0x8A], [CHR 0xE2, CHR 0x80, CHR 0xA8],
      [CHR 0xE2, CHR 0x80, CHR 0xA9], [CHR 0xE2, CHR 0x80, CHR 0xAF],
      [CHR 0xE2, CHR 0x81, CHR 0x9F], [CHR 0xE3, CHR 0x80, CHR 0x80]]"

function trim_front :: "string list \<Rightarrow> string \<Rightarrow> string" where
  "trim_front encs s =
     (case find (\<lambda>p. p \<noteq> [] \<and> prefix p s) encs of
        None \<Rightarrow> s
      | Some p \<Rightarrow> trim_front encs (drop (length p) s))"
  by pat_completeness auto
termination
  by (relation "measure (\<lambda>(encs, s). length s)") (auto simp: find_Some_iff prefix_def)

declare trim_front.simps [simp del]

definition TrimLeft :: "string \<Rightarrow> string" where
  "TrimLeft s = trim_front go_spaces s"

definition TrimRight :: "string \<Rightarrow> string" where
  "TrimRight s = rev (trim_front (map rev go_spaces) (rev s))"

definition TrimSpace :: "string \<Rightarrow> string" where
  "TrimSpace s = TrimRight (TrimLeft s)"

definition trimmed :: "string \<Rightarrow> bool" where
  "trimmed s \<longleftrightarrow> (\<forall>p \<in> set go_spaces. \<not> prefix p s \<and> \<not> suffix p s)"

lemma go_spaces_not_Nil: "p \<in> set go_spaces \<Longrightarrow> p \<noteq> []"
  by (auto simp: go_spaces_def)

lemma trim_front_suffix: "suffix (trim_front encs s) s"
proof (induction encs s rule: trim_front.induct)
  case (1 encs s)
  show ?case
  proof (cases "find (\<lambda>p. p \<noteq> [] \<and> prefix p s) encs")
    case None
    then show ?thesis by (simp add: trim_front.simps[of encs s])
  next
    case (Some p)
    with 1 have "suffix (trim_front encs (drop (length p) s)) (drop (length p) s)" by blast
    then have "suffix (trim_front encs (drop (length p) s)) s"
      using suffix_drop suffix_order.trans by blast
    with Some show ?thesis by (simp add: trim_front.simps[of encs s])
  qed
qed

lemma trim_front_no_prefix:
  "p \<in> set encs \<Longrightarrow> p \<noteq> [] \<Longrightarrow> \<not> prefix p (trim_front encs s)"
proof (induction encs s rule: trim_front.induct)
  case (1 encs s)
  show ?case
  proof (cases "find (\<lambda>p. p \<noteq> [] \<and> prefix p s) encs")
    case None
    with "1.prems" have "\<not> prefix p s" by (auto simp: find_None_iff)
    with None show ?thesis by (simp add: trim_front.simps[of encs s])
  next
    case (Some q)
    with 1 show ?thesis by (simp add: trim_front.simps[of encs s])
  qed
qed

lemma trim_front_id: "(\<And>p. p \<in> set encs \<Longrightarrow> \<not> prefix p s) \<Longrightarrow> trim_front encs s = s"
  by (subst trim_front.simps) (auto split: option.splits dest: find_Some_iff[THEN iffD1] nth_mem)

lemma TrimRight_prefix: "prefix (TrimRight s) s"
  unfolding TrimRight_def suffix_to_prefix[symmetric]
  using trim_front_suffix[of "map rev go_spaces" "rev s"]
  by (simp add: suffix_to_prefix)

lemma TrimRight_no_suffix: "p \<in> set go_spaces \<Longrightarrow> \<not> suffix p (TrimRight s)"
  using trim_front_no_prefix[of "rev p" "map rev go_spaces" "rev s"] go_spaces_not_Nil[of p]
  by (simp add: TrimRight_def suffix_to_prefix)

lemma TrimLeft_no_prefix: "p \<in> set go_spaces \<Longrightarrow> \<not> prefix p (TrimLeft s)"
  using trim_front_no_prefix go_spaces_not_Nil by (simp add: TrimLeft_def)

lemma TrimSpace_trimmed: "trimmed (TrimSpace s)"
proof -
  have "\<not> prefix p (TrimSpace s)" if "p \<in> set go_spaces" for p
    using TrimLeft_no_prefix[OF that, of s] TrimRight_prefix[of "TrimLeft s"]
    by (metis TrimSpace_def prefix_order.trans)
  then show ?thesis
    using TrimRight_no_suffix by (simp add: trimmed_def TrimSpace_def)
qed

lemma trimmed_TrimSpace: "trimmed s \<Longrightarrow> TrimSpace s = s"
proof -
  assume t: "trimmed s"
  have "TrimLeft s = s"
    unfolding TrimLeft_def using t by (intro trim_front_id) (auto simp: trimmed_def)
  moreover have "trim_front (map rev go_spaces) (rev s) = rev s"
    using t by (intro trim_front_id) (auto simp: trimmed_def suffix_to_prefix)
  ultimately show ?thesis by (simp add: TrimSpace_def TrimRight_def)
qed

lemma TrimSpace_idem [simp]: "TrimSpace (TrimSpace s) = TrimSpace s"
  by (rule trimmed_TrimSpace) (rule TrimSpace_trimmed)

lemma TrimSpace_Nil [simp]: "TrimSpace [] = []"
  by (rule trimmed_TrimSpace) (auto simp: trimmed_def go_spaces_def)

text \<open>
  No encoding of a white space character contains an ASCII character other than the controls and
  the blank, so joining trimmed parts with such a separator, or lowering them, keeps them trimmed.
\<close>

definition plain_char :: "char \<Rightarrow> bool" where
  "plain_char c \<longleftrightarrow> (\<forall>p \<in> set go_spaces. c \<notin> set p)"

lemma plain_colon [simp]: "plain_char (CHR '':'')"
  by (simp add: plain_char_def go_spaces_def)

lemma prefix_past_sep:
  "c \<notin> set p \<Longrightarrow> prefix p (a @ c # b) \<Longrightarrow> prefix p a"
  by (auto simp: prefix_append prefix_Cons)

lemma suffix_past_sep:
  "c \<notin> set p \<Longrightarrow> suffix p (a @ c # b) \<Longrightarrow> suffix p b"
  using prefix_past_sep[of c "rev p" "rev b" "rev a"] by (simp add: suffix_to_prefix)

lemma trimmed_join:
  "plain_char c \<Longrightarrow> trimmed a \<Longrightarrow> trimmed b \<Longrightarrow> trimmed (a @ c # b)"
  unfolding trimmed_def plain_char_def using prefix_past_sep suffix_past_sep by metis

section \<open>ToLower, Contains, Split\<close>

definition lower_char :: "char \<Rightarrow> char" where
  "lower_char c =
     (let n = (of_char c :: nat) in if 65 \<le> n \<and> n \<le> 90 then char_of (n + 32) else c)"

definition ToLower :: "string \<Rightarrow> string" where
  "ToLower s = map lower_char s"

lemma lower_char_idem [simp]: "lower_char (lower_char c) = lower_char c"
  by (auto simp: lower_char_def Let_def)

lemma ToLower_idem [simp]: "ToLower (ToLower s) = ToLower s"
  by (simp add: ToLower_def o_def)

lemma ToLower_Nil [simp]: "ToLower [] = []" "ToLower s = [] \<longleftrightarrow> s = []"
  by (simp_all add: ToLower_def)

lemma lower_char_eq: "lower_char c = d \<Longrightarrow> \<not> (97 \<le> (of_char d :: nat) \<and> of_char d \<le> (122 :: nat)) \<Longrightarrow> c = d"
proof -
  assume *: "lower_char c = d" "\<not> (97 \<le> (of_char d :: nat) \<and> of_char d \<le> (122 :: nat))"
  show "c = d"
  proof (cases "65 \<le> (of_char c :: nat) \<and> of_char c \<le> (90 :: nat)")
    case True
    then have "(of_char (lower_char c) :: nat) = of_char c + 32"
      by (simp add: lower_char_def Let_def)
    with True *(1) have "97 \<le> (of_char d :: nat) \<and> of_char d \<le> (122 :: nat)" by force
    with *(2) show ?thesis by simp
  next
    case False
    with *(1) show ?thesis by (simp add: lower_char_def Let_def)
  qed
qed

lemma go_spaces_no_letter:
  "p \<in> set go_spaces \<Longrightarrow> d \<in> set p \<Longrightarrow> \<not> (97 \<le> (of_char d :: nat) \<and> of_char d \<le> (122 :: nat))"
  by (auto simp: go_spaces_def)

lemma prefix_ToLower:
  "(\<And>d. d \<in> set p \<Longrightarrow> \<not> (97 \<le> (of_char d :: nat) \<and> of_char d \<le> (122 :: nat))) \<Longrightarrow>
   prefix p (ToLower s) \<Longrightarrow> prefix p s"
proof (induction p arbitrary: s)
  case (Cons d p)
  then obtain c t where s: "s = c # t" by (cases s) (auto simp: ToLower_def)
  with Cons.prems have "lower_char c = d" "prefix p (ToLower t)" by (auto simp: ToLower_def)
  with Cons s show ?case using lower_char_eq[of c d] by auto
qed simp

lemma suffix_ToLower:
  "(\<And>d. d \<in> set p \<Longrightarrow> \<not> (97 \<le> (of_char d :: nat) \<and> of_char d \<le> (122 :: nat))) \<Longrightarrow>
   suffix p (ToLower s) \<Longrightarrow> suffix p s"
  using prefix_ToLower[of "rev p" "rev s"] by (simp add: suffix_to_prefix ToLower_def rev_map)

lemma trimmed_ToLower: "trimmed s \<Longrightarrow> trimmed (ToLower s)"
  unfolding trimmed_def using prefix_ToLower suffix_ToLower go_spaces_no_letter by metis

lemma TrimSpace_ToLower_TrimSpace [simp]:
  "TrimSpace (ToLower (TrimSpace s)) = ToLower (TrimSpace s)"
  by (rule trimmed_TrimSpace) (rule trimmed_ToLower, rule TrimSpace_trimmed)

fun Contains :: "string \<Rightarrow> string \<Rightarrow> bool" where
  "Contains [] sub = (sub = [])"
| "Contains (c # s) sub = (prefix sub (c # s) \<or> Contains s sub)"

lemma Contains_iff: "Contains s sub \<longleftrightarrow> sublist sub s"
  by (induction s) (auto simp: sublist_Cons_right)

definition HasPrefix :: "string \<Rightarrow> string \<Rightarrow> bool" where
  "HasPrefix s p = prefix p s"

text \<open>\<open>strings.Split(s, sep)\<close> and \<open>strings.SplitN(s, sep, n)\<close> for a one-byte separator.\<close>

fun Split :: "char \<Rightarrow> string \<Rightarrow> string list" where
  "Split c [] = [[]]"
| "Split c (x # s) =
     (if x = c then [] # Split c s
      else case Split c s of [] \<Rightarrow> [[x]] | p # ps \<Rightarrow> (x # p) # ps)"

fun SplitN :: "nat \<Rightarrow> char \<Rightarrow> string \<Rightarrow> string list" where
  "SplitN 0 c s = []"
| "SplitN (Suc 0) c s = [s]"
| "SplitN (Suc (Suc n)) c s =
     (case dropWhile (\<lambda>x. x \<noteq> c) s of
        [] \<Rightarrow> [s]
      | _ # rest \<Rightarrow> takeWhile (\<lambda>x. x \<noteq> c) s # SplitN (Suc n) c rest)"

lemma SplitN_no_sep: "c \<notin> set s \<Longrightarrow> SplitN (Suc n) c s = [s]"
proof (cases n)
  case (Suc m)
  assume "c \<notin> set s"
  then have "dropWhile (\<lambda>x. x \<noteq> c) s = []" by (auto simp: dropWhile_eq_Nil_conv)
  with Suc show ?thesis by (simp del: dropWhile_eq_Nil_conv)
qed simp

lemma SplitN_sep:
  "c \<notin> set p \<Longrightarrow> SplitN (Suc (Suc n)) c (p @ c # rest) = p # SplitN (Suc n) c rest"
proof -
  assume "c \<notin> set p"
  then have "dropWhile (\<lambda>x. x \<noteq> c) (p @ c # rest) = c # rest"
    and "takeWhile (\<lambda>x. x \<noteq> c) (p @ c # rest) = p"
    by (auto simp: dropWhile_append3 takeWhile_tail intro: takeWhile_append2)
  then show ?thesis by simp
qed

fun Join :: "string \<Rightarrow> string list \<Rightarrow> string" where
  "Join sep [] = []"
| "Join sep [x] = x"
| "Join sep (x # xs) = x @ sep @ Join sep xs"

definition containsAny :: "string \<Rightarrow> string list \<Rightarrow> bool" where
  "containsAny s needles = list_ex (Contains s) needles"

section \<open>Numbers in decimal\<close>

definition digit_char :: "nat \<Rightarrow> char" where
  "digit_char n = char_of (48 + n)"

fun nat_digits :: "nat \<Rightarrow> string" where
  "nat_digits n = (if n < 10 then [digit_char n] else nat_digits (n div 10) @ [digit_char (n mod 10)])"

declare nat_digits.simps [simp del]

definition itoa :: "int \<Rightarrow> string" where
  "itoa i = (if i < 0 then CHR ''-'' # nat_digits (nat (- i)) else nat_digits (nat i))"

definition digit_val :: "char \<Rightarrow> nat option" where
  "digit_val c = (let n = of_char c in if 48 \<le> n \<and> n \<le> 57 then Some (n - 48) else None)"

fun digits_val :: "nat \<Rightarrow> string \<Rightarrow> nat option" where
  "digits_val acc [] = Some acc"
| "digits_val acc (c # s) =
     (case digit_val c of None \<Rightarrow> None | Some d \<Rightarrow> digits_val (10 * acc + d) s)"

text \<open>\<open>strconv.ParseInt(s, 10, 64)\<close>: an optional sign, at least one digit, in the range of int64.\<close>

definition parse_nat :: "string \<Rightarrow> nat option" where
  "parse_nat s = (if s = [] then None else digits_val 0 s)"

definition ParseInt :: "string \<Rightarrow> int option" where
  "ParseInt s =
     (let (neg, body) = (case s of
          [] \<Rightarrow> (False, [])
        | c # t \<Rightarrow> if c = CHR ''-'' then (True, t) else if c = CHR ''+'' then (False, t)
                 else (False, s))
      in case parse_nat body of
           None \<Rightarrow> None
         | Some n \<Rightarrow>
             (let i = (if neg then - int n else int n)
              in if - (2 ^ 63) \<le> i \<and> i < 2 ^ 63 then Some i else None))"

lemma digit_val_digit_char: "d < 10 \<Longrightarrow> digit_val (digit_char d) = Some d"
  by (simp add: digit_val_def digit_char_def Let_def)

lemma digits_val_append:
  "digits_val acc (s @ t) = (case digits_val acc s of None \<Rightarrow> None | Some n \<Rightarrow> digits_val n t)"
  by (induction s arbitrary: acc) (auto split: option.splits)

lemma digits_val_nat_digits: "digits_val 0 (nat_digits n) = Some n"
proof (induction n rule: nat_digits.induct)
  case (1 n)
  show ?case
  proof (cases "n < 10")
    case True
    then show ?thesis by (simp add: nat_digits.simps[of n] digit_val_digit_char)
  next
    case False
    with 1 show ?thesis
      by (simp add: nat_digits.simps[of n] digits_val_append digit_val_digit_char)
  qed
qed

lemma digit_char_not_sign: "d < 10 \<Longrightarrow> digit_char d \<noteq> CHR ''-'' \<and> digit_char d \<noteq> CHR ''+''"
proof -
  assume "d < 10"
  then have "digit_val (digit_char d) = Some d" by (rule digit_val_digit_char)
  moreover have "digit_val (CHR ''-'') = None" "digit_val (CHR ''+'') = None"
    by (simp_all add: digit_val_def)
  ultimately show ?thesis by (metis option.distinct(1))
qed

lemma nat_digits_Cons: "\<exists>c s. nat_digits n = c # s \<and> c \<noteq> CHR ''-'' \<and> c \<noteq> CHR ''+''"
proof (induction n rule: nat_digits.induct)
  case (1 n)
  show ?case
  proof (cases "n < 10")
    case True
    then show ?thesis by (simp add: nat_digits.simps[of n] digit_char_not_sign)
  next
    case False
    with 1 obtain c s where "nat_digits (n div 10) = c # s" "c \<noteq> CHR ''-''" "c \<noteq> CHR ''+''"
      by blast
    with False show ?thesis by (simp add: nat_digits.simps[of n])
  qed
qed

lemma parse_nat_digits: "parse_nat (nat_digits n) = Some n"
  using nat_digits_Cons[of n] digits_val_nat_digits[of n] by (auto simp: parse_nat_def)

lemma ParseInt_itoa: "- (2 ^ 63) \<le> i \<Longrightarrow> i < 2 ^ 63 \<Longrightarrow> ParseInt (itoa i) = Some i"
proof (cases "i < 0")
  case True
  assume "- (2 ^ 63) \<le> i" "i < 2 ^ 63"
  with True show ?thesis
    by (simp add: ParseInt_def itoa_def parse_nat_digits)
next
  case False
  assume r: "- (2 ^ 63) \<le> i" "i < 2 ^ 63"
  obtain c s where cs: "nat_digits (nat i) = c # s" "c \<noteq> CHR ''-''" "c \<noteq> CHR ''+''"
    using nat_digits_Cons by blast
  have "parse_nat (c # s) = Some (nat i)" using parse_nat_digits[of "nat i"] cs(1) by simp
  with r False cs show ?thesis by (simp add: ParseInt_def itoa_def)
qed

lemma itoa_inj: "itoa i = itoa j \<Longrightarrow> i = j"
proof -
  assume eq: "itoa i = itoa j"
  have digits: "m = n" if "nat_digits m = nat_digits n" for m n
    using that parse_nat_digits by (metis option.inject)
  have sign: "CHR ''-'' # x \<noteq> nat_digits n" for x n
    using nat_digits_Cons by (metis list.inject)
  show "i = j"
    using eq sign sign[symmetric] digits[of "nat (- i)" "nat (- j)"] digits[of "nat i" "nat j"]
    by (auto simp: itoa_def simp del: nat_digits.simps split: if_splits)
qed

text \<open>\<open>fmt\<close>'s \<open>%q\<close> for printable ASCII text.\<close>

definition quoted :: "string \<Rightarrow> string" where
  "quoted s = [CHR 0x22] @
     concat (map (\<lambda>c. if c = CHR 0x22 \<or> c = CHR 0x5C then [CHR 0x5C, c] else [c]) s) @ [CHR 0x22]"

end
