(* ===== verification/Json.thy ===== *)
theory Json
  imports Go_Strings
begin

text \<open>
  Go's \<open>encoding/json\<close>, as far as the source uses it: the syntax of RFC 8259 as \<open>json.Unmarshal\<close>
  accepts it, the compact encoder of \<open>json.Marshal\<close> with its HTML escapes, and the decoding of an
  object into the fields of a struct (keys matched without regard to case, \<open>null\<close> leaving a field
  alone, the last of several equal keys winning, a value of the wrong kind leaving the field alone
  and making \<open>Unmarshal\<close> return an error).  Strings are taken to be valid UTF-8.  A number keeps
  its text, as in Go's scanner; a field of type int64 reads it with \<open>ParseInt\<close>.
  The parser takes fuel for its nesting; \<open>json_parse\<close> gives it one unit for each byte and
  one more, which is enough for every text the encoder writes (\<open>json_parse_print\<close>).
\<close>

section \<open>Values\<close>

datatype json =
    JNull
  | JBool bool
  | JNum string
  | JStr string
  | JArr "json list"
  | JObj "(string \<times> json) list"

section \<open>The encoder\<close>

definition hex_char :: "nat \<Rightarrow> char" where
  "hex_char n = (if n < 10 then char_of (48 + n) else char_of (87 + n))"

text \<open>The bytes \<open>json.Marshal\<close> does not write as they are, with the escape it writes instead.\<close>

definition esc_char :: "char \<Rightarrow> string" where
  "esc_char c =
     (if c = CHR 0x22 then [CHR 0x5C, CHR 0x22]
      else if c = CHR 0x5C then [CHR 0x5C, CHR 0x5C]
      else if c = CHR 0x08 then [CHR 0x5C, CHR ''b'']
      else if c = CHR 0x0C then [CHR 0x5C, CHR ''f'']
      else if c = CHR 0x0A then [CHR 0x5C, CHR ''n'']
      else if c = CHR 0x0D then [CHR 0x5C, CHR ''r'']
      else if c = CHR 0x09 then [CHR 0x5C, CHR ''t'']
      else if c < CHR 0x20 \<or> c = CHR ''<'' \<or> c = CHR ''>'' \<or> c = CHR ''&''
      then [CHR 0x5C, CHR ''u'', CHR ''0'', CHR ''0'', hex_char (of_char c div 16),
            hex_char (of_char c mod 16)]
      else [c])"

fun esc_string :: "string \<Rightarrow> string" where
  "esc_string [] = []"
| "esc_string (c # s) =
     (if take 3 (c # s) = [CHR 0xE2, CHR 0x80, CHR 0xA8]
      then [CHR 0x5C, CHR ''u'', CHR ''2'', CHR ''0'', CHR ''2'', CHR ''8''] @ esc_string (drop 2 s)
      else if take 3 (c # s) = [CHR 0xE2, CHR 0x80, CHR 0xA9]
      then [CHR 0x5C, CHR ''u'', CHR ''2'', CHR ''0'', CHR ''2'', CHR ''9''] @ esc_string (drop 2 s)
      else esc_char c @ esc_string s)"

definition print_str :: "string \<Rightarrow> string" where
  "print_str s = [CHR 0x22] @ esc_string s @ [CHR 0x22]"

fun print_json :: "json \<Rightarrow> string" where
  "print_json JNull = ''null''"
| "print_json (JBool b) = (if b then ''true'' else ''false'')"
| "print_json (JNum t) = t"
| "print_json (JStr s) = print_str s"
| "print_json (JArr js) = ''['' @ Join '','' (map print_json js) @ '']''"
| "print_json (JObj kvs) =
     ''{'' @ Join '','' (map (\<lambda>(k, v). print_str k @ '':'' @ print_json v) kvs) @ ''}''"

section \<open>The parser\<close>

definition is_ws :: "char \<Rightarrow> bool" where
  "is_ws c \<longleftrightarrow> c = CHR 0x20 \<or> c = CHR 0x09 \<or> c = CHR 0x0A \<or> c = CHR 0x0D"

definition skip_ws :: "string \<Rightarrow> string" where
  "skip_ws s = dropWhile is_ws s"

definition is_digit :: "char \<Rightarrow> bool" where
  "is_digit c \<longleftrightarrow> digit_val c \<noteq> None"

definition hex_val :: "char \<Rightarrow> nat option" where
  "hex_val c =
     (let n = of_char c in
      if 48 \<le> n \<and> n \<le> 57 then Some (n - 48)
      else if 97 \<le> n \<and> n \<le> 102 then Some (n - 87)
      else if 65 \<le> n \<and> n \<le> 70 then Some (n - 55)
      else None)"

definition hex4 :: "char \<Rightarrow> char \<Rightarrow> char \<Rightarrow> char \<Rightarrow> nat option" where
  "hex4 a b c d =
     (case (hex_val a, hex_val b, hex_val c, hex_val d) of
        (Some w, Some x, Some y, Some z) \<Rightarrow> Some (((w * 16 + x) * 16 + y) * 16 + z)
      | _ \<Rightarrow> None)"

definition utf8 :: "nat \<Rightarrow> string" where
  "utf8 n =
     (if n < 128 then [char_of n]
      else if n < 2048 then [char_of (192 + n div 64), char_of (128 + n mod 64)]
      else if n < 65536
      then [char_of (224 + n div 4096), char_of (128 + n div 64 mod 64), char_of (128 + n mod 64)]
      else [char_of (240 + n div 262144), char_of (128 + n div 4096 mod 64),
            char_of (128 + n div 64 mod 64), char_of (128 + n mod 64)])"

text \<open>The simple escapes: the letter after the backslash.\<close>

definition unesc :: "char \<Rightarrow> char option" where
  "unesc c =
     (if c = CHR 0x22 \<or> c = CHR 0x5C \<or> c = CHR ''/'' then Some c
      else if c = CHR ''b'' then Some (CHR 0x08)
      else if c = CHR ''f'' then Some (CHR 0x0C)
      else if c = CHR ''n'' then Some (CHR 0x0A)
      else if c = CHR ''r'' then Some (CHR 0x0D)
      else if c = CHR ''t'' then Some (CHR 0x09)
      else None)"

definition uescape :: "string \<Rightarrow> (nat \<times> string) option" where
  "uescape s =
     (case s of
        a # b # c # d # r \<Rightarrow> (case hex4 a b c d of Some n \<Rightarrow> Some (n, r) | None \<Rightarrow> None)
      | _ \<Rightarrow> None)"

text \<open>
  The code point of a \<open>\u\<close> escape whose four digits follow: a surrogate pair is joined, a lone
  surrogate becomes U+FFFD.
\<close>

definition unicode_escape :: "string \<Rightarrow> (string \<times> string) option" where
  "unicode_escape s =
     (case uescape s of
        None \<Rightarrow> None
      | Some (n, r) \<Rightarrow>
          if n < 55296 \<or> 57344 \<le> n then Some (utf8 n, r)
          else if n < 56320
          then (case r of
                  x # y # r' \<Rightarrow>
                    (if x = CHR 0x5C \<and> y = CHR ''u'' then
                       (case uescape r' of
                          Some (m, r'') \<Rightarrow>
                            (if 56320 \<le> m \<and> m < 57344
                             then Some (utf8 (65536 + (n - 55296) * 1024 + (m - 56320)), r'')
                             else Some (utf8 65533, r))
                        | None \<Rightarrow> Some (utf8 65533, r))
                     else Some (utf8 65533, r))
                | _ \<Rightarrow> Some (utf8 65533, r))
          else Some (utf8 65533, r))"

lemma uescape_length: "uescape s = Some (n, r) \<Longrightarrow> length r < length s"
  by (auto simp: uescape_def split: list.splits option.splits)

lemma unicode_escape_length: "unicode_escape s = Some (u, r) \<Longrightarrow> length r < length s"
  by (auto simp: unicode_escape_def split: list.splits option.splits if_splits prod.splits
      dest!: uescape_length)

function parse_chars :: "string \<Rightarrow> (string \<times> string) option" where
  "parse_chars [] = None"
| "parse_chars (c # s) =
     (if c = CHR 0x22 then Some ([], s)
      else if c = CHR 0x5C
      then (case s of
              [] \<Rightarrow> None
            | e # r \<Rightarrow>
                if e = CHR ''u''
                then (case unicode_escape r of
                        None \<Rightarrow> None
                      | Some (u, r') \<Rightarrow>
                          (case parse_chars r' of None \<Rightarrow> None | Some (t, q) \<Rightarrow> Some (u @ t, q)))
                else (case unesc e of
                        None \<Rightarrow> None
                      | Some x \<Rightarrow>
                          (case parse_chars r of None \<Rightarrow> None | Some (t, q) \<Rightarrow> Some (x # t, q))))
      else if c < CHR 0x20 then None
      else (case parse_chars s of None \<Rightarrow> None | Some (t, q) \<Rightarrow> Some (c # t, q)))"
  by pat_completeness auto
termination
  by (relation "measure length") (auto dest: unicode_escape_length)

text \<open>A number: \<open>-?(0|[1-9][0-9]*)(\.[0-9]+)?([eE][+-]?[0-9]+)?\<close>, with its text.\<close>

definition span_digits :: "string \<Rightarrow> string \<times> string" where
  "span_digits s = (takeWhile is_digit s, dropWhile is_digit s)"

definition parse_int_part :: "string \<Rightarrow> (string \<times> string) option" where
  "parse_int_part s =
     (case s of
        [] \<Rightarrow> None
      | c # r \<Rightarrow>
          if c = CHR ''0'' then Some ([c], r)
          else if is_digit c then Some (span_digits s)
          else None)"

definition parse_frac :: "string \<Rightarrow> (string \<times> string) option" where
  "parse_frac s =
     (case s of
        c # r \<Rightarrow>
          (if c = CHR ''.''
           then (case span_digits r of (d, q) \<Rightarrow> if d = [] then None else Some (c # d, q))
           else Some ([], s))
      | [] \<Rightarrow> Some ([], s))"

definition parse_exp :: "string \<Rightarrow> (string \<times> string) option" where
  "parse_exp s =
     (case s of
        c # r \<Rightarrow>
          (if c = CHR ''e'' \<or> c = CHR ''E''
           then (let (sg, r') = (case r of
                      x # y \<Rightarrow> if x = CHR ''+'' \<or> x = CHR ''-'' then ([x], y) else ([], r)
                    | [] \<Rightarrow> ([], r))
                 in case span_digits r' of
                      (d, q) \<Rightarrow> if d = [] then None else Some (c # sg @ d, q))
           else Some ([], s))
      | [] \<Rightarrow> Some ([], s))"

definition parse_number :: "string \<Rightarrow> (json \<times> string) option" where
  "parse_number s =
     (let (sg, s1) = (case s of x # y \<Rightarrow> if x = CHR ''-'' then ([x], y) else ([], s) | [] \<Rightarrow> ([], s))
      in case parse_int_part s1 of
           None \<Rightarrow> None
         | Some (i, s2) \<Rightarrow>
             (case parse_frac s2 of
                None \<Rightarrow> None
              | Some (f, s3) \<Rightarrow>
                  (case parse_exp s3 of
                     None \<Rightarrow> None
                   | Some (x, s4) \<Rightarrow> Some (JNum (sg @ i @ f @ x), s4))))"

fun parse_value :: "nat \<Rightarrow> string \<Rightarrow> (json \<times> string) option"
  and parse_elems :: "nat \<Rightarrow> string \<Rightarrow> (json list \<times> string) option"
  and parse_members :: "nat \<Rightarrow> string \<Rightarrow> ((string \<times> json) list \<times> string) option" where
  "parse_value 0 s = None"
| "parse_value (Suc n) s =
     (case skip_ws s of
        [] \<Rightarrow> None
      | c # t \<Rightarrow>
          if c = CHR 0x22
          then (case parse_chars t of None \<Rightarrow> None | Some (x, r) \<Rightarrow> Some (JStr x, r))
          else if c = CHR ''{''
          then (case skip_ws t of
                  [] \<Rightarrow> None
                | d # r \<Rightarrow>
                    if d = CHR ''}'' then Some (JObj [], r)
                    else (case parse_members n (d # r) of
                            None \<Rightarrow> None | Some (kvs, q) \<Rightarrow> Some (JObj kvs, q)))
          else if c = CHR ''[''
          then (case skip_ws t of
                  [] \<Rightarrow> None
                | d # r \<Rightarrow>
                    if d = CHR '']'' then Some (JArr [], r)
                    else (case parse_elems n (d # r) of
                            None \<Rightarrow> None | Some (js, q) \<Rightarrow> Some (JArr js, q)))
          else if c = CHR ''-'' \<or> is_digit c then parse_number (c # t)
          else if prefix ''true'' (c # t) then Some (JBool True, drop 4 (c # t))
          else if prefix ''false'' (c # t) then Some (JBool False, drop 5 (c # t))
          else if prefix ''null'' (c # t) then Some (JNull, drop 4 (c # t))
          else None)"
| "parse_elems 0 s = None"
| "parse_elems (Suc n) s =
     (case parse_value n s of
        None \<Rightarrow> None
      | Some (v, r) \<Rightarrow>
          (case skip_ws r of
             [] \<Rightarrow> None
           | c # q \<Rightarrow>
               if c = CHR '']'' then Some ([v], q)
               else if c = CHR '',''
               then (case parse_elems n q of None \<Rightarrow> None | Some (vs, z) \<Rightarrow> Some (v # vs, z))
               else None))"
| "parse_members 0 s = None"
| "parse_members (Suc n) s =
     (case skip_ws s of
        [] \<Rightarrow> None
      | c # t \<Rightarrow>
          if c \<noteq> CHR 0x22 then None
          else (case parse_chars t of
                  None \<Rightarrow> None
                | Some (k, r) \<Rightarrow>
                    (case skip_ws r of
                       [] \<Rightarrow> None
                     | d # r' \<Rightarrow>
                         if d \<noteq> CHR '':'' then None
                         else (case parse_value n r' of
                                 None \<Rightarrow> None
                               | Some (v, q) \<Rightarrow>
                                   (case skip_ws q of
                                      [] \<Rightarrow> None
                                    | e # z \<Rightarrow>
                                        if e = CHR ''}'' then Some ([(k, v)], z)
                                        else if e = CHR '',''
                                        then (case parse_members n z of
                                                None \<Rightarrow> None
                                              | Some (kvs, y) \<Rightarrow> Some ((k, v) # kvs, y))
                                        else None)))))"

definition json_parse :: "string \<Rightarrow> json option" where
  "json_parse s =
     (case parse_value (Suc (length s)) s of
        None \<Rightarrow> None
      | Some (v, r) \<Rightarrow> if skip_ws r = [] then Some v else None)"

section \<open>Decoding into a struct\<close>

text \<open>
  A decoder for one field takes the value and what the field holds; it returns the new content
  and whether the kinds agreed.
\<close>

definition dec_string :: "json \<Rightarrow> string \<Rightarrow> string \<times> bool" where
  "dec_string j old = (case j of JStr s \<Rightarrow> (s, True) | JNull \<Rightarrow> (old, True) | _ \<Rightarrow> (old, False))"

definition dec_bool :: "json \<Rightarrow> bool \<Rightarrow> bool \<times> bool" where
  "dec_bool j old = (case j of JBool b \<Rightarrow> (b, True) | JNull \<Rightarrow> (old, True) | _ \<Rightarrow> (old, False))"

definition dec_int64 :: "json \<Rightarrow> int \<Rightarrow> int \<times> bool" where
  "dec_int64 j old =
     (case j of
        JNum t \<Rightarrow> (case ParseInt t of Some i \<Rightarrow> (i, True) | None \<Rightarrow> (old, False))
      | JNull \<Rightarrow> (old, True)
      | _ \<Rightarrow> (old, False))"

definition dec_strings :: "json \<Rightarrow> string list \<Rightarrow> string list \<times> bool" where
  "dec_strings j old =
     (case j of
        JArr js \<Rightarrow> (map (\<lambda>x. fst (dec_string x [])) js, list_all (\<lambda>x. snd (dec_string x [])) js)
      | JNull \<Rightarrow> ([], True)
      | _ \<Rightarrow> (old, False))"

text \<open>
  A struct: \<open>set_field k v st\<close> stores one member and says whether it fitted; the members are
  stored in order.  The result is the struct and whether there was no error.  A text that is not
  JSON leaves the struct alone.
\<close>

fun dec_members ::
  "(string \<Rightarrow> json \<Rightarrow> 's \<Rightarrow> 's \<times> bool) \<Rightarrow> (string \<times> json) list \<Rightarrow> 's \<Rightarrow> 's \<times> bool" where
  "dec_members set_field [] st = (st, True)"
| "dec_members set_field ((k, v) # kvs) st =
     (case set_field (ToLower k) v st of
        (st', ok) \<Rightarrow> (case dec_members set_field kvs st' of (st'', ok') \<Rightarrow> (st'', ok \<and> ok')))"

definition dec_struct ::
  "(string \<Rightarrow> json \<Rightarrow> 's \<Rightarrow> 's \<times> bool) \<Rightarrow> json \<Rightarrow> 's \<Rightarrow> 's \<times> bool" where
  "dec_struct set_field j st =
     (case j of
        JObj kvs \<Rightarrow> dec_members set_field kvs st
      | JNull \<Rightarrow> (st, True)
      | _ \<Rightarrow> (st, False))"

definition unmarshal_struct ::
  "(string \<Rightarrow> json \<Rightarrow> 's \<Rightarrow> 's \<times> bool) \<Rightarrow> 's \<Rightarrow> string \<Rightarrow> 's \<times> bool" where
  "unmarshal_struct set_field st raw =
     (case json_parse raw of Some j \<Rightarrow> dec_struct set_field j st | None \<Rightarrow> (st, False))"

section \<open>The parser reads what the encoder writes\<close>

lemma hex_val_hex_char: "n < 16 \<Longrightarrow> hex_val (hex_char n) = Some n"
  by (simp add: hex_val_def hex_char_def Let_def)

lemma char_numerals: "c < CHR 0x20 \<longleftrightarrow> (of_char c :: nat) < 32"
  by (simp add: less_char_def)

lemma esc_char_u:
  assumes "(of_char c :: nat) < 128"
  shows "parse_chars ([CHR 0x5C, CHR ''u'', CHR ''0'', CHR ''0'', hex_char (of_char c div 16),
            hex_char (of_char c mod 16)] @ t) =
    (case parse_chars t of None \<Rightarrow> None | Some (x, q) \<Rightarrow> Some (c # x, q))"
proof -
  have "hex4 (CHR ''0'') (CHR ''0'') (hex_char (of_char c div 16)) (hex_char (of_char c mod 16)) =
      Some (of_char c)"
    using assms by (simp add: hex4_def hex_val_hex_char) (simp add: hex_val_def)
  then show ?thesis
    using assms by (simp add: unicode_escape_def uescape_def utf8_def split: option.splits)
qed

lemma parse_esc_char:
  "parse_chars (esc_char c @ t) =
    (case parse_chars t of None \<Rightarrow> None | Some (x, q) \<Rightarrow> Some (c # x, q))"
proof (cases "c < CHR 0x20 \<or> c = CHR ''<'' \<or> c = CHR ''>'' \<or> c = CHR ''&''")
  case True
  then have "(of_char c :: nat) < 128" by (auto simp: char_numerals)
  with esc_char_u[of c t] True show ?thesis
    by (auto simp: esc_char_def unesc_def)
next
  case False
  then show ?thesis by (auto simp: esc_char_def unesc_def)
qed

lemma unicode_escape_2028:
  "unicode_escape (CHR ''2'' # CHR ''0'' # CHR ''2'' # CHR ''8'' # t) =
     Some ([CHR 0xE2, CHR 0x80, CHR 0xA8], t)"
proof -
  have "hex4 (CHR ''2'') (CHR ''0'') (CHR ''2'') (CHR ''8'') = Some 8232" by (simp add: hex4_def hex_val_def)
  moreover have "utf8 8232 = [CHR 0xE2, CHR 0x80, CHR 0xA8]" by (simp add: utf8_def char_of_def bit_0)
  ultimately show ?thesis by (simp add: unicode_escape_def uescape_def)
qed

lemma unicode_escape_2029:
  "unicode_escape (CHR ''2'' # CHR ''0'' # CHR ''2'' # CHR ''9'' # t) =
     Some ([CHR 0xE2, CHR 0x80, CHR 0xA9], t)"
proof -
  have "hex4 (CHR ''2'') (CHR ''0'') (CHR ''2'') (CHR ''9'') = Some 8233" by (simp add: hex4_def hex_val_def)
  moreover have "utf8 8233 = [CHR 0xE2, CHR 0x80, CHR 0xA9]" by (simp add: utf8_def char_of_def bit_0)
  ultimately show ?thesis by (simp add: unicode_escape_def uescape_def)
qed

lemma parse_esc_string: "parse_chars (esc_string s @ CHR 0x22 # r) = Some (s, r)"
proof (induction s rule: esc_string.induct)
  case (2 c s)
  show ?case
  proof (cases "take 3 (c # s) = [CHR 0xE2, CHR 0x80, CHR 0xA8] \<or>
      take 3 (c # s) = [CHR 0xE2, CHR 0x80, CHR 0xA9]")
    case True
    then obtain x s' where s: "s = CHR 0x80 # x # s'" "c = CHR 0xE2"
      by (cases s; cases "tl s") (auto simp: numeral_3_eq_3)
    have "drop 2 s = s'" using s by simp
    with True 2 s show ?thesis
      by (auto simp: unicode_escape_2028 unicode_escape_2029)
  next
    case False
    then have "esc_string (c # s) = esc_char c @ esc_string s" by auto
    with False 2(3) show ?thesis by (simp add: parse_esc_char del: esc_string.simps)
  qed
qed simp


text \<open>The numbers the source encodes are integers; \<open>json_wf\<close> says that a value holds no others.\<close>

fun json_wf :: "json \<Rightarrow> bool" where
  "json_wf (JNum t) = (\<exists>i. t = itoa i)"
| "json_wf (JArr js) = list_all json_wf js"
| "json_wf (JObj kvs) = list_all (\<lambda>(k, v). json_wf v) kvs"
| "json_wf _ = True"

definition num_stop :: "string \<Rightarrow> bool" where
  "num_stop r \<longleftrightarrow> (\<forall>c t. r = c # t \<longrightarrow>
     \<not> is_digit c \<and> c \<noteq> CHR ''.'' \<and> c \<noteq> CHR ''e'' \<and> c \<noteq> CHR ''E'')"

lemma is_digit_digit_char: "d < 10 \<Longrightarrow> is_digit (digit_char d)"
  by (simp add: is_digit_def digit_val_digit_char)

lemma nat_digits_all: "\<forall>c \<in> set (nat_digits n). is_digit c"
proof (induction n rule: nat_digits.induct)
  case (1 n)
  then show ?case
    by (cases "n < 10") (auto simp: nat_digits.simps[of n] is_digit_digit_char)
qed

lemma nat_digits_hd:
  "\<exists>c t. nat_digits n = c # t \<and> is_digit c \<and> (c = CHR ''0'' \<longrightarrow> t = [] \<and> n = 0)"
proof (induction n rule: nat_digits.induct)
  case (1 n)
  show ?case
  proof (cases "n < 10")
    case True
    have "digit_char n = CHR ''0'' \<Longrightarrow> n = 0"
    proof -
      assume "digit_char n = CHR ''0''"
      then have "digit_val (digit_char n) = Some 0" by (simp add: digit_val_def)
      with True show "n = 0" by (simp add: digit_val_digit_char)
    qed
    with True show ?thesis by (simp add: nat_digits.simps[of n] is_digit_digit_char)
  next
    case False
    with 1 obtain c t where "nat_digits (n div 10) = c # t" "is_digit c"
      "c = CHR ''0'' \<longrightarrow> t = [] \<and> n div 10 = 0" by blast
    with False show ?thesis by (auto simp: nat_digits.simps[of n])
  qed
qed

lemma span_digits_stop:
  "\<forall>c \<in> set s. is_digit c \<Longrightarrow> num_stop r \<Longrightarrow> span_digits (s @ r) = (s, r)"
  by (cases r) (auto simp: span_digits_def num_stop_def takeWhile_append2 dropWhile_append2)

lemma parse_int_part_digits: "num_stop r \<Longrightarrow> parse_int_part (nat_digits n @ r) = Some (nat_digits n, r)"
proof -
  assume r: "num_stop r"
  obtain c t where ct: "nat_digits n = c # t" "is_digit c" "c = CHR ''0'' \<longrightarrow> t = [] \<and> n = 0"
    using nat_digits_hd by blast
  with nat_digits_all[of n] have "span_digits ((c # t) @ r) = (c # t, r)"
    using r by (intro span_digits_stop) auto
  with ct show ?thesis by (auto simp: parse_int_part_def)
qed

lemma parse_number_itoa: "num_stop r \<Longrightarrow> parse_number (itoa i @ r) = Some (JNum (itoa i), r)"
proof -
  assume r: "num_stop r"
  have f: "parse_frac r = Some ([], r)" and x: "parse_exp r = Some ([], r)"
    using r by (auto simp: parse_frac_def parse_exp_def num_stop_def split: list.splits)
  obtain c t where ct: "nat_digits (nat i) = c # t" "c \<noteq> CHR ''-''"
    using nat_digits_Cons by blast
  show ?thesis
  proof (cases "i < 0")
    case True
    with r f x show ?thesis by (simp add: parse_number_def itoa_def parse_int_part_digits)
  next
    case False
    moreover have "parse_int_part ((c # t) @ r) = Some (c # t, r)"
      using parse_int_part_digits[OF r, of "nat i"] ct by simp
    ultimately show ?thesis using f x ct by (simp add: parse_number_def itoa_def)
  qed
qed

lemma itoa_hd: "\<exists>c t. itoa i = c # t \<and> (c = CHR ''-'' \<or> is_digit c)"
  using nat_digits_hd[of "nat i"] by (auto simp: itoa_def)

lemma is_digit_range: "is_digit c \<longleftrightarrow> 48 \<le> (of_char c :: nat) \<and> (of_char c :: nat) \<le> 57"
  by (simp add: is_digit_def digit_val_def Let_def)

text \<open>How a printed value begins.\<close>

definition value_start :: "char \<Rightarrow> bool" where
  "value_start c \<longleftrightarrow> \<not> is_ws c \<and> c \<noteq> CHR '']'' \<and> c \<noteq> CHR ''}''"

lemma print_json_start: "json_wf j \<Longrightarrow> \<exists>c t. print_json j = c # t \<and> value_start c"
proof (cases j)
  case (JNum t)
  assume "json_wf j"
  with JNum obtain i where "t = itoa i" by auto
  with JNum itoa_hd[of i] show ?thesis by (auto simp: value_start_def is_ws_def is_digit_range)
qed (auto simp: value_start_def is_ws_def print_str_def)

lemma skip_ws_start: "value_start c \<Longrightarrow> skip_ws (c # t) = c # t"
  by (simp add: skip_ws_def value_start_def)

lemma skip_ws_not_ws: "\<not> is_ws c \<Longrightarrow> skip_ws (c # t) = c # t"
  by (simp add: skip_ws_def)

lemma punct_not_ws [simp]:
  "\<not> is_ws (CHR 0x22)" "\<not> is_ws (CHR '','')" "\<not> is_ws (CHR '':'')" "\<not> is_ws (CHR '']'')"
  "\<not> is_ws (CHR ''}'')" "\<not> is_ws (CHR ''['')" "\<not> is_ws (CHR ''{'')"
  by (simp_all add: is_ws_def)

lemma num_stop_punct [simp]:
  "num_stop (CHR '','' # t)" "num_stop (CHR '']'' # t)" "num_stop (CHR ''}'' # t)" "num_stop []"
  by (simp_all add: num_stop_def is_digit_range)

definition value_ok :: "json \<Rightarrow> bool" where
  "value_ok j \<longleftrightarrow> (\<forall>n r. length (print_json j) < n \<longrightarrow> num_stop r \<longrightarrow>
     parse_value n (print_json j @ r) = Some (j, r))"

lemma parse_elems_print:
  assumes "\<forall>j \<in> set js. value_ok j" and "js \<noteq> []"
    and "length (Join '','' (map print_json js)) + 1 < n"
  shows "parse_elems n (Join '','' (map print_json js) @ CHR '']'' # r) = Some (js, r)"
  using assms
proof (induction js arbitrary: n)
  case (Cons j js)
  from Cons.prems obtain m where n: "n = Suc m" by (cases n) auto
  show ?case
  proof (cases js)
    case Nil
    with Cons.prems n have "parse_value m (print_json j @ CHR '']'' # r) = Some (j, CHR '']'' # r)"
      by (auto simp: value_ok_def)
    with Nil n show ?thesis by (simp add: skip_ws_not_ws)
  next
    case (Cons j' js')
    let ?rest = "Join '','' (map print_json js)"
    have j: "Join '','' (map print_json (j # js)) = print_json j @ CHR '','' # ?rest"
      using Cons by simp
    have "parse_value m (print_json j @ CHR '','' # ?rest @ CHR '']'' # r) =
        Some (j, CHR '','' # ?rest @ CHR '']'' # r)"
      using Cons.prems(1,3) n j by (auto simp: value_ok_def)
    moreover have "parse_elems m (?rest @ CHR '']'' # r) = Some (js, r)"
      using Cons.prems(1,3) n j Cons by (intro Cons.IH) auto
    ultimately show ?thesis using n j by (simp add: skip_ws_not_ws)
  qed
qed simp

definition member_text :: "string \<times> json \<Rightarrow> string" where
  "member_text kv = print_str (fst kv) @ '':'' @ print_json (snd kv)"

lemma print_JObj:
  "print_json (JObj kvs) = ''{'' @ Join '','' (map member_text kvs) @ ''}''"
  by (simp add: member_text_def[abs_def] case_prod_unfold)

lemma parse_members_print:
  assumes "\<forall>kv \<in> set kvs. value_ok (snd kv)" and "kvs \<noteq> []"
    and "length (Join '','' (map member_text kvs)) + 1 < n"
  shows "parse_members n (Join '','' (map member_text kvs) @ CHR ''}'' # r) = Some (kvs, r)"
  using assms
proof (induction kvs arbitrary: n)
  case (Cons kv kvs)
  obtain k v where kv: "kv = (k, v)" by (cases kv)
  from Cons.prems obtain m where n: "n = Suc m" by (cases n) auto
  have str: "parse_chars (esc_string k @ CHR 0x22 # t) = Some (k, t)" for t
    by (rule parse_esc_string)
  show ?case
  proof (cases kvs)
    case Nil
    with Cons.prems n kv have "parse_value m (print_json v @ CHR ''}'' # r) = Some (v, CHR ''}'' # r)"
      by (auto simp: value_ok_def member_text_def)
    with Nil n kv str show ?thesis by (simp add: skip_ws_not_ws member_text_def print_str_def)
  next
    case (Cons x xs)
    let ?rest = "Join '','' (map member_text kvs)"
    have j: "Join '','' (map member_text (kv # kvs)) = member_text kv @ CHR '','' # ?rest"
      using Cons by simp
    have len: "length (member_text kv) + length ?rest + 1 < m"
      using Cons.prems(3) n unfolding j by simp
    then have "length (print_json v) < m" using kv by (simp add: member_text_def)
    then have "parse_value m (print_json v @ CHR '','' # ?rest @ CHR ''}'' # r) =
        Some (v, CHR '','' # ?rest @ CHR ''}'' # r)"
      using Cons.prems(1) kv by (auto simp: value_ok_def)
    moreover have "parse_members m (?rest @ CHR ''}'' # r) = Some (kvs, r)"
      using Cons.prems(1) len Cons by (intro Cons.IH) auto
    moreover have "member_text kv = CHR 0x22 # esc_string k @ CHR 0x22 # CHR '':'' # print_json v"
      using kv by (simp add: member_text_def print_str_def)
    ultimately show ?thesis
      unfolding j n by (simp add: skip_ws_not_ws str kv)
  qed
qed simp

lemma value_ok_all: "json_wf j \<Longrightarrow> value_ok j"
proof (induction j)
  case (JNum t)
  then obtain i where t: "t = itoa i" by auto
  obtain c x where cx: "itoa i = c # x" "c = CHR ''-'' \<or> is_digit c" using itoa_hd by blast
  have "parse_value n (itoa i @ r) = Some (JNum (itoa i), r)" if "0 < n" "num_stop r" for n r
  proof -
    from \<open>0 < n\<close> obtain m where "n = Suc m" by (cases n) auto
    moreover have "\<not> is_ws c" "c \<noteq> CHR 0x22" "c \<noteq> CHR ''{''" "c \<noteq> CHR ''[''"
      using cx(2) by (auto simp: is_ws_def is_digit_range)
    ultimately show ?thesis
      using parse_number_itoa[OF \<open>num_stop r\<close>, of i] cx by (auto simp: skip_ws_not_ws)
  qed
  then show ?case by (auto simp: value_ok_def t)
next
  case (JStr s)
  have "parse_value (Suc m) (print_str s @ r) = Some (JStr s, r)" for m r
    using parse_esc_string[of s r] by (simp add: print_str_def skip_ws_not_ws)
  then show ?case by (auto simp: value_ok_def gr0_conv_Suc dest!: less_imp_Suc_add)
next
  case (JArr js)
  then have ok: "\<forall>j \<in> set js. value_ok j" and wf: "\<forall>j \<in> set js. json_wf j"
    by (auto simp: list_all_iff)
  have "parse_value (Suc m) (print_json (JArr js) @ r) = Some (JArr js, r)"
    if "length (print_json (JArr js)) < Suc m" for m r
  proof (cases js)
    case Nil
    then show ?thesis by (simp add: skip_ws_not_ws)
  next
    case (Cons j js')
    with wf print_json_start[of j] obtain c t where "print_json j = c # t" "value_start c" by auto
    then obtain t' where t': "Join '','' (map print_json js) @ CHR '']'' # r = c # t'" "value_start c"
      using Cons by (cases js') auto
    have "parse_elems m (Join '','' (map print_json js) @ CHR '']'' # r) = Some (js, r)"
      using ok that Cons by (intro parse_elems_print) auto
    with t' show ?thesis
      by (auto simp: skip_ws_not_ws skip_ws_start) (auto simp: value_start_def)
  qed
  then show ?case by (auto simp: value_ok_def gr0_conv_Suc dest!: less_imp_Suc_add)
next
  case (JObj kvs)
  then have ok: "\<forall>kv \<in> set kvs. value_ok (snd kv)"
    by (fastforce simp: list_all_iff)
  have "parse_value (Suc m) (print_json (JObj kvs) @ r) = Some (JObj kvs, r)"
    if "length (print_json (JObj kvs)) < Suc m" for m r
  proof (cases kvs)
    case Nil
    then show ?thesis by (simp add: skip_ws_not_ws)
  next
    case (Cons kv kvs')
    then obtain t' where t': "Join '','' (map member_text kvs) @ CHR ''}'' # r = CHR 0x22 # t'"
      by (cases kvs') (auto simp: member_text_def print_str_def)
    have "parse_members m (Join '','' (map member_text kvs) @ CHR ''}'' # r) = Some (kvs, r)"
      using ok that Cons unfolding print_JObj by (intro parse_members_print) auto
    with t' show ?thesis
      unfolding print_JObj by (simp add: skip_ws_not_ws)
  qed
  then show ?case by (auto simp: value_ok_def gr0_conv_Suc dest!: less_imp_Suc_add)
qed (auto simp: value_ok_def skip_ws_not_ws is_ws_def is_digit_range gr0_conv_Suc
    dest!: less_imp_Suc_add)

lemma json_parse_print: "json_wf j \<Longrightarrow> json_parse (print_json j) = Some j"
  using value_ok_all[of j] unfolding value_ok_def json_parse_def
  by (auto dest!: spec[of _ "Suc (length (print_json j))"] spec[of _ "[]"] simp: skip_ws_def)

end
