(* ===== verification/Delivery_Target.thy ===== *)
theory Delivery_Target
  imports Go_Strings
begin

text \<open>
  \<open>internal/daemon/delivery_target.go\<close>: where the output of a task is sent.  The Go kind is a
  string constant; \<open>KindUnset\<close> is the zero value of a \<open>DeliveryTarget{}\<close>.  A nil slice and an empty
  one are the empty list.
\<close>

datatype delivery_target_kind =
    KindUnset
  | DeliveryTargetOrigin
  | DeliveryTargetLocal
  | DeliveryTargetPlatform

fun kind_text :: "delivery_target_kind \<Rightarrow> string" where
  "kind_text KindUnset = ''''"
| "kind_text DeliveryTargetOrigin = ''origin''"
| "kind_text DeliveryTargetLocal = ''local''"
| "kind_text DeliveryTargetPlatform = ''platform''"

record delivery_target =
  dt_kind :: delivery_target_kind
  dt_platform :: string
  dt_address :: string
  dt_thread :: string
  dt_explicit :: bool

definition target_zero :: delivery_target where
  "target_zero = \<lparr>dt_kind = KindUnset, dt_platform = '''', dt_address = '''', dt_thread = '''',
     dt_explicit = False\<rparr>"

definition ParseDeliveryTarget :: "string \<Rightarrow> err + delivery_target" where
  "ParseDeliveryTarget raw0 =
     (let raw = TrimSpace raw0 in
      if raw = '''' then Inl (EMsg ''delivery target is required'')
      else if ToLower raw = ''origin''
      then Inr (target_zero\<lparr>dt_kind := DeliveryTargetOrigin\<rparr>)
      else if ToLower raw = ''local''
      then Inr (target_zero\<lparr>dt_kind := DeliveryTargetLocal\<rparr>)
      else
        (let parts = SplitN 3 (CHR '':'') raw;
             platform = ToLower (TrimSpace (parts ! 0));
             target = target_zero\<lparr>dt_kind := DeliveryTargetPlatform, dt_platform := platform\<rparr>
         in if platform = '''' then Inl (EMsg ''delivery target platform is required'')
            else if length parts > 1
            then (let address = TrimSpace (parts ! 1) in
                  if address = ''''
                  then Inl (EMsg ''delivery target address is required when ':' is used'')
                  else Inr (target\<lparr>dt_address := address, dt_explicit := True,
                    dt_thread := (if length parts > 2 then TrimSpace (parts ! 2) else '''')\<rparr>))
            else Inr target))"

fun ParseDeliveryTargets :: "string list \<Rightarrow> err + delivery_target list" where
  "ParseDeliveryTargets [] = Inr []"
| "ParseDeliveryTargets (item # raw) =
     (case ParseDeliveryTarget item of
        Inl e \<Rightarrow> Inl e
      | Inr target \<Rightarrow>
          (case ParseDeliveryTargets raw of Inl e \<Rightarrow> Inl e | Inr targets \<Rightarrow> Inr (target # targets)))"

definition normalizeDeliveryTargetStrings :: "string list \<Rightarrow> string list" where
  "normalizeDeliveryTargetStrings raw = filter (\<lambda>s. s \<noteq> '''') (map TrimSpace raw)"

definition target_String :: "delivery_target \<Rightarrow> string" where
  "target_String t =
     (case dt_kind t of
        DeliveryTargetOrigin \<Rightarrow> ''origin''
      | DeliveryTargetLocal \<Rightarrow> ''local''
      | DeliveryTargetPlatform \<Rightarrow>
          (if dt_address t \<noteq> '''' \<and> dt_thread t \<noteq> ''''
           then dt_platform t @ '':'' @ dt_address t @ '':'' @ dt_thread t
           else if dt_address t \<noteq> '''' \<or> dt_explicit t then dt_platform t @ '':'' @ dt_address t
           else dt_platform t)
      | KindUnset \<Rightarrow> '''')"

definition deliveryTargetStrings :: "delivery_target list \<Rightarrow> string list" where
  "deliveryTargetStrings targets =
     filter (\<lambda>s. s \<noteq> '''') (map (\<lambda>t. TrimSpace (target_String t)) targets)"

definition parseDeliveryTargetsLenient :: "string list \<Rightarrow> delivery_target list" where
  "parseDeliveryTargetsLenient raw =
     (case ParseDeliveryTargets raw of Inl _ \<Rightarrow> [] | Inr targets \<Rightarrow> targets)"

definition IsHomeChannel :: "delivery_target \<Rightarrow> bool" where
  "IsHomeChannel t \<longleftrightarrow> dt_kind t = DeliveryTargetPlatform \<and> dt_platform t \<noteq> '''' \<and>
     dt_address t = '''' \<and> \<not> dt_explicit t"

section \<open>Targets in normal form\<close>

text \<open>What \<open>ParseDeliveryTarget\<close> returns, and all it returns.\<close>

definition target_normal :: "delivery_target \<Rightarrow> bool" where
  "target_normal t \<longleftrightarrow>
     (case dt_kind t of
        DeliveryTargetOrigin \<Rightarrow> t = target_zero\<lparr>dt_kind := DeliveryTargetOrigin\<rparr>
      | DeliveryTargetLocal \<Rightarrow> t = target_zero\<lparr>dt_kind := DeliveryTargetLocal\<rparr>
      | DeliveryTargetPlatform \<Rightarrow>
          dt_platform t \<noteq> '''' \<and> trimmed (dt_platform t) \<and> ToLower (dt_platform t) = dt_platform t \<and>
          CHR '':'' \<notin> set (dt_platform t) \<and>
          trimmed (dt_address t) \<and> CHR '':'' \<notin> set (dt_address t) \<and> trimmed (dt_thread t) \<and>
          (if dt_explicit t then dt_address t \<noteq> ''''
           else dt_address t = '''' \<and> dt_thread t = '''' \<and>
             dt_platform t \<noteq> ''origin'' \<and> dt_platform t \<noteq> ''local'')
      | KindUnset \<Rightarrow> False)"

lemma TrimSpace_subset: "set (TrimSpace s) \<subseteq> set s"
proof -
  have "set (TrimSpace s) \<subseteq> set (TrimLeft s)"
    unfolding TrimSpace_def using TrimRight_prefix set_mono_prefix by metis
  also have "\<dots> \<subseteq> set s"
    unfolding TrimLeft_def using trim_front_suffix set_mono_suffix by metis
  finally show ?thesis .
qed

lemma ToLower_colon: "CHR '':'' \<in> set (ToLower s) \<Longrightarrow> CHR '':'' \<in> set s"
proof -
  assume "CHR '':'' \<in> set (ToLower s)"
  then obtain c where "c \<in> set s" "lower_char c = CHR '':''" by (auto simp: ToLower_def)
  then show ?thesis using lower_char_eq[of c "CHR '':''"] by simp
qed

lemma SplitN_3_simps:
  "c \<notin> set p \<Longrightarrow> SplitN 3 c p = [p]"
  "c \<notin> set p \<Longrightarrow> c \<notin> set r \<Longrightarrow> SplitN 3 c (p @ c # r) = [p, r]"
  "c \<notin> set p \<Longrightarrow> c \<notin> set q \<Longrightarrow> SplitN 3 c (p @ c # q @ c # z) = [p, q, z]"
  using SplitN_no_sep[of c p 2] SplitN_no_sep[of c r 1] SplitN_sep[of c p 1 r]
    SplitN_sep[of c p 1 "q @ c # z"] SplitN_sep[of c q 0 z]
  by (simp_all add: numeral_3_eq_3 numeral_2_eq_2)

lemma SplitN_3_cases:
  obtains (one) "c \<notin> set s" "SplitN 3 c s = [s]"
  | (two) p r where "s = p @ c # r" "c \<notin> set p" "c \<notin> set r" "SplitN 3 c s = [p, r]"
  | (three) p q r where "s = p @ c # q @ c # r" "c \<notin> set p" "c \<notin> set q" "SplitN 3 c s = [p, q, r]"
proof (cases "c \<in> set s")
  case False
  then show ?thesis using one by (simp add: SplitN_3_simps)
next
  case True
  then obtain p r where s: "s = p @ c # r" "c \<notin> set p" by (meson split_list_first)
  show ?thesis
  proof (cases "c \<in> set r")
    case False
    with s show ?thesis using two by (simp add: SplitN_3_simps)
  next
    case True
    then obtain q z where r: "r = q @ c # z" "c \<notin> set q" by (meson split_list_first)
    with s show ?thesis using three[of p q z] by (simp add: SplitN_3_simps)
  qed
qed

lemma trimmed_Nil [simp]: "trimmed []"
  by (auto simp: trimmed_def go_spaces_def)

lemma parsed_target_normal: "ParseDeliveryTarget raw = Inr t \<Longrightarrow> target_normal t"
proof -
  assume p: "ParseDeliveryTarget raw = Inr t"
  note [simp] = ParseDeliveryTarget_def Let_def target_normal_def target_zero_def TrimSpace_trimmed
    trimmed_ToLower
  have sub: "CHR '':'' \<notin> set (TrimSpace x)" if "CHR '':'' \<notin> set x" for x
    using that TrimSpace_subset by blast
  have low: "CHR '':'' \<notin> set (ToLower (TrimSpace x))" if "CHR '':'' \<notin> set x" for x
    using that sub ToLower_colon by blast
  show ?thesis
  proof (cases rule: SplitN_3_cases[of "CHR '':''" "TrimSpace raw"])
    case one
    moreover have "CHR '':'' \<notin> set (ToLower (TrimSpace raw))"
      using one(1) ToLower_colon by blast
    ultimately show ?thesis using p by (auto split: if_splits)
  next
    case (two a b)
    with p low[of a] sub[of b] show ?thesis by (auto split: if_splits)
  next
    case (three a b d)
    with p low[of a] sub[of b] show ?thesis by (auto split: if_splits)
  qed
qed

lemma colon_not_keyword: "a @ CHR '':'' # b \<noteq> ''origin'' \<and> a @ CHR '':'' # b \<noteq> ''local''"
proof -
  have "CHR '':'' \<in> set (a @ CHR '':'' # b)" by simp
  moreover have "CHR '':'' \<notin> set ''origin''" "CHR '':'' \<notin> set ''local''" by simp_all
  ultimately show ?thesis by metis
qed

lemma ToLower_colon_join: "ToLower (a @ CHR '':'' # b) = ToLower a @ CHR '':'' # ToLower b"
  by (simp add: ToLower_def lower_char_def)

lemma parse_keywords:
  "ParseDeliveryTarget ''origin'' = Inr (target_zero\<lparr>dt_kind := DeliveryTargetOrigin\<rparr>)"
  "ParseDeliveryTarget ''local'' = Inr (target_zero\<lparr>dt_kind := DeliveryTargetLocal\<rparr>)"
  by code_simp+

lemma target_normal_parse:
  assumes n: "target_normal t"
  shows "ParseDeliveryTarget (target_String t) = Inr t"
proof (cases "dt_kind t")
  case DeliveryTargetPlatform
  let ?p = "dt_platform t" and ?a = "dt_address t" and ?h = "dt_thread t"
  have t: "?p \<noteq> ''''" "trimmed ?p" "ToLower ?p = ?p" "CHR '':'' \<notin> set ?p" "trimmed ?a"
    "CHR '':'' \<notin> set ?a" "trimmed ?h"
    using n DeliveryTargetPlatform by (auto simp: target_normal_def)
  note [simp] = ParseDeliveryTarget_def Let_def target_zero_def ToLower_colon_join colon_not_keyword
    trimmed_TrimSpace trimmed_join SplitN_3_simps
  consider (home) "\<not> dt_explicit t" | (addr) "dt_explicit t" "?h = ''''" | (thread) "dt_explicit t" "?h \<noteq> ''''"
    by blast
  then show ?thesis
  proof cases
    case home
    with n DeliveryTargetPlatform t show ?thesis
      by (cases t) (auto simp: target_normal_def target_String_def)
  next
    case addr
    then have "target_String t = ?p @ CHR '':'' # ?a" "?a \<noteq> ''''"
      using n DeliveryTargetPlatform by (auto simp: target_normal_def target_String_def)
    with addr t DeliveryTargetPlatform show ?thesis by (cases t) simp
  next
    case thread
    then have "target_String t = ?p @ CHR '':'' # (?a @ CHR '':'' # ?h)" "?a \<noteq> ''''"
      using n DeliveryTargetPlatform by (auto simp: target_normal_def target_String_def)
    with thread t DeliveryTargetPlatform show ?thesis by (cases t) simp
  qed
qed (use n in \<open>simp_all add: target_normal_def target_String_def parse_keywords\<close>)

end
