(* ===== verification/Task_Payload.thy ===== *)
theory Task_Payload
  imports Json Delivery_Target
begin

text \<open>
  \<open>internal/daemon/task_payload.go\<close> and the principal of \<open>internal/identity/principal.go\<close>: the text
  in the payload column of the queue is a plain prompt or a JSON object; \<open>ParseTaskPayload\<close> reads
  both and \<open>EncodeTaskPayload\<close> writes them.  The lemmas say when the two are inverse.
\<close>

section \<open>Principals\<close>

record principal =
  pr_user_id :: string
  pr_canonical_user_id :: string
  pr_project_id :: string
  pr_surface :: string

definition principal_zero :: principal where
  "principal_zero = \<lparr>pr_user_id = '''', pr_canonical_user_id = '''', pr_project_id = '''',
     pr_surface = ''''\<rparr>"

definition NewPrincipal :: "principal \<Rightarrow> principal" where
  "NewPrincipal p = \<lparr>pr_user_id = TrimSpace (pr_user_id p),
     pr_canonical_user_id = TrimSpace (pr_canonical_user_id p),
     pr_project_id = TrimSpace (pr_project_id p), pr_surface = TrimSpace (pr_surface p)\<rparr>"

definition principal_IsZero :: "principal \<Rightarrow> bool" where
  "principal_IsZero p \<longleftrightarrow> TrimSpace (pr_user_id p) = '''' \<and> TrimSpace (pr_project_id p) = '''' \<and>
     TrimSpace (pr_surface p) = ''''"

definition SurfaceIdentity :: "principal \<Rightarrow> string" where
  "SurfaceIdentity p =
     (let surface = TrimSpace (pr_surface p); userID = TrimSpace (pr_user_id p) in
      if surface \<noteq> '''' \<and> userID \<noteq> '''' then surface @ '':'' @ userID
      else if surface \<noteq> '''' then surface else userID)"

definition ResumeUserID :: "principal \<Rightarrow> string" where
  "ResumeUserID p =
     (let canonical = TrimSpace (pr_canonical_user_id p) in
      if canonical \<noteq> '''' then canonical else TrimSpace (pr_user_id p))"

definition LegacyPrincipal :: principal where
  "LegacyPrincipal = \<lparr>pr_user_id = ''legacy'', pr_canonical_user_id = '''',
     pr_project_id = ''unknown'', pr_surface = ''unknown''\<rparr>"

section \<open>Payloads\<close>

text \<open>\<open>tp_type\<close> is the text of Go's \<open>TaskType\<close>: empty for an agent task.\<close>

record task_payload =
  tp_type :: string
  tp_prompt :: string
  tp_session_id :: string
  tp_surface :: string
  tp_principal :: principal
  tp_delivery_targets :: "string list"
  tp_enforcement :: string
  tp_completion_gate :: string

definition payload_zero :: task_payload where
  "payload_zero = \<lparr>tp_type = '''', tp_prompt = '''', tp_session_id = '''', tp_surface = '''',
     tp_principal = principal_zero, tp_delivery_targets = [], tp_enforcement = '''',
     tp_completion_gate = ''''\<rparr>"

definition normalizeTaskPayload :: "task_payload \<Rightarrow> task_payload" where
  "normalizeTaskPayload p =
     (let surface = TrimSpace (tp_surface p);
          pr = NewPrincipal (tp_principal p);
          pr' = (if pr_surface pr = '''' \<and> surface \<noteq> '''' then pr\<lparr>pr_surface := surface\<rparr> else pr);
          surface' = (if surface = '''' \<and> pr_surface pr' \<noteq> '''' then pr_surface pr' else surface)
      in p\<lparr>tp_prompt := TrimSpace (tp_prompt p), tp_session_id := TrimSpace (tp_session_id p),
           tp_surface := surface', tp_principal := pr',
           tp_delivery_targets := normalizeDeliveryTargetStrings (tp_delivery_targets p),
           tp_enforcement := ToLower (TrimSpace (tp_enforcement p)),
           tp_completion_gate := ToLower (TrimSpace (tp_completion_gate p))\<rparr>)"

text \<open>The fields of the struct tags, as \<open>json.Unmarshal\<close> stores them.\<close>

definition set_principal_field :: "string \<Rightarrow> json \<Rightarrow> principal \<Rightarrow> principal \<times> bool" where
  "set_principal_field k v p =
     (if k = ''user_id''
      then (case dec_string v (pr_user_id p) of (x, ok) \<Rightarrow> (p\<lparr>pr_user_id := x\<rparr>, ok))
      else if k = ''canonical_user_id''
      then (case dec_string v (pr_canonical_user_id p) of (x, ok) \<Rightarrow> (p\<lparr>pr_canonical_user_id := x\<rparr>, ok))
      else if k = ''project_id''
      then (case dec_string v (pr_project_id p) of (x, ok) \<Rightarrow> (p\<lparr>pr_project_id := x\<rparr>, ok))
      else if k = ''surface''
      then (case dec_string v (pr_surface p) of (x, ok) \<Rightarrow> (p\<lparr>pr_surface := x\<rparr>, ok))
      else (p, True))"

definition set_payload_field :: "string \<Rightarrow> json \<Rightarrow> task_payload \<Rightarrow> task_payload \<times> bool" where
  "set_payload_field k v p =
     (if k = ''type'' then (case dec_string v (tp_type p) of (x, ok) \<Rightarrow> (p\<lparr>tp_type := x\<rparr>, ok))
      else if k = ''prompt''
      then (case dec_string v (tp_prompt p) of (x, ok) \<Rightarrow> (p\<lparr>tp_prompt := x\<rparr>, ok))
      else if k = ''session_id''
      then (case dec_string v (tp_session_id p) of (x, ok) \<Rightarrow> (p\<lparr>tp_session_id := x\<rparr>, ok))
      else if k = ''surface''
      then (case dec_string v (tp_surface p) of (x, ok) \<Rightarrow> (p\<lparr>tp_surface := x\<rparr>, ok))
      else if k = ''principal''
      then (case dec_struct set_principal_field v (tp_principal p) of
              (x, ok) \<Rightarrow> (p\<lparr>tp_principal := x\<rparr>, ok))
      else if k = ''delivery_targets''
      then (case dec_strings v (tp_delivery_targets p) of
              (x, ok) \<Rightarrow> (p\<lparr>tp_delivery_targets := x\<rparr>, ok))
      else if k = ''agentic_enforcement''
      then (case dec_string v (tp_enforcement p) of (x, ok) \<Rightarrow> (p\<lparr>tp_enforcement := x\<rparr>, ok))
      else if k = ''agentic_completion_gate''
      then (case dec_string v (tp_completion_gate p) of
              (x, ok) \<Rightarrow> (p\<lparr>tp_completion_gate := x\<rparr>, ok))
      else (p, True))"

definition payload_structured :: "task_payload \<Rightarrow> bool" where
  "payload_structured p \<longleftrightarrow> tp_type p \<noteq> '''' \<or> tp_session_id p \<noteq> '''' \<or> tp_surface p \<noteq> '''' \<or>
     \<not> principal_IsZero (tp_principal p) \<or> tp_delivery_targets p \<noteq> [] \<or> tp_enforcement p \<noteq> '''' \<or>
     tp_completion_gate p \<noteq> ''''"

definition ParseTaskPayload :: "string \<Rightarrow> task_payload" where
  "ParseTaskPayload raw0 =
     (let raw = TrimSpace raw0 in
      if raw = '''' then payload_zero
      else
        (let (payload, ok) = unmarshal_struct set_payload_field payload_zero raw;
             p = normalizeTaskPayload payload
         in if HasPrefix raw ''{'' \<and> ok \<and> (tp_prompt p \<noteq> '''' \<or> payload_structured p) then p
            else payload_zero\<lparr>tp_prompt := raw\<rparr>))"

text \<open>\<open>json.Marshal\<close> of the struct: the members in the order of the fields, those marked
  \<open>omitempty\<close> left out when empty; a struct is never empty.\<close>

definition opt_member :: "string \<Rightarrow> string \<Rightarrow> (string \<times> json) list" where
  "opt_member k s = (if s = '''' then [] else [(k, JStr s)])"

definition principal_json :: "principal \<Rightarrow> json" where
  "principal_json p = JObj ([(''user_id'', JStr (pr_user_id p))] @
     opt_member ''canonical_user_id'' (pr_canonical_user_id p) @
     [(''project_id'', JStr (pr_project_id p)), (''surface'', JStr (pr_surface p))])"

definition payload_json :: "task_payload \<Rightarrow> json" where
  "payload_json p = JObj (opt_member ''type'' (tp_type p) @ [(''prompt'', JStr (tp_prompt p))] @
     opt_member ''session_id'' (tp_session_id p) @ opt_member ''surface'' (tp_surface p) @
     [(''principal'', principal_json (tp_principal p))] @
     (if tp_delivery_targets p = [] then []
      else [(''delivery_targets'', JArr (map JStr (tp_delivery_targets p)))]) @
     opt_member ''agentic_enforcement'' (tp_enforcement p) @
     opt_member ''agentic_completion_gate'' (tp_completion_gate p))"

definition EncodeTaskPayload :: "task_payload \<Rightarrow> string" where
  "EncodeTaskPayload p0 =
     (let p = normalizeTaskPayload p0 in
      if \<not> payload_structured p then tp_prompt p else print_json (payload_json p))"

section \<open>Normal form\<close>

lemma normalizeDeliveryTargetStrings_idem [simp]:
  "normalizeDeliveryTargetStrings (normalizeDeliveryTargetStrings raw) = normalizeDeliveryTargetStrings raw"
proof -
  have "map TrimSpace (filter (\<lambda>s. s \<noteq> '''') (map TrimSpace raw)) =
      filter (\<lambda>s. s \<noteq> '''') (map TrimSpace raw)"
    by (induction raw) auto
  then show ?thesis by (simp add: normalizeDeliveryTargetStrings_def)
qed

lemma normalized_fields:
  "tp_type (normalizeTaskPayload p) = tp_type p"
  "tp_prompt (normalizeTaskPayload p) = TrimSpace (tp_prompt p)"
  "tp_session_id (normalizeTaskPayload p) = TrimSpace (tp_session_id p)"
  "tp_delivery_targets (normalizeTaskPayload p) =
     normalizeDeliveryTargetStrings (tp_delivery_targets p)"
  "tp_enforcement (normalizeTaskPayload p) = ToLower (TrimSpace (tp_enforcement p))"
  "tp_completion_gate (normalizeTaskPayload p) = ToLower (TrimSpace (tp_completion_gate p))"
  "tp_surface (normalizeTaskPayload p) =
     (if TrimSpace (tp_surface p) = '''' then TrimSpace (pr_surface (tp_principal p))
      else TrimSpace (tp_surface p))"
  "pr_surface (tp_principal (normalizeTaskPayload p)) =
     (if TrimSpace (pr_surface (tp_principal p)) = '''' then TrimSpace (tp_surface p)
      else TrimSpace (pr_surface (tp_principal p)))"
  "pr_user_id (tp_principal (normalizeTaskPayload p)) = TrimSpace (pr_user_id (tp_principal p))"
  "pr_canonical_user_id (tp_principal (normalizeTaskPayload p)) =
     TrimSpace (pr_canonical_user_id (tp_principal p))"
  "pr_project_id (tp_principal (normalizeTaskPayload p)) = TrimSpace (pr_project_id (tp_principal p))"
  by (simp_all add: normalizeTaskPayload_def NewPrincipal_def Let_def)

lemma payload_eqI:
  fixes p q :: task_payload
  assumes "tp_type p = tp_type q" "tp_prompt p = tp_prompt q" "tp_session_id p = tp_session_id q"
    "tp_surface p = tp_surface q" "tp_principal p = tp_principal q"
    "tp_delivery_targets p = tp_delivery_targets q" "tp_enforcement p = tp_enforcement q"
    "tp_completion_gate p = tp_completion_gate q"
  shows "p = q"
  using assms by simp

lemma principal_eqI:
  fixes p q :: principal
  assumes "pr_user_id p = pr_user_id q" "pr_canonical_user_id p = pr_canonical_user_id q"
    "pr_project_id p = pr_project_id q" "pr_surface p = pr_surface q"
  shows "p = q"
  using assms by simp

lemma normalizeTaskPayload_idem [simp]:
  "normalizeTaskPayload (normalizeTaskPayload p) = normalizeTaskPayload p"
  by (rule payload_eqI; (rule principal_eqI)?; simp add: normalized_fields)

lemma normalize_surface_agrees:
  "(tp_surface (normalizeTaskPayload p) = '''') =
     (pr_surface (tp_principal (normalizeTaskPayload p)) = '''')"
  by (simp add: normalized_fields)

section \<open>Decoding what the encoder wrote\<close>

lemma dec_string_JStr [simp]: "dec_string (JStr s) old = (s, True)"
  by (simp add: dec_string_def)

lemma dec_strings_JStr [simp]: "dec_strings (JArr (map JStr xs)) old = (xs, True)"
  by (simp add: dec_strings_def list_all_iff o_def)

lemma dec_members_append:
  "dec_members f (xs @ ys) st =
     (case dec_members f xs st of (st', ok) \<Rightarrow>
        (case dec_members f ys st' of (st'', ok') \<Rightarrow> (st'', ok \<and> ok')))"
  by (induction xs arbitrary: st) (auto split: prod.splits)

lemma lower_literals [simp]:
  "ToLower ''type'' = ''type''" "ToLower ''prompt'' = ''prompt''"
  "ToLower ''session_id'' = ''session_id''" "ToLower ''surface'' = ''surface''"
  "ToLower ''principal'' = ''principal''" "ToLower ''delivery_targets'' = ''delivery_targets''"
  "ToLower ''agentic_enforcement'' = ''agentic_enforcement''"
  "ToLower ''agentic_completion_gate'' = ''agentic_completion_gate''"
  "ToLower ''user_id'' = ''user_id''" "ToLower ''canonical_user_id'' = ''canonical_user_id''"
  "ToLower ''project_id'' = ''project_id''"
  by (simp_all add: ToLower_def lower_char_def)

lemma dec_opt_member:
  assumes "ToLower k = k" and "f k (JStr s) st = (upd s st, True)" and "upd '''' st = st"
  shows "dec_members f (opt_member k s) st = (upd s st, True)"
  using assms by (simp add: opt_member_def)

lemma principal_fields:
  "set_principal_field ''user_id'' (JStr s) p = (p\<lparr>pr_user_id := s\<rparr>, True)"
  "set_principal_field ''canonical_user_id'' (JStr s) p = (p\<lparr>pr_canonical_user_id := s\<rparr>, True)"
  "set_principal_field ''project_id'' (JStr s) p = (p\<lparr>pr_project_id := s\<rparr>, True)"
  "set_principal_field ''surface'' (JStr s) p = (p\<lparr>pr_surface := s\<rparr>, True)"
  by (simp_all add: set_principal_field_def)

lemma dec_principal_json [simp]:
  "dec_struct set_principal_field (principal_json p) principal_zero = (p, True)"
  by (cases p) (simp add: dec_struct_def principal_json_def opt_member_def principal_fields
      principal_zero_def)

lemma payload_fields:
  "set_payload_field ''type'' (JStr s) p = (p\<lparr>tp_type := s\<rparr>, True)"
  "set_payload_field ''prompt'' (JStr s) p = (p\<lparr>tp_prompt := s\<rparr>, True)"
  "set_payload_field ''session_id'' (JStr s) p = (p\<lparr>tp_session_id := s\<rparr>, True)"
  "set_payload_field ''surface'' (JStr s) p = (p\<lparr>tp_surface := s\<rparr>, True)"
  "set_payload_field ''agentic_enforcement'' (JStr s) p = (p\<lparr>tp_enforcement := s\<rparr>, True)"
  "set_payload_field ''agentic_completion_gate'' (JStr s) p = (p\<lparr>tp_completion_gate := s\<rparr>, True)"
  "tp_principal p = principal_zero \<Longrightarrow>
     set_payload_field ''principal'' (principal_json q) p = (p\<lparr>tp_principal := q\<rparr>, True)"
  "set_payload_field ''delivery_targets'' (JArr (map JStr xs)) p =
     (p\<lparr>tp_delivery_targets := xs\<rparr>, True)"
  by (simp_all add: set_payload_field_def)

lemma dec_payload_json:
  "dec_struct set_payload_field (payload_json p) payload_zero = (p, True)"
  by (cases p)
    (simp add: dec_struct_def payload_json_def opt_member_def payload_fields payload_zero_def
      dec_members_append)

lemma payload_json_wf: "json_wf (payload_json p)"
  by (simp add: payload_json_def principal_json_def opt_member_def list_all_iff)

lemma unmarshal_encoded:
  "unmarshal_struct set_payload_field payload_zero (print_json (payload_json p)) = (p, True)"
  by (simp add: unmarshal_struct_def json_parse_print payload_json_wf dec_payload_json)

lemma print_payload_json:
  "\<exists>t. print_json (payload_json p) = CHR ''{'' # t @ ''}''"
  by (simp add: payload_json_def)

lemma trimmed_braces: "trimmed (CHR ''{'' # t @ ''}'')"
proof -
  have "\<not> prefix p (CHR ''{'' # t @ ''}'')" if "p \<in> set go_spaces" for p
    using that by (auto simp: go_spaces_def)
  moreover have "\<not> suffix p (CHR ''{'' # t @ ''}'')" if "p \<in> set go_spaces" for p
  proof
    assume "suffix p (CHR ''{'' # t @ ''}'')"
    then have "prefix (rev p) (CHR ''}'' # rev t @ ''{'')" by (simp add: suffix_to_prefix)
    with that show False by (auto simp: go_spaces_def)
  qed
  ultimately show ?thesis by (simp add: trimmed_def)
qed

lemma trim_payload_json [simp]: "TrimSpace (print_json (payload_json p)) = print_json (payload_json p)"
  using print_payload_json[of p] trimmed_braces trimmed_TrimSpace by fastforce

lemma payload_json_brace [simp]: "HasPrefix (print_json (payload_json p)) ''{''"
  "print_json (payload_json p) \<noteq> ''''"
  using print_payload_json[of p] by (auto simp: HasPrefix_def)

lemma normalized_prompt_trim [simp]:
  "TrimSpace (tp_prompt (normalizeTaskPayload p)) = tp_prompt (normalizeTaskPayload p)"
  by (simp add: normalized_fields)

lemma normalize_principal_zero:
  assumes "principal_IsZero (tp_principal (normalizeTaskPayload p))"
    and "pr_canonical_user_id (tp_principal (normalizeTaskPayload p)) = ''''"
  shows "tp_principal (normalizeTaskPayload p) = principal_zero"
  by (rule principal_eqI)
    (use assms in \<open>simp_all add: normalized_fields principal_IsZero_def principal_zero_def
       split: if_splits\<close>)

lemma unstructured_is_prompt:
  assumes "\<not> payload_structured (normalizeTaskPayload p)"
    and "pr_canonical_user_id (tp_principal (normalizeTaskPayload p)) = ''''"
  shows "normalizeTaskPayload p = payload_zero\<lparr>tp_prompt := tp_prompt (normalizeTaskPayload p)\<rparr>"
  using assms normalize_principal_zero[of p]
  by (cases "normalizeTaskPayload p") (simp add: payload_structured_def payload_zero_def)

lemma parse_structured:
  assumes "payload_structured (normalizeTaskPayload p)"
  shows "ParseTaskPayload (EncodeTaskPayload p) = normalizeTaskPayload p"
  using assms by (simp add: EncodeTaskPayload_def ParseTaskPayload_def unmarshal_encoded Let_def)

lemma parse_plain:
  assumes "\<not> payload_structured (normalizeTaskPayload p)"
    and "pr_canonical_user_id (tp_principal (normalizeTaskPayload p)) = ''''"
    and "\<not> HasPrefix (TrimSpace (tp_prompt p)) ''{''"
  shows "ParseTaskPayload (EncodeTaskPayload p) = normalizeTaskPayload p"
proof -
  have "tp_prompt (normalizeTaskPayload p) = TrimSpace (tp_prompt p)"
    by (simp add: normalized_fields)
  with assms(3) have "ParseTaskPayload (EncodeTaskPayload p) =
      payload_zero\<lparr>tp_prompt := tp_prompt (normalizeTaskPayload p)\<rparr>"
    using assms(1)
    by (simp add: EncodeTaskPayload_def ParseTaskPayload_def Let_def payload_zero_def split: prod.split)
  then show ?thesis using unstructured_is_prompt[OF assms(1,2)] by simp
qed

text \<open>
  The encoder leaves out no member the decoder needs: a payload comes back in its normal form,
  unless it has nothing but a prompt and that prompt looks like an object.
\<close>

theorem payload_roundtrip:
  assumes "payload_structured (normalizeTaskPayload p) \<or>
      \<not> HasPrefix (TrimSpace (tp_prompt p)) ''{'' \<and>
        TrimSpace (pr_canonical_user_id (tp_principal p)) = ''''"
  shows "ParseTaskPayload (EncodeTaskPayload p) = normalizeTaskPayload p"
proof (cases "payload_structured (normalizeTaskPayload p)")
  case True
  then show ?thesis by (rule parse_structured)
next
  case False
  moreover have "pr_canonical_user_id (tp_principal (normalizeTaskPayload p)) =
      TrimSpace (pr_canonical_user_id (tp_principal p))"
    by (simp add: normalized_fields)
  ultimately show ?thesis using assms parse_plain by auto
qed

text \<open>Whatever text comes in, the parsed payload is in normal form.\<close>

lemma parse_normalized [simp]: "normalizeTaskPayload (ParseTaskPayload raw) = ParseTaskPayload raw"
proof -
  have "normalizeTaskPayload (payload_zero\<lparr>tp_prompt := TrimSpace raw\<rparr>) =
      payload_zero\<lparr>tp_prompt := TrimSpace raw\<rparr>" "normalizeTaskPayload payload_zero = payload_zero"
    by (simp_all add: normalizeTaskPayload_def payload_zero_def NewPrincipal_def principal_zero_def
        normalizeDeliveryTargetStrings_def)
  then show ?thesis by (simp add: ParseTaskPayload_def Let_def split: prod.split)
qed

end
