(* ===== verification/Task_Queue.thy ===== *)
theory Task_Queue
  imports Tables Task_Payload
begin

text \<open>
  \<open>internal/daemon/queue.go\<close>: the SQLite queue of the daemon.  One row of the table is one task;
  the operations below are the methods of \<open>Queue\<close>, statement by statement.  An operation that runs
  several statements outside a transaction takes the table each of them meets (the table may have
  changed in between); it returns its result and the table its write leaves.  A transaction meets
  one table, and leaves it as it was when it does not commit.
\<close>

section \<open>Rows\<close>

datatype task_status = StatusPending | StatusRunning | StatusDone | StatusFailed

fun status_text :: "task_status \<Rightarrow> string" where
  "status_text StatusPending = ''pending''"
| "status_text StatusRunning = ''running''"
| "status_text StatusDone = ''done''"
| "status_text StatusFailed = ''failed''"

datatype timeout_class = TimeoutClassNone | TimeoutClassIdle | TimeoutClassActiveButKilled

fun timeout_text :: "timeout_class \<Rightarrow> string" where
  "timeout_text TimeoutClassNone = ''''"
| "timeout_text TimeoutClassIdle = ''idle''"
| "timeout_text TimeoutClassActiveButKilled = ''active_but_killed''"

record queue_row =
  tq_id :: int
  tq_payload :: string
  tq_idempotency_key :: string
  tq_session_id :: string
  tq_status :: task_status
  tq_progress :: string
  tq_summary :: string
  tq_result :: string
  tq_completion :: string
  tq_timeout_class :: timeout_class
  tq_idle_timeout_count :: int
  tq_active_timeout_count :: int
  tq_created_at :: int
  tq_updated_at :: int
  tq_started_at :: int
  tq_completed_at :: int

type_synonym queue = "queue_row table"

definition defaultStaleTimeout :: int where "defaultStaleTimeout = 5 * 60 * 1000"
definition defaultMaxRecoveries :: int where "defaultMaxRecoveries = 3"
definition idempotencyWindow :: int where "idempotencyWindow = 30 * 1000"
definition queueBusyRetryAttempts :: nat where "queueBusyRetryAttempts = 50"

definition is_active :: "queue_row \<Rightarrow> bool" where
  "is_active r \<longleftrightarrow> tq_status r = StatusPending \<or> tq_status r = StatusRunning"

definition failureClassTaskCanceled :: string where
  "failureClassTaskCanceled = ''task_canceled''"
definition nextActionOperatorCancelled :: string where
  "nextActionOperatorCancelled = ''operator_cancelled''"

section \<open>Completions\<close>

record task_completion =
  tc_task_id :: int
  tc_session_id :: string
  tc_origin_surface :: string
  tc_delivery_targets :: "delivery_target list"
  tc_summary :: string
  tc_status :: string
  tc_failure_class :: string
  tc_should_retire_session :: bool
  tc_session_retirement_reason :: string
  tc_next_action :: string
  tc_created_at :: int
  tc_started_at :: int
  tc_completed_at :: int

definition Duration :: "task_completion \<Rightarrow> int" where
  "Duration c =
     (if tc_started_at c = zero_time \<or> tc_completed_at c = zero_time \<or>
         tc_completed_at c < tc_started_at c
      then 0 else tc_completed_at c - tc_started_at c)"

record task_failure_metadata =
  fm_timeout_class :: timeout_class
  fm_failure_class :: string
  fm_should_retire_session :: bool
  fm_session_retirement_reason :: string
  fm_next_action :: string

definition metadata_zero :: task_failure_metadata where
  "metadata_zero = \<lparr>fm_timeout_class = TimeoutClassNone, fm_failure_class = '''',
     fm_should_retire_session = False, fm_session_retirement_reason = '''', fm_next_action = ''''\<rparr>"

text \<open>The record of the completion column, its decoder and its encoder.\<close>

record completion_record =
  cr_task_id :: int
  cr_session_id :: string
  cr_origin_surface :: string
  cr_delivery_targets :: "string list"
  cr_summary :: string
  cr_status :: string
  cr_failure_class :: string
  cr_should_retire_session :: bool
  cr_session_retirement_reason :: string
  cr_next_action :: string
  cr_created_at :: int
  cr_started_at :: int
  cr_completed_at :: int

definition completion_zero :: completion_record where
  "completion_zero = \<lparr>cr_task_id = 0, cr_session_id = '''', cr_origin_surface = '''',
     cr_delivery_targets = [], cr_summary = '''', cr_status = '''', cr_failure_class = '''',
     cr_should_retire_session = False, cr_session_retirement_reason = '''', cr_next_action = '''',
     cr_created_at = 0, cr_started_at = 0, cr_completed_at = 0\<rparr>"

definition set_completion_field ::
  "string \<Rightarrow> json \<Rightarrow> completion_record \<Rightarrow> completion_record \<times> bool" where
  "set_completion_field k v p =
     (if k = ''task_id''
      then (case dec_int64 v (cr_task_id p) of (x, ok) \<Rightarrow> (p\<lparr>cr_task_id := x\<rparr>, ok))
      else if k = ''session_id''
      then (case dec_string v (cr_session_id p) of (x, ok) \<Rightarrow> (p\<lparr>cr_session_id := x\<rparr>, ok))
      else if k = ''origin_surface''
      then (case dec_string v (cr_origin_surface p) of (x, ok) \<Rightarrow> (p\<lparr>cr_origin_surface := x\<rparr>, ok))
      else if k = ''delivery_targets''
      then (case dec_strings v (cr_delivery_targets p) of
              (x, ok) \<Rightarrow> (p\<lparr>cr_delivery_targets := x\<rparr>, ok))
      else if k = ''summary''
      then (case dec_string v (cr_summary p) of (x, ok) \<Rightarrow> (p\<lparr>cr_summary := x\<rparr>, ok))
      else if k = ''status''
      then (case dec_string v (cr_status p) of (x, ok) \<Rightarrow> (p\<lparr>cr_status := x\<rparr>, ok))
      else if k = ''failure_class''
      then (case dec_string v (cr_failure_class p) of (x, ok) \<Rightarrow> (p\<lparr>cr_failure_class := x\<rparr>, ok))
      else if k = ''should_retire_session''
      then (case dec_bool v (cr_should_retire_session p) of
              (x, ok) \<Rightarrow> (p\<lparr>cr_should_retire_session := x\<rparr>, ok))
      else if k = ''session_retirement_reason''
      then (case dec_string v (cr_session_retirement_reason p) of
              (x, ok) \<Rightarrow> (p\<lparr>cr_session_retirement_reason := x\<rparr>, ok))
      else if k = ''next_action''
      then (case dec_string v (cr_next_action p) of (x, ok) \<Rightarrow> (p\<lparr>cr_next_action := x\<rparr>, ok))
      else if k = ''created_at''
      then (case dec_int64 v (cr_created_at p) of (x, ok) \<Rightarrow> (p\<lparr>cr_created_at := x\<rparr>, ok))
      else if k = ''started_at''
      then (case dec_int64 v (cr_started_at p) of (x, ok) \<Rightarrow> (p\<lparr>cr_started_at := x\<rparr>, ok))
      else if k = ''completed_at''
      then (case dec_int64 v (cr_completed_at p) of (x, ok) \<Rightarrow> (p\<lparr>cr_completed_at := x\<rparr>, ok))
      else (p, True))"

definition completion_json :: "completion_record \<Rightarrow> json" where
  "completion_json p = JObj ([(''task_id'', JNum (itoa (cr_task_id p)))] @
     opt_member ''session_id'' (cr_session_id p) @
     opt_member ''origin_surface'' (cr_origin_surface p) @
     (if cr_delivery_targets p = [] then []
      else [(''delivery_targets'', JArr (map JStr (cr_delivery_targets p)))]) @
     [(''summary'', JStr (cr_summary p)), (''status'', JStr (cr_status p))] @
     opt_member ''failure_class'' (cr_failure_class p) @
     (if cr_should_retire_session p then [(''should_retire_session'', JBool True)] else []) @
     opt_member ''session_retirement_reason'' (cr_session_retirement_reason p) @
     opt_member ''next_action'' (cr_next_action p) @
     [(''created_at'', JNum (itoa (cr_created_at p))), (''started_at'', JNum (itoa (cr_started_at p))),
      (''completed_at'', JNum (itoa (cr_completed_at p)))])"

definition completion_of_record :: "completion_record \<Rightarrow> task_completion" where
  "completion_of_record r = \<lparr>tc_task_id = cr_task_id r, tc_session_id = cr_session_id r,
     tc_origin_surface = cr_origin_surface r,
     tc_delivery_targets = parseDeliveryTargetsLenient (cr_delivery_targets r),
     tc_summary = cr_summary r, tc_status = cr_status r, tc_failure_class = cr_failure_class r,
     tc_should_retire_session = cr_should_retire_session r,
     tc_session_retirement_reason = cr_session_retirement_reason r,
     tc_next_action = cr_next_action r, tc_created_at = cr_created_at r,
     tc_started_at = cr_started_at r, tc_completed_at = cr_completed_at r\<rparr>"

text \<open>The text of the decoder's error is not modelled.\<close>

definition json_error :: err where
  "json_error = EMsg ''json: cannot unmarshal''"

definition parseTaskCompletion :: "string \<Rightarrow> err + task_completion option" where
  "parseTaskCompletion raw =
     (if TrimSpace raw = '''' then Inr None
      else (case unmarshal_struct set_completion_field completion_zero raw of
              (r, ok) \<Rightarrow> if ok then Inr (Some (completion_of_record r)) else Inl json_error))"

definition View :: "task_completion \<Rightarrow> (string \<times> json) list" where
  "View c =
     [(''task_id'', JNum (itoa (tc_task_id c))), (''session_id'', JStr (tc_session_id c)),
      (''summary'', JStr (tc_summary c)), (''status'', JStr (tc_status c)),
      (''created_at'', JNum (itoa (tc_created_at c))),
      (''started_at'', JNum (itoa (tc_started_at c))),
      (''completed_at'', JNum (itoa (tc_completed_at c)))] @
     opt_member ''failure_class'' (tc_failure_class c) @
     opt_member ''origin_surface'' (tc_origin_surface c) @
     (let targets = deliveryTargetStrings (tc_delivery_targets c) in
      if targets = [] then [] else [(''delivery_targets'', JArr (map JStr targets))]) @
     (if tc_should_retire_session c then [(''should_retire_session'', JBool True)] else []) @
     opt_member ''session_retirement_reason'' (tc_session_retirement_reason c) @
     opt_member ''next_action'' (tc_next_action c)"

text \<open>\<open>summarizeProgress\<close>: the last line that is not blank, cut to 120 bytes.\<close>

fun last_line :: "string list \<Rightarrow> string" where
  "last_line [] = ''''"
| "last_line (l # ls) =
     (let line = TrimSpace l in
      if line = '''' then last_line ls
      else if length line > 120 then take 117 line @ ''...'' else line)"

definition summarizeProgress :: "string \<Rightarrow> string" where
  "summarizeProgress text0 =
     (let text = TrimSpace text0 in
      if text = '''' then '''' else last_line (rev (Split (CHR 0x0A) text)))"

definition completionSummary :: "task_status \<Rightarrow> string \<Rightarrow> string \<Rightarrow> string" where
  "completionSummary status summary fallback =
     (let s = TrimSpace summary; f = summarizeProgress fallback in
      if s \<noteq> '''' then s
      else if f \<noteq> '''' then f
      else if status = StatusFailed then ''failed'' else ''completed'')"

section \<open>Reading rows\<close>

record task =
  tk_id :: int
  tk_payload :: string
  tk_idempotency_key :: string
  tk_session_id :: string
  tk_status :: task_status
  tk_progress :: string
  tk_summary :: string
  tk_result :: string
  tk_completion :: "task_completion option"
  tk_timeout_class :: timeout_class
  tk_idle_timeout_count :: int
  tk_active_timeout_count :: int
  tk_created_at :: int
  tk_updated_at :: int
  tk_started_at :: int
  tk_completed_at :: int

definition row_task :: "queue_row \<Rightarrow> err + task" where
  "row_task r =
     (case parseTaskCompletion (tq_completion r) of
        Inl er \<Rightarrow> Inl er
      | Inr c \<Rightarrow> Inr \<lparr>tk_id = tq_id r, tk_payload = tq_payload r,
          tk_idempotency_key = tq_idempotency_key r, tk_session_id = tq_session_id r,
          tk_status = tq_status r, tk_progress = tq_progress r, tk_summary = tq_summary r,
          tk_result = tq_result r, tk_completion = c, tk_timeout_class = tq_timeout_class r,
          tk_idle_timeout_count = tq_idle_timeout_count r,
          tk_active_timeout_count = tq_active_timeout_count r, tk_created_at = tq_created_at r,
          tk_updated_at = tq_updated_at r, tk_started_at = tq_started_at r,
          tk_completed_at = tq_completed_at r\<rparr>)"

text \<open>\<open>Get\<close> is statement \<open>i\<close> of the operation that calls it.\<close>

definition Get :: "env \<Rightarrow> nat \<Rightarrow> queue \<Rightarrow> int \<Rightarrow> err + task" where
  "Get e i t tid =
     (case stmt e i (case tbl_get tq_id tid t of None \<Rightarrow> Inl ErrNotFound | Some r \<Rightarrow> Inr r) of
        Inl er \<Rightarrow> Inl (EWrap ''queue: get'' er)
      | Inr r \<Rightarrow> wrap ''queue: get: parse completion'' (row_task r))"

fun row_tasks :: "queue_row list \<Rightarrow> err + task list" where
  "row_tasks [] = Inr []"
| "row_tasks (r # rs) =
     (case row_task r of
        Inl er \<Rightarrow> Inl (EWrap ''queue: list: parse completion'' er)
      | Inr k \<Rightarrow> (case row_tasks rs of Inl er \<Rightarrow> Inl er | Inr ks \<Rightarrow> Inr (k # ks)))"

definition List :: "env \<Rightarrow> queue \<Rightarrow> err + task list" where
  "List e t =
     (case stmt e 0 (Inr (order_desc tq_created_at (tbl_rows t))) of
        Inl er \<Rightarrow> Inl (EWrap ''queue: list'' er)
      | Inr rs \<Rightarrow> (case row_tasks rs of Inl er \<Rightarrow> Inl er | Inr ks \<Rightarrow> stmt e 1 (Inr ks)))"

section \<open>Enqueue\<close>

definition isUniqueViolation :: "err \<Rightarrow> bool" where
  "isUniqueViolation er = Contains (ToLower (err_text er)) ''unique''"

definition isBusyError :: "err \<Rightarrow> bool" where
  "isBusyError er = Contains (ToLower (err_text er)) ''database is locked''"

text \<open>
  \<open>retryQueueBusy\<close>: attempt \<open>k\<close> of statement \<open>i\<close> gives the driver's error or \<open>res\<close>; a busy error
  is tried again while attempts are left and the context is not over.
\<close>

fun retry_loop :: "env \<Rightarrow> nat \<Rightarrow> nat \<Rightarrow> nat \<Rightarrow> err + 'a \<Rightarrow> err + 'a \<Rightarrow> err + 'a" where
  "retry_loop e i 0 k res prev = prev"
| "retry_loop e i (Suc n) k res prev =
     (case (case fault e i k of Some er \<Rightarrow> Inl er | None \<Rightarrow> res) of
        Inr a \<Rightarrow> Inr a
      | Inl er \<Rightarrow>
          if \<not> isBusyError er then Inl er
          else (case ctx_done e i k of
                  Some c \<Rightarrow> Inl c
                | None \<Rightarrow> retry_loop e i n (Suc k) res (Inl er)))"

definition retryQueueBusy :: "env \<Rightarrow> nat \<Rightarrow> err + 'a \<Rightarrow> err + 'a" where
  "retryQueueBusy e i res = retry_loop e i queueBusyRetryAttempts 0 res res"

definition lookup_result :: "err + int \<Rightarrow> err + int" where
  "lookup_result r =
     (case r of Inl er \<Rightarrow> if er = ErrNoRows then Inr 0 else Inl er | Inr i \<Rightarrow> Inr i)"

definition lookupActiveTaskID :: "env \<Rightarrow> nat \<Rightarrow> queue \<Rightarrow> string \<Rightarrow> int \<Rightarrow> err + int" where
  "lookupActiveTaskID e i t idemKey cutoff =
     lookup_result (retryQueueBusy e i
       (case first_row (order_desc tq_created_at (tbl_select
            (\<lambda>r. tq_idempotency_key r = idemKey \<and> is_active r \<and> cutoff \<le> tq_created_at r) t)) of
          None \<Rightarrow> Inl ErrNoRows
        | Some r \<Rightarrow> Inr (tq_id r)))"

definition lookupActiveTaskIDAny :: "env \<Rightarrow> nat \<Rightarrow> queue \<Rightarrow> string \<Rightarrow> err + int" where
  "lookupActiveTaskIDAny e i t idemKey =
     lookup_result (retryQueueBusy e i
       (case first_row (order_desc tq_created_at (tbl_select
            (\<lambda>r. tq_idempotency_key r = idemKey \<and> is_active r) t)) of
          None \<Rightarrow> Inl ErrNoRows
        | Some r \<Rightarrow> Inr (tq_id r)))"

text \<open>The row an \<open>INSERT\<close> makes, and the check of the index \<open>task_queue_idem_active\<close>.\<close>

definition new_row :: "string \<times> string \<times> int \<Rightarrow> int \<Rightarrow> queue_row" where
  "new_row a i = (case a of (payload, idemKey, now) \<Rightarrow>
     \<lparr>tq_id = i, tq_payload = payload, tq_idempotency_key = idemKey,
      tq_session_id = tp_session_id (ParseTaskPayload payload), tq_status = StatusPending,
      tq_progress = '''', tq_summary = '''', tq_result = '''', tq_completion = '''',
      tq_timeout_class = TimeoutClassNone, tq_idle_timeout_count = 0, tq_active_timeout_count = 0,
      tq_created_at = now, tq_updated_at = now, tq_started_at = 0, tq_completed_at = 0\<rparr>)"

definition idem_taken :: "queue \<Rightarrow> string \<Rightarrow> bool" where
  "idem_taken t idemKey \<longleftrightarrow>
     idemKey \<noteq> '''' \<and> (\<exists>r \<in> set (tbl_rows t). is_active r \<and> tq_idempotency_key r = idemKey)"

definition insertTask :: "env \<Rightarrow> nat \<Rightarrow> queue \<Rightarrow> string \<Rightarrow> string \<Rightarrow> int \<Rightarrow> (err + int) \<times> queue" where
  "insertTask e i t payload idemKey now =
     (case retryQueueBusy e i
        (if idem_taken t idemKey then Inl (EUnique ''task_queue.idempotency_key'')
         else if max_key < tbl_next t then Inl sqlite_full
         else Inr (tbl_next t)) of
        Inl er \<Rightarrow> (Inl er, t)
      | Inr k \<Rightarrow> (Inr k, tbl_insert (new_row (payload, idemKey, now)) t))"

text \<open>
  The result is the id and whether the task was there already.  The lookup meets \<open>t1\<close>, the insert
  \<open>t2\<close>, the second lookup \<open>t3\<close>; the three are one table when the caller holds a transaction.
\<close>

definition enqueue ::
  "env \<Rightarrow> queue \<Rightarrow> queue \<Rightarrow> queue \<Rightarrow> string \<Rightarrow> string \<Rightarrow> (err + int \<times> bool) \<times> queue" where
  "enqueue e t1 t2 t3 payload idemKey0 =
     (let now = clock e 0;
          idemKey = TrimSpace idemKey0;
          cutoff = now - idempotencyWindow
      in case (if idemKey = '''' then Inr 0 else lookupActiveTaskID e 0 t1 idemKey cutoff) of
           Inl er \<Rightarrow> (Inl (EWrap ''queue: enqueue dedup lookup'' er), t2)
         | Inr existing \<Rightarrow>
             if existing \<noteq> 0 then (Inr (existing, True), t2)
             else
               (case insertTask e 1 t2 payload idemKey now of
                  (Inr i, t') \<Rightarrow>
                    (case stmt e 3 (Inr i) of
                       Inl er \<Rightarrow> (Inl (EWrap ''queue: enqueue: last id'' er), t')
                     | Inr i' \<Rightarrow> (Inr (i', False), t'))
                | (Inl er, t') \<Rightarrow>
                    if idemKey \<noteq> '''' \<and> isUniqueViolation er
                    then (case lookupActiveTaskIDAny e 2 t3 idemKey of
                            Inl er2 \<Rightarrow> (Inl (EWrap ''queue: enqueue unique lookup'' er2), t')
                          | Inr existing2 \<Rightarrow>
                              if existing2 \<noteq> 0 then (Inr (existing2, True), t')
                              else (Inl (EWrap ''queue: enqueue'' er), t'))
                    else (Inl (EWrap ''queue: enqueue'' er), t')))"

definition EnqueueTx :: "env \<Rightarrow> queue \<Rightarrow> string \<Rightarrow> string \<Rightarrow> (err + int \<times> bool) \<times> queue" where
  "EnqueueTx e t payload idemKey = enqueue e t t t payload idemKey"

section \<open>Next\<close>

text \<open>Statements: begin, select, update, commit.\<close>

definition claim_row :: "int \<Rightarrow> queue_row \<Rightarrow> queue_row" where
  "claim_row now r = r\<lparr>tq_status := StatusRunning, tq_started_at := now, tq_updated_at := now\<rparr>"

definition oldest_pending :: "queue \<Rightarrow> queue_row option" where
  "oldest_pending t =
     first_row (order_by tq_created_at (tbl_select (\<lambda>r. tq_status r = StatusPending) t))"

definition Next :: "env \<Rightarrow> queue \<Rightarrow> (err + task option) \<times> queue" where
  "Next e t =
     (case stmt e 0 (Inr ()) of
        Inl er \<Rightarrow> (Inl (EWrap ''queue: next: begin tx'' er), t)
      | Inr _ \<Rightarrow>
     (case stmt e 1 (Inr (oldest_pending t)) of
        Inl er \<Rightarrow> (Inl (EWrap ''queue: next: select'' er), t)
      | Inr None \<Rightarrow> (Inr None, t)
      | Inr (Some r) \<Rightarrow>
          (let now = clock e 0; P = (\<lambda>x. tq_id x = tq_id r \<and> tq_status x = StatusPending) in
           case stmt e 2 (Inr (tbl_affected P t, tbl_update P (claim_row now) t)) of
             Inl er \<Rightarrow> (Inl (EWrap ''queue: next: update'' er), t)
           | Inr (n, t') \<Rightarrow>
               if n = 0 then (Inr None, t)
               else (case stmt e 3 (Inr ()) of
                       Inl er \<Rightarrow> (Inl (EWrap ''queue: next: commit'' er), t)
                     | Inr _ \<Rightarrow>
                         (case row_task (claim_row now r) of
                            Inl er \<Rightarrow> (Inl (EWrap ''queue: next: parse completion'' er), t')
                          | Inr k \<Rightarrow> (Inr (Some k), t'))))))"

section \<open>Updates by id\<close>

definition BindSession :: "env \<Rightarrow> queue \<Rightarrow> int \<Rightarrow> string \<Rightarrow> (err + unit) \<times> queue" where
  "BindSession e t tid sessionID =
     (case stmt e 0 (Inr ()) of
        Inl er \<Rightarrow> (Inl (EWrap ''queue: bind session'' er), t)
      | Inr _ \<Rightarrow> (Inr (), tbl_update (\<lambda>r. tq_id r = tid)
                    (\<lambda>r. r\<lparr>tq_session_id := sessionID, tq_updated_at := clock e 0\<rparr>) t))"

definition UpdateProgress :: "env \<Rightarrow> queue \<Rightarrow> int \<Rightarrow> string \<Rightarrow> (err + unit) \<times> queue" where
  "UpdateProgress e t tid progress =
     (case stmt e 0 (Inr ()) of
        Inl er \<Rightarrow> (Inl (EWrap ''queue: update progress'' er), t)
      | Inr _ \<Rightarrow> (Inr (), tbl_update (\<lambda>r. tq_id r = tid \<and> tq_status r = StatusRunning)
                    (\<lambda>r. r\<lparr>tq_progress := progress, tq_updated_at := clock e 0\<rparr>) t))"

definition annotate_row :: "string \<Rightarrow> string \<Rightarrow> int \<Rightarrow> queue_row \<Rightarrow> queue_row" where
  "annotate_row progress summary now r =
     r\<lparr>tq_progress := (if progress \<noteq> '''' then progress else tq_progress r),
       tq_summary := (if summary \<noteq> '''' then summary else tq_summary r),
       tq_updated_at := now\<rparr>"

text \<open>The task is read in \<open>t1\<close>, written in \<open>t2\<close> and read again in what \<open>other\<close> makes of that.\<close>

definition UpdateAnnotation ::
  "env \<Rightarrow> queue \<Rightarrow> queue \<Rightarrow> (queue \<Rightarrow> queue) \<Rightarrow> int \<Rightarrow> string \<Rightarrow> string \<Rightarrow> (err + task) \<times> queue" where
  "UpdateAnnotation e t1 t2 other tid progress0 summary0 =
     (let progress = TrimSpace progress0; summary = TrimSpace summary0 in
      if tid \<le> 0 then (Inl (EMsg ''queue: update annotation: id must be positive''), t2)
      else if progress = '''' \<and> summary = ''''
      then (Inl (EMsg ''queue: update annotation: progress or summary is required''), t2)
      else
        (case Get e 0 t1 tid of
           Inl er \<Rightarrow> (Inl (EWrap ''queue: update annotation'' er), t2)
         | Inr k \<Rightarrow>
             if tk_status k \<noteq> StatusPending \<and> tk_status k \<noteq> StatusRunning
             then (Inl (EMsg (''queue: update annotation: task '' @ itoa tid @ '' is '' @
                     status_text (tk_status k) @ ''; only pending or running tasks can be updated'')), t2)
             else
               (let P = (\<lambda>r. tq_id r = tid \<and> is_active r) in
                case stmt e 1 (Inr (tbl_affected P t2,
                       tbl_update P (annotate_row progress summary (clock e 0)) t2)) of
                  Inl er \<Rightarrow> (Inl (EWrap ''queue: update annotation'' er), t2)
                | Inr (n, t') \<Rightarrow>
                    if n = 0 then (Inl (EWrap ''queue: update annotation'' ErrNotFound), t')
                    else (Get e 2 (other t') tid, t'))))"

section \<open>Completing a task\<close>

text \<open>\<open>buildCompletionJSON\<close>: statement \<open>i\<close>, clock reading \<open>j\<close>.\<close>

definition build_record ::
  "task \<Rightarrow> task_status \<Rightarrow> string \<Rightarrow> string \<Rightarrow> task_failure_metadata \<Rightarrow> int \<Rightarrow> completion_record" where
  "build_record k status summary fallback meta now =
     (let payload = ParseTaskPayload (tk_payload k);
          failed = (status = StatusFailed)
      in \<lparr>cr_task_id = tk_id k, cr_session_id = tk_session_id k, cr_origin_surface = tp_surface payload,
          cr_delivery_targets =
            deliveryTargetStrings (parseDeliveryTargetsLenient (tp_delivery_targets payload)),
          cr_summary = completionSummary status summary fallback, cr_status = status_text status,
          cr_failure_class = (if failed then fm_failure_class meta else ''''),
          cr_should_retire_session = (failed \<and> fm_should_retire_session meta),
          cr_session_retirement_reason = (if failed then fm_session_retirement_reason meta else ''''),
          cr_next_action = (if failed then fm_next_action meta else ''''),
          cr_created_at = tk_created_at k, cr_started_at = tk_started_at k, cr_completed_at = now\<rparr>)"

definition buildCompletionJSON ::
  "env \<Rightarrow> nat \<Rightarrow> nat \<Rightarrow> queue \<Rightarrow> int \<Rightarrow> task_status \<Rightarrow> string \<Rightarrow> string \<Rightarrow> task_failure_metadata
     \<Rightarrow> err + string" where
  "buildCompletionJSON e i j t tid status summary fallback meta =
     (case Get e i t tid of
        Inl er \<Rightarrow> Inl er
      | Inr k \<Rightarrow> Inr (print_json (completion_json
                   (build_record k status summary fallback meta (clock e j)))))"

definition finish_row ::
  "task_status \<Rightarrow> string \<Rightarrow> string \<Rightarrow> string \<Rightarrow> string \<Rightarrow> int \<Rightarrow> int \<Rightarrow> queue_row \<Rightarrow> queue_row" where
  "finish_row status progress summary result completion updated completed r =
     r\<lparr>tq_status := status, tq_progress := progress, tq_summary := summary, tq_result := result,
       tq_completion := completion, tq_updated_at := updated, tq_completed_at := completed\<rparr>"

definition MarkDone ::
  "env \<Rightarrow> queue \<Rightarrow> queue \<Rightarrow> int \<Rightarrow> string \<Rightarrow> string \<Rightarrow> (err + unit) \<times> queue" where
  "MarkDone e t1 t2 tid result summary =
     (case buildCompletionJSON e 0 0 t1 tid StatusDone summary result metadata_zero of
        Inl er \<Rightarrow> (Inl (EWrap ''queue: mark done'' er), t2)
      | Inr cj \<Rightarrow>
          (let P = (\<lambda>r. tq_id r = tid \<and> tq_status r = StatusRunning) in
           case stmt e 1 (Inr (tbl_affected P t2,
                  tbl_update P (finish_row StatusDone ''completed'' summary result cj
                    (clock e 1) (clock e 2)) t2)) of
             Inl er \<Rightarrow> (Inl (EWrap ''queue: mark done'' er), t2)
           | Inr (n, t') \<Rightarrow>
               if n = 0 then (Inl (EWrap ''queue: mark done'' ErrNotFound), t') else (Inr (), t')))"

definition MarkFailedWithMetadata ::
  "env \<Rightarrow> queue \<Rightarrow> queue \<Rightarrow> int \<Rightarrow> string \<Rightarrow> task_failure_metadata \<Rightarrow> (err + unit) \<times> queue" where
  "MarkFailedWithMetadata e t1 t2 tid errMsg meta0 =
     (let meta = meta0\<lparr>fm_failure_class := TrimSpace (fm_failure_class meta0),
            fm_session_retirement_reason := TrimSpace (fm_session_retirement_reason meta0),
            fm_next_action := TrimSpace (fm_next_action meta0)\<rparr> in
      case buildCompletionJSON e 0 0 t1 tid StatusFailed '''' errMsg meta of
        Inl er \<Rightarrow> (Inl (EWrap ''queue: mark failed'' er), t2)
      | Inr cj \<Rightarrow>
          (let P = (\<lambda>r. tq_id r = tid \<and> tq_status r = StatusRunning) in
           case stmt e 1 (Inr (tbl_affected P t2,
                  tbl_update P (\<lambda>r. (finish_row StatusFailed ''failed''
                      (completionSummary StatusFailed '''' errMsg) errMsg cj (clock e 1) (clock e 2) r)
                      \<lparr>tq_timeout_class := fm_timeout_class meta\<rparr>) t2)) of
             Inl er \<Rightarrow> (Inl (EWrap ''queue: mark failed'' er), t2)
           | Inr (n, t') \<Rightarrow>
               if n = 0 then (Inl (EWrap ''queue: mark failed'' ErrNotFound), t') else (Inr (), t')))"

definition MarkFailedWithTimeoutClass ::
  "env \<Rightarrow> queue \<Rightarrow> queue \<Rightarrow> int \<Rightarrow> string \<Rightarrow> timeout_class \<Rightarrow> (err + unit) \<times> queue" where
  "MarkFailedWithTimeoutClass e t1 t2 tid errMsg tc =
     MarkFailedWithMetadata e t1 t2 tid errMsg (metadata_zero\<lparr>fm_timeout_class := tc\<rparr>)"

definition MarkFailed :: "env \<Rightarrow> queue \<Rightarrow> queue \<Rightarrow> int \<Rightarrow> string \<Rightarrow> (err + unit) \<times> queue" where
  "MarkFailed e t1 t2 tid errMsg = MarkFailedWithTimeoutClass e t1 t2 tid errMsg TimeoutClassNone"

section \<open>Cancelling\<close>

definition cancel_metadata :: task_failure_metadata where
  "cancel_metadata = metadata_zero\<lparr>fm_failure_class := failureClassTaskCanceled,
     fm_next_action := nextActionOperatorCancelled\<rparr>"

text \<open>The update both cancellations end with: statement \<open>i\<close>, clock reading \<open>j\<close>.\<close>

definition cancel_row :: "env \<Rightarrow> nat \<Rightarrow> nat \<Rightarrow> queue \<Rightarrow> int \<Rightarrow> string \<Rightarrow> string \<Rightarrow> err + nat \<times> queue" where
  "cancel_row e i j t tid reason cj =
     (let P = (\<lambda>r. tq_id r = tid \<and> tq_status r = StatusPending) in
      stmt e i (Inr (tbl_affected P t,
        tbl_update P (finish_row StatusFailed ''cancelled''
          (completionSummary StatusFailed '''' reason) reason cj (clock e j) (clock e j)) t)))"

text \<open>The newest pending task is found in \<open>t1\<close>, read in \<open>t2\<close>, written in \<open>t3\<close>.\<close>

definition CancelPendingTask ::
  "env \<Rightarrow> queue \<Rightarrow> queue \<Rightarrow> queue \<Rightarrow> string \<Rightarrow> (err + int \<times> bool) \<times> queue" where
  "CancelPendingTask e t1 t2 t3 reason =
     (case stmt e 0 (Inr (first_row (order_desc tq_created_at
             (tbl_select (\<lambda>r. tq_status r = StatusPending) t1)))) of
        Inl er \<Rightarrow> (Inl (EWrap ''queue: cancel pending: select'' er), t3)
      | Inr None \<Rightarrow> (Inr (0, False), t3)
      | Inr (Some r) \<Rightarrow>
          (case buildCompletionJSON e 1 0 t2 (tq_id r) StatusFailed '''' reason cancel_metadata of
             Inl er \<Rightarrow> (Inl (EWrap ''queue: cancel pending: build completion'' er), t3)
           | Inr cj \<Rightarrow>
               (case cancel_row e 2 1 t3 (tq_id r) reason cj of
                  Inl er \<Rightarrow> (Inl (EWrap ''queue: cancel pending: update'' er), t3)
                | Inr (n, t') \<Rightarrow>
                    if n = 0 then (Inr (0, False), t') else (Inr (tq_id r, True), t'))))"

text \<open>The task is read in \<open>t1\<close>, read again for its completion in \<open>t2\<close>, written in \<open>t3\<close>.\<close>

definition CancelTask ::
  "env \<Rightarrow> queue \<Rightarrow> queue \<Rightarrow> queue \<Rightarrow> int \<Rightarrow> string \<Rightarrow> (err + unit) \<times> queue" where
  "CancelTask e t1 t2 t3 tid reason0 =
     (if tid \<le> 0 then (Inl (EMsg ''queue: cancel task: id must be positive''), t3)
      else
        (let r0 = TrimSpace reason0; reason = (if r0 = '''' then ''task cancelled'' else r0) in
         case Get e 0 t1 tid of
           Inl er \<Rightarrow> (Inl (EWrap ''queue: cancel task'' er), t3)
         | Inr k \<Rightarrow>
             if tk_status k \<noteq> StatusPending
             then (Inl (EMsg (''queue: cancel task: task '' @ itoa tid @ '' is '' @
                     status_text (tk_status k) @ ''; only pending tasks can be stopped'')), t3)
             else
               (case buildCompletionJSON e 1 0 t2 tid StatusFailed '''' reason cancel_metadata of
                  Inl er \<Rightarrow> (Inl (EWrap ''queue: cancel task: build completion'' er), t3)
                | Inr cj \<Rightarrow>
                    (case cancel_row e 2 1 t3 tid reason cj of
                       Inl er \<Rightarrow> (Inl (EWrap ''queue: cancel task: update'' er), t3)
                     | Inr (n, t') \<Rightarrow>
                         if n = 0 then (Inl (EWrap ''queue: cancel task'' ErrNotFound), t')
                         else (Inr (), t')))))"

section \<open>Recovery\<close>

definition classifyTimeout :: "int \<Rightarrow> int \<Rightarrow> timeout_class" where
  "classifyTimeout startedAt updatedAt =
     (if updatedAt > startedAt \<and> startedAt > 0 then TimeoutClassActiveButKilled else TimeoutClassIdle)"

text \<open>The message of a task that was recovered too often, and the row it becomes.\<close>

definition recovery_message :: "int \<Rightarrow> string" where
  "recovery_message attempts = ''task failed after '' @ itoa (attempts - 1) @ '' recovery attempts''"

definition give_up_row :: "int \<Rightarrow> queue_row \<Rightarrow> int \<Rightarrow> int \<Rightarrow> timeout_class \<Rightarrow> queue_row \<Rightarrow> queue_row" where
  "give_up_row now s idleInc activeInc tc r =
     (let errMsg = recovery_message (tq_idle_timeout_count s + tq_active_timeout_count s + idleInc + activeInc);
          cj = print_json (completion_json (completion_zero\<lparr>cr_task_id := tq_id s,
                 cr_session_id := tq_session_id s,
                 cr_summary := completionSummary StatusFailed '''' errMsg,
                 cr_status := status_text StatusFailed, cr_created_at := tq_created_at s,
                 cr_started_at := tq_started_at s, cr_completed_at := now\<rparr>))
      in (finish_row StatusFailed ''failed'' (completionSummary StatusFailed '''' errMsg) errMsg cj now now r)
         \<lparr>tq_timeout_class := tc, tq_idle_timeout_count := tq_idle_timeout_count r + idleInc,
          tq_active_timeout_count := tq_active_timeout_count r + activeInc\<rparr>)"

definition recover_row :: "int \<Rightarrow> int \<Rightarrow> int \<Rightarrow> timeout_class \<Rightarrow> queue_row \<Rightarrow> queue_row" where
  "recover_row now idleInc activeInc tc r =
     r\<lparr>tq_status := StatusPending, tq_progress := ''recovered'', tq_timeout_class := tc,
       tq_idle_timeout_count := tq_idle_timeout_count r + idleInc,
       tq_active_timeout_count := tq_active_timeout_count r + activeInc,
       tq_started_at := 0, tq_updated_at := now\<rparr>"

text \<open>
  The body of the loop for the selected row \<open>s\<close>: whether the task is recovered (and not failed),
  and what its update makes of the row.
\<close>

definition recover_step :: "int \<Rightarrow> int \<Rightarrow> queue_row \<Rightarrow> bool \<times> (queue_row \<Rightarrow> queue_row)" where
  "recover_step now maxRecoveries s =
     (let tc = classifyTimeout (tq_started_at s) (tq_updated_at s);
          activeInc = (if tc = TimeoutClassActiveButKilled then 1 else 0);
          idleInc = (if tc = TimeoutClassActiveButKilled then 0 else 1);
          total = tq_idle_timeout_count s + tq_active_timeout_count s + idleInc + activeInc
      in if maxRecoveries > 0 \<and> total > maxRecoveries
         then (False, give_up_row now s idleInc activeInc tc)
         else (True, recover_row now idleInc activeInc tc))"

text \<open>The loop over the selected rows; the update of the \<open>j\<close>-th is statement \<open>4 + j\<close>.\<close>

fun recover_rows :: "env \<Rightarrow> int \<Rightarrow> int \<Rightarrow> nat \<Rightarrow> queue_row list \<Rightarrow> int \<Rightarrow> queue \<Rightarrow> err + int \<times> queue" where
  "recover_rows e now maxRecoveries j [] recovered t = Inr (recovered, t)"
| "recover_rows e now maxRecoveries j (s # ss) recovered t =
     (case recover_step now maxRecoveries s of
        (back, f) \<Rightarrow>
          (case stmt e (4 + j) (Inr (tbl_update (\<lambda>r. tq_id r = tq_id s) f t)) of
             Inl er \<Rightarrow> Inl (EWrap ((if back then ''queue: recover stale: update '' else
                              ''queue: recover stale: fail '') @ itoa (tq_id s)) er)
           | Inr t' \<Rightarrow> recover_rows e now maxRecoveries (Suc j) ss
                        (if back then recovered + 1 else recovered) t'))"

definition is_stale :: "int \<Rightarrow> queue_row \<Rightarrow> bool" where
  "is_stale cutoff r \<longleftrightarrow>
     tq_status r = StatusRunning \<and> tq_started_at r > 0 \<and> tq_updated_at r < cutoff"

definition RecoverStale :: "env \<Rightarrow> queue \<Rightarrow> int \<Rightarrow> int \<Rightarrow> (err + int) \<times> queue" where
  "RecoverStale e t staleTimeout maxRecoveries =
     (let cutoff = clock e 0 - staleTimeout; now = clock e 1 in
      case stmt e 0 (Inr ()) of
        Inl er \<Rightarrow> (Inl (EWrap ''queue: recover stale: begin tx'' er), t)
      | Inr _ \<Rightarrow>
     (case stmt e 1 (Inr (tbl_select (is_stale cutoff) t)) of
        Inl er \<Rightarrow> (Inl (EWrap ''queue: recover stale: select'' er), t)
      | Inr rows \<Rightarrow>
     (case recover_rows e now maxRecoveries 0 rows 0 t of
        Inl er \<Rightarrow> (Inl er, t)
      | Inr (n, t') \<Rightarrow>
     (case stmt e 2 (Inr ()) of
        Inl er \<Rightarrow> (Inl (EWrap ''queue: recover stale: rows'' er), t)
      | Inr _ \<Rightarrow>
     (case stmt e 3 (Inr ()) of
        Inl er \<Rightarrow> (Inl (EWrap ''queue: recover stale: commit'' er), t)
      | Inr _ \<Rightarrow> (Inr n, t'))))))"

section \<open>Metrics\<close>

text \<open>The rate is the pair of its numerator and denominator; Go divides them as float64.\<close>

record timeout_metrics =
  tm_idle_recoveries :: int
  tm_active_but_killed_recoveries :: int
  tm_false_timeout_rate :: "int \<times> int"

definition TimeoutMetrics :: "env \<Rightarrow> queue \<Rightarrow> err + timeout_metrics" where
  "TimeoutMetrics e t =
     (case stmt e 0 (Inr (sum_list (map tq_idle_timeout_count (tbl_rows t)),
                          sum_list (map tq_active_timeout_count (tbl_rows t)))) of
        Inl er \<Rightarrow> Inl (EWrap ''queue: timeout metrics'' er)
      | Inr (idle, active) \<Rightarrow>
          (let total = idle + active in
           Inr \<lparr>tm_idle_recoveries = idle, tm_active_but_killed_recoveries = active,
                tm_false_timeout_rate = (if total > 0 then (active, total) else (0, 1))\<rparr>))"

section \<open>The schema\<close>

text \<open>
  What \<open>newQueue\<close> meets: the table with its columns (\<open>None\<close> before it exists) and whether the
  unique index is there.  A column that is added holds its default in every row.
\<close>

record queue_db =
  qd_columns :: "string list option"
  qd_index :: bool
  qd_table :: queue

definition schema_columns :: "string list" where
  "schema_columns = [''id'', ''payload'', ''idempotency_key'', ''session_id'', ''status'', ''progress'',
     ''summary'', ''result'', ''completion'', ''timeout_class'', ''idle_timeout_count'',
     ''active_timeout_count'', ''created_at'', ''updated_at'', ''started_at'', ''completed_at'']"

definition migrations :: "string list" where
  "migrations = [''idempotency_key'', ''session_id'', ''progress'', ''summary'', ''result'',
     ''completion'', ''timeout_class'', ''idle_timeout_count'', ''active_timeout_count'',
     ''updated_at'', ''started_at'', ''completed_at'']"

text \<open>Statement \<open>i\<close> of the loop adds the first missing column of the rest.\<close>

fun add_columns :: "env \<Rightarrow> nat \<Rightarrow> string list \<Rightarrow> string list \<Rightarrow> string list \<Rightarrow> (err + unit) \<times> string list" where
  "add_columns e i cols [] now_cols = (Inr (), now_cols)"
| "add_columns e i cols (m # ms) now_cols =
     (if m \<in> set cols then add_columns e i cols ms now_cols
      else (case stmt e i (Inr ()) of
              Inl er \<Rightarrow> (Inl er, now_cols)
            | Inr _ \<Rightarrow> add_columns e (Suc i) cols ms (now_cols @ [m])))"

definition ensureColumns :: "env \<Rightarrow> nat \<Rightarrow> string list \<Rightarrow> (err + unit) \<times> string list" where
  "ensureColumns e i cols =
     (case stmt e i (Inr ()) of
        Inl er \<Rightarrow> (Inl er, cols)
      | Inr _ \<Rightarrow> add_columns e (Suc i) cols migrations cols)"

definition idem_index_ok :: "queue \<Rightarrow> bool" where
  "idem_index_ok t \<longleftrightarrow>
     unique_on (\<lambda>r. is_active r \<and> tq_idempotency_key r \<noteq> '''') tq_idempotency_key (tbl_rows t)"

text \<open>
  Statements: create table (0), the three plain indexes (1 to 3), the unique index (4), the
  columns (5 on); the recovery runs in \<open>e'\<close>.  The schema statements are no transaction.
\<close>

definition newQueue :: "env \<Rightarrow> env \<Rightarrow> queue_db \<Rightarrow> bool \<Rightarrow> (err + unit) \<times> queue_db" where
  "newQueue e e' d recoverStale =
     (case stmt e 0 (Inr ()) of
        Inl er \<Rightarrow> (Inl (EWrap ''queue: init schema'' er), d)
      | Inr _ \<Rightarrow>
     (let cols = (case qd_columns d of None \<Rightarrow> schema_columns | Some cs \<Rightarrow> cs);
          d1 = d\<lparr>qd_columns := Some cols\<rparr>
      in case ensureColumns e 5 cols of
        (Inl er, cs) \<Rightarrow> (Inl (EWrap ''queue: ensure schema columns'' er), d1\<lparr>qd_columns := Some cs\<rparr>)
      | (Inr _, cs) \<Rightarrow>
     (let d2 = d1\<lparr>qd_columns := Some cs\<rparr> in
      case (case stmt e 1 (Inr ()) of Inl er \<Rightarrow> Inl er | Inr (_::unit) \<Rightarrow>
           (case stmt e 2 (Inr ()) of Inl er \<Rightarrow> Inl er | Inr (_::unit) \<Rightarrow> stmt e 3 (Inr ()))) of
        Inl er \<Rightarrow> (Inl (EWrap ''queue: create index'' er), d2)
      | Inr (_::unit) \<Rightarrow>
     (case stmt e 4 (if qd_index d \<or> idem_index_ok (qd_table d) then Inr ()
             else Inl (EUnique ''task_queue.idempotency_key'')) of
        Inl er \<Rightarrow> (Inl (EWrap ''queue: create idempotency index'' er), d2)
      | Inr (_::unit) \<Rightarrow>
     (let d3 = d2\<lparr>qd_index := True\<rparr> in
      if \<not> recoverStale then (Inr (), d3)
      else (case RecoverStale e' (qd_table d3) defaultStaleTimeout defaultMaxRecoveries of
              (Inl er, t') \<Rightarrow> (Inl (EWrap ''queue: recover stale'' er), d3\<lparr>qd_table := t'\<rparr>)
            | (Inr n, t') \<Rightarrow> (Inr (), d3\<lparr>qd_table := t'\<rparr>)))))))"

end
