(* ===== verification/Queue_Invariants.thy ===== *)
theory Queue_Invariants
  imports Task_Queue
begin

text \<open>
  What the operations of the queue keep: the invariant of the table (keys, the unique index on the
  active keys, a completion column that decodes and agrees with the status), the transitions of a
  row, and both along every history, in which operations interleave: the reads of an operation
  may meet any table of the past, its write meets the newest.
\<close>

section \<open>The completion column\<close>

definition record_int64 :: "completion_record \<Rightarrow> bool" where
  "record_int64 c \<longleftrightarrow> int64 (cr_task_id c) \<and> int64 (cr_created_at c) \<and> int64 (cr_started_at c) \<and>
     int64 (cr_completed_at c)"

lemma dec_int64_itoa [simp]: "int64 i \<Longrightarrow> dec_int64 (JNum (itoa i)) old = (i, True)"
  by (simp add: dec_int64_def int64_def ParseInt_itoa)

lemma dec_bool_JBool [simp]: "dec_bool (JBool b) old = (b, True)"
  by (simp add: dec_bool_def)

lemma completion_literals [simp]:
  "ToLower ''task_id'' = ''task_id''" "ToLower ''origin_surface'' = ''origin_surface''"
  "ToLower ''summary'' = ''summary''" "ToLower ''status'' = ''status''"
  "ToLower ''failure_class'' = ''failure_class''"
  "ToLower ''should_retire_session'' = ''should_retire_session''"
  "ToLower ''session_retirement_reason'' = ''session_retirement_reason''"
  "ToLower ''next_action'' = ''next_action''" "ToLower ''created_at'' = ''created_at''"
  "ToLower ''started_at'' = ''started_at''" "ToLower ''completed_at'' = ''completed_at''"
  by (simp_all add: ToLower_def lower_char_def)

lemma completion_fields:
  "int64 i \<Longrightarrow> set_completion_field ''task_id'' (JNum (itoa i)) p = (p\<lparr>cr_task_id := i\<rparr>, True)"
  "set_completion_field ''session_id'' (JStr s) p = (p\<lparr>cr_session_id := s\<rparr>, True)"
  "set_completion_field ''origin_surface'' (JStr s) p = (p\<lparr>cr_origin_surface := s\<rparr>, True)"
  "set_completion_field ''delivery_targets'' (JArr (map JStr xs)) p =
     (p\<lparr>cr_delivery_targets := xs\<rparr>, True)"
  "set_completion_field ''summary'' (JStr s) p = (p\<lparr>cr_summary := s\<rparr>, True)"
  "set_completion_field ''status'' (JStr s) p = (p\<lparr>cr_status := s\<rparr>, True)"
  "set_completion_field ''failure_class'' (JStr s) p = (p\<lparr>cr_failure_class := s\<rparr>, True)"
  "set_completion_field ''should_retire_session'' (JBool b) p =
     (p\<lparr>cr_should_retire_session := b\<rparr>, True)"
  "set_completion_field ''session_retirement_reason'' (JStr s) p =
     (p\<lparr>cr_session_retirement_reason := s\<rparr>, True)"
  "set_completion_field ''next_action'' (JStr s) p = (p\<lparr>cr_next_action := s\<rparr>, True)"
  "int64 i \<Longrightarrow> set_completion_field ''created_at'' (JNum (itoa i)) p = (p\<lparr>cr_created_at := i\<rparr>, True)"
  "int64 i \<Longrightarrow> set_completion_field ''started_at'' (JNum (itoa i)) p = (p\<lparr>cr_started_at := i\<rparr>, True)"
  "int64 i \<Longrightarrow>
     set_completion_field ''completed_at'' (JNum (itoa i)) p = (p\<lparr>cr_completed_at := i\<rparr>, True)"
  by (simp_all add: set_completion_field_def)

lemma dec_completion_json:
  "record_int64 p \<Longrightarrow> dec_struct set_completion_field (completion_json p) completion_zero = (p, True)"
  by (cases p)
    (simp add: dec_struct_def completion_json_def opt_member_def completion_fields completion_zero_def
      dec_members_append record_int64_def)

lemma completion_json_wf: "json_wf (completion_json p)"
  by (auto simp: completion_json_def opt_member_def list_all_iff)

lemma completion_text:
  "TrimSpace (print_json (completion_json p)) = print_json (completion_json p)"
  "print_json (completion_json p) \<noteq> ''''"
proof -
  obtain t where "print_json (completion_json p) = CHR ''{'' # t @ ''}''"
    by (simp add: completion_json_def)
  then show "TrimSpace (print_json (completion_json p)) = print_json (completion_json p)"
    "print_json (completion_json p) \<noteq> ''''"
    using trimmed_TrimSpace[OF trimmed_braces[of t]] by simp_all
qed

lemma parse_completion_print:
  "record_int64 p \<Longrightarrow>
     parseTaskCompletion (print_json (completion_json p)) = Inr (Some (completion_of_record p))"
  by (simp add: parseTaskCompletion_def completion_text unmarshal_struct_def json_parse_print
      completion_json_wf dec_completion_json)

section \<open>The invariant\<close>

definition is_terminal :: "queue_row \<Rightarrow> bool" where
  "is_terminal r \<longleftrightarrow> tq_status r = StatusDone \<or> tq_status r = StatusFailed"

lemma is_terminal_iff: "is_terminal r \<longleftrightarrow> \<not> is_active r"
  by (cases "tq_status r") (auto simp: is_terminal_def is_active_def)

text \<open>The completion text of a record for task \<open>tid\<close> with status \<open>st\<close>.\<close>

definition completes :: "string \<Rightarrow> int \<Rightarrow> task_status \<Rightarrow> bool" where
  "completes cj tid st \<longleftrightarrow> (\<exists>c. cj = print_json (completion_json c) \<and> record_int64 c \<and>
     cr_task_id c = tid \<and> cr_status c = status_text st)"

text \<open>An active row has no completion; a finished one has the text of a record with its id and status.\<close>

definition completion_matches :: "queue_row \<Rightarrow> bool" where
  "completion_matches r \<longleftrightarrow>
     (if is_active r then tq_completion r = ''''
      else completes (tq_completion r) (tq_id r) (tq_status r))"

definition row_ok :: "queue_row \<Rightarrow> bool" where
  "row_ok r \<longleftrightarrow> int64 (tq_id r) \<and> int64 (tq_created_at r) \<and> int64 (tq_started_at r) \<and>
     0 \<le> tq_idle_timeout_count r \<and> 0 \<le> tq_active_timeout_count r \<and>
     (tq_idle_timeout_count r + tq_active_timeout_count r \<le>
        (if is_active r then defaultMaxRecoveries else defaultMaxRecoveries + 1)) \<and>
     completion_matches r"

definition queue_inv :: "queue \<Rightarrow> bool" where
  "queue_inv t \<longleftrightarrow> keys_ok tq_id t \<and> tbl_next t \<le> max_key + 1 \<and> idem_index_ok t \<and>
     (\<forall>r \<in> set (tbl_rows t). row_ok r)"

lemma queue_inv_empty [simp]: "queue_inv tbl_empty"
  by (simp add: queue_inv_def idem_index_ok_def unique_on_def max_key_def)
    (simp add: tbl_empty_def)

lemma row_task_ok:
  assumes "row_ok r"
  obtains k where "row_task r = Inr k" and "tk_id k = tq_id r" and "tk_created_at k = tq_created_at r"
    and "tk_started_at k = tq_started_at r" and "tk_status k = tq_status r"
    and "(tk_completion k = None) = is_active r"
proof (cases "is_active r")
  case True
  with assms have "tq_completion r = ''''" by (simp add: row_ok_def completion_matches_def)
  with True that show thesis by (simp add: row_task_def parseTaskCompletion_def)
next
  case False
  with assms obtain c where "tq_completion r = print_json (completion_json c)" "record_int64 c"
    by (auto simp: row_ok_def completion_matches_def completes_def)
  with False that show thesis by (simp add: row_task_def parse_completion_print)
qed

lemma Get_task:
  assumes "queue_inv t" and "Get e i t tid = Inr k"
  shows "\<exists>r \<in> set (tbl_rows t). tq_id r = tid \<and> row_task r = Inr k \<and> tk_id k = tid \<and>
    tk_status k = tq_status r \<and> int64 (tk_id k) \<and> int64 (tk_created_at k) \<and> int64 (tk_started_at k)"
proof -
  from assms(2) obtain r where r: "tbl_get tq_id tid t = Some r" "row_task r = Inr k"
    by (auto simp: Get_def split: sum.splits option.splits)
  then have "r \<in> set (tbl_rows t)" "tq_id r = tid" using tbl_get_SomeD by metis+
  moreover from this assms(1) have ok: "row_ok r" by (auto simp: queue_inv_def)
  moreover from ok r(2) have "tk_id k = tq_id r" "tk_created_at k = tq_created_at r"
    "tk_started_at k = tq_started_at r" "tk_status k = tq_status r"
    by (auto elim!: row_task_ok)
  ultimately show ?thesis using r(2) by (auto simp: row_ok_def)
qed

text \<open>The text \<open>buildCompletionJSON\<close> returns is the text of a record for that task.\<close>

lemma build_completion:
  assumes "queue_inv t" and "env_int64 e"
    and "buildCompletionJSON e i j t tid status summary fallback meta = Inr cj"
  shows "\<exists>c. cj = print_json (completion_json c) \<and> record_int64 c \<and> cr_task_id c = tid \<and>
    cr_status c = status_text status"
proof -
  from assms(3) obtain k where k: "Get e i t tid = Inr k"
    and cj: "cj = print_json (completion_json (build_record k status summary fallback meta (clock e j)))"
    by (auto simp: buildCompletionJSON_def split: sum.splits)
  let ?c = "build_record k status summary fallback meta (clock e j)"
  have "record_int64 ?c" "cr_task_id ?c = tid" "cr_status ?c = status_text status"
    using Get_task[OF assms(1) k] assms(2)
    by (auto simp: build_record_def Let_def record_int64_def)
  with cj show ?thesis by blast
qed

section \<open>Transitions\<close>

text \<open>What one operation may do to the status of a task.\<close>

fun status_next :: "task_status \<Rightarrow> task_status \<Rightarrow> bool" where
  "status_next StatusPending s = (s \<noteq> StatusDone)"
| "status_next StatusRunning s = True"
| "status_next s s' = (s' = s)"

text \<open>
  What any number of operations may do to a row: the identity of the task stays, a finished task
  keeps everything but its session and its time stamp, the recoveries only grow.
\<close>

definition row_later :: "queue_row \<Rightarrow> queue_row \<Rightarrow> bool" where
  "row_later r r' \<longleftrightarrow>
     tq_id r' = tq_id r \<and> tq_payload r' = tq_payload r \<and>
     tq_idempotency_key r' = tq_idempotency_key r \<and> tq_created_at r' = tq_created_at r \<and>
     tq_idle_timeout_count r \<le> tq_idle_timeout_count r' \<and>
     tq_active_timeout_count r \<le> tq_active_timeout_count r' \<and>
     (is_terminal r \<longrightarrow>
        r' = r\<lparr>tq_session_id := tq_session_id r', tq_updated_at := tq_updated_at r'\<rparr>)"

definition row_step :: "queue_row \<Rightarrow> queue_row \<Rightarrow> bool" where
  "row_step r r' \<longleftrightarrow> row_later r r' \<and> status_next (tq_status r) (tq_status r')"

lemma status_next_refl [simp]: "status_next s s"
  by (cases s) auto

lemma row_later_refl [simp]: "row_later r r"
  by (simp add: row_later_def)

lemma row_step_refl [simp]: "row_step r r"
  by (simp add: row_step_def)

lemma frozen_terminal:
  "r' = r\<lparr>tq_session_id := s, tq_updated_at := u\<rparr> \<Longrightarrow> is_terminal r' = is_terminal r"
  by (simp add: is_terminal_def)

lemma row_later_trans: "row_later r r' \<Longrightarrow> row_later r' r'' \<Longrightarrow> row_later r r''"
proof -
  assume a: "row_later r r'" and b: "row_later r' r''"
  have "r'' = r\<lparr>tq_session_id := tq_session_id r'', tq_updated_at := tq_updated_at r''\<rparr>"
    if t: "is_terminal r"
  proof -
    have r': "r' = r\<lparr>tq_session_id := tq_session_id r', tq_updated_at := tq_updated_at r'\<rparr>"
      using a t by (simp add: row_later_def)
    then have "is_terminal r'" using t frozen_terminal by blast
    then have "r'' = r'\<lparr>tq_session_id := tq_session_id r'', tq_updated_at := tq_updated_at r''\<rparr>"
      using b by (simp add: row_later_def)
    then show ?thesis by (subst (asm) r') simp
  qed
  with a b show ?thesis by (auto simp: row_later_def)
qed

text \<open>The outcome of one operation on a table that satisfies the invariant.\<close>

definition step_ok :: "queue \<Rightarrow> queue \<Rightarrow> bool" where
  "step_ok t t' \<longleftrightarrow> queue_inv t' \<and> table_rel tq_id row_step t t'"

lemma step_ok_refl [inv_intros]: "queue_inv t \<Longrightarrow> step_ok t t"
  by (simp add: step_ok_def table_rel_refl)

lemma active_of_step: "row_step r r' \<Longrightarrow> is_active r' \<Longrightarrow> is_active r"
  by (auto simp: row_step_def is_active_def elim!: status_next.elims)

lemma step_ok_map:
  assumes inv: "queue_inv t" and t': "t' = t\<lparr>tbl_rows := map f (tbl_rows t)\<rparr>"
    and id: "\<And>r. tq_id (f r) = tq_id r"
    and ok: "\<And>r. r \<in> set (tbl_rows t) \<Longrightarrow> row_ok r \<Longrightarrow> row_ok (f r) \<and> row_step r (f r)"
  shows "step_ok t t'"
proof -
  have upd: "t' = tbl_update (\<lambda>_. True) f t" by (simp add: t' tbl_update_def)
  have "unique_on (\<lambda>r. is_active r \<and> tq_idempotency_key r \<noteq> '''') tq_idempotency_key
      (map f (tbl_rows t))"
  proof (rule unique_on_update)
    show "unique_on (\<lambda>r. is_active r \<and> tq_idempotency_key r \<noteq> '''') tq_idempotency_key (tbl_rows t)"
      using inv by (simp add: queue_inv_def idem_index_ok_def)
  next
    fix r assume r: "r \<in> set (tbl_rows t)" "is_active (f r) \<and> tq_idempotency_key (f r) \<noteq> ''''"
    then have "row_step r (f r)" using ok inv by (simp add: queue_inv_def)
    with r(2) active_of_step[of r "f r"]
    show "(is_active r \<and> tq_idempotency_key r \<noteq> '''') \<and>
        tq_idempotency_key (f r) = tq_idempotency_key r"
      by (simp add: row_step_def row_later_def)
  qed
  then have "queue_inv t'"
    using inv ok keys_ok_update[of tq_id t f "\<lambda>_. True"] id
    by (auto simp: queue_inv_def idem_index_ok_def upd)
  moreover have "table_rel tq_id row_step t t'"
  proof -
    have "rel_option row_step (tbl_get tq_id i t) (tbl_get tq_id i t')" for i
    proof (cases "tbl_get tq_id i t")
      case (Some r)
      then have "r \<in> set (tbl_rows t)" using tbl_get_SomeD by metis
      then have "row_step r (f r)" using ok inv by (simp add: queue_inv_def)
      with Some show ?thesis by (simp add: upd tbl_get_update id)
    qed (simp add: upd tbl_get_update id)
    then show ?thesis by (simp add: table_rel_def t')
  qed
  ultimately show ?thesis by (simp add: step_ok_def)
qed

lemma step_ok_update [inv_intros]:
  assumes "queue_inv t" and "\<And>r. tq_id (f r) = tq_id r"
    and "\<And>r. r \<in> set (tbl_rows t) \<Longrightarrow> P r \<Longrightarrow> row_ok r \<Longrightarrow> row_ok (f r) \<and> row_step r (f r)"
  shows "step_ok t (tbl_update P f t)"
  by (rule step_ok_map[where f = "\<lambda>r. if P r then f r else r"])
    (use assms in \<open>auto simp: tbl_update_def\<close>)

section \<open>Each operation keeps the invariant\<close>

interpretation queue_table: keyed_table tq_id new_row
  by unfold_locales (simp add: new_row_def split: prod.split)

lemma new_row_ok:
  "int64 i \<Longrightarrow> int64 now \<Longrightarrow> row_ok (new_row (payload, key, now) i)"
  by (simp add: row_ok_def new_row_def is_active_def completion_matches_def defaultMaxRecoveries_def)

lemma step_ok_insert [inv_intros]:
  assumes inv: "queue_inv t" and free: "\<not> idem_taken t key" and below: "tbl_next t \<le> max_key"
    and now: "int64 now"
  shows "step_ok t (tbl_insert (new_row (payload, key, now)) t)"
proof -
  let ?r = "new_row (payload, key, now) (tbl_next t)"
  have keys: "keys_ok tq_id t" using inv by (simp add: queue_inv_def)
  have "int64 (tbl_next t)"
    using queue_table.next_positive[OF keys] below by (simp add: int64_def max_key_def)
  then have "row_ok ?r" using now by (rule new_row_ok)
  moreover have "idem_index_ok (tbl_insert (new_row (payload, key, now)) t)"
    using inv free
    by (auto simp: queue_inv_def idem_index_ok_def idem_taken_def new_row_def intro!: unique_on_snoc)
  moreover have "tbl_get tq_id i (tbl_insert (new_row (payload, key, now)) t) = tbl_get tq_id i t"
    if "i < tbl_next t" for i
    using that by (intro queue_table.get_other) simp
  ultimately show ?thesis
    using inv below queue_table.insert_keys_ok[OF keys]
    by (auto simp: step_ok_def queue_inv_def table_rel_def option.rel_refl)
qed

lemma retry_loop_Inr: "retry_loop e i n k res prev = Inr a \<Longrightarrow> res = Inr a \<or> prev = Inr a"
  by (induction e i n k res prev rule: retry_loop.induct) (auto split: option.splits if_splits sum.splits)

lemma retry_Inr: "retryQueueBusy e i res = Inr a \<Longrightarrow> res = Inr a"
  by (auto simp: retryQueueBusy_def dest: retry_loop_Inr)

lemma insertTask_ok:
  assumes "queue_inv t" and "int64 now"
  shows "step_ok t (snd (insertTask e i t payload key now))"
  using assms
  by (auto simp: insertTask_def split: sum.splits if_splits dest!: retry_Inr intro!: inv_intros)

lemma enqueue_snd:
  "snd (enqueue e t1 t2 t3 payload key) = t2 \<or>
   snd (enqueue e t1 t2 t3 payload key) =
     snd (insertTask e 1 t2 payload (TrimSpace key) (clock e 0))"
  by (auto simp: enqueue_def Let_def split: sum.splits prod.splits)

lemma enqueue_ok [inv_intros]:
  "queue_inv t2 \<Longrightarrow> env_int64 e \<Longrightarrow> step_ok t2 (snd (enqueue e t1 t2 t3 payload key))"
  using enqueue_snd[of e t1 t2 t3 payload key] insertTask_ok step_ok_refl env_int64_clock by metis

lemma claim_ok:
  "tq_status r = StatusPending \<Longrightarrow> row_ok r \<Longrightarrow> int64 now \<Longrightarrow>
     row_ok (claim_row now r) \<and> row_step r (claim_row now r)"
  by (simp add: row_ok_def row_step_def row_later_def claim_row_def is_active_def is_terminal_def
      completion_matches_def)

lemma claim_row_id [simp]: "tq_id (claim_row now r) = tq_id r"
  by (simp add: claim_row_def)

lemma Next_ok [inv_intros]: "queue_inv t \<Longrightarrow> env_int64 e \<Longrightarrow> step_ok t (snd (Next e t))"
  by (auto simp: Next_def Let_def claim_ok split: sum.splits option.splits if_splits
      intro!: inv_intros)

lemma touch_ok:
  "row_ok r \<Longrightarrow> row_ok (r\<lparr>tq_session_id := s, tq_updated_at := u\<rparr>) \<and>
     row_step r (r\<lparr>tq_session_id := s, tq_updated_at := u\<rparr>)"
  by (simp add: row_ok_def row_step_def row_later_def is_active_def completion_matches_def)

lemma progress_ok:
  "is_active r \<Longrightarrow> row_ok r \<Longrightarrow>
     row_ok (r\<lparr>tq_progress := p, tq_summary := s, tq_updated_at := u\<rparr>) \<and>
     row_step r (r\<lparr>tq_progress := p, tq_summary := s, tq_updated_at := u\<rparr>)"
  by (simp add: row_ok_def row_step_def row_later_def is_active_def is_terminal_iff
      completion_matches_def)

lemma progress_only_ok:
  "tq_status r = StatusRunning \<Longrightarrow> row_ok r \<Longrightarrow>
     row_ok (r\<lparr>tq_progress := p, tq_updated_at := u\<rparr>) \<and> row_step r (r\<lparr>tq_progress := p, tq_updated_at := u\<rparr>)"
  using progress_ok[where r = r and p = p and s = "tq_summary r" and u = u] by (simp add: is_active_def)

lemma BindSession_ok [inv_intros]: "queue_inv t \<Longrightarrow> step_ok t (snd (BindSession e t tid s))"
  by (auto simp: BindSession_def touch_ok split: sum.splits intro!: inv_intros)

lemma UpdateProgress_ok [inv_intros]: "queue_inv t \<Longrightarrow> step_ok t (snd (UpdateProgress e t tid p))"
  by (auto simp: UpdateProgress_def progress_only_ok split: sum.splits intro!: inv_intros)

lemma UpdateAnnotation_ok [inv_intros]:
  "queue_inv t2 \<Longrightarrow> step_ok t2 (snd (UpdateAnnotation e t1 t2 other tid p s))"
  by (auto simp: UpdateAnnotation_def annotate_row_def Let_def progress_ok split: sum.splits if_splits
      intro!: inv_intros)

lemma finish_ok:
  assumes "row_ok r" and "is_active r" and "status_next (tq_status r) st"
    and "st = StatusDone \<or> st = StatusFailed" and "completes cj (tq_id r) st"
    and "r' = (finish_row st p s res cj u d r)\<lparr>tq_timeout_class := tc\<rparr>"
  shows "row_ok r' \<and> row_step r r'"
proof -
  have "\<not> is_active r'" using assms(4,6) by (auto simp: is_active_def finish_row_def)
  then have "row_ok r'"
    using assms(1,2,5) by (simp add: row_ok_def completion_matches_def) (simp add: assms(6) finish_row_def)
  moreover have "row_step r r'"
    using assms(2,3) by (simp add: row_step_def row_later_def is_terminal_iff assms(6) finish_row_def)
  ultimately show ?thesis by blast
qed

lemma finish_row_id [simp]: "tq_id (finish_row st p s res cj u d r) = tq_id r"
  by (simp add: finish_row_def)

lemma build_completes:
  "queue_inv t \<Longrightarrow> env_int64 e \<Longrightarrow> buildCompletionJSON e i j t tid st summary fallback meta = Inr cj \<Longrightarrow>
     completes cj tid st"
  using build_completion unfolding completes_def by blast

lemma finish_update_ok:
  assumes "queue_inv t" and "completes cj tid st" and "st = StatusDone \<or> st = StatusFailed"
    and "st0 = StatusPending \<or> st0 = StatusRunning" and "status_next st0 st"
    and "\<And>r. f r = (finish_row st p s res cj u d r)\<lparr>tq_timeout_class := tc r\<rparr>"
  shows "step_ok t (tbl_update (\<lambda>r. tq_id r = tid \<and> tq_status r = st0) f t)"
proof (rule step_ok_update[OF assms(1)])
  fix r assume "tq_id r = tid \<and> tq_status r = st0" "row_ok r"
  with assms(2-5) show "row_ok (f r) \<and> row_step r (f r)"
    by (intro finish_ok[OF _ _ _ assms(3) _ assms(6)]) (auto simp: is_active_def)
qed (simp add: assms(6))

lemma finish_row_class:
  "finish_row st p s res cj u d r =
     (finish_row st p s res cj u d r)\<lparr>tq_timeout_class := tq_timeout_class r\<rparr>"
  by (simp add: finish_row_def)

lemma finish_update_class_ok [inv_intros]:
  assumes "queue_inv t" and "completes cj tid st" and "st = StatusDone \<or> st = StatusFailed"
    and "st0 = StatusPending \<or> st0 = StatusRunning" and "status_next st0 st"
  shows "step_ok t (tbl_update (\<lambda>r. tq_id r = tid \<and> tq_status r = st0)
    (finish_row st p s res cj u d) t)"
  by (rule finish_update_ok[OF assms finish_row_class])

lemma MarkDone_ok [inv_intros]:
  assumes "queue_inv t1" and "queue_inv t2" and "env_int64 e"
  shows "step_ok t2 (snd (MarkDone e t1 t2 tid result summary))"
proof (cases "buildCompletionJSON e 0 0 t1 tid StatusDone summary result metadata_zero")
  case (Inr cj)
  then have "completes cj tid StatusDone" using build_completes assms by blast
  with Inr assms(2) show ?thesis
    by (auto simp: MarkDone_def Let_def split: sum.splits intro!: finish_update_class_ok step_ok_refl)
qed (use assms(2) in \<open>simp add: MarkDone_def step_ok_refl\<close>)

lemma MarkFailedWithMetadata_ok [inv_intros]:
  assumes "queue_inv t1" and "queue_inv t2" and "env_int64 e"
  shows "step_ok t2 (snd (MarkFailedWithMetadata e t1 t2 tid errMsg meta))"
proof -
  let ?f = "\<lambda>cj r. (finish_row StatusFailed ''failed'' (completionSummary StatusFailed '''' errMsg) errMsg cj
      (clock e 1) (clock e 2) r)\<lparr>tq_timeout_class := fm_timeout_class meta\<rparr>"
  have "step_ok t2 (tbl_update (\<lambda>r. tq_id r = tid \<and> tq_status r = StatusRunning) (?f cj) t2)"
    if "buildCompletionJSON e 0 0 t1 tid StatusFailed '''' errMsg m = Inr cj" for cj m
    by (rule finish_update_ok[OF assms(2) build_completes[OF assms(1,3) that]]) auto
  then show ?thesis
    using assms(2)
    by (auto simp: MarkFailedWithMetadata_def Let_def split: sum.splits if_splits intro: step_ok_refl)
qed

lemma cancel_row_ok:
  assumes "queue_inv t" and "cancel_row e i j t tid reason cj = Inr (n, t')"
    and "completes cj tid StatusFailed"
  shows "step_ok t t'"
  using assms by (auto simp: cancel_row_def Let_def intro!: finish_update_class_ok step_ok_refl)

lemma CancelPendingTask_ok [inv_intros]:
  assumes "queue_inv t2" and "queue_inv t3" and "env_int64 e"
  shows "step_ok t3 (snd (CancelPendingTask e t1 t2 t3 reason))"
  using assms build_completes[OF assms(1,3)] cancel_row_ok[OF assms(2)]
  by (auto simp: CancelPendingTask_def step_ok_refl split: sum.splits option.splits prod.splits)

lemma CancelTask_ok [inv_intros]:
  assumes "queue_inv t2" and "queue_inv t3" and "env_int64 e"
  shows "step_ok t3 (snd (CancelTask e t1 t2 t3 tid reason))"
  using assms build_completes[OF assms(1,3)] cancel_row_ok[OF assms(2)]
  by (auto simp: CancelTask_def Let_def step_ok_refl split: sum.splits option.splits prod.splits)

section \<open>Recovery is one map over the table\<close>

lemma recover_step_id: "tq_id (snd (recover_step now m s) r) = tq_id r"
  by (simp add: recover_step_def Let_def give_up_row_def recover_row_def finish_row_def)

definition recovered_as :: "int \<Rightarrow> int \<Rightarrow> queue_row list \<Rightarrow> queue_row \<Rightarrow> queue_row" where
  "recovered_as now m ss r =
     (case find (\<lambda>s. tq_id s = tq_id r) ss of
        None \<Rightarrow> r | Some s \<Rightarrow> snd (recover_step now m s) r)"

lemma recovered_as_Cons:
  assumes "tq_id s \<notin> tq_id ` set ss"
  shows "recovered_as now m (s # ss) r =
    recovered_as now m ss (if tq_id r = tq_id s then snd (recover_step now m s) r else r)"
proof -
  have "find (\<lambda>x. tq_id x = tq_id s) ss = None"
    using assms unfolding find_None_iff by (metis imageI)
  then show ?thesis by (auto simp: recovered_as_def recover_step_id)
qed

lemma recover_rows_map:
  "distinct (map tq_id ss) \<Longrightarrow> recover_rows e now m j ss n t = Inr (n', t') \<Longrightarrow>
     t' = t\<lparr>tbl_rows := map (recovered_as now m ss) (tbl_rows t)\<rparr> \<and>
     n' = n + int (length (filter (\<lambda>s. fst (recover_step now m s)) ss))"
proof (induction ss arbitrary: j n t)
  case Nil
  then show ?case by (cases t) (simp add: recovered_as_def)
next
  case (Cons s ss)
  obtain ok f where bf: "recover_step now m s = (ok, f)" by fastforce
  let ?t = "tbl_update (\<lambda>r. tq_id r = tq_id s) f t"
  have rest: "recover_rows e now m (Suc j) ss (if ok then n + 1 else n) ?t = Inr (n', t')"
    using Cons.prems(2) bf by (auto split: sum.splits)
  have fresh: "tq_id s \<notin> tq_id ` set ss" using Cons.prems(1) by simp
  have "tbl_rows ?t = map (\<lambda>r. if tq_id r = tq_id s then snd (recover_step now m s) r else r) (tbl_rows t)"
    by (simp add: bf)
  then have "map (recovered_as now m ss) (tbl_rows ?t) = map (recovered_as now m (s # ss)) (tbl_rows t)"
    using recovered_as_Cons[OF fresh] by (simp add: bf)
  then show ?case
    using Cons.IH[OF _ rest] Cons.prems(1) bf by (auto simp: tbl_update_def)
qed

lemma recovered_as_selected:
  assumes "distinct (map tq_id rs)" and "r \<in> set rs"
  shows "recovered_as now m (filter P rs) r = (if P r then snd (recover_step now m r) r else r)"
proof (cases "find (\<lambda>s. tq_id s = tq_id r) (filter P rs)")
  case None
  then have "\<not> P r" using assms(2) by (auto simp: find_None_iff)
  with None show ?thesis by (simp add: recovered_as_def)
next
  case (Some s)
  then have "s \<in> set rs" "P s" "tq_id s = tq_id r"
    by (auto simp: find_Some_iff) (metis (no_types, lifting) mem_Collect_eq nth_mem set_filter)+
  with assms have "s = r" by (auto simp: distinct_map inj_on_def)
  with Some \<open>P s\<close> show ?thesis by (simp add: recovered_as_def)
qed

text \<open>A successful recovery maps the stale rows and leaves the others; anything else changes nothing.\<close>

theorem RecoverStale_map:
  assumes "keys_ok tq_id t" and "RecoverStale e t staleTimeout m = (Inr n, t')"
  shows "t' = t\<lparr>tbl_rows := map (\<lambda>r. if is_stale (clock e 0 - staleTimeout) r
             then snd (recover_step (clock e 1) m r) r else r) (tbl_rows t)\<rparr>"
    and "n = int (length (filter (\<lambda>s. fst (recover_step (clock e 1) m s))
             (tbl_select (is_stale (clock e 0 - staleTimeout)) t)))"
proof -
  let ?stale = "is_stale (clock e 0 - staleTimeout)"
  have d: "distinct (map tq_id (tbl_rows t))" using assms(1) by (simp add: keys_ok_def)
  then have "distinct (map tq_id (tbl_select ?stale t))"
    by (simp add: tbl_select_def distinct_map_filter)
  moreover have "recover_rows e (clock e 1) m 0 (tbl_select ?stale t) 0 t = Inr (n, t')"
    using assms(2) by (auto simp: RecoverStale_def Let_def split: sum.splits)
  ultimately have "t' = t\<lparr>tbl_rows := map (recovered_as (clock e 1) m (tbl_select ?stale t)) (tbl_rows t)\<rparr>"
    and n: "n = int (length (filter (\<lambda>s. fst (recover_step (clock e 1) m s)) (tbl_select ?stale t)))"
    using recover_rows_map by fastforce+
  then show "t' = t\<lparr>tbl_rows := map (\<lambda>r. if ?stale r then snd (recover_step (clock e 1) m r) r else r)
      (tbl_rows t)\<rparr>"
    using recovered_as_selected[OF d] by (simp add: tbl_select_def cong: map_cong)
  show "n = int (length (filter (\<lambda>s. fst (recover_step (clock e 1) m s)) (tbl_select ?stale t)))"
    by (fact n)
qed

lemma RecoverStale_error: "RecoverStale e t staleTimeout m = (Inl er, t') \<Longrightarrow> t' = t"
  by (auto simp: RecoverStale_def Let_def split: sum.splits)

lemma recover_step_ok:
  assumes "row_ok r" and "tq_status r = StatusRunning" and "int64 now"
  shows "row_ok (snd (recover_step now defaultMaxRecoveries r) r) \<and>
    row_step r (snd (recover_step now defaultMaxRecoveries r) r)"
proof (cases "fst (recover_step now defaultMaxRecoveries r)")
  case True
  then show ?thesis
    using assms
    by (auto simp: recover_step_def Let_def row_ok_def row_step_def row_later_def recover_row_def
        is_active_def is_terminal_def completion_matches_def defaultMaxRecoveries_def split: if_splits)
next
  case False
  then show ?thesis
    using assms
    by (auto simp: recover_step_def Let_def row_ok_def row_step_def row_later_def give_up_row_def
        finish_row_def is_active_def is_terminal_def completion_matches_def record_int64_def
        defaultMaxRecoveries_def completion_zero_def completes_def split: if_splits intro!: exI)
qed

lemma RecoverStale_ok [inv_intros]:
  assumes "queue_inv t" and "env_int64 e"
  shows "step_ok t (snd (RecoverStale e t staleTimeout defaultMaxRecoveries))"
proof (cases "RecoverStale e t staleTimeout defaultMaxRecoveries")
  case (Pair res t')
  show ?thesis
  proof (cases res)
    case (Inl er)
    with Pair have "t' = t" using RecoverStale_error by blast
    with Pair assms(1) show ?thesis by (simp add: step_ok_refl)
  next
    case (Inr n)
    have "keys_ok tq_id t" using assms(1) by (simp add: queue_inv_def)
    from RecoverStale_map(1)[OF this Pair[unfolded Inr]] show ?thesis
      using recover_step_ok assms
      by (auto simp: Pair is_stale_def recover_step_id intro!: step_ok_map[OF assms(1)])
  qed
qed

section \<open>Histories\<close>

datatype queue_op =
    OpEnqueue string string
  | OpNext
  | OpBindSession int string
  | OpUpdateProgress int string
  | OpUpdateAnnotation int string string
  | OpMarkDone int string string
  | OpMarkFailed int string task_failure_metadata
  | OpCancelPendingTask string
  | OpCancelTask int string
  | OpRecoverStale

text \<open>
  The table an operation leaves: its first reads meet \<open>s1\<close> and \<open>s2\<close>, its write meets \<open>t\<close>.
  \<open>newQueue\<close> is the only caller of the recovery, with the default limits.
\<close>

fun queue_exec :: "env \<Rightarrow> queue_op \<Rightarrow> queue \<Rightarrow> queue \<Rightarrow> queue \<Rightarrow> queue" where
  "queue_exec e (OpEnqueue payload key) s1 s2 t = snd (enqueue e s1 t t payload key)"
| "queue_exec e OpNext s1 s2 t = snd (Next e t)"
| "queue_exec e (OpBindSession i s) s1 s2 t = snd (BindSession e t i s)"
| "queue_exec e (OpUpdateProgress i p) s1 s2 t = snd (UpdateProgress e t i p)"
| "queue_exec e (OpUpdateAnnotation i p s) s1 s2 t = snd (UpdateAnnotation e s1 t (\<lambda>x. x) i p s)"
| "queue_exec e (OpMarkDone i r s) s1 s2 t = snd (MarkDone e s1 t i r s)"
| "queue_exec e (OpMarkFailed i m meta) s1 s2 t = snd (MarkFailedWithMetadata e s1 t i m meta)"
| "queue_exec e (OpCancelPendingTask r) s1 s2 t = snd (CancelPendingTask e s1 s2 t r)"
| "queue_exec e (OpCancelTask i r) s1 s2 t = snd (CancelTask e s1 s2 t i r)"
| "queue_exec e OpRecoverStale s1 s2 t =
     snd (RecoverStale e t defaultStaleTimeout defaultMaxRecoveries)"

text \<open>A history lists the tables of a run, the newest first.\<close>

inductive queue_history :: "queue list \<Rightarrow> bool" where
  start: "queue_history [tbl_empty]"
| step: "queue_history (t # h) \<Longrightarrow> s1 \<in> set (t # h) \<Longrightarrow> s2 \<in> set (t # h) \<Longrightarrow> env_int64 e \<Longrightarrow>
     queue_history (queue_exec e op s1 s2 t # t # h)"

inductive_cases queue_history_ConsE: "queue_history (t # h)"
inductive_simps queue_history_Nil [simp]: "queue_history []"

lemma queue_exec_ok:
  assumes "queue_inv t" and "queue_inv s1" and "queue_inv s2" and "env_int64 e"
  shows "step_ok t (queue_exec e op s1 s2 t)"
  using assms by (cases op) (auto intro: enqueue_ok Next_ok BindSession_ok UpdateProgress_ok
      UpdateAnnotation_ok MarkDone_ok MarkFailedWithMetadata_ok CancelPendingTask_ok CancelTask_ok
      RecoverStale_ok)

lemma history_inv: "queue_history h \<Longrightarrow> t \<in> set h \<Longrightarrow> queue_inv t"
proof (induction arbitrary: t rule: queue_history.induct)
  case (step u h s1 s2 e op)
  then have "step_ok u (queue_exec e op s1 s2 u)" by (intro queue_exec_ok) auto
  with step show ?case by (auto simp: step_ok_def)
qed simp

lemma history_newest_step:
  assumes "queue_history (t' # t # h)"
  shows "table_rel tq_id row_step t t'"
  using assms
proof (cases rule: queue_history.cases)
  case (step s1 s2 e op)
  with history_inv have "step_ok t (queue_exec e op s1 s2 t)"
    by (intro queue_exec_ok) auto
  with step show ?thesis by (simp add: step_ok_def)
qed

lemma history_tail: "queue_history (t' # t # h) \<Longrightarrow> queue_history (t # h)"
  by (auto elim: queue_history_ConsE)

lemma history_later: "queue_history (t' # h) \<Longrightarrow> t \<in> set (t' # h) \<Longrightarrow> table_rel tq_id row_later t t'"
proof (induction h arbitrary: t')
  case Nil
  then show ?case by (simp add: table_rel_refl)
next
  case (Cons u h)
  show ?case
  proof (cases "t = t'")
    case False
    with Cons have "table_rel tq_id row_later t u" using history_tail by auto
    moreover have "table_rel tq_id row_later u t'"
      using history_newest_step[OF Cons.prems(1)] by (rule table_rel_mono[rotated]) (simp add: row_step_def)
    ultimately show ?thesis using table_rel_trans[of row_later] row_later_trans by blast
  qed (simp add: table_rel_refl)
qed

section \<open>Enqueue\<close>

lemma lookup_Inr:
  assumes "lookup_result (retryQueueBusy e i (case first_row rs of None \<Rightarrow> Inl ErrNoRows | Some r \<Rightarrow> Inr (tq_id r))) = Inr k"
    and "k \<noteq> 0"
  shows "\<exists>r \<in> set rs. tq_id r = k"
proof -
  have "retryQueueBusy e i (case first_row rs of None \<Rightarrow> Inl ErrNoRows | Some r \<Rightarrow> Inr (tq_id r)) = Inr k"
    using assms by (auto simp: lookup_result_def split: sum.splits if_splits)
  from retry_Inr[OF this] show ?thesis by (auto split: option.splits dest: first_row_in)
qed

lemma lookup_active:
  assumes "lookupActiveTaskID e i t key cutoff = Inr k" and "k \<noteq> 0"
  shows "\<exists>r \<in> set (tbl_rows t). tq_id r = k \<and> is_active r \<and> tq_idempotency_key r = key"
  using lookup_Inr[OF assms[unfolded lookupActiveTaskID_def]] by auto

lemma lookup_active_any:
  assumes "lookupActiveTaskIDAny e i t key = Inr k" and "k \<noteq> 0"
  shows "\<exists>r \<in> set (tbl_rows t). tq_id r = k \<and> is_active r \<and> tq_idempotency_key r = key"
  using lookup_Inr[OF assms[unfolded lookupActiveTaskIDAny_def]] by auto

lemma insertTask_cases:
  assumes "insertTask e i t payload key now = (res, t')"
  obtains er where "res = Inl er" and "t' = t"
  | "res = Inr (tbl_next t)" and "t' = tbl_insert (new_row (payload, key, now)) t"
    and "\<not> idem_taken t key" and "tbl_next t \<le> max_key"
proof (cases "retryQueueBusy e i
        (if idem_taken t key then Inl (EUnique ''task_queue.idempotency_key'')
         else if max_key < tbl_next t then Inl sqlite_full
         else Inr (tbl_next t))")
  case (Inl er)
  with assms have "res = Inl er" "t' = t" by (simp_all add: insertTask_def)
  then show thesis by (rule that(1))
next
  case (Inr k)
  then have "res = Inr k" "t' = tbl_insert (new_row (payload, key, now)) t"
    using assms by (simp_all add: insertTask_def)
  moreover have "k = tbl_next t" "\<not> idem_taken t key" "tbl_next t \<le> max_key"
    using retry_Inr[OF Inr] by (auto split: if_splits)
  ultimately show thesis using that(2) by simp
qed

text \<open>
  An enqueue that reports an existing task found an active one with that key in a table it read
  and inserted nothing; one that reports a new task inserted it, pending, under a fresh id.
\<close>

lemma enqueue_result:
  assumes "enqueue e t1 t2 t3 payload key = (Inr (i, existed), t')"
    and "queue_inv t1" and "queue_inv t3"
  shows "if existed
    then t' = t2 \<and> TrimSpace key \<noteq> '''' \<and>
      (\<exists>r \<in> set (tbl_rows t1) \<union> set (tbl_rows t3). tq_id r = i \<and> is_active r \<and>
         tq_idempotency_key r = TrimSpace key)
    else i = tbl_next t2 \<and> t' = tbl_insert (new_row (payload, TrimSpace key, clock e 0)) t2 \<and>
      \<not> idem_taken t2 (TrimSpace key)"
proof -
  let ?K = "TrimSpace key"
  obtain ex where first: "(if ?K = [] then Inr 0 else
      lookupActiveTaskID e 0 t1 ?K (clock e 0 - idempotencyWindow)) = Inr ex"
    using assms(1) by (cases "?K = []";
      cases "lookupActiveTaskID e 0 t1 ?K (clock e 0 - idempotencyWindow)")
      (auto simp: enqueue_def Let_def)
  show ?thesis
  proof (cases "ex = 0")
    case False
    with first have key: "?K \<noteq> []" and
      act: "\<exists>r \<in> set (tbl_rows t1). tq_id r = ex \<and> is_active r \<and> tq_idempotency_key r = ?K"
      by (auto split: if_splits dest: lookup_active)
    moreover have "i = ex" "existed" "t' = t2"
      using assms(1) first False key by (auto simp: enqueue_def Let_def)
    ultimately show ?thesis by auto
  next
    case True
    obtain res u where ins: "insertTask e 1 t2 payload ?K (clock e 0) = (res, u)" by fastforce
    show ?thesis
    proof (cases res)
      case (Inr k)
      with assms(1) first True ins have "i = k" "\<not> existed" "t' = u"
        by (auto simp: enqueue_def Let_def split: sum.splits)
      with ins Inr show ?thesis by (auto elim: insertTask_cases)
    next
      case (Inl er)
      then have "u = t2" using ins by (auto elim: insertTask_cases)
      moreover obtain k where "lookupActiveTaskIDAny e 2 t3 ?K = Inr k" "k \<noteq> 0" "i = k" "existed"
        "t' = u" "?K \<noteq> []"
        using assms(1) first True ins Inl
        by (auto simp: enqueue_def Let_def split: sum.splits if_splits)
      ultimately show ?thesis using lookup_active_any[of e 2 t3 ?K k] by auto
    qed
  qed
qed

lemma enqueue_taken:
  assumes "idem_taken t2 (TrimSpace key)"
  shows "snd (enqueue e t1 t2 t3 payload key) = t2"
proof (cases "insertTask e 1 t2 payload (TrimSpace key) (clock e 0)")
  case (Pair res t')
  with assms have "t' = t2" by (auto elim!: insertTask_cases)
  with Pair enqueue_snd[of e t1 t2 t3 payload key] show ?thesis by auto
qed

text \<open>The statements of an undisturbed enqueue: no fault, no later commit in between.\<close>

lemma first_desc_row:
  assumes "P r" and "r \<in> set (tbl_rows t)"
  obtains r' where "first_row (order_desc k (tbl_select P t)) = Some r'"
    and "r' \<in> set (tbl_rows t)" and "P r'"
proof -
  have "order_desc k (tbl_select P t) \<noteq> []" using assms by (auto simp: tbl_select_def filter_empty_conv)
  then obtain r' where r': "first_row (order_desc k (tbl_select P t)) = Some r'" by fastforce
  from first_order_desc_in[OF r'] show thesis by (intro that[OF r']) auto
qed

end
