(* ===== verification/Queue_Properties.thy ===== *)
theory Queue_Properties
  imports Queue_Invariants
begin

text \<open>
  The properties of the queue, each with an instance: what every history keeps, what happens to a
  row, what claiming, enqueuing and recovering do.
\<close>

section \<open>Examples\<close>

definition demo_q1 :: queue where
  "demo_q1 = queue_exec (calm 1000) (OpEnqueue ''do it'' ''k1'') tbl_empty tbl_empty tbl_empty"
definition demo_q2 :: queue where
  "demo_q2 = queue_exec (calm 2000) OpNext demo_q1 demo_q1 demo_q1"
definition demo_q3 :: queue where
  "demo_q3 = queue_exec (calm 3000) (OpMarkDone 1 ''out'' ''fine'') demo_q2 demo_q2 demo_q2"
definition demo_q4 :: queue where
  "demo_q4 = queue_exec (calm 4000) (OpBindSession 1 ''s9'') demo_q3 demo_q3 demo_q3"

definition demo_row :: queue_row where
  "demo_row = \<lparr>tq_id = 1, tq_payload = ''do it'', tq_idempotency_key = ''k1'', tq_session_id = '''',
     tq_status = StatusPending, tq_progress = '''', tq_summary = '''', tq_result = '''',
     tq_completion = '''', tq_timeout_class = TimeoutClassNone, tq_idle_timeout_count = 0,
     tq_active_timeout_count = 0, tq_created_at = 1000, tq_updated_at = 1000, tq_started_at = 0,
     tq_completed_at = 0\<rparr>"

lemma demo_history: "queue_history [demo_q4, demo_q3, demo_q2, demo_q1, tbl_empty]"
  unfolding demo_q4_def demo_q3_def demo_q2_def demo_q1_def
  by (intro queue_history.step queue_history.start) (simp_all add: int64_def)

lemma demo_tail: "queue_history [demo_q3, demo_q2, demo_q1, tbl_empty]"
    "queue_history [demo_q2, demo_q1, tbl_empty]" "queue_history [demo_q1, tbl_empty]"
  using demo_history history_tail by blast+

lemma demo_q1_eq: "demo_q1 = \<lparr>tbl_rows = [demo_row], tbl_next = 2\<rparr>"
  unfolding demo_q1_def demo_row_def by code_simp

lemma demo_q2_eq: "demo_q2 = \<lparr>tbl_rows = [claim_row 2000 demo_row], tbl_next = 2\<rparr>"
  unfolding demo_q2_def demo_q1_eq unfolding demo_row_def by code_simp

lemma demo_q3_row: "tbl_get tq_id 1 demo_q3 \<noteq> None" "map is_terminal (tbl_rows demo_q3) = [True]"
  unfolding demo_q3_def demo_q2_eq unfolding demo_row_def by code_simp+

lemma demo_q1_get: "tbl_get tq_id 1 demo_q1 = Some demo_row"
  by (simp add: tbl_get_def tbl_select_def demo_q1_eq demo_row_def)

lemma demo_q1_Get: "\<exists>k. (\<forall>t i. Get (calm t) i demo_q1 1 = Inr k) \<and> tk_status k = StatusPending"
  by (simp add: Get_def demo_q1_get row_task_def parseTaskCompletion_def demo_row_def)

section \<open>What every history keeps\<close>

text \<open>
  C1: in every table of every history of the queue, ids are unique, at most one active task has a
  given idempotency key, and the completion column of every row decodes: an active task has no
  completion, a finished one has a completion that carries its id and its status.
\<close>

theorem queue_rows_consistent:
  assumes "queue_history h" and "t \<in> set h"
  shows "distinct (map tq_id (tbl_rows t)) \<and>
    unique_on (\<lambda>r. is_active r \<and> tq_idempotency_key r \<noteq> '''') tq_idempotency_key (tbl_rows t) \<and>
    (\<forall>r \<in> set (tbl_rows t). \<exists>c. parseTaskCompletion (tq_completion r) = Inr c \<and>
       (if is_active r then c = None
        else \<exists>x. c = Some x \<and> tc_task_id x = tq_id r \<and> tc_status x = status_text (tq_status r)))"
proof -
  have inv: "queue_inv t" using assms by (rule history_inv)
  have "\<exists>c. parseTaskCompletion (tq_completion r) = Inr c \<and>
       (if is_active r then c = None
        else \<exists>x. c = Some x \<and> tc_task_id x = tq_id r \<and> tc_status x = status_text (tq_status r))"
    if "r \<in> set (tbl_rows t)" for r
  proof -
    have "completion_matches r" using inv that by (simp add: queue_inv_def row_ok_def)
    then show ?thesis
      by (auto simp: completion_matches_def completes_def parse_completion_print completion_of_record_def
          parseTaskCompletion_def[of "''''"] split: if_splits)
  qed
  with inv show ?thesis by (simp add: queue_inv_def keys_ok_def idem_index_ok_def)
qed

lemma queue_rows_consistent_witness:
  "demo_q3 \<in> set [demo_q3, demo_q2, demo_q1, tbl_empty] \<and> distinct (map tq_id (tbl_rows demo_q3))"
  using queue_rows_consistent[OF demo_tail(1), of demo_q3] by simp

text \<open>
  C2: a finished task is final: whatever operations run later, interleaved in any way, its row keeps
  its status, result, summary, progress, completion and counters; only the session and the time
  stamp of the last update may change.
\<close>

theorem finished_is_final:
  assumes "queue_history (t' # h)" and "t \<in> set h"
    and "tbl_get tq_id i t = Some r" and "tq_status r = StatusDone \<or> tq_status r = StatusFailed"
  shows "\<exists>session updated. tbl_get tq_id i t' =
    Some (r\<lparr>tq_session_id := session, tq_updated_at := updated\<rparr>)"
proof -
  have "queue_inv t" "table_rel tq_id row_later t t'"
    using assms(1,2) history_inv history_later by auto
  then obtain r' where r': "tbl_get tq_id i t' = Some r'" "row_later r r'"
    using rel_get[of tq_id row_later t t' i r] assms(3) by (auto simp: queue_inv_def)
  with assms(4) have "r' = r\<lparr>tq_session_id := tq_session_id r', tq_updated_at := tq_updated_at r'\<rparr>"
    by (simp add: row_later_def is_terminal_def)
  with r'(1) show ?thesis by metis
qed

lemma finished_is_final_witness:
  "\<exists>r session updated. tq_status r = StatusDone \<and>
     tbl_get tq_id 1 demo_q4 = Some (r\<lparr>tq_session_id := session, tq_updated_at := updated\<rparr>)"
proof -
  have "map_option tq_status (tbl_get tq_id 1 demo_q3) = Some StatusDone"
    unfolding demo_q3_def demo_q2_eq unfolding demo_row_def by code_simp
  then obtain r where r: "tbl_get tq_id 1 demo_q3 = Some r" "tq_status r = StatusDone" by auto
  with finished_is_final[OF demo_history, of demo_q3 1 r] show ?thesis by auto
qed

text \<open>
  C3: one operation moves a task only along the arrows pending to running, pending to failed,
  running to pending, running to done and running to failed; it never deletes a task, and never
  changes its payload, its key or its creation time.
\<close>

theorem status_arrows:
  assumes "queue_history (t' # t # h)" and "tbl_get tq_id i t = Some r"
  shows "\<exists>r'. tbl_get tq_id i t' = Some r' \<and> tq_payload r' = tq_payload r \<and>
    tq_idempotency_key r' = tq_idempotency_key r \<and> tq_created_at r' = tq_created_at r \<and>
    (tq_status r, tq_status r') \<in> Id \<union>
      {(StatusPending, StatusRunning), (StatusPending, StatusFailed), (StatusRunning, StatusPending),
       (StatusRunning, StatusDone), (StatusRunning, StatusFailed)}"
proof -
  have "queue_inv t" "table_rel tq_id row_step t t'"
    using assms(1) history_inv[OF assms(1)] history_newest_step by auto
  then obtain r' where "tbl_get tq_id i t' = Some r'" "row_step r r'"
    using rel_get[of tq_id row_step t t' i r] assms(2) by (auto simp: queue_inv_def)
  moreover from this(2) have "(tq_status r, tq_status r') \<in> Id \<union>
      {(StatusPending, StatusRunning), (StatusPending, StatusFailed), (StatusRunning, StatusPending),
       (StatusRunning, StatusDone), (StatusRunning, StatusFailed)}"
    by (cases "tq_status r"; cases "tq_status r'") (auto simp: row_step_def)
  ultimately show ?thesis by (auto simp: row_step_def row_later_def)
qed

lemma status_arrows_witness:
  "\<exists>r'. tbl_get tq_id 1 demo_q2 = Some r' \<and> tq_payload r' = ''do it'' \<and>
     (StatusPending, tq_status r') \<in> Id \<union>
      {(StatusPending, StatusRunning), (StatusPending, StatusFailed), (StatusRunning, StatusPending),
       (StatusRunning, StatusDone), (StatusRunning, StatusFailed)}"
proof -
  have "tbl_get tq_id 1 demo_q1 = Some demo_row"
    unfolding demo_q1_eq demo_row_def by code_simp
  from status_arrows[OF demo_tail(2) this] show ?thesis by (auto simp: demo_row_def)
qed

section \<open>Claiming\<close>

lemma oldest_pendingD:
  assumes "oldest_pending t = Some r"
  shows "r \<in> set (tbl_rows t)" and "tq_status r = StatusPending"
    and "\<And>p. p \<in> set (tbl_rows t) \<Longrightarrow> tq_status p = StatusPending \<Longrightarrow> tq_created_at r \<le> tq_created_at p"
proof -
  have "r \<in> set (tbl_select (\<lambda>r. tq_status r = StatusPending) t)"
    using assms unfolding oldest_pending_def by (rule first_order_in)
  then show "r \<in> set (tbl_rows t)" "tq_status r = StatusPending" by simp_all
  fix p assume "p \<in> set (tbl_rows t)" "tq_status p = StatusPending"
  then show "tq_created_at r \<le> tq_created_at p"
    using assms first_order_by_le[of tq_created_at _ r p] by (auto simp: oldest_pending_def)
qed

lemma oldest_pending_None:
  "oldest_pending t = None \<longleftrightarrow> (\<forall>r \<in> set (tbl_rows t). tq_status r \<noteq> StatusPending)"
  by (simp add: oldest_pending_def tbl_select_def filter_empty_conv)

lemma claim_by_id:
  assumes "keys_ok tq_id t" and "r \<in> set (tbl_rows t)" and "tq_status r = StatusPending"
  shows "tbl_update (\<lambda>x. tq_id x = tq_id r \<and> tq_status x = StatusPending) f t =
    tbl_update (\<lambda>x. tq_id x = tq_id r) f t"
    and "tbl_affected (\<lambda>x. tq_id x = tq_id r \<and> tq_status x = StatusPending) t \<noteq> 0"
proof -
  have same: "x = r" if "x \<in> set (tbl_rows t)" "tq_id x = tq_id r" for x
    using keys_ok_inj[OF assms(1) that(1) assms(2) that(2)] .
  have "map (\<lambda>x. if tq_id x = tq_id r \<and> tq_status x = StatusPending then f x else x) (tbl_rows t) =
      map (\<lambda>x. if tq_id x = tq_id r then f x else x) (tbl_rows t)"
    using same assms(3) by (intro map_cong) auto
  then show "tbl_update (\<lambda>x. tq_id x = tq_id r \<and> tq_status x = StatusPending) f t =
    tbl_update (\<lambda>x. tq_id x = tq_id r) f t"
    by (simp add: tbl_update_def)
  show "tbl_affected (\<lambda>x. tq_id x = tq_id r \<and> tq_status x = StatusPending) t \<noteq> 0"
    using assms(2,3) by (auto simp: tbl_affected_0)
qed

text \<open>
  C4: \<open>Next\<close> on a table of a history either fails and changes nothing, or finds no pending task
  and changes nothing, or claims one: a pending task no other pending task is older than becomes
  running, started now, every other row stays, and the task it returns is that one.
\<close>

theorem Next_claims_oldest:
  assumes "queue_history h" and "t \<in> set h" and "Next e t = (res, t')"
  shows "case res of
      Inl _ \<Rightarrow> t' = t
    | Inr None \<Rightarrow> t' = t \<and> (\<forall>r \<in> set (tbl_rows t). tq_status r \<noteq> StatusPending)
    | Inr (Some k) \<Rightarrow> \<exists>r \<in> set (tbl_rows t). tq_id r = tk_id k \<and> tq_status r = StatusPending \<and>
        (\<forall>p \<in> set (tbl_rows t). tq_status p = StatusPending \<longrightarrow> tq_created_at r \<le> tq_created_at p) \<and>
        tk_status k = StatusRunning \<and> tk_started_at k = clock e 0 \<and>
        t' = tbl_update (\<lambda>x. tq_id x = tk_id k) (claim_row (clock e 0)) t"
proof -
  have inv: "queue_inv t" using assms(1,2) by (rule history_inv)
  show ?thesis
  proof (cases "oldest_pending t")
    case None
    then have "\<forall>r \<in> set (tbl_rows t). tq_status r \<noteq> StatusPending" by (simp add: oldest_pending_None)
    moreover have "(res = Inr None \<or> (\<exists>er. res = Inl er)) \<and> t' = t"
      using assms(3) None by (cases "fault e 0 0"; cases "fault e 1 0") (auto simp: Next_def stmt_def)
    ultimately show ?thesis by auto
  next
    case (Some r)
    note r = oldest_pendingD[OF Some]
    have ok: "row_ok r" "keys_ok tq_id t" using inv r(1) by (auto simp: queue_inv_def)
    have claimed: "tq_completion r = ''''"
      using ok(1) r(2) by (simp add: row_ok_def completion_matches_def is_active_def)
    then obtain k where k: "row_task (claim_row (clock e 0) r) = Inr k" "tk_id k = tq_id r"
      "tk_status k = StatusRunning" "tk_started_at k = clock e 0"
      by (simp add: row_task_def parseTaskCompletion_def claim_row_def)
    have "(res = Inr (Some k) \<and> t' = tbl_update (\<lambda>x. tq_id x = tq_id r) (claim_row (clock e 0)) t) \<or>
        ((\<exists>er. res = Inl er) \<and> t' = t)"
      using assms(3) Some k(1) claim_by_id[OF ok(2) r(1,2)]
      by (cases "fault e 0 0"; cases "fault e 1 0"; cases "fault e 2 0"; cases "fault e 3 0")
        (auto simp: Next_def Let_def stmt_def)
    then show ?thesis
    proof
      assume "res = Inr (Some k) \<and> t' = tbl_update (\<lambda>x. tq_id x = tq_id r) (claim_row (clock e 0)) t"
      with r k show ?thesis by (auto intro!: bexI[of _ r])
    qed auto
  qed
qed

lemma Next_claims_oldest_witness:
  "\<exists>k. Next (calm 2000) demo_q1 = (Inr (Some k), demo_q2) \<and> tk_status k = StatusRunning"
proof -
  have snd: "snd (Next (calm 2000) demo_q1) = demo_q2" by (simp add: demo_q2_def)
  have "case fst (Next (calm 2000) demo_q1) of Inr (Some k) \<Rightarrow> True | _ \<Rightarrow> False"
    unfolding demo_q1_eq demo_row_def by code_simp
  then obtain k where k: "fst (Next (calm 2000) demo_q1) = Inr (Some k)"
    by (auto split: sum.splits option.splits)
  have run: "Next (calm 2000) demo_q1 = (Inr (Some k), demo_q2)" using snd k by (simp add: prod_eq_iff)
  from Next_claims_oldest[OF demo_tail(3) _ run] have "tk_status k = StatusRunning" by auto
  with run show ?thesis by blast
qed

section \<open>Enqueuing\<close>

lemma unique_not_busy [simp]: "isUniqueViolation (EUnique ''task_queue.idempotency_key'')"
    "\<not> isBusyError (EUnique ''task_queue.idempotency_key'')" "\<not> isBusyError ErrNoRows"
  by (simp_all add: isUniqueViolation_def isBusyError_def) code_simp+

lemma retry_calm: "\<not> (\<exists>er. res = Inl er \<and> isBusyError er) \<Longrightarrow> fault e i 0 = None \<Longrightarrow> retryQueueBusy e i res = res"
  by (cases res) (auto simp: retryQueueBusy_def queueBusyRetryAttempts_def numeral_eq_Suc)

lemma lookup_some_id:
  assumes "keys_ok tq_id t" and "first_row (order_desc tq_created_at (tbl_select P t)) = Some r"
  shows "tq_id r \<noteq> 0"
proof -
  have "r \<in> set (tbl_rows t)" using first_order_desc_in[OF assms(2)] by auto
  with assms(1) show ?thesis by (auto simp: keys_ok_def)
qed

text \<open>
  C5: when the database answers and has a key left, \<open>EnqueueTx\<close> always succeeds.  If a task with
  the same non-empty key (blanks around it apart) is pending or running, it returns the id of such
  a task, says that it existed and inserts nothing, however old that task is; otherwise it inserts
  a pending task with the payload under the next id.
\<close>

theorem EnqueueTx_total:
  assumes "queue_history (t # h)" and "\<And>i. fault e i 0 = None" and "tbl_next t \<le> max_key"
  shows "\<exists>i existed t'. EnqueueTx e t payload key = (Inr (i, existed), t') \<and>
    (if idem_taken t (TrimSpace key)
     then existed \<and> t' = t \<and> (\<exists>r \<in> set (tbl_rows t). tq_id r = i \<and> is_active r \<and>
            tq_idempotency_key r = TrimSpace key)
     else \<not> existed \<and> i = tbl_next t \<and>
       t' = tbl_insert (new_row (payload, TrimSpace key, clock e 0)) t)"
proof -
  let ?K = "TrimSpace key"
  have inv: "queue_inv t" using assms(1) by (auto intro: history_inv)
  then have keys: "keys_ok tq_id t" by (simp add: queue_inv_def)
  obtain res t' where run: "EnqueueTx e t payload key = (res, t')" by fastforce
  let ?found = "\<lambda>P. first_row (order_desc tq_created_at (tbl_select P t))"
  let ?A = "\<lambda>r. tq_idempotency_key r = ?K \<and> is_active r"
  let ?B = "\<lambda>r. tq_idempotency_key r = ?K \<and> is_active r \<and> clock e 0 - idempotencyWindow \<le> tq_created_at r"
  have first: "lookupActiveTaskID e 0 t ?K (clock e 0 - idempotencyWindow) =
      Inr (case ?found ?B of None \<Rightarrow> 0 | Some r \<Rightarrow> tq_id r)"
    using assms(2) by (cases "?found ?B") (simp_all add: lookupActiveTaskID_def retry_calm lookup_result_def)
  have any: "lookupActiveTaskIDAny e 2 t ?K = Inr (case ?found ?A of None \<Rightarrow> 0 | Some r \<Rightarrow> tq_id r)"
    using assms(2) by (cases "?found ?A") (simp_all add: lookupActiveTaskIDAny_def retry_calm lookup_result_def)
  have ins: "insertTask e 1 t payload ?K (clock e 0) =
      (if idem_taken t ?K then (Inl (EUnique ''task_queue.idempotency_key''), t)
       else (Inr (tbl_next t), tbl_insert (new_row (payload, ?K, clock e 0)) t))"
    using assms(2,3) by (simp add: insertTask_def retry_calm)
  have last_id: "stmt e 3 r = r" for r :: "err + int"
    using assms(2) by (simp add: stmt_def)
  have taken: "\<exists>r. ?found ?A = Some r \<and> tq_id r \<noteq> 0" if tk: "idem_taken t ?K"
  proof -
    obtain r where r: "r \<in> set (tbl_rows t)" "?A r" using tk by (auto simp: idem_taken_def)
    from first_desc_row[of ?A r t tq_created_at, OF r(2,1)] lookup_some_id[OF keys, of ?A]
    show ?thesis by metis
  qed
  have "\<not> isl res"
  proof (cases "?K = ''''")
    case True
    then have "\<not> idem_taken t ?K" by (simp add: idem_taken_def)
    with run True ins show ?thesis
      by (auto simp: EnqueueTx_def enqueue_def Let_def last_id)
  next
    case False
    show ?thesis
    proof (cases "?found ?B")
      case (Some r)
      with lookup_some_id[OF keys, of ?B r] run False first show ?thesis
        by (auto simp: EnqueueTx_def enqueue_def Let_def)
    next
      case None
      with run False first ins any taken show ?thesis
        by (cases "idem_taken t ?K") (auto simp: EnqueueTx_def enqueue_def Let_def last_id)
    qed
  qed
  then obtain i existed where res: "res = Inr (i, existed)" by (cases res) auto
  have "if existed then t' = t \<and> ?K \<noteq> '''' \<and> (\<exists>r \<in> set (tbl_rows t) \<union> set (tbl_rows t). tq_id r = i \<and> is_active r \<and>
         tq_idempotency_key r = ?K)
    else i = tbl_next t \<and> t' = tbl_insert (new_row (payload, ?K, clock e 0)) t \<and> \<not> idem_taken t ?K"
    by (rule enqueue_result) (use run res inv in \<open>simp_all add: EnqueueTx_def\<close>)
  then have "if idem_taken t ?K
     then existed \<and> t' = t \<and> (\<exists>r \<in> set (tbl_rows t). tq_id r = i \<and> is_active r \<and> tq_idempotency_key r = ?K)
     else \<not> existed \<and> i = tbl_next t \<and> t' = tbl_insert (new_row (payload, ?K, clock e 0)) t"
    by (cases existed) (auto simp: idem_taken_def split: if_splits)
  with run res show ?thesis by auto
qed

lemma EnqueueTx_total_witness:
  "\<exists>i existed t'. EnqueueTx (calm 99000) demo_q1 ''again'' '' k1 '' = (Inr (i, existed), t') \<and>
     existed \<and> t' = demo_q1"
proof -
  have "idem_taken demo_q1 (TrimSpace '' k1 '')" "tbl_next demo_q1 \<le> max_key"
    unfolding demo_q1_eq demo_row_def by code_simp+
  with EnqueueTx_total[OF demo_tail(3), of "calm 99000" "''again''" "'' k1 ''"]
  show ?thesis by (simp split: if_splits) blast
qed

section \<open>Recovery\<close>





section \<open>Cancelling\<close>

text \<open>
  Cancelling a task touches no other task, and that task only when it is still pending in the
  table the write meets: it then fails, with the reason as its result.
\<close>

theorem CancelTask_only_pending:
  assumes "CancelTask e t1 t2 t3 tid reason = (res, t')" and "tbl_get tq_id i t' \<noteq> tbl_get tq_id i t3"
  shows "i = tid \<and> res = Inr () \<and> (\<exists>r r'. tbl_get tq_id tid t3 = Some r \<and> tbl_get tq_id tid t' = Some r' \<and>
    tq_status r = StatusPending \<and> tq_status r' = StatusFailed \<and>
    tq_result r' = (if TrimSpace reason = '''' then ''task cancelled'' else TrimSpace reason))"
proof -
  let ?reason = "if TrimSpace reason = '''' then ''task cancelled'' else TrimSpace reason"
  have ne: "t' \<noteq> t3" using assms(2) by auto
  obtain cj n where cj: "cancel_row e 2 1 t3 tid ?reason cj = Inr (n, t')" and "res = Inr ()"
    using assms(1) ne
    by (auto simp: CancelTask_def Let_def tbl_update_none cancel_row_def stmt_def tbl_affected_def
        split: sum.splits if_splits option.splits)
  define f where "f = finish_row StatusFailed ''cancelled'' (completionSummary StatusFailed '''' ?reason)
    ?reason cj (clock e 1) (clock e 1)"
  let ?P = "\<lambda>r. tq_id r = tid \<and> tq_status r = StatusPending"
  have t': "t' = tbl_update ?P f t3" using cj unfolding cancel_row_def Let_def f_def by simp
  have fid: "tq_id (f r) = tq_id r" for r by (simp add: f_def)
  have get: "tbl_get tq_id i t' = map_option (\<lambda>r. if ?P r then f r else r) (tbl_get tq_id i t3)"
    unfolding t' by (rule tbl_get_update[of tq_id f, OF fid])
  then obtain r where r: "tbl_get tq_id i t3 = Some r" "?P r"
    using assms(2) by (cases "tbl_get tq_id i t3") (auto split: if_splits)
  then have "i = tid" using tbl_get_SomeD by metis
  moreover have "tq_status (f r) = StatusFailed" "tq_result (f r) = ?reason"
    by (simp_all add: f_def finish_row_def)
  ultimately show ?thesis using r get \<open>res = Inr ()\<close> by simp
qed

lemma CancelTask_only_pending_witness:
  "\<exists>t'. CancelTask (calm 5000) demo_q1 demo_q1 demo_q1 1 '''' = (Inr (), t') \<and>
     map tq_status (tbl_rows t') = [StatusFailed]"
proof -
  let ?x = "CancelTask (calm 5000) demo_q1 demo_q1 demo_q1 1 ''''"
  let ?P = "\<lambda>r. tq_id r = 1 \<and> tq_status r = StatusPending"
  have row: "tbl_get tq_id 1 demo_q1 = Some demo_row" "?P demo_row"
    by (simp_all add: demo_q1_get demo_row_def)
  obtain k where k: "\<And>i. Get (calm 5000) i demo_q1 1 = Inr k" "tk_status k = StatusPending"
    using demo_q1_Get by blast
  have "tbl_affected ?P demo_q1 \<noteq> 0" using row(2) by (simp add: tbl_affected_0 demo_q1_eq)
  then obtain cj where "?x = (Inr (), tbl_update ?P (finish_row StatusFailed ''cancelled''
      (completionSummary StatusFailed '''' ''task cancelled'') ''task cancelled'' cj 5000 5000) demo_q1)"
    using k by (simp add: CancelTask_def buildCompletionJSON_def cancel_row_def Let_def)
  then obtain f where x: "?x = (Inr (), tbl_update ?P f demo_q1)" "tq_status (f demo_row) = StatusFailed"
    "tq_id (f demo_row) = 1"
    using row(2) by (simp add: finish_row_def)
  then have "tbl_get tq_id 1 (snd ?x) \<noteq> tbl_get tq_id 1 demo_q1"
    using row by (auto simp: tbl_get_def tbl_select_def demo_q1_eq)
  with CancelTask_only_pending[of "calm 5000" demo_q1 demo_q1 demo_q1 1 "''''" "fst ?x" "snd ?x" 1]
  have "fst ?x = Inr ()" by simp
  with x row show ?thesis by (simp add: demo_q1_eq)
qed

section \<open>Payloads\<close>



text \<open>
  The condition of C9 is needed: a plain prompt that is the text of an object is enqueued as it
  is, and read back as a structured payload, with another prompt and a type nobody set.
\<close>

theorem plain_prompt_reinterpreted:
  "let p = payload_zero\<lparr>tp_prompt :=
         [CHR ''{'', CHR 0x22] @ ''prompt'' @ [CHR 0x22, CHR '':'', CHR 0x22] @ ''rm'' @
         [CHR 0x22, CHR '','', CHR 0x22] @ ''type'' @ [CHR 0x22, CHR '':'', CHR 0x22] @ ''research'' @
         [CHR 0x22, CHR ''}'']\<rparr>
   in EncodeTaskPayload p = tp_prompt p \<and>
      tp_prompt (ParseTaskPayload (EncodeTaskPayload p)) = ''rm'' \<and>
      tp_type (ParseTaskPayload (EncodeTaskPayload p)) = ''research''"
  by code_simp

section \<open>Durations\<close>

text \<open>
  The completion of a task that was cancelled before it started says that it started at the
  epoch, which is not Go's zero time, so its duration is not 0 but the whole time since 1970.
\<close>

theorem cancelled_duration:
  assumes "buildCompletionJSON e i j t tid StatusFailed summary reason meta = Inr cj"
    and "queue_inv t" and "env_int64 e" and "tbl_get tq_id tid t = Some r" and "tq_started_at r = 0"
    and "0 < clock e j"
  shows "\<exists>c. parseTaskCompletion cj = Inr (Some c) \<and> Duration c = clock e j"
proof -
  obtain k where k: "Get e i t tid = Inr k" "cj = print_json (completion_json
      (build_record k StatusFailed summary reason meta (clock e j)))"
    using assms(1) by (auto simp: buildCompletionJSON_def split: sum.splits)
  let ?c = "build_record k StatusFailed summary reason meta (clock e j)"
  have ok: "row_ok r" using assms(2,4) tbl_get_SomeD by (fastforce simp: queue_inv_def)
  have "row_task r = Inr k"
    using k(1) assms(4) by (auto simp: Get_def split: sum.splits)
  with ok assms(5) have "tk_started_at k = 0" by (auto elim!: row_task_ok)
  moreover have "record_int64 ?c"
    using Get_task[OF assms(2) k(1)] assms(3) by (auto simp: build_record_def Let_def record_int64_def)
  ultimately show ?thesis
    using k(2) assms(6)
    by (auto simp: parse_completion_print Duration_def completion_of_record_def build_record_def Let_def
        zero_time_def)
qed

lemma cancelled_duration_witness:
  "\<exists>cj c. buildCompletionJSON (calm 5000) 0 0 demo_q1 1 StatusFailed '''' ''stop'' cancel_metadata = Inr cj \<and>
     parseTaskCompletion cj = Inr (Some c) \<and> Duration c = 5000"
proof -
  obtain cj where cj: "buildCompletionJSON (calm 5000) 0 0 demo_q1 1 StatusFailed '''' ''stop''
      cancel_metadata = Inr cj"
    using demo_q1_Get by (auto simp: buildCompletionJSON_def)
  have "tbl_get tq_id 1 demo_q1 = Some demo_row" by (rule demo_q1_get)
  with cancelled_duration[OF cj _ _ _ , of demo_row] history_inv[OF demo_tail(3), of demo_q1] cj
  show ?thesis by (simp add: int64_def demo_row_def)
qed

end
