(* ===== verification/Db_Actions.thy ===== *)
theory Db_Actions
  imports Tables
begin

text \<open>
  The actions the methods of \<open>internal/agentic\<close> are made of.  An action runs in a world (its
  environment, and what other connections do before each of its statements), from the index of its
  next statement or clock reading and a database; it returns its result, the next index and the
  database it leaves.  A transaction shuts the others out, and is undone when its body or its commit
  fails.  \<open>preserves\<close> and \<open>triple\<close> are the two judgements about actions, with one rule for each
  construct.
\<close>

section \<open>Actions\<close>

record 's world =
  w_env :: env
  w_other :: "nat \<Rightarrow> 's \<Rightarrow> 's"

type_synonym ('s, 'a) act = "'s world \<Rightarrow> nat \<Rightarrow> 's \<Rightarrow> (err + 'a) \<times> nat \<times> 's"

definition quiet :: "'s world \<Rightarrow> 's world" where
  "quiet w = w\<lparr>w_other := (\<lambda>_ s. s)\<rparr>"

definition calm_world :: "int \<Rightarrow> 's world" where
  "calm_world t = \<lparr>w_env = calm t, w_other = (\<lambda>_ s. s)\<rparr>"

definition ret :: "'a \<Rightarrow> ('s, 'a) act" where
  "ret a = (\<lambda>w i s. (Inr a, i, s))"

definition fail :: "err \<Rightarrow> ('s, 'a) act" where
  "fail er = (\<lambda>w i s. (Inl er, i, s))"

definition bind :: "('s, 'a) act \<Rightarrow> ('a \<Rightarrow> ('s, 'b) act) \<Rightarrow> ('s, 'b) act" where
  "bind m k = (\<lambda>w i s. case m w i s of
     (Inl er, j, s') \<Rightarrow> (Inl er, j, s')
   | (Inr a, j, s') \<Rightarrow> k a w j s')"

text \<open>\<open>attempt m\<close> hands the error of \<open>m\<close> to the code that follows: \<open>if err != nil\<close>.\<close>

definition attempt :: "('s, 'a) act \<Rightarrow> ('s, err + 'a) act" where
  "attempt m = (\<lambda>w i s. case m w i s of (r, j, s') \<Rightarrow> (Inr r, j, s'))"

definition lift_result :: "err + 'a \<Rightarrow> ('s, 'a) act" where
  "lift_result r = (case r of Inl er \<Rightarrow> fail er | Inr a \<Rightarrow> ret a)"

definition now_ms :: "('s, int) act" where
  "now_ms = (\<lambda>w i s. (Inr (clock (w_env w) i), Suc i, s))"

text \<open>Whether the context is over.\<close>

definition ctx_check :: "('s, err option) act" where
  "ctx_check = (\<lambda>w i s. (Inr (ctx_done (w_env w) i 0), Suc i, s))"

text \<open>\<open>fmt.Errorf("...: %w", err)\<close> on the error of \<open>c\<close>.\<close>

definition wrap_act :: "string \<Rightarrow> ('s, 'a) act \<Rightarrow> ('s, 'a) act" where
  "wrap_act m c = (\<lambda>w i s. case c w i s of (r, j, s') \<Rightarrow> (wrap m r, j, s'))"

definition query :: "('s \<Rightarrow> err + 'a) \<Rightarrow> ('s, 'a) act" where
  "query f = (\<lambda>w i s. let s0 = w_other w i s in
     (case fault (w_env w) i 0 of Some er \<Rightarrow> Inl er | None \<Rightarrow> f s0, Suc i, s0))"

definition exec :: "('s \<Rightarrow> err + 'a \<times> 's) \<Rightarrow> ('s, 'a) act" where
  "exec f = (\<lambda>w i s. let s0 = w_other w i s in
     (case fault (w_env w) i 0 of
        Some er \<Rightarrow> (Inl er, Suc i, s0)
      | None \<Rightarrow> (case f s0 of Inl er \<Rightarrow> (Inl er, Suc i, s0) | Inr (a, s') \<Rightarrow> (Inr a, Suc i, s'))))"

definition transaction :: "('s, 'a) act \<Rightarrow> ('s, 'a) act" where
  "transaction m = (\<lambda>w i s. let s0 = w_other w i s in
     (case fault (w_env w) i 0 of
        Some er \<Rightarrow> (Inl er, Suc i, s0)
      | None \<Rightarrow>
          (case m (quiet w) (Suc i) s0 of
             (Inl er, j, s') \<Rightarrow> (Inl er, j, s0)
           | (Inr a, j, s') \<Rightarrow>
               (case fault (w_env w) j 0 of
                  Some er \<Rightarrow> (Inl er, Suc j, s0)
                | None \<Rightarrow> (Inr a, Suc j, s')))))"

text \<open>A transaction whose body may give up with a value: \<open>tx.Rollback()\<close> and a return.\<close>

definition transaction_try :: "('s, 'e + 'a) act \<Rightarrow> ('s, 'e + 'a) act" where
  "transaction_try m = (\<lambda>w i s. let s0 = w_other w i s in
     (case fault (w_env w) i 0 of
        Some er \<Rightarrow> (Inl er, Suc i, s0)
      | None \<Rightarrow>
          (case m (quiet w) (Suc i) s0 of
             (Inl er, j, s') \<Rightarrow> (Inl er, j, s0)
           | (Inr (Inl e), j, s') \<Rightarrow> (Inr (Inl e), j, s0)
           | (Inr (Inr a), j, s') \<Rightarrow>
               (case fault (w_env w) j 0 of
                  Some er \<Rightarrow> (Inl er, Suc j, s0)
                | None \<Rightarrow> (Inr (Inr a), Suc j, s')))))"

text \<open>\<open>mapA\<close>: one action for each element, in order, up to the first error.\<close>

fun mapA :: "('a \<Rightarrow> ('s, 'b) act) \<Rightarrow> 'a list \<Rightarrow> ('s, 'b list) act" where
  "mapA f [] = ret []"
| "mapA f (x # xs) = bind (f x) (\<lambda>y. bind (mapA f xs) (\<lambda>ys. ret (y # ys)))"

fun foldA :: "('b \<Rightarrow> 'a \<Rightarrow> ('s, 'b) act) \<Rightarrow> 'b \<Rightarrow> 'a list \<Rightarrow> ('s, 'b) act" where
  "foldA f b [] = ret b"
| "foldA f b (x # xs) = bind (f b x) (\<lambda>b'. foldA f b' xs)"

text \<open>The result and the database of an action.\<close>

definition act_result :: "(err + 'a) \<times> nat \<times> 's \<Rightarrow> err + 'a" where "act_result x = fst x"
definition act_state :: "(err + 'a) \<times> nat \<times> 's \<Rightarrow> 's" where "act_state x = snd (snd x)"

lemma act_simps [simp]: "act_result (r, j, s) = r" "act_state (r, j, s) = s"
  by (simp_all add: act_result_def act_state_def)

lemma world_simps [simp]:
  "w_env (quiet w) = w_env w" "w_other (quiet w) i s = s" "quiet (quiet w) = quiet w"
  "w_env (calm_world t) = calm t" "w_other (calm_world t) i s = s" "quiet (calm_world t) = calm_world t"
  by (simp_all add: quiet_def calm_world_def)

section \<open>Rows\<close>

text \<open>\<open>INSERT\<close> of a row that may violate a constraint.\<close>

definition try_insert ::
  "('r table \<Rightarrow> 'r \<Rightarrow> err option) \<Rightarrow> (int \<Rightarrow> 'r) \<Rightarrow> 'r table \<Rightarrow> err + int \<times> 'r table" where
  "try_insert check mk t =
     (if max_key < tbl_next t then Inl sqlite_full
      else (case check t (mk (tbl_next t)) of
              Some er \<Rightarrow> Inl er
            | None \<Rightarrow> Inr (tbl_next t, tbl_insert mk t)))"

text \<open>
  \<open>UPDATE\<close> of the row \<open>P\<close> picks by its key, which may violate a constraint: \<open>check\<close> looks at the
  other rows and the new one.  The result is the number of rows.
\<close>

definition try_update ::
  "('r table \<Rightarrow> 'r \<Rightarrow> err option) \<Rightarrow> ('r \<Rightarrow> bool) \<Rightarrow> ('r \<Rightarrow> 'r) \<Rightarrow> 'r table \<Rightarrow> err + nat \<times> 'r table" where
  "try_update check P f t =
     (case first_row (tbl_select P t) of
        None \<Rightarrow> Inr (0, t)
      | Some r \<Rightarrow>
          (case check (t\<lparr>tbl_rows := filter (\<lambda>x. \<not> P x) (tbl_rows t)\<rparr>) (f r) of
             Some er \<Rightarrow> Inl er
           | None \<Rightarrow> Inr (tbl_affected P t, tbl_update P f t)))"

text \<open>\<open>UPDATE\<close> of columns no constraint is about.\<close>

definition plain_update :: "('r \<Rightarrow> bool) \<Rightarrow> ('r \<Rightarrow> 'r) \<Rightarrow> 'r table \<Rightarrow> err + nat \<times> 'r table" where
  "plain_update P f t = Inr (tbl_affected P t, tbl_update P f t)"

text \<open>\<open>INSERT OR IGNORE\<close>: \<open>None\<close> when a unique index ignores the row; a foreign key does not.\<close>

definition insert_or_ignore ::
  "('r table \<Rightarrow> 'r \<Rightarrow> err option) \<Rightarrow> (int \<Rightarrow> 'r) \<Rightarrow> 'r table \<Rightarrow> err + int option \<times> 'r table" where
  "insert_or_ignore check mk t =
     (case try_insert check mk t of
        Inl er \<Rightarrow> (case er of EUnique _ \<Rightarrow> Inr (None, t) | _ \<Rightarrow> Inl er)
      | Inr (i, t') \<Rightarrow> Inr (Some i, t'))"

text \<open>A statement on one table of the database.\<close>

definition on_table ::
  "('s \<Rightarrow> 'r table) \<Rightarrow> ('r table \<Rightarrow> 's \<Rightarrow> 's) \<Rightarrow> ('s \<Rightarrow> 'r table \<Rightarrow> err + 'a \<times> 'r table) \<Rightarrow> ('s, 'a) act" where
  "on_table get put f =
     exec (\<lambda>s. case f s (get s) of Inl er \<Rightarrow> Inl er | Inr (a, t) \<Rightarrow> Inr (a, put t s))"

text \<open>The first row, or \<open>sql.ErrNoRows\<close>.\<close>

definition one_row :: "'r list \<Rightarrow> err + 'r" where
  "one_row rs = (case first_row rs of None \<Rightarrow> Inl ErrNoRows | Some r \<Rightarrow> Inr r)"

definition get_row :: "('r \<Rightarrow> int) \<Rightarrow> int \<Rightarrow> 'r table \<Rightarrow> err + 'r" where
  "get_row key i t = (case tbl_get key i t of None \<Rightarrow> Inl ErrNoRows | Some r \<Rightarrow> Inr r)"

text \<open>A nullable column: \<open>nullableInt\<close> and \<open>intFromNull\<close>.\<close>

definition nullableInt :: "int \<Rightarrow> int option" where
  "nullableInt v = (if v = 0 then None else Some v)"

definition intFromNull :: "int option \<Rightarrow> int" where
  "intFromNull v = (case v of None \<Rightarrow> 0 | Some i \<Rightarrow> i)"

lemma nullable_simps [simp]:
  "intFromNull (nullableInt v) = v" "intFromNull None = 0" "intFromNull (Some v) = v"
  "nullableInt 0 = None"
  by (simp_all add: nullableInt_def intFromNull_def)

text \<open>A foreign key: \<open>NULL\<close> or the key of a row.\<close>

definition refers :: "('r \<Rightarrow> int) \<Rightarrow> int option \<Rightarrow> 'r table \<Rightarrow> bool" where
  "refers key c t \<longleftrightarrow> (case c of None \<Rightarrow> True | Some i \<Rightarrow> tbl_get key i t \<noteq> None)"

definition fk_error :: err where
  "fk_error = EConstraint ''FOREIGN KEY constraint failed''"

text \<open>The violation of a unique index over \<open>P\<close> by \<open>k\<close> a new row would make.\<close>

definition unique_clash :: "('r \<Rightarrow> bool) \<Rightarrow> ('r \<Rightarrow> 'k) \<Rightarrow> 'r table \<Rightarrow> 'r \<Rightarrow> bool" where
  "unique_clash P k t r \<longleftrightarrow> P r \<and> (\<exists>r' \<in> set (tbl_rows t). P r' \<and> k r' = k r)"

lemma get_row_Inr: "get_row key i t = Inr r \<longleftrightarrow> tbl_get key i t = Some r"
  by (simp add: get_row_def split: option.splits)

lemma one_row_Inr: "one_row rs = Inr r \<longleftrightarrow> first_row rs = Some r"
  by (simp add: one_row_def split: option.splits)

lemma plain_update_Inr [simp]:
  "plain_update P f t = Inr (n, t') \<longleftrightarrow> n = tbl_affected P t \<and> t' = tbl_update P f t"
  by (auto simp: plain_update_def)

lemma try_update_Inr:
  "try_update check P f t = Inr (n, t') \<Longrightarrow>
     n = tbl_affected P t \<and> t' = tbl_update P f t \<and>
     (\<forall>r. first_row (tbl_select P t) = Some r \<longrightarrow>
        check (t\<lparr>tbl_rows := filter (\<lambda>x. \<not> P x) (tbl_rows t)\<rparr>) (f r) = None)"
  by (auto simp: try_update_def tbl_affected_def tbl_update_none split: option.splits)

lemma insert_or_ignore_Inr:
  "insert_or_ignore check mk t = Inr (r, t') \<Longrightarrow>
     (case r of None \<Rightarrow> t' = t \<and> (\<exists>c. check t (mk (tbl_next t)) = Some (EUnique c))
      | Some i \<Rightarrow> try_insert check mk t = Inr (i, t'))"
  by (auto simp: insert_or_ignore_def try_insert_def sqlite_full_def split: option.splits err.splits if_splits)

lemma try_insert_Inr:
  "try_insert check mk t = Inr (i, t') \<longleftrightarrow>
     tbl_next t \<le> max_key \<and> check t (mk (tbl_next t)) = None \<and> i = tbl_next t \<and> t' = tbl_insert mk t"
  by (auto simp: try_insert_def split: option.splits)

section \<open>What an action preserves\<close>

definition preserves :: "('s \<Rightarrow> bool) \<Rightarrow> ('s, 'a) act \<Rightarrow> bool" where
  "preserves I m \<longleftrightarrow> (\<forall>w i s. (\<forall>j s. I s \<longrightarrow> I (w_other w j s)) \<longrightarrow> I s \<longrightarrow> I (act_state (m w i s)))"

lemma preserves_ret [inv_intros]: "preserves I (ret a)"
  and preserves_fail [inv_intros]: "preserves I (fail er)"
  and preserves_now [inv_intros]: "preserves I now_ms"
  and preserves_query [inv_intros]: "preserves I (query f)"
  and preserves_ctx [inv_intros]: "preserves I ctx_check"
  by (simp_all add: preserves_def ret_def fail_def now_ms_def query_def ctx_check_def Let_def)

lemma preserves_wrap [inv_intros]: "preserves I m \<Longrightarrow> preserves I (wrap_act x m)"
  unfolding preserves_def wrap_act_def by (auto split: prod.splits) (metis act_simps(2))

lemma preserves_bind [inv_intros]:
  "preserves I m \<Longrightarrow> (\<And>a. preserves I (k a)) \<Longrightarrow> preserves I (bind m k)"
  unfolding preserves_def bind_def
  by (auto split: prod.splits sum.splits) (metis act_simps(2))+

lemma preserves_attempt [inv_intros]: "preserves I m \<Longrightarrow> preserves I (attempt m)"
  unfolding preserves_def attempt_def by (auto split: prod.splits) (metis act_simps(2))

lemma preserves_lift [inv_intros]: "preserves I (lift_result r)"
  by (cases r) (simp_all add: lift_result_def inv_intros)

lemma preserves_exec [inv_intros]:
  "(\<And>s a s'. I s \<Longrightarrow> f s = Inr (a, s') \<Longrightarrow> I s') \<Longrightarrow> preserves I (exec f)"
  by (fastforce simp: preserves_def exec_def Let_def split: option.splits sum.splits)

lemma preserves_on_table:
  "(\<And>s a t. I s \<Longrightarrow> f s (get s) = Inr (a, t) \<Longrightarrow> I (put t s)) \<Longrightarrow> preserves I (on_table get put f)"
  unfolding on_table_def by (rule preserves_exec) (auto split: sum.splits)

lemma preserves_transaction [inv_intros]: "preserves I m \<Longrightarrow> preserves I (transaction m)"
  unfolding preserves_def transaction_def Let_def
  by (auto split: option.splits prod.splits sum.splits) (metis act_simps(2) world_simps(2))

lemma preserves_transaction_try [inv_intros]: "preserves I m \<Longrightarrow> preserves I (transaction_try m)"
  unfolding preserves_def transaction_try_def Let_def
  by (auto split: option.splits prod.splits sum.splits) (metis act_simps(2) world_simps(2))

lemma preserves_mapA [inv_intros]: "(\<And>x. preserves I (f x)) \<Longrightarrow> preserves I (mapA f xs)"
  by (induction xs) (auto intro!: inv_intros)

lemma preserves_foldA [inv_intros]: "(\<And>b x. preserves I (f b x)) \<Longrightarrow> preserves I (foldA f b xs)"
  by (induction xs arbitrary: b) (auto intro!: inv_intros)

lemma preserves_if [inv_intros]:
  "(c \<Longrightarrow> preserves I m) \<Longrightarrow> (\<not> c \<Longrightarrow> preserves I m') \<Longrightarrow> preserves I (if c then m else m')"
  by simp

lemma preserves_sum [inv_intros]:
  "(\<And>x. r = Inl x \<Longrightarrow> preserves I (f x)) \<Longrightarrow> (\<And>y. r = Inr y \<Longrightarrow> preserves I (g y)) \<Longrightarrow>
     preserves I (case r of Inl x \<Rightarrow> f x | Inr y \<Rightarrow> g y)"
  by (cases r) auto

lemma preserves_option [inv_intros]:
  "(r = None \<Longrightarrow> preserves I m) \<Longrightarrow> (\<And>y. r = Some y \<Longrightarrow> preserves I (g y)) \<Longrightarrow>
     preserves I (case r of None \<Rightarrow> m | Some y \<Rightarrow> g y)"
  by (cases r) auto

lemma preserves_prod [inv_intros]:
  "(\<And>x y. r = (x, y) \<Longrightarrow> preserves I (f x y)) \<Longrightarrow> preserves I (case r of (x, y) \<Rightarrow> f x y)"
  by (cases r) auto

lemma preserves_let [inv_intros]: "(\<And>x. x = a \<Longrightarrow> preserves I (f x)) \<Longrightarrow> preserves I (let x = a in f x)"
  by simp

section \<open>What an action establishes\<close>

text \<open>
  \<open>triple w P m Q E\<close>: from \<open>P\<close>, a result \<open>a\<close> leaves \<open>Q a\<close> and an error \<open>er\<close> leaves \<open>E er\<close>; the
  rules for a statement ask that the others keep its precondition.
\<close>

definition triple ::
  "'s world \<Rightarrow> ('s \<Rightarrow> bool) \<Rightarrow> ('s, 'a) act \<Rightarrow> ('a \<Rightarrow> 's \<Rightarrow> bool) \<Rightarrow> (err \<Rightarrow> 's \<Rightarrow> bool) \<Rightarrow> bool" where
  "triple w P m Q E \<longleftrightarrow> (\<forall>i s. P s \<longrightarrow>
     (case m w i s of (r, j, s') \<Rightarrow> (case r of Inl er \<Rightarrow> E er s' | Inr a \<Rightarrow> Q a s')))"

definition stable :: "'s world \<Rightarrow> ('s \<Rightarrow> bool) \<Rightarrow> bool" where
  "stable w P \<longleftrightarrow> (\<forall>i s. P s \<longrightarrow> P (w_other w i s))"

lemma stable_quiet [simp]: "stable (quiet w) P"
  by (simp add: stable_def)

lemma triple_ret: "(\<And>s. P s \<Longrightarrow> Q a s) \<Longrightarrow> triple w P (ret a) Q E"
  by (simp add: triple_def ret_def)

lemma triple_fail: "(\<And>s. P s \<Longrightarrow> E er s) \<Longrightarrow> triple w P (fail er) Q E"
  by (simp add: triple_def fail_def)

lemma triple_now: "(\<And>s t. P s \<Longrightarrow> Q t s) \<Longrightarrow> triple w P now_ms Q E"
  by (simp add: triple_def now_ms_def)

lemma triple_ctx: "(\<And>s c. P s \<Longrightarrow> Q c s) \<Longrightarrow> triple w P ctx_check Q E"
  by (simp add: triple_def ctx_check_def)

lemma triple_wrap: "triple w P m Q (\<lambda>er. E (EWrap x er)) \<Longrightarrow> triple w P (wrap_act x m) Q E"
  by (fastforce simp: triple_def wrap_act_def wrap_def split: prod.splits sum.splits)

lemma triple_bind:
  "triple w P m R E \<Longrightarrow> (\<And>a. triple w (R a) (k a) Q E) \<Longrightarrow> triple w P (bind m k) Q E"
  unfolding triple_def bind_def by (fastforce split: prod.splits sum.splits)

lemma triple_query:
  "stable w P \<Longrightarrow> (\<And>s a. P s \<Longrightarrow> f s = Inr a \<Longrightarrow> Q a s) \<Longrightarrow> (\<And>s er. P s \<Longrightarrow> E er s) \<Longrightarrow>
     triple w P (query f) Q E"
  by (auto simp: triple_def query_def Let_def stable_def split: option.splits sum.splits)

lemma triple_exec:
  "stable w P \<Longrightarrow> (\<And>s a s'. P s \<Longrightarrow> f s = Inr (a, s') \<Longrightarrow> Q a s') \<Longrightarrow> (\<And>s er. P s \<Longrightarrow> E er s) \<Longrightarrow>
     triple w P (exec f) Q E"
  by (fastforce simp: triple_def exec_def Let_def stable_def split: option.splits sum.splits)

lemma triple_on_table:
  "stable w P \<Longrightarrow> (\<And>s a t. P s \<Longrightarrow> f s (get s) = Inr (a, t) \<Longrightarrow> Q a (put t s)) \<Longrightarrow>
     (\<And>s er. P s \<Longrightarrow> E er s) \<Longrightarrow> triple w P (on_table get put f) Q E"
  unfolding on_table_def by (rule triple_exec) (auto split: sum.splits)

lemma triple_transaction:
  assumes "stable w P" and "triple (quiet w) P m Q (\<lambda>er s. True)" and "\<And>s er. P s \<Longrightarrow> E er s"
  shows "triple w P (transaction m) Q E"
  using assms unfolding triple_def transaction_def Let_def stable_def
  by (fastforce split: option.splits prod.splits sum.splits)

lemma triple_transaction_try:
  assumes "stable w P" and "triple (quiet w) P m (\<lambda>r s. case r of Inl e \<Rightarrow> True | Inr a \<Rightarrow> Q (Inr a) s) (\<lambda>er s. True)"
    and "\<And>s e. P s \<Longrightarrow> Q (Inl e) s" and "\<And>s er. P s \<Longrightarrow> E er s"
  shows "triple w P (transaction_try m) Q E"
  using assms unfolding triple_def transaction_try_def Let_def stable_def
  by (fastforce split: option.splits prod.splits sum.splits)

lemma triple_attempt:
  "triple w P m (\<lambda>a. Q (Inr a)) (\<lambda>er. Q (Inl er)) \<Longrightarrow> triple w P (attempt m) Q E"
  unfolding triple_def attempt_def
  by (simp split: prod.splits) (metis (no_types, lifting) old.sum.simps(5,6) sumE)

lemma triple_conseq:
  "triple w P' m Q' E' \<Longrightarrow> (\<And>s. P s \<Longrightarrow> P' s) \<Longrightarrow> (\<And>a s. Q' a s \<Longrightarrow> Q a s) \<Longrightarrow>
     (\<And>er s. E' er s \<Longrightarrow> E er s) \<Longrightarrow> triple w P m Q E"
  unfolding triple_def by (fastforce split: prod.splits sum.splits)

text \<open>What the rules prove, read off a run.\<close>

lemma triple_run:
  "triple w P m Q E \<Longrightarrow> P s \<Longrightarrow> m w i s = (Inr a, j, s') \<Longrightarrow> Q a s'"
  by (fastforce simp: triple_def split: prod.splits)

lemma triple_run_error:
  "triple w P m Q E \<Longrightarrow> P s \<Longrightarrow> m w i s = (Inl er, j, s') \<Longrightarrow> E er s'"
  by (fastforce simp: triple_def split: prod.splits)

lemma triple_preserves:
  "preserves I m \<Longrightarrow> stable w I \<Longrightarrow> triple w I m (\<lambda>_. I) (\<lambda>_. I)"
  unfolding triple_def preserves_def stable_def act_state_def
  by (auto split: prod.splits sum.splits) (metis snd_conv)+

lemma preserves_state:
  "preserves I m \<Longrightarrow> stable w I \<Longrightarrow> I s \<Longrightarrow> I (act_state (m w i s))"
  by (auto simp: preserves_def stable_def)


lemma triple_trivial: "triple w P m (\<lambda>_ _. True) (\<lambda>_ _. True)"
  by (simp add: triple_def split: prod.splits sum.splits)

lemma bind_run: "m w i s = (Inr a, j, s') \<Longrightarrow> bind m k w i s = k a w j s'"
  by (simp add: bind_def)

context keyed_table begin

text \<open>A row that is inserted and read back is the row that was made, under its own key.\<close>

lemma insert_get_triple:
  assumes "\<And>s t. get (put t s) = t" and "\<And>s t. P s \<Longrightarrow> Q (put t s)"
  shows "triple (quiet w) (\<lambda>s. P s \<and> keys_ok key (get s))
    (bind (on_table get put (\<lambda>s. try_insert (check s) (mk a))) (\<lambda>i. query (\<lambda>s. get_row key i (get s))))
    (\<lambda>r s. Q s \<and> tbl_get key (key r) (get s) = Some r \<and> (\<exists>i. r = mk a i)) (\<lambda>_ _. True)"
proof -
  let ?R = "\<lambda>i s. Q s \<and> tbl_get key i (get s) = Some (mk a i)"
  have ins: "triple (quiet w) (\<lambda>s. P s \<and> keys_ok key (get s)) (on_table get put (\<lambda>s. try_insert (check s) (mk a)))
      ?R (\<lambda>_ _. True)"
    by (intro triple_on_table stable_quiet) (auto simp: try_insert_Inr assms get_inserted)
  have sel: "triple (quiet w) (?R i) (query (\<lambda>s. get_row key i (get s)))
      (\<lambda>r s. Q s \<and> tbl_get key (key r) (get s) = Some r \<and> (\<exists>i. r = mk a i)) (\<lambda>_ _. True)" for i
    by (intro triple_query stable_quiet) (auto simp: get_row_Inr key_mk)
  show ?thesis by (rule triple_bind[OF ins sel])
qed

end

end
