(* ===== verification/Agentic_Types.thy ===== *)
theory Agentic_Types
  imports Db_Actions Task_Queue
begin

text \<open>
  The rows of the control plane (\<open>internal/agentic/types.go\<close>, the schema of
  \<open>internal/agentic/schema.go\<close> and the approval table of \<open>internal/daemon/approval_store.go\<close>) and
  the database that holds them beside the daemon's queue: one SQLite file, with foreign keys on.
  A nullable column is an option; Go's zero stands for \<open>NULL\<close> in the structs.  Times are
  milliseconds.
\<close>

section \<open>Constants\<close>

abbreviation SignalStatusNew :: string where "SignalStatusNew \<equiv> ''new''"
abbreviation SignalStatusTriaged :: string where "SignalStatusTriaged \<equiv> ''triaged''"
abbreviation SignalStatusFailed :: string where "SignalStatusFailed \<equiv> ''failed''"

abbreviation TaskStatusProposed :: string where "TaskStatusProposed \<equiv> ''proposed''"
abbreviation TaskStatusPending :: string where "TaskStatusPending \<equiv> ''pending''"
abbreviation TaskStatusRunning :: string where "TaskStatusRunning \<equiv> ''running''"
abbreviation TaskStatusSucceeded :: string where "TaskStatusSucceeded \<equiv> ''succeeded''"
abbreviation TaskStatusFailed :: string where "TaskStatusFailed \<equiv> ''failed''"
abbreviation TaskStatusCanceled :: string where "TaskStatusCanceled \<equiv> ''canceled''"

abbreviation RiskLevelLow :: string where "RiskLevelLow \<equiv> ''low''"
abbreviation RiskLevelMedium :: string where "RiskLevelMedium \<equiv> ''medium''"
abbreviation RiskLevelHigh :: string where "RiskLevelHigh \<equiv> ''high''"
abbreviation RiskLevelCritical :: string where "RiskLevelCritical \<equiv> ''critical''"

abbreviation PolicyDecisionObserve :: string where "PolicyDecisionObserve \<equiv> ''observe''"
abbreviation VerificationStatusPending :: string where "VerificationStatusPending \<equiv> ''pending''"

abbreviation PolicyDecisionAutoAllowed :: string where "PolicyDecisionAutoAllowed \<equiv> ''auto_allowed''"
abbreviation PolicyDecisionApprovalRequired :: string where
  "PolicyDecisionApprovalRequired \<equiv> ''approval_required''"
abbreviation PolicyDecisionHardlineDenied :: string where
  "PolicyDecisionHardlineDenied \<equiv> ''hardline_denied''"
abbreviation PolicyDecisionObserveOnly :: string where "PolicyDecisionObserveOnly \<equiv> ''observe_only''"
abbreviation PolicyDecisionEscalated :: string where "PolicyDecisionEscalated \<equiv> ''escalated''"

abbreviation ReceiptStatusStarted :: string where "ReceiptStatusStarted \<equiv> ''started''"
abbreviation ReceiptStatusSucceeded :: string where "ReceiptStatusSucceeded \<equiv> ''succeeded''"
abbreviation ReceiptStatusFailed :: string where "ReceiptStatusFailed \<equiv> ''failed''"
abbreviation ReceiptStatusApprovalRequired :: string where
  "ReceiptStatusApprovalRequired \<equiv> ''approval_required''"
abbreviation ReceiptStatusDenied :: string where "ReceiptStatusDenied \<equiv> ''denied''"

abbreviation CompletionGateStatusPassed :: string where "CompletionGateStatusPassed \<equiv> ''passed''"
abbreviation CompletionGateStatusBlocked :: string where "CompletionGateStatusBlocked \<equiv> ''blocked''"
abbreviation CompletionGateStatusFailed :: string where "CompletionGateStatusFailed \<equiv> ''failed''"

abbreviation TaskEnqueueDecisionApproved :: string where "TaskEnqueueDecisionApproved \<equiv> ''approved''"
abbreviation TaskEnqueueStatusPending :: string where "TaskEnqueueStatusPending \<equiv> ''pending''"
abbreviation TaskEnqueueStatusEnqueued :: string where "TaskEnqueueStatusEnqueued \<equiv> ''enqueued''"
abbreviation TaskEnqueueStatusFailed :: string where "TaskEnqueueStatusFailed \<equiv> ''failed''"

abbreviation VerificationVerdictPassed :: string where "VerificationVerdictPassed \<equiv> ''passed''"
abbreviation VerificationVerdictFailed :: string where "VerificationVerdictFailed \<equiv> ''failed''"
abbreviation VerificationVerdictInconclusive :: string where
  "VerificationVerdictInconclusive \<equiv> ''inconclusive''"

abbreviation FollowupStatusPending :: string where "FollowupStatusPending \<equiv> ''pending''"
abbreviation FollowupStatusProcessing :: string where "FollowupStatusProcessing \<equiv> ''processing''"
abbreviation FollowupStatusCreated :: string where "FollowupStatusCreated \<equiv> ''created''"
abbreviation FollowupStatusSkipped :: string where "FollowupStatusSkipped \<equiv> ''skipped''"
abbreviation FollowupStatusFailed :: string where "FollowupStatusFailed \<equiv> ''failed''"
abbreviation FollowupStatusCanceled :: string where "FollowupStatusCanceled \<equiv> ''canceled''"

abbreviation ActivationRunStatusSucceeded :: string where "ActivationRunStatusSucceeded \<equiv> ''succeeded''"
abbreviation ActivationRunStatusFailed :: string where "ActivationRunStatusFailed \<equiv> ''failed''"

section \<open>Rows\<close>

record standing_goal =
  sg_id :: int
  sg_title :: string
  sg_description :: string
  sg_status :: string
  sg_priority :: int
  sg_autonomy_level :: string
  sg_risk_budget :: string
  sg_created_at :: int
  sg_updated_at :: int

record goal_signal =
  gs_id :: int
  gs_goal_id :: "int option"
  gs_watcher_id :: "int option"
  gs_source :: string
  gs_type :: string
  gs_payload_json :: string
  gs_fingerprint :: string
  gs_severity :: int
  gs_status :: string
  gs_dedupe_key :: string
  gs_observed_at :: int

record signal_watcher =
  sw_id :: int
  sw_goal_id :: "int option"
  sw_source :: string
  sw_config_json :: string
  sw_enabled :: bool
  sw_interval_s :: int
  sw_last_cursor :: string
  sw_created_at :: int
  sw_updated_at :: int

record agentic_task =
  at_id :: int
  at_goal_id :: "int option"
  at_signal_id :: "int option"
  at_parent_id :: "int option"
  at_queue_task_id :: "int option"
  at_title :: string
  at_prompt :: string
  at_status :: string
  at_priority :: int
  at_risk_level :: string
  at_autonomy_decision :: string
  at_approval_request_id :: string
  at_verification_status :: string
  at_due_at :: "int option"
  at_created_at :: int
  at_updated_at :: int

record task_edge =
  te_parent_id :: int
  te_child_id :: int
  te_edge_type :: string
  te_created_at :: int

record agent_actor =
  aa_id :: int
  aa_task_id :: int
  aa_role :: string
  aa_state_json :: string
  aa_inbox_json :: string
  aa_outbox_json :: string
  aa_tool_allowlist_json :: string
  aa_budget_json :: string
  aa_status :: string
  aa_created_at :: int
  aa_updated_at :: int

record actor_handoff =
  ah_id :: int
  ah_task_id :: int
  ah_from_actor_id :: int
  ah_to_actor_id :: int
  ah_handoff_type :: string
  ah_payload_json :: string
  ah_status :: string
  ah_created_at :: int

record policy_decision =
  pd_id :: int
  pd_task_id :: int
  pd_actor_id :: "int option"
  pd_action_kind :: string
  pd_tool_name :: string
  pd_risk_level :: string
  pd_decision :: string
  pd_reason :: string
  pd_policy_version :: string
  pd_created_at :: int

record tool_receipt =
  tr_id :: int
  tr_task_id :: int
  tr_actor_id :: "int option"
  tr_policy_decision_id :: "int option"
  tr_approval_request_id :: string
  tr_tool_name :: string
  tr_tool_call_id :: string
  tr_input_hash :: string
  tr_output_hash :: string
  tr_raw_output_hash :: string
  tr_visible_output_hash :: string
  tr_output_summary :: string
  tr_status :: string
  tr_failure_reason :: string
  tr_hook_provenance_json :: string
  tr_reversible :: bool
  tr_started_at :: int
  tr_completed_at :: "int option"

record activation_run =
  ar_id :: int
  ar_execution_policy :: string
  ar_limit :: int
  ar_followup_processed :: int
  ar_followup_created :: int
  ar_followup_skipped :: int
  ar_followup_failed :: int
  ar_signal_processed :: int
  ar_signal_created :: int
  ar_signal_linked :: int
  ar_signal_failed :: int
  ar_enqueue_performed :: bool
  ar_proposed_task_ids :: "int list"
  ar_status :: string
  ar_reason :: string
  ar_created_at :: int

record verification_run =
  vr_id :: int
  vr_task_id :: int
  vr_verifier_actor_id :: "int option"
  vr_criteria_json :: string
  vr_evidence_refs_json :: string
  vr_verdict :: string
  vr_reason :: string
  vr_created_at :: int

record completion_gate =
  cg_id :: int
  cg_task_id :: int
  cg_queue_task_id :: "int option"
  cg_verification_run_id :: "int option"
  cg_status :: string
  cg_reason :: string
  cg_receipt_summary_json :: string
  cg_created_at :: int
  cg_updated_at :: int

record enqueue_decision =
  ed_id :: int
  ed_task_id :: int
  ed_queue_task_id :: "int option"
  ed_operator_id :: string
  ed_decision :: string
  ed_reason :: string
  ed_requested_enforcement :: string
  ed_requested_completion_gate :: string
  ed_status :: string
  ed_failure_reason :: string
  ed_created_at :: int
  ed_updated_at :: int

record memory_update =
  mu_id :: int
  mu_task_id :: int
  mu_receipt_id :: "int option"
  mu_verification_run_id :: "int option"
  mu_target :: string
  mu_operation :: string
  mu_payload_hash :: string
  mu_status :: string
  mu_source :: string
  mu_reason :: string
  mu_created_at :: int
  mu_applied_at :: "int option"

record followup =
  fu_id :: int
  fu_task_id :: "int option"
  fu_goal_id :: "int option"
  fu_reason :: string
  fu_status :: string
  fu_trigger_at :: int
  fu_created_task_id :: "int option"
  fu_dedupe_key :: string
  fu_failure_reason :: string
  fu_processed_at :: "int option"
  fu_wake_agent :: bool
  fu_created_at :: int

text \<open>\<open>approval_requests\<close>; the decision is an enumeration of three texts.\<close>

datatype approval_decision = ApprovalPending | ApprovalApproved | ApprovalDenied

fun approval_text :: "approval_decision \<Rightarrow> string" where
  "approval_text ApprovalPending = ''pending''"
| "approval_text ApprovalApproved = ''approved''"
| "approval_text ApprovalDenied = ''denied''"

record approval_request =
  ap_id :: int
  ap_tool_name :: string
  ap_input :: string
  ap_decision :: approval_decision
  ap_task_id :: "int option"
  ap_policy_decision_id :: "int option"
  ap_actor_id :: "int option"
  ap_action_kind :: string
  ap_risk_level :: string
  ap_reason :: string
  ap_policy_version :: string
  ap_expires_at :: "int option"
  ap_decided_by :: string
  ap_consumed_at :: int
  ap_consumed_by_receipt_id :: int
  ap_created_at :: int
  ap_updated_at :: int

section \<open>The database\<close>

text \<open>A row of \<open>task_completion_deliveries\<close> (\<open>internal/daemon/delivery.go\<close>).\<close>

record delivery_claim =
  dv_task_id :: int
  dv_sink_name :: string
  dv_delivered_at :: int

record db =
  db_queue :: queue
  db_approvals :: "approval_request table"
  db_goals :: "standing_goal table"
  db_watchers :: "signal_watcher table"
  db_signals :: "goal_signal table"
  db_tasks :: "agentic_task table"
  db_edges :: "task_edge list"
  db_actors :: "agent_actor table"
  db_handoffs :: "actor_handoff table"
  db_policies :: "policy_decision table"
  db_receipts :: "tool_receipt table"
  db_verifications :: "verification_run table"
  db_gates :: "completion_gate table"
  db_enqueues :: "enqueue_decision table"
  db_memory :: "memory_update table"
  db_followups :: "followup table"
  db_runs :: "activation_run table"
  db_deliveries :: "delivery_claim list"

definition db_empty :: db where
  "db_empty = \<lparr>db_queue = tbl_empty, db_approvals = tbl_empty, db_goals = tbl_empty,
     db_watchers = tbl_empty, db_signals = tbl_empty, db_tasks = tbl_empty, db_edges = [],
     db_actors = tbl_empty, db_handoffs = tbl_empty, db_policies = tbl_empty,
     db_receipts = tbl_empty, db_verifications = tbl_empty, db_gates = tbl_empty,
     db_enqueues = tbl_empty, db_memory = tbl_empty, db_followups = tbl_empty,
     db_runs = tbl_empty, db_deliveries = []\<rparr>"

section \<open>Constraints\<close>

text \<open>
  What an \<open>INSERT\<close> or \<open>UPDATE\<close> may violate: the foreign keys of \<open>InitSchema\<close> and the unique
  indexes; \<open>None\<close> when the row is accepted.  \<open>unique_clash\<close> looks at the other rows of the table.
\<close>

definition check_watcher :: "db \<Rightarrow> signal_watcher table \<Rightarrow> signal_watcher \<Rightarrow> err option" where
  "check_watcher s t r =
     (if unique_clash (\<lambda>_. True) (\<lambda>x. (intFromNull (sw_goal_id x), sw_source x, sw_config_json x)) t r
      then Some (EUnique ''idx_signal_watchers_source_config'')
      else if \<not> refers sg_id (sw_goal_id r) (db_goals s) then Some fk_error else None)"

definition signal_key :: "goal_signal \<Rightarrow> int \<times> string \<times> string \<times> string" where
  "signal_key x = (intFromNull (gs_goal_id x), gs_source x, gs_type x, gs_dedupe_key x)"

definition check_signal :: "db \<Rightarrow> goal_signal table \<Rightarrow> goal_signal \<Rightarrow> err option" where
  "check_signal s t r =
     (if unique_clash (\<lambda>x. gs_dedupe_key x \<noteq> '''') signal_key t r
      then Some (EUnique ''idx_goal_signals_dedupe'')
      else if \<not> refers sg_id (gs_goal_id r) (db_goals s) \<or>
              \<not> refers sw_id (gs_watcher_id r) (db_watchers s) then Some fk_error else None)"

definition check_task :: "db \<Rightarrow> agentic_task table \<Rightarrow> agentic_task \<Rightarrow> err option" where
  "check_task s t r =
     (if unique_clash (\<lambda>x. at_signal_id x \<noteq> None) at_signal_id t r
      then Some (EUnique ''agentic_tasks.signal_id'')
      else if unique_clash (\<lambda>x. at_queue_task_id x \<noteq> None) at_queue_task_id t r
      then Some (EUnique ''agentic_tasks.queue_task_id'')
      else if \<not> refers sg_id (at_goal_id r) (db_goals s) \<or>
              \<not> refers gs_id (at_signal_id r) (db_signals s) \<or>
              \<not> refers at_id (at_parent_id r) t then Some fk_error else None)"

definition check_policy :: "db \<Rightarrow> policy_decision table \<Rightarrow> policy_decision \<Rightarrow> err option" where
  "check_policy s t r =
     (if tbl_get at_id (pd_task_id r) (db_tasks s) = None \<or>
         \<not> refers aa_id (pd_actor_id r) (db_actors s) then Some fk_error else None)"

definition check_receipt :: "db \<Rightarrow> tool_receipt table \<Rightarrow> tool_receipt \<Rightarrow> err option" where
  "check_receipt s t r =
     (if tbl_get at_id (tr_task_id r) (db_tasks s) = None \<or>
         \<not> refers aa_id (tr_actor_id r) (db_actors s) \<or>
         \<not> refers pd_id (tr_policy_decision_id r) (db_policies s) then Some fk_error else None)"

definition check_verification :: "db \<Rightarrow> verification_run table \<Rightarrow> verification_run \<Rightarrow> err option" where
  "check_verification s t r =
     (if tbl_get at_id (vr_task_id r) (db_tasks s) = None \<or>
         \<not> refers aa_id (vr_verifier_actor_id r) (db_actors s) then Some fk_error else None)"

definition check_gate :: "db \<Rightarrow> completion_gate table \<Rightarrow> completion_gate \<Rightarrow> err option" where
  "check_gate s t r =
     (if tbl_get at_id (cg_task_id r) (db_tasks s) = None \<or>
         \<not> refers vr_id (cg_verification_run_id r) (db_verifications s) then Some fk_error else None)"

definition enqueue_active :: "enqueue_decision \<Rightarrow> bool" where
  "enqueue_active x \<longleftrightarrow> ed_status x = ''pending'' \<or> ed_status x = ''enqueued''"

definition check_enqueue :: "db \<Rightarrow> enqueue_decision table \<Rightarrow> enqueue_decision \<Rightarrow> err option" where
  "check_enqueue s t r =
     (if unique_clash enqueue_active ed_task_id t r
      then Some (EUnique ''task_enqueue_decisions.task_id'')
      else if tbl_get at_id (ed_task_id r) (db_tasks s) = None then Some fk_error else None)"

definition check_actor :: "db \<Rightarrow> agent_actor table \<Rightarrow> agent_actor \<Rightarrow> err option" where
  "check_actor s t r =
     (if tbl_get at_id (aa_task_id r) (db_tasks s) = None then Some fk_error else None)"

definition check_handoff :: "db \<Rightarrow> actor_handoff table \<Rightarrow> actor_handoff \<Rightarrow> err option" where
  "check_handoff s t r =
     (if tbl_get at_id (ah_task_id r) (db_tasks s) = None \<or>
         tbl_get aa_id (ah_from_actor_id r) (db_actors s) = None \<or>
         tbl_get aa_id (ah_to_actor_id r) (db_actors s) = None then Some fk_error else None)"

definition memory_key :: "memory_update \<Rightarrow> int \<times> int option \<times> string \<times> string \<times> string \<times> string" where
  "memory_key x = (mu_task_id x, mu_verification_run_id x, mu_target x, mu_operation x,
     mu_payload_hash x, mu_source x)"

definition check_memory :: "db \<Rightarrow> memory_update table \<Rightarrow> memory_update \<Rightarrow> err option" where
  "check_memory s t r =
     (if unique_clash (\<lambda>_. True) memory_key t r then Some (EUnique ''memory_updates'')
      else if tbl_get at_id (mu_task_id r) (db_tasks s) = None \<or>
              \<not> refers tr_id (mu_receipt_id r) (db_receipts s) \<or>
              \<not> refers vr_id (mu_verification_run_id r) (db_verifications s) then Some fk_error
      else None)"

definition check_followup :: "db \<Rightarrow> followup table \<Rightarrow> followup \<Rightarrow> err option" where
  "check_followup s t r =
     (if unique_clash (\<lambda>x. fu_dedupe_key x \<noteq> '''') fu_dedupe_key t r
      then Some (EUnique ''followups.dedupe_key'')
      else if \<not> refers at_id (fu_task_id r) (db_tasks s) \<or>
              \<not> refers sg_id (fu_goal_id r) (db_goals s) \<or>
              \<not> refers at_id (fu_created_task_id r) (db_tasks s) then Some fk_error else None)"

definition check_approval :: "approval_request table \<Rightarrow> approval_request \<Rightarrow> err option" where
  "check_approval t r =
     (if unique_clash (\<lambda>x. ap_policy_decision_id x \<noteq> None \<and> ap_decision x = ApprovalPending)
           ap_policy_decision_id t r
      then Some (EUnique ''approval_requests.policy_decision_id'') else None)"

end
