(* ===== verification/Store_Tasks.thy ===== *)
theory Store_Tasks
  imports Agentic_Types
begin

text \<open>
  \<open>internal/agentic/store.go\<close>, first part: standing goals, signal watchers, goal signals, agentic
  tasks, the triage of a signal into a task, the reconciliation of tasks with the daemon's queue,
  task edges, actors and handoffs.  A Go struct is the row record; its nullable columns are
  normalised by \<open>norm_null\<close> when they are written, because Go's zero is \<open>NULL\<close>.
\<close>

definition norm_null :: "int option \<Rightarrow> int option" where
  "norm_null c = nullableInt (intFromNull c)"

lemma norm_null_None [simp]: "norm_null None = None"
  by (simp add: norm_null_def)

section \<open>Statements on the tables\<close>

abbreviation exec_goals :: "(db \<Rightarrow> standing_goal table \<Rightarrow> err + 'a \<times> standing_goal table) \<Rightarrow> (db, 'a) act" where
  "exec_goals \<equiv> on_table db_goals (\<lambda>t s. s\<lparr>db_goals := t\<rparr>)"
abbreviation exec_watchers :: "(db \<Rightarrow> signal_watcher table \<Rightarrow> err + 'a \<times> signal_watcher table) \<Rightarrow> (db, 'a) act" where
  "exec_watchers \<equiv> on_table db_watchers (\<lambda>t s. s\<lparr>db_watchers := t\<rparr>)"
abbreviation exec_signals :: "(db \<Rightarrow> goal_signal table \<Rightarrow> err + 'a \<times> goal_signal table) \<Rightarrow> (db, 'a) act" where
  "exec_signals \<equiv> on_table db_signals (\<lambda>t s. s\<lparr>db_signals := t\<rparr>)"
abbreviation exec_tasks :: "(db \<Rightarrow> agentic_task table \<Rightarrow> err + 'a \<times> agentic_task table) \<Rightarrow> (db, 'a) act" where
  "exec_tasks \<equiv> on_table db_tasks (\<lambda>t s. s\<lparr>db_tasks := t\<rparr>)"
abbreviation exec_actors :: "(db \<Rightarrow> agent_actor table \<Rightarrow> err + 'a \<times> agent_actor table) \<Rightarrow> (db, 'a) act" where
  "exec_actors \<equiv> on_table db_actors (\<lambda>t s. s\<lparr>db_actors := t\<rparr>)"
abbreviation exec_handoffs :: "(db \<Rightarrow> actor_handoff table \<Rightarrow> err + 'a \<times> actor_handoff table) \<Rightarrow> (db, 'a) act" where
  "exec_handoffs \<equiv> on_table db_handoffs (\<lambda>t s. s\<lparr>db_handoffs := t\<rparr>)"

section \<open>Standing goals\<close>

definition GetStandingGoal :: "int \<Rightarrow> (db, standing_goal) act" where
  "GetStandingGoal i = query (\<lambda>s. get_row sg_id i (db_goals s))"

definition default_time :: "int \<Rightarrow> int \<Rightarrow> int" where
  "default_time t now = (if t = zero_time then now else t)"

definition mk_goal :: "standing_goal \<times> int \<Rightarrow> int \<Rightarrow> standing_goal" where
  "mk_goal a i = (case a of (g, now) \<Rightarrow> let created = default_time (sg_created_at g) now in
     g\<lparr>sg_id := i, sg_created_at := created, sg_updated_at := default_time (sg_updated_at g) created\<rparr>)"

definition CreateStandingGoal :: "standing_goal \<Rightarrow> (db, standing_goal) act" where
  "CreateStandingGoal goal =
     bind now_ms (\<lambda>now.
     bind (exec_goals (\<lambda>s. try_insert (\<lambda>_ _. None) (mk_goal (goal, now)))) GetStandingGoal)"

definition newest_first :: "('r \<Rightarrow> int) \<Rightarrow> ('r \<Rightarrow> int) \<Rightarrow> 'r list \<Rightarrow> 'r list" where
  "newest_first updated key rs = order_desc updated (order_desc key rs)"

definition ListStandingGoals :: "int \<Rightarrow> (db, standing_goal list) act" where
  "ListStandingGoals limit0 =
     (let limit = (if limit0 \<le> 0 then 10 else limit0) in
      query (\<lambda>s. Inr (limit_rows limit (newest_first sg_updated_at sg_id (tbl_rows (db_goals s))))))"

section \<open>Signal watchers\<close>

definition GetSignalWatcher :: "int \<Rightarrow> (db, signal_watcher) act" where
  "GetSignalWatcher i = query (\<lambda>s. get_row sw_id i (db_watchers s))"

definition mk_watcher :: "signal_watcher \<times> int \<Rightarrow> int \<Rightarrow> signal_watcher" where
  "mk_watcher a i = (case a of (x, now) \<Rightarrow> let created = default_time (sw_created_at x) now in
     x\<lparr>sw_id := i, sw_goal_id := norm_null (sw_goal_id x), sw_created_at := created,
       sw_updated_at := default_time (sw_updated_at x) created\<rparr>)"

definition CreateSignalWatcher :: "signal_watcher \<Rightarrow> (db, signal_watcher) act" where
  "CreateSignalWatcher x =
     bind now_ms (\<lambda>now.
     bind (exec_watchers (\<lambda>s. try_insert (check_watcher s) (mk_watcher (x, now)))) GetSignalWatcher)"

definition CreateOrGetSignalWatcher :: "signal_watcher \<Rightarrow> (db, signal_watcher \<times> bool) act" where
  "CreateOrGetSignalWatcher x =
     bind now_ms (\<lambda>now.
     bind (exec_watchers (\<lambda>s. insert_or_ignore (check_watcher s) (mk_watcher (x, now)))) (\<lambda>r.
     case r of
       Some i \<Rightarrow> bind (GetSignalWatcher i) (\<lambda>c. ret (c, False))
     | None \<Rightarrow>
         bind (query (\<lambda>s. one_row (order_by sw_id (tbl_select (\<lambda>y.
                  intFromNull (sw_goal_id y) = intFromNull (sw_goal_id x) \<and>
                  sw_source y = sw_source x \<and> sw_config_json y = sw_config_json x) (db_watchers s))))) (\<lambda>y.
         bind (GetSignalWatcher (sw_id y)) (\<lambda>c. ret (c, True)))))"

definition UpdateSignalWatcherCursor :: "int \<Rightarrow> string \<Rightarrow> (db, signal_watcher) act" where
  "UpdateSignalWatcherCursor i cursor =
     bind now_ms (\<lambda>now.
     bind (exec_watchers (\<lambda>s. plain_update (\<lambda>x. sw_id x = i)
             (\<lambda>x. x\<lparr>sw_last_cursor := cursor, sw_updated_at := max now (sw_updated_at x + 1)\<rparr>))) (\<lambda>n.
     if n = 0 then fail ErrNoRows else GetSignalWatcher i))"

section \<open>Goal signals\<close>

definition GetGoalSignal :: "int \<Rightarrow> (db, goal_signal) act" where
  "GetGoalSignal i = query (\<lambda>s. get_row gs_id i (db_signals s))"

definition mk_signal :: "goal_signal \<times> int \<Rightarrow> int \<Rightarrow> goal_signal" where
  "mk_signal a i = (case a of (x, now) \<Rightarrow>
     x\<lparr>gs_id := i, gs_goal_id := norm_null (gs_goal_id x), gs_watcher_id := norm_null (gs_watcher_id x),
       gs_status := (if gs_status x = '''' then SignalStatusNew else gs_status x),
       gs_observed_at := default_time (gs_observed_at x) now\<rparr>)"

definition CreateGoalSignal :: "goal_signal \<Rightarrow> (db, goal_signal) act" where
  "CreateGoalSignal x =
     bind now_ms (\<lambda>now.
     bind (exec_signals (\<lambda>s. try_insert (check_signal s) (mk_signal (x, now)))) GetGoalSignal)"

definition GetGoalSignalByDedupeKey :: "int \<Rightarrow> string \<Rightarrow> string \<Rightarrow> string \<Rightarrow> (db, goal_signal) act" where
  "GetGoalSignalByDedupeKey goalID source typ key =
     bind (query (\<lambda>s. one_row (tbl_select (\<lambda>x. signal_key x = (goalID, source, typ, key)) (db_signals s))))
       (\<lambda>x. GetGoalSignal (gs_id x))"

definition CreateOrGetGoalSignal :: "goal_signal \<Rightarrow> (db, goal_signal \<times> bool) act" where
  "CreateOrGetGoalSignal x =
     (if gs_dedupe_key x = '''' then bind (CreateGoalSignal x) (\<lambda>c. ret (c, False))
      else
        bind now_ms (\<lambda>now.
        bind (exec_signals (\<lambda>s. insert_or_ignore (check_signal s) (mk_signal (x, now)))) (\<lambda>r.
        case r of
          None \<Rightarrow> bind (GetGoalSignalByDedupeKey (intFromNull (gs_goal_id x)) (gs_source x) (gs_type x)
                     (gs_dedupe_key x)) (\<lambda>c. ret (c, True))
        | Some i \<Rightarrow> bind (GetGoalSignal i) (\<lambda>c. ret (c, False)))))"

definition ListGoalSignalsByStatus :: "string \<Rightarrow> int \<Rightarrow> (db, goal_signal list) act" where
  "ListGoalSignalsByStatus status limit =
     query (\<lambda>s. let rs = order_by gs_observed_at (order_by gs_id
                  (tbl_select (\<lambda>x. gs_status x = status) (db_signals s)))
                in Inr (if limit > 0 then limit_rows limit rs else rs))"

text \<open>\<open>updateGoalSignalStatusTx\<close> and \<open>UpdateGoalSignalStatus\<close>, which reads the row back.\<close>

definition updateGoalSignalStatusTx :: "int \<Rightarrow> string \<Rightarrow> (db, unit) act" where
  "updateGoalSignalStatusTx i status =
     bind (exec_signals (\<lambda>s. plain_update (\<lambda>x. gs_id x = i) (\<lambda>x. x\<lparr>gs_status := status\<rparr>))) (\<lambda>n.
     if n = 0 then fail ErrNoRows else ret ())"

definition UpdateGoalSignalStatus :: "int \<Rightarrow> string \<Rightarrow> (db, goal_signal) act" where
  "UpdateGoalSignalStatus i status = bind (updateGoalSignalStatusTx i status) (\<lambda>_. GetGoalSignal i)"

section \<open>Agentic tasks\<close>

definition GetAgenticTask :: "int \<Rightarrow> (db, agentic_task) act" where
  "GetAgenticTask i = query (\<lambda>s. get_row at_id i (db_tasks s))"

definition mk_task :: "agentic_task \<times> int \<Rightarrow> int \<Rightarrow> agentic_task" where
  "mk_task a i = (case a of (x, now) \<Rightarrow> let created = default_time (at_created_at x) now in
     x\<lparr>at_id := i, at_goal_id := norm_null (at_goal_id x), at_signal_id := norm_null (at_signal_id x),
       at_parent_id := norm_null (at_parent_id x), at_queue_task_id := norm_null (at_queue_task_id x),
       at_created_at := created, at_updated_at := default_time (at_updated_at x) created\<rparr>)"

text \<open>\<open>CreateAgenticTask\<close> and \<open>createAgenticTaskTx\<close> run the same statements.\<close>

definition CreateAgenticTask :: "agentic_task \<Rightarrow> (db, agentic_task) act" where
  "CreateAgenticTask x =
     bind now_ms (\<lambda>now.
     bind (exec_tasks (\<lambda>s. try_insert (check_task s) (mk_task (x, now)))) GetAgenticTask)"

definition ListAgenticTasks :: "string \<Rightarrow> int \<Rightarrow> (db, agentic_task list) act" where
  "ListAgenticTasks status limit0 =
     (let limit = (if limit0 \<le> 0 then 10 else limit0) in
      query (\<lambda>s. Inr (limit_rows limit (newest_first at_updated_at at_id
        (tbl_select (\<lambda>x. TrimSpace status \<noteq> '''' \<longrightarrow> at_status x = status) (db_tasks s))))))"

definition GetAgenticTaskByQueueTaskID :: "int \<Rightarrow> (db, agentic_task) act" where
  "GetAgenticTaskByQueueTaskID q =
     bind (query (\<lambda>s. one_row (tbl_select (\<lambda>x. at_queue_task_id x = Some q) (db_tasks s))))
       (\<lambda>x. GetAgenticTask (at_id x))"

definition GetAgenticTaskBySignalID :: "int \<Rightarrow> (db, agentic_task) act" where
  "GetAgenticTaskBySignalID q =
     bind (query (\<lambda>s. one_row (tbl_select (\<lambda>x. at_signal_id x = Some q) (db_tasks s))))
       (\<lambda>x. GetAgenticTask (at_id x))"

text \<open>\<open>updated_at = MAX(?, updated_at + 1)\<close>\<close>

definition touch_task :: "int \<Rightarrow> agentic_task \<Rightarrow> agentic_task" where
  "touch_task now x = x\<lparr>at_updated_at := max now (at_updated_at x + 1)\<rparr>"

definition LinkAgenticTaskSignal :: "int \<Rightarrow> int \<Rightarrow> (db, agentic_task) act" where
  "LinkAgenticTaskSignal taskID signalID =
     bind now_ms (\<lambda>now.
     bind (exec_tasks (\<lambda>s. try_update
             (\<lambda>t r. if unique_clash (\<lambda>x. at_signal_id x \<noteq> None) at_signal_id t r
                    then Some (EUnique ''agentic_tasks.signal_id'')
                    else if \<not> refers gs_id (at_signal_id r) (db_signals s) then Some fk_error else None)
             (\<lambda>x. at_id x = taskID \<and> at_signal_id x = None)
             (\<lambda>x. touch_task now (x\<lparr>at_signal_id := Some signalID\<rparr>)))) (\<lambda>n.
     bind (GetAgenticTask taskID) (\<lambda>x.
     if n = 0 \<and> intFromNull (at_signal_id x) \<noteq> signalID
     then fail (EMsg (''agentic: task '' @ itoa taskID @ '' is already linked to signal '' @
            itoa (intFromNull (at_signal_id x))))
     else ret x)))"

definition UpdateAgenticTaskStatus :: "int \<Rightarrow> string \<Rightarrow> (db, agentic_task) act" where
  "UpdateAgenticTaskStatus i status =
     bind now_ms (\<lambda>now.
     bind (exec_tasks (\<lambda>s. plain_update (\<lambda>x. at_id x = i)
             (\<lambda>x. touch_task now (x\<lparr>at_status := status\<rparr>)))) (\<lambda>n.
     if n = 0 then fail ErrNoRows else GetAgenticTask i))"

definition SetAgenticTaskApprovalRequestID :: "int \<Rightarrow> string \<Rightarrow> (db, agentic_task) act" where
  "SetAgenticTaskApprovalRequestID i approvalRequestID =
     bind now_ms (\<lambda>now.
     bind (exec_tasks (\<lambda>s. plain_update (\<lambda>x. at_id x = i)
             (\<lambda>x. touch_task now (x\<lparr>at_approval_request_id := approvalRequestID\<rparr>)))) (\<lambda>n.
     if n = 0 then fail ErrNoRows else GetAgenticTask i))"

section \<open>Reconciliation with the queue\<close>

definition task_terminal :: "agentic_task \<Rightarrow> bool" where
  "task_terminal x \<longleftrightarrow> at_status x = TaskStatusSucceeded \<or> at_status x = TaskStatusFailed \<or>
     at_status x = TaskStatusCanceled"

text \<open>The row of the queue a task is linked to.\<close>

definition linked_row :: "queue \<Rightarrow> agentic_task \<Rightarrow> queue_row option" where
  "linked_row q x = (case at_queue_task_id x of None \<Rightarrow> None | Some i \<Rightarrow> tbl_get tq_id i q)"

definition reconcile_row :: "queue \<Rightarrow> agentic_task \<Rightarrow> agentic_task" where
  "reconcile_row q x =
     (case linked_row q x of
        None \<Rightarrow> x
      | Some r \<Rightarrow>
          if task_terminal x \<or> (tq_status r \<noteq> StatusDone \<and> tq_status r \<noteq> StatusFailed) then x
          else x\<lparr>at_status := (if tq_status r = StatusDone then TaskStatusSucceeded else TaskStatusFailed),
                 at_updated_at := max (tq_updated_at r) (at_updated_at x + 1)\<rparr>)"

definition ReconcileDaemonTaskStatuses :: "(db, unit) act" where
  "ReconcileDaemonTaskStatuses =
     exec_tasks (\<lambda>s t. Inr ((), t\<lparr>tbl_rows := map (reconcile_row (db_queue s)) (tbl_rows t)\<rparr>))"

section \<open>Triage\<close>

record triage_result =
  tri_task :: "agentic_task option"
  tri_created :: bool
  tri_linked :: bool
  tri_failed :: bool

definition queueTaskIDFromSignalPayload :: "string \<Rightarrow> err + int" where
  "queueTaskIDFromSignalPayload payloadJSON =
     (if TrimSpace payloadJSON = '''' then Inr 0
      else (case unmarshal_struct (\<lambda>k v q. if k = ''queue_task_id'' then dec_int64 v q else (q, True))
                   0 payloadJSON of
              (q, ok) \<Rightarrow>
                if \<not> ok then Inl (EWrap ''agentic: parse signal payload'' json_error)
                else if q < 0
                then Inl (EMsg (''agentic: signal payload has negative queue_task_id '' @ itoa q))
                else Inr q))"

definition taskFromSignal :: "goal_signal \<Rightarrow> int \<Rightarrow> agentic_task" where
  "taskFromSignal x q =
     \<lparr>at_id = 0, at_goal_id = gs_goal_id x, at_signal_id = Some (gs_id x), at_parent_id = None,
      at_queue_task_id = nullableInt q,
      at_title = (if q > 0 then ''Queue-backed task from '' @ gs_source x @ '' signal''
                  else ''Proposed task from '' @ gs_source x @ '' signal''),
      at_prompt =
        (if q > 0
         then ''Queue-backed signal '' @ itoa (gs_id x) @ '' ('' @ gs_source x @ ''/'' @ gs_type x @
              '') references daemon queue task '' @ itoa q @
              ''. Raw prompt is not reconstructed from signal payload.''
         else ''Triage proposal for signal '' @ itoa (gs_id x) @ '' ('' @ gs_source x @ ''/'' @ gs_type x @
              ''). Raw prompt is not reconstructed from signal payload.''),
      at_status = (if q > 0 then TaskStatusPending else TaskStatusProposed),
      at_priority = gs_severity x, at_risk_level = RiskLevelLow,
      at_autonomy_decision = PolicyDecisionObserve, at_approval_request_id = '''',
      at_verification_status = VerificationStatusPending, at_due_at = None,
      at_created_at = zero_time, at_updated_at = zero_time\<rparr>"

text \<open>A read that may find nothing: any error but \<open>sql.ErrNoRows\<close> ends the caller.\<close>

definition maybe_row :: "('s, 'a) act \<Rightarrow> ('s, 'a option) act" where
  "maybe_row m = bind (attempt m) (\<lambda>r. case r of
     Inr a \<Rightarrow> ret (Some a) | Inl er \<Rightarrow> if er = ErrNoRows then ret None else fail er)"

definition triaged :: "agentic_task option \<Rightarrow> bool \<Rightarrow> bool \<Rightarrow> bool \<Rightarrow> triage_result" where
  "triaged task created linked failed =
     \<lparr>tri_task = task, tri_created = created, tri_linked = linked, tri_failed = failed\<rparr>"

text \<open>The middle of \<open>triageGoalSignalTx\<close>: a task with the queue task of the payload is linked.\<close>

definition triage_existing :: "goal_signal \<Rightarrow> agentic_task \<Rightarrow> (db, triage_result) act" where
  "triage_existing x k =
     (if gs_status x = SignalStatusNew
      then
        bind (if intFromNull (at_signal_id k) = 0
              then bind (LinkAgenticTaskSignal (at_id k) (gs_id x)) (\<lambda>k'. ret (k', True))
              else ret (k, False)) (\<lambda>(k', linked).
        bind (updateGoalSignalStatusTx (gs_id x) SignalStatusTriaged) (\<lambda>_.
        ret (triaged (Some k') False linked False)))
      else ret (triaged (Some k) False False False))"

definition triage_fresh :: "goal_signal \<Rightarrow> err + int \<Rightarrow> (db, triage_result) act" where
  "triage_fresh x payload =
     (if gs_status x \<noteq> SignalStatusNew
      then fail (EMsg (''agentic: signal '' @ itoa (gs_id x) @ '' status '' @ quoted (gs_status x) @
             '' is not triageable''))
      else
        (case payload of
           Inl _ \<Rightarrow>
             bind (updateGoalSignalStatusTx (gs_id x) SignalStatusFailed) (\<lambda>_.
             ret (triaged None False False True))
         | Inr q \<Rightarrow>
             bind (CreateAgenticTask (taskFromSignal x q)) (\<lambda>k.
             bind (updateGoalSignalStatusTx (gs_id x) SignalStatusTriaged) (\<lambda>_.
             ret (triaged (Some k) True False False)))))"

definition triageGoalSignalTx :: "int \<Rightarrow> (db, triage_result) act" where
  "triageGoalSignalTx signalID =
     bind (GetGoalSignal signalID) (\<lambda>x.
     bind (maybe_row (GetAgenticTaskBySignalID (gs_id x))) (\<lambda>own.
     case own of
       Some k \<Rightarrow>
         bind (if gs_status x = SignalStatusNew
               then updateGoalSignalStatusTx (gs_id x) SignalStatusTriaged else ret ()) (\<lambda>_.
         ret (triaged (Some k) False False False))
     | None \<Rightarrow>
         (let payload = queueTaskIDFromSignalPayload (gs_payload_json x) in
          bind (case payload of
                  Inl _ \<Rightarrow> ret None
                | Inr q \<Rightarrow> if q > 0 then maybe_row (GetAgenticTaskByQueueTaskID q) else ret None) (\<lambda>other.
          case other of
            Some k \<Rightarrow> triage_existing x k
          | None \<Rightarrow> triage_fresh x payload))))"

definition TriageGoalSignal :: "int \<Rightarrow> (db, triage_result) act" where
  "TriageGoalSignal signalID = transaction (triageGoalSignalTx signalID)"

end
