(* ===== verification/Approval_Store.thy ===== *)
theory Approval_Store
  imports Agentic_Types
begin

text \<open>
  \<open>internal/daemon/approval_store.go\<close>: requests for a human's approval.  A request is pending until
  it is decided, once; an approval may then be consumed, once, by the receipt of the tool call it
  allows (\<open>ConsumeApprovedApprovalRequestID\<close> of \<open>internal/agentic/store.go\<close>, which is here because
  it writes the same table).  \<open>Wait\<close> polls the request with fuel: \<open>None\<close> is a wait that goes on.
  The migration of columns in \<open>ensureApprovalProvenanceSchema\<close> is not modelled: the table has them.
\<close>

section \<open>Requests\<close>

record approval_create_request =
  ac_tool_name :: string
  ac_input :: string
  ac_task_id :: int
  ac_policy_decision_id :: int
  ac_actor_id :: int
  ac_action_kind :: string
  ac_risk_level :: string
  ac_reason :: string
  ac_policy_version :: string
  ac_expires_at :: "int option"

definition approval_create_zero :: approval_create_request where
  "approval_create_zero = \<lparr>ac_tool_name = '''', ac_input = '''', ac_task_id = 0,
     ac_policy_decision_id = 0, ac_actor_id = 0, ac_action_kind = '''', ac_risk_level = '''',
     ac_reason = '''', ac_policy_version = '''', ac_expires_at = None\<rparr>"

definition nullableApprovalTime :: "int option \<Rightarrow> int option" where
  "nullableApprovalTime c =
     (case c of None \<Rightarrow> None | Some t \<Rightarrow> if t = zero_time then None else Some t)"

definition approvalTimeFromNull :: "int option \<Rightarrow> int option" where
  "approvalTimeFromNull c = (case c of None \<Rightarrow> None | Some t \<Rightarrow> if t = 0 then None else Some t)"

definition mk_approval :: "approval_create_request \<times> int \<Rightarrow> int \<Rightarrow> approval_request" where
  "mk_approval a i = (case a of (req, now) \<Rightarrow>
     \<lparr>ap_id = i, ap_tool_name = ac_tool_name req, ap_input = ac_input req,
      ap_decision = ApprovalPending, ap_task_id = nullableInt (ac_task_id req),
      ap_policy_decision_id = nullableInt (ac_policy_decision_id req),
      ap_actor_id = nullableInt (ac_actor_id req), ap_action_kind = ac_action_kind req,
      ap_risk_level = ac_risk_level req, ap_reason = ac_reason req,
      ap_policy_version = ac_policy_version req,
      ap_expires_at = nullableApprovalTime (ac_expires_at req), ap_decided_by = '''',
      ap_consumed_at = 0, ap_consumed_by_receipt_id = 0, ap_created_at = now, ap_updated_at = now\<rparr>)"

definition scanApprovalRequest :: "approval_request \<Rightarrow> approval_request" where
  "scanApprovalRequest r = r\<lparr>ap_expires_at := approvalTimeFromNull (ap_expires_at r)\<rparr>"

text \<open>A statement on the approval table.\<close>

definition exec_approvals ::
  "(approval_request table \<Rightarrow> err + 'a \<times> approval_request table) \<Rightarrow> (db, 'a) act" where
  "exec_approvals f = exec (\<lambda>s. case f (db_approvals s) of
     Inl er \<Rightarrow> Inl er | Inr (a, t) \<Rightarrow> Inr (a, s\<lparr>db_approvals := t\<rparr>))"

section \<open>Reading\<close>

definition approval_get :: "int \<Rightarrow> (db, approval_request) act" where
  "approval_get i = wrap_act (''approval store: get '' @ itoa i)
     (query (\<lambda>s. map_sum (\<lambda>er. er) scanApprovalRequest (get_row ap_id i (db_approvals s))))"

definition ListPendingApprovals :: "(db, approval_request list) act" where
  "ListPendingApprovals = wrap_act ''approval store: list pending''
     (query (\<lambda>s. Inr (map scanApprovalRequest (order_by ap_created_at
        (tbl_select (\<lambda>r. ap_decision r = ApprovalPending) (db_approvals s))))))"

definition GetPendingByPolicyDecision :: "int \<Rightarrow> (db, approval_request) act" where
  "GetPendingByPolicyDecision pid =
     (if pid = 0 then fail ErrNoRows
      else query (\<lambda>s. map_sum (\<lambda>er. er) scanApprovalRequest (one_row (order_by ap_id (tbl_select
             (\<lambda>r. ap_policy_decision_id r = Some pid \<and> ap_decision r = ApprovalPending)
             (db_approvals s))))))"

section \<open>Writing\<close>

definition CreateWithContext :: "approval_create_request \<Rightarrow> (db, approval_request) act" where
  "CreateWithContext req =
     bind now_ms (\<lambda>now.
     bind (wrap_act ''approval store: create''
             (exec_approvals (try_insert check_approval (mk_approval (req, now))))) (\<lambda>i.
     approval_get i))"

definition approval_Create :: "string \<Rightarrow> string \<Rightarrow> (db, approval_request) act" where
  "approval_Create toolName input =
     CreateWithContext (approval_create_zero\<lparr>ac_tool_name := toolName, ac_input := input\<rparr>)"

definition decide_row :: "bool \<Rightarrow> string \<Rightarrow> int \<Rightarrow> approval_request \<Rightarrow> approval_request" where
  "decide_row approved decidedBy now r =
     r\<lparr>ap_decision := (if approved then ApprovalApproved else ApprovalDenied),
       ap_decided_by := decidedBy, ap_updated_at := now\<rparr>"

definition DecideBy :: "int \<Rightarrow> bool \<Rightarrow> string \<Rightarrow> (db, unit) act" where
  "DecideBy i approved decidedBy =
     bind now_ms (\<lambda>now.
     bind (wrap_act ''approval store: decide'' (exec_approvals (\<lambda>t.
             let P = (\<lambda>r. ap_id r = i \<and> ap_decision r = ApprovalPending)
             in Inr (tbl_affected P t, tbl_update P (decide_row approved decidedBy now) t)))) (\<lambda>n.
     if n = 0 then fail (EWrap (''approval store: decide '' @ itoa i) ErrNoRows) else ret ()))"

definition Decide :: "int \<Rightarrow> bool \<Rightarrow> (db, unit) act" where
  "Decide i approved = DecideBy i approved ''''"

section \<open>Waiting\<close>

fun Wait :: "nat \<Rightarrow> int \<Rightarrow> (db, bool option) act" where
  "Wait 0 i = ret None"
| "Wait (Suc n) i =
     bind (approval_get i) (\<lambda>req.
       case ap_decision req of
         ApprovalApproved \<Rightarrow> ret (Some True)
       | ApprovalDenied \<Rightarrow> ret (Some False)
       | ApprovalPending \<Rightarrow>
           bind ctx_check (\<lambda>c. case c of Some er \<Rightarrow> fail er | None \<Rightarrow> Wait n i))"

text \<open>\<open>ctxReq\<close> is what \<open>ApprovalContextFromContext\<close> finds.\<close>

definition Prompt ::
  "nat \<Rightarrow> approval_create_request option \<Rightarrow> string \<Rightarrow> string \<Rightarrow> (db, bool option) act" where
  "Prompt fuel ctxReq toolName input =
     (let createReq = (case ctxReq of None \<Rightarrow> approval_create_zero | Some r \<Rightarrow> r) in
      bind (CreateWithContext (createReq\<lparr>ac_tool_name := toolName, ac_input := input\<rparr>)) (\<lambda>req.
      Wait fuel (ap_id req)))"

section \<open>Removing duplicates\<close>

definition pending_policy :: "approval_request \<Rightarrow> bool" where
  "pending_policy r \<longleftrightarrow> ap_policy_decision_id r \<noteq> None \<and> ap_decision r = ApprovalPending"

text \<open>\<open>GROUP BY policy_decision_id HAVING COUNT(*) > 1\<close>, with the least id of each group.\<close>

definition policy_duplicates :: "approval_request table \<Rightarrow> (int option \<times> int) list" where
  "policy_duplicates t =
     (let rows = tbl_select pending_policy t;
          grp = (\<lambda>c. filter (\<lambda>r. ap_policy_decision_id r = c) rows)
      in map (\<lambda>c. (c, Min (set (map ap_id (grp c)))))
           (filter (\<lambda>c. 1 < length (grp c)) (remdups (map ap_policy_decision_id rows))))"

definition dedupe_row :: "int \<Rightarrow> approval_request \<Rightarrow> approval_request" where
  "dedupe_row now r = decide_row False ''migration:dedupe'' now r"

definition dedupePendingPolicyApprovals :: "(db, unit) act" where
  "dedupePendingPolicyApprovals =
     bind (wrap_act ''approval store: find duplicate pending policy approvals''
             (query (\<lambda>s. Inr (policy_duplicates (db_approvals s))))) (\<lambda>dups.
     bind now_ms (\<lambda>now.
     bind (mapA (\<lambda>(c, keep).
             wrap_act (''approval store: dedupe pending policy approval '' @ itoa (intFromNull c))
               (exec_approvals (\<lambda>t. Inr ((), tbl_update
                  (\<lambda>r. ap_policy_decision_id r = c \<and> ap_decision r = ApprovalPending \<and> ap_id r \<noteq> keep)
                  (dedupe_row now) t)))) dups) (\<lambda>_.
     ret ())))"

definition approval_index_ok :: "approval_request table \<Rightarrow> bool" where
  "approval_index_ok t \<longleftrightarrow> unique_on pending_policy ap_policy_decision_id (tbl_rows t)"

definition ensureApprovalProvenanceSchema :: "(db, unit) act" where
  "ensureApprovalProvenanceSchema =
     bind dedupePendingPolicyApprovals (\<lambda>_.
     wrap_act ''approval store: create provenance index''
       (query (\<lambda>s. if approval_index_ok (db_approvals s) then Inr ()
                   else Inl (EUnique ''approval_requests.policy_decision_id''))))"

section \<open>Consuming an approval\<close>

text \<open>SQLite's \<open>CAST(text AS INTEGER)\<close>: the longest integer at the start, within 64 bits, or 0.\<close>

definition cast_int :: "string \<Rightarrow> int" where
  "cast_int s0 =
     (let s = dropWhile is_ws s0;
          (neg, body) = (case s of
             [] \<Rightarrow> (False, [])
           | c # r \<Rightarrow> if c = CHR ''-'' then (True, r) else if c = CHR ''+'' then (False, r) else (False, s));
          n = (case digits_val 0 (takeWhile is_digit body) of None \<Rightarrow> 0 | Some k \<Rightarrow> int k)
      in if neg then max (- (2 ^ 63)) (- n) else min (2 ^ 63 - 1) n)"

text \<open>The join of the receipt \<open>r\<close> with its approval.\<close>

definition receipt_approval :: "db \<Rightarrow> tool_receipt \<Rightarrow> approval_request option" where
  "receipt_approval s r = tbl_get ap_id (cast_int (tr_approval_request_id r)) (db_approvals s)"

definition receipt_for :: "int \<Rightarrow> int \<Rightarrow> string \<Rightarrow> string \<Rightarrow> tool_receipt \<Rightarrow> bool" where
  "receipt_for taskID actorID toolName inputHash r \<longleftrightarrow>
     tr_task_id r = taskID \<and> intFromNull (tr_actor_id r) = actorID \<and> tr_tool_name r = toolName \<and>
     tr_input_hash r = inputHash \<and> tr_status r = ReceiptStatusApprovalRequired \<and>
     tr_approval_request_id r \<noteq> ''''"

definition FindReusableApprovalRequestID ::
  "int \<Rightarrow> int \<Rightarrow> string \<Rightarrow> string \<Rightarrow> (db, string) act" where
  "FindReusableApprovalRequestID taskID actorID toolName inputHash = query (\<lambda>s.
     case one_row (filter (\<lambda>r. receipt_for taskID actorID toolName inputHash r \<and>
             (case receipt_approval s r of None \<Rightarrow> False | Some a \<Rightarrow> ap_decision a = ApprovalPending))
             (order_by tr_id (tbl_rows (db_receipts s)))) of
       Inl er \<Rightarrow> Inl er
     | Inr r \<Rightarrow> Inr (tr_approval_request_id r))"

definition consumable :: "approval_request \<Rightarrow> bool" where
  "consumable a \<longleftrightarrow> ap_decision a = ApprovalApproved \<and> ap_consumed_at a = 0 \<and>
     ap_consumed_by_receipt_id a = 0"

definition consume_row :: "int \<Rightarrow> int \<Rightarrow> approval_request \<Rightarrow> approval_request" where
  "consume_row now receiptID a =
     a\<lparr>ap_consumed_at := now, ap_consumed_by_receipt_id := receiptID, ap_updated_at := now\<rparr>"

definition consumable_for :: "int \<Rightarrow> int \<Rightarrow> string \<Rightarrow> string \<Rightarrow> db \<Rightarrow> err + int" where
  "consumable_for taskID actorID toolName inputHash s =
     (case one_row (filter (\<lambda>r. receipt_for taskID actorID toolName inputHash r \<and>
             (case receipt_approval s r of None \<Rightarrow> False | Some a \<Rightarrow> consumable a))
             (order_by tr_id (tbl_rows (db_receipts s)))) of
        Inl er \<Rightarrow> Inl er
      | Inr r \<Rightarrow> (case receipt_approval s r of None \<Rightarrow> Inl ErrNoRows | Some a \<Rightarrow> Inr (ap_id a)))"

definition ConsumeApprovedApprovalRequestID ::
  "int \<Rightarrow> int \<Rightarrow> string \<Rightarrow> string \<Rightarrow> int \<Rightarrow> (db, string) act" where
  "ConsumeApprovedApprovalRequestID taskID actorID toolName inputHash receiptID =
     (if receiptID = 0 then fail (EMsg ''agentic: consuming receipt id is required'')
      else transaction (
        bind (query (consumable_for taskID actorID toolName inputHash)) (\<lambda>aid.
        bind now_ms (\<lambda>now.
        bind (exec_approvals (\<lambda>t. let P = (\<lambda>a. ap_id a = aid \<and> consumable a) in
                Inr (tbl_affected P t, tbl_update P (consume_row now receiptID) t))) (\<lambda>n.
        if n = 0 then fail ErrNoRows else ret (itoa aid))))))"

section \<open>What happens to a request\<close>

interpretation approval_table: keyed_table ap_id mk_approval
  by unfold_locales (simp add: mk_approval_def split: prod.split)

text \<open>
  What any number of operations may do to a request: a decision is final, and so is its
  consumption; what was asked stays.
\<close>

definition approval_later :: "approval_request \<Rightarrow> approval_request \<Rightarrow> bool" where
  "approval_later a b \<longleftrightarrow>
     ap_id b = ap_id a \<and> ap_tool_name b = ap_tool_name a \<and> ap_input b = ap_input a \<and>
     ap_task_id b = ap_task_id a \<and> ap_policy_decision_id b = ap_policy_decision_id a \<and>
     ap_actor_id b = ap_actor_id a \<and>
     (ap_decision a \<noteq> ApprovalPending \<longrightarrow>
        ap_decision b = ap_decision a \<and> ap_decided_by b = ap_decided_by a) \<and>
     (ap_consumed_by_receipt_id a \<noteq> 0 \<longrightarrow>
        ap_consumed_by_receipt_id b = ap_consumed_by_receipt_id a \<and> ap_consumed_at b = ap_consumed_at a)"

definition approval_ok :: "approval_request \<Rightarrow> bool" where
  "approval_ok a \<longleftrightarrow>
     (ap_consumed_by_receipt_id a \<noteq> 0 \<longrightarrow> ap_decision a = ApprovalApproved) \<and>
     (ap_consumed_at a \<noteq> 0 \<longrightarrow> ap_consumed_by_receipt_id a \<noteq> 0)"

definition approvals_inv :: "approval_request table \<Rightarrow> bool" where
  "approvals_inv t \<longleftrightarrow> keys_ok ap_id t \<and> approval_index_ok t \<and> (\<forall>a \<in> set (tbl_rows t). approval_ok a)"

definition approvals_from :: "approval_request table \<Rightarrow> db \<Rightarrow> bool" where
  "approvals_from t0 s \<longleftrightarrow> approvals_inv (db_approvals s) \<and>
     table_rel ap_id approval_later t0 (db_approvals s)"

lemma approval_later_refl [simp]: "approval_later a a"
  by (simp add: approval_later_def)

lemma approval_later_trans: "approval_later a b \<Longrightarrow> approval_later b c \<Longrightarrow> approval_later a c"
  by (auto simp: approval_later_def)

lemma approvals_inv_empty [simp]: "approvals_inv tbl_empty"
  by (simp add: approvals_inv_def approval_index_ok_def unique_on_def) (simp add: tbl_empty_def)

lemma approvals_from_refl: "approvals_inv (db_approvals s) \<Longrightarrow> approvals_from (db_approvals s) s"
  by (simp add: approvals_from_def table_rel_refl)

lemma approvals_from_step:
  assumes "approvals_from t0 s" and "approvals_inv t'" and "table_rel ap_id approval_later (db_approvals s) t'"
  shows "approvals_from t0 (s\<lparr>db_approvals := t'\<rparr>)"
  using assms table_rel_trans[of approval_later ap_id t0 "db_approvals s" t'] approval_later_trans
  by (auto simp: approvals_from_def)

lemma approvals_update:
  assumes "approvals_from t0 s" and "\<And>a. ap_id (f a) = ap_id a"
    and "\<And>a. P a \<Longrightarrow> approval_ok a \<Longrightarrow> approval_ok (f a) \<and> approval_later a (f a)"
  shows "approvals_from t0 (s\<lparr>db_approvals := tbl_update P f (db_approvals s)\<rparr>)"
proof (rule approvals_from_step[OF assms(1)])
  let ?t = "db_approvals s" and ?g = "\<lambda>a. if P a then f a else a"
  have inv: "approvals_inv ?t" using assms(1) by (simp add: approvals_from_def)
  have later: "approval_later a (?g a)" if "a \<in> set (tbl_rows ?t)" for a
    using inv assms(3) that by (auto simp: approvals_inv_def)
  have pend: "pending_policy b \<Longrightarrow> pending_policy a \<and> ap_policy_decision_id b = ap_policy_decision_id a"
    if "approval_later a b" for a b
    using that by (auto simp: pending_policy_def approval_later_def)
  have "unique_on pending_policy ap_policy_decision_id (map ?g (tbl_rows ?t))"
    using inv pend[OF later] by (intro unique_on_update) (simp_all add: approvals_inv_def approval_index_ok_def)
  then show "approvals_inv (tbl_update P f ?t)"
    using inv assms(2,3) by (auto simp: approvals_inv_def approval_index_ok_def keys_ok_update)
  show "table_rel ap_id approval_later ?t (tbl_update P f ?t)"
    using inv assms(2,3) by (intro table_rel_update) (auto simp: approvals_inv_def)
qed

lemma approvals_insert:
  assumes "approvals_from t0 s"
    and "try_insert check_approval (mk_approval a) (db_approvals s) = Inr (i, t')"
  shows "approvals_from t0 (s\<lparr>db_approvals := t'\<rparr>)"
proof -
  let ?t = "db_approvals s" and ?r = "mk_approval a (tbl_next (db_approvals s))"
  have t': "t' = tbl_insert (mk_approval a) ?t" and free: "check_approval ?t ?r = None"
    using assms(2) by (auto simp: try_insert_Inr)
  have inv: "approvals_inv ?t" using assms(1) by (simp add: approvals_from_def)
  have "approval_index_ok t'"
    using inv free
    by (auto simp: t' approvals_inv_def approval_index_ok_def check_approval_def unique_clash_def
        pending_policy_def split: if_splits intro!: unique_on_snoc)
  moreover have "approval_ok ?r"
    by (simp add: approval_ok_def mk_approval_def split: prod.split)
  ultimately have "approvals_inv t'"
    using inv approval_table.insert_keys_ok[of ?t a] by (auto simp: approvals_inv_def t')
  then show ?thesis
    using approval_table.insert_rel[of approval_later ?t a] assms(1)
    by (intro approvals_from_step) (auto simp: t')
qed

lemma approvals_others:
  "db_approvals s' = db_approvals s \<Longrightarrow> approvals_from t0 s \<Longrightarrow> approvals_from t0 s'"
  by (simp add: approvals_from_def)

lemma decide_ok:
  "ap_decision a = ApprovalPending \<Longrightarrow> approval_ok a \<Longrightarrow>
     approval_ok (decide_row b d now a) \<and> approval_later a (decide_row b d now a)"
  by (auto simp: approval_ok_def approval_later_def decide_row_def)

lemma consume_ok:
  "consumable a \<Longrightarrow> rid \<noteq> 0 \<Longrightarrow> approval_ok (consume_row now rid a) \<and> approval_later a (consume_row now rid a)"
  by (simp add: approval_ok_def approval_later_def consume_row_def consumable_def)

lemma row_ids [simp]:
  "ap_id (decide_row b d now a) = ap_id a" "ap_id (consume_row now rid a) = ap_id a"
  "ap_id (dedupe_row now a) = ap_id a"
  by (simp_all add: decide_row_def consume_row_def dedupe_row_def)

lemma preserves_exec_approvals:
  assumes "\<And>s a t'. approvals_from t0 s \<Longrightarrow> f (db_approvals s) = Inr (a, t') \<Longrightarrow>
    approvals_from t0 (s\<lparr>db_approvals := t'\<rparr>)"
  shows "preserves (approvals_from t0) (exec_approvals f)"
  unfolding exec_approvals_def
  by (rule preserves_exec) (use assms in \<open>auto split: sum.splits\<close>)

lemma CreateWithContext_preserves [inv_intros]: "preserves (approvals_from t0) (CreateWithContext req)"
  unfolding CreateWithContext_def approval_get_def
  by (intro inv_intros preserves_exec_approvals approvals_insert) assumption+

lemma DecideBy_preserves [inv_intros]: "preserves (approvals_from t0) (DecideBy i b d)"
  unfolding DecideBy_def Let_def
  by (intro inv_intros preserves_exec_approvals) (auto intro!: approvals_update decide_ok)

lemma ConsumeApproved_preserves [inv_intros]:
  "preserves (approvals_from t0) (ConsumeApprovedApprovalRequestID taskID actorID toolName inputHash rid)"
  unfolding ConsumeApprovedApprovalRequestID_def Let_def
  by (intro inv_intros preserves_exec_approvals) (auto intro!: approvals_update consume_ok)

lemma dedupe_preserves [inv_intros]: "preserves (approvals_from t0) dedupePendingPolicyApprovals"
  unfolding dedupePendingPolicyApprovals_def
  by (intro inv_intros preserves_exec_approvals)
    (auto simp: dedupe_row_def decide_ok intro!: approvals_update)

lemma Wait_preserves [inv_intros]: "preserves (approvals_from t0) (Wait n i)"
  by (induction n) (auto simp: approval_get_def split: approval_decision.splits
      intro!: inv_intros)

section \<open>Consuming once\<close>

text \<open>A consumption that succeeds, in the database \<open>s0\<close> its transaction met.\<close>

lemma ConsumeApproved_run:
  assumes "ConsumeApprovedApprovalRequestID taskID actorID toolName inputHash rid w i s = (Inr x, j, s')"
  obtains aid now where "rid \<noteq> 0" and "x = itoa aid"
    and "consumable_for taskID actorID toolName inputHash (w_other w i s) = Inr aid"
    and "\<exists>a \<in> set (tbl_rows (db_approvals (w_other w i s))). ap_id a = aid \<and> consumable a"
    and "s' = (w_other w i s)\<lparr>db_approvals := tbl_update (\<lambda>a. ap_id a = aid \<and> consumable a)
           (consume_row now rid) (db_approvals (w_other w i s))\<rparr>"
proof -
  let ?s0 = "w_other w i s"
  have rid: "rid \<noteq> 0"
    using assms by (auto simp: ConsumeApprovedApprovalRequestID_def fail_def split: if_splits)
  obtain aid where aid: "consumable_for taskID actorID toolName inputHash ?s0 = Inr aid"
    and n: "tbl_affected (\<lambda>a. ap_id a = aid \<and> consumable a) (db_approvals ?s0) \<noteq> 0"
    and x: "x = itoa aid"
    and s': "s' = ?s0\<lparr>db_approvals := tbl_update (\<lambda>a. ap_id a = aid \<and> consumable a)
      (consume_row (clock (w_env w) (Suc (Suc i))) rid) (db_approvals ?s0)\<rparr>"
    using assms rid
    by (auto simp: ConsumeApprovedApprovalRequestID_def transaction_def bind_def query_def now_ms_def
        exec_approvals_def exec_def fail_def ret_def Let_def split: option.splits sum.splits if_splits)
  from n have "\<exists>a \<in> set (tbl_rows (db_approvals ?s0)). ap_id a = aid \<and> consumable a"
    by (simp add: tbl_affected_0)
  from that[OF rid x aid this s'] show thesis .
qed

lemma consumable_for_receipt:
  assumes "consumable_for taskID actorID toolName inputHash s = Inr aid"
  shows "\<exists>r \<in> set (tbl_rows (db_receipts s)). \<exists>a. receipt_for taskID actorID toolName inputHash r \<and>
    receipt_approval s r = Some a \<and> consumable a \<and> ap_id a = aid"
proof -
  obtain r a where "first_row (filter (\<lambda>r. receipt_for taskID actorID toolName inputHash r \<and>
             (case receipt_approval s r of None \<Rightarrow> False | Some a \<Rightarrow> consumable a))
             (order_by tr_id (tbl_rows (db_receipts s)))) = Some r"
    and a: "receipt_approval s r = Some a" "ap_id a = aid"
    using assms by (auto simp: consumable_for_def one_row_Inr split: sum.splits option.splits)
  from first_row_in[OF this(1)] a show ?thesis by (auto split: option.splits)
qed

text \<open>After a consumption the approval is spent, whatever happens next.\<close>

lemma consumed_row:
  assumes run: "ConsumeApprovedApprovalRequestID taskID actorID toolName inputHash rid w i s = (Inr x, j, s')"
    and inv: "approvals_inv (db_approvals (w_other w i s))"
  obtains aid a where "x = itoa aid" and "tbl_get ap_id aid (db_approvals s') = Some a"
    and "ap_consumed_by_receipt_id a = rid" and "rid \<noteq> 0"
proof -
  from run obtain aid now a where 1: "rid \<noteq> 0" "x = itoa aid"
    and a: "a \<in> set (tbl_rows (db_approvals (w_other w i s)))" "ap_id a = aid" "consumable a"
    and s': "s' = (w_other w i s)\<lparr>db_approvals := tbl_update (\<lambda>a. ap_id a = aid \<and> consumable a)
           (consume_row now rid) (db_approvals (w_other w i s))\<rparr>"
    by (rule ConsumeApproved_run) blast
  have "tbl_get ap_id aid (db_approvals (w_other w i s)) = Some a"
    using keys_ok_get[of ap_id "db_approvals (w_other w i s)" a] inv a by (simp add: approvals_inv_def)
  then have "tbl_get ap_id aid (db_approvals s') = Some (consume_row now rid a)"
    using a by (simp add: s' tbl_get_update)
  from that[OF 1(2) this _ 1(1)] show thesis by (simp add: consume_row_def)
qed

lemma consume_twice:
  assumes run1: "ConsumeApprovedApprovalRequestID t1 a1 n1 h1 r1 w1 i1 s1 = (Inr x, j1, s1')"
    and run2: "ConsumeApprovedApprovalRequestID t2 a2 n2 h2 r2 w2 i2 s2 = (Inr y, j2, s2')"
    and inv: "approvals_inv (db_approvals (w_other w1 i1 s1))" "approvals_inv (db_approvals s1')"
    and later: "approvals_from (db_approvals s1') (w_other w2 i2 s2)"
  shows "x \<noteq> y"
proof
  assume "x = y"
  obtain aid a where a: "x = itoa aid" "tbl_get ap_id aid (db_approvals s1') = Some a"
    "ap_consumed_by_receipt_id a = r1" "r1 \<noteq> 0"
    using consumed_row[OF run1 inv(1)] by blast
  obtain b where b: "tbl_get ap_id aid (db_approvals (w_other w2 i2 s2)) = Some b" "approval_later a b"
    using rel_get[of ap_id approval_later "db_approvals s1'" "db_approvals (w_other w2 i2 s2)" aid a]
      later inv(2) a(2)
    by (auto simp: approvals_from_def approvals_inv_def)
  obtain c where "c \<in> set (tbl_rows (db_approvals (w_other w2 i2 s2)))" "itoa (ap_id c) = y" "consumable c"
    using run2 by (rule ConsumeApproved_run) blast
  then have "tbl_get ap_id aid (db_approvals (w_other w2 i2 s2)) = Some c"
    using later itoa_inj[of "ap_id c" aid] \<open>x = y\<close> a(1)
    by (simp add: approvals_from_def approvals_inv_def keys_ok_get_iff)
  with b \<open>consumable c\<close> a(3,4) show False by (simp add: approval_later_def consumable_def)
qed

section \<open>Waiting for a decision\<close>

text \<open>The database the \<open>m\<close>-th poll of a wait meets, when nothing fails.\<close>

fun polled :: "db world \<Rightarrow> nat \<Rightarrow> db \<Rightarrow> nat \<Rightarrow> db" where
  "polled w i s 0 = w_other w i s"
| "polled w i s (Suc m) = w_other w (i + 2 * Suc m) (polled w i s m)"

lemma polled_shift: "polled w (i + 2) (w_other w i s) m = polled w i s (Suc m)"
  by (induction m) (simp_all add: algebra_simps)

lemma Wait_step:
  assumes "fault (w_env w) i 0 = None" and "tbl_get ap_id tid (db_approvals (w_other w i s)) = Some a"
  shows "Wait (Suc n) tid w i s =
    (case ap_decision a of
       ApprovalApproved \<Rightarrow> (Inr (Some True), Suc i, w_other w i s)
     | ApprovalDenied \<Rightarrow> (Inr (Some False), Suc i, w_other w i s)
     | ApprovalPending \<Rightarrow>
         (case ctx_done (w_env w) (Suc i) 0 of
            Some er \<Rightarrow> (Inl er, i + 2, w_other w i s)
          | None \<Rightarrow> Wait n tid w (i + 2) (w_other w i s)))"
  using assms
  by (simp add: bind_def approval_get_def wrap_act_def query_def get_row_def ctx_check_def ret_def
      fail_def Let_def scanApprovalRequest_def split: approval_decision.splits option.splits)

lemma Wait_returns:
  assumes "\<And>k. fault (w_env w) k 0 = None" and "\<And>k. ctx_done (w_env w) k 0 = None"
    and "\<forall>k < m. \<exists>a. tbl_get ap_id tid (db_approvals (polled w i s k)) = Some a \<and>
      ap_decision a = ApprovalPending"
    and "tbl_get ap_id tid (db_approvals (polled w i s m)) = Some a" and "ap_decision a \<noteq> ApprovalPending"
    and "m < fuel"
  shows "act_result (Wait fuel tid w i s) = Inr (Some (ap_decision a = ApprovalApproved))"
  using assms(3-6)
proof (induction m arbitrary: i s fuel)
  case 0
  then obtain n where "fuel = Suc n" by (cases fuel) auto
  with 0 Wait_step[OF assms(1), of tid i s a n] show ?case
    by (cases "ap_decision a") auto
next
  case (Suc m)
  then obtain n where n: "fuel = Suc n" by (cases fuel) auto
  from Suc.prems(1) obtain b where b: "tbl_get ap_id tid (db_approvals (w_other w i s)) = Some b"
    "ap_decision b = ApprovalPending"
    by (metis polled.simps(1) zero_less_Suc)
  have "act_result (Wait n tid w (i + 2) (w_other w i s)) = Inr (Some (ap_decision a = ApprovalApproved))"
  proof (rule Suc.IH)
    show "\<forall>k < m. \<exists>a. tbl_get ap_id tid (db_approvals (polled w (i + 2) (w_other w i s) k)) = Some a \<and>
        ap_decision a = ApprovalPending"
      using Suc.prems(1) unfolding polled_shift by auto
    show "tbl_get ap_id tid (db_approvals (polled w (i + 2) (w_other w i s) m)) = Some a"
      using Suc.prems(2) unfolding polled_shift .
  qed (use Suc.prems n in auto)
  then show ?case using Wait_step[OF assms(1) b(1), of n] b(2) assms(2) n by simp
qed

text \<open>\<open>Wait\<close> answers yes only when the request is approved in the database it leaves.\<close>

definition answered :: "int \<Rightarrow> bool option \<Rightarrow> db \<Rightarrow> bool" where
  "answered tid r s \<longleftrightarrow> (\<forall>b. r = Some b \<longrightarrow>
     (\<exists>a. tbl_get ap_id tid (db_approvals s) = Some a \<and>
        ap_decision a = (if b then ApprovalApproved else ApprovalDenied)))"

lemma Wait_answered: "triple w P (Wait n tid) (answered tid) (\<lambda>_ _. True)"
proof (induction n arbitrary: P)
  case 0
  show ?case unfolding Wait.simps by (rule triple_ret) (simp add: answered_def)
next
  case (Suc n)
  have get: "triple w P (approval_get tid)
      (\<lambda>r s. \<exists>a. tbl_get ap_id tid (db_approvals s) = Some a \<and> ap_decision r = ap_decision a) (\<lambda>_ _. True)"
    by (rule triple_conseq[where P' = "\<lambda>_. True"], unfold approval_get_def, intro triple_wrap triple_query)
      (auto simp: stable_def get_row_def scanApprovalRequest_def split: option.splits)
  have answer: "triple w (\<lambda>s. \<exists>a. tbl_get ap_id tid (db_approvals s) = Some a \<and> d = ap_decision a)
      (ret (Some b)) (answered tid) (\<lambda>_ _. True)"
    if "d = (if b then ApprovalApproved else ApprovalDenied)" for d b
    by (rule triple_ret) (use that in \<open>auto simp: answered_def\<close>)
  have "triple w (\<lambda>s. \<exists>a. tbl_get ap_id tid (db_approvals s) = Some a \<and> d = ap_decision a)
      (case d of ApprovalApproved \<Rightarrow> ret (Some True) | ApprovalDenied \<Rightarrow> ret (Some False)
       | ApprovalPending \<Rightarrow> bind ctx_check (\<lambda>c. case c of Some er \<Rightarrow> fail er | None \<Rightarrow> Wait n tid))
      (answered tid) (\<lambda>_ _. True)" for d
    by (cases d)
      (auto split: option.splits intro!: answer triple_fail triple_bind[OF triple_ctx] Suc.IH)
  then show ?case unfolding Wait.simps by (rule triple_bind[OF get])
qed

end
