(* ===== verification/Store_Records.thy ===== *)
theory Store_Records
  imports Store_Tasks Approval_Store
begin

text \<open>
  \<open>internal/agentic/store.go\<close>, second part: task edges, actors, handoffs, policy decisions, tool
  receipts, verification runs, completion gates, enqueue decisions and the transaction that turns a
  proposed task into a task of the daemon's queue, memory updates, followups and activation runs.
\<close>

section \<open>Task edges\<close>

definition edge_key :: "task_edge \<Rightarrow> int \<times> int \<times> string" where
  "edge_key x = (te_parent_id x, te_child_id x, te_edge_type x)"

definition GetTaskEdge :: "int \<Rightarrow> int \<Rightarrow> string \<Rightarrow> (db, task_edge) act" where
  "GetTaskEdge p c typ = query (\<lambda>s. one_row (filter (\<lambda>x. edge_key x = (p, c, typ)) (db_edges s)))"

definition CreateTaskEdge :: "task_edge \<Rightarrow> (db, task_edge) act" where
  "CreateTaskEdge x =
     bind now_ms (\<lambda>now.
     let y = x\<lparr>te_created_at := default_time (te_created_at x) now\<rparr> in
     bind (exec (\<lambda>s.
         if edge_key y \<in> edge_key ` set (db_edges s) then Inl (EUnique ''task_edges'')
         else if tbl_get at_id (te_parent_id y) (db_tasks s) = None \<or>
                 tbl_get at_id (te_child_id y) (db_tasks s) = None then Inl fk_error
         else Inr ((), s\<lparr>db_edges := db_edges s @ [y]\<rparr>))) (\<lambda>_.
     GetTaskEdge (te_parent_id x) (te_child_id x) (te_edge_type x)))"

definition ListTaskEdgesByParent :: "int \<Rightarrow> string \<Rightarrow> (db, task_edge list) act" where
  "ListTaskEdgesByParent p typ =
     query (\<lambda>s. Inr (order_by te_created_at (order_by te_child_id
       (filter (\<lambda>x. te_parent_id x = p \<and> (TrimSpace typ \<noteq> '''' \<longrightarrow> te_edge_type x = typ)) (db_edges s)))))"

section \<open>Actors and handoffs\<close>

definition GetAgentActor :: "int \<Rightarrow> (db, agent_actor) act" where
  "GetAgentActor i = query (\<lambda>s. get_row aa_id i (db_actors s))"

definition mk_actor :: "agent_actor \<times> int \<Rightarrow> int \<Rightarrow> agent_actor" where
  "mk_actor a i = (case a of (x, now) \<Rightarrow> let created = default_time (aa_created_at x) now in
     x\<lparr>aa_id := i, aa_created_at := created, aa_updated_at := default_time (aa_updated_at x) created\<rparr>)"

definition CreateAgentActor :: "agent_actor \<Rightarrow> (db, agent_actor) act" where
  "CreateAgentActor x =
     bind now_ms (\<lambda>now.
     bind (exec_actors (\<lambda>s. try_insert (check_actor s) (mk_actor (x, now)))) GetAgentActor)"

definition or_else :: "string \<Rightarrow> string \<Rightarrow> string" where
  "or_else a b = (if a = '''' then b else a)"

definition merge_actor :: "agent_actor \<Rightarrow> agent_actor \<Rightarrow> int \<Rightarrow> agent_actor" where
  "merge_actor x old now =
     x\<lparr>aa_task_id := (if aa_task_id x = 0 then aa_task_id old else aa_task_id x),
       aa_role := or_else (aa_role x) (aa_role old),
       aa_state_json := or_else (aa_state_json x) (aa_state_json old),
       aa_inbox_json := or_else (aa_inbox_json x) (aa_inbox_json old),
       aa_outbox_json := or_else (aa_outbox_json x) (aa_outbox_json old),
       aa_tool_allowlist_json := or_else (aa_tool_allowlist_json x) (aa_tool_allowlist_json old),
       aa_budget_json := or_else (aa_budget_json x) (aa_budget_json old),
       aa_status := or_else (aa_status x) (aa_status old),
       aa_updated_at := (if now \<le> aa_updated_at old then aa_updated_at old + 1 else now)\<rparr>"

definition UpdateAgentActor :: "agent_actor \<Rightarrow> (db, agent_actor) act" where
  "UpdateAgentActor x =
     (if aa_id x = 0 then fail (EMsg ''agentic: update agent actor: missing id'')
      else
        bind (GetAgentActor (aa_id x)) (\<lambda>old.
        bind now_ms (\<lambda>now.
        let y = merge_actor x old now in
        bind (exec_actors (\<lambda>s. try_update
                (\<lambda>t r. if tbl_get at_id (aa_task_id r) (db_tasks s) = None then Some fk_error else None)
                (\<lambda>r. aa_id r = aa_id x) (\<lambda>r. y\<lparr>aa_id := aa_id r, aa_created_at := aa_created_at r\<rparr>))) (\<lambda>_.
        GetAgentActor (aa_id x)))))"

definition ListAgentActorsByTask :: "int \<Rightarrow> (db, agent_actor list) act" where
  "ListAgentActorsByTask taskID =
     query (\<lambda>s. Inr (order_by aa_id (tbl_select (\<lambda>x. aa_task_id x = taskID) (db_actors s))))"

definition mk_handoff :: "actor_handoff \<times> int \<Rightarrow> int \<Rightarrow> actor_handoff" where
  "mk_handoff a i = (case a of (x, now) \<Rightarrow>
     x\<lparr>ah_id := i, ah_created_at := default_time (ah_created_at x) now\<rparr>)"

definition getActorHandoff :: "int \<Rightarrow> (db, actor_handoff) act" where
  "getActorHandoff i = query (\<lambda>s. get_row ah_id i (db_handoffs s))"

definition CreateActorHandoff :: "actor_handoff \<Rightarrow> (db, actor_handoff) act" where
  "CreateActorHandoff x =
     bind now_ms (\<lambda>now.
     bind (exec_handoffs (\<lambda>s. try_insert (check_handoff s) (mk_handoff (x, now)))) getActorHandoff)"

definition ListActorHandoffsByTask :: "int \<Rightarrow> (db, actor_handoff list) act" where
  "ListActorHandoffsByTask taskID =
     query (\<lambda>s. Inr (order_by ah_id (tbl_select (\<lambda>x. ah_task_id x = taskID) (db_handoffs s))))"

section \<open>Policy decisions and receipts\<close>

abbreviation exec_policies :: "(db \<Rightarrow> policy_decision table \<Rightarrow> err + 'a \<times> policy_decision table) \<Rightarrow> (db, 'a) act" where
  "exec_policies \<equiv> on_table db_policies (\<lambda>t s. s\<lparr>db_policies := t\<rparr>)"
abbreviation exec_receipts :: "(db \<Rightarrow> tool_receipt table \<Rightarrow> err + 'a \<times> tool_receipt table) \<Rightarrow> (db, 'a) act" where
  "exec_receipts \<equiv> on_table db_receipts (\<lambda>t s. s\<lparr>db_receipts := t\<rparr>)"

definition GetPolicyDecision :: "int \<Rightarrow> (db, policy_decision) act" where
  "GetPolicyDecision i = query (\<lambda>s. get_row pd_id i (db_policies s))"

definition mk_policy :: "policy_decision \<times> int \<Rightarrow> int \<Rightarrow> policy_decision" where
  "mk_policy a i = (case a of (x, now) \<Rightarrow>
     x\<lparr>pd_id := i, pd_actor_id := norm_null (pd_actor_id x),
       pd_created_at := default_time (pd_created_at x) now\<rparr>)"

definition CreatePolicyDecision :: "policy_decision \<Rightarrow> (db, policy_decision) act" where
  "CreatePolicyDecision x =
     bind now_ms (\<lambda>now.
     bind (exec_policies (\<lambda>s. try_insert (check_policy s) (mk_policy (x, now)))) GetPolicyDecision)"

definition GetToolActionReceipt :: "int \<Rightarrow> (db, tool_receipt) act" where
  "GetToolActionReceipt i = query (\<lambda>s. get_row tr_id i (db_receipts s))"

definition mk_receipt :: "tool_receipt \<times> int \<Rightarrow> int \<Rightarrow> tool_receipt" where
  "mk_receipt a i = (case a of (x, now) \<Rightarrow>
     x\<lparr>tr_id := i, tr_actor_id := norm_null (tr_actor_id x),
       tr_policy_decision_id := norm_null (tr_policy_decision_id x),
       tr_started_at := default_time (tr_started_at x) now\<rparr>)"

definition CreateToolActionReceipt :: "tool_receipt \<Rightarrow> (db, tool_receipt) act" where
  "CreateToolActionReceipt x =
     bind now_ms (\<lambda>now.
     bind (exec_receipts (\<lambda>s. try_insert (check_receipt s) (mk_receipt (x, now)))) GetToolActionReceipt)"

record receipt_completion =
  rc_approval_request_id :: string
  rc_output_hash :: string
  rc_raw_output_hash :: string
  rc_visible_output_hash :: string
  rc_output_summary :: string
  rc_status :: string
  rc_failure_reason :: string
  rc_hook_provenance_json :: string
  rc_reversible :: bool
  rc_completed_at :: "int option"

definition complete_row :: "receipt_completion \<Rightarrow> int \<Rightarrow> tool_receipt \<Rightarrow> tool_receipt" where
  "complete_row c now r =
     r\<lparr>tr_approval_request_id := (if rc_approval_request_id c \<noteq> '''' then rc_approval_request_id c
                                 else tr_approval_request_id r),
       tr_output_hash := rc_output_hash c, tr_raw_output_hash := rc_raw_output_hash c,
       tr_visible_output_hash := rc_visible_output_hash c, tr_output_summary := rc_output_summary c,
       tr_status := rc_status c, tr_failure_reason := rc_failure_reason c,
       tr_hook_provenance_json := rc_hook_provenance_json c, tr_reversible := rc_reversible c,
       tr_completed_at := Some (case rc_completed_at c of None \<Rightarrow> now | Some t \<Rightarrow> t)\<rparr>"

definition CompleteToolActionReceipt :: "int \<Rightarrow> receipt_completion \<Rightarrow> (db, tool_receipt) act" where
  "CompleteToolActionReceipt i c =
     bind now_ms (\<lambda>now.
     bind (exec_receipts (\<lambda>s. plain_update (\<lambda>r. tr_id r = i) (complete_row c now))) (\<lambda>_.
     GetToolActionReceipt i))"

definition ListToolActionReceiptsByTask :: "int \<Rightarrow> (db, tool_receipt list) act" where
  "ListToolActionReceiptsByTask taskID =
     query (\<lambda>s. Inr (order_by tr_id (tbl_select (\<lambda>x. tr_task_id x = taskID) (db_receipts s))))"

section \<open>Verification runs and completion gates\<close>

abbreviation exec_verifications ::
  "(db \<Rightarrow> verification_run table \<Rightarrow> err + 'a \<times> verification_run table) \<Rightarrow> (db, 'a) act" where
  "exec_verifications \<equiv> on_table db_verifications (\<lambda>t s. s\<lparr>db_verifications := t\<rparr>)"
abbreviation exec_gates :: "(db \<Rightarrow> completion_gate table \<Rightarrow> err + 'a \<times> completion_gate table) \<Rightarrow> (db, 'a) act" where
  "exec_gates \<equiv> on_table db_gates (\<lambda>t s. s\<lparr>db_gates := t\<rparr>)"

definition GetVerificationRun :: "int \<Rightarrow> (db, verification_run) act" where
  "GetVerificationRun i = query (\<lambda>s. get_row vr_id i (db_verifications s))"

definition mk_verification :: "verification_run \<times> int \<Rightarrow> int \<Rightarrow> verification_run" where
  "mk_verification a i = (case a of (x, now) \<Rightarrow>
     x\<lparr>vr_id := i, vr_verifier_actor_id := norm_null (vr_verifier_actor_id x),
       vr_created_at := default_time (vr_created_at x) now\<rparr>)"

definition CreateVerificationRun :: "verification_run \<Rightarrow> (db, verification_run) act" where
  "CreateVerificationRun x =
     bind now_ms (\<lambda>now.
     bind (exec_verifications (\<lambda>s. try_insert (check_verification s) (mk_verification (x, now))))
       GetVerificationRun)"

definition ListVerificationRunsByTask :: "int \<Rightarrow> (db, verification_run list) act" where
  "ListVerificationRunsByTask taskID =
     query (\<lambda>s. Inr (order_by vr_id (tbl_select (\<lambda>x. vr_task_id x = taskID) (db_verifications s))))"

definition GetCompletionGate :: "int \<Rightarrow> (db, completion_gate) act" where
  "GetCompletionGate i = query (\<lambda>s. get_row cg_id i (db_gates s))"

definition mk_gate :: "completion_gate \<times> int \<Rightarrow> int \<Rightarrow> completion_gate" where
  "mk_gate a i = (case a of (x, now) \<Rightarrow> let created = default_time (cg_created_at x) now in
     x\<lparr>cg_id := i, cg_queue_task_id := norm_null (cg_queue_task_id x),
       cg_verification_run_id := norm_null (cg_verification_run_id x),
       cg_receipt_summary_json := or_else (cg_receipt_summary_json x) ''{}'',
       cg_created_at := created, cg_updated_at := default_time (cg_updated_at x) created\<rparr>)"

definition CreateCompletionGate :: "completion_gate \<Rightarrow> (db, completion_gate) act" where
  "CreateCompletionGate x =
     bind now_ms (\<lambda>now.
     bind (exec_gates (\<lambda>s. try_insert (check_gate s) (mk_gate (x, now)))) GetCompletionGate)"

definition ListCompletionGatesByTask :: "int \<Rightarrow> (db, completion_gate list) act" where
  "ListCompletionGatesByTask taskID =
     query (\<lambda>s. Inr (order_by cg_id (tbl_select (\<lambda>x. cg_task_id x = taskID) (db_gates s))))"

section \<open>Enqueue decisions\<close>

abbreviation exec_enqueues ::
  "(db \<Rightarrow> enqueue_decision table \<Rightarrow> err + 'a \<times> enqueue_decision table) \<Rightarrow> (db, 'a) act" where
  "exec_enqueues \<equiv> on_table db_enqueues (\<lambda>t s. s\<lparr>db_enqueues := t\<rparr>)"

definition GetTaskEnqueueDecision :: "int \<Rightarrow> (db, enqueue_decision) act" where
  "GetTaskEnqueueDecision i = query (\<lambda>s. get_row ed_id i (db_enqueues s))"

definition mk_enqueue :: "enqueue_decision \<times> int \<Rightarrow> int \<Rightarrow> enqueue_decision" where
  "mk_enqueue a i = (case a of (x, now) \<Rightarrow> let created = default_time (ed_created_at x) now in
     x\<lparr>ed_id := i, ed_queue_task_id := norm_null (ed_queue_task_id x),
       ed_decision := or_else (ed_decision x) TaskEnqueueDecisionApproved,
       ed_status := or_else (ed_status x) TaskEnqueueStatusPending,
       ed_created_at := created, ed_updated_at := default_time (ed_updated_at x) created\<rparr>)"

definition CreateTaskEnqueueDecision :: "enqueue_decision \<Rightarrow> (db, enqueue_decision) act" where
  "CreateTaskEnqueueDecision x =
     bind now_ms (\<lambda>now.
     bind (exec_enqueues (\<lambda>s. try_insert (check_enqueue s) (mk_enqueue (x, now)))) GetTaskEnqueueDecision)"

definition ListTaskEnqueueDecisionsByTask :: "int \<Rightarrow> (db, enqueue_decision list) act" where
  "ListTaskEnqueueDecisionsByTask taskID =
     query (\<lambda>s. Inr (order_by ed_id (tbl_select (\<lambda>x. ed_task_id x = taskID) (db_enqueues s))))"

definition mark_enqueued :: "int \<Rightarrow> int \<Rightarrow> enqueue_decision \<Rightarrow> enqueue_decision" where
  "mark_enqueued now q x = x\<lparr>ed_queue_task_id := Some q, ed_status := TaskEnqueueStatusEnqueued,
     ed_updated_at := max now (ed_updated_at x + 1)\<rparr>"

definition mark_failed :: "int \<Rightarrow> string \<Rightarrow> enqueue_decision \<Rightarrow> enqueue_decision" where
  "mark_failed now reason x = x\<lparr>ed_status := TaskEnqueueStatusFailed, ed_failure_reason := reason,
     ed_updated_at := max now (ed_updated_at x + 1)\<rparr>"

text \<open>The two updates that link a decision and its task to the queue task \<open>q\<close>.\<close>

definition exec_mark_enqueued :: "int \<Rightarrow> int \<Rightarrow> int \<Rightarrow> int \<Rightarrow> (db, nat) act" where
  "exec_mark_enqueued now did taskID q = exec_enqueues (\<lambda>s. try_update
     (\<lambda>t r. if unique_clash enqueue_active ed_task_id t r
            then Some (EUnique ''task_enqueue_decisions.task_id'') else None)
     (\<lambda>x. ed_id x = did \<and> ed_task_id x = taskID) (mark_enqueued now q))"

definition exec_link_queue :: "int \<Rightarrow> int \<Rightarrow> int \<Rightarrow> (db, nat) act" where
  "exec_link_queue now taskID q = exec_tasks (\<lambda>s. try_update
     (\<lambda>t r. if unique_clash (\<lambda>x. at_queue_task_id x \<noteq> None) at_queue_task_id t r
            then Some (EUnique ''agentic_tasks.queue_task_id'') else None)
     (\<lambda>x. at_id x = taskID \<and> at_queue_task_id x = None)
     (\<lambda>x. touch_task now (x\<lparr>at_queue_task_id := Some q, at_status := TaskStatusPending\<rparr>)))"

definition already_linked :: "int \<Rightarrow> agentic_task \<Rightarrow> err" where
  "already_linked taskID k = EMsg (''agentic: task '' @ itoa taskID @ '' is already linked to queue task '' @
     itoa (intFromNull (at_queue_task_id k)))"

definition MarkTaskEnqueueDecisionEnqueued ::
  "int \<Rightarrow> int \<Rightarrow> int \<Rightarrow> (db, enqueue_decision \<times> agentic_task) act" where
  "MarkTaskEnqueueDecisionEnqueued did taskID q = transaction (
     bind now_ms (\<lambda>now.
     bind (exec_mark_enqueued now did taskID q) (\<lambda>n.
     if n = 0 then fail ErrNoRows
     else
       bind (exec_link_queue now taskID q) (\<lambda>m.
       bind (if m = 0
             then bind (GetAgenticTask taskID) (\<lambda>k.
                  if intFromNull (at_queue_task_id k) \<noteq> q then fail (already_linked taskID k) else ret ())
             else ret ()) (\<lambda>_.
       bind (GetTaskEnqueueDecision did) (\<lambda>d.
       bind (GetAgenticTask taskID) (\<lambda>k. ret (d, k))))))))"

definition MarkTaskEnqueueDecisionFailed :: "int \<Rightarrow> string \<Rightarrow> (db, enqueue_decision) act" where
  "MarkTaskEnqueueDecisionFailed did reason =
     bind now_ms (\<lambda>now.
     bind (exec_enqueues (\<lambda>s. plain_update (\<lambda>x. ed_id x = did) (mark_failed now reason))) (\<lambda>n.
     if n = 0 then fail ErrNoRows else GetTaskEnqueueDecision did))"

text \<open>
  \<open>EnqueueProposedTask\<close>, for any \<open>QueueTxEnqueuer\<close>: \<open>enq payload key\<close> is its \<open>EnqueueTx\<close> in the
  transaction.  When it fails, the decision is marked failed and that is committed.
\<close>

definition new_decision :: "int \<Rightarrow> enqueue_decision \<Rightarrow> enqueue_decision" where
  "new_decision taskID x = x\<lparr>ed_task_id := taskID, ed_queue_task_id := None, ed_failure_reason := '''',
     ed_created_at := zero_time, ed_updated_at := zero_time\<rparr>"

definition link_enqueued ::
  "int \<Rightarrow> int \<Rightarrow> int \<Rightarrow> bool \<Rightarrow> (db, enqueue_decision \<times> agentic_task \<times> int \<times> bool) act" where
  "link_enqueued did taskID q existed =
     bind now_ms (\<lambda>now.
     bind (exec_mark_enqueued now did taskID q) (\<lambda>_.
     bind (exec_link_queue now taskID q) (\<lambda>_.
     bind (GetTaskEnqueueDecision did) (\<lambda>d.
     bind (GetAgenticTask taskID) (\<lambda>k.
     if intFromNull (at_queue_task_id k) \<noteq> q
     then fail (EMsg (''agentic: task '' @ itoa taskID @ '' queue link mismatch after enqueue''))
     else ret (d, k, q, existed))))))"

definition EnqueueProposedTask ::
  "(string \<Rightarrow> string \<Rightarrow> (db, int \<times> bool) act) \<Rightarrow> int \<Rightarrow> enqueue_decision \<Rightarrow> string \<Rightarrow> string
     \<Rightarrow> (db, enqueue_decision \<times> agentic_task \<times> int \<times> bool) act" where
  "EnqueueProposedTask enq taskID decision payload idemKey =
     bind (transaction (
       bind (GetAgenticTask taskID) (\<lambda>k.
       if intFromNull (at_queue_task_id k) \<noteq> 0 then fail (already_linked taskID k)
       else if at_status k \<noteq> TaskStatusProposed
       then fail (EMsg (''agentic: task '' @ itoa taskID @ '' is not proposed: '' @ at_status k))
       else
         bind now_ms (\<lambda>now.
         bind (exec_enqueues (\<lambda>s. try_insert (check_enqueue s)
                 (mk_enqueue (new_decision taskID decision, now)))) (\<lambda>did.
         bind (attempt (enq payload idemKey)) (\<lambda>r.
         case r of
           Inl er \<Rightarrow>
             bind now_ms (\<lambda>t.
             bind (wrap_act ''agentic: mark enqueue decision failed''
                     (exec_enqueues (\<lambda>s. plain_update (\<lambda>x. ed_id x = did)
                        (mark_failed t (err_text er))))) (\<lambda>_.
             ret (Inl er)))
         | Inr (q, existed) \<Rightarrow>
             bind (link_enqueued did taskID q existed) (\<lambda>res. ret (Inr res))))))))
     lift_result"

text \<open>The queue as such an enqueuer.\<close>

definition queue_EnqueueTx :: "string \<Rightarrow> string \<Rightarrow> (db, int \<times> bool) act" where
  "queue_EnqueueTx payload idemKey = (\<lambda>w i s.
     case EnqueueTx (env_from i (w_env w)) (db_queue s) payload idemKey of
       (r, q) \<Rightarrow> (r, i + 4, s\<lparr>db_queue := q\<rparr>))"

section \<open>Memory updates\<close>

abbreviation exec_memory :: "(db \<Rightarrow> memory_update table \<Rightarrow> err + 'a \<times> memory_update table) \<Rightarrow> (db, 'a) act" where
  "exec_memory \<equiv> on_table db_memory (\<lambda>t s. s\<lparr>db_memory := t\<rparr>)"

definition GetMemoryUpdate :: "int \<Rightarrow> (db, memory_update) act" where
  "GetMemoryUpdate i = query (\<lambda>s. get_row mu_id i (db_memory s))"

definition mk_memory :: "memory_update \<times> int \<Rightarrow> int \<Rightarrow> memory_update" where
  "mk_memory a i = (case a of (x, now) \<Rightarrow>
     x\<lparr>mu_id := i, mu_receipt_id := norm_null (mu_receipt_id x),
       mu_verification_run_id := norm_null (mu_verification_run_id x),
       mu_created_at := default_time (mu_created_at x) now\<rparr>)"

definition same_run :: "memory_update \<Rightarrow> memory_update \<Rightarrow> bool" where
  "same_run x y \<longleftrightarrow> mu_verification_run_id y = norm_null (mu_verification_run_id x)"

definition findMemoryUpdateByKey :: "memory_update \<Rightarrow> (db, memory_update) act" where
  "findMemoryUpdateByKey x =
     bind (query (\<lambda>s. one_row (order_by mu_id (tbl_select (\<lambda>y.
              mu_task_id y = mu_task_id x \<and> mu_target y = mu_target x \<and> mu_operation y = mu_operation x \<and>
              mu_payload_hash y = mu_payload_hash x \<and> mu_source y = mu_source x \<and> same_run x y)
            (db_memory s))))) (\<lambda>y. GetMemoryUpdate (mu_id y))"

definition CreateMemoryUpdate :: "memory_update \<Rightarrow> (db, memory_update) act" where
  "CreateMemoryUpdate x =
     bind now_ms (\<lambda>now.
     bind (exec_memory (\<lambda>s. insert_or_ignore (check_memory s) (mk_memory (x, now)))) (\<lambda>r.
     case r of None \<Rightarrow> findMemoryUpdateByKey x | Some i \<Rightarrow> GetMemoryUpdate i))"

definition ListMemoryUpdatesByTask :: "int \<Rightarrow> (db, memory_update list) act" where
  "ListMemoryUpdatesByTask taskID =
     query (\<lambda>s. Inr (order_by mu_id (tbl_select (\<lambda>x. mu_task_id x = taskID) (db_memory s))))"

definition FindMemoryUpdate :: "memory_update \<Rightarrow> (db, memory_update) act" where
  "FindMemoryUpdate x =
     bind (query (\<lambda>s. one_row (order_by mu_id (tbl_select (\<lambda>y.
              mu_task_id y = mu_task_id x \<and> mu_target y = mu_target x \<and> mu_operation y = mu_operation x \<and>
              mu_payload_hash y = mu_payload_hash x \<and> mu_status y = mu_status x \<and>
              (mu_source x \<noteq> '''' \<longrightarrow> mu_source y = mu_source x) \<and> same_run x y)
            (db_memory s))))) (\<lambda>y. GetMemoryUpdate (mu_id y))"

definition UpdateMemoryUpdateStatus :: "int \<Rightarrow> string \<Rightarrow> string \<Rightarrow> int option \<Rightarrow> (db, memory_update) act" where
  "UpdateMemoryUpdateStatus i status reason appliedAt =
     bind (exec_memory (\<lambda>s. plain_update (\<lambda>x. mu_id x = i)
             (\<lambda>x. x\<lparr>mu_status := status, mu_reason := reason, mu_applied_at := appliedAt\<rparr>))) (\<lambda>n.
     if n = 0 then fail ErrNoRows else GetMemoryUpdate i)"

section \<open>Activation runs\<close>

abbreviation exec_runs :: "(db \<Rightarrow> activation_run table \<Rightarrow> err + 'a \<times> activation_run table) \<Rightarrow> (db, 'a) act" where
  "exec_runs \<equiv> on_table db_runs (\<lambda>t s. s\<lparr>db_runs := t\<rparr>)"

definition GetActivationRun :: "int \<Rightarrow> (db, activation_run) act" where
  "GetActivationRun i = query (\<lambda>s. get_row ar_id i (db_runs s))"

definition mk_run :: "activation_run \<times> int \<Rightarrow> int \<Rightarrow> activation_run" where
  "mk_run a i = (case a of (x, now) \<Rightarrow>
     x\<lparr>ar_id := i, ar_execution_policy := or_else (ar_execution_policy x) ''propose_only'',
       ar_status := or_else (ar_status x) ActivationRunStatusSucceeded,
       ar_created_at := default_time (ar_created_at x) now\<rparr>)"

definition CreateActivationRun :: "activation_run \<Rightarrow> (db, activation_run) act" where
  "CreateActivationRun x =
     bind now_ms (\<lambda>now.
     bind (exec_runs (\<lambda>s. try_insert (\<lambda>_ _. None) (mk_run (x, now)))) GetActivationRun)"

definition ListActivationRuns :: "int \<Rightarrow> (db, activation_run list) act" where
  "ListActivationRuns limit =
     query (\<lambda>s. let rs = order_desc ar_id (tbl_rows (db_runs s))
                in Inr (if limit > 0 then limit_rows limit rs else rs))"

section \<open>Followups\<close>

abbreviation exec_followups :: "(db \<Rightarrow> followup table \<Rightarrow> err + 'a \<times> followup table) \<Rightarrow> (db, 'a) act" where
  "exec_followups \<equiv> on_table db_followups (\<lambda>t s. s\<lparr>db_followups := t\<rparr>)"

definition followupDedupeKey :: "int \<Rightarrow> string" where
  "followupDedupeKey i = ''followup:'' @ itoa i @ '':due''"

definition GetFollowup :: "int \<Rightarrow> (db, followup) act" where
  "GetFollowup i = query (\<lambda>s. get_row fu_id i (db_followups s))"

definition mk_followup :: "followup \<times> int \<Rightarrow> int \<Rightarrow> followup" where
  "mk_followup a i = (case a of (x, now) \<Rightarrow>
     x\<lparr>fu_id := i, fu_task_id := norm_null (fu_task_id x), fu_goal_id := norm_null (fu_goal_id x),
       fu_created_task_id := norm_null (fu_created_task_id x),
       fu_status := or_else (fu_status x) FollowupStatusPending,
       fu_trigger_at := default_time (fu_trigger_at x) now,
       fu_created_at := default_time (fu_created_at x) now\<rparr>)"

definition CreateFollowup :: "followup \<Rightarrow> (db, followup) act" where
  "CreateFollowup x =
     bind now_ms (\<lambda>now.
     bind (exec_followups (\<lambda>s. try_insert (check_followup s) (mk_followup (x, now)))) (\<lambda>i.
     bind (if fu_dedupe_key x = ''''
           then exec_followups (\<lambda>s. try_update
                  (\<lambda>t r. if unique_clash (\<lambda>y. fu_dedupe_key y \<noteq> '''') fu_dedupe_key t r
                         then Some (EUnique ''followups.dedupe_key'') else None)
                  (\<lambda>y. fu_id y = i) (\<lambda>y. y\<lparr>fu_dedupe_key := followupDedupeKey i\<rparr>))
           else ret 0) (\<lambda>_.
     GetFollowup i)))"

definition GetFollowupByDedupeKey :: "string \<Rightarrow> (db, followup) act" where
  "GetFollowupByDedupeKey key =
     bind (query (\<lambda>s. one_row (tbl_select (\<lambda>y. fu_dedupe_key y = key) (db_followups s))))
       (\<lambda>y. GetFollowup (fu_id y))"

definition CreateOrGetFollowup :: "followup \<Rightarrow> (db, followup \<times> bool) act" where
  "CreateOrGetFollowup x =
     (if fu_dedupe_key x = '''' then bind (CreateFollowup x) (\<lambda>c. ret (c, False))
      else
        bind now_ms (\<lambda>now.
        bind (exec_followups (\<lambda>s. insert_or_ignore (check_followup s) (mk_followup (x, now)))) (\<lambda>r.
        case r of
          None \<Rightarrow> bind (GetFollowupByDedupeKey (fu_dedupe_key x)) (\<lambda>c. ret (c, True))
        | Some i \<Rightarrow> bind (GetFollowup i) (\<lambda>c. ret (c, False)))))"

definition FindFollowupInCooldown :: "followup \<Rightarrow> int \<Rightarrow> (db, followup) act" where
  "FindFollowupInCooldown x cooldown =
     (if cooldown \<le> 0 then fail ErrNoRows
      else
        bind (query (\<lambda>s. one_row (order_by (\<lambda>y. \<bar>fu_trigger_at y - fu_trigger_at x\<bar>) (order_by fu_id
                (tbl_select (\<lambda>y. intFromNull (fu_task_id y) = intFromNull (fu_task_id x) \<and>
                   intFromNull (fu_goal_id y) = intFromNull (fu_goal_id x) \<and>
                   fu_reason y = fu_reason x \<and> fu_wake_agent y = fu_wake_agent x \<and>
                   fu_status y \<noteq> FollowupStatusFailed \<and> fu_status y \<noteq> FollowupStatusCanceled \<and>
                   fu_trigger_at x - cooldown \<le> fu_trigger_at y \<and>
                   fu_trigger_at y \<le> fu_trigger_at x + cooldown) (db_followups s))))))
          (\<lambda>y. GetFollowup (fu_id y)))"

definition ListDueFollowups :: "int \<Rightarrow> int \<Rightarrow> (db, followup list) act" where
  "ListDueFollowups now limit =
     query (\<lambda>s. let rs = order_by fu_trigger_at (order_by fu_id (tbl_select (\<lambda>y.
                  (fu_status y = FollowupStatusPending \<or> fu_status y = FollowupStatusProcessing) \<and>
                  fu_trigger_at y \<le> now) (db_followups s)))
                in Inr (if limit > 0 then limit_rows limit rs else rs))"

definition followup_row :: "string \<Rightarrow> string \<Rightarrow> int option \<Rightarrow> int option \<Rightarrow> followup \<Rightarrow> followup" where
  "followup_row status reason processedAt created y =
     y\<lparr>fu_status := status,
       fu_failure_reason := (if reason \<noteq> '''' then reason else fu_failure_reason y),
       fu_processed_at := (case processedAt of None \<Rightarrow> fu_processed_at y | Some t \<Rightarrow> Some t),
       fu_created_task_id := (case created of None \<Rightarrow> fu_created_task_id y | Some t \<Rightarrow> Some t)\<rparr>"

definition updateFollowupStatus ::
  "int \<Rightarrow> string \<Rightarrow> string \<Rightarrow> int option \<Rightarrow> int \<Rightarrow> (db, followup) act" where
  "updateFollowupStatus i status reason processedAt created =
     bind (exec_followups (\<lambda>s. try_update
             (\<lambda>t r. if \<not> refers at_id (fu_created_task_id r) (db_tasks s) then Some fk_error else None)
             (\<lambda>y. fu_id y = i) (followup_row status reason processedAt (nullableInt created)))) (\<lambda>_.
     GetFollowup i)"

definition MarkFollowupProcessing :: "int \<Rightarrow> (db, followup) act" where
  "MarkFollowupProcessing i = updateFollowupStatus i FollowupStatusProcessing '''' None 0"

definition MarkFollowupCreated :: "int \<Rightarrow> int \<Rightarrow> (db, followup) act" where
  "MarkFollowupCreated i created =
     bind now_ms (\<lambda>now. updateFollowupStatus i FollowupStatusCreated '''' (Some now) created)"

definition MarkFollowupSkipped :: "int \<Rightarrow> string \<Rightarrow> (db, followup) act" where
  "MarkFollowupSkipped i reason =
     bind now_ms (\<lambda>now. updateFollowupStatus i FollowupStatusSkipped reason (Some now) 0)"

definition MarkFollowupFailed :: "int \<Rightarrow> string \<Rightarrow> (db, followup) act" where
  "MarkFollowupFailed i reason =
     bind now_ms (\<lambda>now. updateFollowupStatus i FollowupStatusFailed reason (Some now) 0)"

end
