(* ===== verification/Bash_Safety.thy ===== *)
theory Bash_Safety
  imports Go_Strings
begin

text \<open>
  The safety analysis of shell commands, \<open>AnalyzeCommandSafety\<close> of \<open>internal/tools/bash.go\<close>.  The
  parser of \<open>mvdan.cc/sh\<close> is a parameter: it gives the nodes of the syntax tree in the order
  \<open>syntax.Walk\<close> visits them, or the text of its error.  A node is what the analysis looks at: a
  statement with its redirections, a call with its words, or another node.  A slice out of range
  is a panic; a loop that does not end has the value \<open>None\<close>.
\<close>

section \<open>Durations of the standard library\<close>

text \<open>
  \<open>time.ParseDuration\<close>, in nanoseconds.  \<open>leading_int\<close> and \<open>leading_fraction\<close> are its helpers; the
  fraction of a unit is computed exactly, where Go rounds a float.
\<close>

definition digit_of :: "char \<Rightarrow> nat" where
  "digit_of c = (case digit_val c of None \<Rightarrow> 0 | Some d \<Rightarrow> d)"

definition is_dig :: "char \<Rightarrow> bool" where
  "is_dig c \<longleftrightarrow> digit_val c \<noteq> None"

definition dot_or_digit :: "char \<Rightarrow> bool" where
  "dot_or_digit c \<longleftrightarrow> c = CHR ''.'' \<or> is_dig c"

definition leading_int :: "string \<Rightarrow> nat option" where
  "leading_int ds = (let n = foldl (\<lambda>a c. 10 * a + digit_of c) 0 ds
     in if n \<le> 2 ^ 63 then Some n else None)"

fun leading_fraction :: "nat \<Rightarrow> nat \<Rightarrow> string \<Rightarrow> nat \<times> nat" where
  "leading_fraction f scale [] = (f, scale)"
| "leading_fraction f scale (c # s) =
     (if f > (2 ^ 63 - 1) div 10 \<or> 10 * f + digit_of c > 2 ^ 63 then (f, scale)
      else leading_fraction (10 * f + digit_of c) (10 * scale) s)"

definition duration_unit :: "string \<Rightarrow> nat option" where
  "duration_unit u =
     (if u = ''ns'' then Some 1
      else if u = ''us'' \<or> u = [CHR 0xC2, CHR 0xB5, CHR ''s''] \<or> u = [CHR 0xCE, CHR 0xBC, CHR ''s'']
      then Some 1000
      else if u = ''ms'' then Some 1000000
      else if u = ''s'' then Some 1000000000
      else if u = ''m'' then Some 60000000000
      else if u = ''h'' then Some 3600000000000
      else None)"

definition duration_value :: "nat \<Rightarrow> nat \<Rightarrow> nat \<Rightarrow> nat \<Rightarrow> nat option" where
  "duration_value v f scale unit =
     (if v > 2 ^ 63 div unit then None
      else let r = v * unit + f * unit div scale in if r > 2 ^ 63 then None else Some r)"

text \<open>One number and its unit at the front: the digits, the digits of the fraction, the unit, the rest.\<close>

definition next_term :: "string \<Rightarrow> string \<times> string \<times> string \<times> string" where
  "next_term s =
     (let s1 = dropWhile is_dig s;
          dot = (s1 \<noteq> [] \<and> hd s1 = CHR ''.'');
          s2 = (if dot then dropWhile is_dig (tl s1) else s1)
      in (takeWhile is_dig s, if dot then takeWhile is_dig (tl s1) else [],
          takeWhile (\<lambda>c. \<not> dot_or_digit c) s2, dropWhile (\<lambda>c. \<not> dot_or_digit c) s2))"

lemma next_term_shorter:
  assumes "next_term s = (a, b, u, r)" and "u \<noteq> []"
  shows "length r < length s"
proof -
  let ?s1 = "dropWhile is_dig s"
  define s2 where "s2 = (if ?s1 \<noteq> [] \<and> hd ?s1 = CHR ''.'' then dropWhile is_dig (tl ?s1) else ?s1)"
  have "length s2 \<le> length s"
    unfolding s2_def using length_dropWhile_le[of is_dig s] length_dropWhile_le[of is_dig "tl ?s1"] by auto
  moreover have "s2 = u @ r" using assms(1) by (auto simp: next_term_def Let_def s2_def)
  ultimately show ?thesis using assms(2) by (cases u) auto
qed

function duration_sum :: "nat \<Rightarrow> string \<Rightarrow> nat option" where
  "duration_sum d s =
     (if s = [] then Some d
      else if \<not> dot_or_digit (hd s) then None
      else
        (case next_term s of (ints, fracs, u, rest) \<Rightarrow>
           if ints = [] \<and> fracs = [] then None
           else if u = [] then None
           else
             (case leading_int ints of
                None \<Rightarrow> None
              | Some v \<Rightarrow>
             (case duration_unit u of
                None \<Rightarrow> None
              | Some unit \<Rightarrow>
             (case leading_fraction 0 1 fracs of (f, scale) \<Rightarrow>
             (case duration_value v f scale unit of
                None \<Rightarrow> None
              | Some r \<Rightarrow> if d + r > 2 ^ 63 then None else duration_sum (d + r) rest))))))"
  by pat_completeness auto
termination
proof (relation "measure (\<lambda>(d, s). length s)", goal_cases)
  case 2
  then show ?case by simp (metis next_term_shorter)
qed simp

declare duration_sum.simps [simp del]

definition ParseDuration :: "string \<Rightarrow> int option" where
  "ParseDuration s0 =
     (let neg = (s0 \<noteq> [] \<and> hd s0 = CHR ''-'');
          s = (if s0 \<noteq> [] \<and> (hd s0 = CHR ''-'' \<or> hd s0 = CHR ''+'') then tl s0 else s0)
      in if s = ''0'' then Some 0
         else if s = [] then None
         else (case duration_sum 0 s of
                 None \<Rightarrow> None
               | Some d \<Rightarrow> if neg then Some (- int d)
                           else if d > 2 ^ 63 - 1 then None else Some (int d)))"

section \<open>The syntax the analysis looks at\<close>

datatype dq_part = DLit string | DParam string | DOther
datatype word_part = Lit string | SglQuoted string | DblQuoted "dq_part list" | ParamExp string | OtherPart
type_synonym shell_word = "word_part list"

datatype redir_op =
    RdrOut | AppOut | RdrInOut | DplOut | RdrClob | AppClob | RdrAll | RdrAllClob | AppAll | AppAllClob
  | OtherOp

record redirect =
  rd_op :: redir_op
  rd_word :: "shell_word option"

text \<open>A redirection may be a nil pointer.\<close>

datatype shell_node = Stmt "redirect option list" | CallExpr "shell_word list" | OtherNode

section \<open>Words and wrappers\<close>

fun dq_text :: "dq_part list \<Rightarrow> string option" where
  "dq_text [] = Some []"
| "dq_text (DLit v # ps) = map_option (\<lambda>t. v @ t) (dq_text ps)"
| "dq_text (DParam v # ps) = (if v = [] then None else map_option (\<lambda>t. CHR ''$'' # v @ t) (dq_text ps))"
| "dq_text (DOther # ps) = None"

fun parts_text :: "shell_word \<Rightarrow> string option" where
  "parts_text [] = Some []"
| "parts_text (Lit v # ps) = map_option (\<lambda>t. v @ t) (parts_text ps)"
| "parts_text (SglQuoted v # ps) = map_option (\<lambda>t. v @ t) (parts_text ps)"
| "parts_text (DblQuoted qs # ps) =
     (case dq_text qs of None \<Rightarrow> None | Some a \<Rightarrow> map_option (\<lambda>t. a @ t) (parts_text ps))"
| "parts_text (ParamExp v # ps) =
     (if v = [] then None else map_option (\<lambda>t. CHR ''$'' # v @ t) (parts_text ps))"
| "parts_text (OtherPart # ps) = None"

text \<open>A part without a text makes the whole word empty.\<close>

definition wordText :: "shell_word \<Rightarrow> string" where
  "wordText w = (case parts_text w of None \<Rightarrow> '''' | Some t \<Rightarrow> t)"

definition stripOptionalDoubleDash :: "string list \<Rightarrow> string list" where
  "stripOptionalDoubleDash args = (case args of a # r \<Rightarrow> if a = ''--'' then r else args | [] \<Rightarrow> [])"

definition skipNiceArgs :: "string list \<Rightarrow> string list" where
  "skipNiceArgs args =
     (if length args < 2 then []
      else if args ! 1 = ''-n'' \<and> 4 \<le> length args then drop 3 args
      else if HasPrefix (args ! 1) ''-'' \<and> ParseInt (drop 1 (args ! 1)) \<noteq> None then drop 2 args
      else drop 1 args)"

text \<open>What the loops over the flags do with an argument.\<close>

datatype flag_kind = FlagsEnd | FlagAlone | FlagWithValue | FlagUnknown | NotFlag

definition timeout_flag :: "string \<Rightarrow> flag_kind" where
  "timeout_flag a =
     (if a = ''--'' then FlagsEnd
      else if a = ''--foreground'' \<or> a = ''--preserve-status'' \<or> a = ''--verbose'' \<or> a = ''-v'' then FlagAlone
      else if HasPrefix a ''--kill-after='' \<or> HasPrefix a ''--signal='' then FlagAlone
      else if a = ''--kill-after'' \<or> a = ''--signal'' \<or> a = ''-k'' \<or> a = ''-s'' then FlagWithValue
      else if HasPrefix a ''-k'' \<or> HasPrefix a ''-s'' then FlagAlone
      else if HasPrefix a ''-'' then FlagUnknown
      else NotFlag)"

text \<open>
  \<open>skipTimeoutArgs\<close>: the flags before the duration.  The result is the list at the duration, or
  \<open>None\<close> for a flag it does not know.
\<close>

fun timeout_flags :: "string list \<Rightarrow> string list option" where
  "timeout_flags [] = Some []"
| "timeout_flags (a # r) =
     (case timeout_flag a of
        FlagsEnd \<Rightarrow> Some r
      | FlagAlone \<Rightarrow> timeout_flags r
      | FlagWithValue \<Rightarrow> (case r of [] \<Rightarrow> Some [] | _ # r' \<Rightarrow> timeout_flags r')
      | FlagUnknown \<Rightarrow> None
      | NotFlag \<Rightarrow> Some (a # r))"

definition skipTimeoutArgs :: "string list \<Rightarrow> string list" where
  "skipTimeoutArgs args =
     (case timeout_flags (drop 1 args) of
        None \<Rightarrow> args
      | Some [] \<Rightarrow> []
      | Some (d # r) \<Rightarrow> if ParseDuration d = None \<and> ParseInt d = None then args else r)"

text \<open>\<open>stripEnvArgs\<close>: \<open>None\<close> is the index past the end that makes the slice panic.\<close>

definition env_flag :: "string \<Rightarrow> flag_kind" where
  "env_flag a =
     (if a = ''--'' then FlagsEnd
      else if Contains a ''='' \<and> \<not> HasPrefix a ''-'' then FlagAlone
      else if a = ''-i'' \<or> a = ''--ignore-environment'' then FlagAlone
      else if a = ''-u'' \<or> a = ''--unset'' then FlagWithValue
      else if HasPrefix a ''--unset='' then FlagAlone
      else NotFlag)"

fun env_flags :: "string list \<Rightarrow> string list option" where
  "env_flags [] = Some []"
| "env_flags (a # r) =
     (case env_flag a of
        FlagsEnd \<Rightarrow> Some r
      | FlagAlone \<Rightarrow> env_flags r
      | FlagWithValue \<Rightarrow> (case r of [] \<Rightarrow> None | _ # r' \<Rightarrow> env_flags r')
      | _ \<Rightarrow> Some (a # r))"

definition slice_panic :: err where
  "slice_panic = EMsg ''runtime error: slice bounds out of range''"

definition stripEnvArgs :: "string list \<Rightarrow> err + string list" where
  "stripEnvArgs args = (case env_flags (drop 1 args) of None \<Rightarrow> Inl slice_panic | Some r \<Rightarrow> Inr r)"

text \<open>A loop that may go on for ever: \<open>None\<close> is a call that does not return.\<close>

partial_function (option) unwrapArgs :: "string list \<Rightarrow> (err + string \<times> string list) option" where
  "unwrapArgs args =
     (case args of
        [] \<Rightarrow> Some (Inr ('''', []))
      | c # r \<Rightarrow>
          if c = ''command'' \<or> c = ''time'' \<or> c = ''nohup'' then unwrapArgs (stripOptionalDoubleDash r)
          else if c = ''nice'' then unwrapArgs (stripOptionalDoubleDash (skipNiceArgs args))
          else if c = ''timeout'' then unwrapArgs (stripOptionalDoubleDash (skipTimeoutArgs args))
          else if c = ''env'' then
            (case stripEnvArgs args of Inl er \<Rightarrow> Some (Inl er) | Inr a \<Rightarrow> unwrapArgs a)
          else Some (Inr (c, r)))"

declare unwrapArgs.simps [code]

definition unwrapCommand :: "shell_word list \<Rightarrow> (err + string \<times> string list) option" where
  "unwrapCommand ws = unwrapArgs (map wordText ws)"

section \<open>Targets of a command\<close>

text \<open>\<open>flags\<close> are the flags that take the next argument as their value.\<close>

fun positional :: "string list \<Rightarrow> bool \<Rightarrow> string list \<Rightarrow> string list" where
  "positional flags afterDoubleDash [] = []"
| "positional flags afterDoubleDash (a # r) =
     (if afterDoubleDash then a # positional flags True r
      else if a = ''--'' then positional flags True r
      else if \<not> HasPrefix a ''-'' \<or> a = ''-'' then a # positional flags False r
      else
        (let name = takeWhile (\<lambda>c. c \<noteq> CHR ''='') a
         in if name \<in> set flags \<and> \<not> Contains a ''='' then positional flags False (drop 1 r)
            else positional flags False r))"

definition positionalArgs :: "string list \<Rightarrow> string list \<Rightarrow> string list" where
  "positionalArgs args flags = positional flags False args"

text \<open>The argument of the first \<open>--target-directory\<close>, if there is one.\<close>

fun target_flag :: "string list \<Rightarrow> string option" where
  "target_flag [] = None"
| "target_flag (a # r) =
     (if a = ''-t'' \<or> a = ''--target-directory'' then Some (case r of [] \<Rightarrow> '''' | b # _ \<Rightarrow> b)
      else if HasPrefix a ''--target-directory='' then Some (drop (length ''--target-directory='') a)
      else target_flag r)"

definition writeDestination :: "string \<Rightarrow> string list \<Rightarrow> string" where
  "writeDestination cmdName args =
     (if cmdName = ''cp'' \<or> cmdName = ''mv'' then
        (case target_flag args of
           Some t \<Rightarrow> t
         | None \<Rightarrow>
             (let ps = positionalArgs args [''-t'', ''--target-directory'', ''-S'', ''--suffix'', ''--backup'']
              in if length ps < 2 then '''' else last ps))
      else '''')"

definition writeTargets :: "string \<Rightarrow> string list \<Rightarrow> string list" where
  "writeTargets cmdName args =
     (if cmdName = ''touch'' then positionalArgs args [''-r'', ''--reference'', ''-t'', ''-d'', ''--date'']
      else if cmdName = ''mkdir'' then positionalArgs args [''-m'', ''--mode'', ''-Z'', ''--context'']
      else [])"

section \<open>Protected paths\<close>

definition systemPrefixes :: "string list" where
  "systemPrefixes = [''/etc'', ''/usr'', ''/bin'', ''/sbin'', ''/lib'', ''/boot'', ''/sys'', ''/proc'']"

definition isSystemPath :: "string \<Rightarrow> bool" where
  "isSystemPath v \<longleftrightarrow> v \<noteq> '''' \<and> list_ex (\<lambda>p. v = p \<or> HasPrefix v (p @ ''/'')) systemPrefixes"

definition hasSystemPath :: "string list \<Rightarrow> bool" where
  "hasSystemPath args \<longleftrightarrow> list_ex isSystemPath args"

fun isOutputRedirection :: "redir_op \<Rightarrow> bool" where
  "isOutputRedirection OtherOp = False"
| "isOutputRedirection _ = True"

definition redirect_hits :: "redirect option \<Rightarrow> bool" where
  "redirect_hits r \<longleftrightarrow>
     (case r of
        None \<Rightarrow> False
      | Some x \<Rightarrow> (case rd_word x of
            None \<Rightarrow> False
          | Some w \<Rightarrow> isOutputRedirection (rd_op x) \<and> isSystemPath (wordText w)))"

definition hasDangerousOutputRedirect :: "redirect option list \<Rightarrow> bool" where
  "hasDangerousOutputRedirect redirs \<longleftrightarrow> list_ex redirect_hits redirs"

text \<open>\<open>home\<close> is \<open>os.UserHomeDir()\<close>, \<open>None\<close> when it fails.\<close>

definition isDangerousRemovalTarget :: "string option \<Rightarrow> string \<Rightarrow> bool" where
  "isDangerousRemovalTarget home v \<longleftrightarrow> v = ''/'' \<or> v = ''~'' \<or> v = ''$HOME'' \<or>
     (case home of None \<Rightarrow> False | Some h \<Rightarrow> h \<noteq> '''' \<and> v = h) \<or> isSystemPath v"

definition hasRmRfRoot :: "string option \<Rightarrow> string list \<Rightarrow> bool" where
  "hasRmRfRoot home args \<longleftrightarrow>
     list_ex (\<lambda>v. v = ''-rf'' \<or> v = ''-fr'' \<or> v = ''-r'') args \<and> list_ex (isDangerousRemovalTarget home) args"

definition isGitForcePushMain :: "string list \<Rightarrow> bool" where
  "isGitForcePushMain args \<longleftrightarrow> ''push'' \<in> set args \<and> (''--force'' \<in> set args \<or> ''-f'' \<in> set args) \<and>
     (''main'' \<in> set args \<or> ''master'' \<in> set args)"

section \<open>The analysis\<close>

definition call_danger :: "string option \<Rightarrow> string \<Rightarrow> string list \<Rightarrow> string option" where
  "call_danger home cmd args =
     (if cmd = ''sudo'' then Some ''sudo invocation is not allowed''
      else if cmd = ''dd'' then Some ''dd command is not allowed''
      else if cmd = ''rm'' then
        (if hasRmRfRoot home args then Some ''rm -rf on root or home is not allowed'' else None)
      else if cmd = ''cp'' \<or> cmd = ''mv'' then
        (let target = writeDestination cmd args
         in if target \<noteq> '''' \<and> isSystemPath target
            then Some (cmd @ '' to system paths is not allowed'') else None)
      else if cmd = ''touch'' \<or> cmd = ''mkdir'' then
        (if hasSystemPath (writeTargets cmd args)
         then Some (cmd @ '' on system paths is not allowed'') else None)
      else if cmd = ''chmod'' \<or> cmd = ''chown'' then
        (if hasSystemPath args then Some (cmd @ '' on system paths is not allowed'') else None)
      else if cmd = ''git'' then
        (if isGitForcePushMain args then Some ''git push --force to main/master is not allowed'' else None)
      else None)"

fun node_danger :: "string option \<Rightarrow> shell_node \<Rightarrow> (err + string option) option" where
  "node_danger home (Stmt rs) =
     Some (Inr (if hasDangerousOutputRedirect rs
                then Some ''writing to system paths via shell redirection is not allowed'' else None))"
| "node_danger home (CallExpr ws) =
     (if ws = [] then Some (Inr None)
      else (case unwrapCommand ws of
              None \<Rightarrow> None
            | Some (Inl er) \<Rightarrow> Some (Inl er)
            | Some (Inr (cmd, args)) \<Rightarrow> Some (Inr (call_danger home cmd args))))"
| "node_danger home OtherNode = Some (Inr None)"

fun walk :: "string option \<Rightarrow> shell_node list \<Rightarrow> (err + bool \<times> string) option" where
  "walk home [] = Some (Inr (False, ''''))"
| "walk home (n # ns) =
     (case node_danger home n of
        None \<Rightarrow> None
      | Some (Inl er) \<Rightarrow> Some (Inl er)
      | Some (Inr (Some reason)) \<Rightarrow> Some (Inr (True, reason))
      | Some (Inr None) \<Rightarrow> walk home ns)"

text \<open>\<open>parse\<close> gives the visited nodes, or the text of the parser's error.\<close>

definition AnalyzeCommandSafety ::
  "(string \<Rightarrow> string + shell_node list) \<Rightarrow> string option \<Rightarrow> string \<Rightarrow> (err + bool \<times> string) option" where
  "AnalyzeCommandSafety parse home command =
     (case parse command of
        Inl er \<Rightarrow> Some (Inr (True, ''shell syntax could not be parsed: '' @ er))
      | Inr nodes \<Rightarrow> walk home nodes)"

section \<open>Unwrapping\<close>

text \<open>A call of \<open>timeout\<close> the analysis cannot get past.\<close>

definition stuck :: "string list \<Rightarrow> bool" where
  "stuck args \<longleftrightarrow> args \<noteq> [] \<and> hd args = ''timeout'' \<and> skipTimeoutArgs args = args"

lemma strip_suffix: "suffix (stripOptionalDoubleDash args) args"
  by (auto simp: stripOptionalDoubleDash_def suffix_ConsI split: list.splits)

lemma timeout_flags_suffix: "timeout_flags args = Some r \<Longrightarrow> suffix r args"
  by (induction args rule: timeout_flags.induct)
    (auto split: flag_kind.splits list.splits intro: suffix_ConsI)

lemma env_flags_suffix: "env_flags args = Some r \<Longrightarrow> suffix r args"
  by (induction args rule: env_flags.induct)
    (auto split: flag_kind.splits list.splits intro: suffix_ConsI)

text \<open>Every wrapper leaves a suffix of what follows its name, but for a \<open>timeout\<close> that is stuck.\<close>

lemma skipNice_shorter: "suffix (skipNiceArgs args) (drop 1 args)"
proof -
  have "suffix (drop (n + 1) args) (drop 1 args)" for n
    by (metis drop_drop suffix_drop)
  from this[of 0] this[of 1] this[of 2] show ?thesis
    by (simp add: skipNiceArgs_def numeral_eq_Suc)
qed

lemma skipTimeout_shorter: "skipTimeoutArgs args \<noteq> args \<Longrightarrow> suffix (skipTimeoutArgs args) (drop 1 args)"
  by (auto simp: skipTimeoutArgs_def split: option.splits list.splits if_splits
      dest!: timeout_flags_suffix intro: suffix_ConsD)

lemma stripEnv_shorter: "stripEnvArgs args = Inr r \<Longrightarrow> suffix r (drop 1 args)"
  by (auto simp: stripEnvArgs_def split: option.splits dest: env_flags_suffix)

lemma unwrapArgs_returns:
  assumes "\<And>s. suffix s args \<Longrightarrow> \<not> stuck s"
  shows "\<exists>r. unwrapArgs args = Some r"
  using assms
proof (induction "length args" arbitrary: args rule: less_induct)
  case less
  show ?case
  proof (cases args)
    case (Cons c r)
    have again: "\<exists>x. unwrapArgs b = Some x" if "suffix b r" for b
    proof (rule less.hyps)
      show "length b < length args" using that Cons suffix_length_le by fastforce
      show "\<not> stuck s" if "suffix s b" for s
        using that \<open>suffix b r\<close> less.prems[of s] Cons by (auto intro: suffix_ConsI suffix_order.trans)
    qed
    have strip: "\<exists>x. unwrapArgs (stripOptionalDoubleDash b) = Some x" if "suffix b r" for b
      by (rule again) (rule suffix_order.trans[OF strip_suffix that])
    have "suffix (skipTimeoutArgs args) r" if "c = ''timeout''"
      using less.prems[of args] that Cons skipTimeout_shorter[of args] by (auto simp: stuck_def)
    moreover have "suffix (skipNiceArgs args) r"
      using skipNice_shorter[of args] Cons by simp
    moreover have "suffix b r" if "stripEnvArgs args = Inr b" for b
      using stripEnv_shorter[OF that] Cons by simp
    ultimately show ?thesis
      using Cons strip again by (subst unwrapArgs.simps) (auto split: sum.splits)
  qed (simp add: unwrapArgs.simps)
qed

lemma unwrapArgs_stuck:
  assumes "stuck args"
  shows "unwrapArgs args = None"
proof -
  have "x \<noteq> args" if "unwrapArgs x = Some y" for x y
  proof (rule unwrapArgs.raw_induct[of "\<lambda>x _. x \<noteq> args", OF _ that])
    fix f :: "string list \<Rightarrow> (err + string \<times> string list) option" and x y
    assume IH: "\<And>x y. f x = Some y \<Longrightarrow> x \<noteq> args"
      and step: "(case x of
        [] \<Rightarrow> Some (Inr ('''', []))
      | c # r \<Rightarrow>
          if c = ''command'' \<or> c = ''time'' \<or> c = ''nohup'' then f (stripOptionalDoubleDash r)
          else if c = ''nice'' then f (stripOptionalDoubleDash (skipNiceArgs x))
          else if c = ''timeout'' then f (stripOptionalDoubleDash (skipTimeoutArgs x))
          else if c = ''env'' then
            (case stripEnvArgs x of Inl er \<Rightarrow> Some (Inl er) | Inr a \<Rightarrow> f a)
          else Some (Inr (c, r))) = Some y"
    show "x \<noteq> args"
    proof
      assume "x = args"
      moreover obtain r where "args = ''timeout'' # r" "skipTimeoutArgs args = args"
        using assms by (cases args) (auto simp: stuck_def)
      ultimately have "f args = Some y"
        using step by (simp add: stripOptionalDoubleDash_def)
      with IH show False by blast
    qed
  qed
  then show ?thesis by (cases "unwrapArgs args") auto
qed

section \<open>What a verdict says\<close>

text \<open>A node the analysis lets pass: what it asked of it, spelled out.\<close>

definition harmless_call :: "string option \<Rightarrow> string \<Rightarrow> string list \<Rightarrow> bool" where
  "harmless_call home cmd args \<longleftrightarrow>
     cmd \<noteq> ''sudo'' \<and> cmd \<noteq> ''dd'' \<and>
     (cmd = ''rm'' \<longrightarrow> (\<forall>v \<in> set args. v \<noteq> ''-rf'' \<and> v \<noteq> ''-fr'' \<and> v \<noteq> ''-r'') \<or>
        (\<forall>v \<in> set args. \<not> isDangerousRemovalTarget home v)) \<and>
     (cmd = ''cp'' \<or> cmd = ''mv'' \<longrightarrow> \<not> isSystemPath (writeDestination cmd args)) \<and>
     (cmd = ''touch'' \<or> cmd = ''mkdir'' \<longrightarrow> (\<forall>v \<in> set (writeTargets cmd args). \<not> isSystemPath v)) \<and>
     (cmd = ''chmod'' \<or> cmd = ''chown'' \<longrightarrow> (\<forall>v \<in> set args. \<not> isSystemPath v)) \<and>
     (cmd = ''git'' \<longrightarrow> \<not> isGitForcePushMain args)"

lemma isSystemPath_Nil [simp]: "\<not> isSystemPath ''''"
  by (simp add: isSystemPath_def)

lemma call_danger_None: "call_danger home cmd args = None \<longleftrightarrow> harmless_call home cmd args"
proof (cases "cmd \<in> {''sudo'', ''dd'', ''rm'', ''cp'', ''mv'', ''touch'', ''mkdir'', ''chmod'', ''chown'', ''git''}")
  case True
  have eqs: "list_ex P xs \<longleftrightarrow> (\<exists>x \<in> set xs. P x)" for P :: "string \<Rightarrow> bool" and xs
    by (simp add: list_ex_iff)
  from True show ?thesis
    unfolding insert_iff empty_iff
    by (elim disjE)
      (simp_all add: call_danger_def harmless_call_def hasRmRfRoot_def hasSystemPath_def Let_def eqs)
qed (simp add: call_danger_def harmless_call_def)

definition harmless_node :: "string option \<Rightarrow> shell_node \<Rightarrow> bool" where
  "harmless_node home n \<longleftrightarrow>
     (case n of
        Stmt rs \<Rightarrow> \<forall>r \<in> set rs. \<not> redirect_hits r
      | CallExpr ws \<Rightarrow> ws = [] \<or>
          (\<exists>cmd args. unwrapCommand ws = Some (Inr (cmd, args)) \<and> harmless_call home cmd args)
      | OtherNode \<Rightarrow> True)"

lemma node_danger_None: "node_danger home n = Some (Inr None) \<longleftrightarrow> harmless_node home n"
  by (cases n)
    (auto simp: harmless_node_def hasDangerousOutputRedirect_def list_ex_iff call_danger_None[symmetric]
      split: option.splits sum.splits prod.splits)

lemma walk_safe: "walk home ns = Some (Inr (False, r)) \<longleftrightarrow> r = '''' \<and> (\<forall>n \<in> set ns. harmless_node home n)"
  by (induction ns)
    (auto simp: node_danger_None[symmetric] split: option.splits sum.splits)

lemma walk_append:
  "(\<And>n. n \<in> set ms \<Longrightarrow> harmless_node home n) \<Longrightarrow> walk home (ms @ ns) = walk home ns"
  by (induction ms) (auto simp: node_danger_None[symmetric])

section \<open>Properties\<close>



text \<open>A command of plain words, as the parser gives it.\<close>

definition plain_call :: "string list \<Rightarrow> shell_node list" where
  "plain_call ws = [OtherNode, Stmt [], CallExpr (map (\<lambda>w. [Lit w]) ws)]"

lemma plain_words [simp]: "map wordText (map (\<lambda>w. [Lit w]) ws) = ws"
  by (induction ws) (simp_all add: wordText_def)


text \<open>
  The other way round, a \<open>timeout\<close> whose duration does not parse keeps the analysis busy for
  ever, when it is reached: the call is unwrapped to itself.
\<close>

theorem timeout_hangs:
  assumes "parse command = Inr (before @ CallExpr ws # after)"
    and "list_all (harmless_node home) before"
    and "map wordText ws = ''timeout'' # duration # rest"
    and "timeout_flag duration = NotFlag"
    and "ParseDuration duration = None" and "ParseInt duration = None"
  shows "AnalyzeCommandSafety parse home command = None"
proof -
  have "stuck (map wordText ws)"
    using assms(3-6) by (simp add: stuck_def skipTimeoutArgs_def)
  then have "node_danger home (CallExpr ws) = None"
    using assms(3) by (auto simp: unwrapCommand_def unwrapArgs_stuck)
  with assms(1,2) show ?thesis
    by (simp add: AnalyzeCommandSafety_def walk_append list_all_iff)
qed

lemma timeout_hangs_witness:
  "AnalyzeCommandSafety (\<lambda>_. Inr (plain_call [''timeout'', ''soon'', ''ls''])) None ''timeout soon ls'' = None"
proof (rule timeout_hangs)
  show "Inr (plain_call [''timeout'', ''soon'', ''ls'']) =
      Inr ([OtherNode, Stmt []] @ CallExpr (map (\<lambda>w. [Lit w]) [''timeout'', ''soon'', ''ls'']) # [])"
    by (simp add: plain_call_def)
  show "list_all (harmless_node None) [OtherNode, Stmt []]" by (simp add: harmless_node_def)
  show "map wordText (map (\<lambda>w. [Lit w]) [''timeout'', ''soon'', ''ls'']) = ''timeout'' # ''soon'' # [''ls'']"
    by (rule plain_words)
  show "timeout_flag ''soon'' = NotFlag" "ParseDuration ''soon'' = None" "ParseInt ''soon'' = None"
    by code_simp+
qed

text \<open>
  What the analysis lets pass: a recursive removal of the root with another spelling of the
  flag, a copy over a protected file after \<open>--backup\<close>, which takes no value, and a path with two
  slashes; and \<open>env -u\<close> without a name is a panic.
\<close>

theorem analysis_gaps:
  "list_all (\<lambda>ws. AnalyzeCommandSafety (\<lambda>_. Inr (plain_call ws)) None c = Some (Inr (False, '''')))
     [[''rm'', ''-Rf'', ''/''], [''rm'', ''--recursive'', ''/''], [''cp'', ''--backup'', ''x'', ''/etc/passwd''],
      [''touch'', ''//etc/passwd''], [''chmod'', ''777'', ''/./etc'']] \<and>
   AnalyzeCommandSafety (\<lambda>_. Inr (plain_call [''env'', ''-u''])) None c = Some (Inl slice_panic)"
  unfolding AnalyzeCommandSafety_def plain_call_def by code_simp

end
