(* ===== verification/Go_Path.thy ===== *)
theory Go_Path
  imports Go_Strings
begin

text \<open>
  The lexical part of Go's \<open>path/filepath\<close> on Unix: \<open>Clean\<close>, \<open>IsAbs\<close>, \<open>Join\<close>.  \<open>Clean\<close> keeps a stack of
  the components that are left, the last one first.
\<close>

section \<open>Cleaning\<close>

definition IsAbs :: "string \<Rightarrow> bool" where
  "IsAbs p = HasPrefix p ''/''"

definition clean_step :: "bool \<Rightarrow> string list \<Rightarrow> string \<Rightarrow> string list" where
  "clean_step rooted st c =
     (if c = '''' \<or> c = ''.'' then st
      else if c = ''..'' then
        (case st of
           [] \<Rightarrow> if rooted then [] else [''..'']
         | x # r \<Rightarrow> if x = ''..'' then ''..'' # st else r)
      else c # st)"

definition clean_comps :: "string \<Rightarrow> string list" where
  "clean_comps p = rev (foldl (clean_step (IsAbs p)) [] (Split (CHR ''/'') p))"

definition path_text :: "bool \<Rightarrow> string list \<Rightarrow> string" where
  "path_text rooted cs =
     (if cs = [] then (if rooted then ''/'' else ''.'')
      else (if rooted then ''/'' else '''') @ Join ''/'' cs)"

definition Clean :: "string \<Rightarrow> string" where
  "Clean p = path_text (IsAbs p) (clean_comps p)"

text \<open>\<open>filepath.Join\<close>: the empty elements are left out; no element gives the empty text.\<close>

definition path_Join :: "string list \<Rightarrow> string" where
  "path_Join es = (case filter (\<lambda>e. e \<noteq> '''') es of [] \<Rightarrow> '''' | fs \<Rightarrow> Clean (Join ''/'' fs))"

section \<open>Clean paths\<close>

text \<open>A clean list of components: nothing empty, no dot, and two dots only in front of a path that has no root.\<close>

definition comp_ok :: "string \<Rightarrow> bool" where
  "comp_ok c \<longleftrightarrow> c \<noteq> '''' \<and> c \<noteq> ''.'' \<and> CHR ''/'' \<notin> set c"

fun stack_ok :: "bool \<Rightarrow> string list \<Rightarrow> bool" where
  "stack_ok rooted [] = True"
| "stack_ok rooted (c # st) \<longleftrightarrow> comp_ok c \<and> stack_ok rooted st \<and>
     (c = ''..'' \<longrightarrow> \<not> rooted \<and> set st \<subseteq> {''..''})"

lemma Split_comps: "c \<in> set (Split x p) \<Longrightarrow> x \<notin> set c"
  by (induction x p arbitrary: c rule: Split.induct) (auto split: if_splits list.splits)

lemma Split_not_Nil [simp]: "Split x p \<noteq> []"
  by (induction x p rule: Split.induct) (auto split: list.splits)

lemma clean_step_ok: "stack_ok rooted st \<Longrightarrow> CHR ''/'' \<notin> set c \<Longrightarrow> stack_ok rooted (clean_step rooted st c)"
  by (cases st) (auto simp: clean_step_def comp_ok_def)

lemma clean_fold_ok:
  "stack_ok rooted st \<Longrightarrow> (\<And>c. c \<in> set cs \<Longrightarrow> CHR ''/'' \<notin> set c) \<Longrightarrow>
     stack_ok rooted (foldl (clean_step rooted) st cs)"
  by (induction cs arbitrary: st) (simp_all add: clean_step_ok)

lemma clean_comps_ok: "stack_ok (IsAbs p) (rev (clean_comps p))"
  by (simp add: clean_comps_def clean_fold_ok Split_comps)

lemma stack_ok_comps: "stack_ok rooted st \<Longrightarrow> c \<in> set st \<Longrightarrow> comp_ok c \<and> (rooted \<longrightarrow> c \<noteq> ''..'')"
  by (induction st) auto

text \<open>Cleaning a clean list of components changes nothing.\<close>

lemma clean_step_push:
  "stack_ok rooted (c # st) \<Longrightarrow> clean_step rooted st c = c # st"
  by (cases st) (auto simp: clean_step_def comp_ok_def)

lemma stack_ok_tail: "stack_ok rooted (xs @ ys) \<Longrightarrow> stack_ok rooted ys"
  by (induction xs) auto

lemma clean_fold_id:
  "stack_ok rooted (rev cs @ st) \<Longrightarrow> foldl (clean_step rooted) st cs = rev cs @ st"
proof (induction cs arbitrary: st)
  case (Cons c cs)
  then have "stack_ok rooted (c # st)" using stack_ok_tail[of rooted "rev cs" "c # st"] by simp
  with Cons show ?case by (simp add: clean_step_push)
qed simp

lemma Split_no_sep: "x \<notin> set c \<Longrightarrow> Split x c = [c]"
  by (induction c) auto

lemma Split_sep: "x \<notin> set c \<Longrightarrow> Split x (c @ x # s) = c # Split x s"
  by (induction c) auto

lemma Split_Join: "cs \<noteq> [] \<Longrightarrow> (\<And>c. c \<in> set cs \<Longrightarrow> x \<notin> set c) \<Longrightarrow> Split x (Join [x] cs) = cs"
proof (induction "[x]" cs rule: Join.induct)
  case (2 y)
  then show ?case by (simp add: Split_no_sep)
next
  case (3 y z ys)
  then show ?case by (simp add: Split_sep)
qed simp

lemma Join_hd: "cs \<noteq> [] \<Longrightarrow> comp_ok (hd cs) \<Longrightarrow> \<not> IsAbs (Join ''/'' cs)"
proof (cases cs rule: Join.cases[of "(''/'', cs)" for cs, simplified])
qed (auto simp: IsAbs_def HasPrefix_def comp_ok_def neq_Nil_conv)

lemma path_text_comps:
  assumes ok: "stack_ok rooted (rev cs)"
  shows "IsAbs (path_text rooted cs) = rooted" and "clean_comps (path_text rooted cs) = cs"
proof -
  have comps: "comp_ok c" if "c \<in> set cs" for c using stack_ok_comps[OF ok, of c] that by simp
  have split: "Split (CHR ''/'') (Join ''/'' cs) = cs" if "cs \<noteq> []"
    using that comps by (intro Split_Join) (auto simp: comp_ok_def)
  have not_abs: "\<not> IsAbs (Join ''/'' cs)" if "cs \<noteq> []"
    using that comps by (intro Join_hd) simp_all
  show abs: "IsAbs (path_text rooted cs) = rooted"
    using not_abs by (auto simp: path_text_def) (simp_all add: IsAbs_def HasPrefix_def)
  have id: "foldl (clean_step rooted) [] cs = rev cs"
    using clean_fold_id[of rooted cs "[]"] ok by simp
  show "clean_comps (path_text rooted cs) = cs"
  proof (cases "cs = []")
    case True
    then show ?thesis by (auto simp: clean_comps_def path_text_def clean_step_def)
  next
    case False
    with split have "foldl (clean_step rooted) [] (Split (CHR ''/'') (path_text rooted cs)) =
        foldl (clean_step rooted) [] cs"
      by (simp add: path_text_def clean_step_def)
    with id show ?thesis by (simp add: clean_comps_def abs)
  qed
qed

lemma Clean_idem: "Clean (Clean p) = Clean p"
  using path_text_comps[OF clean_comps_ok[of p]] by (simp add: Clean_def)

end
