(* ===== verification/Agentic_Policy.thy ===== *)
theory Agentic_Policy
  imports Store_Records Bash_Safety Go_Path
begin

text \<open>
  \<open>internal/agentic/policy/policy.go\<close>: what the control plane decides of a tool call before it
  runs.  \<open>safety\<close> is \<open>AnalyzeCommandSafety\<close>, which may panic (\<open>Inl\<close>) or not return (\<open>None\<close>), so
  \<open>Evaluate\<close> may too.
\<close>

definition policy_Version :: string where "policy_Version = ''agentic-policy-v1''"

record policy_request =
  pq_task_id :: int
  pq_actor_id :: int
  pq_action_kind :: string
  pq_tool_name :: string
  pq_input :: string

record policy_result =
  pr_task_id :: int
  pr_actor_id :: int
  pr_action_kind :: string
  pr_tool_name :: string
  pr_risk_level :: string
  pr_decision :: string
  pr_reason :: string
  pr_policy_version :: string

type_synonym safety = "string \<Rightarrow> (err + bool \<times> string) option"

section \<open>Tools\<close>

definition isReadOnlyTool :: "string \<Rightarrow> bool" where
  "isReadOnlyTool name \<longleftrightarrow> name \<in> set
     [''read_file'', ''glob'', ''grep'', ''web_fetch'', ''web_search'', ''wiki_search'', ''wiki_read'',
      ''conversation_search'', ''cross_project_search'', ''cross_project_conversation_search'']"

record bash_input =
  bi_command :: string
  bi_cmd :: string

definition set_bash_field :: "string \<Rightarrow> json \<Rightarrow> bash_input \<Rightarrow> bash_input \<times> bool" where
  "set_bash_field k v b =
     (if k = ''command'' then (case dec_string v (bi_command b) of (x, ok) \<Rightarrow> (b\<lparr>bi_command := x\<rparr>, ok))
      else if k = ''cmd'' then (case dec_string v (bi_cmd b) of (x, ok) \<Rightarrow> (b\<lparr>bi_cmd := x\<rparr>, ok))
      else (b, True))"

definition analyzeBashInput :: "safety \<Rightarrow> string \<Rightarrow> (err + bool \<times> string) option" where
  "analyzeBashInput safety input =
     (case unmarshal_struct set_bash_field \<lparr>bi_command = '''', bi_cmd = ''''\<rparr> input of
        (p, ok) \<Rightarrow>
          if \<not> ok then Some (Inr (False, ''''))
          else
            (let command = (if bi_command p = '''' then bi_cmd p else bi_command p)
             in if TrimSpace command = '''' then Some (Inr (False, '''')) else safety command))"

section \<open>Git\<close>

record git_params =
  gp_subcommand :: string
  gp_args :: "string list"

definition set_git_field :: "string \<Rightarrow> json \<Rightarrow> git_params \<Rightarrow> git_params \<times> bool" where
  "set_git_field k v g =
     (if k = ''subcommand'' then (case dec_string v (gp_subcommand g) of (x, ok) \<Rightarrow> (g\<lparr>gp_subcommand := x\<rparr>, ok))
      else if k = ''args'' then (case dec_strings v (gp_args g) of (x, ok) \<Rightarrow> (g\<lparr>gp_args := x\<rparr>, ok))
      else (g, True))"

definition normalizeToken :: "string \<Rightarrow> string" where
  "normalizeToken v = ToLower (TrimSpace v)"

definition parseGitParams :: "string \<Rightarrow> git_params" where
  "parseGitParams input =
     (let p = fst (unmarshal_struct set_git_field \<lparr>gp_subcommand = '''', gp_args = []\<rparr> input)
      in \<lparr>gp_subcommand = normalizeToken (gp_subcommand p), gp_args = map normalizeToken (gp_args p)\<rparr>)"

definition isReadOnlyGitSubcommand :: "string \<Rightarrow> bool" where
  "isReadOnlyGitSubcommand s \<longleftrightarrow> s \<in> set [''status'', ''diff'', ''log'']"

definition hasAnyArg :: "string list \<Rightarrow> string list \<Rightarrow> bool" where
  "hasAnyArg args needles \<longleftrightarrow> list_ex (\<lambda>a. a \<in> set needles) args"

definition isDangerousGitParams :: "git_params \<Rightarrow> bool" where
  "isDangerousGitParams p \<longleftrightarrow>
     (if gp_subcommand p = ''push'' then hasAnyArg (gp_args p) [''--force'', ''-f'', ''--mirror'']
      else if gp_subcommand p = ''reset'' \<or> gp_subcommand p = ''clean'' then True
      else if gp_subcommand p = ''branch'' then hasAnyArg (gp_args p) [''-d'', ''-D'', ''--delete'']
      else False)"

definition isDangerousGitInput :: "string \<Rightarrow> bool" where
  "isDangerousGitInput input = isDangerousGitParams (parseGitParams input)"

text \<open>Risk, decision and reason.\<close>

type_synonym verdict = "string \<times> string \<times> string"

definition classifyGit :: "string \<Rightarrow> string \<Rightarrow> verdict option" where
  "classifyGit toolName input =
     (if toolName \<noteq> ''git'' then None
      else
        (let p = parseGitParams input
         in if isReadOnlyGitSubcommand (gp_subcommand p)
            then Some (RiskLevelLow, PolicyDecisionAutoAllowed, ''read-only git action may proceed under policy'')
            else if isDangerousGitParams p
            then Some (RiskLevelCritical, PolicyDecisionHardlineDenied, ''hardline git action is denied by policy'')
            else Some (RiskLevelMedium, PolicyDecisionApprovalRequired,
                   ''mutating git action requires approval before enforcement exists'')))"

section \<open>System paths\<close>

definition policy_system_roots :: "string list" where
  "policy_system_roots = [''/bin'', ''/boot'', ''/dev'', ''/etc'', ''/lib'', ''/opt'', ''/private/etc'',
     ''/root'', ''/sbin'', ''/System'', ''/usr'', ''/var'']"

definition policy_isSystemPath :: "string \<Rightarrow> bool" where
  "policy_isSystemPath path \<longleftrightarrow>
     (let cleaned = Clean (TrimSpace path)
      in cleaned \<in> set policy_system_roots \<or> list_ex (\<lambda>r. HasPrefix cleaned (r @ ''/'')) policy_system_roots)"

text \<open>
  \<open>json.Unmarshal\<close> into \<open>map[string]any\<close> turns every number into a float64 and fails when one is out
  of its range; \<open>float_in_range\<close> compares the decimal number with the largest finite one, rounded.
\<close>

definition float_in_range :: "string \<Rightarrow> bool" where
  "float_in_range t =
     (let s = (if t \<noteq> [] \<and> hd t = CHR ''-'' then tl t else t);
          ints = takeWhile is_dig s;
          s1 = dropWhile is_dig s;
          dot = (s1 \<noteq> [] \<and> hd s1 = CHR ''.'');
          fracs = (if dot then takeWhile is_dig (tl s1) else []);
          s2 = (if dot then dropWhile is_dig (tl s1) else s1);
          ex = (case s2 of [] \<Rightarrow> 0 | _ # e \<Rightarrow>
                  (let neg = (e \<noteq> [] \<and> hd e = CHR ''-'');
                       ds = filter is_dig e;
                       n = int (foldl (\<lambda>a c. 10 * a + digit_of c) 0 ds)
                   in if neg then - n else n));
          m = foldl (\<lambda>a c. 10 * a + digit_of c) (0 :: nat) (ints @ fracs);
          e = ex - int (length fracs);
          limit = (2 ^ 1024 - 2 ^ 970 :: nat)
      in m = 0 \<or> (if e \<ge> 0 then m * 10 ^ nat e < limit else m < limit * 10 ^ nat (- e)))"

fun floats_ok :: "json \<Rightarrow> bool" where
  "floats_ok (JNum t) = float_in_range t"
| "floats_ok (JArr js) = list_all floats_ok js"
| "floats_ok (JObj kvs) = list_all (\<lambda>(k, v). floats_ok v) kvs"
| "floats_ok _ = True"

definition unmarshal_map :: "string \<Rightarrow> (string \<times> json) list option" where
  "unmarshal_map input =
     (case json_parse input of
        Some (JObj kvs) \<Rightarrow> if floats_ok (JObj kvs) then Some (rev kvs) else None
      | Some JNull \<Rightarrow> Some []
      | _ \<Rightarrow> None)"

definition hasSystemPathInput :: "string \<Rightarrow> bool" where
  "hasSystemPathInput input \<longleftrightarrow>
     (case unmarshal_map input of
        None \<Rightarrow> False
      | Some m \<Rightarrow> list_ex (\<lambda>k. case map_of m k of Some (JStr v) \<Rightarrow> policy_isSystemPath v | _ \<Rightarrow> False)
                    [''file_path'', ''path'', ''target''])"

section \<open>Evaluation\<close>

definition writes_files :: "string \<Rightarrow> bool" where
  "writes_files toolName \<longleftrightarrow> toolName \<in> set [''write_file'', ''edit_file'', ''wiki_write'']"

definition isDangerousToolCall :: "safety \<Rightarrow> string \<Rightarrow> string \<Rightarrow> (err + bool) option" where
  "isDangerousToolCall safety toolName input =
     (if toolName = ''bash'' then map_option (map_sum (\<lambda>er. er) fst) (analyzeBashInput safety input)
      else if toolName = ''git'' then Some (Inr (isDangerousGitInput input))
      else if writes_files toolName then Some (Inr (hasSystemPathInput input))
      else Some (Inr False))"

definition dangerousReason :: "safety \<Rightarrow> string \<Rightarrow> string \<Rightarrow> string" where
  "dangerousReason safety toolName input =
     (if toolName = ''bash'' then
        (case analyzeBashInput safety input of
           Some (Inr (True, reason)) \<Rightarrow>
             if reason \<noteq> '''' then reason else ''shell command is denied by policy''
         | _ \<Rightarrow> ''shell command is denied by policy'')
      else if toolName = ''git'' then ''hardline git action is denied by policy''
      else if writes_files toolName then ''filesystem write to system path is denied by policy''
      else ''action is denied by policy'')"

definition safe_verdict_of :: "string \<Rightarrow> string \<Rightarrow> string \<Rightarrow> verdict" where
  "safe_verdict_of actionKind toolName input =
     (if actionKind = ''observe_only'' \<and> toolName = ''''
      then (RiskLevelLow, PolicyDecisionObserveOnly,
            ''observe-only action is recorded without execution authority'')
      else
        (case classifyGit toolName input of
           Some v \<Rightarrow> v
         | None \<Rightarrow>
             if actionKind = ''observe'' \<or> isReadOnlyTool toolName
             then (RiskLevelLow, PolicyDecisionAutoAllowed, ''read-only or observe action may proceed under policy'')
             else if toolName = ''bash''
             then (RiskLevelHigh, PolicyDecisionApprovalRequired,
                   ''shell command requires approval before enforcement exists'')
             else (RiskLevelMedium, PolicyDecisionApprovalRequired,
                   ''mutating or unknown action requires approval before enforcement exists'')))"

definition policy_result_of :: "policy_request \<Rightarrow> verdict \<Rightarrow> policy_result" where
  "policy_result_of req v =
     (case v of (risk, decision, reason) \<Rightarrow>
        \<lparr>pr_task_id = pq_task_id req, pr_actor_id = pq_actor_id req,
         pr_action_kind = TrimSpace (pq_action_kind req), pr_tool_name = TrimSpace (pq_tool_name req),
         pr_risk_level = risk, pr_decision = decision, pr_reason = reason,
         pr_policy_version = policy_Version\<rparr>)"

definition Evaluate :: "safety \<Rightarrow> policy_request \<Rightarrow> (err + policy_result) option" where
  "Evaluate safety req =
     (let actionKind = TrimSpace (pq_action_kind req);
          toolName = TrimSpace (pq_tool_name req);
          input = pq_input req
      in case isDangerousToolCall safety toolName input of
           None \<Rightarrow> None
         | Some (Inl er) \<Rightarrow> Some (Inl er)
         | Some (Inr True) \<Rightarrow> Some (Inr (policy_result_of req
             (RiskLevelCritical, PolicyDecisionHardlineDenied, dangerousReason safety toolName input)))
         | Some (Inr False) \<Rightarrow> Some (Inr (policy_result_of req
             (safe_verdict_of actionKind toolName input))))"

definition decision_record :: "policy_result \<Rightarrow> policy_decision" where
  "decision_record r =
     \<lparr>pd_id = 0, pd_task_id = pr_task_id r, pd_actor_id = nullableInt (pr_actor_id r),
      pd_action_kind = pr_action_kind r, pd_tool_name = pr_tool_name r,
      pd_risk_level = pr_risk_level r, pd_decision = pr_decision r, pd_reason = pr_reason r,
      pd_policy_version = pr_policy_version r, pd_created_at = zero_time\<rparr>"

text \<open>\<open>None\<close>: the evaluation does not return.\<close>

definition EvaluateAndRecord :: "safety \<Rightarrow> policy_request \<Rightarrow> (db, policy_decision option) act" where
  "EvaluateAndRecord safety req =
     (if pq_task_id req = 0 then fail (EMsg ''policy: task_id is required'')
      else (case Evaluate safety req of
              None \<Rightarrow> ret None
            | Some (Inl er) \<Rightarrow> fail er
            | Some (Inr r) \<Rightarrow> bind (CreatePolicyDecision (decision_record r)) (\<lambda>d. ret (Some d))))"

section \<open>Properties\<close>

lemma Evaluate_cases:
  assumes "Evaluate safety req = Some (Inr r)"
  obtains (dangerous) "isDangerousToolCall safety (TrimSpace (pq_tool_name req)) (pq_input req) = Some (Inr True)"
      and "r = policy_result_of req (RiskLevelCritical, PolicyDecisionHardlineDenied,
             dangerousReason safety (TrimSpace (pq_tool_name req)) (pq_input req))"
  | (judged) "isDangerousToolCall safety (TrimSpace (pq_tool_name req)) (pq_input req) = Some (Inr False)"
      and "r = policy_result_of req (safe_verdict_of (TrimSpace (pq_action_kind req))
             (TrimSpace (pq_tool_name req)) (pq_input req))"
  using assms by (auto simp: Evaluate_def Let_def split: option.splits sum.splits bool.splits)

lemma policy_result_simps [simp]:
  "pr_decision (policy_result_of req (a, b, c)) = b" "pr_risk_level (policy_result_of req (a, b, c)) = a"
  "pr_tool_name (policy_result_of req v) = TrimSpace (pq_tool_name req)"
  "pr_task_id (policy_result_of req v) = pq_task_id req"
  "pr_actor_id (policy_result_of req v) = pq_actor_id req"
  by (simp_all add: policy_result_of_def split: prod.split)

lemmas verdict_defs = safe_verdict_of_def classifyGit_def Let_def

text \<open>
  C16: a call is allowed on its own only when the hard checks pass and its tool is read-only, or it
  is a git call with a read-only subcommand, or it is no git call and declares its action to be an
  observation.
\<close>

theorem auto_allowed_only:
  assumes "Evaluate safety req = Some (Inr r)" and "pr_decision r = PolicyDecisionAutoAllowed"
  shows "let tool = TrimSpace (pq_tool_name req); input = pq_input req in
    isDangerousToolCall safety tool input = Some (Inr False) \<and>
    (if tool = ''git'' then isReadOnlyGitSubcommand (gp_subcommand (parseGitParams input))
     else isReadOnlyTool tool \<or> TrimSpace (pq_action_kind req) = ''observe'')"
  using assms(1)
proof (cases rule: Evaluate_cases)
  case judged
  with assms(2) show ?thesis
    by (auto simp: verdict_defs split: if_splits)
qed (use assms(2) in simp)

definition no_shell :: safety where
  "no_shell c = Some (Inr (False, ''''))"

lemma auto_allowed_only_witness:
  "\<exists>r. Evaluate no_shell \<lparr>pq_task_id = 1, pq_actor_id = 0, pq_action_kind = '''', pq_tool_name = '' grep'',
       pq_input = ''{}''\<rparr> = Some (Inr r) \<and> isReadOnlyTool ''grep''"
proof -
  let ?q = "\<lparr>pq_task_id = 1, pq_actor_id = 0, pq_action_kind = '''', pq_tool_name = '' grep'', pq_input = ''{}''\<rparr>"
  have trim: "TrimSpace '' grep'' = ''grep''" by code_simp
  obtain r where r: "Evaluate no_shell ?q = Some (Inr r)" "pr_decision r = PolicyDecisionAutoAllowed"
    by (simp add: Evaluate_def trim isDangerousToolCall_def writes_files_def verdict_defs isReadOnlyTool_def)
  from auto_allowed_only[OF this] have "isReadOnlyTool ''grep''" by (simp add: trim Let_def)
  with r show ?thesis by blast
qed

text \<open>
  Whatever the declared action, a file tool that is given a path whose clean form is a system
  directory or lies below one is denied.
\<close>

theorem system_write_denied:
  assumes "writes_files (TrimSpace (pq_tool_name req))"
    and "unmarshal_map (pq_input req) = Some m"
    and "key = ''file_path'' \<or> key = ''path'' \<or> key = ''target''"
    and "map_of m key = Some (JStr p)"
    and "root \<in> set policy_system_roots"
    and "Clean (TrimSpace p) = root \<or> Clean (TrimSpace p) = root @ ''/'' @ rest"
  shows "\<exists>r. Evaluate safety req = Some (Inr r) \<and> pr_decision r = PolicyDecisionHardlineDenied"
proof -
  let ?tool = "TrimSpace (pq_tool_name req)"
  have path: "policy_isSystemPath p"
    using assms(6)
  proof
    assume "Clean (TrimSpace p) = root @ ''/'' @ rest"
    then have "HasPrefix (Clean (TrimSpace p)) (root @ ''/'')" by (simp add: HasPrefix_def)
    with assms(5) show ?thesis unfolding policy_isSystemPath_def Let_def list_ex_iff by blast
  qed (use assms(5) in \<open>simp add: policy_isSystemPath_def\<close>)
  then have "hasSystemPathInput (pq_input req)"
    using assms(2-4) by (auto simp: hasSystemPathInput_def)
  moreover have "?tool \<noteq> ''bash''" "?tool \<noteq> ''git''"
    using assms(1) by (auto simp: writes_files_def)
  ultimately have "isDangerousToolCall safety ?tool (pq_input req) = Some (Inr True)"
    using assms(1) by (simp add: isDangerousToolCall_def)
  then show ?thesis by (simp add: Evaluate_def Let_def)
qed

definition etc_input :: string where
  "etc_input = print_json (JObj [(''path'', JStr ''/tmp/../etc/./hosts'')])"

lemma etc_input_map: "unmarshal_map etc_input = Some [(''path'', JStr ''/tmp/../etc/./hosts'')]"
  unfolding etc_input_def unmarshal_map_def by (subst json_parse_print) simp_all

lemma system_write_denied_witness:
  "\<exists>r. Evaluate no_shell \<lparr>pq_task_id = 1, pq_actor_id = 0, pq_action_kind = ''observe'',
       pq_tool_name = ''write_file'', pq_input = etc_input\<rparr> = Some (Inr r) \<and>
     pr_decision r = PolicyDecisionHardlineDenied"
  by (rule system_write_denied[where key = "''path''" and p = "''/tmp/../etc/./hosts''" and root = "''/etc''"
        and rest = "''hosts''" and m = "[(''path'', JStr ''/tmp/../etc/./hosts'')]"])
    (simp_all only: policy_request.select_convs etc_input_map, code_simp+)



text \<open>
  The comment in \<open>Evaluate\<close> that callers cannot downgrade the risk of a call holds for
  \<open>observe_only\<close> and not for \<open>observe\<close>: any tool but git, that the hard checks let pass, is allowed on
  its own when its action is declared an observation.
\<close>

theorem observe_downgrades:
  assumes "TrimSpace (pq_action_kind req) = ''observe''" and "TrimSpace (pq_tool_name req) \<noteq> ''git''"
    and "isDangerousToolCall safety (TrimSpace (pq_tool_name req)) (pq_input req) = Some (Inr False)"
  shows "\<exists>r. Evaluate safety req = Some (Inr r) \<and> pr_decision r = PolicyDecisionAutoAllowed \<and>
    pr_risk_level r = RiskLevelLow"
  using assms by (simp add: Evaluate_def Let_def verdict_defs)

definition rm_input :: string where
  "rm_input = print_json (JObj [(''command'', JStr ''rm -Rf ~'')])"

lemma observe_downgrades_witness:
  "\<exists>r. Evaluate no_shell \<lparr>pq_task_id = 1, pq_actor_id = 0, pq_action_kind = ''observe'',
       pq_tool_name = ''bash'', pq_input = rm_input\<rparr> = Some (Inr r) \<and>
     pr_decision r = PolicyDecisionAutoAllowed \<and> pr_risk_level r = RiskLevelLow"
  by (rule observe_downgrades) (simp_all only: policy_request.select_convs, code_simp+)

text \<open>
  The check of the paths gives up on a number that no float64 holds, so such a member lets a
  write to a protected path pass it.
\<close>

theorem float_hides_path:
  "let input = print_json (JObj [(''file_path'', JStr ''/etc/hosts''), (''n'', JNum ''1e400'')])
   in json_parse input = Some (JObj [(''file_path'', JStr ''/etc/hosts''), (''n'', JNum ''1e400'')]) \<and>
      \<not> hasSystemPathInput input \<and> hasSystemPathInput (print_json (JObj [(''file_path'', JStr ''/etc/hosts'')]))"
proof -
  let ?a = "JObj [(''file_path'', JStr ''/etc/hosts''), (''n'', JNum ''1e400'')]"
  let ?b = "JObj [(''file_path'', JStr ''/etc/hosts'')]"
  have parse: "json_parse (print_json ?a) = Some ?a" "json_parse (print_json ?b) = Some ?b" by code_simp+
  have big: "\<not> float_in_range ''1e400''"
    by (simp add: float_in_range_def is_dig_def digit_of_def digit_val_def)
  have sys: "policy_isSystemPath ''/etc/hosts''" by code_simp
  have "\<not> hasSystemPathInput (print_json ?a)" "hasSystemPathInput (print_json ?b)"
    unfolding hasSystemPathInput_def unmarshal_map_def parse using big sys by simp_all
  with parse(1) show ?thesis by (simp only: Let_def) blast
qed

end
