(* ===== verification/Approvals_Bridge.thy ===== *)
theory Approvals_Bridge
  imports Store_Records
begin

text \<open>
  \<open>internal/agentic/approvals/bridge.go\<close>: an approval request for a policy decision, one pending
  request for a decision, linked to its task in the same transaction.  The bridge is configured; the
  texts that wrap the errors of \<open>BeginTx\<close> and \<open>Commit\<close> are left out.
\<close>

record bridge_request =
  br_task_id :: int
  br_actor_id :: int
  br_policy_decision_id :: int
  br_tool_name :: string
  br_input :: string

definition isPendingApprovalUniqueConflict :: "err \<Rightarrow> bool" where
  "isPendingApprovalUniqueConflict er \<longleftrightarrow>
     Contains (err_text er) ''approval_requests_policy_decision_pending'' \<or>
     Contains (err_text er) ''UNIQUE constraint failed: approval_requests.policy_decision_id''"

definition bridge_create_request :: "bridge_request \<Rightarrow> policy_decision \<Rightarrow> approval_create_request" where
  "bridge_create_request req d =
     \<lparr>ac_tool_name = (if br_tool_name req = '''' then pd_tool_name d else br_tool_name req),
      ac_input = br_input req, ac_task_id = br_task_id req, ac_policy_decision_id = pd_id d,
      ac_actor_id = (if br_actor_id req = 0 then intFromNull (pd_actor_id d) else br_actor_id req),
      ac_action_kind = pd_action_kind d, ac_risk_level = pd_risk_level d, ac_reason = pd_reason d,
      ac_policy_version = pd_policy_version d, ac_expires_at = None\<rparr>"

text \<open>The transaction; \<open>Inl\<close> is the error of \<open>CreateWithContextTx\<close>, which the caller looks at.\<close>

definition approval_tx :: "bridge_request \<Rightarrow> policy_decision \<Rightarrow> (db, err + approval_request) act" where
  "approval_tx req d =
     bind (attempt (GetPendingByPolicyDecision (pd_id d))) (\<lambda>r.
     case r of
       Inr existing \<Rightarrow>
         bind (wrap_act ''approvals: link existing approval to task''
                 (SetAgenticTaskApprovalRequestID (br_task_id req) (itoa (ap_id existing)))) (\<lambda>_.
         ret (Inr existing))
     | Inl er \<Rightarrow>
         if er \<noteq> ErrNoRows then fail (EWrap ''approvals: find pending policy approval'' er)
         else
           bind (attempt (CreateWithContext (bridge_create_request req d))) (\<lambda>c.
           case c of
             Inl er2 \<Rightarrow> ret (Inl er2)
           | Inr approval \<Rightarrow>
               bind (wrap_act ''approvals: link approval to task''
                       (SetAgenticTaskApprovalRequestID (br_task_id req) (itoa (ap_id approval)))) (\<lambda>_.
               ret (Inr approval))))"

text \<open>\<open>createApproval\<close> calls itself once, with \<open>retryUnique\<close> off.\<close>

definition approval_attempt ::
  "(db, approval_request) act option \<Rightarrow> bridge_request \<Rightarrow> (db, approval_request) act" where
  "approval_attempt again req =
     (if br_task_id req = 0 then fail (EMsg ''approvals: task_id is required'')
      else if br_policy_decision_id req = 0 then fail (EMsg ''approvals: policy_decision_id is required'')
      else
        bind (wrap_act ''approvals: load policy decision'' (GetPolicyDecision (br_policy_decision_id req))) (\<lambda>d.
        if pd_task_id d \<noteq> br_task_id req
        then fail (EMsg (''approvals: policy decision task_id '' @ itoa (pd_task_id d) @
               '' does not match request task_id '' @ itoa (br_task_id req)))
        else if pd_decision d \<noteq> PolicyDecisionApprovalRequired
        then fail (EMsg (''approvals: policy decision '' @ itoa (pd_id d) @ '' is '' @ quoted (pd_decision d) @
               '', want '' @ quoted PolicyDecisionApprovalRequired))
        else
          bind (transaction_try (approval_tx req d)) (\<lambda>r.
          case r of
            Inr approval \<Rightarrow> ret approval
          | Inl er \<Rightarrow>
              (case again of
                 Some m \<Rightarrow> if isPendingApprovalUniqueConflict er then m else fail er
               | None \<Rightarrow> fail er))))"

definition createApproval :: "bool \<Rightarrow> bridge_request \<Rightarrow> (db, approval_request) act" where
  "createApproval retryUnique req =
     approval_attempt (if retryUnique then Some (approval_attempt None req) else None) req"

definition CreateApproval :: "bridge_request \<Rightarrow> (db, approval_request) act" where
  "CreateApproval req = createApproval True req"

definition WaitApproval :: "nat \<Rightarrow> int \<Rightarrow> (db, bool option) act" where
  "WaitApproval fuel i = Wait fuel i"

section \<open>What it keeps\<close>

lemma preserves_other_table:
  assumes "\<And>t s. I (put t s) = I s"
  shows "preserves I (on_table get put f)"
  by (rule preserves_on_table) (simp add: assms)

lemma SetTaskApproval_keeps_approvals [inv_intros]:
  "preserves (approvals_from t0) (SetAgenticTaskApprovalRequestID i aid)"
  unfolding SetAgenticTaskApprovalRequestID_def GetAgenticTask_def
  by (intro inv_intros preserves_other_table) (simp add: approvals_from_def)

lemma GetPending_preserves [inv_intros]: "preserves I (GetPendingByPolicyDecision i)"
  and GetPolicyDecision_preserves [inv_intros]: "preserves I (GetPolicyDecision i)"
  unfolding GetPendingByPolicyDecision_def GetPolicyDecision_def by (intro inv_intros)+

lemma approval_attempt_preserves:
  "(\<And>m. again = Some m \<Longrightarrow> preserves (approvals_from t0) m) \<Longrightarrow>
     preserves (approvals_from t0) (approval_attempt again req)"
  unfolding approval_attempt_def approval_tx_def
  by (intro inv_intros) auto

lemma CreateApproval_preserves [inv_intros]: "preserves (approvals_from t0) (CreateApproval req)"
  unfolding CreateApproval_def createApproval_def
  by (auto intro!: approval_attempt_preserves)

section \<open>What it returns\<close>

text \<open>The request is pending for its decision, and its task names it.\<close>

definition linked_pending :: "bridge_request \<Rightarrow> approval_request \<Rightarrow> db \<Rightarrow> bool" where
  "linked_pending req a s \<longleftrightarrow>
     (\<exists>b. tbl_get ap_id (ap_id a) (db_approvals s) = Some b \<and> ap_decision b = ApprovalPending \<and>
        ap_policy_decision_id b = Some (br_policy_decision_id req)) \<and>
     (\<exists>k. tbl_get at_id (br_task_id req) (db_tasks s) = Some k \<and> at_approval_request_id k = itoa (ap_id a))"

definition pending_for :: "int \<Rightarrow> approval_request \<Rightarrow> db \<Rightarrow> bool" where
  "pending_for pid a s \<longleftrightarrow> (\<exists>b. tbl_get ap_id (ap_id a) (db_approvals s) = Some b \<and>
     ap_decision b = ApprovalPending \<and> ap_policy_decision_id b = Some pid)"

lemma pending_found:
  "triple (quiet w) (\<lambda>s. approvals_inv (db_approvals s)) (GetPendingByPolicyDecision pid)
     (\<lambda>a. pending_for pid a) (\<lambda>_ _. True)"
  unfolding GetPendingByPolicyDecision_def
proof (cases "pid = 0")
  case False
  have "pending_for pid (scanApprovalRequest r) s"
    if "approvals_inv (db_approvals s)" and "first_row (order_by ap_id (tbl_select
      (\<lambda>r. ap_policy_decision_id r = Some pid \<and> ap_decision r = ApprovalPending) (db_approvals s))) = Some r"
    for s r
  proof -
    have r: "r \<in> set (tbl_rows (db_approvals s))" "ap_policy_decision_id r = Some pid" "ap_decision r = ApprovalPending"
      using first_order_in[OF that(2)] by auto
    with keys_ok_get[of ap_id "db_approvals s" r] that(1) show ?thesis
      by (simp add: pending_for_def scanApprovalRequest_def approvals_inv_def)
  qed
  then show "triple (quiet w) (\<lambda>s. approvals_inv (db_approvals s))
      (if pid = 0 then fail ErrNoRows
       else query (\<lambda>s. map_sum (\<lambda>er. er) scanApprovalRequest (one_row (order_by ap_id (tbl_select
             (\<lambda>r. ap_policy_decision_id r = Some pid \<and> ap_decision r = ApprovalPending) (db_approvals s))))))
      (\<lambda>a. pending_for pid a) (\<lambda>_ _. True)"
    using False by (auto simp: one_row_def split: option.splits intro!: triple_query)
qed (simp add: triple_fail)

lemma approval_created:
  assumes "ac_policy_decision_id req = pid" and "pid \<noteq> 0"
  shows "triple (quiet w) (\<lambda>s. approvals_inv (db_approvals s)) (CreateWithContext req)
     (\<lambda>a. pending_for pid a) (\<lambda>_ _. True)"
proof -
  let ?new = "\<lambda>i s. \<exists>b. tbl_get ap_id i (db_approvals s) = Some b \<and>
    ap_decision b = ApprovalPending \<and> ap_policy_decision_id b = Some pid"
  have ins: "?new i (s\<lparr>db_approvals := t\<rparr>)"
    if "approvals_inv (db_approvals s)"
      and "try_insert check_approval (mk_approval (req, now)) (db_approvals s) = Inr (i, t)" for i s t now
  proof -
    have t: "i = tbl_next (db_approvals s)" "t = tbl_insert (mk_approval (req, now)) (db_approvals s)"
      using that(2) by (auto simp: try_insert_Inr)
    have "tbl_get ap_id i t = Some (mk_approval (req, now) i)"
      unfolding t by (rule approval_table.get_inserted) (use that(1) in \<open>simp add: approvals_inv_def\<close>)
    with assms show ?thesis by (simp add: mk_approval_def nullableInt_def)
  qed
  have exec: "triple (quiet w) (\<lambda>s. approvals_inv (db_approvals s))
      (wrap_act x (exec_approvals (try_insert check_approval (mk_approval (req, now))))) ?new (\<lambda>_ _. True)" for x now
    unfolding exec_approvals_def
    by (intro triple_wrap triple_exec stable_quiet) (auto split: sum.splits intro: ins)
  have get: "triple (quiet w) (?new i) (approval_get i) (\<lambda>a. pending_for pid a) (\<lambda>_ _. True)" for i
    unfolding approval_get_def
    by (intro triple_wrap triple_query stable_quiet)
      (auto simp: get_row_def pending_for_def scanApprovalRequest_def split: option.splits,
        metis tbl_get_SomeD)
  show ?thesis unfolding CreateWithContext_def
    by (rule triple_bind[OF triple_now[of _ "\<lambda>_ s. approvals_inv (db_approvals s)"]], assumption)
      (rule triple_bind[OF exec get])
qed

lemma task_linked:
  "triple (quiet w) (pending_for (br_policy_decision_id req) a)
     (SetAgenticTaskApprovalRequestID (br_task_id req) (itoa (ap_id a)))
     (\<lambda>_. linked_pending req a) (\<lambda>_ _. True)"
proof -
  let ?P = "pending_for (br_policy_decision_id req) a"
  let ?tid = "br_task_id req"
  let ?f = "\<lambda>now x. touch_task now (x\<lparr>at_approval_request_id := itoa (ap_id a)\<rparr>)"
  let ?M = "\<lambda>s. \<forall>k. tbl_get at_id ?tid (db_tasks s) = Some k \<longrightarrow> at_approval_request_id k = itoa (ap_id a)"
  have fid: "at_id (?f now x) = at_id x" "at_approval_request_id (?f now x) = itoa (ap_id a)" for now x
    by (simp_all add: touch_task_def)
  have get_upd: "tbl_get at_id ?tid (tbl_update P (?f now) t) =
      map_option (\<lambda>x. if P x then ?f now x else x) (tbl_get at_id ?tid t)" for P now t
    by (rule tbl_get_update) (rule fid(1))
  have upd: "triple (quiet w) ?P (exec_tasks (\<lambda>s. plain_update (\<lambda>x. at_id x = ?tid) (?f now)))
      (\<lambda>_ s. ?P s \<and> ?M s) (\<lambda>_ _. True)" for now
    by (intro triple_on_table stable_quiet)
      (auto simp: pending_for_def get_upd fid(2) dest: tbl_get_SomeD, metis fid(2))
  have get: "triple (quiet w) (\<lambda>s. ?P s \<and> ?M s) (if n = (0 :: nat) then fail ErrNoRows else GetAgenticTask ?tid)
      (\<lambda>_. linked_pending req a) (\<lambda>_ _. True)" for n
    unfolding GetAgenticTask_def
    by (cases "n = 0")
      (auto simp: linked_pending_def pending_for_def get_row_def split: option.splits
        intro!: triple_fail triple_query)
  show ?thesis unfolding SetAgenticTaskApprovalRequestID_def
    by (rule triple_bind[OF triple_now[of _ "\<lambda>_. ?P"]], assumption) (rule triple_bind[OF upd get])
qed

lemma approval_tx_links:
  assumes "pd_id d = br_policy_decision_id req" and "pd_id d \<noteq> 0"
  shows "triple (quiet w) (\<lambda>s. approvals_inv (db_approvals s)) (approval_tx req d)
    (\<lambda>r s. case r of Inl e \<Rightarrow> True | Inr a \<Rightarrow> linked_pending req a s) (\<lambda>_ _. True)"
proof -
  let ?I = "\<lambda>s. approvals_inv (db_approvals s)" and ?pid = "br_policy_decision_id req"
  let ?R = "\<lambda>r s. case r of Inl e \<Rightarrow> True | Inr a \<Rightarrow> linked_pending req a s"
  have found: "triple (quiet w) ?I (attempt (GetPendingByPolicyDecision (pd_id d)))
      (\<lambda>r s. case r of Inl er \<Rightarrow> ?I s | Inr a \<Rightarrow> pending_for ?pid a s) (\<lambda>_ _. True)"
    unfolding triple_def attempt_def GetPendingByPolicyDecision_def query_def fail_def Let_def
    using pending_found[of w ?pid, unfolded triple_def GetPendingByPolicyDecision_def query_def fail_def Let_def]
      assms(1) by (auto split: option.splits sum.splits)
  have created: "triple (quiet w) ?I (attempt (CreateWithContext (bridge_create_request req d)))
      (\<lambda>c s. case c of Inl er \<Rightarrow> True | Inr a \<Rightarrow> pending_for ?pid a s) (\<lambda>_ _. True)"
    by (rule triple_attempt, rule triple_conseq[OF approval_created[of _ ?pid]])
      (use assms in \<open>simp_all add: bridge_create_request_def\<close>)
  have link: "triple (quiet w) (pending_for ?pid a) (bind (wrap_act x
      (SetAgenticTaskApprovalRequestID (br_task_id req) (itoa (ap_id a)))) (\<lambda>_. ret (Inr a))) ?R (\<lambda>_ _. True)" for x a
    by (rule triple_bind[OF triple_wrap[OF task_linked[of w req a]]]) (simp add: triple_ret)
  have fresh: "triple (quiet w) (\<lambda>s. case c of Inl er \<Rightarrow> True | Inr a \<Rightarrow> pending_for ?pid a s)
      (case c of
         Inl er2 \<Rightarrow> ret (Inl er2)
       | Inr approval \<Rightarrow> bind (wrap_act x
           (SetAgenticTaskApprovalRequestID (br_task_id req) (itoa (ap_id approval)))) (\<lambda>_. ret (Inr approval)))
      ?R (\<lambda>_ _. True)" for c x
    by (cases c) (simp_all add: link triple_ret)
  have "triple (quiet w) (\<lambda>s. case r of Inl er \<Rightarrow> ?I s | Inr a \<Rightarrow> pending_for ?pid a s)
      (case r of
         Inr existing \<Rightarrow>
           bind (wrap_act ''approvals: link existing approval to task''
                   (SetAgenticTaskApprovalRequestID (br_task_id req) (itoa (ap_id existing)))) (\<lambda>_.
           ret (Inr existing))
       | Inl er \<Rightarrow>
           if er \<noteq> ErrNoRows then fail (EWrap ''approvals: find pending policy approval'' er)
           else
             bind (attempt (CreateWithContext (bridge_create_request req d))) (\<lambda>c.
             case c of
               Inl er2 \<Rightarrow> ret (Inl er2)
             | Inr approval \<Rightarrow>
                 bind (wrap_act ''approvals: link approval to task''
                         (SetAgenticTaskApprovalRequestID (br_task_id req) (itoa (ap_id approval)))) (\<lambda>_.
                 ret (Inr approval)))) ?R (\<lambda>_ _. True)" for r
    by (cases r) (simp_all add: link triple_fail triple_bind[OF created fresh])
  then show ?thesis unfolding approval_tx_def by (rule triple_bind[OF found])
qed

lemma approval_attempt_links:
  assumes "stable w (\<lambda>s. approvals_inv (db_approvals s))"
    and "\<And>m. again = Some m \<Longrightarrow> triple w (\<lambda>s. approvals_inv (db_approvals s)) m (linked_pending req) (\<lambda>_ _. True)"
  shows "triple w (\<lambda>s. approvals_inv (db_approvals s)) (approval_attempt again req)
    (linked_pending req) (\<lambda>_ _. True)"
proof -
  let ?I = "\<lambda>s. approvals_inv (db_approvals s)"
  have load: "triple w ?I (wrap_act x (GetPolicyDecision pid)) (\<lambda>d s. ?I s \<and> pd_id d = pid) (\<lambda>_ _. True)" for x pid
    unfolding GetPolicyDecision_def
    by (intro triple_wrap triple_query assms(1)) (auto simp: get_row_Inr dest: tbl_get_SomeD)
  have tx: "triple w (\<lambda>s. ?I s \<and> pd_id d = br_policy_decision_id req) (transaction_try (approval_tx req d))
      (\<lambda>r s. case r of Inl e \<Rightarrow> ?I s | Inr a \<Rightarrow> linked_pending req a s) (\<lambda>_ _. True)"
    if "br_policy_decision_id req \<noteq> 0" for d
  proof (cases "pd_id d = br_policy_decision_id req")
    case True
    show ?thesis
      by (rule triple_transaction_try, use assms(1) True in \<open>simp add: stable_def\<close>,
          rule triple_conseq[OF approval_tx_links[of d req w]])
        (use True that in \<open>auto split: sum.splits\<close>)
  qed (simp add: triple_def)
  have rest: "triple w (\<lambda>s. case r of Inl e \<Rightarrow> ?I s | Inr a \<Rightarrow> linked_pending req a s)
      (case r of
         Inr approval \<Rightarrow> ret approval
       | Inl er \<Rightarrow> (case again of
            Some m \<Rightarrow> if isPendingApprovalUniqueConflict er then m else fail er
          | None \<Rightarrow> fail er)) (linked_pending req) (\<lambda>_ _. True)" for r
    using assms(2) by (cases r; cases again) (auto intro: triple_ret triple_fail)
  have body: "triple w (\<lambda>s. ?I s \<and> pd_id d = br_policy_decision_id req)
      (bind (transaction_try (approval_tx req d)) (\<lambda>r. case r of
         Inr approval \<Rightarrow> ret approval
       | Inl er \<Rightarrow> (case again of
            Some m \<Rightarrow> if isPendingApprovalUniqueConflict er then m else fail er
          | None \<Rightarrow> fail er))) (linked_pending req) (\<lambda>_ _. True)"
    if "br_policy_decision_id req \<noteq> 0" for d
    by (rule triple_bind[OF tx[OF that] rest])
  show ?thesis unfolding approval_attempt_def
    by (cases "br_task_id req = 0"; cases "br_policy_decision_id req = 0")
      (auto intro!: triple_fail triple_bind[OF load] body)
qed

lemma CreateApproval_links:
  assumes "stable w (\<lambda>s. approvals_inv (db_approvals s))"
  shows "triple w (\<lambda>s. approvals_inv (db_approvals s)) (CreateApproval req) (linked_pending req) (\<lambda>_ _. True)"
  unfolding CreateApproval_def createApproval_def
  by (rule approval_attempt_links[OF assms]) (auto intro: approval_attempt_links[OF assms])

end
