(* ===== verification/Gateway.thy ===== *)
theory Gateway
  imports Agentic_Policy Approvals_Bridge
begin

text \<open>
  \<open>internal/agentic/tools/gateway.go\<close>: the gateway every tool call of an agentic task goes through.  It
  asks the policy, records the decision and a receipt, runs the tool when it may, and otherwise asks
  for an approval or refuses.  The executor of the tools is a parameter \<open>runner name params\<close>: an action
  on the database whose value is the tool's result, \<open>None\<close> for nil.  \<open>None\<close> as the value of a call of
  the gateway is a call that does not return: the analysis of a command hangs or panics, or the
  fuel of a wait is used up.  The map of pending receipts lives in memory: a call says what it
  stores in it.
\<close>

section \<open>Configuration and values\<close>

record tool_context =
  cx_task_id :: int
  cx_actor_id :: int
  cx_tool_call_id :: string
  cx_action_kind :: string
  cx_finalize :: bool

record tool_result =
  rs_output :: string
  rs_is_error :: bool

definition ErrorResult :: "string \<Rightarrow> tool_result" where
  "ErrorResult msg = \<lparr>rs_output = msg, rs_is_error = True\<rparr>"

record pending_receipt =
  pe_id :: int
  pe_approval_request_id :: string
  pe_raw_hash :: string
  pe_reversible :: bool

text \<open>\<open>hash\<close> is \<open>hashBytes\<close> (SHA-256 in hexadecimal), \<open>wait\<close> is \<open>approvalWaitEnabled\<close>.\<close>

record gateway =
  gw_configured :: bool
  gw_bridge :: bool
  gw_wait :: bool
  gw_fuel :: nat
  gw_hash :: "string \<Rightarrow> string"
  gw_safety :: safety
  gw_reversible :: "string \<Rightarrow> bool"

type_synonym executor = "string \<Rightarrow> string \<Rightarrow> (db, tool_result option) act"

record outcome =
  oc_result :: tool_result
  oc_stored :: "(string \<times> pending_receipt) option"

definition answer :: "tool_result \<Rightarrow> (db, outcome option) act" where
  "answer r = ret (Some \<lparr>oc_result = r, oc_stored = None\<rparr>)"

definition refuse :: "string \<Rightarrow> (db, outcome option) act" where
  "refuse msg = answer (ErrorResult msg)"

definition gateway_isReadOnlyTool :: "string \<Rightarrow> bool" where
  "gateway_isReadOnlyTool name \<longleftrightarrow> name \<in> set
     [''read_file'', ''glob'', ''grep'', ''web_fetch'', ''web_search'', ''wiki_search'', ''wiki_read'',
      ''conversation_search'', ''cross_project_search'', ''cross_project_conversation_search'',
      ''agentic_actor_graph'', ''agentic_task_evidence'', ''agentic_delegate_list'',
      ''agentic_delegate_status'', ''agentic_message_list'']"

definition defaultActionKind :: "string \<Rightarrow> string" where
  "defaultActionKind name = (if gateway_isReadOnlyTool name then ''observe'' else ''mutate'')"

definition receiptKey :: "tool_context \<Rightarrow> string" where
  "receiptKey c = itoa (cx_task_id c) @ '':'' @ itoa (cx_actor_id c) @ '':'' @ cx_tool_call_id c"

definition summarizeOutput :: "string \<Rightarrow> string" where
  "summarizeOutput out = (let t = TrimSpace out in if length t \<le> 200 then t else take 200 t)"

section \<open>Receipts\<close>

definition started_receipt ::
  "gateway \<Rightarrow> tool_context \<Rightarrow> policy_decision \<Rightarrow> string \<Rightarrow> string \<Rightarrow> bool \<Rightarrow> tool_receipt" where
  "started_receipt g c d name params undoable =
     \<lparr>tr_id = 0, tr_task_id = cx_task_id c, tr_actor_id = nullableInt (cx_actor_id c),
      tr_policy_decision_id = nullableInt (pd_id d), tr_approval_request_id = '''', tr_tool_name = name,
      tr_tool_call_id = cx_tool_call_id c, tr_input_hash = gw_hash g params, tr_output_hash = '''',
      tr_raw_output_hash = '''', tr_visible_output_hash = '''', tr_output_summary = '''',
      tr_status = ReceiptStatusStarted, tr_failure_reason = '''', tr_hook_provenance_json = '''',
      tr_reversible = undoable, tr_started_at = zero_time, tr_completed_at = None\<rparr>"

definition createStartedReceipt ::
  "gateway \<Rightarrow> tool_context \<Rightarrow> policy_decision \<Rightarrow> string \<Rightarrow> string \<Rightarrow> (db, tool_receipt) act" where
  "createStartedReceipt g c d name params = CreateToolActionReceipt (started_receipt g c d name params False)"

definition blocked_receipt ::
  "gateway \<Rightarrow> tool_context \<Rightarrow> policy_decision \<Rightarrow> string \<Rightarrow> string \<Rightarrow> string \<Rightarrow> string \<Rightarrow> string \<Rightarrow> int
     \<Rightarrow> tool_receipt" where
  "blocked_receipt g c d name params approvalID status reason now =
     (started_receipt g c d name params False)\<lparr>tr_approval_request_id := approvalID,
       tr_output_hash := gw_hash g reason, tr_raw_output_hash := gw_hash g reason,
       tr_visible_output_hash := gw_hash g reason, tr_output_summary := summarizeOutput reason,
       tr_status := status, tr_failure_reason := reason, tr_completed_at := Some now\<rparr>"

definition createBlockedReceipt ::
  "gateway \<Rightarrow> tool_context \<Rightarrow> policy_decision \<Rightarrow> string \<Rightarrow> string \<Rightarrow> string \<Rightarrow> string \<Rightarrow> string
     \<Rightarrow> (db, tool_receipt) act" where
  "createBlockedReceipt g c d name params approvalID status reason =
     bind now_ms (\<lambda>now.
     CreateToolActionReceipt (blocked_receipt g c d name params approvalID status reason now))"

definition blocked_completion :: "gateway \<Rightarrow> string \<Rightarrow> string \<Rightarrow> string \<Rightarrow> receipt_completion" where
  "blocked_completion g approvalID status reason =
     \<lparr>rc_approval_request_id = approvalID, rc_output_hash = gw_hash g reason,
      rc_raw_output_hash = gw_hash g reason, rc_visible_output_hash = gw_hash g reason,
      rc_output_summary = summarizeOutput reason, rc_status = status, rc_failure_reason = reason,
      rc_hook_provenance_json = '''', rc_reversible = False, rc_completed_at = None\<rparr>"

definition completeBlockedReceipt ::
  "gateway \<Rightarrow> int \<Rightarrow> string \<Rightarrow> string \<Rightarrow> string \<Rightarrow> (db, outcome option) act" where
  "completeBlockedReceipt g rid approvalID status reason =
     bind (attempt (CompleteToolActionReceipt rid (blocked_completion g approvalID status reason))) (\<lambda>r.
     case r of
       Inl er \<Rightarrow> refuse (''agentic receipt completion failed: '' @ err_text er)
     | Inr _ \<Rightarrow> refuse reason)"

definition block ::
  "gateway \<Rightarrow> tool_context \<Rightarrow> policy_decision \<Rightarrow> string \<Rightarrow> string \<Rightarrow> string \<Rightarrow> string
     \<Rightarrow> (db, outcome option) act" where
  "block g c d name params status reason0 =
     (let reason = (if TrimSpace reason0 = '''' then status else reason0) in
      bind (attempt (createBlockedReceipt g c d name params '''' status reason)) (\<lambda>r.
      case r of
        Inl er \<Rightarrow> refuse (''agentic receipt creation failed: '' @ err_text er)
      | Inr _ \<Rightarrow> refuse (if status = ReceiptStatusDenied \<and> \<not> Contains (ToLower reason) ''denied''
                         then ''denied: '' @ reason else reason)))"

section \<open>Execution\<close>

text \<open>What the code makes of the executor's answer: the result, and whether the call failed.\<close>

definition tool_answer :: "err + tool_result option \<Rightarrow> tool_result \<times> bool" where
  "tool_answer r =
     (case r of
        Inl er \<Rightarrow> (ErrorResult (err_text er), True)
      | Inr None \<Rightarrow> (ErrorResult ''tool returned nil result'', True)
      | Inr (Some x) \<Rightarrow> (x, rs_is_error x))"

definition result_completion :: "gateway \<Rightarrow> string \<Rightarrow> tool_result \<Rightarrow> bool \<Rightarrow> bool \<Rightarrow> receipt_completion" where
  "result_completion g approvalID x failed undoable =
     \<lparr>rc_approval_request_id = approvalID, rc_output_hash = gw_hash g (rs_output x),
      rc_raw_output_hash = gw_hash g (rs_output x), rc_visible_output_hash = gw_hash g (rs_output x),
      rc_output_summary = summarizeOutput (rs_output x),
      rc_status = (if failed then ReceiptStatusFailed else ReceiptStatusSucceeded),
      rc_failure_reason = (if failed then TrimSpace (rs_output x) else ''''),
      rc_hook_provenance_json = '''', rc_reversible = undoable, rc_completed_at = None\<rparr>"

definition finish_execution ::
  "gateway \<Rightarrow> tool_context \<Rightarrow> int \<Rightarrow> string \<Rightarrow> string \<Rightarrow> err + tool_result option
     \<Rightarrow> (db, outcome option) act" where
  "finish_execution g c rid approvalID name r =
     (case tool_answer r of (x, failed) \<Rightarrow>
        if cx_finalize c \<and> cx_tool_call_id c \<noteq> ''''
        then ret (Some \<lparr>oc_result = x, oc_stored = Some (receiptKey c,
               \<lparr>pe_id = rid, pe_approval_request_id = approvalID, pe_raw_hash = gw_hash g (rs_output x),
                pe_reversible = gw_reversible g name\<rparr>)\<rparr>)
        else
          bind (attempt (CompleteToolActionReceipt rid
                  (result_completion g approvalID x failed (gw_reversible g name)))) (\<lambda>r2.
          case r2 of
            Inl er \<Rightarrow> refuse (''agentic receipt completion failed: '' @ err_text er)
          | Inr _ \<Rightarrow> answer x))"

definition executeWithReceipt ::
  "gateway \<Rightarrow> executor \<Rightarrow> tool_context \<Rightarrow> int \<Rightarrow> string \<Rightarrow> string \<Rightarrow> string \<Rightarrow> (db, outcome option) act" where
  "executeWithReceipt g runner c rid approvalID name params =
     bind (attempt (runner name params)) (finish_execution g c rid approvalID name)"

definition executeAllowed ::
  "gateway \<Rightarrow> executor \<Rightarrow> tool_context \<Rightarrow> policy_decision \<Rightarrow> string \<Rightarrow> string \<Rightarrow> (db, outcome option) act" where
  "executeAllowed g runner c d name params =
     bind (attempt (CreateToolActionReceipt (started_receipt g c d name params (gw_reversible g name)))) (\<lambda>r.
     case r of
       Inl er \<Rightarrow> refuse (''agentic receipt creation failed: '' @ err_text er)
     | Inr receipt \<Rightarrow> executeWithReceipt g runner c (tr_id receipt) '''' name params)"

section \<open>Approvals\<close>

definition consumeApprovedApprovalID ::
  "tool_context \<Rightarrow> string \<Rightarrow> string \<Rightarrow> int \<Rightarrow> (db, string) act" where
  "consumeApprovedApprovalID c name inputHash rid =
     ConsumeApprovedApprovalRequestID (cx_task_id c) (cx_actor_id c) name inputHash rid"

definition reusableApprovalID :: "tool_context \<Rightarrow> string \<Rightarrow> string \<Rightarrow> (db, string option) act" where
  "reusableApprovalID c name inputHash =
     bind (attempt (FindReusableApprovalRequestID (cx_task_id c) (cx_actor_id c) name inputHash)) (\<lambda>r.
     ret (case r of Inl _ \<Rightarrow> None | Inr i \<Rightarrow> if i = '''' then None else Some i))"

text \<open>What follows the wait for an approval.\<close>

definition after_wait ::
  "gateway \<Rightarrow> executor \<Rightarrow> tool_context \<Rightarrow> int \<Rightarrow> string \<Rightarrow> string \<Rightarrow> string \<Rightarrow> string \<Rightarrow> err + bool option
     \<Rightarrow> (db, outcome option) act" where
  "after_wait g runner c rid approvalID name params msg waited =
     (case waited of
        Inl er \<Rightarrow> if err_is er ErrDeadline \<or> err_is er ErrCanceled then refuse msg
                  else refuse (''approval wait failed: '' @ err_text er)
      | Inr None \<Rightarrow> ret None
      | Inr (Some False) \<Rightarrow> completeBlockedReceipt g rid approvalID ReceiptStatusDenied
          (''approval denied: approval_request_id='' @ approvalID)
      | Inr (Some True) \<Rightarrow>
          bind (attempt (consumeApprovedApprovalID c name (gw_hash g params) rid)) (\<lambda>r.
          case r of
            Inl er \<Rightarrow> completeBlockedReceipt g rid approvalID ReceiptStatusApprovalRequired
              (''approved approval consumption failed: '' @ err_text er)
          | Inr consumed \<Rightarrow> executeWithReceipt g runner c rid consumed name params))"

definition blockOrWaitForApproval ::
  "gateway \<Rightarrow> executor \<Rightarrow> tool_context \<Rightarrow> int \<Rightarrow> string \<Rightarrow> string \<Rightarrow> string \<Rightarrow> (db, outcome option) act" where
  "blockOrWaitForApproval g runner c rid approvalID name params =
     (let msg = ''approval required: approval_request_id='' @ approvalID in
      if \<not> gw_wait g then completeBlockedReceipt g rid approvalID ReceiptStatusApprovalRequired msg
      else
        bind (attempt (CompleteToolActionReceipt rid
                (blocked_completion g approvalID ReceiptStatusApprovalRequired msg))) (\<lambda>r.
        case r of
          Inl er \<Rightarrow> refuse (''agentic receipt completion failed: '' @ err_text er)
        | Inr _ \<Rightarrow>
            (case ParseInt approvalID of
               None \<Rightarrow> refuse (''approval wait failed: invalid approval id '' @ approvalID)
             | Some i \<Rightarrow>
                 bind (attempt (WaitApproval (gw_fuel g) i))
                   (after_wait g runner c rid approvalID name params msg))))"

definition ask_approval ::
  "gateway \<Rightarrow> executor \<Rightarrow> tool_context \<Rightarrow> policy_decision \<Rightarrow> int \<Rightarrow> string \<Rightarrow> string \<Rightarrow> (db, outcome option) act" where
  "ask_approval g runner c d rid name params =
     bind (reusableApprovalID c name (gw_hash g params)) (\<lambda>reuse.
     case reuse of
       Some approvalID \<Rightarrow> blockOrWaitForApproval g runner c rid approvalID name params
     | None \<Rightarrow>
         if \<not> gw_bridge g
         then completeBlockedReceipt g rid '''' ReceiptStatusApprovalRequired ''approval bridge is not configured''
         else
           bind (attempt (CreateApproval \<lparr>br_task_id = cx_task_id c, br_actor_id = cx_actor_id c,
                   br_policy_decision_id = pd_id d, br_tool_name = name, br_input = params\<rparr>)) (\<lambda>r.
           case r of
             Inl er \<Rightarrow> completeBlockedReceipt g rid '''' ReceiptStatusApprovalRequired
               (''approval request failed: '' @ err_text er)
           | Inr a \<Rightarrow> blockOrWaitForApproval g runner c rid (itoa (ap_id a)) name params))"

definition requireApproval ::
  "gateway \<Rightarrow> executor \<Rightarrow> tool_context \<Rightarrow> policy_decision \<Rightarrow> string \<Rightarrow> string \<Rightarrow> (db, outcome option) act" where
  "requireApproval g runner c d name params =
     bind (attempt (createStartedReceipt g c d name params)) (\<lambda>r.
     case r of
       Inl er \<Rightarrow> refuse (''agentic receipt creation failed: '' @ err_text er)
     | Inr receipt \<Rightarrow>
         bind (attempt (consumeApprovedApprovalID c name (gw_hash g params) (tr_id receipt))) (\<lambda>r2.
         case r2 of
           Inr approvalID \<Rightarrow>
             if approvalID \<noteq> '''' then executeWithReceipt g runner c (tr_id receipt) approvalID name params
             else ask_approval g runner c d (tr_id receipt) name params
         | Inl er \<Rightarrow>
             if \<not> err_is er ErrNoRows
             then completeBlockedReceipt g (tr_id receipt) '''' ReceiptStatusApprovalRequired
               (''approved approval consumption failed: '' @ err_text er)
             else ask_approval g runner c d (tr_id receipt) name params))"

section \<open>A call\<close>

definition decided ::
  "gateway \<Rightarrow> executor \<Rightarrow> tool_context \<Rightarrow> policy_decision \<Rightarrow> string \<Rightarrow> string \<Rightarrow> (db, outcome option) act" where
  "decided g runner c d name params =
     (if pd_decision d = PolicyDecisionAutoAllowed then executeAllowed g runner c d name params
      else if pd_decision d = PolicyDecisionObserveOnly then
        (if \<not> gateway_isReadOnlyTool name
         then block g c d name params ReceiptStatusDenied ''observe_only policy cannot execute mutating tool''
         else executeAllowed g runner c d name params)
      else if pd_decision d = PolicyDecisionApprovalRequired then requireApproval g runner c d name params
      else if pd_decision d = PolicyDecisionHardlineDenied
      then block g c d name params ReceiptStatusDenied (pd_reason d)
      else block g c d name params ReceiptStatusDenied (''unknown policy decision: '' @ pd_decision d))"

definition call_request :: "tool_context \<Rightarrow> string \<Rightarrow> string \<Rightarrow> policy_request" where
  "call_request c name params =
     \<lparr>pq_task_id = cx_task_id c, pq_actor_id = cx_actor_id c,
      pq_action_kind = (if cx_action_kind c = '''' then defaultActionKind name else cx_action_kind c),
      pq_tool_name = name, pq_input = params\<rparr>"

definition Execute ::
  "gateway \<Rightarrow> executor \<Rightarrow> tool_context option \<Rightarrow> string \<Rightarrow> string \<Rightarrow> (db, outcome option) act" where
  "Execute g runner toolCtx name params =
     (case toolCtx of
        None \<Rightarrow> refuse ''agentic tool context task_id is required''
      | Some c \<Rightarrow>
          if cx_task_id c = 0 then refuse ''agentic tool context task_id is required''
          else if \<not> gw_configured g then refuse ''agentic tool gateway is not configured''
          else
            (case Evaluate (gw_safety g) (call_request c name params) of
               None \<Rightarrow> ret None
             | Some (Inl er) \<Rightarrow> ret None
             | Some (Inr p) \<Rightarrow>
                 bind (attempt (CreatePolicyDecision (decision_record p))) (\<lambda>r.
                 case r of
                   Inl er \<Rightarrow> refuse (''agentic policy decision record failed: '' @ err_text er)
                 | Inr d \<Rightarrow> decided g runner c d name params)))"

text \<open>The map of pending receipts after a call.\<close>

definition store_pending :: "outcome option \<Rightarrow> (string \<rightharpoonup> pending_receipt) \<Rightarrow> (string \<rightharpoonup> pending_receipt)" where
  "store_pending oc p =
     (case oc of
        None \<Rightarrow> p
      | Some x \<Rightarrow> (case oc_stored x of None \<Rightarrow> p | Some (k, v) \<Rightarrow> p(k \<mapsto> v)))"

section \<open>The end of a call\<close>

definition final_completion :: "gateway \<Rightarrow> pending_receipt \<Rightarrow> tool_result \<Rightarrow> receipt_completion" where
  "final_completion g p x =
     \<lparr>rc_approval_request_id = pe_approval_request_id p, rc_output_hash = gw_hash g (rs_output x),
      rc_raw_output_hash = pe_raw_hash p, rc_visible_output_hash = gw_hash g (rs_output x),
      rc_output_summary = summarizeOutput (rs_output x),
      rc_status = (if rs_is_error x then ReceiptStatusFailed else ReceiptStatusSucceeded),
      rc_failure_reason = (if rs_is_error x then TrimSpace (rs_output x) else ''''),
      rc_hook_provenance_json =
        (if pe_raw_hash p \<noteq> gw_hash g (rs_output x) then ''{'' @ quoted ''transformed'' @ '':true}'' else ''''),
      rc_reversible = pe_reversible p, rc_completed_at = None\<rparr>"

definition FinalizeToolResult ::
  "gateway \<Rightarrow> tool_context option \<Rightarrow> tool_result option \<Rightarrow> (string \<rightharpoonup> pending_receipt)
     \<Rightarrow> (string \<rightharpoonup> pending_receipt) \<times> (db, unit) act" where
  "FinalizeToolResult g toolCtx result pending =
     (case toolCtx of
        None \<Rightarrow> (pending, ret ())
      | Some c \<Rightarrow>
          if cx_tool_call_id c = '''' then (pending, ret ())
          else
            (case pending (receiptKey c) of
               None \<Rightarrow> (pending, ret ())
             | Some p \<Rightarrow>
                 (let x = (case result of None \<Rightarrow> ErrorResult ''tool returned nil result'' | Some x \<Rightarrow> x)
                  in (pending(receiptKey c := None),
                      bind (CompleteToolActionReceipt (pe_id p) (final_completion g p x)) (\<lambda>_. ret ())))))"

end
