(* ===== verification/Gateway_Properties.thy ===== *)
theory Gateway_Properties
  imports Gateway
begin

text \<open>
  The gateway as a reference monitor.  \<open>runs_only w P C m\<close> says that \<open>m\<close>, started where \<open>P\<close> holds, calls
  the tool only with arguments and in databases where \<open>C\<close> holds: two tools that agree there make no
  difference to it.
\<close>

section \<open>Where the tool is called\<close>

definition runs_only ::
  "db world \<Rightarrow> (db \<Rightarrow> bool) \<Rightarrow> (string \<Rightarrow> string \<Rightarrow> db \<Rightarrow> bool) \<Rightarrow> (executor \<Rightarrow> (db, 'a) act) \<Rightarrow> bool" where
  "runs_only w P C m \<longleftrightarrow>
     (\<forall>e e'. (\<forall>n p j s. C n p s \<longrightarrow> e n p w j s = e' n p w j s) \<longrightarrow>
        (\<forall>i s. P s \<longrightarrow> m e w i s = m e' w i s))"

named_theorems run_intros \<open>where the tool is called\<close>

lemma runs_only_const [run_intros]: "runs_only w P C (\<lambda>_. m)"
  by (simp add: runs_only_def)

lemma runs_only_call: "(\<And>s. P s \<Longrightarrow> C n p s) \<Longrightarrow> runs_only w P C (\<lambda>e. e n p)"
  by (simp add: runs_only_def)

lemma runs_only_bind:
  assumes "triple w P m Q (\<lambda>_ _. True)" and "\<And>a. runs_only w (Q a) C (\<lambda>e. k e a)"
  shows "runs_only w P C (\<lambda>e. bind m (k e))"
proof -
  have "bind m (k e) w i s = bind m (k e') w i s"
    if agree: "\<forall>n p j s. C n p s \<longrightarrow> e n p w j s = e' n p w j s" and "P s" for e e' i s
  proof -
    obtain r j s' where run: "m w i s = (r, j, s')" by (cases "m w i s")
    show ?thesis
    proof (cases r)
      case (Inr a)
      with run triple_run[OF assms(1) \<open>P s\<close>] have "Q a s'" by simp
      with assms(2)[of a] agree have "k e a w j s' = k e' a w j s'"
        unfolding runs_only_def by blast
      with run Inr show ?thesis by (simp add: bind_def)
    qed (use run in \<open>simp add: bind_def\<close>)
  qed
  then show ?thesis unfolding runs_only_def by blast
qed

lemma runs_only_bind_const:
  "(\<And>a. runs_only w (\<lambda>_. True) C (\<lambda>e. k e a)) \<Longrightarrow> runs_only w P C (\<lambda>e. bind m (k e))"
  by (rule runs_only_bind[where Q = "\<lambda>_ _. True"]) (auto simp: triple_def split: sum.split)

lemma runs_onlyD:
  "runs_only w P C m \<Longrightarrow> (\<And>n p j s. C n p s \<Longrightarrow> e n p w j s = e' n p w j s) \<Longrightarrow> P s \<Longrightarrow>
     m e w i s = m e' w i s"
  unfolding runs_only_def by blast

lemma runs_only_then:
  assumes "runs_only w P C m"
  shows "runs_only w P C (\<lambda>e. bind (m e) k)"
proof -
  have "bind (m e) k w i s = bind (m e') k w i s"
    if "\<forall>n p j s. C n p s \<longrightarrow> e n p w j s = e' n p w j s" and "P s" for e e' i s
  proof -
    have "m e w i s = m e' w i s" by (rule runs_onlyD[OF assms]) (use that in auto)
    then show ?thesis by (simp add: bind_def)
  qed
  then show ?thesis unfolding runs_only_def by blast
qed

lemma runs_only_attempt:
  assumes "runs_only w P C m"
  shows "runs_only w P C (\<lambda>e. attempt (m e))"
proof -
  have "attempt (m e) w i s = attempt (m e') w i s"
    if "\<forall>n p j s. C n p s \<longrightarrow> e n p w j s = e' n p w j s" and "P s" for e e' i s
  proof -
    have "m e w i s = m e' w i s" by (rule runs_onlyD[OF assms]) (use that in auto)
    then show ?thesis by (simp add: attempt_def)
  qed
  then show ?thesis unfolding runs_only_def by blast
qed

lemma runs_only_sum [run_intros]:
  "(\<And>x. r = Inl x \<Longrightarrow> runs_only w P C (\<lambda>e. f e x)) \<Longrightarrow> (\<And>y. r = Inr y \<Longrightarrow> runs_only w P C (\<lambda>e. g e y)) \<Longrightarrow>
     runs_only w P C (\<lambda>e. case r of Inl x \<Rightarrow> f e x | Inr y \<Rightarrow> g e y)"
  by (cases r) auto

lemma runs_only_option [run_intros]:
  "(r = None \<Longrightarrow> runs_only w P C f) \<Longrightarrow> (\<And>y. r = Some y \<Longrightarrow> runs_only w P C (\<lambda>e. g e y)) \<Longrightarrow>
     runs_only w P C (\<lambda>e. case r of None \<Rightarrow> f e | Some y \<Rightarrow> g e y)"
  by (cases r) auto

lemma runs_only_if [run_intros]:
  "(c \<Longrightarrow> runs_only w P C f) \<Longrightarrow> (\<not> c \<Longrightarrow> runs_only w P C g) \<Longrightarrow> runs_only w P C (\<lambda>e. if c then f e else g e)"
  by (cases c) auto

lemma runs_only_pre: "runs_only w P C m \<Longrightarrow> (\<And>s. P' s \<Longrightarrow> P s) \<Longrightarrow> runs_only w P' C m"
  unfolding runs_only_def by blast

section \<open>When it may be\<close>

text \<open>
  An approval for exactly this task, actor, tool and input: asked for with a receipt of an earlier
  call, granted, and consumed.
\<close>

definition approved_for :: "gateway \<Rightarrow> tool_context \<Rightarrow> string \<Rightarrow> string \<Rightarrow> db \<Rightarrow> bool" where
  "approved_for g c name params s \<longleftrightarrow>
     (\<exists>r \<in> set (tbl_rows (db_receipts s)). \<exists>a \<in> set (tbl_rows (db_approvals s)).
        receipt_for (cx_task_id c) (cx_actor_id c) name (gw_hash g params) r \<and>
        cast_int (tr_approval_request_id r) = ap_id a \<and>
        ap_decision a = ApprovalApproved \<and> ap_consumed_by_receipt_id a \<noteq> 0)"

definition cleared :: "gateway \<Rightarrow> tool_context \<Rightarrow> string \<Rightarrow> string \<Rightarrow> string \<Rightarrow> string \<Rightarrow> db \<Rightarrow> bool" where
  "cleared g c name params n q s \<longleftrightarrow> n = name \<and> q = params \<and>
     (\<exists>p. Evaluate (gw_safety g) (call_request c name params) = Some (Inr p) \<and>
        (pr_decision p = PolicyDecisionAutoAllowed \<or>
         pr_decision p = PolicyDecisionObserveOnly \<and> gateway_isReadOnlyTool name \<or>
         pr_decision p = PolicyDecisionApprovalRequired \<and> approved_for g c name params s))"

text \<open>The others never change a policy decision.\<close>

definition policies_stable :: "db world \<Rightarrow> bool" where
  "policies_stable w \<longleftrightarrow> (\<forall>i s. keys_ok pd_id (db_policies s) \<longrightarrow>
     keys_ok pd_id (db_policies (w_other w i s)) \<and>
     (\<forall>k r. tbl_get pd_id k (db_policies s) = Some r \<longrightarrow> tbl_get pd_id k (db_policies (w_other w i s)) = Some r))"

interpretation policy_table: keyed_table pd_id mk_policy
  by unfold_locales (simp add: mk_policy_def split: prod.split)

interpretation receipt_table: keyed_table tr_id mk_receipt
  by unfold_locales (simp add: mk_receipt_def split: prod.split)

lemma CreatePolicyDecision_reads_back:
  assumes "policies_stable w"
  shows "triple w (\<lambda>s. keys_ok pd_id (db_policies s)) (CreatePolicyDecision x)
    (\<lambda>d s. pd_decision d = pd_decision x) (\<lambda>_ _. True)"
proof -
  let ?I = "\<lambda>s. keys_ok pd_id (db_policies s)"
  let ?Q = "\<lambda>now k s. ?I s \<and> tbl_get pd_id k (db_policies s) = Some (mk_policy (x, now) k)"
  have st: "stable w ?I" "stable w (?Q now k)" for now k
    using assms by (auto simp: stable_def policies_stable_def)
  have ins: "?Q now k (s\<lparr>db_policies := t\<rparr>)"
    if "?I s" "try_insert (check_policy s) (mk_policy (x, now)) (db_policies s) = Inr (k, t)" for now k s t
  proof -
    have t: "t = tbl_insert (mk_policy (x, now)) (db_policies s)" "k = tbl_next (db_policies s)"
      using that(2) by (auto simp: try_insert_Inr)
    show ?thesis
      using policy_table.get_inserted[OF that(1)] policy_table.insert_keys_ok[OF that(1)]
      unfolding t(1) t(2) by simp
  qed
  have exec: "triple w ?I (exec_policies (\<lambda>s. try_insert (check_policy s) (mk_policy (x, now))))
      (?Q now) (\<lambda>_ _. True)" for now
    by (rule triple_on_table[OF st(1)]) (use ins in auto)
  have get: "triple w (?Q now k) (GetPolicyDecision k) (\<lambda>d _. pd_decision d = pd_decision x) (\<lambda>_ _. True)" for now k
    unfolding GetPolicyDecision_def
    by (rule triple_query[OF st(2)]) (auto simp: get_row_Inr mk_policy_def)
  show ?thesis unfolding CreatePolicyDecision_def
    by (rule triple_bind[OF triple_now[where Q = "\<lambda>_. ?I"]], assumption) (rule triple_bind[OF exec get])
qed

lemma consumed_approved:
  "triple w P (attempt (consumeApprovedApprovalID c name (gw_hash g params) rid))
     (\<lambda>r s. case r of Inl er \<Rightarrow> True | Inr x \<Rightarrow> approved_for g c name params s) (\<lambda>_ _. True)"
proof -
  have "approved_for g c name params s'"
    if run: "consumeApprovedApprovalID c name (gw_hash g params) rid w i s = (Inr x, j, s')" for i s x j s'
  proof -
    let ?s0 = "w_other w i s"
    obtain aid now where rid: "rid \<noteq> 0"
      and aid: "consumable_for (cx_task_id c) (cx_actor_id c) name (gw_hash g params) ?s0 = Inr aid"
      and s': "s' = ?s0\<lparr>db_approvals := tbl_update (\<lambda>a. ap_id a = aid \<and> consumable a)
           (consume_row now rid) (db_approvals ?s0)\<rparr>"
      using run unfolding consumeApprovedApprovalID_def by (rule ConsumeApproved_run) blast
    obtain r a where r: "r \<in> set (tbl_rows (db_receipts ?s0))"
      "receipt_for (cx_task_id c) (cx_actor_id c) name (gw_hash g params) r"
      "receipt_approval ?s0 r = Some a" "consumable a" "ap_id a = aid"
      using consumable_for_receipt[OF aid] by blast
    then have "a \<in> set (tbl_rows (db_approvals ?s0))" "ap_id a = cast_int (tr_approval_request_id r)"
      using tbl_get_SomeD[of ap_id "cast_int (tr_approval_request_id r)" "db_approvals ?s0" a]
      by (auto simp: receipt_approval_def)
    moreover from this(1) r have "consume_row now rid a \<in> set (tbl_rows (db_approvals s'))"
      unfolding s' by (auto intro!: image_eqI[of _ _ a])
    ultimately show ?thesis
      using r rid unfolding approved_for_def
      by (intro bexI[of _ r] bexI[of _ "consume_row now rid a"])
        (auto simp: s' consume_row_def consumable_def)
  qed
  then show ?thesis
    unfolding triple_def attempt_def by (auto split: prod.splits sum.splits)
qed

section \<open>Every branch\<close>

lemma executeWithReceipt_runs:
  "(\<And>s. P s \<Longrightarrow> C name params s) \<Longrightarrow>
     runs_only w P C (\<lambda>e. executeWithReceipt g e c rid approvalID name params)"
  unfolding executeWithReceipt_def
  by (intro runs_only_then runs_only_attempt runs_only_call)

lemma executeAllowed_runs:
  assumes "\<And>s. C name params s"
  shows "runs_only w P C (\<lambda>e. executeAllowed g e c d name params)"
  unfolding executeAllowed_def
  by (intro runs_only_bind_const run_intros executeWithReceipt_runs assms)

lemma after_wait_runs:
  assumes "\<And>s. approved_for g c name params s \<Longrightarrow> C name params s"
  shows "runs_only w P C (\<lambda>e. after_wait g e c rid approvalID name params msg waited)"
proof (cases "waited = Inr (Some True)")
  case True
  show ?thesis unfolding after_wait_def True sum.case option.case bool.case
    by (intro runs_only_bind[OF consumed_approved] run_intros executeWithReceipt_runs assms) simp
next
  case False
  then have "(\<lambda>e. after_wait g e c rid approvalID name params msg waited) =
      (\<lambda>_. after_wait g (\<lambda>_ _. ret None) c rid approvalID name params msg waited)"
    by (auto simp: after_wait_def fun_eq_iff split: sum.splits option.splits bool.splits)
  then show ?thesis by (simp only: runs_only_const)
qed

lemma blockOrWait_runs:
  assumes "\<And>s. approved_for g c name params s \<Longrightarrow> C name params s"
  shows "runs_only w P C (\<lambda>e. blockOrWaitForApproval g e c rid approvalID name params)"
  unfolding blockOrWaitForApproval_def Let_def
  by (intro runs_only_bind_const run_intros after_wait_runs assms)

lemma ask_approval_runs:
  assumes "\<And>s. approved_for g c name params s \<Longrightarrow> C name params s"
  shows "runs_only w P C (\<lambda>e. ask_approval g e c d rid name params)"
  unfolding ask_approval_def
  by (intro runs_only_bind_const run_intros blockOrWait_runs assms)

lemma requireApproval_runs:
  assumes "\<And>s. approved_for g c name params s \<Longrightarrow> C name params s"
  shows "runs_only w P C (\<lambda>e. requireApproval g e c d name params)"
  unfolding requireApproval_def
  by (rule runs_only_bind_const, rule runs_only_sum, rule runs_only_const,
      rule runs_only_bind[OF consumed_approved])
    (intro run_intros executeWithReceipt_runs ask_approval_runs assms; simp)

lemma decision_read_back:
  assumes "policies_stable w"
  shows "triple w (\<lambda>s. keys_ok pd_id (db_policies s)) (attempt (CreatePolicyDecision x))
    (\<lambda>r _. case r of Inl er \<Rightarrow> True | Inr d \<Rightarrow> pd_decision d = pd_decision x) (\<lambda>_ _. True)"
  by (rule triple_attempt, rule triple_conseq[OF CreatePolicyDecision_reads_back[OF assms]]) simp_all

lemma decided_runs:
  assumes "Evaluate (gw_safety g) (call_request c name params) = Some (Inr p)"
    and "pd_decision d = pr_decision p"
  shows "runs_only w P (cleared g c name params) (\<lambda>e. decided g e c d name params)"
  unfolding decided_def
  by (intro run_intros executeAllowed_runs requireApproval_runs) (use assms in \<open>auto simp: cleared_def\<close>)

lemma Execute_runs:
  assumes "policies_stable w"
  shows "runs_only w (\<lambda>s. keys_ok pd_id (db_policies s)) (cleared g c name params)
    (\<lambda>e. Execute g e (Some c) name params)"
proof (cases "Evaluate (gw_safety g) (call_request c name params)")
  case None
  then show ?thesis by (simp add: Execute_def run_intros)
next
  case (Some x)
  show ?thesis
  proof (cases x)
    case (Inl er)
    with Some show ?thesis by (simp add: Execute_def run_intros)
  next
    case (Inr p)
    have dec: "pd_decision (decision_record p) = pr_decision p" by (simp add: decision_record_def)
    have "runs_only w (\<lambda>_. case r of Inl er \<Rightarrow> True | Inr d \<Rightarrow> pd_decision d = pr_decision p)
        (cleared g c name params) (\<lambda>e. case r of
           Inl er \<Rightarrow> refuse (''agentic policy decision record failed: '' @ err_text er)
         | Inr d \<Rightarrow> decided g e c d name params)" for r
    proof (cases r)
      case (Inr d)
      show ?thesis
      proof (cases "pd_decision d = pr_decision p")
        case True
        with Inr decided_runs[of g c name params p d] Some \<open>x = Inr p\<close> show ?thesis by simp
      qed (use Inr in \<open>simp add: runs_only_def\<close>)
    qed (simp add: run_intros)
    then have "runs_only w (\<lambda>s. keys_ok pd_id (db_policies s)) (cleared g c name params)
       (\<lambda>e. bind (attempt (CreatePolicyDecision (decision_record p))) (\<lambda>r. case r of
           Inl er \<Rightarrow> refuse (''agentic policy decision record failed: '' @ err_text er)
         | Inr d \<Rightarrow> decided g e c d name params))"
      by (rule runs_only_bind[OF decision_read_back[OF assms, of "decision_record p", unfolded dec]])
    note run = this
    have "(\<lambda>e. Execute g e (Some c) name params) =
        (\<lambda>e. if cx_task_id c = 0 then refuse ''agentic tool context task_id is required''
          else if \<not> gw_configured g then refuse ''agentic tool gateway is not configured''
          else bind (attempt (CreatePolicyDecision (decision_record p))) (\<lambda>r. case r of
            Inl er \<Rightarrow> refuse (''agentic policy decision record failed: '' @ err_text er)
          | Inr d \<Rightarrow> decided g e c d name params))"
      unfolding Execute_def Some Inr option.case sum.case by (rule refl)
    then show ?thesis by (simp only:) (intro runs_only_if runs_only_const run)
  qed
qed

section \<open>Properties\<close>


definition demo_gateway :: gateway where
  "demo_gateway = \<lparr>gw_configured = True, gw_bridge = True, gw_wait = False, gw_fuel = 0, gw_hash = (\<lambda>x. x),
     gw_safety = no_shell, gw_reversible = (\<lambda>_. False)\<rparr>"

definition demo_call :: tool_context where
  "demo_call = \<lparr>cx_task_id = 1, cx_actor_id = 0, cx_tool_call_id = '''', cx_action_kind = '''', cx_finalize = False\<rparr>"

lemma policies_stable_calm [simp]: "policies_stable (calm_world t)"
  by (simp add: policies_stable_def)


text \<open>
  A call the policy denies never runs its tool, whatever approvals the database holds.
\<close>

theorem denied_never_runs:
  assumes "policies_stable w" and "keys_ok pd_id (db_policies s)"
    and "Evaluate (gw_safety g) (call_request c name params) = Some (Inr p)"
    and "pr_decision p = PolicyDecisionHardlineDenied"
  shows "Execute g e (Some c) name params w i s = Execute g e' (Some c) name params w i s"
  by (rule runs_onlyD[OF Execute_runs[OF assms(1)]]) (use assms(2-4) in \<open>auto simp: cleared_def\<close>)

lemma etc_call_denied:
  "\<exists>p. Evaluate no_shell (call_request demo_call ''write_file'' etc_input) = Some (Inr p) \<and>
     pr_decision p = PolicyDecisionHardlineDenied"
proof -
  have "hasSystemPathInput etc_input"
    unfolding hasSystemPathInput_def etc_input_map by code_simp
  moreover have "TrimSpace ''write_file'' = ''write_file''" by code_simp
  ultimately show ?thesis
    by (simp add: Evaluate_def call_request_def isDangerousToolCall_def writes_files_def Let_def)
qed

lemma denied_never_runs_witness:
  "Execute demo_gateway (\<lambda>_ _. ret None) (Some demo_call) ''write_file'' etc_input (calm_world 7) 0 db_empty =
   Execute demo_gateway (\<lambda>_ _. fail ErrNotFound) (Some demo_call) ''write_file'' etc_input (calm_world 7) 0 db_empty"
proof -
  obtain p where p: "Evaluate no_shell (call_request demo_call ''write_file'' etc_input) = Some (Inr p)"
    "pr_decision p = PolicyDecisionHardlineDenied" using etc_call_denied by blast
  show ?thesis
    by (rule denied_never_runs[where p = p]) (use p in \<open>simp_all add: demo_gateway_def db_empty_def\<close>)
qed

section \<open>The record of a refusal\<close>

lemma calm_insert:
  assumes "keys_ok key (get s)" and "tbl_next (get s) \<le> max_key" and "check s (get s) (mk a (tbl_next (get s))) = None"
    and "\<And>t u. get (put t u) = t" and "keyed_table key mk"
  shows "bind (on_table get put (\<lambda>s. try_insert (check s) (mk a)))
      (\<lambda>k. query (\<lambda>s. get_row key k (get s))) (calm_world t) i s =
    (Inr (mk a (tbl_next (get s))), i + 2, put (tbl_insert (mk a) (get s)) s)"
proof -
  have "tbl_get key (tbl_next (get s)) (tbl_insert (mk a) (get s)) = Some (mk a (tbl_next (get s)))"
    using keyed_table.get_inserted[OF assms(5,1)] .
  with assms(2-4) show ?thesis
    by (simp add: bind_def on_table_def exec_def query_def try_insert_def get_row_def)
qed

text \<open>
  C23: a denied call, when nothing fails, leaves one more policy decision and one more receipt, in the
  state denied and under that decision, with the hash of the input and the reason, changes nothing
  else, and answers with an error.
\<close>

theorem denied_call_recorded:
  assumes "Evaluate (gw_safety g) (call_request c name params) = Some (Inr p)"
    and "pr_decision p = PolicyDecisionHardlineDenied" and "TrimSpace (pr_reason p) \<noteq> ''''"
    and "gw_configured g" and "cx_task_id c \<noteq> 0"
    and "keys_ok pd_id (db_policies s)" and "keys_ok tr_id (db_receipts s)"
    and "tbl_next (db_policies s) \<le> max_key" and "tbl_next (db_receipts s) \<le> max_key"
    and "tbl_get at_id (cx_task_id c) (db_tasks s) \<noteq> None"
    and "refers aa_id (nullableInt (cx_actor_id c)) (db_actors s)"
  shows "\<exists>msg j d r. Execute g e (Some c) name params (calm_world t) i s =
      (Inr (Some \<lparr>oc_result = ErrorResult msg, oc_stored = None\<rparr>), j,
       s\<lparr>db_policies := tbl_insert (\<lambda>_. d) (db_policies s), db_receipts := tbl_insert (\<lambda>_. r) (db_receipts s)\<rparr>) \<and>
    pd_task_id d = cx_task_id c \<and> pd_decision d = PolicyDecisionHardlineDenied \<and>
    tr_task_id r = cx_task_id c \<and> tr_policy_decision_id r = Some (pd_id d) \<and> tr_tool_name r = name \<and>
    tr_input_hash r = gw_hash g params \<and> tr_status r = ReceiptStatusDenied \<and>
    tr_failure_reason r = pr_reason p \<and> tr_completed_at r = Some t"
proof -
  have ids: "pr_task_id p = cx_task_id c" "pr_actor_id p = cx_actor_id c"
    using assms(1) by (auto simp: call_request_def elim!: Evaluate_cases)
  let ?d = "mk_policy (decision_record p, t) (tbl_next (db_policies s))"
  let ?s1 = "s\<lparr>db_policies := tbl_insert (mk_policy (decision_record p, t)) (db_policies s)\<rparr>"
  have d: "pd_id ?d = tbl_next (db_policies s)" "pd_decision ?d = PolicyDecisionHardlineDenied"
    "pd_task_id ?d = cx_task_id c" "pd_reason ?d = pr_reason p"
    using assms(2) ids by (simp_all add: mk_policy_def decision_record_def)
  have pos: "pd_id ?d \<noteq> 0" using policy_table.next_positive[OF assms(6)] d(1) by simp
  have norm: "norm_null (nullableInt x) = nullableInt x" for x by (simp add: norm_null_def)
  have policy: "CreatePolicyDecision (decision_record p) (calm_world t) i s = (Inr ?d, i + 3, ?s1)"
  proof -
    have "check_policy s (db_policies s) ?d = None"
      using assms(10,11) ids by (simp add: check_policy_def mk_policy_def decision_record_def norm)
    from calm_insert[of pd_id db_policies s check_policy mk_policy "(decision_record p, t)"
        "\<lambda>t s. s\<lparr>db_policies := t\<rparr>" t "Suc i"] this assms(6,8) policy_table.keyed_table_axioms
    show ?thesis
      unfolding CreatePolicyDecision_def GetPolicyDecision_def
      by (subst bind_def) (simp add: now_ms_def)
  qed
  let ?x = "blocked_receipt g c ?d name params '''' ReceiptStatusDenied (pr_reason p) t"
  let ?r = "mk_receipt (?x, t) (tbl_next (db_receipts s))"
  let ?s2 = "?s1\<lparr>db_receipts := tbl_insert (mk_receipt (?x, t)) (db_receipts s)\<rparr>"
  have receipt: "createBlockedReceipt g c ?d name params '''' ReceiptStatusDenied (pr_reason p) (calm_world t) j ?s1 =
      (Inr ?r, j + 4, ?s2)" for j
  proof -
    have "refers pd_id (Some (pd_id ?d)) (db_policies ?s1)"
      using policy_table.get_inserted[OF assms(6), of "(decision_record p, t)"] d(1) by (simp add: refers_def)
    then have "check_receipt ?s1 (db_receipts ?s1) ?r = None"
      using assms(10,11) pos
      by (simp add: check_receipt_def mk_receipt_def blocked_receipt_def started_receipt_def norm nullableInt_def[of "pd_id ?d"] norm_null_def)
    from calm_insert[of tr_id db_receipts ?s1 check_receipt mk_receipt "(?x, t)" "\<lambda>t s. s\<lparr>db_receipts := t\<rparr>" t "j + 2"]
      this assms(7,9) receipt_table.keyed_table_axioms
    show ?thesis
      unfolding createBlockedReceipt_def CreateToolActionReceipt_def GetToolActionReceipt_def
      by (subst bind_def, subst bind_def) (simp add: now_ms_def)
  qed
  have "Execute g e (Some c) name params (calm_world t) i s =
      block g c ?d name params ReceiptStatusDenied (pr_reason p) (calm_world t) (i + 3) ?s1"
    using assms(1,2,4,5) policy d(2,4)
    by (simp add: Execute_def bind_def attempt_def decided_def)
  moreover obtain msg where "block g c ?d name params ReceiptStatusDenied (pr_reason p) (calm_world t) (i + 3) ?s1 =
      (Inr (Some \<lparr>oc_result = ErrorResult msg, oc_stored = None\<rparr>), i + 7, ?s2)"
    using assms(3) receipt[of "i + 3"]
    by (simp add: block_def Let_def bind_def attempt_def refuse_def answer_def ret_def)
  moreover have "?s2 = s\<lparr>db_policies := tbl_insert (\<lambda>_. ?d) (db_policies s),
      db_receipts := tbl_insert (\<lambda>_. ?r) (db_receipts s)\<rparr>"
    by (simp add: tbl_insert_def)
  moreover have "tr_task_id ?r = cx_task_id c" "tr_policy_decision_id ?r = Some (pd_id ?d)" "tr_tool_name ?r = name"
    "tr_input_hash ?r = gw_hash g params" "tr_status ?r = ReceiptStatusDenied"
    "tr_failure_reason ?r = pr_reason p" "tr_completed_at ?r = Some t"
    using pos by (simp_all add: mk_receipt_def blocked_receipt_def started_receipt_def norm_null_def nullableInt_def)
  ultimately show ?thesis using d(2,3) by metis
qed

definition demo_task :: agentic_task where
  "demo_task = \<lparr>at_id = 1, at_goal_id = None, at_signal_id = None, at_parent_id = None,
     at_queue_task_id = None, at_title = ''t'', at_prompt = ''p'', at_status = TaskStatusProposed,
     at_priority = 0, at_risk_level = RiskLevelLow, at_autonomy_decision = PolicyDecisionObserve,
     at_approval_request_id = '''', at_verification_status = VerificationStatusPending, at_due_at = None,
     at_created_at = 0, at_updated_at = 0\<rparr>"

definition demo_db :: db where
  "demo_db = db_empty\<lparr>db_tasks := \<lparr>tbl_rows = [demo_task], tbl_next = 2\<rparr>\<rparr>"

lemma demo_db_simps [simp]:
  "db_approvals demo_db = tbl_empty" "db_policies demo_db = tbl_empty" "db_receipts demo_db = tbl_empty"
  "db_queue demo_db = tbl_empty" "db_enqueues demo_db = tbl_empty" "db_signals demo_db = tbl_empty"
  "db_tasks demo_db = \<lparr>tbl_rows = [demo_task], tbl_next = 2\<rparr>"
  "tbl_get at_id 1 \<lparr>tbl_rows = [demo_task], tbl_next = 2\<rparr> = Some demo_task"
  by (simp_all add: demo_db_def db_empty_def tbl_get_def tbl_select_def demo_task_def)

lemma denied_call_recorded_witness:
  "\<exists>msg j s'. Execute demo_gateway (\<lambda>_ _. ret None) (Some demo_call) ''write_file'' etc_input
     (calm_world 7) 0 demo_db = (Inr (Some \<lparr>oc_result = ErrorResult msg, oc_stored = None\<rparr>), j, s') \<and>
     length (tbl_rows (db_receipts s')) = 1"
proof -
  obtain p where p: "Evaluate (gw_safety demo_gateway) (call_request demo_call ''write_file'' etc_input) = Some (Inr p)"
    "pr_decision p = PolicyDecisionHardlineDenied"
    using etc_call_denied by (auto simp: demo_gateway_def)
  have "TrimSpace ''filesystem write to system path is denied by policy'' \<noteq> ''''"
    "TrimSpace ''write_file'' = ''write_file''" by code_simp+
  with p have reason: "TrimSpace (pr_reason p) \<noteq> ''''"
    by (auto simp: policy_result_of_def call_request_def dangerousReason_def writes_files_def verdict_defs
        isReadOnlyTool_def elim!: Evaluate_cases split: if_splits)
  have ready: "gw_configured demo_gateway" "cx_task_id demo_call \<noteq> 0"
    "tbl_get at_id (cx_task_id demo_call) (db_tasks demo_db) \<noteq> None"
    "refers aa_id (nullableInt (cx_actor_id demo_call)) (db_actors demo_db)"
    "tbl_next (db_policies demo_db) \<le> max_key" "tbl_next (db_receipts demo_db) \<le> max_key"
    by (simp_all add: demo_gateway_def demo_call_def refers_def tbl_empty_def max_key_def)
  from denied_call_recorded[OF p reason ready(1,2) _ _ ready(5,6,3,4), where e = "\<lambda>_ _. ret None" and t = 7 and i = 0]
  obtain msg j d r where "Execute demo_gateway (\<lambda>_ _. ret None) (Some demo_call) ''write_file'' etc_input
      (calm_world 7) 0 demo_db = (Inr (Some \<lparr>oc_result = ErrorResult msg, oc_stored = None\<rparr>), j,
      demo_db\<lparr>db_policies := tbl_insert (\<lambda>_. d) (db_policies demo_db),
        db_receipts := tbl_insert (\<lambda>_. r) (db_receipts demo_db)\<rparr>)"
    by auto
  then show ?thesis by (auto simp: tbl_empty_def)
qed

section \<open>Pending receipts\<close>

lemma colon_not_in_itoa: "CHR '':'' \<notin> set (itoa i)"
proof
  assume "CHR '':'' \<in> set (itoa i)"
  then have "is_digit (CHR '':'')"
    using nat_digits_all by (auto simp: itoa_def split: if_splits)
  then show False by (simp add: is_digit_range)
qed

lemma split_at_colon:
  "CHR '':'' \<notin> set a \<Longrightarrow> CHR '':'' \<notin> set b \<Longrightarrow> a @ '':'' @ s = b @ '':'' @ t \<longleftrightarrow> a = b \<and> s = t"
  by (induction a arbitrary: b) (case_tac b; auto)+

text \<open>
  No two calls share a pending receipt: the key of a call determines its task, its actor and the
  id of the call.
\<close>

theorem receiptKey_injective:
  "receiptKey c = receiptKey c' \<longleftrightarrow>
     cx_task_id c = cx_task_id c' \<and> cx_actor_id c = cx_actor_id c' \<and> cx_tool_call_id c = cx_tool_call_id c'"
  unfolding receiptKey_def
  using colon_not_in_itoa split_at_colon itoa_inj by metis


definition demo_final :: tool_context where
  "demo_final = demo_call\<lparr>cx_tool_call_id := ''call'', cx_finalize := True\<rparr>"

definition demo_receipts :: db where
  "demo_receipts = demo_db\<lparr>db_receipts := tbl_insert (mk_receipt
     (started_receipt demo_gateway demo_final
       \<lparr>pd_id = 1, pd_task_id = 1, pd_actor_id = None, pd_action_kind = '''', pd_tool_name = ''grep'',
        pd_risk_level = RiskLevelLow, pd_decision = PolicyDecisionAutoAllowed, pd_reason = '''',
        pd_policy_version = '''', pd_created_at = 0\<rparr> ''grep'' '''' True, 0)) tbl_empty\<rparr>"


end
