(* ===== verification/Enqueue_Service.thy ===== *)
theory Enqueue_Service
  imports Store_Records Queue_Invariants
begin

text \<open>
  \<open>internal/agentic/enqueue/enqueue.go\<close>: an operator's approval turns a proposed task into a task of
  the daemon's queue, in one transaction of the store (\<open>EnqueueProposedTask\<close>).  The enqueuer is a
  parameter; the locale \<open>queue_tx_enqueuer\<close> is what the store relies on, and the queue provides it.
  \<open>redact\<close> is the detector of secrets.  A nil pointer is a panic, an error of its own.
\<close>

section \<open>The service\<close>

record enqueue_options =
  eo_enforcement :: string
  eo_completion_gate :: string

record enqueue_request =
  er_task_id :: int
  er_operator_id :: string
  er_reason :: string
  er_enforcement :: string
  er_completion_gate :: string

record enqueue_outcome =
  eq_task :: agentic_task
  eq_decision :: enqueue_decision
  eq_queue_task_id :: int
  eq_existed :: bool

definition validateModes :: "enqueue_options \<Rightarrow> enqueue_request \<Rightarrow> err option" where
  "validateModes opts req =
     (let enforcement =
        (if er_enforcement req = '''' then None
         else if er_enforcement req = ''gateway'' then
           (if ToLower (TrimSpace (eo_enforcement opts)) \<noteq> ''gateway''
            then Some (EMsg (''enqueue: config disallows requested mode: agentic.enforcement.mode does not permit gateway''))
            else None)
         else Some (EMsg (''enqueue: unsupported agentic enforcement mode '' @ quoted (er_enforcement req))))
      in case enforcement of
           Some er \<Rightarrow> Some er
         | None \<Rightarrow>
             if er_completion_gate req = '''' then None
             else if er_completion_gate req = ''verification'' then
               (if ToLower (TrimSpace (eo_completion_gate opts)) \<noteq> ''verification''
                then Some (EMsg (''enqueue: config disallows requested mode: agentic.completion_gate.mode does not permit verification''))
                else None)
             else Some (EMsg (''enqueue: unsupported completion gate mode '' @ quoted (er_completion_gate req))))"

definition enqueue_idempotencyKey :: "int \<Rightarrow> string \<Rightarrow> string \<Rightarrow> string" where
  "enqueue_idempotencyKey taskID enforcement completion =
     ''agentic-proposed-task:'' @ itoa taskID @ '':enforcement:'' @ enforcement @ '':completion:'' @ completion"

definition isActiveDecisionConflict :: "err \<Rightarrow> bool" where
  "isActiveDecisionConflict er =
     (let msg = ToLower (err_text er)
      in Contains msg ''idx_task_enqueue_decisions_task_active'' \<or>
         Contains msg ''unique'' \<and> Contains msg ''task_enqueue_decisions'')"

text \<open>The last decision that was enqueued.\<close>

definition latestEnqueuedDecision :: "int \<Rightarrow> (db, enqueue_decision option) act" where
  "latestEnqueuedDecision taskID =
     bind (wrap_act ''enqueue: list decisions'' (ListTaskEnqueueDecisionsByTask taskID)) (\<lambda>ds.
     ret (first_row (rev (filter (\<lambda>d. ed_status d = TaskEnqueueStatusEnqueued) ds))))"

definition enqueue_decision_for :: "(string \<Rightarrow> string) \<Rightarrow> int \<Rightarrow> enqueue_request \<Rightarrow> enqueue_decision" where
  "enqueue_decision_for redact taskID req =
     \<lparr>ed_id = 0, ed_task_id = taskID, ed_queue_task_id = None, ed_operator_id = TrimSpace (er_operator_id req),
      ed_decision = TaskEnqueueDecisionApproved, ed_reason = TrimSpace (redact (er_reason req)),
      ed_requested_enforcement = er_enforcement req, ed_requested_completion_gate = er_completion_gate req,
      ed_status = TaskEnqueueStatusPending, ed_failure_reason = '''', ed_created_at = zero_time,
      ed_updated_at = zero_time\<rparr>"

definition nil_panic :: err where
  "nil_panic = EMsg ''runtime error: invalid memory address or nil pointer dereference''"

text \<open>
  \<open>Enqueue\<close>.  The assignment from \<open>EnqueueProposedTask\<close> overwrites \<open>task\<close>, with nil when there is an
  error, so the branch for a conflicting decision reads the id of a nil task: \<open>existingResult\<close> is
  never called.
\<close>

definition Enqueue ::
  "(string \<Rightarrow> string \<Rightarrow> (db, int \<times> bool) act) \<Rightarrow> (string \<Rightarrow> string) \<Rightarrow> enqueue_options \<Rightarrow> enqueue_request
     \<Rightarrow> (db, enqueue_outcome) act" where
  "Enqueue enq redact opts req0 =
     bind (wrap_act ''enqueue: get task'' (GetAgenticTask (er_task_id req0))) (\<lambda>task.
     if intFromNull (at_queue_task_id task) \<noteq> 0 then
       bind (latestEnqueuedDecision (at_id task)) (\<lambda>d.
       case d of
         Some decision \<Rightarrow>
           if intFromNull (ed_queue_task_id decision) = intFromNull (at_queue_task_id task)
           then ret \<lparr>eq_task = task, eq_decision = decision,
                     eq_queue_task_id = intFromNull (at_queue_task_id task), eq_existed = True\<rparr>
           else fail (EMsg (''enqueue: task is already linked to queue task '' @ itoa (intFromNull (at_queue_task_id task))))
       | None \<Rightarrow> fail (EMsg (''enqueue: task is already linked to queue task '' @ itoa (intFromNull (at_queue_task_id task)))))
     else if at_status task \<noteq> TaskStatusProposed
     then fail (EMsg (''enqueue: task is not eligible: status '' @ quoted (at_status task)))
     else
       (let req = req0\<lparr>er_enforcement := ToLower (TrimSpace (er_enforcement req0)),
                       er_completion_gate := ToLower (TrimSpace (er_completion_gate req0))\<rparr>
        in case validateModes opts req of
             Some er \<Rightarrow> fail er
           | None \<Rightarrow>
               (let payload = EncodeTaskPayload (payload_zero\<lparr>tp_prompt := at_prompt task,
                      tp_enforcement := er_enforcement req, tp_completion_gate := er_completion_gate req\<rparr>)
                in bind (attempt (EnqueueProposedTask enq (at_id task) (enqueue_decision_for redact (at_id task) req)
                      payload (enqueue_idempotencyKey (at_id task) (er_enforcement req) (er_completion_gate req)))) (\<lambda>r.
                   case r of
                     Inl er \<Rightarrow>
                       if isActiveDecisionConflict er then fail nil_panic
                       else fail (EWrap ''enqueue: queue proposed task'' er)
                   | Inr (d, t, q, existed) \<Rightarrow>
                       ret \<lparr>eq_task = t, eq_decision = d, eq_queue_task_id = q, eq_existed = existed\<rparr>))))"

section \<open>The contract of the enqueuer\<close>

text \<open>
  In a transaction \<open>enq\<close> changes nothing but the queue, keeps its invariant, and returns the id of a
  task of it.
\<close>

locale queue_tx_enqueuer =
  fixes enq :: "string \<Rightarrow> string \<Rightarrow> (db, int \<times> bool) act"
  assumes enq_frame: "enq payload key (quiet w) i s = (r, j, s') \<Longrightarrow> \<exists>q. s' = s\<lparr>db_queue := q\<rparr>"
    and enq_inv: "enq payload key (quiet w) i s = (r, j, s') \<Longrightarrow> env_int64 (w_env w) \<Longrightarrow>
      queue_inv (db_queue s) \<Longrightarrow> queue_inv (db_queue s')"
    and enq_result: "enq payload key (quiet w) i s = (Inr (q, existed), j, s') \<Longrightarrow> queue_inv (db_queue s) \<Longrightarrow>
      \<exists>r \<in> set (tbl_rows (db_queue s')). tq_id r = q \<and> is_active r"
begin

lemma enq_other_tables:
  assumes "enq payload key (quiet w) i s = (r, j, s')"
  shows "db_tasks s' = db_tasks s" "db_enqueues s' = db_enqueues s" "db_approvals s' = db_approvals s"
    "db_signals s' = db_signals s" "db_receipts s' = db_receipts s"
  using enq_frame[OF assms] by auto

text \<open>The enqueuer as a step of the transaction.\<close>

lemma enq_triple:
  assumes "\<And>s q. P (s\<lparr>db_queue := q\<rparr>) = P s" and "env_int64 (w_env w)"
  shows "triple (quiet w) (\<lambda>s. P s \<and> queue_inv (db_queue s)) (enq payload key)
    (\<lambda>(q, existed) s. P s \<and> queue_inv (db_queue s) \<and>
       (\<exists>x \<in> set (tbl_rows (db_queue s)). tq_id x = q \<and> is_active x)) (\<lambda>_. P)"
proof -
  have "case r of Inl er \<Rightarrow> P s'
      | Inr (q, existed) \<Rightarrow> P s' \<and> queue_inv (db_queue s') \<and>
          (\<exists>x \<in> set (tbl_rows (db_queue s')). tq_id x = q \<and> is_active x)"
    if "P s" "queue_inv (db_queue s)" and run: "enq payload key (quiet w) i s = (r, j, s')" for i s r j s'
  proof -
    from enq_frame[OF run] that(1) assms(1) have "P s'" by metis
    moreover from enq_inv[OF run assms(2) that(2)] have "queue_inv (db_queue s')" .
    moreover have "\<exists>x \<in> set (tbl_rows (db_queue s')). tq_id x = q \<and> is_active x" if "r = Inr (q, existed)" for q existed
      by (rule enq_result) (use run that \<open>queue_inv (db_queue s)\<close> in auto)
    ultimately show ?thesis by (auto split: sum.splits)
  qed
  then show ?thesis by (fastforce simp: triple_def split: prod.splits sum.splits)
qed

end

lemma EnqueueTx_active:
  assumes "EnqueueTx e t payload key = (Inr (q, existed), t')" and "queue_inv t"
  shows "\<exists>r \<in> set (tbl_rows t'). tq_id r = q \<and> is_active r"
proof -
  have "if existed then t' = t \<and> TrimSpace key \<noteq> '''' \<and>
      (\<exists>r \<in> set (tbl_rows t) \<union> set (tbl_rows t). tq_id r = q \<and> is_active r \<and> tq_idempotency_key r = TrimSpace key)
    else q = tbl_next t \<and> t' = tbl_insert (new_row (payload, TrimSpace key, clock e 0)) t \<and> \<not> idem_taken t (TrimSpace key)"
    by (rule enqueue_result) (use assms in \<open>simp_all add: EnqueueTx_def\<close>)
  then show ?thesis
    by (cases existed) (auto simp: new_row_def is_active_def)
qed

lemma queue_EnqueueTx_run:
  assumes "queue_EnqueueTx payload key w i s = (r, j, s')"
  shows "EnqueueTx (env_from i (w_env w)) (db_queue s) payload key = (r, db_queue s')"
    and "s' = s\<lparr>db_queue := db_queue s'\<rparr>"
  using assms by (auto simp: queue_EnqueueTx_def split: prod.splits)

interpretation queue_enq: queue_tx_enqueuer queue_EnqueueTx
proof
  fix payload key w i s r j s'
  assume run: "queue_EnqueueTx payload key (quiet w) i s = (r, j, s')"
  from queue_EnqueueTx_run(2)[OF run] show "\<exists>q. s' = s\<lparr>db_queue := q\<rparr>" by blast
  show "queue_inv (db_queue s')" if "env_int64 (w_env w)" "queue_inv (db_queue s)"
    using that queue_EnqueueTx_run(1)[OF run]
      enqueue_ok[of "db_queue s" "env_from i (w_env w)" "db_queue s" "db_queue s" payload key]
    by (simp add: EnqueueTx_def step_ok_def env_int64_def)
next
  fix payload key w i s q existed j s'
  assume "queue_EnqueueTx payload key (quiet w) i s = (Inr (q, existed), j, s')" and "queue_inv (db_queue s)"
  then show "\<exists>r \<in> set (tbl_rows (db_queue s')). tq_id r = q \<and> is_active r"
    using queue_EnqueueTx_run(1) EnqueueTx_active by metis
qed

section \<open>A decision that is enqueued\<close>

text \<open>
  \<open>enqueued_link did tid q\<close>: the decision \<open>did\<close> and its task \<open>tid\<close> are linked to the row \<open>q\<close> of the
  queue, which waits for the daemon.
\<close>

definition enqueue_db_ok :: "db \<Rightarrow> bool" where
  "enqueue_db_ok s \<longleftrightarrow> queue_inv (db_queue s) \<and> keys_ok ed_id (db_enqueues s)"

definition queued :: "int \<Rightarrow> db \<Rightarrow> bool" where
  "queued q s \<longleftrightarrow> (\<exists>x \<in> set (tbl_rows (db_queue s)). tq_id x = q \<and> is_active x)"

definition task_linked :: "int \<Rightarrow> int \<Rightarrow> db \<Rightarrow> bool" where
  "task_linked tid q s \<longleftrightarrow> q \<noteq> 0 \<and> (\<exists>k. tbl_get at_id tid (db_tasks s) = Some k \<and> at_queue_task_id k = Some q \<and>
     at_status k = TaskStatusPending)"

definition decision_linked :: "int \<Rightarrow> int \<Rightarrow> int \<Rightarrow> db \<Rightarrow> bool" where
  "decision_linked did tid q s \<longleftrightarrow> (\<exists>d. tbl_get ed_id did (db_enqueues s) = Some d \<and> ed_task_id d = tid \<and>
     ed_status d = TaskEnqueueStatusEnqueued \<and> ed_queue_task_id d = Some q) \<and>
     (\<forall>x \<in> set (tbl_rows (db_enqueues s)). enqueue_active x \<longrightarrow> ed_task_id x = tid \<longrightarrow> ed_queue_task_id x = Some q)"

definition unlinked :: "int \<Rightarrow> db \<Rightarrow> bool" where
  "unlinked tid s \<longleftrightarrow> (\<forall>k. tbl_get at_id tid (db_tasks s) = Some k \<longrightarrow> intFromNull (at_queue_task_id k) = 0)"

definition decision_of :: "int \<Rightarrow> int \<Rightarrow> db \<Rightarrow> bool" where
  "decision_of did tid s \<longleftrightarrow> (\<exists>d. tbl_get ed_id did (db_enqueues s) = Some d \<and> ed_task_id d = tid)"

lemmas link_defs = queued_def task_linked_def decision_linked_def unlinked_def decision_of_def

interpretation enqueue_table: keyed_table ed_id mk_enqueue
  by unfold_locales (simp add: mk_enqueue_def Let_def split: prod.splits)

lemmas try_update_eq = try_update_Inr[THEN conjunct2, THEN conjunct1]

text \<open>An update under a unique index leaves no other row with its key.\<close>

lemma try_update_unique:
  assumes "try_update (\<lambda>t r. if unique_clash A k t r then Some er else None) P f t = Inr (n, t')"
    and "x \<in> set (tbl_rows t)" "A x" "k x = c" and "r0 \<in> set (tbl_rows t)" "P r0"
    and "\<And>r. P r \<Longrightarrow> A (f r) \<and> k (f r) = c"
  shows "P x"
proof -
  obtain r where r: "first_row (tbl_select P t) = Some r"
  proof (cases "tbl_select P t")
    case Nil
    with assms(5,6) show ?thesis by (auto simp: tbl_select_def filter_empty_conv)
  qed (auto simp: first_row_def intro: that)
  then have "P r" using first_row_in by fastforce
  with try_update_Inr[OF assms(1)] r assms(2-4,7) show ?thesis
    by (auto simp: unique_clash_def split: if_splits)
qed

lemma mark_enqueued_triple:
  "triple (quiet w) (\<lambda>s. decision_of did tid s \<and> unlinked tid s \<and> queued q s)
     (exec_mark_enqueued now did tid q)
     (\<lambda>_ s. decision_linked did tid q s \<and> unlinked tid s \<and> queued q s) (\<lambda>_ _. True)"
proof -
  have sole: "ed_id x = did \<and> ed_task_id x = tid"
    if "try_update (\<lambda>t r. if unique_clash enqueue_active ed_task_id t r
          then Some (EUnique ''task_enqueue_decisions.task_id'') else None)
          (\<lambda>x. ed_id x = did \<and> ed_task_id x = tid) (mark_enqueued now q) (db_enqueues s) = Inr (n, t)"
      and "decision_of did tid s" and "x \<in> set (tbl_rows (db_enqueues s))" "enqueue_active x" "ed_task_id x = tid"
    for s n t x
  proof -
    from that(2) obtain d where "d \<in> set (tbl_rows (db_enqueues s))" "ed_id d = did \<and> ed_task_id d = tid"
      by (auto simp: decision_of_def dest: tbl_get_SomeD)
    from try_update_unique[OF that(1) that(3-5) this] show ?thesis
      by (simp add: mark_enqueued_def enqueue_active_def)
  qed
  show ?thesis unfolding exec_mark_enqueued_def
  proof (intro triple_on_table stable_quiet)
    fix s n t
    assume P: "decision_of did tid s \<and> unlinked tid s \<and> queued q s"
      and upd: "try_update (\<lambda>t r. if unique_clash enqueue_active ed_task_id t r
          then Some (EUnique ''task_enqueue_decisions.task_id'') else None)
          (\<lambda>x. ed_id x = did \<and> ed_task_id x = tid) (mark_enqueued now q) (db_enqueues s) = Inr (n, t)"
    note all = sole[OF upd conjunct1[OF P]]
    from P obtain d where d: "tbl_get ed_id did (db_enqueues s) = Some d" "ed_task_id d = tid"
      by (auto simp: decision_of_def)
    have "tbl_get ed_id did t = Some (mark_enqueued now q d)"
      using d tbl_get_SomeD[OF d(1)] try_update_eq[OF upd] by (simp add: tbl_get_update mark_enqueued_def)
    with d(2) have "\<exists>d. tbl_get ed_id did t = Some d \<and> ed_task_id d = tid \<and>
        ed_status d = TaskEnqueueStatusEnqueued \<and> ed_queue_task_id d = Some q"
      by (simp add: mark_enqueued_def)
    moreover have "ed_queue_task_id x = Some q"
      if "x \<in> set (tbl_rows t)" "enqueue_active x" "ed_task_id x = tid" for x
    proof -
      let ?P = "\<lambda>x. ed_id x = did \<and> ed_task_id x = tid"
      from that(1) try_update_eq[OF upd] obtain y where y: "y \<in> set (tbl_rows (db_enqueues s))"
          "x = (if ?P y then mark_enqueued now q y else y)" by auto
      then show ?thesis using that(2,3) all[OF y(1)] by (cases "?P y") (simp_all add: mark_enqueued_def)
    qed
    ultimately show "decision_linked did tid q (s\<lparr>db_enqueues := t\<rparr>) \<and> unlinked tid (s\<lparr>db_enqueues := t\<rparr>) \<and>
        queued q (s\<lparr>db_enqueues := t\<rparr>)"
      using P by (simp add: decision_linked_def unlinked_def queued_def)
  qed simp
qed

lemma link_queue_triple:
  assumes "q \<noteq> 0"
  shows "triple (quiet w) (\<lambda>s. decision_linked did tid q s \<and> unlinked tid s \<and> queued q s)
     (exec_link_queue now tid q)
     (\<lambda>_ s. decision_linked did tid q s \<and> queued q s \<and>
        (\<forall>k. tbl_get at_id tid (db_tasks s) = Some k \<longrightarrow> intFromNull (at_queue_task_id k) = q \<longrightarrow>
           at_queue_task_id k = Some q \<and> at_status k = TaskStatusPending)) (\<lambda>_ _. True)"
  unfolding exec_link_queue_def
  by (intro triple_on_table stable_quiet)
    (use assms in \<open>auto simp: link_defs touch_task_def intFromNull_def tbl_get_update
       dest!: try_update_eq dest: tbl_get_SomeD split: option.splits if_splits\<close>)

lemma link_enqueued_triple:
  assumes "q \<noteq> 0"
  shows "triple (quiet w) (\<lambda>s. decision_of did tid s \<and> unlinked tid s \<and> queued q s)
     (link_enqueued did tid q existed)
     (\<lambda>(d, k, p, ex) s. p = q \<and> ed_id d = did \<and> decision_linked did tid q s \<and> task_linked tid q s \<and> queued q s)
     (\<lambda>_ _. True)"
  unfolding link_enqueued_def GetTaskEnqueueDecision_def GetAgenticTask_def
proof (rule triple_bind[OF triple_now[of _ "\<lambda>_ s. decision_of did tid s \<and> unlinked tid s \<and> queued q s"]],
    assumption, rule triple_bind[OF mark_enqueued_triple], rule triple_bind[OF link_queue_triple[OF assms]])
  let ?R = "\<lambda>s. decision_linked did tid q s \<and> queued q s \<and>
        (\<forall>k. tbl_get at_id tid (db_tasks s) = Some k \<longrightarrow> intFromNull (at_queue_task_id k) = q \<longrightarrow>
           at_queue_task_id k = Some q \<and> at_status k = TaskStatusPending)"
  let ?Q = "\<lambda>(d :: enqueue_decision, k :: agentic_task, p, ex :: bool) s. p = q \<and> ed_id d = did \<and>
     decision_linked did tid q s \<and> task_linked tid q s \<and> queued q s"
  have task: "triple (quiet w) (\<lambda>s. ?R s \<and> ed_id d = did) (query (\<lambda>s. get_row at_id tid (db_tasks s)))
     (\<lambda>k s. ?R s \<and> ed_id d = did \<and> tbl_get at_id tid (db_tasks s) = Some k) (\<lambda>_ _. True)" for d
    by (intro triple_query stable_quiet) (auto simp: get_row_Inr)
  have checked: "triple (quiet w) (\<lambda>s. ?R s \<and> ed_id d = did \<and> tbl_get at_id tid (db_tasks s) = Some k)
     (if intFromNull (at_queue_task_id k) \<noteq> q then fail er else ret (d, k, q, existed)) ?Q (\<lambda>_ _. True)" for d k er
    using assms by (auto simp: task_linked_def intro!: triple_fail triple_ret)
  have decision: "triple (quiet w) ?R (query (\<lambda>s. get_row ed_id did (db_enqueues s)))
     (\<lambda>d s. ?R s \<and> ed_id d = did) (\<lambda>_ _. True)"
    by (intro triple_query stable_quiet) (auto simp: get_row_Inr dest: tbl_get_SomeD)
  show "triple (quiet w) ?R (bind (query (\<lambda>s. get_row ed_id did (db_enqueues s))) (\<lambda>d.
      bind (query (\<lambda>s. get_row at_id tid (db_tasks s))) (\<lambda>k. if intFromNull (at_queue_task_id k) \<noteq> q
        then fail (EMsg (''agentic: task '' @ itoa tid @ '' queue link mismatch after enqueue''))
        else ret (d, k, q, existed)))) ?Q (\<lambda>_ _. True)"
    by (rule triple_bind[OF decision triple_bind[OF task checked]])
qed

context queue_tx_enqueuer begin

lemma EnqueueProposedTask_triple:
  assumes "stable w enqueue_db_ok" and "env_int64 (w_env w)"
  shows "triple w enqueue_db_ok (EnqueueProposedTask enq tid decision payload key)
    (\<lambda>(d, k, q, existed) s. decision_linked (ed_id d) tid q s \<and> task_linked tid q s \<and> queued q s) (\<lambda>_ _. True)"
proof -
  let ?Q = "\<lambda>(d, k :: agentic_task, q, existed :: bool) s. decision_linked (ed_id d) tid q s \<and> task_linked tid q s \<and> queued q s"
  let ?P = "\<lambda>s. unlinked tid s \<and> enqueue_db_ok s"
  have load: "triple (quiet w) enqueue_db_ok (GetAgenticTask tid)
      (\<lambda>k s. enqueue_db_ok s \<and> tbl_get at_id tid (db_tasks s) = Some k) (\<lambda>_ _. True)"
    unfolding GetAgenticTask_def by (intro triple_query stable_quiet) (auto simp: get_row_Inr)
  have ins: "triple (quiet w) ?P (exec_enqueues (\<lambda>s. try_insert (check_enqueue s) (mk_enqueue (new_decision tid decision, now))))
      (\<lambda>did s. (decision_of did tid s \<and> unlinked tid s) \<and> queue_inv (db_queue s)) (\<lambda>_ _. True)" for now
    by (intro triple_on_table stable_quiet)
      (auto simp: enqueue_db_ok_def link_defs enqueue_table.get_inserted try_insert_Inr,
       simp add: mk_enqueue_def new_decision_def Let_def)
  have run: "triple (quiet w) (\<lambda>s. (decision_of did tid s \<and> unlinked tid s) \<and> queue_inv (db_queue s)) (attempt (enq payload key))
      (\<lambda>r s. case r of Inl er \<Rightarrow> True | Inr (q, existed) \<Rightarrow> q \<noteq> 0 \<and> decision_of did tid s \<and> unlinked tid s \<and> queued q s) (\<lambda>_ _. True)" for did
    by (rule triple_attempt, rule triple_conseq[OF enq_triple[where P = "\<lambda>s. decision_of did tid s \<and> unlinked tid s", OF _ assms(2)]])
      (auto simp: decision_of_def unlinked_def queued_def queue_inv_def keys_ok_def)
  have finished: "triple (quiet w) (\<lambda>s. case r of Inl er \<Rightarrow> True
        | Inr (q, existed) \<Rightarrow> q \<noteq> 0 \<and> decision_of did tid s \<and> unlinked tid s \<and> queued q s)
      (case r of Inl er \<Rightarrow> bind now_ms (\<lambda>t. bind (wrap_act x (exec_enqueues (\<lambda>s. plain_update (\<lambda>x. ed_id x = did)
                       (mark_failed t (err_text er))))) (\<lambda>_. ret (Inl er)))
       | Inr (q, existed) \<Rightarrow> bind (link_enqueued did tid q existed) (\<lambda>res. ret (Inr res)))
      (\<lambda>r s. case r of Inl er \<Rightarrow> True | Inr a \<Rightarrow> ?Q a s) (\<lambda>_ _. True)" for r did x
  proof (cases r)
    case (Inl er)
    then show ?thesis by (simp add: triple_bind[OF triple_trivial triple_bind[OF triple_trivial]] triple_ret)
  next
    case (Inr p)
    obtain q existed where p: "p = (q, existed)" by (cases p)
    show ?thesis
    proof (cases "q = 0")
      case False
      show ?thesis unfolding Inr p sum.case prod.case
        by (rule triple_bind[where R = ?Q], rule triple_conseq[OF link_enqueued_triple[OF False]])
          (auto intro!: triple_ret)
    qed (simp add: Inr p triple_def)
  qed
  show ?thesis unfolding EnqueueProposedTask_def
  proof (rule triple_bind[where R = "\<lambda>r s. case r of Inl er \<Rightarrow> True | Inr a \<Rightarrow> ?Q a s"],
      rule triple_transaction[OF assms(1) triple_bind[OF load]], split if_split, intro conjI impI, goal_cases)
    case (2 k)
    then show ?case
      by (split if_split, intro conjI impI)
        (blast intro: triple_fail, rule triple_conseq[OF triple_bind[OF triple_now[of ?P "\<lambda>_. ?P"]
          triple_bind[OF ins triple_bind[OF run finished]]]], auto simp: unlinked_def)
  qed (auto simp: lift_result_def triple_def ret_def fail_def split: sum.splits)
qed

text \<open>When it fails, nothing outside the queue and the decisions is changed.\<close>

lemma EnqueueProposedTask_failed:
  assumes "stable w P" and "\<And>s q. P (s\<lparr>db_queue := q\<rparr>) = P s" and "\<And>s t. P (s\<lparr>db_enqueues := t\<rparr>) = P s"
  shows "triple w P (EnqueueProposedTask enq tid decision payload key) (\<lambda>_ _. True) (\<lambda>_. P)"
proof -
  let ?R = "\<lambda>r s. case r of Inl er \<Rightarrow> P s | Inr a \<Rightarrow> True"
  have load: "triple (quiet w) P (GetAgenticTask tid) (\<lambda>_. P) (\<lambda>_ _. True)"
    unfolding GetAgenticTask_def by (intro triple_query stable_quiet) auto
  have step: "triple (quiet w) P (exec_enqueues f) (\<lambda>_. P) (\<lambda>_ _. True)"
    for f :: "db \<Rightarrow> enqueue_decision table \<Rightarrow> err + 'b \<times> enqueue_decision table"
    by (intro triple_on_table stable_quiet) (auto simp: assms(3))
  have run: "triple (quiet w) P (attempt (enq payload key)) (\<lambda>_. P) (\<lambda>_ _. True)"
  proof -
    have "P s'" if "enq payload key (quiet w) i s = (r, j, s')" "P s" for i s r j s'
      using enq_frame[OF that(1)] that(2) assms(2) by metis
    then show ?thesis by (fastforce simp: triple_def attempt_def split: prod.splits)
  qed
  have marked: "triple (quiet w) P (bind now_ms (\<lambda>t. bind (wrap_act x (exec_enqueues (f t))) (\<lambda>_. ret (Inl er)))) ?R (\<lambda>_ _. True)"
    for x and er :: err and f :: "int \<Rightarrow> db \<Rightarrow> enqueue_decision table \<Rightarrow> err + nat \<times> enqueue_decision table"
    by (rule triple_bind[OF triple_now[of P "\<lambda>_. P"] triple_bind[OF triple_wrap[OF step]]]) (auto intro: triple_ret)
  have linked: "triple (quiet w) P (bind (link_enqueued did tid q existed) (\<lambda>res. ret (Inr res))) ?R (\<lambda>_ _. True)" for did q existed
    by (rule triple_conseq[OF triple_bind[OF triple_trivial triple_ret]]) auto
  have finished: "triple (quiet w) P (case r of
        Inl er \<Rightarrow> bind now_ms (\<lambda>t. bind (wrap_act x (exec_enqueues (f er t))) (\<lambda>_. ret (Inl er)))
      | Inr (q, existed) \<Rightarrow> bind (link_enqueued did tid q existed) (\<lambda>res. ret (Inr res))) ?R (\<lambda>_ _. True)"
    for r did x and f :: "err \<Rightarrow> int \<Rightarrow> db \<Rightarrow> enqueue_decision table \<Rightarrow> err + nat \<times> enqueue_decision table"
    by (cases r) (auto intro: marked linked)
  have tx: "triple (quiet w) P (if a then fail e1 else if b then fail e2 else bind now_ms (\<lambda>now.
      bind (exec_enqueues (g now)) (\<lambda>did. bind (attempt (enq payload key)) (\<lambda>r. case r of
        Inl er \<Rightarrow> bind now_ms (\<lambda>t. bind (wrap_act x (exec_enqueues (f did er t))) (\<lambda>_. ret (Inl er)))
      | Inr (q, existed) \<Rightarrow> bind (link_enqueued did tid q existed) (\<lambda>res. ret (Inr res)))))) ?R (\<lambda>_ _. True)"
    for a b e1 e2 x and g :: "int \<Rightarrow> db \<Rightarrow> enqueue_decision table \<Rightarrow> err + int \<times> enqueue_decision table"
      and f :: "int \<Rightarrow> err \<Rightarrow> int \<Rightarrow> db \<Rightarrow> enqueue_decision table \<Rightarrow> err + nat \<times> enqueue_decision table"
    using triple_bind[OF triple_now[of P "\<lambda>_. P"] triple_bind[OF step triple_bind[OF run finished]]]
    by (auto intro: triple_fail)
  show ?thesis unfolding EnqueueProposedTask_def
    by (rule triple_bind[OF triple_transaction[OF assms(1) triple_bind[OF load tx]]])
      (auto simp: lift_result_def triple_def ret_def fail_def split: sum.splits)
qed

end

section \<open>Enqueueing again\<close>

text \<open>What the first reads of \<open>Enqueue\<close> find once the task is linked to \<open>q\<close>.\<close>

definition linked_to :: "int \<Rightarrow> int \<Rightarrow> db \<Rightarrow> bool" where
  "linked_to tid q s \<longleftrightarrow> q \<noteq> 0 \<and>
     (\<exists>k. tbl_get at_id tid (db_tasks s) = Some k \<and> intFromNull (at_queue_task_id k) = q) \<and>
     (\<exists>d. first_row (rev (filter (\<lambda>d. ed_status d = TaskEnqueueStatusEnqueued)
        (order_by ed_id (tbl_select (\<lambda>x. ed_task_id x = tid) (db_enqueues s))))) = Some d \<and>
        intFromNull (ed_queue_task_id d) = q)"

lemma linked_to_intro:
  assumes "decision_linked did tid q s" and "task_linked tid q s"
  shows "linked_to tid q s"
proof -
  let ?ds = "rev (filter (\<lambda>d. ed_status d = TaskEnqueueStatusEnqueued)
    (order_by ed_id (tbl_select (\<lambda>x. ed_task_id x = tid) (db_enqueues s))))"
  from assms(1) obtain d where "d \<in> set ?ds" by (auto simp: decision_linked_def dest: tbl_get_SomeD)
  then obtain x where x: "first_row ?ds = Some x" by (cases ?ds) auto
  with first_row_in[OF x] assms(1) have "ed_queue_task_id x = Some q"
    by (auto simp: decision_linked_def enqueue_active_def)
  with x assms(2) show ?thesis by (auto simp: linked_to_def task_linked_def)
qed

lemma linked_to_again:
  assumes "linked_to tid q s" and "er_task_id req = tid"
  shows "\<exists>out m. Enqueue enq redact opts req (calm_world t) n s = (Inr out, m, s) \<and> eq_existed out \<and> eq_queue_task_id out = q"
proof -
  from assms(1) obtain k d where k: "tbl_get at_id tid (db_tasks s) = Some k" "intFromNull (at_queue_task_id k) = q" "q \<noteq> 0"
    and d: "first_row (rev (filter (\<lambda>d. ed_status d = TaskEnqueueStatusEnqueued)
      (order_by ed_id (tbl_select (\<lambda>x. ed_task_id x = tid) (db_enqueues s))))) = Some d" "intFromNull (ed_queue_task_id d) = q"
    by (auto simp: linked_to_def)
  have get: "wrap_act x (GetAgenticTask (er_task_id req)) (calm_world t) n s = (Inr k, Suc n, s)" for x
    using k(1) assms(2) by (simp add: wrap_act_def GetAgenticTask_def query_def get_row_def)
  have latest: "latestEnqueuedDecision (at_id k) (calm_world t) n s = (Inr (Some d), Suc n, s)" for n
    using d tbl_get_SomeD[OF k(1)]
    by (simp add: latestEnqueuedDecision_def ListTaskEnqueueDecisionsByTask_def query_def bind_def ret_def wrap_act_def)
  have "Enqueue enq redact opts req (calm_world t) n s =
      (Inr \<lparr>eq_task = k, eq_decision = d, eq_queue_task_id = q, eq_existed = True\<rparr>, Suc (Suc n), s)"
    unfolding Enqueue_def using k(2,3) d(2)
    by (simp add: bind_run[where m = "wrap_act _ (GetAgenticTask _)", OF get]
        bind_run[where m = "latestEnqueuedDecision _", OF latest] ret_def)
  then show ?thesis by simp
qed

text \<open>An outcome of \<open>Enqueue\<close> that nobody else interferes with leaves its task linked.\<close>

lemma Enqueue_links:
  assumes "env_int64 (w_env w)"
  shows "triple (quiet w) enqueue_db_ok (Enqueue queue_EnqueueTx redact opts req)
     (\<lambda>out s. linked_to (er_task_id req) (eq_queue_task_id out) s) (\<lambda>_ _. True)"
  unfolding Enqueue_def
proof (rule triple_bind)
  let ?Q = "\<lambda>out s. linked_to (er_task_id req) (eq_queue_task_id out) s"
  let ?R = "\<lambda>k s. enqueue_db_ok s \<and> tbl_get at_id (er_task_id req) (db_tasks s) = Some k"
  show "triple (quiet w) enqueue_db_ok (wrap_act ''enqueue: get task'' (GetAgenticTask (er_task_id req)))
      ?R (\<lambda>_ _. True)"
    unfolding GetAgenticTask_def by (intro triple_wrap triple_query stable_quiet) (auto simp: get_row_Inr)
  fix k :: agentic_task
  let ?latest = "\<lambda>s. first_row (rev (filter (\<lambda>d. ed_status d = TaskEnqueueStatusEnqueued)
     (order_by ed_id (tbl_select (\<lambda>x. ed_task_id x = at_id k) (db_enqueues s)))))"
  have latest: "triple (quiet w) (?R k) (latestEnqueuedDecision (at_id k)) (\<lambda>d s. ?R k s \<and> ?latest s = d) (\<lambda>_ _. True)"
    unfolding latestEnqueuedDecision_def ListTaskEnqueueDecisionsByTask_def
    by (rule triple_bind[where R = "\<lambda>ds s. ?R k s \<and> ds = order_by ed_id (tbl_select (\<lambda>x. ed_task_id x = at_id k) (db_enqueues s))"],
        intro triple_wrap triple_query stable_quiet) (auto intro: triple_ret)
  have linked: "triple (quiet w) (\<lambda>s. ?R k s \<and> ?latest s = d)
      (case d of
         Some decision \<Rightarrow>
           if intFromNull (ed_queue_task_id decision) = intFromNull (at_queue_task_id k)
           then ret \<lparr>eq_task = k, eq_decision = decision, eq_queue_task_id = intFromNull (at_queue_task_id k), eq_existed = True\<rparr>
           else fail er
       | None \<Rightarrow> fail er) ?Q (\<lambda>_ _. True)" if "intFromNull (at_queue_task_id k) \<noteq> 0" for d er
    using that by (auto simp: linked_to_def dest: tbl_get_SomeD split: option.splits intro!: triple_fail triple_ret)
  have queued: "triple (quiet w) (?R k) (bind (attempt (EnqueueProposedTask queue_EnqueueTx (at_id k) decision payload key)) (\<lambda>r.
      case r of
        Inl er \<Rightarrow> if isActiveDecisionConflict er then fail nil_panic else fail (EWrap x er)
      | Inr (d, t, q, existed) \<Rightarrow> ret \<lparr>eq_task = t, eq_decision = d, eq_queue_task_id = q, eq_existed = existed\<rparr>))
      ?Q (\<lambda>_ _. True)" for decision payload key x
  proof (cases "at_id k = er_task_id req")
    case True
    show ?thesis unfolding True
      by (rule triple_bind[where R = "\<lambda>r s. case r of Inl er \<Rightarrow> True | Inr (d, t, q, existed) \<Rightarrow> linked_to (er_task_id req) q s"],
          rule triple_attempt, rule triple_conseq[OF queue_enq.EnqueueProposedTask_triple[OF stable_quiet]])
        (use assms in \<open>auto intro: linked_to_intro triple_fail triple_ret split: sum.splits\<close>)
  qed (auto simp: triple_def dest: tbl_get_SomeD)
  show "triple (quiet w) (?R k)
     (if intFromNull (at_queue_task_id k) \<noteq> 0 then
       bind (latestEnqueuedDecision (at_id k)) (\<lambda>d.
       case d of
         Some decision \<Rightarrow>
           if intFromNull (ed_queue_task_id decision) = intFromNull (at_queue_task_id k)
           then ret \<lparr>eq_task = k, eq_decision = decision,
                     eq_queue_task_id = intFromNull (at_queue_task_id k), eq_existed = True\<rparr>
           else fail (EMsg (''enqueue: task is already linked to queue task '' @ itoa (intFromNull (at_queue_task_id k))))
       | None \<Rightarrow> fail (EMsg (''enqueue: task is already linked to queue task '' @ itoa (intFromNull (at_queue_task_id k)))))
     else if at_status k \<noteq> TaskStatusProposed
     then fail (EMsg (''enqueue: task is not eligible: status '' @ quoted (at_status k)))
     else
       (let req = req\<lparr>er_enforcement := ToLower (TrimSpace (er_enforcement req)),
                       er_completion_gate := ToLower (TrimSpace (er_completion_gate req))\<rparr>
        in case validateModes opts req of
             Some er \<Rightarrow> fail er
           | None \<Rightarrow>
               (let payload = EncodeTaskPayload (payload_zero\<lparr>tp_prompt := at_prompt k,
                      tp_enforcement := er_enforcement req, tp_completion_gate := er_completion_gate req\<rparr>)
                in bind (attempt (EnqueueProposedTask queue_EnqueueTx (at_id k) (enqueue_decision_for redact (at_id k) req)
                      payload (enqueue_idempotencyKey (at_id k) (er_enforcement req) (er_completion_gate req)))) (\<lambda>r.
                   case r of
                     Inl er \<Rightarrow>
                       if isActiveDecisionConflict er then fail nil_panic
                       else fail (EWrap ''enqueue: queue proposed task'' er)
                   | Inr (d, t, q, existed) \<Rightarrow>
                       ret \<lparr>eq_task = t, eq_decision = d, eq_queue_task_id = q, eq_existed = existed\<rparr>)))) ?Q (\<lambda>_ _. True)"
    unfolding Let_def using triple_bind[OF latest linked]
    by (auto intro: queued triple_fail split: option.split)
qed


section \<open>Properties\<close>

text \<open>
  C26: \<open>EnqueueProposedTask\<close> on the daemon's queue, whatever other processes do to the database between
  transactions: if it succeeds, the decision it returns is enqueued, its task is pending, both carry the id
  of the same row of the queue and that row waits for the daemon, all in the same committed state.  If it
  fails, whatever held of the agentic tasks before still holds: no task is half linked.
\<close>

theorem enqueue_atomic:
  assumes "EnqueueProposedTask queue_EnqueueTx tid decision payload key w i s = (r, j, s')"
    and "stable w enqueue_db_ok" and "env_int64 (w_env w)" and "enqueue_db_ok s"
  shows "case r of
      Inr (d, k, q, existed) \<Rightarrow> decision_linked (ed_id d) tid q s' \<and> task_linked tid q s' \<and> queued q s'
    | Inl er \<Rightarrow> \<forall>P. stable w (\<lambda>s. P (db_tasks s)) \<longrightarrow> P (db_tasks s) \<longrightarrow> P (db_tasks s')"
  using assms(1) triple_run[OF queue_enq.EnqueueProposedTask_triple[OF assms(2,3)] assms(4)]
    triple_run_error[OF queue_enq.EnqueueProposedTask_failed[of w "\<lambda>s. P (db_tasks s)" for P]]
  by (auto split: sum.splits)

text \<open>The database of the witnesses: one proposed task.\<close>

definition proposed_task :: agentic_task where
  "proposed_task = \<lparr>at_id = 1, at_goal_id = None, at_signal_id = None, at_parent_id = None, at_queue_task_id = None,
     at_title = ''t'', at_prompt = ''p'', at_status = TaskStatusProposed, at_priority = 0, at_risk_level = RiskLevelLow,
     at_autonomy_decision = PolicyDecisionObserve, at_approval_request_id = '''',
     at_verification_status = VerificationStatusPending, at_due_at = None, at_created_at = 0, at_updated_at = 0\<rparr>"

definition proposed_db :: db where
  "proposed_db = db_empty\<lparr>db_tasks := \<lparr>tbl_rows = [proposed_task], tbl_next = 2\<rparr>\<rparr>"

definition enqueue_call :: enqueue_request where
  "enqueue_call = \<lparr>er_task_id = 1, er_operator_id = ''op'', er_reason = '''', er_enforcement = '''', er_completion_gate = ''''\<rparr>"

definition enqueue_defaults :: enqueue_options where
  "enqueue_defaults = \<lparr>eo_enforcement = '''', eo_completion_gate = ''''\<rparr>"

lemma proposed_db_ok: "enqueue_db_ok proposed_db" "enqueue_db_ok db_empty"
  by (simp_all add: enqueue_db_ok_def proposed_db_def db_empty_def)

lemma proposed_run:
  "case fst (EnqueueProposedTask queue_EnqueueTx 1 (enqueue_decision_for (\<lambda>s. s) 1 enqueue_call) ''p'' ''k''
     (calm_world 9) 0 proposed_db) of Inr (d, k, q, existed) \<Rightarrow> q = 1 \<and> \<not> existed | Inl _ \<Rightarrow> False"
  by code_simp

lemma enqueued_run:
  "case fst (Enqueue queue_EnqueueTx (\<lambda>s. s) enqueue_defaults enqueue_call (calm_world 9) 0 proposed_db)
     of Inr out \<Rightarrow> eq_queue_task_id out = 1 \<and> \<not> eq_existed out | Inl _ \<Rightarrow> False"
  by code_simp

theorem enqueue_atomic_witness:
  "\<exists>d k q existed j s'. EnqueueProposedTask queue_EnqueueTx 1 (enqueue_decision_for (\<lambda>s. s) 1 enqueue_call) ''p'' ''k''
       (calm_world 9) 0 proposed_db = (Inr (d, k, q, existed), j, s') \<and> q = 1 \<and>
     decision_linked (ed_id d) 1 q s' \<and> task_linked 1 q s' \<and> queued q s'"
proof -
  let ?run = "EnqueueProposedTask queue_EnqueueTx 1 (enqueue_decision_for (\<lambda>s. s) 1 enqueue_call) ''p'' ''k''
    (calm_world 9) 0 proposed_db"
  obtain r j s' where run: "?run = (r, j, s')" by (cases ?run)
  have "stable (calm_world 9) enqueue_db_ok" "env_int64 (w_env (calm_world 9))"
    by (simp_all add: stable_def env_int64_def int64_def calm_def)
  from enqueue_atomic[OF run this proposed_db_ok(1)] proposed_run run show ?thesis
    by (auto split: sum.splits)
qed

text \<open>
  Enqueueing a task again is harmless: after a successful \<open>Enqueue\<close> that nobody interfered with, a
  second call for the same task, whatever its operator, modes and configuration, reports the same row of the
  queue as already there and changes nothing.
\<close>

theorem enqueue_idempotent:
  assumes "Enqueue queue_EnqueueTx redact opts req (quiet w) i s = (Inr out, j, s')"
    and "env_int64 (w_env w)" and "enqueue_db_ok s" and "er_task_id req' = er_task_id req"
  shows "\<exists>out' m. Enqueue queue_EnqueueTx redact' opts' req' (calm_world t) n s' = (Inr out', m, s') \<and>
    eq_existed out' \<and> eq_queue_task_id out' = eq_queue_task_id out"
  by (rule linked_to_again[OF _ assms(4)]) (rule triple_run[OF Enqueue_links[OF assms(2)] assms(3,1)])

theorem enqueue_idempotent_witness:
  "\<exists>out j s' out' m. Enqueue queue_EnqueueTx (\<lambda>s. s) enqueue_defaults enqueue_call (calm_world 9) 0 proposed_db =
       (Inr out, j, s') \<and> eq_queue_task_id out = 1 \<and>
     Enqueue queue_EnqueueTx (\<lambda>s. s) enqueue_defaults enqueue_call (calm_world 20) 0 s' = (Inr out', m, s') \<and>
     eq_existed out' \<and> eq_queue_task_id out' = 1"
proof -
  let ?run = "Enqueue queue_EnqueueTx (\<lambda>s. s) enqueue_defaults enqueue_call (calm_world 9) 0 proposed_db"
  obtain out j s' where run: "?run = (Inr out, j, s')"
    using enqueued_run by (cases ?run) (auto split: sum.splits)
  have "env_int64 (w_env (calm_world 9))" by (simp add: env_int64_def int64_def calm_def)
  then have "\<exists>out' m. Enqueue queue_EnqueueTx (\<lambda>s. s) enqueue_defaults enqueue_call (calm_world 20) 0 s' =
      (Inr out', m, s') \<and> eq_existed out' \<and> eq_queue_task_id out' = eq_queue_task_id out"
    using enqueue_idempotent[of _ _ _ "calm_world 9" 0 proposed_db out j s' enqueue_call "\<lambda>s. s" enqueue_defaults 20 0]
      run proposed_db_ok(1) by simp
  with run enqueued_run show ?thesis by fastforce
qed

text \<open>
  C28: The branch for a decision that is already active never answers: \<open>Enqueue\<close> of a proposed task which is
  not linked and has an active decision ends in a nil dereference (the assignment from
  \<open>EnqueueProposedTask\<close> overwrote \<open>task\<close> with nil), and nothing is changed.
\<close>

theorem enqueue_conflict_panics:
  assumes "tbl_get at_id (er_task_id req) (db_tasks s) = Some k" and "at_queue_task_id k = None"
    and "at_status k = TaskStatusProposed" and "er_enforcement req = ''''" and "er_completion_gate req = ''''"
    and "d \<in> set (tbl_rows (db_enqueues s))" and "enqueue_active d" and "ed_task_id d = er_task_id req"
    and "tbl_next (db_enqueues s) \<le> max_key"
  shows "\<exists>j. Enqueue enq redact opts req (calm_world t) n s = (Inl nil_panic, j, s)"
proof -
  have id: "at_id k = er_task_id req" using tbl_get_SomeD[OF assms(1)] by simp
  have get: "GetAgenticTask (er_task_id req) (calm_world t) n s = (Inr k, Suc n, s)" for n
    using assms(1) by (simp add: GetAgenticTask_def query_def get_row_def)
  have clash: "unique_clash enqueue_active ed_task_id (db_enqueues s)
      (mk_enqueue (new_decision (er_task_id req) (enqueue_decision_for redact (er_task_id req) r), now) i)" for r now i
    using assms(6-8) unfolding unique_clash_def
    by (auto simp: mk_enqueue_def new_decision_def enqueue_decision_for_def Let_def enqueue_active_def or_else_def)
  have conflict: "isActiveDecisionConflict (EUnique ''task_enqueue_decisions.task_id'')"
    by code_simp
  have tx: "EnqueueProposedTask enq (er_task_id req) (enqueue_decision_for redact (er_task_id req) r) payload key
      (calm_world t) n s = (Inl (EUnique ''task_enqueue_decisions.task_id''), n + 4, s)" for r payload key n
    using assms(2,3,9) clash
    by (simp add: EnqueueProposedTask_def transaction_def bind_def get intFromNull_def now_ms_def on_table_def exec_def
        try_insert_def check_enqueue_def calm_def)
  have modes: "ToLower (TrimSpace []) = []" "validateModes opts (r\<lparr>er_enforcement := [], er_completion_gate := []\<rparr>) = None" for r
    by code_simp (simp add: validateModes_def)
  show ?thesis unfolding Enqueue_def
    using assms(2-5) id
    by (simp add: bind_def wrap_act_def get intFromNull_def modes attempt_def tx conflict fail_def Let_def)
qed

definition conflict_db :: db where
  "conflict_db = proposed_db\<lparr>db_enqueues := \<lparr>tbl_rows =
     [(enqueue_decision_for (\<lambda>s. s) 1 enqueue_call)\<lparr>ed_id := 1\<rparr>], tbl_next = 2\<rparr>\<rparr>"

theorem enqueue_conflict_panics_witness:
  "\<exists>j. Enqueue queue_EnqueueTx (\<lambda>s. s) enqueue_defaults enqueue_call (calm_world 9) 0 conflict_db =
     (Inl nil_panic, j, conflict_db)"
  by (rule enqueue_conflict_panics[where k = proposed_task and d = "(enqueue_decision_for (\<lambda>s. s) 1 enqueue_call)\<lparr>ed_id := 1\<rparr>"])
    (simp_all add: conflict_db_def proposed_db_def proposed_task_def enqueue_call_def enqueue_decision_for_def
       tbl_get_def tbl_select_def enqueue_active_def max_key_def)

end
