(* ===== verification/Completion_Gate.thy ===== *)
theory Completion_Gate
  imports Store_Records "HOL-Library.List_Lexorder" "HOL-Library.Char_ord"
begin

text \<open>
  \<open>internal/agentic/completion/gate.go\<close>: a task whose payload asks for verification is finished only
  when the gate lets it pass.  \<open>provider\<close> is the \<open>CompletionContextProvider\<close>, None where the gate has
  none; the receipts a context carries are in the JSON form \<open>json.Marshal\<close> gives them.
\<close>

section \<open>The context of a completion\<close>

record completion_context =
  cc_verification_hint :: bool
  cc_verification_observed :: "bool option"
  cc_verification_command :: string
  cc_verification_class :: string
  cc_verification_ownership :: string
  cc_completion_warning :: string
  cc_user_input_required :: bool
  cc_edit_intent :: bool
  cc_edit_observed :: "bool option"
  cc_reasoning_effort :: string
  cc_reasoning_effort_mode :: string
  cc_reasoning_effort_reason :: string
  cc_provider_name :: string
  cc_provider_effort :: string
  cc_provider_effort_note :: string
  cc_loaded_deferred_tools :: "string list"
  cc_skill_catalog_receipts :: "json list"
  cc_skill_execution_receipts :: "json list"
  cc_command_catalog_receipts :: "json list"
  cc_shell_command_receipts :: "json list"
  cc_tool_search_receipts :: "json list"
  cc_control_tool_receipts :: "json list"
  cc_diagnostic_delta_receipts :: "json list"
  cc_diagnostic_repair_hints :: "json list"
  cc_conditional_skill_matches :: "json list"
  cc_correction_attempted :: bool
  cc_correction_attempts :: int
  cc_correction_max_attempts :: int
  cc_correction_decision :: string
  cc_correction_reason :: string
  cc_correction_status :: string
  cc_correction_failure_family :: string
  cc_correction_attempt_details :: "json list"
  cc_retry_decision :: string
  cc_retry_reason :: string
  cc_recovery_scope_label :: string
  cc_allowed_recovery_paths :: "string list"
  cc_forbidden_recovery_paths :: "string list"
  cc_mutated_paths :: "string list"
  cc_out_of_scope_changed_files :: "string list"

definition context_zero :: completion_context where
  "context_zero = \<lparr>
          cc_verification_hint = False, cc_verification_observed = None, cc_verification_command = '''',
      cc_verification_class = '''', cc_verification_ownership = '''', cc_completion_warning = '''',
      cc_user_input_required = False, cc_edit_intent = False, cc_edit_observed = None,
      cc_reasoning_effort = '''', cc_reasoning_effort_mode = '''', cc_reasoning_effort_reason = '''',
      cc_provider_name = '''', cc_provider_effort = '''', cc_provider_effort_note = '''',
      cc_loaded_deferred_tools = [], cc_skill_catalog_receipts = [], cc_skill_execution_receipts = [],
      cc_command_catalog_receipts = [], cc_shell_command_receipts = [], cc_tool_search_receipts = [],
      cc_control_tool_receipts = [], cc_diagnostic_delta_receipts = [], cc_diagnostic_repair_hints = [],
      cc_conditional_skill_matches = [], cc_correction_attempted = False, cc_correction_attempts = 0,
      cc_correction_max_attempts = 0, cc_correction_decision = '''', cc_correction_reason = '''',
      cc_correction_status = '''', cc_correction_failure_family = '''', cc_correction_attempt_details =
      [], cc_retry_decision = '''', cc_retry_reason = '''', cc_recovery_scope_label = '''',
      cc_allowed_recovery_paths = [], cc_forbidden_recovery_paths = [], cc_mutated_paths = [],
      cc_out_of_scope_changed_files = []\<rparr>"

section \<open>The summary of a decision\<close>

text \<open>\<open>put\<close> sets a key of a Go map; \<open>json.Marshal\<close> writes the keys of a map in byte order.\<close>

definition put :: "string \<Rightarrow> 'v \<Rightarrow> (string \<times> 'v) list \<Rightarrow> (string \<times> 'v) list" where
  "put k v m = (k, v) # filter (\<lambda>(k', _). k' \<noteq> k) m"

definition lookup_or :: "'v \<Rightarrow> string \<Rightarrow> (string \<times> 'v) list \<Rightarrow> 'v" where
  "lookup_or z k m = (case map_of m k of None \<Rightarrow> z | Some v \<Rightarrow> v)"

definition receiptSummary :: "tool_receipt list \<Rightarrow> (string \<times> int) list" where
  "receiptSummary receipts =
     fold (\<lambda>r m. put (tr_status r) (lookup_or 0 (tr_status r) m + 1) m) receipts
       [(ReceiptStatusStarted, 0), (ReceiptStatusSucceeded, 0), (ReceiptStatusFailed, 0),
        (ReceiptStatusDenied, 0), (ReceiptStatusApprovalRequired, 0)]"

definition optional :: "bool \<Rightarrow> string \<Rightarrow> json \<Rightarrow> (string \<times> json) list" where
  "optional c k v = (if c then [(k, v)] else [])"

definition context_members :: "completion_context \<Rightarrow> (string \<times> json) list" where
  "context_members c =
     concat [
      optional (cc_verification_hint c) ''verification_hint'' (JBool True),
      (case cc_verification_observed c of None \<Rightarrow> [] | Some b \<Rightarrow> [(''verification_observed'', JBool b)]),
      optional (cc_verification_command c \<noteq> '''') ''verification_command'' (JStr (cc_verification_command c)),
      optional (cc_verification_class c \<noteq> '''') ''verification_class'' (JStr (cc_verification_class c)),
      optional (cc_verification_ownership c \<noteq> '''') ''verification_ownership'' (JStr (cc_verification_ownership c)),
      optional (cc_completion_warning c \<noteq> '''') ''completion_warning'' (JStr (cc_completion_warning c)),
      optional (cc_user_input_required c) ''user_input_required'' (JBool True),
      optional (cc_edit_intent c) ''edit_intent'' (JBool True),
      (case cc_edit_observed c of None \<Rightarrow> [] | Some b \<Rightarrow> [(''edit_observed'', JBool b)]),
      optional (cc_reasoning_effort c \<noteq> '''') ''reasoning_effort'' (JStr (cc_reasoning_effort c)),
      optional (cc_reasoning_effort_mode c \<noteq> '''') ''reasoning_effort_mode'' (JStr (cc_reasoning_effort_mode c)),
      optional (cc_reasoning_effort_reason c \<noteq> '''') ''reasoning_effort_reason'' (JStr (cc_reasoning_effort_reason c)),
      optional (cc_provider_name c \<noteq> '''') ''provider_name'' (JStr (cc_provider_name c)),
      optional (cc_provider_effort c \<noteq> '''') ''provider_effort'' (JStr (cc_provider_effort c)),
      optional (cc_provider_effort_note c \<noteq> '''') ''provider_effort_note'' (JStr (cc_provider_effort_note c)),
      optional (cc_loaded_deferred_tools c \<noteq> []) ''loaded_deferred_tools'' (JArr (map JStr (cc_loaded_deferred_tools c))),
      optional (cc_skill_catalog_receipts c \<noteq> []) ''skill_catalog_receipts'' (JArr (cc_skill_catalog_receipts c)),
      optional (cc_skill_execution_receipts c \<noteq> []) ''skill_execution_receipts'' (JArr (cc_skill_execution_receipts c)),
      optional (cc_command_catalog_receipts c \<noteq> []) ''command_catalog_receipts'' (JArr (cc_command_catalog_receipts c)),
      optional (cc_shell_command_receipts c \<noteq> []) ''shell_command_receipts'' (JArr (cc_shell_command_receipts c)),
      optional (cc_tool_search_receipts c \<noteq> []) ''tool_search_receipts'' (JArr (cc_tool_search_receipts c)),
      optional (cc_control_tool_receipts c \<noteq> []) ''control_tool_receipts'' (JArr (cc_control_tool_receipts c)),
      optional (cc_diagnostic_delta_receipts c \<noteq> []) ''diagnostic_delta_receipts'' (JArr (cc_diagnostic_delta_receipts c)),
      optional (cc_diagnostic_repair_hints c \<noteq> []) ''diagnostic_repair_hints'' (JArr (cc_diagnostic_repair_hints c)),
      optional (cc_conditional_skill_matches c \<noteq> []) ''conditional_skill_matches'' (JArr (cc_conditional_skill_matches c)),
      optional (cc_correction_attempted c) ''correction_attempted'' (JBool True),
      optional (cc_correction_attempts c > 0) ''correction_attempts'' (JNum (itoa (cc_correction_attempts c))),
      optional (cc_correction_max_attempts c > 0) ''correction_max_attempts'' (JNum (itoa (cc_correction_max_attempts c))),
      optional (cc_correction_decision c \<noteq> '''') ''correction_decision'' (JStr (cc_correction_decision c)),
      optional (cc_correction_reason c \<noteq> '''') ''correction_reason'' (JStr (cc_correction_reason c)),
      optional (cc_correction_status c \<noteq> '''') ''correction_status'' (JStr (cc_correction_status c)),
      optional (cc_correction_failure_family c \<noteq> '''') ''correction_failure_family'' (JStr (cc_correction_failure_family c)),
      optional (cc_correction_attempt_details c \<noteq> []) ''correction_attempt_details'' (JArr (cc_correction_attempt_details c)),
      optional (cc_retry_decision c \<noteq> '''') ''retry_decision'' (JStr (cc_retry_decision c)),
      optional (cc_retry_reason c \<noteq> '''') ''retry_reason'' (JStr (cc_retry_reason c)),
      optional (cc_recovery_scope_label c \<noteq> '''') ''recovery_scope_label'' (JStr (cc_recovery_scope_label c)),
      optional (cc_allowed_recovery_paths c \<noteq> []) ''allowed_recovery_paths'' (JArr (map JStr (cc_allowed_recovery_paths c))),
      optional (cc_forbidden_recovery_paths c \<noteq> []) ''forbidden_recovery_paths'' (JArr (map JStr (cc_forbidden_recovery_paths c))),
      optional (cc_mutated_paths c \<noteq> []) ''mutated_paths'' (JArr (map JStr (cc_mutated_paths c))),
      optional (cc_out_of_scope_changed_files c \<noteq> []) ''out_of_scope_changed_files'' (JArr (map JStr (cc_out_of_scope_changed_files c)))]"

definition encodeReceiptSummary :: "(string \<times> int) list \<Rightarrow> completion_context \<Rightarrow> string" where
  "encodeReceiptSummary summary c =
     print_json (JObj (sort_key fst (fold (\<lambda>(k, v). put k v) (context_members c)
       (map (\<lambda>(k, n). (k, JNum (itoa n))) summary))))"

section \<open>The gate\<close>

abbreviation ModeObserve :: string where "ModeObserve \<equiv> ''observe''"
abbreviation ModeVerification :: string where "ModeVerification \<equiv> ''verification''"

record gate_decision =
  gd_passed :: bool
  gd_status :: string
  gd_reason :: string
  gd_verification_run_id :: int
  gd_gate_id :: int

text \<open>\<open>gc_store\<close>: the gate and its store are not nil.\<close>

record gate_conf =
  gc_store :: bool
  gc_mode :: string

type_synonym context_provider = "task \<Rightarrow> int \<Rightarrow> (db, completion_context) act"

definition NewGate :: "bool \<Rightarrow> string \<Rightarrow> gate_conf" where
  "NewGate store mode0 =
     (let mode = ToLower (TrimSpace mode0)
      in \<lparr>gc_store = store, gc_mode = (if mode = '''' then ModeObserve else mode)\<rparr>)"

definition ErrNilStore :: err where "ErrNilStore = EMsg ''completion gate: nil store''"
definition ErrMissingTaskID :: err where
  "ErrMissingTaskID = EMsg ''completion gate: agentic task id is required''"

definition requestedGate :: "task \<Rightarrow> string" where
  "requestedGate k = ToLower (TrimSpace (tp_completion_gate (ParseTaskPayload (tk_payload k))))"

definition gate_Validate :: "gate_conf \<Rightarrow> task \<Rightarrow> int \<Rightarrow> err option" where
  "gate_Validate g k taskID =
     (let requested = requestedGate k in
      if requested = '''' then None
      else if requested \<noteq> ModeVerification
      then Some (EMsg (''unsupported agentic completion gate mode '' @ quoted requested))
      else if \<not> gc_store g then Some ErrNilStore
      else if gc_mode g \<noteq> ModeVerification
      then Some (EMsg (''completion gate requested but config maximum is '' @ quoted (gc_mode g)))
      else if taskID = 0 then Some ErrMissingTaskID
      else None)"

text \<open>The loop of \<open>latestRelevantVerification\<close>: the newest run, and the newest that is not stale.\<close>

definition newer :: "verification_run \<Rightarrow> verification_run option \<Rightarrow> bool" where
  "newer r latest = (case latest of None \<Rightarrow> True | Some l \<Rightarrow> vr_id r > vr_id l)"

fun scan_runs ::
  "int \<Rightarrow> verification_run list \<Rightarrow> verification_run option \<Rightarrow> verification_run option
     \<Rightarrow> verification_run option \<times> verification_run option" where
  "scan_runs started [] latestAny latestRelevant = (latestAny, latestRelevant)"
| "scan_runs started (r # rs) latestAny latestRelevant =
     (let any = (if newer r latestAny then Some r else latestAny) in
      if started \<noteq> zero_time \<and> vr_created_at r < started then scan_runs started rs any latestRelevant
      else scan_runs started rs any (if newer r latestRelevant then Some r else latestRelevant))"

definition latest_verdict :: "task \<Rightarrow> verification_run list \<Rightarrow> verification_run option \<times> string" where
  "latest_verdict k runs =
     (if runs = [] then (None, ''missing verifier run'')
      else
        (case scan_runs (tk_started_at k) runs None None of
           (any, None) \<Rightarrow> (any, ''stale verifier run'')
         | (any, Some r) \<Rightarrow>
             if vr_verdict r \<noteq> VerificationVerdictPassed then (Some r, ''verifier '' @ vr_verdict r)
             else (Some r, '''')))"

definition latestRelevantVerification :: "task \<Rightarrow> int \<Rightarrow> (db, verification_run option \<times> string) act" where
  "latestRelevantVerification k taskID =
     bind (ListVerificationRunsByTask taskID) (\<lambda>runs. ret (latest_verdict k runs))"

definition verificationID :: "verification_run option \<Rightarrow> int" where
  "verificationID r = (case r of None \<Rightarrow> 0 | Some x \<Rightarrow> vr_id x)"

definition gate_record :: "task \<Rightarrow> int \<Rightarrow> int \<Rightarrow> string \<Rightarrow> string \<Rightarrow> string \<Rightarrow> (db, gate_decision) act" where
  "gate_record k taskID runID status reason summaryJSON =
     bind now_ms (\<lambda>now.
     bind (wrap_act ''completion gate ledger'' (CreateCompletionGate
       \<lparr>cg_id = 0, cg_task_id = taskID, cg_queue_task_id = nullableInt (tk_id k),
        cg_verification_run_id = nullableInt runID, cg_status = status, cg_reason = reason,
        cg_receipt_summary_json = summaryJSON, cg_created_at = now, cg_updated_at = now\<rparr>)) (\<lambda>gate.
     ret \<lparr>gd_passed = (status = CompletionGateStatusPassed), gd_status = status, gd_reason = reason,
          gd_verification_run_id = runID, gd_gate_id = cg_id gate\<rparr>))"

definition completionContext :: "context_provider option \<Rightarrow> task \<Rightarrow> int \<Rightarrow> (db, completion_context) act" where
  "completionContext provider k taskID =
     (case provider of
        None \<Rightarrow> ret context_zero
      | Some p \<Rightarrow> bind (attempt (p k taskID)) (\<lambda>r. ret (case r of Inl _ \<Rightarrow> context_zero | Inr c \<Rightarrow> c)))"

text \<open>The status and the reason \<open>Evaluate\<close> records.\<close>

definition gate_verdict ::
  "verification_run option \<times> string \<Rightarrow> (string \<times> int) list \<Rightarrow> completion_context \<Rightarrow> string \<times> string" where
  "gate_verdict v summary c =
     (case v of (run, verifierReason) \<Rightarrow>
        if verifierReason \<noteq> '''' then (CompletionGateStatusBlocked, verifierReason)
        else if lookup_or 0 ReceiptStatusStarted summary > 0
        then (CompletionGateStatusBlocked,
              ''non-terminal receipt started='' @ itoa (lookup_or 0 ReceiptStatusStarted summary))
        else if cc_completion_warning c \<noteq> ''''
        then (CompletionGateStatusBlocked, ''completion warning: '' @ cc_completion_warning c)
        else (CompletionGateStatusPassed, ''verification passed''))"

definition gate_Evaluate ::
  "gate_conf \<Rightarrow> context_provider option \<Rightarrow> task \<Rightarrow> int \<Rightarrow> (db, gate_decision) act" where
  "gate_Evaluate g provider k taskID =
     (case gate_Validate g k taskID of
        Some er \<Rightarrow> fail er
      | None \<Rightarrow>
          if requestedGate k = ''''
          then ret \<lparr>gd_passed = True, gd_status = CompletionGateStatusPassed,
                 gd_reason = ''completion gate not requested'', gd_verification_run_id = 0, gd_gate_id = 0\<rparr>
          else
            bind (wrap_act ''completion gate verifier lookup'' (latestRelevantVerification k taskID)) (\<lambda>v.
            bind (wrap_act ''completion gate receipt lookup'' (ListToolActionReceiptsByTask taskID)) (\<lambda>receipts.
            bind (completionContext provider k taskID) (\<lambda>c.
            let summary = receiptSummary receipts in
            case gate_verdict v summary c of
              (status, reason) \<Rightarrow>
                gate_record k taskID (verificationID (fst v)) status reason (encodeReceiptSummary summary c)))))"

section \<open>What a passed gate rests on\<close>

definition fresh_run :: "task \<Rightarrow> verification_run \<Rightarrow> bool" where
  "fresh_run k r \<longleftrightarrow> \<not> (tk_started_at k \<noteq> zero_time \<and> vr_created_at r < tk_started_at k)"

text \<open>The newest run that is not older than the task's start says passed.\<close>

definition verified :: "task \<Rightarrow> int \<Rightarrow> verification_run table \<Rightarrow> bool" where
  "verified k taskID t \<longleftrightarrow> (\<exists>r \<in> set (tbl_rows t).
     vr_task_id r = taskID \<and> fresh_run k r \<and> vr_verdict r = VerificationVerdictPassed \<and>
     (\<forall>r' \<in> set (tbl_rows t). vr_task_id r' = taskID \<and> fresh_run k r' \<longrightarrow> vr_id r' \<le> vr_id r))"

definition settled :: "int \<Rightarrow> tool_receipt table \<Rightarrow> bool" where
  "settled taskID t \<longleftrightarrow> (\<forall>r \<in> set (tbl_rows t).
     tr_task_id r = taskID \<longrightarrow> tr_status r \<noteq> ReceiptStatusStarted)"

lemma scan_runs_newest:
  "snd (scan_runs (tk_started_at k) rs any rel) = b \<Longrightarrow>
     (case b of
        None \<Rightarrow> rel = None \<and> (\<forall>r \<in> set rs. \<not> fresh_run k r)
      | Some r \<Rightarrow> (rel = Some r \<or> r \<in> set rs \<and> fresh_run k r) \<and>
          (\<forall>r' \<in> set rs. fresh_run k r' \<longrightarrow> vr_id r' \<le> vr_id r) \<and> (\<forall>l. rel = Some l \<longrightarrow> vr_id l \<le> vr_id r))"
proof (induction "tk_started_at k" rs any rel rule: scan_runs.induct)
  case (2 r rs any rel)
  let ?any = "if newer r any then Some r else any"
  show ?case
  proof (cases "fresh_run k r")
    case True
    then have "snd (scan_runs (tk_started_at k) rs ?any (if newer r rel then Some r else rel)) = b"
      using 2(3) by (auto simp: fresh_run_def Let_def)
    from 2(2)[OF refl _ this] True show ?thesis
      by (auto simp: fresh_run_def newer_def split: option.splits if_splits)
  next
    case False
    then have "snd (scan_runs (tk_started_at k) rs ?any rel) = b"
      using 2(3) by (auto simp: fresh_run_def Let_def)
    from 2(1)[OF refl _ this] False show ?thesis
      by (auto simp: fresh_run_def split: option.splits)
  qed
qed (auto split: option.splits)

lemma latest_verdict_passed:
  "snd (latest_verdict k rs) = '''' \<longleftrightarrow>
     (\<exists>r \<in> set rs. fresh_run k r \<and> vr_verdict r = VerificationVerdictPassed \<and>
        (\<forall>r' \<in> set rs. fresh_run k r' \<longrightarrow> vr_id r' \<le> vr_id r))"
  if "inj_on vr_id (set rs)"
proof (cases "rs = []")
  case False
  obtain any b where scan: "scan_runs (tk_started_at k) rs None None = (any, b)" by fastforce
  with scan_runs_newest[of k rs None None b] have "case b of
        None \<Rightarrow> \<forall>r \<in> set rs. \<not> fresh_run k r
      | Some r \<Rightarrow> r \<in> set rs \<and> fresh_run k r \<and> (\<forall>r' \<in> set rs. fresh_run k r' \<longrightarrow> vr_id r' \<le> vr_id r)"
    by (auto split: option.splits)
  with False scan show ?thesis
    by (auto simp: latest_verdict_def split: option.splits) (metis inj_onD order_antisym that)+
qed (simp add: latest_verdict_def)

lemma lookup_put: "lookup_or z x (put k v m) = (if x = k then v else lookup_or z x m)"
proof -
  have "map_of (filter (\<lambda>(k', _). k' \<noteq> k) m) x = (if x = k then None else map_of m x)"
    by (induction m) auto
  then show ?thesis by (simp add: lookup_or_def put_def)
qed

lemma receiptSummary_count:
  "lookup_or 0 x (receiptSummary rs) = int (length (filter (\<lambda>r. tr_status r = x) rs))"
proof -
  have "lookup_or 0 x (fold (\<lambda>r m. put (tr_status r) (lookup_or 0 (tr_status r) m + 1) m) rs m) =
      lookup_or 0 x m + int (length (filter (\<lambda>r. tr_status r = x) rs))" for m
    by (induction rs arbitrary: m) (auto simp: lookup_put)
  then show ?thesis by (simp add: receiptSummary_def lookup_or_def)
qed

lemma none_started:
  "lookup_or 0 x (receiptSummary rs) \<le> 0 \<longleftrightarrow> (\<forall>r \<in> set rs. tr_status r \<noteq> x)"
  by (auto simp: receiptSummary_count filter_empty_conv)

lemma gate_verdict_passed:
  "fst (gate_verdict v summary c) = CompletionGateStatusPassed \<longleftrightarrow>
     snd v = '''' \<and> lookup_or 0 ReceiptStatusStarted summary \<le> 0 \<and> cc_completion_warning c = ''''"
  by (auto simp: gate_verdict_def split: prod.splits)

interpretation gate_table: keyed_table cg_id mk_gate
  by unfold_locales (simp add: mk_gate_def Let_def split: prod.splits)

text \<open>
  The row the gate writes: a passed one only for a task that was verified, whose receipts are all
  closed and whose context carries no warning.
\<close>

definition gate_row_for :: "task \<Rightarrow> int \<Rightarrow> gate_decision \<Rightarrow> db \<Rightarrow> bool" where
  "gate_row_for k taskID d s \<longleftrightarrow> (\<exists>g. tbl_get cg_id (gd_gate_id d) (db_gates s) = Some g \<and>
     cg_task_id g = taskID \<and> cg_queue_task_id g = nullableInt (tk_id k) \<and> cg_status g = gd_status d \<and>
     cg_verification_run_id g = nullableInt (gd_verification_run_id d))"

lemma gate_record_row:
  "triple (quiet w) (\<lambda>s. P (db_verifications s) (db_receipts s) \<and> keys_ok cg_id (db_gates s))
     (gate_record k taskID runID status reason summaryJSON)
     (\<lambda>d s. P (db_verifications s) (db_receipts s) \<and> gate_row_for k taskID d s \<and> gd_status d = status \<and>
        gd_passed d = (status = CompletionGateStatusPassed)) (\<lambda>_ _. True)"
proof -
  let ?P = "\<lambda>s. P (db_verifications s) (db_receipts s)"
  let ?I = "\<lambda>s. ?P s \<and> keys_ok cg_id (db_gates s)"
  let ?R = "\<lambda>r s. ?P s \<and> tbl_get cg_id (cg_id r) (db_gates s) = Some r \<and> cg_task_id r = taskID \<and>
    cg_queue_task_id r = nullableInt (tk_id k) \<and> cg_status r = status \<and> cg_verification_run_id r = nullableInt runID"
  have "triple (quiet w) ?I (CreateCompletionGate
      \<lparr>cg_id = 0, cg_task_id = taskID, cg_queue_task_id = nullableInt (tk_id k),
       cg_verification_run_id = nullableInt runID, cg_status = status, cg_reason = reason,
       cg_receipt_summary_json = summaryJSON, cg_created_at = t, cg_updated_at = t\<rparr>) ?R (\<lambda>_ _. True)" for t
    unfolding CreateCompletionGate_def GetCompletionGate_def
    by (rule triple_bind[OF triple_now[of _ "\<lambda>_. ?I"]], assumption,
        rule triple_conseq[OF gate_table.insert_get_triple[where P = ?P and Q = ?P]])
      (auto simp: mk_gate_def Let_def norm_null_def)
  note created = triple_wrap[where E = "\<lambda>_ _. True", OF this]
  show ?thesis unfolding gate_record_def
    by (rule triple_bind[OF triple_now[of _ "\<lambda>_. ?I"]], assumption, rule triple_bind[OF created])
      (auto simp: gate_row_for_def intro!: triple_ret)
qed

text \<open>A provider that only reads.\<close>

definition reads_only :: "('s, 'a) act \<Rightarrow> bool" where
  "reads_only m \<longleftrightarrow> (\<forall>w i s. act_state (m (quiet w) i s) = s)"

lemma triple_reads: "reads_only m \<Longrightarrow> triple (quiet w) P m (\<lambda>_. P) (\<lambda>_. P)"
  unfolding triple_def reads_only_def act_state_def
  by (simp split: prod.splits sum.splits) (metis snd_conv)

lemma context_reads:
  assumes "\<And>p. provider = Some p \<Longrightarrow> reads_only (p k taskID)"
  shows "reads_only (completionContext provider k taskID)"
proof (cases provider)
  case (Some p)
  with assms have "act_state (p k taskID (quiet w) i s) = s" for w i s by (simp add: reads_only_def)
  then show ?thesis
    by (auto simp: Some reads_only_def completionContext_def bind_def attempt_def ret_def act_state_def
      split: prod.splits sum.splits) (metis snd_conv)
qed (simp add: reads_only_def completionContext_def ret_def act_state_def)

definition gate_db_ok :: "db \<Rightarrow> bool" where
  "gate_db_ok s \<longleftrightarrow> keys_ok vr_id (db_verifications s) \<and> keys_ok cg_id (db_gates s)"

lemma runs_verdict:
  assumes "keys_ok vr_id (db_verifications s)"
    and "runs = order_by vr_id (tbl_select (\<lambda>x. vr_task_id x = taskID) (db_verifications s))"
  shows "snd (latest_verdict k runs) = '''' \<longleftrightarrow> verified k taskID (db_verifications s)"
proof -
  have "inj_on vr_id (set runs)"
    using assms(2) keys_ok_inj[OF assms(1)] by (auto simp: inj_on_def)
  from latest_verdict_passed[OF this] show ?thesis
    by (auto simp: verified_def assms(2))
qed

lemma gate_Evaluate_triple:
  assumes "\<And>p. provider = Some p \<Longrightarrow> reads_only (p k taskID)" and "requestedGate k \<noteq> ''''"
  shows "triple (quiet w) gate_db_ok (gate_Evaluate g provider k taskID)
    (\<lambda>d s. gate_row_for k taskID d s \<and> gd_passed d = (gd_status d = CompletionGateStatusPassed) \<and>
       (gd_passed d \<longrightarrow> verified k taskID (db_verifications s) \<and> settled taskID (db_receipts s))) (\<lambda>_ _. True)"
proof -
  let ?ok = "\<lambda>v c. snd v = '''' \<and> c \<le> (0 :: int)"
  let ?R1 = "\<lambda>v s. gate_db_ok s \<and> (snd v = '''' \<longleftrightarrow> verified k taskID (db_verifications s))"
  let ?R2 = "\<lambda>v rs s. ?R1 v s \<and> (lookup_or 0 ReceiptStatusStarted (receiptSummary rs) \<le> 0 \<longleftrightarrow> settled taskID (db_receipts s))"
  let ?Q = "\<lambda>d s. gate_row_for k taskID d s \<and> gd_passed d = (gd_status d = CompletionGateStatusPassed) \<and>
       (gd_passed d \<longrightarrow> verified k taskID (db_verifications s) \<and> settled taskID (db_receipts s))"
  have runs: "triple (quiet w) gate_db_ok (latestRelevantVerification k taskID) ?R1 (\<lambda>_ _. True)"
    unfolding latestRelevantVerification_def ListVerificationRunsByTask_def
    by (rule triple_bind[OF triple_query[where Q = "\<lambda>rs s. gate_db_ok s \<and>
          rs = order_by vr_id (tbl_select (\<lambda>x. vr_task_id x = taskID) (db_verifications s))"]])
      (auto simp: gate_db_ok_def runs_verdict intro!: triple_ret)
  have receipts: "triple (quiet w) (?R1 v) (ListToolActionReceiptsByTask taskID) (?R2 v) (\<lambda>_ _. True)" for v
    unfolding ListToolActionReceiptsByTask_def
    by (rule triple_query) (auto simp: settled_def none_started)
  have provided: "triple (quiet w) (?R2 v rs) (completionContext provider k taskID) (\<lambda>_. ?R2 v rs) (\<lambda>_ _. True)" for v rs
    by (rule triple_conseq[OF triple_reads[OF context_reads[OF assms(1)]]]) auto
  have recorded: "triple (quiet w) (?R2 v rs) (case gate_verdict v (receiptSummary rs) c of (status, reason) \<Rightarrow>
      gate_record k taskID (verificationID (fst v)) status reason (f rs c)) ?Q (\<lambda>_ _. True)" for v rs c f
  proof -
    obtain status reason where v: "gate_verdict v (receiptSummary rs) c = (status, reason)" by fastforce
    let ?P = "\<lambda>vs ts. (snd v = '''' \<longleftrightarrow> verified k taskID vs) \<and>
      (lookup_or 0 ReceiptStatusStarted (receiptSummary rs) \<le> 0 \<longleftrightarrow> settled taskID ts)"
    show ?thesis unfolding v prod.case
      by (rule triple_conseq[OF gate_record_row[where P = ?P]])
        (use gate_verdict_passed[of v "receiptSummary rs" c] v in \<open>auto simp: gate_db_ok_def\<close>)
  qed
  show ?thesis
    using assms(2) triple_bind[OF triple_wrap[where E = "\<lambda>_ _. True", OF runs]
      triple_bind[OF triple_wrap[where E = "\<lambda>_ _. True", OF receipts] triple_bind[OF provided recorded]]]
    by (auto simp: gate_Evaluate_def Let_def intro: triple_fail split: option.split)
qed

end
