(* ===== verification/Task_Envelope.thy ===== *)
theory Task_Envelope
  imports Store_Records
begin

text \<open>
  \<open>internal/agentic/runtime/envelope.go\<close>: the agentic task a run of the daemon is recorded under, and the
  small services that write the store beside it: \<open>internal/agentic/verification/recorder.go\<close>,
  \<open>internal/agentic/actors/recorder.go\<close> and \<open>internal/agentic/triage/triage.go\<close>.
\<close>

section \<open>The envelope of a daemon task\<close>

definition daemonTaskTitle :: "task_payload \<Rightarrow> string \<Rightarrow> string" where
  "daemonTaskTitle payload prompt =
     (if tp_type payload = ''research'' then ''Research task''
      else if tp_type payload = ''skill-promote'' then ''Skill promotion task''
      else if prompt = '''' then ''Daemon task''
      else if length prompt \<le> 80 then prompt
      else take 77 prompt @ ''...'')"

definition envelope_prompt :: "task \<Rightarrow> string" where
  "envelope_prompt k =
     (let prompt = tp_prompt (ParseTaskPayload (tk_payload k))
      in if prompt = '''' then TrimSpace (tk_payload k) else prompt)"

definition envelope_task :: "task \<Rightarrow> agentic_task" where
  "envelope_task k =
     \<lparr>at_id = 0, at_goal_id = None, at_signal_id = None, at_parent_id = None,
      at_queue_task_id = nullableInt (tk_id k),
      at_title = daemonTaskTitle (ParseTaskPayload (tk_payload k)) (envelope_prompt k),
      at_prompt = envelope_prompt k, at_status = TaskStatusRunning, at_priority = 0,
      at_risk_level = RiskLevelLow, at_autonomy_decision = PolicyDecisionObserve,
      at_approval_request_id = '''', at_verification_status = VerificationStatusPending, at_due_at = None,
      at_created_at = zero_time, at_updated_at = zero_time\<rparr>"

text \<open>The handle \<open>Start\<close> returns is the id of the agentic task.\<close>

definition envelope_Start :: "task \<Rightarrow> (db, int) act" where
  "envelope_Start k =
     bind (attempt (GetAgenticTaskByQueueTaskID (tk_id k))) (\<lambda>r.
     case r of
       Inr existing \<Rightarrow>
         bind (UpdateAgenticTaskStatus (at_id existing) TaskStatusRunning) (\<lambda>updated. ret (at_id updated))
     | Inl er \<Rightarrow>
         if er \<noteq> ErrNoRows then fail er
         else
           bind (attempt (CreateAgenticTask (envelope_task k))) (\<lambda>c.
           case c of
             Inr created \<Rightarrow> ret (at_id created)
           | Inl er2 \<Rightarrow>
               bind (attempt (GetAgenticTaskByQueueTaskID (tk_id k))) (\<lambda>g.
               case g of Inr existing \<Rightarrow> ret (at_id existing) | Inl _ \<Rightarrow> fail er2)))"

definition envelope_Succeed :: "int \<Rightarrow> (db, unit) act" where
  "envelope_Succeed i = bind (UpdateAgenticTaskStatus i TaskStatusSucceeded) (\<lambda>_. ret ())"

definition envelope_Fail :: "int \<Rightarrow> (db, unit) act" where
  "envelope_Fail i = bind (UpdateAgenticTaskStatus i TaskStatusFailed) (\<lambda>_. ret ())"

definition envelope_Reconcile :: "(db, unit) act" where
  "envelope_Reconcile = ReconcileDaemonTaskStatuses"

section \<open>Verification runs\<close>

definition MaxReasonBytes :: nat where "MaxReasonBytes = 2048"

definition validVerdict :: "string \<Rightarrow> bool" where
  "validVerdict verdict \<longleftrightarrow> verdict = VerificationVerdictPassed \<or> verdict = VerificationVerdictFailed \<or>
     verdict = VerificationVerdictInconclusive"

text \<open>\<open>redact\<close> is the detector of secrets.\<close>

definition sanitizeReason :: "(string \<Rightarrow> string) \<Rightarrow> string \<Rightarrow> string" where
  "sanitizeReason redact reason0 =
     (let reason = TrimSpace (redact reason0)
      in if length reason \<le> MaxReasonBytes then reason else take MaxReasonBytes reason)"

definition RecordVerificationRun :: "(string \<Rightarrow> string) \<Rightarrow> verification_run \<Rightarrow> (db, verification_run) act" where
  "RecordVerificationRun redact run =
     (if vr_task_id run = 0 then fail (EMsg ''verification: missing task_id'')
      else if \<not> validVerdict (vr_verdict run)
      then fail (EMsg (''verification: invalid verdict: '' @ vr_verdict run))
      else if json_parse (vr_criteria_json run) = None
      then fail (EMsg ''verification: criteria_json must be valid JSON'')
      else if json_parse (vr_evidence_refs_json run) = None
      then fail (EMsg ''verification: evidence_refs_json must be valid JSON'')
      else CreateVerificationRun (run\<lparr>vr_reason := sanitizeReason redact (vr_reason run)\<rparr>))"

section \<open>Actors\<close>

definition CreateActor :: "agent_actor \<Rightarrow> (db, agent_actor) act" where
  "CreateActor actor = CreateAgentActor actor"

definition UpdateActor :: "agent_actor \<Rightarrow> (db, agent_actor) act" where
  "UpdateActor actor = UpdateAgentActor actor"

definition CreateHandoff :: "actor_handoff \<Rightarrow> (db, actor_handoff) act" where
  "CreateHandoff handoff = CreateActorHandoff handoff"

section \<open>Triage\<close>

record triage_summary =
  ts_processed :: int
  ts_created :: int
  ts_linked :: int
  ts_failed :: int
  ts_created_ids :: "int list"
  ts_linked_ids :: "int list"

definition triage_zero :: triage_summary where
  "triage_zero = \<lparr>ts_processed = 0, ts_created = 0, ts_linked = 0, ts_failed = 0, ts_created_ids = [],
     ts_linked_ids = []\<rparr>"

definition ErrSignalTriageFailed :: err where
  "ErrSignalTriageFailed = EMsg ''agentic: signal triage failed''"

definition TriageSignal :: "int \<Rightarrow> (db, agentic_task option) act" where
  "TriageSignal signalID =
     bind (TriageGoalSignal signalID) (\<lambda>r.
     if tri_failed r then fail ErrSignalTriageFailed else ret (tri_task r))"

definition task_ids :: "agentic_task option \<Rightarrow> int list" where
  "task_ids t = (case t of None \<Rightarrow> [] | Some k \<Rightarrow> if at_id k \<noteq> 0 then [at_id k] else [])"

definition count_triaged :: "triage_result \<Rightarrow> triage_summary \<Rightarrow> triage_summary" where
  "count_triaged r s =
     (let s1 = s\<lparr>ts_processed := ts_processed s + 1\<rparr> in
      if tri_failed r then s1\<lparr>ts_failed := ts_failed s1 + 1\<rparr>
      else
        (let s2 = (if tri_created r
                   then s1\<lparr>ts_created := ts_created s1 + 1, ts_created_ids := ts_created_ids s1 @ task_ids (tri_task r)\<rparr>
                   else s1)
         in if tri_linked r
            then s2\<lparr>ts_linked := ts_linked s2 + 1, ts_linked_ids := ts_linked_ids s2 @ task_ids (tri_task r)\<rparr>
            else s2))"

text \<open>The result comes with the error that ended the loop: what was triaged before it stays counted.\<close>

fun triage_all :: "goal_signal list \<Rightarrow> triage_summary \<Rightarrow> (db, triage_summary \<times> err option) act" where
  "triage_all [] acc = ret (acc, None)"
| "triage_all (x # xs) acc =
     bind (attempt (TriageGoalSignal (gs_id x))) (\<lambda>r.
     case r of
       Inl er \<Rightarrow> ret (acc, Some er)
     | Inr t \<Rightarrow> triage_all xs (count_triaged t acc))"

definition Triage_RunOnce :: "int \<Rightarrow> (db, triage_summary \<times> err option) act" where
  "Triage_RunOnce limit =
     bind (attempt (ListGoalSignalsByStatus SignalStatusNew limit)) (\<lambda>r.
     case r of
       Inl er \<Rightarrow> ret (triage_zero, Some er)
     | Inr signals \<Rightarrow> triage_all signals triage_zero)"

end
