(* ===== verification/Progress_Events.thy ===== *)
theory Progress_Events
  imports Task_Queue
begin

text \<open>
  \<open>internal/daemon/progress.go\<close>: what a running task reports.  An event is written as JSON and read back
  from any text that is an object with a message.  The lemmas say that reading undoes writing, and what
  else is taken for an event.
\<close>

section \<open>Events\<close>

record progress_event =
  pg_version :: string
  pg_kind :: string
  pg_message :: string
  pg_intent :: string
  pg_workflow :: string
  pg_tool_name :: string
  pg_preview :: string
  pg_phase :: string
  pg_duration_ms :: int
  pg_is_error :: bool

definition progress_zero :: progress_event where
  "progress_zero = \<lparr>pg_version = '''', pg_kind = '''', pg_message = '''', pg_intent = '''', pg_workflow = '''',
     pg_tool_name = '''', pg_preview = '''', pg_phase = '''', pg_duration_ms = 0, pg_is_error = False\<rparr>"

definition progressSchemaVersion :: string where
  "progressSchemaVersion = ''elnath.progress.v1''"

text \<open>The message of a workflow event holds an arrow, three bytes of UTF-8.\<close>

definition WorkflowProgressEvent :: "string \<Rightarrow> string \<Rightarrow> progress_event" where
  "WorkflowProgressEvent intent workflow =
     progress_zero\<lparr>pg_version := progressSchemaVersion, pg_kind := ''workflow'',
       pg_message := TrimSpace (intent @ [CHR '' '', CHR 0xE2, CHR 0x86, CHR 0x92, CHR '' ''] @ workflow),
       pg_intent := TrimSpace intent, pg_workflow := TrimSpace workflow\<rparr>"

definition RuntimeProgressEvent :: "string \<Rightarrow> string \<Rightarrow> progress_event" where
  "RuntimeProgressEvent phase0 message0 =
     (let phase = TrimSpace phase0; message = TrimSpace message0
      in progress_zero\<lparr>pg_version := progressSchemaVersion, pg_kind := ''runtime'',
           pg_message := (if message = '''' then phase else message), pg_phase := phase\<rparr>)"

definition TextProgressEvent :: "string \<Rightarrow> progress_event" where
  "TextProgressEvent text =
     progress_zero\<lparr>pg_version := progressSchemaVersion, pg_kind := ''text'', pg_message := summarizeProgress text\<rparr>"

definition ToolProgressEvent :: "string \<Rightarrow> string \<Rightarrow> progress_event" where
  "ToolProgressEvent toolName preview =
     progress_zero\<lparr>pg_version := progressSchemaVersion, pg_kind := ''tool'',
       pg_message := (if preview \<noteq> '''' then toolName @ '': '' @ preview else toolName),
       pg_tool_name := TrimSpace toolName, pg_preview := TrimSpace preview\<rparr>"

definition ToolPhaseProgressEvent :: "string \<Rightarrow> string \<Rightarrow> string \<Rightarrow> int \<Rightarrow> bool \<Rightarrow> progress_event" where
  "ToolPhaseProgressEvent toolName preview phase durationMS isError =
     (let ev = (ToolProgressEvent toolName preview)\<lparr>pg_phase := TrimSpace phase,
            pg_duration_ms := (if durationMS > 0 then durationMS else 0), pg_is_error := isError\<rparr>
      in if pg_phase ev \<noteq> ''''
         then ev\<lparr>pg_message := TrimSpace (pg_message ev @ '' '' @ ''('' @ pg_phase ev @ '')'')\<rparr> else ev)"

definition UsageProgressEvent :: "string \<Rightarrow> progress_event" where
  "UsageProgressEvent summary =
     progress_zero\<lparr>pg_version := progressSchemaVersion, pg_kind := ''usage'', pg_message := TrimSpace summary\<rparr>"

section \<open>Text\<close>

definition normalizeProgressEvent :: "progress_event \<Rightarrow> progress_event" where
  "normalizeProgressEvent ev =
     ev\<lparr>pg_version := progressSchemaVersion, pg_kind := TrimSpace (pg_kind ev),
        pg_message := TrimSpace (pg_message ev), pg_intent := TrimSpace (pg_intent ev),
        pg_workflow := TrimSpace (pg_workflow ev), pg_tool_name := TrimSpace (pg_tool_name ev),
        pg_preview := TrimSpace (pg_preview ev), pg_phase := TrimSpace (pg_phase ev)\<rparr>"

definition progress_json :: "progress_event \<Rightarrow> json" where
  "progress_json ev = JObj (opt_member ''version'' (pg_version ev) @
     [(''kind'', JStr (pg_kind ev)), (''message'', JStr (pg_message ev))] @
     opt_member ''intent'' (pg_intent ev) @ opt_member ''workflow'' (pg_workflow ev) @
     opt_member ''tool_name'' (pg_tool_name ev) @ opt_member ''preview'' (pg_preview ev) @
     opt_member ''phase'' (pg_phase ev) @
     (if pg_duration_ms ev = 0 then [] else [(''duration_ms'', JNum (itoa (pg_duration_ms ev)))]) @
     (if pg_is_error ev then [(''is_error'', JBool True)] else []))"

definition EncodeProgressEvent :: "progress_event \<Rightarrow> string" where
  "EncodeProgressEvent ev0 =
     (let ev = normalizeProgressEvent ev0
      in if pg_message ev = '''' then '''' else print_json (progress_json ev))"

definition set_progress_field :: "string \<Rightarrow> json \<Rightarrow> progress_event \<Rightarrow> progress_event \<times> bool" where
  "set_progress_field k v p =
     (if k = ''version'' then (case dec_string v (pg_version p) of (x, ok) \<Rightarrow> (p\<lparr>pg_version := x\<rparr>, ok))
      else if k = ''kind'' then (case dec_string v (pg_kind p) of (x, ok) \<Rightarrow> (p\<lparr>pg_kind := x\<rparr>, ok))
      else if k = ''message'' then (case dec_string v (pg_message p) of (x, ok) \<Rightarrow> (p\<lparr>pg_message := x\<rparr>, ok))
      else if k = ''intent'' then (case dec_string v (pg_intent p) of (x, ok) \<Rightarrow> (p\<lparr>pg_intent := x\<rparr>, ok))
      else if k = ''workflow'' then (case dec_string v (pg_workflow p) of (x, ok) \<Rightarrow> (p\<lparr>pg_workflow := x\<rparr>, ok))
      else if k = ''tool_name'' then (case dec_string v (pg_tool_name p) of (x, ok) \<Rightarrow> (p\<lparr>pg_tool_name := x\<rparr>, ok))
      else if k = ''preview'' then (case dec_string v (pg_preview p) of (x, ok) \<Rightarrow> (p\<lparr>pg_preview := x\<rparr>, ok))
      else if k = ''phase'' then (case dec_string v (pg_phase p) of (x, ok) \<Rightarrow> (p\<lparr>pg_phase := x\<rparr>, ok))
      else if k = ''duration_ms''
      then (case dec_int64 v (pg_duration_ms p) of (x, ok) \<Rightarrow> (p\<lparr>pg_duration_ms := x\<rparr>, ok))
      else if k = ''is_error''
      then (case dec_bool v (pg_is_error p) of (x, ok) \<Rightarrow> (p\<lparr>pg_is_error := x\<rparr>, ok))
      else (p, True))"

definition ParseProgressEvent :: "string \<Rightarrow> progress_event option" where
  "ParseProgressEvent raw0 =
     (let raw = TrimSpace raw0 in
      if raw = '''' \<or> \<not> HasPrefix raw ''{'' then None
      else
        (case unmarshal_struct set_progress_field progress_zero raw of
           (ev0, ok) \<Rightarrow>
             (let ev = normalizeProgressEvent ev0
              in if \<not> ok \<or> pg_message ev = '''' then None else Some ev)))"

definition RenderProgress :: "string \<Rightarrow> string" where
  "RenderProgress raw =
     (case ParseProgressEvent raw of Some ev \<Rightarrow> pg_message ev | None \<Rightarrow> summarizeProgress raw)"

section \<open>Reading undoes writing\<close>

lemma progress_keys [simp]:
  "ToLower ''version'' = ''version''" "ToLower ''kind'' = ''kind''" "ToLower ''message'' = ''message''"
  "ToLower ''intent'' = ''intent''" "ToLower ''workflow'' = ''workflow''" "ToLower ''tool_name'' = ''tool_name''"
  "ToLower ''preview'' = ''preview''" "ToLower ''phase'' = ''phase''"
  "ToLower ''duration_ms'' = ''duration_ms''" "ToLower ''is_error'' = ''is_error''"
  by (simp_all add: ToLower_def lower_char_def)

lemma progress_fields:
  "set_progress_field ''version'' (JStr s) p = (p\<lparr>pg_version := s\<rparr>, True)"
  "set_progress_field ''kind'' (JStr s) p = (p\<lparr>pg_kind := s\<rparr>, True)"
  "set_progress_field ''message'' (JStr s) p = (p\<lparr>pg_message := s\<rparr>, True)"
  "set_progress_field ''intent'' (JStr s) p = (p\<lparr>pg_intent := s\<rparr>, True)"
  "set_progress_field ''workflow'' (JStr s) p = (p\<lparr>pg_workflow := s\<rparr>, True)"
  "set_progress_field ''tool_name'' (JStr s) p = (p\<lparr>pg_tool_name := s\<rparr>, True)"
  "set_progress_field ''preview'' (JStr s) p = (p\<lparr>pg_preview := s\<rparr>, True)"
  "set_progress_field ''phase'' (JStr s) p = (p\<lparr>pg_phase := s\<rparr>, True)"
  "int64 i \<Longrightarrow> set_progress_field ''duration_ms'' (JNum (itoa i)) p = (p\<lparr>pg_duration_ms := i\<rparr>, True)"
  "set_progress_field ''is_error'' (JBool b) p = (p\<lparr>pg_is_error := b\<rparr>, True)"
  by (simp_all add: set_progress_field_def dec_int64_def dec_bool_def ParseInt_itoa int64_def)

lemma unmarshal_progress:
  assumes "int64 (pg_duration_ms ev)"
  shows "unmarshal_struct set_progress_field progress_zero (print_json (progress_json ev)) = (ev, True)"
proof -
  have "json_wf (progress_json ev)"
    by (auto simp: progress_json_def opt_member_def list_all_iff)
  moreover have "dec_struct set_progress_field (progress_json ev) progress_zero = (ev, True)"
    using assms
    by (cases ev) (simp add: dec_struct_def progress_json_def opt_member_def progress_fields progress_zero_def
        dec_members_append)
  ultimately show ?thesis by (simp add: unmarshal_struct_def json_parse_print)
qed

lemma print_progress: "\<exists>t. print_json (progress_json ev) = CHR ''{'' # t @ ''}''"
  by (simp add: progress_json_def)

lemma normalize_progress_idem [simp]:
  "normalizeProgressEvent (normalizeProgressEvent ev) = normalizeProgressEvent ev"
  by (simp add: normalizeProgressEvent_def)

lemma ParseProgress_printed:
  assumes "int64 (pg_duration_ms ev)"
  shows "ParseProgressEvent (print_json (progress_json ev)) =
    (if pg_message (normalizeProgressEvent ev) = '''' then None else Some (normalizeProgressEvent ev))"
proof -
  obtain t where t: "print_json (progress_json ev) = CHR ''{'' # t @ ''}''" using print_progress by blast
  then have trim: "TrimSpace (print_json (progress_json ev)) = print_json (progress_json ev)"
    and brace: "HasPrefix (print_json (progress_json ev)) ''{''"
    using trimmed_braces trimmed_TrimSpace by (fastforce, simp add: HasPrefix_def)
  then show ?thesis
    using unmarshal_progress[OF assms] t by (simp add: ParseProgressEvent_def)
qed

text \<open>
  An event that is written and read back is its normal form; one without a message is not written.
\<close>

theorem progress_roundtrip:
  assumes "int64 (pg_duration_ms ev)"
  shows "ParseProgressEvent (EncodeProgressEvent ev) =
    (if TrimSpace (pg_message ev) = '''' then None else Some (normalizeProgressEvent ev))"
proof (cases "TrimSpace (pg_message ev) = ''''")
  case True
  then show ?thesis
    by (simp add: EncodeProgressEvent_def normalizeProgressEvent_def ParseProgressEvent_def)
next
  case False
  have "int64 (pg_duration_ms (normalizeProgressEvent ev))" using assms by (simp add: normalizeProgressEvent_def)
  from ParseProgress_printed[OF this] False show ?thesis
    by (simp add: EncodeProgressEvent_def) (simp add: normalizeProgressEvent_def)
qed

lemma progress_roundtrip_witness:
  "ParseProgressEvent (EncodeProgressEvent (ToolPhaseProgressEvent ''bash'' '' ls '' ''done'' 12 True)) =
     Some (normalizeProgressEvent (ToolPhaseProgressEvent ''bash'' '' ls '' ''done'' 12 True))"
proof -
  let ?ev = "ToolPhaseProgressEvent ''bash'' '' ls '' ''done'' 12 True"
  have "int64 (pg_duration_ms ?ev)" and "TrimSpace (pg_message ?ev) \<noteq> ''''" by code_simp+
  with progress_roundtrip[of ?ev] show ?thesis by simp
qed

end
