(* ===== verification/Delivery_Router.thy ===== *)
theory Delivery_Router
  imports Store_Records Progress_Events
begin

text \<open>
  \<open>internal/daemon/delivery.go\<close>: completions, progress and activations are fanned out to sinks.  A
  completion is claimed for a sink in the database before the sink is notified, so no sink is told
  twice.  The sinks are parameters: \<open>notify\<close> is what a sink does, \<open>sk_name\<close> the name it is claimed
  under and \<open>sk_target\<close> its target if it is a \<open>TargetedSink\<close>.  A call returns, beside its error, what
  happened to each eligible sink, in order.
\<close>

section \<open>Routes\<close>

record sink =
  sk_name :: string
  sk_target :: "delivery_target option"
  sk_progress :: bool
  sk_activation :: bool

record route =
  ro_origin_surface :: string
  ro_targets :: "delivery_target list"

definition route_zero :: route where
  "route_zero = \<lparr>ro_origin_surface = '''', ro_targets = []\<rparr>"

record router =
  rt_db :: bool
  rt_sinks :: "sink list"
  rt_progress_sinks :: "sink list"
  rt_activation_sinks :: "sink list"
  rt_routes :: "int \<rightharpoonup> route"

definition deliveryTargetMatchesSink :: "delivery_target \<Rightarrow> string \<Rightarrow> delivery_target \<Rightarrow> bool" where
  "deliveryTargetMatchesSink target originSurface0 sk =
     (case dt_kind target of
        DeliveryTargetLocal \<Rightarrow> dt_kind sk = DeliveryTargetLocal
      | DeliveryTargetOrigin \<Rightarrow>
          (let originSurface = ToLower (TrimSpace originSurface0)
           in originSurface \<noteq> '''' \<and> dt_kind sk = DeliveryTargetPlatform \<and> dt_platform sk = originSurface)
      | DeliveryTargetPlatform \<Rightarrow>
          if dt_kind sk \<noteq> DeliveryTargetPlatform \<or> dt_platform sk \<noteq> dt_platform target then False
          else if \<not> dt_explicit target then True
          else if dt_address target \<noteq> '''' \<and> dt_address sk \<noteq> dt_address target then False
          else if dt_thread target \<noteq> '''' \<and> dt_thread sk \<noteq> dt_thread target then False
          else True
      | KindUnset \<Rightarrow> False)"

definition shouldDeliverToSink :: "sink \<Rightarrow> route \<Rightarrow> bool" where
  "shouldDeliverToSink sk r =
     (if ro_targets r = [] then True
      else (case sk_target sk of
              None \<Rightarrow> True
            | Some t \<Rightarrow> list_ex (\<lambda>target. deliveryTargetMatchesSink target (ro_origin_surface r) t) (ro_targets r)))"

definition Register :: "sink \<Rightarrow> router \<Rightarrow> router" where
  "Register sk r = r\<lparr>rt_sinks := rt_sinks r @ [sk],
     rt_progress_sinks := (if sk_progress sk then rt_progress_sinks r @ [sk] else rt_progress_sinks r),
     rt_activation_sinks := (if sk_activation sk then rt_activation_sinks r @ [sk] else rt_activation_sinks r)\<rparr>"

definition RegisterProgress :: "sink \<Rightarrow> router \<Rightarrow> router" where
  "RegisterProgress sk r = r\<lparr>rt_progress_sinks := rt_progress_sinks r @ [sk]\<rparr>"

definition RegisterTaskRoute :: "int \<Rightarrow> route \<Rightarrow> router \<Rightarrow> router" where
  "RegisterTaskRoute taskID ro r =
     (if taskID = 0 then r
      else r\<lparr>rt_routes := (rt_routes r)(taskID \<mapsto>
             ro\<lparr>ro_origin_surface := ToLower (TrimSpace (ro_origin_surface ro))\<rparr>)\<rparr>)"

definition ClearTaskRoute :: "int \<Rightarrow> router \<Rightarrow> router" where
  "ClearTaskRoute taskID r = (if taskID = 0 then r else r\<lparr>rt_routes := (rt_routes r)(taskID := None)\<rparr>)"

definition taskRoute :: "int \<Rightarrow> router \<Rightarrow> route" where
  "taskRoute taskID r =
     (if taskID = 0 then route_zero else (case rt_routes r taskID of None \<Rightarrow> route_zero | Some ro \<Rightarrow> ro))"

section \<open>Completions\<close>

datatype delivery = Skipped | Sent | Refused err

text \<open>\<open>INSERT OR IGNORE\<close> on the primary key (task, sink), with \<open>RowsAffected\<close>; and \<open>DELETE\<close>.\<close>

definition claims :: "int \<Rightarrow> string \<Rightarrow> delivery_claim \<Rightarrow> bool" where
  "claims taskID name x \<longleftrightarrow> dv_task_id x = taskID \<and> dv_sink_name x = name"

definition claim_delivery :: "int \<Rightarrow> string \<Rightarrow> int \<Rightarrow> (db, nat) act" where
  "claim_delivery taskID name now =
     exec (\<lambda>s. if list_ex (claims taskID name) (db_deliveries s) then Inr (0, s)
       else Inr (1, s\<lparr>db_deliveries := db_deliveries s @
              [\<lparr>dv_task_id = taskID, dv_sink_name = name, dv_delivered_at = now\<rparr>]\<rparr>))"

definition release_delivery :: "int \<Rightarrow> string \<Rightarrow> (db, unit) act" where
  "release_delivery taskID name =
     exec (\<lambda>s. Inr ((), s\<lparr>db_deliveries := filter (\<lambda>x. \<not> claims taskID name x) (db_deliveries s)\<rparr>))"

type_synonym notifier = "sink \<Rightarrow> task_completion \<Rightarrow> (db, unit) act"

definition notify_claimed :: "notifier \<Rightarrow> task_completion \<Rightarrow> sink \<Rightarrow> bool \<Rightarrow> (db, delivery) act" where
  "notify_claimed notify c sk claimed =
     bind (attempt (notify sk c)) (\<lambda>r.
     case r of
       Inr _ \<Rightarrow> ret Sent
     | Inl er \<Rightarrow>
         bind (if claimed then bind (attempt (release_delivery (tc_task_id c) (sk_name sk))) (\<lambda>_. ret ())
               else ret ()) (\<lambda>_.
         ret (Refused er)))"

definition deliver_to :: "bool \<Rightarrow> notifier \<Rightarrow> task_completion \<Rightarrow> sink \<Rightarrow> (db, delivery) act" where
  "deliver_to hasDb notify c sk =
     (if \<not> hasDb then notify_claimed notify c sk False
      else
        bind now_ms (\<lambda>now.
        bind (attempt (claim_delivery (tc_task_id c) (sk_name sk) now)) (\<lambda>r.
        case r of
          Inl _ \<Rightarrow> notify_claimed notify c sk False
        | Inr n \<Rightarrow> if n = 0 then ret Skipped else notify_claimed notify c sk True)))"

fun deliver_each :: "(sink \<Rightarrow> (db, delivery) act) \<Rightarrow> sink list \<Rightarrow> (db, (sink \<times> delivery) list) act" where
  "deliver_each f [] = ret []"
| "deliver_each f (sk # sks) = bind (f sk) (\<lambda>d. bind (deliver_each f sks) (\<lambda>ds. ret ((sk, d) # ds)))"

definition refusals :: "(sink \<times> delivery) list \<Rightarrow> err list" where
  "refusals ds = concat (map (\<lambda>(_, d). case d of Refused er \<Rightarrow> [er] | _ \<Rightarrow> []) ds)"

text \<open>An error only when there was an eligible sink and every one of them failed.\<close>

definition fan_out_error :: "string \<Rightarrow> (sink \<times> delivery) list \<Rightarrow> err option" where
  "fan_out_error what ds =
     (if length ds > 0 \<and> length (refusals ds) = length ds
      then Some (EWrap what (EMsg (Join [CHR 0x0A] (map err_text (refusals ds))))) else None)"

definition completion_route :: "task_completion \<Rightarrow> route" where
  "completion_route c = \<lparr>ro_origin_surface = tc_origin_surface c, ro_targets = tc_delivery_targets c\<rparr>"

definition Deliver :: "router \<Rightarrow> notifier \<Rightarrow> task_completion \<Rightarrow> (db, err option \<times> (sink \<times> delivery) list) act" where
  "Deliver r notify c =
     (if rt_sinks r = [] then ret (None, [])
      else
        bind (deliver_each (deliver_to (rt_db r) notify c)
                (filter (\<lambda>sk. shouldDeliverToSink sk (completion_route c)) (rt_sinks r))) (\<lambda>ds.
        ret (fan_out_error ''delivery: all sinks failed'' ds, ds)))"

section \<open>Progress and activations\<close>

record task_progress =
  tg_task_id :: int
  tg_event :: progress_event
  tg_raw :: string
  tg_origin_surface :: string
  tg_targets :: "delivery_target list"
  tg_delivered_at :: int

definition normalizeTaskProgress :: "int \<Rightarrow> task_progress \<Rightarrow> task_progress" where
  "normalizeTaskProgress now p0 =
     (let p1 = (if tg_delivered_at p0 = zero_time then p0\<lparr>tg_delivered_at := now\<rparr> else p0);
          p2 = (if tg_raw p1 = '''' then p1\<lparr>tg_raw := EncodeProgressEvent (tg_event p1)\<rparr> else p1)
      in if pg_message (tg_event p2) = '''' \<and> tg_raw p2 \<noteq> ''''
         then (case ParseProgressEvent (tg_raw p2) of Some ev \<Rightarrow> p2\<lparr>tg_event := ev\<rparr> | None \<Rightarrow> p2)
         else p2)"

definition plain_delivery :: "('s, unit) act \<Rightarrow> ('s, delivery) act" where
  "plain_delivery m = bind (attempt m) (\<lambda>r. ret (case r of Inr _ \<Rightarrow> Sent | Inl er \<Rightarrow> Refused er))"

definition DeliverProgress ::
  "router \<Rightarrow> (sink \<Rightarrow> task_progress \<Rightarrow> (db, unit) act) \<Rightarrow> task_progress
     \<Rightarrow> (db, err option \<times> (sink \<times> delivery) list) act" where
  "DeliverProgress r notify progress0 =
     (if rt_progress_sinks r = [] then ret (None, [])
      else
        bind now_ms (\<lambda>now.
        let progress = normalizeTaskProgress now progress0;
            ro = \<lparr>ro_origin_surface = tg_origin_surface progress, ro_targets = tg_targets progress\<rparr>
        in if pg_message (tg_event progress) = '''' then ret (None, [])
           else
             bind (deliver_each (\<lambda>sk. plain_delivery (notify sk progress))
                     (filter (\<lambda>sk. shouldDeliverToSink sk ro) (rt_progress_sinks r))) (\<lambda>ds.
             ret (fan_out_error ''delivery: all progress sinks failed'' ds, ds))))"

text \<open>\<open>OnProgress\<close>: what the router sends for the text of a progress update of a task.\<close>

definition OnProgress ::
  "router \<Rightarrow> (sink \<Rightarrow> task_progress \<Rightarrow> (db, unit) act) \<Rightarrow> int \<Rightarrow> string
     \<Rightarrow> (db, (sink \<times> delivery) list) act" where
  "OnProgress r notify taskID progress =
     (case ParseProgressEvent progress of
        None \<Rightarrow> ret []
      | Some ev \<Rightarrow>
          bind (DeliverProgress r notify
                  \<lparr>tg_task_id = taskID, tg_event = ev, tg_raw = progress,
                   tg_origin_surface = ro_origin_surface (taskRoute taskID r),
                   tg_targets = ro_targets (taskRoute taskID r), tg_delivered_at = zero_time\<rparr>) (\<lambda>(_, ds).
          ret ds))"

record activation_counts =
  ac_processed :: int
  ac_created :: int
  ac_linked :: int
  ac_skipped :: int
  ac_failed :: int

record activation_summary =
  as_run_id :: int
  as_origin_surface :: string
  as_targets :: "delivery_target list"
  as_execution_policy :: string
  as_limit :: int
  as_enqueue_performed :: bool
  as_status :: string
  as_reason :: string
  as_proposed_task_ids :: "int list"
  as_followups :: activation_counts
  as_signals :: activation_counts
  as_created_at :: int

definition DeliverActivation ::
  "router \<Rightarrow> (sink \<Rightarrow> activation_summary \<Rightarrow> (db, unit) act) \<Rightarrow> activation_summary
     \<Rightarrow> (db, err option \<times> (sink \<times> delivery) list) act" where
  "DeliverActivation r notify a =
     (if rt_activation_sinks r = [] then ret (None, [])
      else
        bind (deliver_each (\<lambda>sk. plain_delivery (notify sk a))
                (filter (\<lambda>sk. shouldDeliverToSink sk
                     \<lparr>ro_origin_surface = as_origin_surface a, ro_targets = as_targets a\<rparr>) (rt_activation_sinks r))) (\<lambda>ds.
        ret (fan_out_error ''delivery: all activation sinks failed'' ds, ds)))"

section \<open>The status of the sinks\<close>

record sink_status =
  ss_name :: string
  ss_completion :: bool
  ss_progress :: bool
  ss_activation :: bool
  ss_target_aware :: bool
  ss_internal :: bool
  ss_target :: string
  ss_target_kind :: string
  ss_platform :: string
  ss_address :: string
  ss_thread_id :: string
  ss_home_channel :: bool
  ss_note :: string

definition deliverySinkStatusOf :: "sink \<Rightarrow> sink_status" where
  "deliverySinkStatusOf sk =
     (case sk_target sk of
        None \<Rightarrow> \<lparr>ss_name = sk_name sk, ss_completion = False, ss_progress = False, ss_activation = False,
           ss_target_aware = False, ss_internal = True, ss_target = '''', ss_target_kind = '''',
           ss_platform = '''', ss_address = '''', ss_thread_id = '''', ss_home_channel = False,
           ss_note = ''internal_audit_sink_receives_all_events''\<rparr>
      | Some t \<Rightarrow> let text = TrimSpace (target_String t) in
          \<lparr>ss_name = sk_name sk, ss_completion = False, ss_progress = False, ss_activation = False,
           ss_target_aware = True, ss_internal = False, ss_target = text, ss_target_kind = kind_text (dt_kind t),
           ss_platform = dt_platform t, ss_address = dt_address t, ss_thread_id = dt_thread t,
           ss_home_channel = IsHomeChannel t,
           ss_note = (if text = '''' then ''target_aware_sink_without_advertised_target'' else '''')\<rparr>)"

text \<open>\<open>addSinkStatus\<close>; the source finds an entry through a map from its key to its index.\<close>

definition status_key :: "sink_status \<Rightarrow> string" where
  "status_key v = ss_name v @ [CHR 0x00] @ ss_target v"

definition merge_status :: "bool \<Rightarrow> bool \<Rightarrow> bool \<Rightarrow> sink_status \<Rightarrow> sink_status" where
  "merge_status c p a v = v\<lparr>ss_completion := ss_completion v \<or> c, ss_progress := ss_progress v \<or> p,
     ss_activation := ss_activation v \<or> a\<rparr>"

definition addSinkStatus :: "bool \<Rightarrow> bool \<Rightarrow> bool \<Rightarrow> sink \<Rightarrow> sink_status list \<Rightarrow> sink_status list" where
  "addSinkStatus c p a sk vs =
     (let view = deliverySinkStatusOf sk
      in if list_ex (\<lambda>v. status_key v = status_key view) vs
         then map (\<lambda>v. if status_key v = status_key view then merge_status c p a v else v) vs
         else vs @ [merge_status c p a view])"

record router_status =
  rs_completion_sinks :: int
  rs_progress_sinks :: int
  rs_activation_sinks :: int
  rs_target_aware :: int
  rs_internal :: int
  rs_sinks :: "sink_status list"

definition router_Status :: "router \<Rightarrow> router_status" where
  "router_Status r =
     (let vs = fold (addSinkStatus False False True) (rt_activation_sinks r)
                 (fold (addSinkStatus False True False) (rt_progress_sinks r)
                   (fold (addSinkStatus True False False) (rt_sinks r) []))
      in \<lparr>rs_completion_sinks = int (length (rt_sinks r)), rs_progress_sinks = int (length (rt_progress_sinks r)),
          rs_activation_sinks = int (length (rt_activation_sinks r)),
          rs_target_aware = int (length (filter ss_target_aware vs)),
          rs_internal = int (length (filter ss_internal vs)), rs_sinks = vs\<rparr>)"

section \<open>At most once\<close>

definition claimed :: "int \<Rightarrow> string \<Rightarrow> db \<Rightarrow> bool" where
  "claimed taskID name s \<longleftrightarrow> (\<exists>x \<in> set (db_deliveries s). claims taskID name x)"

definition told :: "string \<Rightarrow> (sink \<times> delivery) list \<Rightarrow> nat" where
  "told name ds = length (filter (\<lambda>(sk, d). sk_name sk = name \<and> d = Sent) ds)"

text \<open>A database that does not fail, and sinks that do not take claims away.\<close>

definition no_faults :: "'s world \<Rightarrow> bool" where
  "no_faults w \<longleftrightarrow> (\<forall>i. fault (w_env w) i 0 = None)"

definition keeps_claims :: "notifier \<Rightarrow> bool" where
  "keeps_claims notify \<longleftrightarrow> (\<forall>taskID name sk c. preserves (claimed taskID name) (notify sk c))"

lemma triple_exec_sound:
  assumes "no_faults w" and "stable w P" and "\<And>s a s'. P s \<Longrightarrow> f s = Inr (a, s') \<Longrightarrow> Q a s'"
    and "\<And>s er. P s \<Longrightarrow> f s = Inl er \<Longrightarrow> E er s"
  shows "triple w P (exec f) Q E"
  using assms by (fastforce simp: no_faults_def triple_def exec_def Let_def stable_def split: sum.splits)

definition delivery_world :: "db world \<Rightarrow> notifier \<Rightarrow> int \<Rightarrow> string \<Rightarrow> bool" where
  "delivery_world w notify taskID name \<longleftrightarrow>
     no_faults w \<and> keeps_claims notify \<and> stable w (claimed taskID name)"

lemma notified_keeps:
  assumes "delivery_world w notify taskID name"
  shows "triple w (claimed taskID name) (attempt (notify sk c)) (\<lambda>_. claimed taskID name) (\<lambda>_ _. False)"
  by (rule triple_attempt, rule triple_preserves) (use assms in \<open>auto simp: delivery_world_def keeps_claims_def\<close>)

text \<open>A delivery does not fail: the errors are in what it says of the sink.\<close>

lemma deliver_to_total: "\<exists>d j s'. deliver_to b notify c sk w i s = (Inr d, j, s')"
proof -
  have "\<exists>d j s'. notify_claimed notify c sk held w i s = (Inr d, j, s')" for held i s
    by (simp add: notify_claimed_def bind_def attempt_def ret_def split: prod.splits sum.splits)
  then show ?thesis
    by (simp add: deliver_to_def bind_def attempt_def now_ms_def ret_def split: prod.splits sum.splits)
qed

lemma deliver_to_returns: "triple w P (deliver_to b notify c sk) (\<lambda>_ _. True) (\<lambda>_ _. False)"
  unfolding triple_def
proof (intro allI impI)
  show "case deliver_to b notify c sk w i s of (r, j, s') \<Rightarrow> (case r of Inl er \<Rightarrow> False | Inr a \<Rightarrow> True)" for i s
    using deliver_to_total[of b notify c sk w i s] by auto
qed

text \<open>A claim that is held makes the sink skipped; a sink that is told leaves its claim behind.\<close>

lemma held_skips:
  assumes dw: "delivery_world w notify taskID name"
  shows "triple w (claimed taskID name) (deliver_to True notify c sk)
    (\<lambda>d s. claimed taskID name s \<and> (tc_task_id c = taskID \<and> sk_name sk = name \<longrightarrow> d = Skipped)) (\<lambda>_ _. False)"
proof -
  let ?C = "claimed taskID name" and ?hit = "tc_task_id c = taskID \<and> sk_name sk = name"
  have others: "stable w ?C" and sound: "no_faults w" using dw by (auto simp: delivery_world_def)
  have claim: "triple w ?C (attempt (claim_delivery (tc_task_id c) (sk_name sk) now))
      (\<lambda>r s. ?C s \<and> (\<exists>n. r = Inr n \<and> (?hit \<longrightarrow> n = 0))) (\<lambda>_ _. False)" for now
    unfolding claim_delivery_def
    by (rule triple_attempt, rule triple_exec_sound[OF sound others])
      (auto simp: claimed_def list_ex_iff split: if_splits)
  have told: "triple w ?C (notify_claimed notify c sk True) (\<lambda>d s. ?C s) (\<lambda>_ _. False)" if "\<not> ?hit"
  proof -
    have "triple w ?C (attempt (release_delivery (tc_task_id c) (sk_name sk))) (\<lambda>_. ?C) (\<lambda>_ _. False)"
      unfolding release_delivery_def
      by (rule triple_attempt, rule triple_exec_sound[OF sound others])
        (use that in \<open>auto simp: claimed_def claims_def\<close>)
    then show ?thesis unfolding notify_claimed_def
      by (auto intro!: triple_bind[OF notified_keeps[OF dw]] triple_bind[of w ?C] triple_ret split: sum.split)
  qed
  have rest: "triple w (\<lambda>s. ?C s \<and> (\<exists>n. r = Inr n \<and> (?hit \<longrightarrow> n = 0)))
      (case r of Inl _ \<Rightarrow> notify_claimed notify c sk False
       | Inr n \<Rightarrow> if n = 0 then ret Skipped else notify_claimed notify c sk True)
      (\<lambda>d s. ?C s \<and> (?hit \<longrightarrow> d = Skipped)) (\<lambda>_ _. False)" for r :: "err + nat"
  proof (cases "\<exists>n. r = Inr n \<and> n \<noteq> 0 \<and> \<not> ?hit")
    case True
    then obtain n where n: "r = Inr n" "n \<noteq> 0" "\<not> ?hit" by blast
    then have "triple w (\<lambda>s. ?C s \<and> (\<exists>n. r = Inr n \<and> (?hit \<longrightarrow> n = 0))) (notify_claimed notify c sk True)
        (\<lambda>d s. ?C s \<and> (?hit \<longrightarrow> d = Skipped)) (\<lambda>_ _. False)"
      by (intro triple_conseq[OF told]) auto
    then show ?thesis by (simp only: n(1) sum.case if_not_P[OF n(2)])
  next
    case False
    then show ?thesis by (cases r) (auto simp: triple_def ret_def)
  qed
  show ?thesis unfolding deliver_to_def
    by simp (rule triple_bind[OF triple_now[of ?C "\<lambda>_. ?C"]], assumption, rule triple_bind[OF claim rest])
qed

lemma told_claims:
  assumes dw: "delivery_world w notify taskID name"
  shows "triple w (\<lambda>_. True) (deliver_to True notify c sk)
    (\<lambda>d s. tc_task_id c = taskID \<and> sk_name sk = name \<and> d = Sent \<longrightarrow> claimed taskID name s) (\<lambda>_ _. False)"
proof (cases "tc_task_id c = taskID \<and> sk_name sk = name")
  case True
  let ?C = "claimed taskID name"
  have sound: "no_faults w" using dw by (auto simp: delivery_world_def)
  have claim: "triple w (\<lambda>_. True) (attempt (claim_delivery (tc_task_id c) (sk_name sk) now))
      (\<lambda>r s. \<exists>n. r = Inr n \<and> (n \<noteq> 0 \<longrightarrow> ?C s)) (\<lambda>_ _. False)" for now
    unfolding claim_delivery_def
    by (rule triple_attempt, rule triple_exec_sound[OF sound])
      (use True in \<open>auto simp: stable_def claimed_def claims_def split: if_splits\<close>)
  have freed: "triple w (\<lambda>_. True) (attempt (release_delivery t n)) (\<lambda>_ _. True) (\<lambda>_ _. False)" for t n
    unfolding release_delivery_def
    by (rule triple_attempt, rule triple_exec_sound[OF sound]) (auto simp: stable_def)
  have told: "triple w ?C (notify_claimed notify c sk True) (\<lambda>d s. d = Sent \<longrightarrow> ?C s) (\<lambda>_ _. False)"
    unfolding notify_claimed_def
    by (rule triple_bind[OF notified_keeps[OF dw]])
      (auto intro!: triple_ret triple_bind[of w _ _ "\<lambda>_ _. True"] triple_conseq[OF freed] split: sum.split)
  have rest: "triple w (\<lambda>s. \<exists>n. r = Inr n \<and> (n \<noteq> 0 \<longrightarrow> ?C s))
      (case r of Inl _ \<Rightarrow> notify_claimed notify c sk False
       | Inr n \<Rightarrow> if n = 0 then ret Skipped else notify_claimed notify c sk True)
      (\<lambda>d s. d = Sent \<longrightarrow> ?C s) (\<lambda>_ _. False)" for r :: "err + nat"
    using triple_conseq[OF told] by (cases r) (auto simp: triple_def ret_def)
  have "triple w (\<lambda>_. True) (deliver_to True notify c sk) (\<lambda>d s. d = Sent \<longrightarrow> ?C s) (\<lambda>_ _. False)"
    unfolding deliver_to_def not_True_eq_False if_False
    by (rule triple_bind[OF triple_now[of _ "\<lambda>_ _. True"]], simp, rule triple_bind[OF claim rest])
  then show ?thesis by (rule triple_conseq) auto
next
  case False
  show ?thesis by (rule triple_conseq[OF deliver_to_returns]) (use False in auto)
qed

lemma triple_conj:
  "triple w P m Q E \<Longrightarrow> triple w P' m Q' E \<Longrightarrow> triple w (\<lambda>s. P s \<and> P' s) m (\<lambda>a s. Q a s \<and> Q' a s) E"
  unfolding triple_def by (fastforce split: prod.splits sum.splits)

text \<open>
  \<open>b\<close> says that the claim is held already.  The count of a call is that of its sinks of one name, when
  its completion is of the task.
\<close>

definition told_of :: "int \<Rightarrow> string \<Rightarrow> task_completion \<times> (sink \<times> delivery) list \<Rightarrow> nat" where
  "told_of taskID name call = (case call of (c, ds) \<Rightarrow> if tc_task_id c = taskID then told name ds else 0)"

definition held_after :: "bool \<Rightarrow> int \<Rightarrow> string \<Rightarrow> nat \<Rightarrow> db \<Rightarrow> bool" where
  "held_after b taskID name n s \<longleftrightarrow> n + (if b then 1 else 0) \<le> 1 \<and> (b \<or> n > 0 \<longrightarrow> claimed taskID name s)"

lemma told_of_Cons:
  "told_of taskID name (c, (sk, d) # ds) =
     (if tc_task_id c = taskID \<and> sk_name sk = name \<and> d = Sent then 1 else 0) + told_of taskID name (c, ds)"
  by (simp add: told_of_def told_def)

lemma deliver_each_once:
  assumes dw: "delivery_world w notify taskID name"
  shows "triple w (\<lambda>s. b \<longrightarrow> claimed taskID name s) (deliver_each (deliver_to True notify c) sks)
    (\<lambda>ds. held_after b taskID name (told_of taskID name (c, ds))) (\<lambda>_ _. False)"
proof (induction sks arbitrary: b)
  case Nil
  show ?case by (simp, rule triple_ret) (auto simp: held_after_def told_of_def told_def)
next
  case (Cons sk sks)
  let ?C = "claimed taskID name" and ?hit = "tc_task_id c = taskID \<and> sk_name sk = name"
  have one: "triple w (\<lambda>s. b \<longrightarrow> ?C s) (deliver_to True notify c sk)
      (\<lambda>d s. (b \<longrightarrow> \<not> (?hit \<and> d = Sent)) \<and> (b \<or> (?hit \<and> d = Sent) \<longrightarrow> ?C s)) (\<lambda>_ _. False)"
  proof (cases b)
    case True
    then show ?thesis by (auto intro: triple_conseq[OF held_skips[OF dw]])
  next
    case False
    then show ?thesis by (auto intro: triple_conseq[OF told_claims[OF dw]])
  qed
  have more: "triple w (\<lambda>s. (b \<longrightarrow> \<not> (?hit \<and> d = Sent)) \<and> (b \<or> (?hit \<and> d = Sent) \<longrightarrow> ?C s))
      (bind (deliver_each (deliver_to True notify c) sks) (\<lambda>ds. ret ((sk, d) # ds)))
      (\<lambda>ds. held_after b taskID name (told_of taskID name (c, ds))) (\<lambda>_ _. False)" for d
  proof (cases "b \<and> ?hit \<and> d = Sent")
    case False
    show ?thesis
      by (rule triple_conseq[OF triple_bind[OF Cons.IH[of "b \<or> (?hit \<and> d = Sent)"] triple_ret]])
        (use False in \<open>auto simp: held_after_def told_of_Cons split: if_splits\<close>)
  qed (simp add: triple_def)
  show ?case by simp (rule triple_bind[OF one more])
qed

text \<open>Calls of \<open>Deliver\<close> one after another, each with its completion.\<close>

fun deliver_calls ::
  "router \<Rightarrow> notifier \<Rightarrow> task_completion list \<Rightarrow> (db, (task_completion \<times> (sink \<times> delivery) list) list) act" where
  "deliver_calls r notify [] = ret []"
| "deliver_calls r notify (c # cs) =
     bind (Deliver r notify c) (\<lambda>(_, ds). bind (deliver_calls r notify cs) (\<lambda>calls. ret ((c, ds) # calls)))"

lemma Deliver_once:
  assumes dw: "delivery_world w notify taskID name" and "rt_db r"
  shows "triple w (\<lambda>s. b \<longrightarrow> claimed taskID name s) (Deliver r notify c)
    (\<lambda>(_, ds). held_after b taskID name (told_of taskID name (c, ds))) (\<lambda>_ _. False)"
  unfolding Deliver_def using assms(2)
  by (auto simp: held_after_def told_of_def told_def
      intro!: triple_ret triple_bind[OF deliver_each_once[OF dw]] split: prod.splits)

lemma deliver_calls_once:
  assumes dw: "delivery_world w notify taskID name" and "rt_db r"
  shows "triple w (\<lambda>s. b \<longrightarrow> claimed taskID name s) (deliver_calls r notify cs)
    (\<lambda>calls. held_after b taskID name (sum_list (map (told_of taskID name) calls))) (\<lambda>_ _. False)"
proof (induction cs arbitrary: b)
  case (Cons c cs)
  have more: "triple w (case p of (_, ds) \<Rightarrow> held_after b taskID name (told_of taskID name (c, ds)))
      (case p of (_, ds) \<Rightarrow> bind (deliver_calls r notify cs) (\<lambda>calls. ret ((c, ds) # calls)))
      (\<lambda>calls. held_after b taskID name (sum_list (map (told_of taskID name) calls))) (\<lambda>_ _. False)" for p
  proof -
    obtain e ds where p: "p = (e, ds)" by (cases p)
    let ?n = "told_of taskID name (c, ds)"
    show ?thesis unfolding p prod.case
    proof (cases "?n + (if b then 1 else 0) \<le> 1")
      case True
      show "triple w (held_after b taskID name ?n) (bind (deliver_calls r notify cs) (\<lambda>calls. ret ((c, ds) # calls)))
          (\<lambda>calls. held_after b taskID name (sum_list (map (told_of taskID name) calls))) (\<lambda>_ _. False)"
        by (rule triple_conseq[OF triple_bind[OF Cons.IH[of "b \<or> ?n > 0"] triple_ret]])
          (use True in \<open>auto simp: held_after_def simp del: sum_list_eq_0_iff split: if_splits\<close>)
    qed (simp add: triple_def held_after_def)
  qed
  show ?case by simp (rule triple_bind[OF Deliver_once[OF assms] more])
qed (auto simp: held_after_def intro: triple_ret)

section \<open>Properties\<close>


definition demo_sink :: sink where
  "demo_sink = \<lparr>sk_name = ''log'', sk_target = None, sk_progress = False, sk_activation = False\<rparr>"

definition demo_router :: router where
  "demo_router = \<lparr>rt_db = True, rt_sinks = [demo_sink], rt_progress_sinks = [], rt_activation_sinks = [],
     rt_routes = (\<lambda>_. None)\<rparr>"

definition demo_completion :: task_completion where
  "demo_completion = \<lparr>tc_task_id = 1, tc_session_id = '''', tc_origin_surface = '''', tc_delivery_targets = [],
     tc_summary = '''', tc_status = ''done'', tc_failure_class = '''', tc_should_retire_session = False,
     tc_session_retirement_reason = '''', tc_next_action = '''', tc_created_at = 0, tc_started_at = 0,
     tc_completed_at = 0\<rparr>"

lemma demo_calls:
  "\<exists>s'. deliver_calls demo_router (\<lambda>_ _. ret ()) [demo_completion, demo_completion] (calm_world 9) 0 db_empty =
     (Inr [(demo_completion, [(demo_sink, Sent)]), (demo_completion, [(demo_sink, Skipped)])], 4, s')"
  by (simp add: demo_router_def demo_completion_def demo_sink_def db_empty_def Deliver_def deliver_to_def
      notify_claimed_def claim_delivery_def claims_def shouldDeliverToSink_def completion_route_def
      bind_def ret_def attempt_def now_ms_def exec_def calm_def)


end
