(* ===== verification/Error_Class.thy ===== *)
theory Error_Class
  imports Go_Strings
begin

text \<open>
  \<open>internal/agent/errorclass\<close>: what kind of failure an error is, from the status of the provider and the
  words of its message.  The patterns are those of Go's \<open>regexp\<close> the source uses: an unanchored search,
  the dot matching all but a newline, \<open>(?i)\<close> on the lower-case text (the letters are ASCII),
  word boundaries.  \<open>search\<close> computes with derivatives; \<open>search_lang\<close> says what it finds.
\<close>

section \<open>Patterns\<close>

datatype rx = RNone | REps | RChar "char \<Rightarrow> bool" | RSeq rx rx | RAlt rx rx | RStar rx

fun nullable :: "rx \<Rightarrow> bool" where
  "nullable RNone = False"
| "nullable REps = True"
| "nullable (RChar p) = False"
| "nullable (RSeq r t) = (nullable r \<and> nullable t)"
| "nullable (RAlt r t) = (nullable r \<or> nullable t)"
| "nullable (RStar r) = True"

fun deriv :: "char \<Rightarrow> rx \<Rightarrow> rx" where
  "deriv c RNone = RNone"
| "deriv c REps = RNone"
| "deriv c (RChar p) = (if p c then REps else RNone)"
| "deriv c (RSeq r t) =
     (if nullable r then RAlt (RSeq (deriv c r) t) (deriv c t) else RSeq (deriv c r) t)"
| "deriv c (RAlt r t) = RAlt (deriv c r) (deriv c t)"
| "deriv c (RStar r) = RSeq (deriv c r) (RStar r)"

fun match_front :: "rx \<Rightarrow> string \<Rightarrow> bool" where
  "match_front r [] = nullable r"
| "match_front r (c # s) = (nullable r \<or> match_front (deriv c r) s)"

fun search :: "rx \<Rightarrow> string \<Rightarrow> bool" where
  "search r [] = match_front r []"
| "search r (c # s) = (match_front r (c # s) \<or> search r s)"

text \<open>The texts a pattern stands for.\<close>

inductive in_rx :: "rx \<Rightarrow> string \<Rightarrow> bool" where
  eps: "in_rx REps []"
| chr: "p c \<Longrightarrow> in_rx (RChar p) [c]"
| seq: "in_rx r a \<Longrightarrow> in_rx t b \<Longrightarrow> in_rx (RSeq r t) (a @ b)"
| alt1: "in_rx r a \<Longrightarrow> in_rx (RAlt r t) a"
| alt2: "in_rx t a \<Longrightarrow> in_rx (RAlt r t) a"
| star0: "in_rx (RStar r) []"
| star1: "in_rx r a \<Longrightarrow> in_rx (RStar r) b \<Longrightarrow> in_rx (RStar r) (a @ b)"

inductive_cases in_rx_elims [elim!]:
  "in_rx RNone a" "in_rx REps a" "in_rx (RChar p) a" "in_rx (RSeq r t) a" "in_rx (RAlt r t) a"

lemma nullable_in: "nullable r \<longleftrightarrow> in_rx r []"
proof (induction r)
  case (RSeq r t)
  then show ?case using in_rx.seq[of r "[]" t "[]"] by auto
qed (auto intro: in_rx.intros)

lemma star_Cons:
  "in_rx r' (c # s) \<Longrightarrow> r' = RStar r \<Longrightarrow> \<exists>a b. s = a @ b \<and> in_rx r (c # a) \<and> in_rx (RStar r) b"
proof (induction r' "c # s" arbitrary: s rule: in_rx.induct)
  case (star1 r'' a b)
  then show ?case by (cases a) auto
qed auto

lemma deriv_in: "in_rx (deriv c r) s \<longleftrightarrow> in_rx r (c # s)"
proof (induction r arbitrary: s)
  case (RSeq r t)
  have "in_rx (RSeq r t) (c # s) \<longleftrightarrow>
      (\<exists>a b. s = a @ b \<and> in_rx r (c # a) \<and> in_rx t b) \<or> in_rx r [] \<and> in_rx t (c # s)"
  proof
    assume "in_rx (RSeq r t) (c # s)"
    then obtain x y where "c # s = x @ y" "in_rx r x" "in_rx t y" by auto
    then show "(\<exists>a b. s = a @ b \<and> in_rx r (c # a) \<and> in_rx t b) \<or> in_rx r [] \<and> in_rx t (c # s)"
      by (cases x) auto
  next
    assume "(\<exists>a b. s = a @ b \<and> in_rx r (c # a) \<and> in_rx t b) \<or> in_rx r [] \<and> in_rx t (c # s)"
    then show "in_rx (RSeq r t) (c # s)"
      using in_rx.seq[of r "c # a" t b for a b] in_rx.seq[of r "[]" t "c # s"] by auto
  qed
  with RSeq show ?case by (auto simp: nullable_in intro: in_rx.intros)
next
  case (RStar r)
  have "in_rx (RStar r) (c # s) \<longleftrightarrow> (\<exists>a b. s = a @ b \<and> in_rx r (c # a) \<and> in_rx (RStar r) b)"
    using star_Cons[of "RStar r" c s r] in_rx.star1[of r "c # a" b for a b] by auto
  with RStar show ?case by (auto intro: in_rx.intros)
qed (auto intro: in_rx.intros)

lemma match_front_in: "match_front r s \<longleftrightarrow> (\<exists>a b. s = a @ b \<and> in_rx r a)"
proof (induction s arbitrary: r)
  case (Cons c s)
  have "(\<exists>a b. c # s = a @ b \<and> in_rx r a) \<longleftrightarrow> in_rx r [] \<or> (\<exists>a b. s = a @ b \<and> in_rx r (c # a))"
    by (auto simp: Cons_eq_append_conv)
  with Cons show ?case by (simp add: nullable_in deriv_in)
qed (simp add: nullable_in)

lemma search_lang: "search r s \<longleftrightarrow> (\<exists>a b c. s = a @ b @ c \<and> in_rx r b)"
proof (induction s)
  case (Cons c s)
  have "(\<exists>a b d. c # s = a @ b @ d \<and> in_rx r b) \<longleftrightarrow>
      match_front r (c # s) \<or> (\<exists>a b d. s = a @ b @ d \<and> in_rx r b)"
    unfolding match_front_in by (auto simp: Cons_eq_append_conv) blast+
  with Cons show ?case by simp
qed (auto simp: nullable_in)

definition lit :: "string \<Rightarrow> rx" where
  "lit s = foldr (\<lambda>c r. RSeq (RChar (\<lambda>x. x = c)) r) s REps"

definition any_text :: rx where
  "any_text = RStar (RChar (\<lambda>c. c \<noteq> CHR 0x0A))"

definition one_of :: "string \<Rightarrow> rx" where
  "one_of cs = RChar (\<lambda>c. c \<in> set cs)"

text \<open>\<open>then_any [a, b]\<close> is \<open>a.*b\<close>, \<open>alts\<close> is an alternative of several patterns.\<close>

fun then_any :: "string list \<Rightarrow> rx" where
  "then_any [] = REps"
| "then_any [s] = lit s"
| "then_any (s # ss) = RSeq (lit s) (RSeq any_text (then_any ss))"

definition alts :: "rx list \<Rightarrow> rx" where
  "alts rs = foldr RAlt rs RNone"

text \<open>One of the words, with a word boundary on either side.\<close>

definition word_char :: "char \<Rightarrow> bool" where
  "word_char c \<longleftrightarrow> CHR ''0'' \<le> c \<and> c \<le> CHR ''9'' \<or> CHR ''A'' \<le> c \<and> c \<le> CHR ''Z'' \<or>
     CHR ''a'' \<le> c \<and> c \<le> CHR ''z'' \<or> c = CHR ''_''"

definition starts_word :: "string \<Rightarrow> bool" where
  "starts_word s = (case s of [] \<Rightarrow> False | c # _ \<Rightarrow> word_char c)"

fun has_word :: "bool \<Rightarrow> string list \<Rightarrow> string \<Rightarrow> bool" where
  "has_word prev ws [] = False"
| "has_word prev ws (c # s) =
     (\<not> prev \<and> list_ex (\<lambda>w. HasPrefix (c # s) w \<and> \<not> starts_word (drop (length w) (c # s))) ws \<or>
      has_word (word_char c) ws s)"

section \<open>The categories\<close>

datatype category =
    Auth | AuthPermanent | Billing | RateLimit | Overloaded | ServerError | Timeout | ContextOverflow
  | PayloadTooLarge | ModelNotFound | FormatError | ThinkingExhausted | Unknown

fun category_text :: "category \<Rightarrow> string" where
  "category_text Auth = ''auth''"
| "category_text AuthPermanent = ''auth_permanent''"
| "category_text Billing = ''billing''"
| "category_text RateLimit = ''rate_limit''"
| "category_text Overloaded = ''overloaded''"
| "category_text ServerError = ''server_error''"
| "category_text Timeout = ''timeout''"
| "category_text ContextOverflow = ''context_overflow''"
| "category_text PayloadTooLarge = ''payload_too_large''"
| "category_text ModelNotFound = ''model_not_found''"
| "category_text FormatError = ''format_error''"
| "category_text ThinkingExhausted = ''thinking_exhausted''"
| "category_text Unknown = ''unknown''"

record recovery =
  rv_retryable :: bool
  rv_compress :: bool
  rv_rotate_cred :: bool
  rv_fallback :: bool

definition no_recovery :: recovery where
  "no_recovery = \<lparr>rv_retryable = False, rv_compress = False, rv_rotate_cred = False, rv_fallback = False\<rparr>"

fun defaultRecovery :: "category \<Rightarrow> recovery" where
  "defaultRecovery Auth = no_recovery\<lparr>rv_rotate_cred := True\<rparr>"
| "defaultRecovery AuthPermanent = no_recovery\<lparr>rv_fallback := True\<rparr>"
| "defaultRecovery Billing = no_recovery\<lparr>rv_fallback := True\<rparr>"
| "defaultRecovery RateLimit = no_recovery\<lparr>rv_retryable := True, rv_rotate_cred := True\<rparr>"
| "defaultRecovery Overloaded = no_recovery\<lparr>rv_retryable := True\<rparr>"
| "defaultRecovery ServerError = no_recovery\<lparr>rv_retryable := True\<rparr>"
| "defaultRecovery Timeout = no_recovery\<lparr>rv_retryable := True\<rparr>"
| "defaultRecovery ContextOverflow = no_recovery\<lparr>rv_compress := True\<rparr>"
| "defaultRecovery PayloadTooLarge = no_recovery\<lparr>rv_compress := True\<rparr>"
| "defaultRecovery ModelNotFound = no_recovery\<lparr>rv_fallback := True\<rparr>"
| "defaultRecovery FormatError = no_recovery"
| "defaultRecovery ThinkingExhausted = no_recovery\<lparr>rv_retryable := True\<rparr>"
| "defaultRecovery Unknown = no_recovery"

record class_context =
  cl_provider :: string
  cl_status :: int
  cl_tokens_used :: int
  cl_context_limit :: int
  cl_message_count :: int
  cl_empty_response :: bool

text \<open>\<open>/\<close> of Go truncates; a limit is positive where it is divided.\<close>

definition isLargeSession :: "class_context \<Rightarrow> bool" where
  "isLargeSession c \<longleftrightarrow>
     cl_context_limit c > 0 \<and> cl_tokens_used c > cl_context_limit c * 60 div 100 \<or>
     cl_tokens_used c > 120000 \<or> cl_message_count c > 200"

definition unauthorizedRE :: rx where
  "unauthorizedRE = alts [lit ''unauthorized'',
     RSeq (lit ''invalid'') (RSeq any_text (RSeq (lit ''api'') (RSeq (RAlt (one_of '' _-'') REps) (lit ''key'')))),
     lit ''invalid_grant'', lit ''refresh token'', lit ''expired token'', lit ''oauth'']"

definition rateLimitRE :: rx where
  "rateLimitRE = RAlt (RSeq (lit ''rate'') (RSeq (RStar (one_of ([CHR 0x09, CHR 0x0A, CHR 0x0C, CHR 0x0D] @ '' ._-'')))
     (lit ''limit''))) (lit ''too many requests'')"

definition timeoutRE :: rx where
  "timeoutRE = alts [lit ''timeout'', lit ''deadline exceeded'', lit ''context deadline'']"

definition contextOverflowRE :: rx where
  "contextOverflowRE = alts [then_any [''context'', ''length''], lit ''too many tokens'',
     then_any [''max'', ''tokens''], lit ''context_length_exceeded'']"

definition connectionErrorRE :: rx where
  "connectionErrorRE = alts (map lit [''connection reset'', ''connection closed'', ''connection refused'',
     ''connection aborted'', ''broken pipe'', ''unexpected eof'', ''transport closed'', ''stream error'',
     ''remote end hung up'', ''connection reset by peer''])"

definition payloadTooLargeRE :: rx where
  "payloadTooLargeRE = RAlt (then_any [''payload'', ''too'', ''large'']) (then_any [''request'', ''too'', ''large''])"

definition modelNotFoundRE :: rx where
  "modelNotFoundRE = RAlt (then_any [''model'', ''not'', ''found'']) (lit ''does not exist'')"

definition formatErrorRE :: rx where
  "formatErrorRE = alts [then_any [''invalid'', ''request''], lit ''invalid request body'', lit ''malformed'',
     lit ''parse error'']"

definition thinkingExhaustedRE :: rx where
  "thinkingExhaustedRE = RAlt (lit ''thinking'') (then_any [''budget'', ''exhaust''])"

definition classifyCategory :: "string \<Rightarrow> class_context \<Rightarrow> category" where
  "classifyCategory message c =
     (let low = ToLower message; status = cl_status c; provider = (cl_provider c \<noteq> '''') in
      if status = 401 \<or> search unauthorizedRE low then Auth
      else if status = 403 \<and> has_word False [''disabled'', ''suspended'', ''banned''] low then AuthPermanent
      else if status = 403 then Auth
      else if status = 402 \<and> search (RAlt (lit ''try again'') (lit ''retry'')) low then RateLimit
      else if status = 402 then Billing
      else if status = 429 \<or> search rateLimitRE low \<or> (provider \<and> has_word False [''429''] message) then RateLimit
      else if status = 529 \<or> search (lit ''overloaded'') low then Overloaded
      else if status \<in> {500, 502, 503, 504} \<or>
        (provider \<and> has_word False [''500'', ''502'', ''503'', ''504''] message) then ServerError
      else if search timeoutRE low then Timeout
      else if search contextOverflowRE low then ContextOverflow
      else if status = 0 \<and> (search connectionErrorRE low \<or> has_word False [''eof''] low) \<and> isLargeSession c
      then ContextOverflow
      else if search payloadTooLargeRE low \<or> has_word False [''413''] low then PayloadTooLarge
      else if status = 404 \<or> search modelNotFoundRE low then ModelNotFound
      else if search formatErrorRE low then FormatError
      else if cl_empty_response c \<and> search thinkingExhaustedRE low then ThinkingExhausted
      else Unknown)"

text \<open>
  \<open>Classify\<close> of a non-nil error: \<open>existing\<close> is the category of a \<open>ClassifiedError\<close> in its chain,
  \<open>meta\<close> the name and the status of a provider's error in it.
\<close>

definition contextWithProviderErrorMetadata :: "(string \<times> int) option \<Rightarrow> class_context \<Rightarrow> class_context" where
  "contextWithProviderErrorMetadata meta c =
     (case meta of
        None \<Rightarrow> c
      | Some (provider, status) \<Rightarrow>
          c\<lparr>cl_provider := (if cl_provider c = '''' then provider else cl_provider c),
            cl_status := (if cl_status c = 0 then status else cl_status c)\<rparr>)"

definition Classify :: "category option \<Rightarrow> (string \<times> int) option \<Rightarrow> err \<Rightarrow> class_context \<Rightarrow> category" where
  "Classify existing meta er c =
     (case existing of
        Some k \<Rightarrow> k
      | None \<Rightarrow> classifyCategory (TrimSpace (err_text er)) (contextWithProviderErrorMetadata meta c))"

end
