(* ===== verification/Daemon_Worker.thy ===== *)
theory Daemon_Worker
  imports Completion_Gate Task_Envelope Delivery_Router Error_Class
begin

text \<open>
  \<open>internal/daemon/daemon.go\<close>: one turn of a worker.  It claims a task, opens its envelope, checks the
  completion gate it asks for, runs it, and finishes it: done, failed or blocked by the gate, with the
  envelope and the sinks told.  The runner of the agent is a parameter that returns how the run ended:
  what it returned or that it panicked, what it streamed, and which of the timers had fired (the
  watchdog, the wall clock and a cancellation run beside it).  The updates of progress run on their
  own and are among what other writers do to the queue.
\<close>

section \<open>The queue as actions\<close>

definition queue_call :: "nat \<Rightarrow> (env \<Rightarrow> queue \<Rightarrow> (err + 'a) \<times> queue) \<Rightarrow> (db, 'a) act" where
  "queue_call n f = (\<lambda>w i s. let s1 = w_other w i s in
     case f (env_from i (w_env w)) (db_queue s1) of (r, q) \<Rightarrow> (r, i + n, s1\<lparr>db_queue := q\<rparr>))"

text \<open>A read and, after what other writers do, a write.\<close>

definition queue_call2 :: "nat \<Rightarrow> (env \<Rightarrow> queue \<Rightarrow> queue \<Rightarrow> (err + 'a) \<times> queue) \<Rightarrow> (db, 'a) act" where
  "queue_call2 n f = (\<lambda>w i s. let s1 = w_other w i s; s2 = w_other w (Suc i) s1 in
     case f (env_from i (w_env w)) (db_queue s1) (db_queue s2) of (r, q) \<Rightarrow> (r, i + n, s2\<lparr>db_queue := q\<rparr>))"

definition queue_Next :: "(db, task option) act" where
  "queue_Next = queue_call 4 Next"

definition queue_Get :: "int \<Rightarrow> (db, task) act" where
  "queue_Get tid = queue_call 1 (\<lambda>e t. (Get e 0 t tid, t))"

definition queue_BindSession :: "int \<Rightarrow> string \<Rightarrow> (db, unit) act" where
  "queue_BindSession tid session = queue_call 1 (\<lambda>e t. BindSession e t tid session)"

definition queue_MarkDone :: "int \<Rightarrow> string \<Rightarrow> string \<Rightarrow> (db, unit) act" where
  "queue_MarkDone tid result summary = queue_call2 3 (\<lambda>e t1 t2. MarkDone e t1 t2 tid result summary)"

definition queue_MarkFailed :: "int \<Rightarrow> string \<Rightarrow> task_failure_metadata \<Rightarrow> (db, unit) act" where
  "queue_MarkFailed tid msg meta = queue_call2 3 (\<lambda>e t1 t2. MarkFailedWithMetadata e t1 t2 tid msg meta)"

section \<open>How a run ends\<close>

record task_result =
  rr_result :: string
  rr_summary :: string
  rr_session_id :: string

text \<open>
  An error of a run: it was cancelled, a timer ended it, or it failed.  Of a failure, the kind
  a \<open>ClassifiedError\<close> in its chain has and the provider's name and status are kept.
\<close>

datatype task_error =
    TaskCanceled string
  | TaskTimedOut timeout_class err
  | TaskFailed "category option" "(string \<times> int) option" err

text \<open>\<open>Error()\<close>; a timeout is wrapped as the user-facing error ELN-110.\<close>

fun task_error_text :: "task_error \<Rightarrow> string" where
  "task_error_text (TaskCanceled reason) =
     ''daemon: task canceled: '' @ (if TrimSpace reason = '''' then ''task_stop requested'' else TrimSpace reason)"
| "task_error_text (TaskTimedOut tc er) =
     ''ELN-110 Daemon task timeout: '' @ err_text er @ [CHR 0x0A] @
     ''Hint: Increase daemon.task_timeout_seconds in config.yaml, or split the task.''"
| "task_error_text (TaskFailed k m er) = err_text er"

fun failureTimeoutClass :: "task_error \<Rightarrow> timeout_class" where
  "failureTimeoutClass (TaskTimedOut tc er) = tc"
| "failureTimeoutClass te = TimeoutClassNone"

fun category_failure_class :: "category \<Rightarrow> string" where
  "category_failure_class Auth = ''provider_auth''"
| "category_failure_class AuthPermanent = ''provider_auth''"
| "category_failure_class Billing = ''provider_auth''"
| "category_failure_class RateLimit = ''provider_rate_limit''"
| "category_failure_class Overloaded = ''provider_rate_limit''"
| "category_failure_class Timeout = ''provider_timeout''"
| "category_failure_class ServerError = ''provider_timeout''"
| "category_failure_class ContextOverflow = ''context_window''"
| "category_failure_class PayloadTooLarge = ''context_window''"
| "category_failure_class ModelNotFound = ''model_not_found''"
| "category_failure_class FormatError = ''provider_error''"
| "category_failure_class ThinkingExhausted = ''tool_runtime''"
| "category_failure_class Unknown = ''tool_runtime''"

definition daemon_class_context :: class_context where
  "daemon_class_context = \<lparr>cl_provider = ''daemon'', cl_status = 0, cl_tokens_used = 0, cl_context_limit = 0,
     cl_message_count = 0, cl_empty_response = False\<rparr>"

definition message_failure_class :: "category option \<Rightarrow> (string \<times> int) option \<Rightarrow> err \<Rightarrow> string" where
  "message_failure_class k m er =
     (let msg = ToLower (err_text er) in
      if Contains msg ''recovered worker panic'' then ''worker_panic''
      else if containsAny msg [''broken pipe'', ''connection reset'', ''connection refused'', ''eof''] then ''runtime_io''
      else category_failure_class (Classify k m er daemon_class_context))"

fun taskFailureClass :: "task_error \<Rightarrow> string" where
  "taskFailureClass (TaskTimedOut TimeoutClassIdle er) = ''task_timeout_idle''"
| "taskFailureClass (TaskTimedOut TimeoutClassActiveButKilled er) = ''task_timeout_active''"
| "taskFailureClass (TaskTimedOut TimeoutClassNone er) =
     message_failure_class None None (EMsg (task_error_text (TaskTimedOut TimeoutClassNone er)))"
| "taskFailureClass (TaskCanceled reason) = failureClassTaskCanceled"
| "taskFailureClass (TaskFailed k m er) = message_failure_class k m er"

definition taskFailureRetirement :: "string \<Rightarrow> bool \<times> string" where
  "taskFailureRetirement cl =
     (if cl = ''task_timeout_idle'' then (True, ''post_tool_quiet_timeout'')
      else if cl = ''task_timeout_active'' then (True, ''wall_clock_timeout'')
      else if cl = ''worker_panic'' then (True, ''worker_panic'')
      else if cl = ''provider_auth'' then (True, ''provider_auth_refresh_failed'')
      else if cl = ''provider_timeout'' then (True, ''provider_timeout'')
      else if cl = ''runtime_io'' then (True, ''runtime_io'')
      else (False, ''''))"

definition taskFailureNextAction :: "string \<Rightarrow> string" where
  "taskFailureNextAction cl =
     (if cl \<in> {''task_timeout_idle'', ''task_timeout_active'', ''worker_panic'', ''provider_timeout'', ''runtime_io''}
      then ''start_new_session_or_operator_review''
      else if cl = ''provider_auth'' then ''reauthenticate_provider''
      else if cl = ''provider_rate_limit'' then ''retry_later''
      else if cl = ''context_window'' then ''compact_context_before_retry''
      else if cl = ''model_not_found'' then ''select_supported_model''
      else if cl = failureClassTaskCanceled then nextActionOperatorCancelled
      else ''inspect_failure_before_retry'')"

definition taskFailureMetadata :: "task_error \<Rightarrow> task_failure_metadata" where
  "taskFailureMetadata te =
     (let cl = taskFailureClass te in
      \<lparr>fm_timeout_class = failureTimeoutClass te, fm_failure_class = cl,
       fm_should_retire_session = fst (taskFailureRetirement cl),
       fm_session_retirement_reason = snd (taskFailureRetirement cl),
       fm_next_action = taskFailureNextAction cl\<rparr>)"

section \<open>Running a task\<close>

text \<open>
  How a call of the runner ended: its result or error, what it streamed, the reason of a cancellation
  that was asked for, \<open>taskCtx.Err()\<close>, \<open>ctx.Err()\<close> and whether the watchdog had fired.
\<close>

record run_outcome =
  rn_result :: "(category option \<times> (string \<times> int) option \<times> err) + task_result"
  rn_texts :: "string list"
  rn_cancelled :: "string option"
  rn_task_err :: "err option"
  rn_ctx_err :: "err option"
  rn_idle :: bool

datatype run_end = Panicked string | Ended run_outcome

text \<open>A runner gets the payload and the id of the agentic task (0 when there is none).\<close>

type_synonym runner = "string \<Rightarrow> int \<Rightarrow> db world \<Rightarrow> nat \<Rightarrow> db \<Rightarrow> run_end \<times> nat \<times> db"

definition call_runner :: "runner \<Rightarrow> string \<Rightarrow> int \<Rightarrow> (db, run_end) act" where
  "call_runner f payload aid = (\<lambda>w i s. case f payload aid w i s of (e, j, s') \<Rightarrow> (Inr e, j, s'))"

definition nil_runner :: runner where
  "nil_runner payload aid w i s =
     (let c = ctx_done (w_env w) i 0 in
      (Ended \<lparr>rn_result = Inl (None, None, EMsg ''daemon: task runner is nil''), rn_texts = [],
         rn_cancelled = None, rn_task_err = c, rn_ctx_err = c, rn_idle = False\<rparr>, Suc i, s))"

text \<open>A streamed text: an event, or a part of the output.\<close>

definition progress_of_text :: "string \<Rightarrow> string" where
  "progress_of_text text =
     (case ParseProgressEvent text of
        Some ev \<Rightarrow> EncodeProgressEvent ev
      | None \<Rightarrow> EncodeProgressEvent (TextProgressEvent text))"

definition run_output :: "string list \<Rightarrow> string" where
  "run_output texts = concat (filter (\<lambda>t. ParseProgressEvent t = None) texts)"

definition outcome_error :: "run_outcome \<Rightarrow> category option \<times> (string \<times> int) option \<times> err \<Rightarrow> task_error" where
  "outcome_error x f =
     (case f of (k, m, er) \<Rightarrow>
        case rn_task_err x of
          None \<Rightarrow> TaskFailed k m (EWrap ''daemon: run task'' er)
        | Some te \<Rightarrow>
            if rn_cancelled x \<noteq> None \<and> rn_ctx_err x = None then TaskCanceled (the (rn_cancelled x))
            else if rn_ctx_err x \<noteq> None then TaskCanceled ''daemon shutdown''
            else TaskTimedOut (if rn_idle x then TimeoutClassIdle else TimeoutClassActiveButKilled)
                   (EWrap ''daemon: task timed out'' te))"

definition outcome_result :: "bool \<Rightarrow> run_outcome \<Rightarrow> task_result \<Rightarrow> task_result" where
  "outcome_result captureOutput x res0 =
     (let res = (if captureOutput \<and> run_output (rn_texts x) \<noteq> ''''
                 then res0\<lparr>rr_result := run_output (rn_texts x)\<rparr> else res0)
      in if rr_result res = '''' then res\<lparr>rr_result := rr_summary res\<rparr> else res)"

record worker_conf =
  wc_router :: "router option"
  wc_envelope :: bool
  wc_gate :: "gate_conf option"
  wc_provider :: "context_provider option"
  wc_notify :: notifier
  wc_agent :: "runner option"
  wc_research :: "runner option"
  wc_retire :: "(string \<times> task_failure_metadata \<Rightarrow> (db, unit) act) option"
  wc_fault_panic :: bool

text \<open>The result of a research run has the session of its payload when it names none.\<close>

definition research_session :: "task_payload \<Rightarrow> task_result \<Rightarrow> task_result" where
  "research_session p res = (if rr_session_id res = '''' then res\<lparr>rr_session_id := tp_session_id p\<rparr> else res)"

definition bind_session :: "task \<Rightarrow> task_result \<Rightarrow> (db, unit) act" where
  "bind_session k res =
     (if rr_session_id res = '''' then ret ()
      else bind (attempt (queue_BindSession (tk_id k) (rr_session_id res))) (\<lambda>_. ret ()))"

definition finish_run :: "bool \<Rightarrow> task_payload \<Rightarrow> task \<Rightarrow> run_end \<Rightarrow> (db, task_error + task_result) act" where
  "finish_run research p k e =
     (case e of
        Panicked m \<Rightarrow> ret (Inl (TaskFailed None None (EMsg (''daemon: recovered worker panic: '' @ m))))
      | Ended x \<Rightarrow>
          (case rn_result x of
             Inl f \<Rightarrow> ret (Inl (outcome_error x f))
           | Inr res0 \<Rightarrow>
               (let res = (if research then research_session p res0 else res0) in
                bind (bind_session k res) (\<lambda>_. ret (Inr (outcome_result (\<not> research) x res))))))"

definition runTask :: "worker_conf \<Rightarrow> task \<Rightarrow> int \<Rightarrow> (db, task_error + task_result) act" where
  "runTask c k aid =
     (let p = ParseTaskPayload (tk_payload k); research = (tp_type p = ''research'') in
      if research \<and> wc_research c = None
      then ret (Inl (TaskFailed None None (EMsg ''research runner not configured'')))
      else
        (let f = (if research then wc_research c else wc_agent c) in
         bind (call_runner (case f of None \<Rightarrow> nil_runner | Some g \<Rightarrow> g) (tk_payload k) aid)
           (finish_run research p k)))"

text \<open>\<open>recover\<close> turns a panic into an error; \<open>wc_fault_panic\<close> injects one.\<close>

definition runTaskSafely :: "worker_conf \<Rightarrow> task \<Rightarrow> int \<Rightarrow> (db, task_error + task_result) act" where
  "runTaskSafely c k aid =
     (if wc_fault_panic c
      then ret (Inl (TaskFailed None None (EMsg ''daemon: recovered worker panic: fault: injected worker panic'')))
      else runTask c k aid)"

section \<open>Finishing a task\<close>

definition task_route :: "task \<Rightarrow> route" where
  "task_route k = (let p = ParseTaskPayload (tk_payload k) in
     \<lparr>ro_origin_surface = tp_surface p, ro_targets = parseDeliveryTargetsLenient (tp_delivery_targets p)\<rparr>)"

definition deliver :: "worker_conf \<Rightarrow> int \<Rightarrow> (db, unit) act" where
  "deliver c tid =
     (case wc_router c of
        None \<Rightarrow> ret ()
      | Some r \<Rightarrow>
          bind (attempt (queue_Get tid)) (\<lambda>g.
          case g of
            Inl _ \<Rightarrow> ret ()
          | Inr k \<Rightarrow>
              (case tk_completion k of
                 None \<Rightarrow> ret ()
               | Some tc \<Rightarrow> bind (Deliver r (wc_notify c) tc) (\<lambda>_. ret ()))))"

fun deliver_completions :: "worker_conf \<Rightarrow> task list \<Rightarrow> (db, unit) act" where
  "deliver_completions c [] = ret ()"
| "deliver_completions c (k # ks) =
     bind (if tk_completion k = None then ret () else deliver c (tk_id k)) (\<lambda>_. deliver_completions c ks)"

definition queue_List :: "(db, task list) act" where
  "queue_List = queue_call 2 (\<lambda>e t. (List e t, t))"

definition deliverExistingCompletions :: "worker_conf \<Rightarrow> (db, unit) act" where
  "deliverExistingCompletions c =
     (if wc_router c = None then ret ()
      else bind (attempt queue_List) (\<lambda>r. case r of Inl _ \<Rightarrow> ret () | Inr ks \<Rightarrow> deliver_completions c ks))"

text \<open>The envelope is told only when the queue has taken the end of the task.\<close>

definition finish_envelope :: "(int \<Rightarrow> (db, unit) act) \<Rightarrow> int option \<Rightarrow> err + unit \<Rightarrow> (db, unit) act" where
  "finish_envelope tell run marked =
     (case (marked, run) of
        (Inr _, Some aid) \<Rightarrow> bind (attempt (tell aid)) (\<lambda>_. ret ())
      | _ \<Rightarrow> ret ())"

definition failCompletionGate :: "worker_conf \<Rightarrow> task \<Rightarrow> int option \<Rightarrow> string \<Rightarrow> (db, unit) act" where
  "failCompletionGate c k run reason =
     bind (attempt (queue_MarkFailed (tk_id k) (''completion gate blocked: '' @ reason) metadata_zero)) (\<lambda>m.
     bind (finish_envelope envelope_Fail run m) (\<lambda>_. deliver c (tk_id k)))"

definition retireSessionAfterFailure :: "worker_conf \<Rightarrow> task \<Rightarrow> task_failure_metadata \<Rightarrow> (db, unit) act" where
  "retireSessionAfterFailure c k meta =
     (case wc_retire c of
        None \<Rightarrow> ret ()
      | Some retire \<Rightarrow>
          if \<not> fm_should_retire_session meta \<or> TrimSpace (tk_session_id k) = '''' then ret ()
          else bind (attempt (retire (tk_session_id k, meta))) (\<lambda>_. ret ()))"

definition finish_failed :: "worker_conf \<Rightarrow> task \<Rightarrow> int option \<Rightarrow> task_error \<Rightarrow> (db, unit) act" where
  "finish_failed c k run te =
     bind (attempt (queue_MarkFailed (tk_id k) (task_error_text te) (taskFailureMetadata te))) (\<lambda>m.
     bind (finish_envelope envelope_Fail run m) (\<lambda>_.
     bind (retireSessionAfterFailure c k (taskFailureMetadata te)) (\<lambda>_.
     deliver c (tk_id k))))"

definition finish_done :: "worker_conf \<Rightarrow> task \<Rightarrow> int option \<Rightarrow> task_result \<Rightarrow> (db, unit) act" where
  "finish_done c k run res =
     bind (attempt (queue_MarkDone (tk_id k) (rr_result res) (rr_summary res))) (\<lambda>m.
     bind (finish_envelope envelope_Succeed run m) (\<lambda>_. deliver c (tk_id k)))"

section \<open>A turn of a worker\<close>

text \<open>Whether the payload asks for the gate: the worker looks at the text as it is.\<close>

definition gate_asked :: "task \<Rightarrow> bool" where
  "gate_asked k \<longleftrightarrow> tp_completion_gate (ParseTaskPayload (tk_payload k)) \<noteq> ''''"

definition start_envelope :: "worker_conf \<Rightarrow> task \<Rightarrow> (db, int option) act" where
  "start_envelope c k =
     (if wc_envelope c
      then bind (attempt (envelope_Start k)) (\<lambda>r. ret (case r of Inl _ \<Rightarrow> None | Inr aid \<Rightarrow> Some aid))
      else ret None)"

text \<open>Why a task that asks for the gate may not start.\<close>

definition gate_refusal :: "worker_conf \<Rightarrow> task \<Rightarrow> int \<Rightarrow> string option" where
  "gate_refusal c k aid =
     (if \<not> gate_asked k then None
      else if aid = 0 then Some ''agentic task id is required''
      else (case wc_gate c of
              None \<Rightarrow> Some ''completion gate requested but completion gate is not configured''
            | Some g \<Rightarrow> map_option err_text (gate_Validate g k aid)))"

text \<open>Why a task that has run may not be done.\<close>

definition gate_block :: "worker_conf \<Rightarrow> task \<Rightarrow> int \<Rightarrow> (db, string option) act" where
  "gate_block c k aid =
     (case wc_gate c of
        None \<Rightarrow> ret None
      | Some g \<Rightarrow>
          if \<not> gate_asked k then ret None
          else
            bind (attempt (gate_Evaluate g (wc_provider c) k aid)) (\<lambda>r.
            ret (case r of
                   Inl er \<Rightarrow> Some (err_text er)
                 | Inr d \<Rightarrow>
                     if gd_passed d then None
                     else Some (if gd_reason d = '''' then ''completion gate blocked'' else gd_reason d))))"

definition worker_process :: "worker_conf \<Rightarrow> task \<Rightarrow> (db, unit) act" where
  "worker_process c k =
     bind (start_envelope c k) (\<lambda>run.
     let aid = intFromNull run in
     case gate_refusal c k aid of
       Some reason \<Rightarrow> failCompletionGate c k run reason
     | None \<Rightarrow>
         bind (runTaskSafely c k aid) (\<lambda>r.
         case r of
           Inl te \<Rightarrow> finish_failed c k run te
         | Inr res \<Rightarrow>
             bind (gate_block c k aid) (\<lambda>b.
             case b of
               Some reason \<Rightarrow> failCompletionGate c k run reason
             | None \<Rightarrow> finish_done c k run res)))"

text \<open>The task the turn claimed.  The route of a task is registered while it runs.\<close>

definition worker_step :: "worker_conf \<Rightarrow> (db, task option) act" where
  "worker_step c =
     bind (attempt queue_Next) (\<lambda>r.
     case r of
       Inr (Some k) \<Rightarrow>
         bind (worker_process (c\<lparr>wc_router := map_option (RegisterTaskRoute (tk_id k) (task_route k)) (wc_router c)\<rparr>) k)
           (\<lambda>_. ret (Some k))
     | _ \<Rightarrow> ret None)"

section \<open>Cancelling, submitting and the log\<close>

text \<open>The running tasks by id; the reason a task of them is told.\<close>

definition CancelRunningTask :: "int set \<Rightarrow> int \<Rightarrow> string \<Rightarrow> err + string option" where
  "CancelRunningTask running tid reason =
     (if tid \<le> 0 then Inl (EMsg ''daemon: cancel running task: id must be positive'')
      else if tid \<notin> running then Inr None
      else Inr (Some (if TrimSpace reason = '''' then ''task_stop requested'' else TrimSpace reason)))"

definition registerRunningTask :: "int \<Rightarrow> int set \<Rightarrow> int set" where
  "registerRunningTask tid running = (if tid \<le> 0 then running else insert tid running)"

definition unregisterRunningTask :: "int \<Rightarrow> int set \<Rightarrow> int set" where
  "unregisterRunningTask tid running = (if tid \<le> 0 then running else running - {tid})"

definition principalForTaskLog :: "principal \<Rightarrow> principal" where
  "principalForTaskLog p =
     p\<lparr>pr_user_id := (if TrimSpace (pr_user_id p) = '''' then pr_user_id LegacyPrincipal else pr_user_id p),
       pr_project_id := (if TrimSpace (pr_project_id p) = '''' then pr_project_id LegacyPrincipal else pr_project_id p),
       pr_surface := (if TrimSpace (pr_surface p) = '''' then pr_surface LegacyPrincipal else pr_surface p)\<rparr>"

definition resolveTaskLogPrincipal :: "task_payload \<Rightarrow> principal \<Rightarrow> principal" where
  "resolveTaskLogPrincipal payload fallback =
     principalForTaskLog
       (if principal_IsZero (tp_principal payload) \<and> \<not> principal_IsZero fallback then fallback
        else tp_principal payload)"

text \<open>\<open>identity.KeyFor\<close>; \<open>sha256_hex\<close> is the standard library's hash, in hexadecimal digits.\<close>

definition KeyFor :: "(string \<Rightarrow> string) \<Rightarrow> principal \<Rightarrow> string \<Rightarrow> string" where
  "KeyFor sha256_hex p prompt0 =
     (let prompt = TrimSpace prompt0 in
      if prompt = '''' then ''''
      else take 16 (sha256_hex (TrimSpace (pr_user_id p) @ [CHR 0x00] @
             TrimSpace (pr_project_id p) @ [CHR 0x00] @ prompt)))"

text \<open>What the key of a submitted payload is made of.\<close>

definition submit_identity :: "task_payload \<Rightarrow> task_payload" where
  "submit_identity p = payload_zero\<lparr>tp_type := tp_type p, tp_prompt := tp_prompt p,
     tp_session_id := tp_session_id p, tp_enforcement := tp_enforcement p,
     tp_completion_gate := tp_completion_gate p\<rparr>"

text \<open>\<open>Queue.Enqueue\<close>: the lookup after a lost race sees the database the insert saw.\<close>

definition queue_Enqueue :: "string \<Rightarrow> string \<Rightarrow> (db, int \<times> bool) act" where
  "queue_Enqueue payload key = (\<lambda>w i s.
     let s1 = w_other w i s; s2 = w_other w (Suc i) s1 in
     case enqueue (env_from i (w_env w)) (db_queue s1) (db_queue s2) (db_queue s2) payload key of
       (r, q) \<Rightarrow> (r, i + 4, s2\<lparr>db_queue := q\<rparr>))"

text \<open>
  \<open>handleSubmit\<close> after the request is decoded: the id and whether it existed, or the text of the error.
  The bridge to the signals is told of the new task; what it answers is only logged.
\<close>

definition handleSubmit ::
  "(string \<Rightarrow> string) \<Rightarrow> principal \<Rightarrow> bool \<Rightarrow> (string \<Rightarrow> int \<Rightarrow> bool \<Rightarrow> (db, unit) act) option \<Rightarrow> string
     \<Rightarrow> (db, string + int \<times> bool) act" where
  "handleSubmit sha256_hex fallback research bridge payload =
     (let parsed = ParseTaskPayload payload in
      if TrimSpace payload = '''' \<or> tp_prompt parsed = '''' then ret (Inl ''payload is required'')
      else if tp_type parsed = ''research'' \<and> \<not> research then ret (Inl ''research runner not configured'')
      else
        (let principal = (if principal_IsZero (tp_principal parsed) then fallback else tp_principal parsed);
             idemKey = KeyFor sha256_hex principal (EncodeTaskPayload (submit_identity parsed)) in
         bind (attempt (queue_Enqueue payload idemKey)) (\<lambda>r.
         case r of
           Inl er \<Rightarrow> ret (Inl (''enqueue: '' @ err_text er))
         | Inr (tid, existed) \<Rightarrow>
             bind (case bridge of None \<Rightarrow> ret ()
                   | Some f \<Rightarrow> bind (attempt (f payload tid existed)) (\<lambda>_. ret ())) (\<lambda>_.
             ret (Inr (tid, existed))))))"

end
