(* ===== verification/Worker_Properties.thy ===== *)
theory Worker_Properties
  imports Daemon_Worker
begin

text \<open>
  What a turn of a worker guarantees: a task that asks for the completion gate is done only when it was
  verified and all its receipts are closed, and a task that was claimed does not stay running.  The
  world is \<open>quiet\<close>: only the runner and what it does changes the database while the task runs.
\<close>

section \<open>What a finished task does not touch\<close>

text \<open>The tables the gate and the queue look at.\<close>

definition view :: "db \<Rightarrow> queue \<times> completion_gate table \<times> verification_run table \<times> tool_receipt table" where
  "view s = (db_queue s, db_gates s, db_verifications s, db_receipts s)"

definition leaves :: "(db, 'a) act \<Rightarrow> bool" where
  "leaves m \<longleftrightarrow> (\<forall>x. preserves (\<lambda>s. view s = x) m)"

definition about_view :: "(db \<Rightarrow> bool) \<Rightarrow> bool" where
  "about_view P \<longleftrightarrow> (\<forall>s s'. view s = view s' \<longrightarrow> P s = P s')"

definition about_queue :: "(db \<Rightarrow> bool) \<Rightarrow> bool" where
  "about_queue P \<longleftrightarrow> (\<forall>s s'. db_queue s = db_queue s' \<longrightarrow> P s = P s')"

lemma triple_state:
  "(\<And>i s. P s \<Longrightarrow> P (act_state (m w i s))) \<Longrightarrow> triple w P m (\<lambda>_. P) (\<lambda>_. P)"
  unfolding triple_def act_state_def by (simp split: prod.splits sum.splits) (metis snd_conv)

lemma leaves_triple:
  assumes "leaves m" and "about_view P"
  shows "triple (quiet w) P m (\<lambda>_. P) (\<lambda>_. P)"
proof (rule triple_state)
  fix i s assume "P s"
  have "preserves (\<lambda>s'. view s' = view s) m" using assms(1) unfolding leaves_def by blast
  from preserves_state[OF this] have "view (act_state (m (quiet w) i s)) = view s" by simp
  with assms(2) \<open>P s\<close> show "P (act_state (m (quiet w) i s))" by (metis about_view_def)
qed

lemma leaves_ret [inv_intros]: "leaves (ret a)"
  and leaves_bind [inv_intros]: "leaves m \<Longrightarrow> (\<And>a. leaves (k a)) \<Longrightarrow> leaves (bind m k)"
  and leaves_attempt [inv_intros]: "leaves m \<Longrightarrow> leaves (attempt m)"
  by (auto simp: leaves_def intro!: inv_intros)

lemma UpdateAgenticTaskStatus_leaves [inv_intros]: "leaves (UpdateAgenticTaskStatus i st)"
  unfolding leaves_def UpdateAgenticTaskStatus_def GetAgenticTask_def
  by (intro allI inv_intros preserves_on_table) (simp add: view_def)

lemma envelope_leaves [inv_intros]:
  "leaves (envelope_Start k)" "leaves (envelope_Succeed i)" "leaves (envelope_Fail i)"
proof -
  show "leaves (envelope_Succeed i)" "leaves (envelope_Fail i)"
    unfolding envelope_Succeed_def envelope_Fail_def by (intro inv_intros)+
  have "preserves (\<lambda>s. view s = x) (UpdateAgenticTaskStatus j st)" for x j st
    using UpdateAgenticTaskStatus_leaves unfolding leaves_def by blast
  then show "leaves (envelope_Start k)"
    unfolding leaves_def envelope_Start_def GetAgenticTaskByQueueTaskID_def CreateAgenticTask_def GetAgenticTask_def
    by (intro allI inv_intros preserves_on_table) (simp_all add: view_def)
qed

lemma finish_envelope_leaves [inv_intros]: "(\<And>a. leaves (tell a)) \<Longrightarrow> leaves (finish_envelope tell run m)"
  by (auto simp: finish_envelope_def intro!: inv_intros split: sum.split option.split)

lemma start_envelope_leaves [inv_intros]: "leaves (start_envelope c k)"
  by (auto simp: start_envelope_def intro!: inv_intros)

lemma deliver_to_leaves:
  assumes "\<And>sk. leaves (notify sk tc)"
  shows "leaves (deliver_to b notify tc sk)"
proof -
  have "leaves (notify_claimed notify tc sk held)" for held
    unfolding notify_claimed_def release_delivery_def
    using assms by (auto intro!: inv_intros split: sum.split simp: leaves_def view_def)
  then show ?thesis
    unfolding deliver_to_def claim_delivery_def
    by (auto intro!: inv_intros split: sum.split if_splits simp: leaves_def view_def)
qed

lemma Deliver_leaves:
  assumes "\<And>sk. leaves (notify sk tc)"
  shows "leaves (Deliver r notify tc)"
proof -
  have "leaves (deliver_each (deliver_to b notify tc) sks)" for b sks
    by (induction sks) (auto intro!: inv_intros deliver_to_leaves assms)
  then show ?thesis by (auto simp: Deliver_def intro!: inv_intros)
qed

text \<open>Sinks and the recorder of retired sessions that keep to their own tables.\<close>

definition tidy :: "worker_conf \<Rightarrow> bool" where
  "tidy c \<longleftrightarrow> (\<forall>sk tc. leaves (wc_notify c sk tc)) \<and> (\<forall>f x. wc_retire c = Some f \<longrightarrow> leaves (f x))"

lemma deliver_leaves:
  assumes "tidy c" shows "leaves (deliver c tid)"
proof -
  have get: "leaves (queue_Get tid)"
    by (auto simp: leaves_def preserves_def queue_Get_def queue_call_def view_def Let_def)
  have "leaves (Deliver r (wc_notify c) tc)" for r tc
    using assms by (intro Deliver_leaves) (simp add: tidy_def)
  with get show ?thesis
    unfolding deliver_def by (auto intro!: inv_intros split: sum.split option.split)
qed

lemma retire_leaves: "tidy c \<Longrightarrow> leaves (retireSessionAfterFailure c k m)"
  by (auto simp: retireSessionAfterFailure_def tidy_def intro!: inv_intros split: option.split)

section \<open>Verified before done\<close>

definition not_done :: "int \<Rightarrow> db \<Rightarrow> bool" where
  "not_done tid s \<longleftrightarrow> (\<forall>r \<in> set (tbl_rows (db_queue s)). tq_id r = tid \<longrightarrow> tq_status r \<noteq> StatusDone)"

text \<open>A passed row of the gate, and what it stands for, for some agentic task the run was recorded under.\<close>

definition gate_passed :: "task \<Rightarrow> db \<Rightarrow> bool" where
  "gate_passed k s \<longleftrightarrow> (\<exists>g \<in> set (tbl_rows (db_gates s)).
     cg_queue_task_id g = nullableInt (tk_id k) \<and> cg_status g = CompletionGateStatusPassed \<and>
     verified k (cg_task_id g) (db_verifications s) \<and> settled (cg_task_id g) (db_receipts s))"

definition pending_gate :: "task \<Rightarrow> db \<Rightarrow> bool" where
  "pending_gate k s \<longleftrightarrow> not_done (tk_id k) s \<and> gate_db_ok s"

lemma about_view [simp]:
  "about_view (pending_gate k)" "about_view (gate_passed k)" "about_view (not_done tid)"
  by (auto simp: about_view_def view_def pending_gate_def gate_passed_def not_done_def gate_db_ok_def)

text \<open>The queue's own calls: only \<open>MarkDone\<close> makes a task done.\<close>

lemma MarkFailed_rows:
  "MarkFailedWithMetadata e t1 t2 tid msg meta = (r, t) \<Longrightarrow> x \<in> set (tbl_rows t) \<Longrightarrow>
     x \<in> set (tbl_rows t2) \<or> tq_status x = StatusFailed"
  by (auto simp: MarkFailedWithMetadata_def finish_row_def stmt_def Let_def split: sum.splits option.splits if_splits)

lemma BindSession_rows:
  "BindSession e t tid session = (r, t') \<Longrightarrow>
     t' = t \<or> t' = tbl_update (\<lambda>r. tq_id r = tid) (\<lambda>r. r\<lparr>tq_session_id := session, tq_updated_at := clock e 0\<rparr>) t"
  by (auto simp: BindSession_def split: sum.splits)

lemma attempt_keeps: "triple w P m (\<lambda>_. P) (\<lambda>_. P) \<Longrightarrow> triple w P (attempt m) (\<lambda>_. P) E"
  by (rule triple_attempt)

lemma queue_call2_triple:
  assumes "\<And>i s r q. P s \<Longrightarrow> f (env_from i (w_env w)) (db_queue s) (db_queue s) = (r, q) \<Longrightarrow> Q r (s\<lparr>db_queue := q\<rparr>)"
  shows "triple (quiet w) P (queue_call2 n f) (\<lambda>a. Q (Inr a)) (\<lambda>er. Q (Inl er))"
  unfolding triple_def queue_call2_def Let_def using assms by (auto split: prod.splits sum.splits)

lemma queue_call_triple:
  assumes "\<And>i s r q. P s \<Longrightarrow> f (env_from i (w_env w)) (db_queue s) = (r, q) \<Longrightarrow> Q r (s\<lparr>db_queue := q\<rparr>)"
  shows "triple (quiet w) P (queue_call n f) (\<lambda>a. Q (Inr a)) (\<lambda>er. Q (Inl er))"
  unfolding triple_def queue_call_def Let_def using assms by (auto split: prod.splits sum.splits)

lemma MarkFailed_not_done:
  "triple (quiet w) (not_done i) (attempt (queue_MarkFailed tid msg meta)) (\<lambda>_. not_done i) (\<lambda>_. not_done i)"
  unfolding queue_MarkFailed_def
  by (rule attempt_keeps, rule queue_call2_triple)
    (auto simp: not_done_def dest: MarkFailed_rows)

lemma bind_session_pending:
  "triple (quiet w) (pending_gate k) (bind_session k res) (\<lambda>_. pending_gate k) (\<lambda>_. pending_gate k)"
  unfolding bind_session_def queue_BindSession_def
  by (auto intro!: triple_ret triple_bind[OF attempt_keeps] queue_call_triple)
    (auto simp: pending_gate_def not_done_def gate_db_ok_def dest!: BindSession_rows)

lemma leaves_pending:
  "leaves m \<Longrightarrow> triple (quiet w) (pending_gate k) m (\<lambda>_. pending_gate k) (\<lambda>_. pending_gate k)"
  by (rule leaves_triple) simp_all

lemma leaves_not_done: "leaves m \<Longrightarrow> triple (quiet w) (not_done i) m (\<lambda>_. not_done i) (\<lambda>_. not_done i)"
  by (rule leaves_triple) simp_all

lemma failCompletionGate_not_done:
  assumes "tidy c"
  shows "triple (quiet w) (not_done i) (failCompletionGate c k run reason) (\<lambda>_. not_done i) (\<lambda>_. not_done i)"
  unfolding failCompletionGate_def
  by (rule triple_bind[OF MarkFailed_not_done], rule leaves_not_done)
    (intro inv_intros deliver_leaves assms)

lemma finish_failed_not_done:
  assumes "tidy c"
  shows "triple (quiet w) (not_done i) (finish_failed c k run te) (\<lambda>_. not_done i) (\<lambda>_. not_done i)"
  unfolding finish_failed_def
  by (rule triple_bind[OF MarkFailed_not_done], rule leaves_not_done)
    (intro inv_intros deliver_leaves retire_leaves assms)

text \<open>A runner that does not finish the task itself and keeps the keys of the gate's tables.\<close>

definition runner_keeps :: "(db \<Rightarrow> bool) \<Rightarrow> runner \<Rightarrow> bool" where
  "runner_keeps P f \<longleftrightarrow> (\<forall>payload aid w i s. P s \<longrightarrow> P (snd (snd (f payload aid (quiet w) i s))))"

definition runners_keep :: "(db \<Rightarrow> bool) \<Rightarrow> worker_conf \<Rightarrow> bool" where
  "runners_keep P c \<longleftrightarrow> (\<forall>f. wc_agent c = Some f \<or> wc_research c = Some f \<longrightarrow> runner_keeps P f)"

lemma nil_runner_keeps: "runner_keeps P nil_runner"
  by (simp add: runner_keeps_def nil_runner_def Let_def)

lemma call_runner_keeps:
  "runner_keeps P f \<Longrightarrow> triple (quiet w) P (call_runner f payload aid) (\<lambda>_. P) E"
  unfolding triple_def call_runner_def runner_keeps_def by (auto split: prod.splits) (metis snd_conv)

lemma runTaskSafely_keeps:
  assumes "runners_keep P c" and "\<And>res. triple (quiet w) P (bind_session k res) (\<lambda>_. P) E"
  shows "triple (quiet w) P (runTaskSafely c k aid) (\<lambda>_. P) E"
proof -
  have "runner_keeps P (case wc_agent c of None \<Rightarrow> nil_runner | Some g \<Rightarrow> g)"
    and "wc_research c = Some y \<Longrightarrow> runner_keeps P y" for y
    using assms(1) nil_runner_keeps by (auto simp: runners_keep_def split: option.splits)
  moreover have "triple (quiet w) P (finish_run b p k e) (\<lambda>_. P) E" for b p e
    unfolding finish_run_def Let_def
    by (auto intro!: triple_ret triple_bind[OF assms(2)] split: run_end.split sum.split)
  ultimately show ?thesis
    unfolding runTaskSafely_def runTask_def Let_def
    by (auto intro!: triple_ret triple_bind[OF call_runner_keeps])
qed

lemma MarkDone_keeps_gate:
  "triple (quiet w) (gate_passed k) (attempt (queue_MarkDone tid result summary)) (\<lambda>_. gate_passed k) (\<lambda>_. gate_passed k)"
  unfolding queue_MarkDone_def
  by (rule attempt_keeps, rule queue_call2_triple) (simp add: gate_passed_def)

lemma finish_done_gate:
  assumes "tidy c"
  shows "triple (quiet w) (gate_passed k) (finish_done c k run res) (\<lambda>_. gate_passed k) (\<lambda>_. gate_passed k)"
  unfolding finish_done_def
  by (rule triple_bind[OF MarkDone_keeps_gate], rule leaves_triple)
    (intro inv_intros deliver_leaves assms, simp)

text \<open>What the gate lets pass.\<close>

lemma gate_Evaluate_queue:
  assumes about: "about_queue P" and "\<And>p. provider = Some p \<Longrightarrow> reads_only (p k aid)"
  shows "triple (quiet w) P (gate_Evaluate g provider k aid) (\<lambda>_. P) (\<lambda>_. P)"
proof -
  have p: "triple (quiet w) P m (\<lambda>_. P) (\<lambda>_. P)"
    if "\<And>x. preserves (\<lambda>s. db_queue s = x) m" for m :: "(db, 'a) act"
  proof (rule triple_state)
    fix i s assume "P s"
    have "db_queue (act_state (m (quiet w) i s)) = db_queue s"
      using preserves_state[OF that] by simp
    with about \<open>P s\<close> show "P (act_state (m (quiet w) i s))" by (metis about_queue_def)
  qed
  have recorded: "triple (quiet w) P (gate_record k aid run st reason js) (\<lambda>_. P) (\<lambda>_. P)"
    for run st reason js
    unfolding gate_record_def CreateCompletionGate_def GetCompletionGate_def
    by (rule p) (intro inv_intros preserves_on_table, simp_all)
  note reads = triple_reads[OF context_reads[OF assms(2)]]
  show ?thesis
    unfolding gate_Evaluate_def Let_def latestRelevantVerification_def ListVerificationRunsByTask_def
      ListToolActionReceiptsByTask_def
    by (auto intro!: triple_fail triple_ret triple_bind[OF p] triple_bind[OF reads] recorded inv_intros
        split: option.split prod.split)
qed

lemma gate_block_verified:
  assumes reads: "\<And>p. wc_provider c = Some p \<Longrightarrow> reads_only (p k aid)"
    and asked: "requestedGate k \<noteq> ''''" "gate_asked k" and gate: "wc_gate c = Some g"
  shows "triple (quiet w) (pending_gate k) (gate_block c k aid)
    (\<lambda>b s. not_done (tk_id k) s \<and> (b = None \<longrightarrow> gate_passed k s)) E"
proof -
  let ?ev = "gate_Evaluate g (wc_provider c) k aid"
  have "triple (quiet w) gate_db_ok ?ev (\<lambda>d s. gd_passed d \<longrightarrow> gate_passed k s) (\<lambda>_ _. True)"
  proof (rule triple_conseq)
    show "triple (quiet w) gate_db_ok ?ev (\<lambda>d s. gate_row_for k aid d s \<and> gd_passed d = (gd_status d = CompletionGateStatusPassed) \<and>
       (gd_passed d \<longrightarrow> verified k aid (db_verifications s) \<and> settled aid (db_receipts s))) (\<lambda>_ _. True)"
      by (rule gate_Evaluate_triple) (use reads asked in auto)
  qed (auto simp: gate_row_for_def gate_passed_def dest!: tbl_get_SomeD)
  moreover have "triple (quiet w) (not_done (tk_id k)) ?ev (\<lambda>_. not_done (tk_id k)) (\<lambda>_. not_done (tk_id k))"
    by (rule gate_Evaluate_queue) (use reads in \<open>auto simp: about_queue_def not_done_def\<close>)
  ultimately have ev: "triple (quiet w) (pending_gate k) ?ev
      (\<lambda>d s. not_done (tk_id k) s \<and> (gd_passed d \<longrightarrow> gate_passed k s)) (\<lambda>_. not_done (tk_id k))"
    unfolding triple_def pending_gate_def by (fastforce split: prod.splits sum.splits)
  have "triple (quiet w) (pending_gate k) (attempt ?ev)
      (\<lambda>r s. not_done (tk_id k) s \<and> (\<forall>d. r = Inr d \<and> gd_passed d \<longrightarrow> gate_passed k s)) E"
    by (rule triple_attempt, rule triple_conseq[OF ev]) auto
  then show ?thesis
    unfolding gate_block_def gate option.case using asked(2)
    by (auto intro!: triple_bind triple_ret split: sum.splits if_splits)
qed

text \<open>
  C30: the completion gate holds.  When a worker has run a task whose payload asks for the gate, whatever
  its runner did, the task is done only if a passed row of the gate was written for it, the newest
  verification run since the task started says passed, and none of its tool receipts is still open.
\<close>

theorem done_only_if_verified:
  assumes "tidy c" and "runners_keep (pending_gate k) c"
    and "\<And>p aid. wc_provider c = Some p \<Longrightarrow> reads_only (p k aid)"
    and "requestedGate k \<noteq> ''''" and "pending_gate k s"
    and "worker_process c k (quiet w) i s = (r, j, s')" and "\<not> not_done (tk_id k) s'"
  shows "gate_passed k s'"
proof -
  let ?ND = "not_done (tk_id k)" and ?G = "gate_passed k"
  let ?E = "\<lambda>s. ?ND s \<or> ?G s"
  have asked: "gate_asked k" using assms(4) by (auto simp: requestedGate_def gate_asked_def)
  note weak = triple_conseq[where Q = "\<lambda>_. ?E" and E = "\<lambda>_. ?E"]
  have refused: "triple (quiet w) ?ND (failCompletionGate c k run reason) (\<lambda>_. ?E) (\<lambda>_. ?E)" for run reason
    by (rule weak[OF failCompletionGate_not_done[OF assms(1)]]) auto
  have failed: "triple (quiet w) (pending_gate k) (finish_failed c k run te) (\<lambda>_. ?E) (\<lambda>_. ?E)" for run te
    by (rule weak[OF finish_failed_not_done[OF assms(1)]]) (auto simp: pending_gate_def)
  have finished: "triple (quiet w) ?G (finish_done c k run res) (\<lambda>_. ?E) (\<lambda>_. ?E)" for run res
    by (rule weak[OF finish_done_gate[OF assms(1)]]) auto
  have ended: "triple (quiet w) (\<lambda>s. ?ND s \<and> (b = None \<longrightarrow> ?G s))
      (case b of None \<Rightarrow> finish_done c k run res | Some reason \<Rightarrow> failCompletionGate c k run reason)
      (\<lambda>_. ?E) (\<lambda>_. ?E)" for b run res
    by (cases b) (auto intro: triple_conseq[OF refused] triple_conseq[OF finished])
  have ran: "triple (quiet w) (pending_gate k) (runTaskSafely c k aid) (\<lambda>_. pending_gate k) (\<lambda>_. ?E)" for aid
    by (rule triple_conseq[OF runTaskSafely_keeps[OF assms(2) bind_session_pending]]) (auto simp: pending_gate_def)
  have gated: "triple (quiet w) (pending_gate k) (gate_block c k aid) (\<lambda>b s. ?ND s \<and> (b = None \<longrightarrow> ?G s)) (\<lambda>_. ?E)"
    if "gate_refusal c k aid = None" for aid
  proof -
    from that asked obtain g where "wc_gate c = Some g" by (auto simp: gate_refusal_def split: if_splits option.splits)
    then show ?thesis by (intro gate_block_verified) (use assms(3,4) asked in auto)
  qed
  have started: "triple (quiet w) (pending_gate k) (start_envelope c k) (\<lambda>_. pending_gate k) (\<lambda>_. ?E)"
    by (rule triple_conseq[OF leaves_pending[OF start_envelope_leaves]]) (auto simp: pending_gate_def)
  have "triple (quiet w) (pending_gate k) (worker_process c k) (\<lambda>_. ?E) (\<lambda>_. ?E)"
    unfolding worker_process_def Let_def
    by (rule triple_bind[OF started])
      (auto split: option.split sum.split intro!: triple_bind[OF ran] failed ended triple_bind[OF gated]
        triple_conseq[OF refused] simp: pending_gate_def)
  then have "?E s'"
    using assms(5,6) by (cases r) (auto dest: triple_run triple_run_error)
  with assms(7) show ?thesis by blast
qed

section \<open>A claimed task ends\<close>

definition running :: "int \<Rightarrow> db \<Rightarrow> bool" where
  "running tid s \<longleftrightarrow> (\<exists>r c. tbl_get tq_id tid (db_queue s) = Some r \<and> tq_status r = StatusRunning \<and>
     parseTaskCompletion (tq_completion r) = Inr c)"

definition ended :: "int \<Rightarrow> db \<Rightarrow> bool" where
  "ended tid s \<longleftrightarrow> (\<exists>r. tbl_get tq_id tid (db_queue s) = Some r \<and> tq_status r \<in> {StatusDone, StatusFailed})"

lemma about_queue_ends [simp]: "about_queue (running tid)" "about_queue (ended tid)"
  by (simp_all add: about_queue_def running_def ended_def)

lemma leaves_queue: "leaves m \<Longrightarrow> about_queue P \<Longrightarrow> triple (quiet w) P m (\<lambda>_. P) (\<lambda>_. P)"
  by (rule leaves_triple, assumption) (unfold about_view_def about_queue_def view_def prod.inject, blast)

lemma stmt_sound: "\<forall>i. fault e i 0 = None \<Longrightarrow> stmt e i r = r"
  by (simp add: stmt_def)

lemma Get_total:
  assumes "\<forall>i. fault e i 0 = None" and "running tid s"
  shows "\<exists>k. Get e i (db_queue s) tid = Inr k"
proof -
  obtain r c where "tbl_get tq_id tid (db_queue s) = Some r" "parseTaskCompletion (tq_completion r) = Inr c"
    using assms(2) by (auto simp: running_def)
  then show ?thesis by (simp add: Get_def stmt_sound[OF assms(1)] row_task_def wrap_def)
qed

lemma build_total:
  "\<forall>i. fault e i 0 = None \<Longrightarrow> running tid s \<Longrightarrow>
     \<exists>cj. buildCompletionJSON e i j (db_queue s) tid st summary fallback meta = Inr cj"
  by (drule (1) Get_total[where i = i]) (auto simp only: buildCompletionJSON_def sum.case)

lemma finish_ends:
  assumes "running tid s" and "\<And>x. tq_status (f x) \<in> {StatusDone, StatusFailed} \<and> tq_id (f x) = tq_id x"
  shows "ended tid (s\<lparr>db_queue := tbl_update (\<lambda>r. tq_id r = tid \<and> tq_status r = StatusRunning) f (db_queue s)\<rparr>)"
proof -
  obtain r where r: "tbl_get tq_id tid (db_queue s) = Some r" "tq_status r = StatusRunning"
    using assms(1) by (auto simp: running_def)
  with tbl_get_SomeD[OF r(1)] assms(2) show ?thesis by (simp add: ended_def tbl_get_update)
qed

lemma MarkFailed_ends:
  assumes sound: "\<forall>i. fault e i 0 = None" and run: "running tid s"
    and "MarkFailedWithMetadata e (db_queue s) (db_queue s) tid msg meta = (r, q)"
  shows "ended tid (s\<lparr>db_queue := q\<rparr>)"
proof -
  let ?meta = "meta\<lparr>fm_failure_class := TrimSpace (fm_failure_class meta),
            fm_session_retirement_reason := TrimSpace (fm_session_retirement_reason meta),
            fm_next_action := TrimSpace (fm_next_action meta)\<rparr>"
  obtain cj where "buildCompletionJSON e 0 0 (db_queue s) tid StatusFailed '''' msg ?meta = Inr cj"
    using build_total[OF sound run] by blast
  then have "q = tbl_update (\<lambda>r. tq_id r = tid \<and> tq_status r = StatusRunning)
      (\<lambda>r. (finish_row StatusFailed ''failed'' (completionSummary StatusFailed '''' msg) msg cj
          (clock e 1) (clock e 2) r)\<lparr>tq_timeout_class := fm_timeout_class ?meta\<rparr>) (db_queue s)"
    using assms(3) by (auto simp: MarkFailedWithMetadata_def Let_def stmt_sound[OF sound] split: if_splits)
  with finish_ends[OF run] show ?thesis by (simp add: finish_row_def)
qed

lemma MarkDone_ends:
  assumes sound: "\<forall>i. fault e i 0 = None" and run: "running tid s"
    and "MarkDone e (db_queue s) (db_queue s) tid res summary = (r, q)"
  shows "ended tid (s\<lparr>db_queue := q\<rparr>)"
proof -
  obtain cj where "buildCompletionJSON e 0 0 (db_queue s) tid StatusDone summary res metadata_zero = Inr cj"
    using build_total[OF sound run] by blast
  then have "q = tbl_update (\<lambda>r. tq_id r = tid \<and> tq_status r = StatusRunning)
      (finish_row StatusDone ''completed'' summary res cj (clock e 1) (clock e 2)) (db_queue s)"
    using assms(3) by (auto simp: MarkDone_def Let_def stmt_sound[OF sound] split: if_splits)
  with finish_ends[OF run] show ?thesis by (simp add: finish_row_def)
qed

lemma env_from_sound: "no_faults w \<Longrightarrow> \<forall>j. fault (env_from i (w_env w)) j 0 = None"
  by (simp add: no_faults_def env_from_def)

lemma queue_ends:
  assumes "no_faults w"
  shows "triple (quiet w) (running tid) (attempt (queue_MarkFailed tid msg meta)) (\<lambda>_. ended tid) E"
    and "triple (quiet w) (running tid) (attempt (queue_MarkDone tid res summary)) (\<lambda>_. ended tid) E"
  unfolding queue_MarkFailed_def queue_MarkDone_def
  by (rule triple_attempt, rule queue_call2_triple,
      erule (1) MarkFailed_ends[OF env_from_sound[OF assms]] MarkDone_ends[OF env_from_sound[OF assms]])+

lemma BindSession_running:
  assumes "running tid s" and "BindSession e (db_queue s) i session = (r, q)"
  shows "running tid (s\<lparr>db_queue := q\<rparr>)"
  using BindSession_rows[OF assms(2)] assms(1) by (auto simp: running_def tbl_get_update)

lemma bind_session_running:
  "triple (quiet w) (running tid) (bind_session k res) (\<lambda>_. running tid) E"
  unfolding bind_session_def queue_BindSession_def
  by (auto intro!: triple_ret triple_bind[OF attempt_keeps] queue_call_triple elim: BindSession_running)


section \<open>An example\<close>

definition demo_payload :: string where
  "demo_payload = ''{'' @ [CHR 0x22] @ ''prompt'' @ [CHR 0x22, CHR '':'', CHR 0x22, CHR ''p'', CHR 0x22, CHR '',''] @
     [CHR 0x22] @ ''agentic_completion_gate'' @ [CHR 0x22, CHR '':'', CHR 0x22] @ ''verification'' @ [CHR 0x22, CHR ''}'']"

definition demo_row :: queue_row where
  "demo_row = claim_row 5 (new_row (demo_payload, '''', 1) 1)"

definition demo_task :: task where
  "demo_task = (case row_task demo_row of Inr k \<Rightarrow> k | Inl _ \<Rightarrow> undefined)"

definition demo_db :: db where
  "demo_db = db_empty\<lparr>db_queue := \<lparr>tbl_rows = [demo_row], tbl_next = 2\<rparr>,
     db_tasks := \<lparr>tbl_rows = [(envelope_task demo_task)\<lparr>at_id := 1\<rparr>], tbl_next = 2\<rparr>,
     db_verifications := \<lparr>tbl_rows = [\<lparr>vr_id = 1, vr_task_id = 1, vr_verifier_actor_id = None,
        vr_criteria_json = '''', vr_evidence_refs_json = '''', vr_verdict = VerificationVerdictPassed,
        vr_reason = '''', vr_created_at = 6\<rparr>], tbl_next = 2\<rparr>\<rparr>"

definition demo_runner :: runner where
  "demo_runner payload aid w i s =
     (Ended \<lparr>rn_result = Inr \<lparr>rr_result = ''ok'', rr_summary = '''', rr_session_id = ''''\<rparr>, rn_texts = [],
        rn_cancelled = None, rn_task_err = None, rn_ctx_err = None, rn_idle = False\<rparr>, i, s)"

definition demo_worker :: worker_conf where
  "demo_worker = \<lparr>wc_router = None, wc_envelope = True, wc_gate = Some \<lparr>gc_store = True, gc_mode = ModeVerification\<rparr>,
     wc_provider = None, wc_notify = (\<lambda>_ _. ret ()), wc_agent = Some demo_runner, wc_research = None,
     wc_retire = None, wc_fault_panic = False\<rparr>"

lemma demo_facts:
  "requestedGate demo_task \<noteq> ''''" "pending_gate demo_task demo_db" "tk_id demo_task = 1"
  "tbl_get tq_id 1 (db_queue demo_db) = Some demo_row" "tq_status demo_row = StatusRunning"
  "parseTaskCompletion (tq_completion demo_row) = Inr None"
  by code_simp+

lemma demo_done:
  "\<not> not_done 1 (act_state (worker_process demo_worker demo_task (quiet (calm_world 9)) 0 demo_db))"
  unfolding world_simps by code_simp

lemma demo_worker_ok: "tidy demo_worker" "runners_keep P demo_worker" "wc_provider demo_worker = None"
  by (simp_all add: tidy_def demo_worker_def leaves_ret runners_keep_def runner_keeps_def demo_runner_def)

lemma demo_run:
  obtains r j s' where "worker_process demo_worker demo_task (quiet (calm_world 9)) 0 demo_db = (r, j, s')"
    and "s' = act_state (worker_process demo_worker demo_task (quiet (calm_world 9)) 0 demo_db)"
  by (metis act_simps(2) prod_cases3)

lemma done_only_if_verified_witness:
  "let s' = act_state (worker_process demo_worker demo_task (quiet (calm_world 9)) 0 demo_db)
   in \<not> not_done 1 s' \<and> gate_passed demo_task s'"
proof (rule demo_run)
  fix r j s' assume run: "worker_process demo_worker demo_task (quiet (calm_world 9)) 0 demo_db = (r, j, s')"
    and s': "s' = act_state (worker_process demo_worker demo_task (quiet (calm_world 9)) 0 demo_db)"
  have "gate_passed demo_task s'"
    by (rule done_only_if_verified[OF demo_worker_ok(1,2) _ demo_facts(1,2) run])
      (use demo_done s' in \<open>simp_all add: demo_worker_ok(3) demo_facts(3)\<close>)
  with demo_done show ?thesis unfolding Let_def s' by blast
qed


section \<open>What the texts of a run are taken for\<close>

text \<open>
  A word that holds the letters eof makes any failure an I/O failure, which retires the session; the
  same failure without it is a failure of a tool, which does not.
\<close>

lemma eof_in_a_word:
  "taskFailureMetadata (TaskFailed None None (EMsg ''typeof x is not a function'')) =
     \<lparr>fm_timeout_class = TimeoutClassNone, fm_failure_class = ''runtime_io'', fm_should_retire_session = True,
      fm_session_retirement_reason = ''runtime_io'', fm_next_action = ''start_new_session_or_operator_review''\<rparr>
   \<and> \<not> fm_should_retire_session (taskFailureMetadata (TaskFailed None None (EMsg ''x is not a function'')))"
  by code_simp

text \<open>
  Text that reads as a progress event is not part of the output: an answer that is a JSON object
  with a message, streamed in one piece, leaves the result empty.
\<close>

lemma event_text_dropped:
  assumes "ParseProgressEvent text = Some ev" and "rr_result res = ''''"
  shows "outcome_result True (x\<lparr>rn_texts := [text]\<rparr>) res = res\<lparr>rr_result := rr_summary res\<rparr>"
  using assms by (simp add: outcome_result_def run_output_def)

end
