(* ===== verification/Go_Net.thy ===== *)
theory Go_Net
  imports Go_Strings "HOL-Library.Word"
begin

text \<open>
  The parts of Go's \<open>net\<close> package the network proxy uses: addresses as lists of 4 or 16 bytes, their
  parser and printer, the classifiers of \<open>net.IP\<close>, networks, and the splitting of \<open>host:port\<close>.
  \<open>Fields\<close>, \<open>ToUpper\<close>, \<open>TrimRight\<close> with a set of characters and \<open>ReplaceAll\<close> of \<open>strings\<close> are here too.
\<close>

unbundle bit_operations_syntax

section \<open>Addresses\<close>

type_synonym ip = "8 word list"

definition To4 :: "ip \<Rightarrow> ip option" where
  "To4 a =
     (if length a = 4 then Some a
      else if length a = 16 \<and> take 12 a = replicate 10 0 @ [0xFF, 0xFF] then Some (drop 12 a)
      else None)"

definition mapped :: "ip \<Rightarrow> ip" where
  "mapped a = replicate 10 0 @ [0xFF, 0xFF] @ a"

definition IP_Equal :: "ip \<Rightarrow> ip \<Rightarrow> bool" where
  "IP_Equal a b =
     (if length a = length b then a = b
      else if length a = 4 \<and> length b = 16 then b = mapped a
      else if length a = 16 \<and> length b = 4 then a = mapped b
      else False)"

definition IPv6loopback :: ip where "IPv6loopback = replicate 15 0 @ [1]"

definition IsUnspecified :: "ip \<Rightarrow> bool" where
  "IsUnspecified a \<longleftrightarrow> IP_Equal a (replicate 4 0) \<or> IP_Equal a (replicate 16 0)"

definition IsLoopback :: "ip \<Rightarrow> bool" where
  "IsLoopback a = (case To4 a of Some v \<Rightarrow> v ! 0 = 127 | None \<Rightarrow> IP_Equal a IPv6loopback)"

definition IsPrivate :: "ip \<Rightarrow> bool" where
  "IsPrivate a =
     (case To4 a of
        Some v \<Rightarrow> v ! 0 = 10 \<or> (v ! 0 = 172 \<and> v ! 1 AND 0xF0 = 16) \<or> (v ! 0 = 192 \<and> v ! 1 = 168)
      | None \<Rightarrow> length a = 16 \<and> a ! 0 AND 0xFE = 0xFC)"

definition IsMulticast :: "ip \<Rightarrow> bool" where
  "IsMulticast a =
     (case To4 a of
        Some v \<Rightarrow> v ! 0 AND 0xF0 = 0xE0
      | None \<Rightarrow> length a = 16 \<and> a ! 0 = 0xFF)"

definition IsLinkLocalMulticast :: "ip \<Rightarrow> bool" where
  "IsLinkLocalMulticast a =
     (case To4 a of
        Some v \<Rightarrow> v ! 0 = 224 \<and> v ! 1 = 0 \<and> v ! 2 = 0
      | None \<Rightarrow> length a = 16 \<and> a ! 0 = 0xFF \<and> a ! 1 AND 0x0F = 0x02)"

definition IsLinkLocalUnicast :: "ip \<Rightarrow> bool" where
  "IsLinkLocalUnicast a =
     (case To4 a of
        Some v \<Rightarrow> v ! 0 = 169 \<and> v ! 1 = 254
      | None \<Rightarrow> length a = 16 \<and> a ! 0 = 0xFE \<and> a ! 1 AND 0xC0 = 0x80)"

text \<open>A network in the notation of \<open>ParseCIDR\<close>: an IPv4 address and the length of its prefix.\<close>

definition byte_mask :: "nat \<Rightarrow> 8 word" where
  "byte_mask n = NOT (mask (8 - min n 8))"

definition cidr_mask :: "nat \<Rightarrow> ip" where
  "cidr_mask n = map (\<lambda>i. byte_mask (n - 8 * i)) [0, 1, 2, 3]"

definition cidr_Contains :: "ip \<times> nat \<Rightarrow> ip \<Rightarrow> bool" where
  "cidr_Contains c a \<longleftrightarrow> map2 (AND) (cidr_mask (snd c)) a = map2 (AND) (cidr_mask (snd c)) (fst c)"

section \<open>Parsing\<close>

definition byte_of_char :: "char \<Rightarrow> 8 word" where
  "byte_of_char c = of_char c"

definition char_of_byte :: "8 word \<Rightarrow> char" where
  "char_of_byte b = char_of (unat b)"

text \<open>A field of a dotted address: digits, at most 255, no leading zero.\<close>

definition dotted_field :: "string \<Rightarrow> 8 word option" where
  "dotted_field s =
     (if s = '''' \<or> (length s > 1 \<and> hd s = CHR ''0'') then None
      else (case digits_val 0 s of Some n \<Rightarrow> if n \<le> 255 then Some (of_nat n) else None | None \<Rightarrow> None))"

fun sequence :: "'a option list \<Rightarrow> 'a list option" where
  "sequence [] = Some []"
| "sequence (None # xs) = None"
| "sequence (Some x # xs) = map_option ((#) x) (sequence xs)"

definition parse_dotted :: "string \<Rightarrow> ip option" where
  "parse_dotted s =
     (let fs = Split (CHR ''.'') s in if length fs = 4 then sequence (map dotted_field fs) else None)"

definition hex_val :: "char \<Rightarrow> nat option" where
  "hex_val c =
     (let n = of_char c in
      if 48 \<le> n \<and> n \<le> 57 then Some (n - 48)
      else if 97 \<le> n \<and> n \<le> 102 then Some (n - 87)
      else if 65 \<le> n \<and> n \<le> 70 then Some (n - 55) else None)"

definition hex_group :: "string \<Rightarrow> nat" where
  "hex_group s = foldl (\<lambda>acc c. 16 * acc + the (hex_val c)) 0 s"

definition hex_front :: "string \<Rightarrow> string" where
  "hex_front s = takeWhile (\<lambda>c. hex_val c \<noteq> None) s"

definition hex_rest :: "string \<Rightarrow> string" where
  "hex_rest s = dropWhile (\<lambda>c. hex_val c \<noteq> None) s"

definition group_bytes :: "string \<Rightarrow> ip" where
  "group_bytes s = [of_nat (hex_group s div 256), of_nat (hex_group s mod 256)]"

text \<open>
  The loop of \<open>parseIPv6\<close>: the bytes so far, where the ellipsis was, the rest of the text.  The result
  has the bytes, the ellipsis and the text that is left over; every round takes two bytes.
\<close>

fun parse_groups :: "nat \<Rightarrow> ip \<Rightarrow> nat option \<Rightarrow> string \<Rightarrow> (ip \<times> nat option \<times> string) option" where
  "parse_groups 0 bs ell s = Some (bs, ell, s)"
| "parse_groups (Suc n) bs ell s =
     (if hex_front s = '''' \<or> length (hex_front s) > 4 then None
      else if hex_rest s \<noteq> '''' \<and> hd (hex_rest s) = CHR ''.'' then
        (if (ell = None \<and> length bs \<noteq> 12) \<or> length bs + 4 > 16 then None
         else map_option (\<lambda>v. (bs @ v, ell, '''')) (parse_dotted s))
      else
        (let bs' = bs @ group_bytes (hex_front s) in
         case hex_rest s of
           [] \<Rightarrow> Some (bs', ell, '''')
         | [c] \<Rightarrow> None
         | c # d # t \<Rightarrow>
             if c \<noteq> CHR '':'' then None
             else if d \<noteq> CHR '':'' then parse_groups n bs' ell (d # t)
             else if ell \<noteq> None then None
             else if t = '''' then Some (bs', Some (length bs'), '''')
             else parse_groups n bs' (Some (length bs')) t))"

definition expand_ellipsis :: "ip \<times> nat option \<times> string \<Rightarrow> ip option" where
  "expand_ellipsis r =
     (case r of (bs, ell, rest) \<Rightarrow>
        if rest \<noteq> '''' then None
        else if length bs < 16 then
          map_option (\<lambda>e. take e bs @ replicate (16 - length bs) 0 @ drop e bs) ell
        else if ell \<noteq> None then None else Some bs)"

definition parse_v6 :: "string \<Rightarrow> ip option" where
  "parse_v6 s =
     (if HasPrefix s ''::'' then
        (if length s = 2 then Some (replicate 16 0)
         else Option.bind (parse_groups 8 [] (Some 0) (drop 2 s)) expand_ellipsis)
      else Option.bind (parse_groups 8 [] None s) expand_ellipsis)"

text \<open>\<open>net.ParseIP\<close>: the first of a dot, a colon and a percent sign decides; a zone is refused.\<close>

definition ParseIP :: "string \<Rightarrow> ip option" where
  "ParseIP s =
     (case find (\<lambda>c. c \<in> {CHR ''.'', CHR '':'', CHR ''%''}) s of
        None \<Rightarrow> None
      | Some c \<Rightarrow>
          if c = CHR ''.'' then map_option mapped (parse_dotted s)
          else if c = CHR '':'' then (if CHR ''%'' \<in> set s then None else parse_v6 s)
          else None)"

section \<open>Printing\<close>

definition dotted_text :: "ip \<Rightarrow> string" where
  "dotted_text a = Join ''.'' (map (\<lambda>b. nat_digits (unat b)) a)"

definition hex_digit :: "nat \<Rightarrow> char" where
  "hex_digit n = (if n < 10 then char_of (48 + n) else char_of (87 + n))"

fun hex_digits :: "nat \<Rightarrow> string" where
  "hex_digits n = (if n < 16 then [hex_digit n] else hex_digits (n div 16) @ [hex_digit (n mod 16)])"

declare hex_digits.simps [simp del]

fun groups_of :: "ip \<Rightarrow> nat list" where
  "groups_of (a # b # r) = (256 * unat a + unat b) # groups_of r"
| "groups_of r = []"

definition zero_run :: "nat list \<Rightarrow> nat" where
  "zero_run gs = length (takeWhile (\<lambda>g. g = 0) gs)"

text \<open>The first of the longest runs of at least two zero groups: its start and its length.\<close>

fun longest_zeros :: "nat \<Rightarrow> nat list \<Rightarrow> (nat \<times> nat) option" where
  "longest_zeros i [] = None"
| "longest_zeros i (g # gs) =
     (let n = zero_run (g # gs); later = longest_zeros (Suc i) gs in
      if n < 2 then later
      else (case later of Some (j, m) \<Rightarrow> if n < m then later else Some (i, n) | None \<Rightarrow> Some (i, n)))"

definition v6_text :: "ip \<Rightarrow> string" where
  "v6_text a =
     (let gs = groups_of a in
      case longest_zeros 0 gs of
        None \<Rightarrow> Join '':'' (map hex_digits gs)
      | Some (i, n) \<Rightarrow> Join '':'' (map hex_digits (take i gs)) @ ''::'' @ Join '':'' (map hex_digits (drop (i + n) gs)))"

definition IP_String :: "ip \<Rightarrow> string" where
  "IP_String a = (case To4 a of Some v \<Rightarrow> dotted_text v | None \<Rightarrow> v6_text a)"

section \<open>Hosts and ports\<close>

text \<open>\<open>net.SplitHostPort\<close>: the port is what follows the last colon.\<close>

definition last_colon :: "string \<Rightarrow> nat option" where
  "last_colon s =
     (if CHR '':'' \<in> set s then Some (length s - 1 - length (takeWhile (\<lambda>c. c \<noteq> CHR '':'') (rev s))) else None)"

definition SplitHostPort :: "string \<Rightarrow> (string \<times> string) option" where
  "SplitHostPort s =
     (case last_colon s of
        None \<Rightarrow> None
      | Some i \<Rightarrow>
          if hd s = CHR ''['' then
            (let e = length (takeWhile (\<lambda>c. c \<noteq> CHR '']'') s); host = take (e - 1) (tl s) in
             if e = length s \<or> e + 1 \<noteq> i then None
             else if CHR ''['' \<in> set (drop 1 s) \<or> CHR '']'' \<in> set (drop (e + 1) s) then None
             else Some (host, drop (i + 1) s))
          else if CHR '':'' \<in> set (take i s) \<or> CHR ''['' \<in> set s \<or> CHR '']'' \<in> set s then None
          else Some (take i s, drop (i + 1) s))"

definition JoinHostPort :: "string \<Rightarrow> string \<Rightarrow> string" where
  "JoinHostPort host port =
     (if CHR '':'' \<in> set host \<or> CHR ''%'' \<in> set host then ''['' @ host @ '']:'' @ port else host @ '':'' @ port)"

section \<open>Texts\<close>

definition ToUpper :: "string \<Rightarrow> string" where
  "ToUpper s = map (\<lambda>c. if 97 \<le> (of_char c :: nat) \<and> (of_char c :: nat) \<le> 122 then char_of ((of_char c :: nat) - 32) else c) s"

text \<open>\<open>strings.TrimRight(s, cutset)\<close>.\<close>

definition TrimRightSet :: "char set \<Rightarrow> string \<Rightarrow> string" where
  "TrimRightSet cs s = rev (dropWhile (\<lambda>c. c \<in> cs) (rev s))"

definition HasSuffix :: "string \<Rightarrow> string \<Rightarrow> bool" where
  "HasSuffix s p = suffix p s"

text \<open>\<open>strings.Fields\<close>: what is between runs of white space.\<close>

fun fields_from :: "nat \<Rightarrow> string \<Rightarrow> string \<Rightarrow> string list" where
  "fields_from 0 acc s = []"
| "fields_from (Suc n) acc s =
     (let out = (if acc = '''' then [] else [rev acc]) in
      case s of
        [] \<Rightarrow> out
      | c # t \<Rightarrow>
          (case find (\<lambda>p. prefix p s) go_spaces of
             Some p \<Rightarrow> out @ fields_from n '''' (drop (length p) s)
           | None \<Rightarrow> fields_from n (c # acc) t))"

definition Fields :: "string \<Rightarrow> string list" where
  "Fields s = fields_from (length s + 1) '''' s"

fun replace_from :: "nat \<Rightarrow> string \<Rightarrow> string \<Rightarrow> string \<Rightarrow> string" where
  "replace_from 0 old new s = s"
| "replace_from (Suc n) old new [] = []"
| "replace_from (Suc n) old new (c # s) =
     (if prefix old (c # s) then new @ replace_from n old new (drop (length old) (c # s))
      else c # replace_from n old new s)"

text \<open>\<open>strings.ReplaceAll\<close> of a text that is not empty.\<close>

definition ReplaceAll :: "string \<Rightarrow> string \<Rightarrow> string \<Rightarrow> string" where
  "ReplaceAll s old new = replace_from (length s + 1) old new s"

section \<open>Lengths\<close>

lemma sequence_length: "sequence xs = Some ys \<Longrightarrow> length ys = length xs"
  by (induction xs arbitrary: ys rule: sequence.induct) auto

lemma parse_dotted_length: "parse_dotted s = Some a \<Longrightarrow> length a = 4"
  by (auto simp: parse_dotted_def Let_def split: if_splits dest: sequence_length)

lemma parse_groups_ell:
  "parse_groups n bs ell s = Some (bs', ell', r) \<Longrightarrow> (\<And>e. ell = Some e \<Longrightarrow> e \<le> length bs) \<Longrightarrow>
     length bs + 2 * n \<le> 16 \<Longrightarrow> length bs' \<le> 16 \<and> (\<forall>e. ell' = Some e \<longrightarrow> e \<le> length bs')"
proof (induction n bs ell s rule: parse_groups.induct)
  case (2 n bs ell s)
  then show ?case
    by (fastforce simp: Let_def group_bytes_def split: if_splits list.splits dest: parse_dotted_length)
qed auto

lemma ParseIP_length: "ParseIP s = Some a \<Longrightarrow> length a = 16"
proof -
  assume "ParseIP s = Some a"
  moreover have "length a = 16" if "Option.bind (parse_groups 8 [] ell t) expand_ellipsis = Some a"
    "ell = None \<or> ell = Some 0" for ell t
    using that by (auto simp: bind_eq_Some_conv expand_ellipsis_def split: if_splits dest!: parse_groups_ell)
  ultimately show ?thesis
    by (auto simp: ParseIP_def parse_v6_def mapped_def split: option.splits if_splits dest: parse_dotted_length)
qed

end
