(* ===== verification/Netproxy_Policy.thy ===== *)
theory Netproxy_Policy
  imports Go_Net Task_Queue
begin

text \<open>
  \<open>internal/tools/netproxy_event.go\<close> and \<open>netproxy_policy.go\<close>: the decisions of the sandbox's network
  proxy.  A rule is a host pattern or an address with a port; \<open>EvaluateWithDenylist\<close> gives a decision
  and the addresses the connection is pinned to.  The resolver is a parameter.
\<close>

section \<open>Decisions\<close>

abbreviation SourceNetworkProxy :: string where "SourceNetworkProxy \<equiv> ''network_proxy''"
abbreviation SourceSandboxSubstrate :: string where "SourceSandboxSubstrate \<equiv> ''sandbox_substrate''"
abbreviation SourceSandboxSubstrateHeuristic :: string where
  "SourceSandboxSubstrateHeuristic \<equiv> ''sandbox_substrate_heuristic''"
abbreviation SourceDNSResolver :: string where "SourceDNSResolver \<equiv> ''dns_resolver''"

abbreviation ProtocolTCP :: string where "ProtocolTCP \<equiv> ''tcp''"
abbreviation ProtocolHTTPSConnect :: string where "ProtocolHTTPSConnect \<equiv> ''https_connect''"
abbreviation ProtocolSOCKS5TCP :: string where "ProtocolSOCKS5TCP \<equiv> ''socks5_tcp''"

abbreviation ReasonNotInAllowlist :: string where "ReasonNotInAllowlist \<equiv> ''not_in_allowlist''"
abbreviation ReasonDeniedByRule :: string where "ReasonDeniedByRule \<equiv> ''denied_by_rule''"
abbreviation ReasonDNSResolutionBlocked :: string where "ReasonDNSResolutionBlocked \<equiv> ''dns_resolution_blocked''"
abbreviation ReasonLocalBindingDisabled :: string where "ReasonLocalBindingDisabled \<equiv> ''local_binding_disabled''"
abbreviation ReasonModeGuard :: string where "ReasonModeGuard \<equiv> ''mode_guard''"
abbreviation ReasonProtocolUnsupported :: string where "ReasonProtocolUnsupported \<equiv> ''protocol_unsupported''"
abbreviation ReasonInvalidConfig :: string where "ReasonInvalidConfig \<equiv> ''invalid_config''"

definition source_IsValid :: "string \<Rightarrow> bool" where
  "source_IsValid s \<longleftrightarrow> s \<in> {SourceNetworkProxy, SourceSandboxSubstrate, SourceSandboxSubstrateHeuristic,
     SourceDNSResolver}"

definition protocol_IsValid :: "string \<Rightarrow> bool" where
  "protocol_IsValid p \<longleftrightarrow> p \<in> {ProtocolTCP, ProtocolHTTPSConnect, ProtocolSOCKS5TCP}"

definition reason_IsValid :: "string \<Rightarrow> bool" where
  "reason_IsValid r \<longleftrightarrow> r \<in> {ReasonNotInAllowlist, ReasonDeniedByRule, ReasonDNSResolutionBlocked,
     ReasonLocalBindingDisabled, ReasonModeGuard, ReasonProtocolUnsupported, ReasonInvalidConfig}"

record net_decision =
  nd_allow :: bool
  nd_source :: string
  nd_reason :: string
  nd_host :: string
  nd_port :: int
  nd_protocol :: string

definition net_decision_zero :: net_decision where
  "net_decision_zero = \<lparr>nd_allow = False, nd_source = '''', nd_reason = '''', nd_host = '''', nd_port = 0,
     nd_protocol = ''''\<rparr>"

definition NewAllow :: "string \<Rightarrow> string \<Rightarrow> int \<Rightarrow> string \<Rightarrow> err + net_decision" where
  "NewAllow source host port protocol =
     (if \<not> source_IsValid source
      then Inl (EMsg (''netproxy: invalid Source '' @ quoted source @ '' for allow decision''))
      else if host = '''' then Inl (EMsg ''netproxy: Host required for allow decision'')
      else if \<not> protocol_IsValid protocol
      then Inl (EMsg (''netproxy: invalid Protocol '' @ quoted protocol @ '' for allow decision''))
      else if port < 0 \<or> port > 65535
      then Inl (EMsg (''netproxy: Port '' @ itoa port @ '' out of range for allow decision''))
      else Inr \<lparr>nd_allow = True, nd_source = source, nd_reason = '''', nd_host = host, nd_port = port,
             nd_protocol = protocol\<rparr>)"

definition NewDeny :: "string \<Rightarrow> string \<Rightarrow> string \<Rightarrow> int \<Rightarrow> string \<Rightarrow> err + net_decision" where
  "NewDeny source reason host port protocol =
     (if \<not> source_IsValid source
      then Inl (EMsg (''netproxy: invalid Source '' @ quoted source @ '' for deny decision''))
      else if \<not> reason_IsValid reason
      then Inl (EMsg (''netproxy: invalid Reason '' @ quoted reason @ '' for deny decision''))
      else if host = '''' then Inl (EMsg ''netproxy: Host required for deny decision'')
      else if \<not> protocol_IsValid protocol
      then Inl (EMsg (''netproxy: invalid Protocol '' @ quoted protocol @ '' for deny decision''))
      else if port < 0 \<or> port > 65535
      then Inl (EMsg (''netproxy: Port '' @ itoa port @ '' out of range for deny decision''))
      else Inr \<lparr>nd_allow = False, nd_source = source, nd_reason = reason, nd_host = host, nd_port = port,
             nd_protocol = protocol\<rparr>)"

text \<open>\<open>d, _ := NewDeny(...)\<close>: an error leaves the zero decision.\<close>

definition drop_err :: "err + net_decision \<Rightarrow> net_decision" where
  "drop_err r = (case r of Inl _ \<Rightarrow> net_decision_zero | Inr d \<Rightarrow> d)"

abbreviation deny_with :: "string \<Rightarrow> string \<Rightarrow> string \<Rightarrow> int \<Rightarrow> string \<Rightarrow> net_decision" where
  "deny_with source reason host port protocol \<equiv> drop_err (NewDeny source reason host port protocol)"

definition decision_json :: "net_decision \<Rightarrow> json" where
  "decision_json d = JObj ([(''allow'', JBool (nd_allow d)), (''source'', JStr (nd_source d))] @
     opt_member ''reason'' (nd_reason d) @
     [(''host'', JStr (nd_host d)), (''port'', JNum (itoa (nd_port d))), (''protocol'', JStr (nd_protocol d))])"

definition decisionEventLinePrefix :: string where "decisionEventLinePrefix = ''event=''"

definition EncodeDecisionEventLine :: "net_decision \<Rightarrow> string" where
  "EncodeDecisionEventLine d = decisionEventLinePrefix @ print_json (decision_json d) @ [CHR 0x0A]"

definition set_decision_field :: "string \<Rightarrow> json \<Rightarrow> net_decision \<Rightarrow> net_decision \<times> bool" where
  "set_decision_field k v p =
     (if k = ''allow'' then (case dec_bool v (nd_allow p) of (x, ok) \<Rightarrow> (p\<lparr>nd_allow := x\<rparr>, ok))
      else if k = ''source'' then (case dec_string v (nd_source p) of (x, ok) \<Rightarrow> (p\<lparr>nd_source := x\<rparr>, ok))
      else if k = ''reason'' then (case dec_string v (nd_reason p) of (x, ok) \<Rightarrow> (p\<lparr>nd_reason := x\<rparr>, ok))
      else if k = ''host'' then (case dec_string v (nd_host p) of (x, ok) \<Rightarrow> (p\<lparr>nd_host := x\<rparr>, ok))
      else if k = ''port'' then (case dec_int64 v (nd_port p) of (x, ok) \<Rightarrow> (p\<lparr>nd_port := x\<rparr>, ok))
      else if k = ''protocol'' then (case dec_string v (nd_protocol p) of (x, ok) \<Rightarrow> (p\<lparr>nd_protocol := x\<rparr>, ok))
      else (p, True))"

text \<open>\<open>None\<close> for a line that is no event, an error for one that does not decode.\<close>

definition ParseDecisionEventLine :: "string \<Rightarrow> (unit + net_decision) option" where
  "ParseDecisionEventLine line =
     (let trimmed = TrimRightSet {CHR 0x0D, CHR 0x0A} line in
      if \<not> HasPrefix trimmed decisionEventLinePrefix then None
      else (case unmarshal_struct set_decision_field net_decision_zero
                   (drop (length decisionEventLinePrefix) trimmed) of
              (d, ok) \<Rightarrow> Some (if ok then Inr d else Inl ())))"

section \<open>Rules\<close>

datatype wildcardKind = wildcardExact | wildcardSubdomain | wildcardApexAndSub

record policyRule =
  pr_original :: string
  pr_ip :: "ip option"
  pr_pattern :: string
  pr_wildcard :: wildcardKind
  pr_port :: int

definition normalizeHost :: "string \<Rightarrow> string" where
  "normalizeHost host = TrimRightSet {CHR ''.''} (ToLower (TrimSpace host))"

definition rule_error :: "string \<Rightarrow> string \<Rightarrow> string \<Rightarrow> err" where
  "rule_error kind raw what = EMsg (''netproxy '' @ kind @ '' entry '' @ quoted raw @ '': '' @ what)"

text \<open>The shape of a host pattern and what follows its wildcard.\<close>

definition host_pattern :: "string \<Rightarrow> wildcardKind \<times> string" where
  "host_pattern hp =
     (if HasPrefix hp ''**.'' then (wildcardApexAndSub, drop 3 hp)
      else if HasPrefix hp ''*.'' then (wildcardSubdomain, drop 2 hp)
      else (wildcardExact, hp))"

definition parseRule :: "string \<Rightarrow> string \<Rightarrow> err + policyRule" where
  "parseRule raw kind =
     (case SplitHostPort raw of
        None \<Rightarrow> Inl (rule_error kind raw ''missing host:port (port is required)'')
      | Some (host0, portStr) \<Rightarrow>
          (case ParseInt portStr of
             None \<Rightarrow> Inl (rule_error kind raw ''port out of range (must be 1-65535)'')
           | Some port \<Rightarrow>
               if port \<le> 0 \<or> port > 65535
               then Inl (rule_error kind raw ''port out of range (must be 1-65535)'')
               else
                 (let host = TrimSpace host0 in
                  if host = '''' then Inl (rule_error kind raw ''host portion empty'')
                  else if host = ''*''
                  then Inl (rule_error kind raw (''bare global wildcard '' @ quoted ''*'' @
                         '' is not permitted; use exact hosts or scoped wildcards like *.example.com''))
                  else
                    (case ParseIP host of
                       Some a \<Rightarrow> Inr \<lparr>pr_original = raw, pr_ip = Some a, pr_pattern = '''',
                                   pr_wildcard = wildcardExact, pr_port = port\<rparr>
                     | None \<Rightarrow>
                         if CHR ''%'' \<in> set host
                         then Inl (rule_error kind raw
                                ''scoped IPv6 literals are not permitted (zone identifier breaks special-range matching)'')
                         else
                           (case host_pattern (normalizeHost host) of (wk, pattern) \<Rightarrow>
                              if pattern = '''' \<or> CHR ''*'' \<in> set pattern
                              then Inl (rule_error kind raw ''hostname pattern invalid'')
                              else Inr \<lparr>pr_original = raw, pr_ip = None, pr_pattern = pattern,
                                     pr_wildcard = wk, pr_port = port\<rparr>)))))"

fun parseRules :: "string list \<Rightarrow> string \<Rightarrow> err + policyRule list" where
  "parseRules [] kind = Inr []"
| "parseRules (entry # entries) kind =
     (let raw = TrimSpace entry in
      if raw = '''' then Inl (EMsg (''netproxy '' @ kind @ '': empty entry not permitted''))
      else (case parseRule raw kind of
              Inl er \<Rightarrow> Inl er
            | Inr r \<Rightarrow> (case parseRules entries kind of Inl er \<Rightarrow> Inl er | Inr rs \<Rightarrow> Inr (r # rs))))"

definition ParseAllowlist :: "string list \<Rightarrow> err + policyRule list" where
  "ParseAllowlist entries = parseRules entries ''allowlist''"

definition ParseDenylist :: "string list \<Rightarrow> err + policyRule list" where
  "ParseDenylist entries = parseRules entries ''denylist''"

definition matchesHost :: "policyRule \<Rightarrow> string \<Rightarrow> bool" where
  "matchesHost r host =
     (case pr_wildcard r of
        wildcardExact \<Rightarrow> host = pr_pattern r
      | wildcardSubdomain \<Rightarrow> host \<noteq> pr_pattern r \<and> HasSuffix host (''.'' @ pr_pattern r)
      | wildcardApexAndSub \<Rightarrow> host = pr_pattern r \<or> HasSuffix host (''.'' @ pr_pattern r))"

definition matchAny :: "policyRule list \<Rightarrow> string \<Rightarrow> int \<Rightarrow> bool" where
  "matchAny rs host port = list_ex (\<lambda>r. pr_port r = port \<and> pr_ip r = None \<and> matchesHost r host) rs"

definition matchIPRule :: "policyRule list \<Rightarrow> ip \<Rightarrow> int \<Rightarrow> bool" where
  "matchIPRule rs a port =
     list_ex (\<lambda>r. pr_port r = port \<and> (case pr_ip r of None \<Rightarrow> False | Some b \<Rightarrow> IP_Equal b a)) rs"

section \<open>Special ranges\<close>

definition extendedIPv4SpecialCIDRs :: "(ip \<times> nat) list" where
  "extendedIPv4SpecialCIDRs =
     [([0, 0, 0, 0], 8), ([100, 64, 0, 0], 10), ([192, 0, 0, 0], 24), ([192, 0, 2, 0], 24),
      ([198, 18, 0, 0], 15), ([198, 51, 100, 0], 24), ([203, 0, 113, 0], 24), ([240, 0, 0, 0], 4),
      ([255, 255, 255, 255], 32)]"

text \<open>The classifiers of the library, on whichever form of the address.\<close>

definition library_special :: "ip \<Rightarrow> bool" where
  "library_special a \<longleftrightarrow> IsUnspecified a \<or> IsLoopback a \<or> IsMulticast a \<or> IsLinkLocalUnicast a \<or>
     IsLinkLocalMulticast a \<or> IsPrivate a"

text \<open>An IPv4 address in its 16-byte form is looked at again as its four bytes.\<close>

definition isSpecialRangeIP :: "ip \<Rightarrow> bool" where
  "isSpecialRangeIP a \<longleftrightarrow> library_special a \<or>
     (case To4 a of
        None \<Rightarrow> False
      | Some v \<Rightarrow> (length a = 16 \<and> library_special v) \<or>
                  list_ex (\<lambda>n. cidr_Contains n v) extendedIPv4SpecialCIDRs)"

section \<open>Evaluation\<close>

type_synonym resolver = "string \<Rightarrow> err + string list"

text \<open>The answers that parse, in order, up to one the guard refuses.\<close>

fun pin_all :: "policyRule list \<Rightarrow> int \<Rightarrow> string list \<Rightarrow> ip list option" where
  "pin_all rs port [] = Some []"
| "pin_all rs port (addr # addrs) =
     (case ParseIP addr of
        None \<Rightarrow> pin_all rs port addrs
      | Some a \<Rightarrow> if isSpecialRangeIP a \<and> \<not> matchIPRule rs a port then None
                  else map_option ((#) a) (pin_all rs port addrs))"

definition EvaluateWithDenylist ::
  "policyRule list \<Rightarrow> policyRule list \<Rightarrow> string \<Rightarrow> int \<Rightarrow> string \<Rightarrow> resolver option \<Rightarrow> net_decision \<times> ip list" where
  "EvaluateWithDenylist allow deny host0 port protocol resolver =
     (let host = TrimSpace host0; no = (\<lambda>source reason. (deny_with source reason host port protocol, []));
          yes = (\<lambda>pins. (drop_err (NewAllow SourceNetworkProxy host port protocol), pins)) in
      if host = '''' \<or> \<not> protocol_IsValid protocol \<or> CHR ''%'' \<in> set host
      then no SourceNetworkProxy ReasonInvalidConfig
      else if matchAny deny (normalizeHost host) port then no SourceNetworkProxy ReasonDeniedByRule
      else
        (case ParseIP host of
           Some a \<Rightarrow>
             if matchIPRule allow a port then yes [a]
             else if isSpecialRangeIP a then no SourceNetworkProxy ReasonLocalBindingDisabled
             else no SourceNetworkProxy ReasonNotInAllowlist
         | None \<Rightarrow>
             if \<not> matchAny allow (normalizeHost host) port then no SourceNetworkProxy ReasonNotInAllowlist
             else
               (case resolver of
                  None \<Rightarrow> yes []
                | Some lookup \<Rightarrow>
                    (case lookup host of
                       Inl _ \<Rightarrow> no SourceDNSResolver ReasonDNSResolutionBlocked
                     | Inr addrs \<Rightarrow>
                         (case pin_all allow port addrs of
                            None \<Rightarrow> no SourceDNSResolver ReasonLocalBindingDisabled
                          | Some pins \<Rightarrow>
                              if pins = [] then no SourceDNSResolver ReasonDNSResolutionBlocked
                              else yes pins)))))"

definition allowlist_Evaluate ::
  "policyRule list \<Rightarrow> string \<Rightarrow> int \<Rightarrow> string \<Rightarrow> resolver option \<Rightarrow> net_decision" where
  "allowlist_Evaluate allow host port protocol resolver =
     fst (EvaluateWithDenylist allow [] host port protocol resolver)"

section \<open>What an evaluation guarantees\<close>

text \<open>An address a connection may go to: an entry names it, or it is outside every special range.\<close>

definition guarded :: "policyRule list \<Rightarrow> int \<Rightarrow> ip \<Rightarrow> bool" where
  "guarded rs port a \<longleftrightarrow> matchIPRule rs a port \<or> \<not> isSpecialRangeIP a"

lemma pin_all_guarded: "pin_all rs port addrs = Some pins \<Longrightarrow> list_all (guarded rs port) pins"
  by (induction addrs arbitrary: pins) (auto simp: guarded_def split: option.splits if_splits)

lemma deny_not_allowed [simp]:
  "\<not> nd_allow (drop_err (NewDeny source reason host port protocol))" "\<not> nd_allow net_decision_zero"
  by (simp_all add: drop_err_def NewDeny_def net_decision_zero_def)

lemma evaluate_guarded:
  assumes "EvaluateWithDenylist allow deny host port protocol resolver = (d, pins)"
  shows "list_all (guarded allow port) pins"
    and "nd_allow d \<Longrightarrow> resolver \<noteq> None \<Longrightarrow> pins \<noteq> []"
    and "nd_allow d \<Longrightarrow> \<not> matchAny deny (normalizeHost (TrimSpace host)) port"
    and "nd_allow d \<Longrightarrow> matchAny allow (normalizeHost (TrimSpace host)) port \<or>
      (\<exists>a. ParseIP (TrimSpace host) = Some a \<and> matchIPRule allow a port)"
  using assms
  by (auto simp: EvaluateWithDenylist_def Let_def guarded_def
      split: if_splits option.splits sum.splits dest: pin_all_guarded)

text \<open>
  Entries of a denylist that are addresses have no effect.  Whatever is asked for, by name or by
  address, the evaluation is that of the denylist without them.
\<close>

lemma denied_addresses_ignored:
  "EvaluateWithDenylist allow deny host port protocol resolver =
   EvaluateWithDenylist allow (filter (\<lambda>r. pr_ip r = None) deny) host port protocol resolver"
proof -
  have "matchAny (filter (\<lambda>r. pr_ip r = None) deny) h p = matchAny deny h p" for h p
    by (auto simp: matchAny_def list_ex_iff)
  then show ?thesis by (simp only: EvaluateWithDenylist_def)
qed

section \<open>Event lines\<close>

lemma decision_keys [simp]:
  "ToLower ''allow'' = ''allow''" "ToLower ''source'' = ''source''" "ToLower ''reason'' = ''reason''"
  "ToLower ''host'' = ''host''" "ToLower ''port'' = ''port''" "ToLower ''protocol'' = ''protocol''"
  by (simp_all add: ToLower_def lower_char_def)

lemma decision_fields:
  "set_decision_field ''allow'' (JBool b) p = (p\<lparr>nd_allow := b\<rparr>, True)"
  "set_decision_field ''source'' (JStr s) p = (p\<lparr>nd_source := s\<rparr>, True)"
  "set_decision_field ''reason'' (JStr s) p = (p\<lparr>nd_reason := s\<rparr>, True)"
  "set_decision_field ''host'' (JStr s) p = (p\<lparr>nd_host := s\<rparr>, True)"
  "int64 i \<Longrightarrow> set_decision_field ''port'' (JNum (itoa i)) p = (p\<lparr>nd_port := i\<rparr>, True)"
  "set_decision_field ''protocol'' (JStr s) p = (p\<lparr>nd_protocol := s\<rparr>, True)"
  by (simp_all add: set_decision_field_def dec_int64_def dec_bool_def ParseInt_itoa int64_def)

lemma unmarshal_decision:
  assumes "int64 (nd_port d)"
  shows "unmarshal_struct set_decision_field net_decision_zero (print_json (decision_json d)) = (d, True)"
proof -
  have "json_wf (decision_json d)"
    by (auto simp: decision_json_def opt_member_def list_all_iff)
  moreover have "dec_struct set_decision_field (decision_json d) net_decision_zero = (d, True)"
    using assms
    by (cases d) (simp add: dec_struct_def decision_json_def opt_member_def decision_fields net_decision_zero_def
        dec_members_append)
  ultimately show ?thesis by (simp add: unmarshal_struct_def json_parse_print)
qed

lemma decision_line_roundtrip:
  assumes "int64 (nd_port d)"
  shows "ParseDecisionEventLine (EncodeDecisionEventLine d) = Some (Inr d)"
proof -
  have "\<exists>t. print_json (decision_json d) = t @ ''}''" by (simp add: decision_json_def)
  then have trim: "TrimRightSet {CHR 0x0D, CHR 0x0A} (EncodeDecisionEventLine d) =
      decisionEventLinePrefix @ print_json (decision_json d)"
    by (auto simp: TrimRightSet_def EncodeDecisionEventLine_def)
  show ?thesis
    using unmarshal_decision[OF assms] by (simp add: ParseDecisionEventLine_def Let_def trim HasPrefix_def)
qed

end
