(* ===== verification/Netproxy_Handlers.thy ===== *)
theory Netproxy_Handlers
  imports Netproxy_Policy
begin

text \<open>
  \<open>internal/tools/netproxy_proxy.go\<close>: one connection of a client to the network proxy, over HTTP CONNECT or
  SOCKS5.  A handler is a function of what the client sends; it gives what is written back, the events
  that are emitted, the addresses that are dialled and whether the tunnel is opened.  The copying of bytes
  through an open tunnel, the accept loops and the deadlines are not modelled; a deadline is an error
  that ends the input.
\<close>

section \<open>A connection\<close>

text \<open>What the client sends, the error a read meets after that, and whether writes to it succeed.\<close>

record client =
  cn_input :: string
  cn_read_err :: err
  cn_write_err :: "err option"

datatype proxy_event = Decided net_decision | Problem err

text \<open>A dial is of a pinned address, or by name when there is no resolver; with the text of the port.\<close>

record exchange =
  px_out :: string
  px_events :: "proxy_event list"
  px_dials :: "(ip option \<times> string) list"
  px_tunnel :: bool

definition reply :: "string \<Rightarrow> proxy_event list \<Rightarrow> exchange" where
  "reply out evs = \<lparr>px_out = out, px_events = evs, px_dials = [], px_tunnel = False\<rparr>"

definition io_EOF :: err where "io_EOF = EMsg ''EOF''"

definition ReadFull :: "client \<Rightarrow> nat \<Rightarrow> string \<Rightarrow> err + string \<times> string" where
  "ReadFull c n s =
     (if n \<le> length s then Inr (take n s, drop n s)
      else Inl (if cn_read_err c = io_EOF \<and> s \<noteq> '''' then EMsg ''unexpected EOF'' else cn_read_err c))"

definition ReadLine :: "client \<Rightarrow> string \<Rightarrow> err + string \<times> string" where
  "ReadLine c s =
     (if CHR 0x0A \<in> set s
      then (let line = takeWhile (\<lambda>x. x \<noteq> CHR 0x0A) s @ [CHR 0x0A] in Inr (line, drop (length line) s))
      else Inl (cn_read_err c))"

section \<open>Dialling\<close>

text \<open>The dialler: attempt \<open>i\<close> of the connection, of an address with its port.\<close>

type_synonym dialler = "nat \<Rightarrow> string \<Rightarrow> err option"

definition errSanitizedAddr :: "err \<Rightarrow> string \<Rightarrow> string \<Rightarrow> err" where
  "errSanitizedAddr er pinned host =
     (if Contains (err_text er) pinned then EMsg (ReplaceAll (err_text er) pinned host) else er)"

definition dial_label :: "string \<Rightarrow> string \<Rightarrow> string" where
  "dial_label host port = ''netproxy http: dial '' @ host @ '':'' @ port"

text \<open>The attempts from the \<open>i\<close>th of \<open>n\<close>: the failures told, the addresses tried, whether one answered.\<close>

fun dial_pins ::
  "dialler \<Rightarrow> string \<Rightarrow> string \<Rightarrow> nat \<Rightarrow> nat \<Rightarrow> ip list \<Rightarrow> proxy_event list \<times> (ip option \<times> string) list \<times> bool" where
  "dial_pins f host port n i [] = ([], [], False)"
| "dial_pins f host port n i (a # as) =
     (case f i (JoinHostPort (IP_String a) port) of
        None \<Rightarrow> ([], [(Some a, port)], True)
      | Some er \<Rightarrow>
          (case dial_pins f host port n (Suc i) as of (evs, dials, ok) \<Rightarrow>
             (Problem (EWrap (dial_label host port @ '': attempt '' @ itoa (int (Suc i)) @ ''/'' @ itoa (int n) @ '' failed'')
                 (errSanitizedAddr er (IP_String a) host)) # evs,
              (Some a, port) # dials, ok)))"

definition dialWithFallback ::
  "dialler \<Rightarrow> string \<Rightarrow> string \<Rightarrow> ip list \<Rightarrow> bool \<Rightarrow> proxy_event list \<times> (ip option \<times> string) list \<times> err option" where
  "dialWithFallback f host port pins has_resolver =
     (if pins = [] then
        (if \<not> has_resolver then ([], [(None, port)], f 0 (JoinHostPort host port))
         else ([], [], Some (EMsg (dial_label host port @ '': no pinned addresses available''))))
      else
        (let n = min (length pins) 4 in
         case dial_pins f host port n 0 (take n pins) of (evs, dials, ok) \<Rightarrow>
           (evs, dials, if ok then None
              else Some (EMsg (dial_label host port @ '': failed after '' @ itoa (int n) @ '' pinned address attempts'')))))"

section \<open>HTTP CONNECT\<close>

definition crlf :: string where "crlf = [CHR 0x0D, CHR 0x0A]"

definition writeHTTPStatus :: "int \<Rightarrow> string \<Rightarrow> string \<Rightarrow> string" where
  "writeHTTPStatus code reason extra =
     (let hdr = ''Content-Length: 0'' @ crlf @ ''Connection: close'' @ crlf;
          hdr' = (if extra = '''' then hdr
                  else if HasSuffix (hdr @ extra) crlf then hdr @ extra else hdr @ extra @ crlf)
      in ''HTTP/1.1 '' @ itoa code @ '' '' @ reason @ crlf @ hdr' @ crlf)"

definition httpProxyErrorTag :: "string \<Rightarrow> string" where
  "httpProxyErrorTag reason =
     (if reason = ReasonNotInAllowlist then ''blocked-by-allowlist''
      else if reason = ReasonDeniedByRule then ''blocked-by-denylist''
      else if reason = ReasonModeGuard \<or> reason = ReasonProtocolUnsupported then ''blocked-by-method-policy''
      else if reason = ReasonDNSResolutionBlocked then ''blocked-by-dns-resolution''
      else if reason = ReasonLocalBindingDisabled then ''blocked-by-local-binding''
      else if reason = ReasonInvalidConfig then ''blocked-by-invalid-config''
      else ''blocked-by-policy'')"

definition splitHostPortBestEffort :: "string \<Rightarrow> string \<times> int" where
  "splitHostPortBestEffort target =
     (case SplitHostPort target of
        None \<Rightarrow> (target, 0)
      | Some (host, port) \<Rightarrow> (host, case ParseInt port of None \<Rightarrow> 0 | Some p \<Rightarrow> p))"

definition httpHeaderMaxBytes :: nat where "httpHeaderMaxBytes = 8192"
definition httpHeaderMaxLines :: nat where "httpHeaderMaxLines = 50"

text \<open>The headers: their end, an error, or a cap; every line takes at least one byte of the input.\<close>

datatype header_end = HeadersRead string | HeadersFailed err | HeadersCapped

fun read_headers :: "nat \<Rightarrow> client \<Rightarrow> nat \<Rightarrow> nat \<Rightarrow> string \<Rightarrow> header_end" where
  "read_headers 0 c bytes lines s = HeadersFailed (cn_read_err c)"
| "read_headers (Suc fuel) c bytes lines s =
     (case ReadLine c s of
        Inl er \<Rightarrow> HeadersFailed er
      | Inr (line, rest) \<Rightarrow>
          if line = crlf \<or> line = [CHR 0x0A] then HeadersRead rest
          else if bytes + length line > httpHeaderMaxBytes \<or> lines + 1 > httpHeaderMaxLines then HeadersCapped
          else read_headers fuel c (bytes + length line) (lines + 1) rest)"

definition deny_event :: "string \<Rightarrow> string \<Rightarrow> int \<Rightarrow> string \<Rightarrow> proxy_event" where
  "deny_event reason host port protocol = Decided (deny_with SourceNetworkProxy reason host port protocol)"

text \<open>The end of both handlers: evaluate, dial, and open the tunnel.\<close>

definition http_connect ::
  "dialler \<Rightarrow> policyRule list \<Rightarrow> policyRule list \<Rightarrow> resolver option \<Rightarrow> client \<Rightarrow> string \<Rightarrow> string \<Rightarrow> int \<Rightarrow> exchange" where
  "http_connect f allow deny resolver c host port portN =
     (case EvaluateWithDenylist allow deny host portN ProtocolHTTPSConnect resolver of (d, pins) \<Rightarrow>
        if \<not> nd_allow d then
          reply (writeHTTPStatus 403 ''forbidden''
                   (''x-proxy-error: '' @ httpProxyErrorTag (nd_reason d) @ crlf @ ''x-proxy-source: '' @ nd_source d))
            [Decided d]
        else
          (case dialWithFallback f host port pins (resolver \<noteq> None) of (evs, dials, er) \<Rightarrow>
             (case er of
                Some e \<Rightarrow>
                  \<lparr>px_out = writeHTTPStatus 502 ''bad gateway'' ''x-proxy-error: upstream-dial-failed'',
                   px_events = Decided d # evs @ [Problem e], px_dials = dials, px_tunnel = False\<rparr>
              | None \<Rightarrow>
                  (case cn_write_err c of
                     Some e \<Rightarrow> \<lparr>px_out = '''', px_events = Decided d # evs @ [Problem (EWrap ''netproxy http: write 200'' e)],
                                px_dials = dials, px_tunnel = False\<rparr>
                   | None \<Rightarrow> \<lparr>px_out = ''HTTP/1.1 200 Connection established'' @ crlf @ crlf,
                                px_events = Decided d # evs, px_dials = dials, px_tunnel = True\<rparr>))))"

definition handleHTTPConnect ::
  "dialler \<Rightarrow> policyRule list \<Rightarrow> policyRule list \<Rightarrow> resolver option \<Rightarrow> client \<Rightarrow> exchange" where
  "handleHTTPConnect f allow deny resolver c =
     (let proto = ProtocolHTTPSConnect in
      case ReadLine c (cn_input c) of
        Inl er \<Rightarrow> reply '''' [Problem (EWrap ''netproxy http: read request line'' er)]
      | Inr (requestLine, rest) \<Rightarrow>
          (case Fields (TrimSpace requestLine) of
             method0 # target # _ # _ \<Rightarrow>
               (let method = ToUpper method0; best = splitHostPortBestEffort target in
                case read_headers (length rest + 1) c (length requestLine) 0 rest of
                  HeadersFailed er \<Rightarrow> reply '''' [Problem (EWrap ''netproxy http: read header'' er)]
                | HeadersCapped \<Rightarrow>
                    reply (writeHTTPStatus 431 ''request header fields too large'' ''x-proxy-error: blocked-by-header-cap'')
                      [deny_event ReasonModeGuard (fst best) (snd best) proto]
                | HeadersRead _ \<Rightarrow>
                    if method \<noteq> ''CONNECT'' then
                      reply (writeHTTPStatus 405 ''method not allowed''
                               (''x-proxy-error: blocked-by-method-policy'' @ crlf @ ''x-proxy-method: '' @ method))
                        [deny_event ReasonModeGuard (fst best) (snd best) proto]
                    else
                      (case SplitHostPort target of
                         None \<Rightarrow> reply (writeHTTPStatus 400 ''bad CONNECT target'' ''x-proxy-error: invalid-target'')
                           [deny_event ReasonInvalidConfig target 0 proto]
                       | Some (host, port) \<Rightarrow>
                           if host = '''' \<or> port = '''' then
                             reply (writeHTTPStatus 400 ''bad CONNECT target'' ''x-proxy-error: invalid-target'')
                               [deny_event ReasonInvalidConfig target 0 proto]
                           else
                             (case ParseInt port of
                                None \<Rightarrow> reply (writeHTTPStatus 400 ''bad CONNECT port'' ''x-proxy-error: invalid-target'')
                                  [deny_event ReasonInvalidConfig host 0 proto]
                              | Some portN \<Rightarrow>
                                  if portN \<le> 0 \<or> portN > 65535 then
                                    reply (writeHTTPStatus 400 ''bad CONNECT port'' ''x-proxy-error: invalid-target'')
                                      [deny_event ReasonInvalidConfig host 0 proto]
                                  else http_connect f allow deny resolver c host port portN)))
           | _ \<Rightarrow> reply (writeHTTPStatus 400 ''bad request'' '''') [deny_event ReasonModeGuard '''' 0 proto]))"

section \<open>SOCKS5\<close>

abbreviation socks5ReplySucceeded :: char where "socks5ReplySucceeded \<equiv> CHR 0x00"
abbreviation socks5ReplyConnectionNotAllowed :: char where "socks5ReplyConnectionNotAllowed \<equiv> CHR 0x02"
abbreviation socks5ReplyHostUnreachable :: char where "socks5ReplyHostUnreachable \<equiv> CHR 0x04"
abbreviation socks5ReplyCommandNotSupported :: char where "socks5ReplyCommandNotSupported \<equiv> CHR 0x07"
abbreviation socks5ReplyAddressTypeNotSupported :: char where "socks5ReplyAddressTypeNotSupported \<equiv> CHR 0x08"

definition readSOCKS5Port :: "client \<Rightarrow> string \<Rightarrow> err + int" where
  "readSOCKS5Port c s =
     (case ReadFull c 2 s of
        Inl er \<Rightarrow> Inl er
      | Inr (b, _) \<Rightarrow> Inr (256 * of_char (b ! 0) + of_char (b ! 1)))"

definition readSOCKS5DstAddrPort :: "client \<Rightarrow> char \<Rightarrow> string \<Rightarrow> err + string \<times> int" where
  "readSOCKS5DstAddrPort c atyp s =
     (let addr = (\<lambda>n show s. case ReadFull c n s of
            Inl er \<Rightarrow> Inl er
          | Inr (b, rest) \<Rightarrow> (case readSOCKS5Port c rest of Inl er \<Rightarrow> Inl er | Inr p \<Rightarrow> Inr (show b, p)))
      in if atyp = CHR 0x01 then addr 4 (\<lambda>b. IP_String (map byte_of_char b)) s
         else if atyp = CHR 0x03 then
           (case ReadFull c 1 s of Inl er \<Rightarrow> Inl er | Inr (l, rest) \<Rightarrow> addr (of_char (l ! 0)) (\<lambda>b. b) rest)
         else if atyp = CHR 0x04 then addr 16 (\<lambda>b. IP_String (map byte_of_char b)) s
         else Inl (EMsg (''netproxy socks5: unsupported atyp 0x'' @ hex_digits (of_char atyp))))"

definition writeSOCKS5Reply :: "char \<Rightarrow> char \<Rightarrow> string" where
  "writeSOCKS5Reply code atyp =
     (if atyp = CHR 0x04 then [CHR 0x05, code, CHR 0x00, CHR 0x04] @ replicate 18 (CHR 0x00)
      else [CHR 0x05, code, CHR 0x00, CHR 0x01] @ replicate 6 (CHR 0x00))"

text \<open>What is written before, the greeting's answer, comes first in the output.\<close>

definition socks_connect ::
  "dialler \<Rightarrow> policyRule list \<Rightarrow> policyRule list \<Rightarrow> resolver option \<Rightarrow> string \<Rightarrow> char \<Rightarrow> string \<Rightarrow> int \<Rightarrow> exchange" where
  "socks_connect f allow deny resolver before atyp host port =
     (case EvaluateWithDenylist allow deny host port ProtocolSOCKS5TCP resolver of (d, pins) \<Rightarrow>
        if \<not> nd_allow d then reply (before @ writeSOCKS5Reply socks5ReplyConnectionNotAllowed atyp) [Decided d]
        else
          (case dialWithFallback f host (itoa port) pins (resolver \<noteq> None) of (evs, dials, er) \<Rightarrow>
             (case er of
                Some e \<Rightarrow>
                  \<lparr>px_out = before @ writeSOCKS5Reply socks5ReplyHostUnreachable atyp,
                   px_events = Decided d # evs @ [Problem e], px_dials = dials, px_tunnel = False\<rparr>
              | None \<Rightarrow>
                  \<lparr>px_out = before @ writeSOCKS5Reply socks5ReplySucceeded atyp,
                   px_events = Decided d # evs, px_dials = dials, px_tunnel = True\<rparr>)))"

definition handleSOCKS5 ::
  "dialler \<Rightarrow> policyRule list \<Rightarrow> policyRule list \<Rightarrow> resolver option \<Rightarrow> client \<Rightarrow> exchange" where
  "handleSOCKS5 f allow deny resolver c =
     (let proto = ProtocolSOCKS5TCP in
      case ReadFull c 2 (cn_input c) of
        Inl er \<Rightarrow> reply '''' [Problem (EWrap ''netproxy socks5: read greet'' er)]
      | Inr (hdr, s1) \<Rightarrow>
          if hdr ! 0 \<noteq> CHR 0x05 then
            reply '''' [Problem (EMsg (''netproxy socks5: unsupported version 0x'' @ hex_digits (of_char (hdr ! 0))))]
          else
            (case ReadFull c (of_char (hdr ! 1)) s1 of
               Inl er \<Rightarrow> reply '''' [Problem (EWrap ''netproxy socks5: read methods'' er)]
             | Inr (methods, s2) \<Rightarrow>
                 if CHR 0x00 \<notin> set methods then
                   reply [CHR 0x05, CHR 0xFF] [deny_event ReasonModeGuard '''' 0 proto]
                 else
                   (case cn_write_err c of
                      Some er \<Rightarrow> reply '''' [Problem (EWrap ''netproxy socks5: write greet ack'' er)]
                    | None \<Rightarrow>
                        (let ack = [CHR 0x05, CHR 0x00] in
                         case ReadFull c 4 s2 of
                           Inl er \<Rightarrow> reply ack [Problem (EWrap ''netproxy socks5: read request hdr'' er)]
                         | Inr (req, s3) \<Rightarrow>
                             if req ! 0 \<noteq> CHR 0x05 then
                               reply ack [Problem (EMsg (''netproxy socks5: bad version in request: 0x'' @
                                 hex_digits (of_char (req ! 0))))]
                             else
                               (case readSOCKS5DstAddrPort c (req ! 3) s3 of
                                  Inl _ \<Rightarrow> reply (ack @ writeSOCKS5Reply socks5ReplyAddressTypeNotSupported (req ! 3))
                                    [deny_event ReasonInvalidConfig '''' 0 proto]
                                | Inr (host, port) \<Rightarrow>
                                    if req ! 1 \<noteq> CHR 0x01 then
                                      reply (ack @ writeSOCKS5Reply socks5ReplyCommandNotSupported (req ! 3))
                                        [deny_event ReasonProtocolUnsupported host port proto]
                                    else socks_connect f allow deny resolver ack (req ! 3) host port)))))"

section \<open>Where a connection may go\<close>

lemma NewAllow_fields: "nd_allow (drop_err (NewAllow source host port protocol)) \<Longrightarrow>
  drop_err (NewAllow source host port protocol) =
    \<lparr>nd_allow = True, nd_source = source, nd_reason = [], nd_host = host, nd_port = port, nd_protocol = protocol\<rparr>"
  by (simp add: drop_err_def NewAllow_def net_decision_zero_def split: if_splits)

lemma allowed_fields:
  assumes "EvaluateWithDenylist allow deny host port protocol resolver = (d, pins)" and "nd_allow d"
  shows "nd_port d = port" and "nd_host d = TrimSpace host"
  using assms
  by (auto simp: EvaluateWithDenylist_def Let_def split: if_splits option.splits sum.splits dest: NewAllow_fields)

lemma dial_pins_set:
  "dial_pins f host port n i as = (evs, dials, ok) \<Longrightarrow> (x, q) \<in> set dials \<Longrightarrow> q = port \<and> (\<exists>a \<in> set as. x = Some a)"
  by (induction as arbitrary: i evs dials ok) (auto split: option.splits prod.splits)

lemma dial_pins_ok: "dial_pins f host port n i as = (evs, dials, ok) \<Longrightarrow> ok \<Longrightarrow> dials \<noteq> []"
  by (induction as arbitrary: i evs dials ok) (auto split: option.splits prod.splits)

lemma dialWithFallback_set:
  assumes "dialWithFallback f host port pins True = (evs, dials, er)" and "(x, q) \<in> set dials"
  shows "q = port \<and> (\<exists>a \<in> set pins. x = Some a)"
  using assms dial_pins_set[of f host port "min (length pins) 4" 0 "take (min (length pins) 4) pins"]
  by (fastforce simp: dialWithFallback_def Let_def split: if_splits prod.splits dest: in_set_takeD)

lemma dialWithFallback_ok:
  assumes "dialWithFallback f host port pins True = (evs, dials, None)"
  shows "dials \<noteq> []"
  using assms dial_pins_ok by (auto simp: dialWithFallback_def Let_def split: if_splits prod.splits)

text \<open>An exchange that goes only where the policy lets it: what the two handlers promise.\<close>

definition stays_within :: "policyRule list \<Rightarrow> policyRule list \<Rightarrow> exchange \<Rightarrow> bool" where
  "stays_within allow deny x \<longleftrightarrow>
     (px_tunnel x \<longrightarrow> px_dials x \<noteq> []) \<and>
     (\<forall>(target, port) \<in> set (px_dials x). \<exists>a p d. target = Some a \<and> ParseInt port = Some p \<and> guarded allow p a \<and>
        Decided d \<in> set (px_events x) \<and> nd_allow d \<and> nd_port d = p \<and> \<not> matchAny deny (normalizeHost (nd_host d)) p)"

lemma stays_within_reply [simp]: "stays_within allow deny (reply out evs)"
  by (simp add: stays_within_def reply_def)

lemma dials_within:
  assumes "EvaluateWithDenylist allow deny host p protocol resolver = (d, pins)" and "nd_allow d" and "ParseInt port = Some p"
    and "dialWithFallback f host port pins True = (evs, dials, er)" and "px_dials x = dials" and "Decided d \<in> set (px_events x)"
    and "px_tunnel x \<Longrightarrow> er = None"
  shows "stays_within allow deny x"
  unfolding stays_within_def
proof (intro conjI ballI impI)
  show "px_tunnel x \<Longrightarrow> px_dials x \<noteq> []" using assms dialWithFallback_ok by blast
  fix e assume "e \<in> set (px_dials x)"
  moreover obtain target q where "e = (target, q)" by (cases e)
  ultimately obtain a where "q = port" "a \<in> set pins" "target = Some a"
    using dialWithFallback_set assms(4,5) by blast
  with assms(3) \<open>e = (target, q)\<close> assms(2,6) evaluate_guarded(1,3)[OF assms(1)] allowed_fields[OF assms(1,2)]
  show "case e of (target, port) \<Rightarrow> \<exists>a p d. target = Some a \<and> ParseInt port = Some p \<and> guarded allow p a \<and>
      Decided d \<in> set (px_events x) \<and> nd_allow d \<and> nd_port d = p \<and> \<not> matchAny deny (normalizeHost (nd_host d)) p"
    by (auto simp: list_all_iff intro!: exI[of _ d])
qed

lemma http_connect_within:
  "resolver \<noteq> None \<Longrightarrow> ParseInt port = Some p \<Longrightarrow> stays_within allow deny (http_connect f allow deny resolver c host port p)"
  by (auto simp: http_connect_def split: prod.splits option.splits intro: dials_within)

lemma socks_connect_within:
  "resolver \<noteq> None \<Longrightarrow> 0 \<le> p \<Longrightarrow> p < 65536 \<Longrightarrow>
    stays_within allow deny (socks_connect f allow deny resolver before atyp host p)"
  using ParseInt_itoa[of p]
  by (auto simp: socks_connect_def split: prod.splits option.splits intro: dials_within[where port = "itoa p"])

lemma byte_pair: "a < 256 \<Longrightarrow> b < 256 \<Longrightarrow> 256 * a + b < (65536 :: int)" by arith

lemma readSOCKS5Port_range: "readSOCKS5Port c s = Inr p \<Longrightarrow> 0 \<le> p \<and> p < 65536"
proof -
  have "(of_char x :: int) < 256" "0 \<le> (of_char x :: int)" for x
    by (cases x; simp)+
  then show "readSOCKS5Port c s = Inr p \<Longrightarrow> 0 \<le> p \<and> p < 65536"
    by (auto simp: readSOCKS5Port_def split: sum.splits prod.splits intro!: byte_pair)
qed

lemma readSOCKS5DstAddrPort_range: "readSOCKS5DstAddrPort c atyp s = Inr (host, p) \<Longrightarrow> 0 \<le> p \<and> p < 65536"
  by (auto simp: readSOCKS5DstAddrPort_def Let_def dest: readSOCKS5Port_range split: if_splits sum.splits prod.splits)

lemma handleHTTPConnect_within:
  "resolver \<noteq> None \<Longrightarrow> stays_within allow deny (handleHTTPConnect f allow deny resolver c)"
  by (simp add: handleHTTPConnect_def Let_def http_connect_within
      split: sum.splits prod.splits list.splits header_end.splits option.splits)

lemma handleSOCKS5_within:
  "resolver \<noteq> None \<Longrightarrow> stays_within allow deny (handleSOCKS5 f allow deny resolver c)"
  by (auto simp: handleSOCKS5_def Let_def intro!: socks_connect_within dest: readSOCKS5DstAddrPort_range
      split: sum.splits prod.splits option.splits)

text \<open>
  C33: with a resolver, a connection only goes where the policy lets it.  Over HTTP CONNECT and over SOCKS5,
  every address that is dialled is a pinned one outside the special ranges or named by an entry of the
  allowlist for its port, the decision that allowed the host and the port is among the events, no entry of
  the denylist matches that host, and no tunnel opens without a dial.
\<close>

theorem connections_guarded:
  assumes "resolver \<noteq> None"
    and "x \<in> {handleHTTPConnect f allow deny resolver c, handleSOCKS5 f allow deny resolver c}"
  shows "(px_tunnel x \<longrightarrow> px_dials x \<noteq> []) \<and>
    (\<forall>(target, port) \<in> set (px_dials x). \<exists>a p d.
       target = Some a \<and> ParseInt port = Some p \<and> (matchIPRule allow a p \<or> \<not> isSpecialRangeIP a) \<and>
       Decided d \<in> set (px_events x) \<and> nd_allow d \<and> nd_port d = p \<and> \<not> matchAny deny (normalizeHost (nd_host d)) p)"
proof -
  have "stays_within allow deny x"
    using assms handleHTTPConnect_within[OF assms(1)] handleSOCKS5_within[OF assms(1)] by auto
  then show ?thesis unfolding stays_within_def guarded_def .
qed

definition sample_client :: client where
  "sample_client = \<lparr>cn_input = ''CONNECT a.io:443 HTTP/1.1'' @ crlf @ crlf, cn_read_err = io_EOF, cn_write_err = None\<rparr>"

definition sample_allow :: "policyRule list" where
  "sample_allow = [\<lparr>pr_original = ''a.io:443'', pr_ip = None, pr_pattern = ''a.io'', pr_wildcard = wildcardExact, pr_port = 443\<rparr>]"

lemma sample_tunnel:
  "px_dials (handleHTTPConnect (\<lambda>_ _. None) sample_allow [] (Some (\<lambda>_. Inr [''9.8.7.6''])) sample_client) =
     [(Some (mapped [9, 8, 7, 6]), ''443'')]"
  by code_simp

theorem connections_guarded_witness:
  "(Some (mapped [9, 8, 7, 6]), ''443'') \<in>
     set (px_dials (handleHTTPConnect (\<lambda>_ _. None) sample_allow [] (Some (\<lambda>_. Inr [''9.8.7.6''])) sample_client)) \<and>
   (\<exists>d. Decided d \<in>
     set (px_events (handleHTTPConnect (\<lambda>_ _. None) sample_allow [] (Some (\<lambda>_. Inr [''9.8.7.6''])) sample_client)) \<and>
     nd_allow d)"
  using connections_guarded[of "Some (\<lambda>_. Inr [''9.8.7.6''])"
      "handleHTTPConnect (\<lambda>_ _. None) sample_allow [] (Some (\<lambda>_. Inr [''9.8.7.6''])) sample_client"
      "\<lambda>_ _. None" sample_allow "[]" sample_client]
  by (auto simp: sample_tunnel)

end
