(* ===== verification/Lesson_Store.thy ===== *)
theory Lesson_Store
  imports Go_Net Task_Queue "HOL-Library.Multiset"
begin

text \<open>
  \<open>internal/learning/lesson.go\<close> and \<open>store.go\<close>: the file of lessons an agent keeps and its archive.  A
  file is the list of the lessons its lines hold; every operation of the file system may fail, and a line
  that is not written leaves the file as it was.  Instants are in nanoseconds of Unix time.  \<open>hash\<close> is
  SHA-256 in hexadecimal.
\<close>

section \<open>Instants as text\<close>

definition zero_ns :: int where "zero_ns = - 62135596800000000000"

definition padded :: "nat \<Rightarrow> int \<Rightarrow> string" where
  "padded n i = (let t = nat_digits (nat i) in replicate (n - length t) (CHR ''0'') @ t)"

text \<open>The year, month and day of a day counted from 1970.\<close>

definition civil :: "int \<Rightarrow> int \<times> int \<times> int" where
  "civil days =
     (let z = days + 719468; era = z div 146097; doe = z mod 146097;
          yoe = (doe - doe div 1460 + doe div 36524 - doe div 146096) div 365;
          doy = doe - (365 * yoe + yoe div 4 - yoe div 100);
          mp = (5 * doy + 2) div 153;
          m = (if mp < 10 then mp + 3 else mp - 9)
      in (yoe + era * 400 + (if m \<le> 2 then 1 else 0), m, doy - (153 * mp + 2) div 5 + 1))"

definition fraction_text :: "int \<Rightarrow> string" where
  "fraction_text ns = (if ns = 0 then '''' else CHR ''.'' # TrimRightSet {CHR ''0''} (padded 9 ns))"

definition rfc3339 :: "int \<Rightarrow> string" where
  "rfc3339 t =
     (let secs = t div 1000000000; day = secs div 86400; s = secs mod 86400 in
      case civil day of (y, m, d) \<Rightarrow>
        padded 4 y @ ''-'' @ padded 2 m @ ''-'' @ padded 2 d @ ''T'' @ padded 2 (s div 3600) @ '':'' @
        padded 2 (s div 60 mod 60) @ '':'' @ padded 2 (s mod 60) @ fraction_text (t mod 1000000000) @ ''Z'')"

definition rfc3339_ok :: "int \<Rightarrow> bool" where
  "rfc3339_ok t \<longleftrightarrow> (case civil (t div 1000000000 div 86400) of (y, _) \<Rightarrow> 0 \<le> y \<and> y \<le> 9999)"

section \<open>Lessons\<close>

text \<open>A change of the persona: a parameter and the text of its delta.\<close>

type_synonym persona_change = "string \<times> string"

record lesson =
  ls_id :: string
  ls_text :: string
  ls_topic :: string
  ls_source :: string
  ls_confidence :: string
  ls_persona_delta :: "persona_change list"
  ls_rationale :: string
  ls_evidence :: "string list"
  ls_persona_param :: string
  ls_persona_direction :: string
  ls_persona_magnitude :: string
  ls_superseded_by :: string
  ls_created :: int

definition deriveID :: "(string \<Rightarrow> string) \<Rightarrow> string \<Rightarrow> string" where
  "deriveID hash text = take 8 (hash text)"

definition lesson_json :: "lesson \<Rightarrow> json" where
  "lesson_json l = JObj (
     [(''id'', JStr (ls_id l)), (''text'', JStr (ls_text l))] @ opt_member ''topic'' (ls_topic l) @
     [(''source'', JStr (ls_source l)), (''confidence'', JStr (ls_confidence l))] @
     (if ls_persona_delta l = [] then []
      else [(''persona_delta'', JArr (map (\<lambda>(p, d). JObj [(''Param'', JStr p), (''Delta'', JNum d)]) (ls_persona_delta l)))]) @
     opt_member ''rationale'' (ls_rationale l) @
     (if ls_evidence l = [] then [] else [(''evidence'', JArr (map JStr (ls_evidence l)))]) @
     opt_member ''persona_param'' (ls_persona_param l) @
     opt_member ''persona_direction'' (ls_persona_direction l) @
     opt_member ''persona_magnitude'' (ls_persona_magnitude l) @
     opt_member ''superseded_by'' (ls_superseded_by l) @
     [(''created'', JStr (rfc3339 (ls_created l)))])"

definition marshal_lesson :: "lesson \<Rightarrow> err + string" where
  "marshal_lesson l =
     (if rfc3339_ok (ls_created l) then Inr (print_json (lesson_json l))
      else Inl (EMsg ''Time.MarshalJSON: year outside of range [0,9999]''))"

text \<open>The evidence is a slice: redacting a lesson redacts it for the caller as well.\<close>

definition redact_lesson :: "(string \<Rightarrow> string) option \<Rightarrow> lesson \<Rightarrow> lesson" where
  "redact_lesson red l =
     (case red of
        None \<Rightarrow> l
      | Some f \<Rightarrow> l\<lparr>ls_text := f (ls_text l), ls_topic := f (ls_topic l), ls_source := f (ls_source l),
                   ls_rationale := f (ls_rationale l), ls_evidence := map f (ls_evidence l)\<rparr>)"

section \<open>Files\<close>

text \<open>The store's file, \<open>None\<close> where there is none, and its archive.\<close>

record files =
  fl_lessons :: "lesson list option"
  fl_archive :: "lesson list"

datatype io_step =
    IoMkdir | IoOpen | IoDecode | IoScan | IoOpenAppend | IoWrite | IoClose | IoTemp | IoChmod | IoTempWrite nat | IoSync
  | IoTempClose | IoRename | IoArchiveDir | IoArchiveOpen | IoArchiveWrite nat | IoArchiveClose | IoStat

type_synonym io = "io_step \<Rightarrow> err option"

definition stored :: "files \<Rightarrow> lesson list" where
  "stored f = (case fl_lessons f of None \<Rightarrow> [] | Some ls \<Rightarrow> ls)"

definition store_err :: "string \<Rightarrow> err \<Rightarrow> err" where
  "store_err what er = EWrap (''learning store: '' @ what) er"

definition readAllLocked :: "io \<Rightarrow> files \<Rightarrow> err + lesson list" where
  "readAllLocked io f =
     (case fl_lessons f of
        None \<Rightarrow> Inr []
      | Some ls \<Rightarrow>
          (case io IoOpen of Some er \<Rightarrow> Inl (store_err ''open file'' er)
           | None \<Rightarrow> (case io IoDecode of Some er \<Rightarrow> Inl (store_err ''decode lesson'' er)
           | None \<Rightarrow> (case io IoScan of Some er \<Rightarrow> Inl (store_err ''scan file'' er)
           | None \<Rightarrow> Inr ls))))"

text \<open>The lines encoded up to the first that fails: those, and the error.\<close>

fun encode_lines :: "(nat \<Rightarrow> err option) \<Rightarrow> nat \<Rightarrow> lesson list \<Rightarrow> lesson list \<times> err option" where
  "encode_lines wr i [] = ([], None)"
| "encode_lines wr i (l # ls) =
     (case (marshal_lesson l, wr i) of
        (Inl er, _) \<Rightarrow> ([], Some er)
      | (Inr _, Some er) \<Rightarrow> ([], Some er)
      | (Inr _, None) \<Rightarrow> (case encode_lines wr (Suc i) ls of (done, er) \<Rightarrow> (l # done, er)))"

text \<open>The first of the steps that fails.\<close>

fun first_failure :: "(string \<times> err option) list \<Rightarrow> err option" where
  "first_failure [] = None"
| "first_failure ((what, r) # rs) = (case r of Some er \<Rightarrow> Some (store_err what er) | None \<Rightarrow> first_failure rs)"

text \<open>A temporary file that replaces the store's when it is complete.\<close>

definition writeAllLocked :: "io \<Rightarrow> lesson list \<Rightarrow> files \<Rightarrow> err option \<times> files" where
  "writeAllLocked io ls f =
     (case first_failure
        [(''create tempfile'', io IoTemp), (''chmod tempfile'', io IoChmod),
         (''encode lesson'', snd (encode_lines (\<lambda>i. io (IoTempWrite i)) 0 ls)), (''sync tempfile'', io IoSync),
         (''close tempfile'', io IoTempClose), (''rename tempfile'', io IoRename)] of
        Some er \<Rightarrow> (Some er, f)
      | None \<Rightarrow> (None, f\<lparr>fl_lessons := Some ls\<rparr>))"

definition appendArchiveLocked :: "io \<Rightarrow> lesson list \<Rightarrow> files \<Rightarrow> err option \<times> files" where
  "appendArchiveLocked io ls f =
     (if ls = [] then (None, f)
      else
        (case first_failure [(''archive dir'', io IoArchiveDir), (''open archive'', io IoArchiveOpen)] of
           Some er \<Rightarrow> (Some er, f)
         | None \<Rightarrow>
             (case encode_lines (\<lambda>i. io (IoArchiveWrite i)) 0 ls of
                (done, er) \<Rightarrow>
                  (first_failure [(''encode archive'', er), (''close archive'', io IoArchiveClose)],
                   f\<lparr>fl_archive := fl_archive f @ done\<rparr>))))"

section \<open>The store\<close>

record lesson_store =
  lstore_path :: string
  lstore_redactor :: "(string \<Rightarrow> string) option"

definition AppendNew ::
  "(string \<Rightarrow> string) \<Rightarrow> lesson_store \<Rightarrow> io \<Rightarrow> int \<Rightarrow> lesson \<Rightarrow> files \<Rightarrow> (err + bool) \<times> files" where
  "AppendNew hash s io now l0 f =
     (if lstore_path s = '''' then (Inr False, f)
      else
        (let l1 = redact_lesson (lstore_redactor s) l0;
             l2 = (if ls_created l1 = zero_ns then l1\<lparr>ls_created := now\<rparr> else l1);
             l = (if ls_id l2 = '''' then l2\<lparr>ls_id := deriveID hash (ls_text l2)\<rparr> else l2)
         in case io IoMkdir of
              Some er \<Rightarrow> (Inl (store_err ''create dir'' er), f)
            | None \<Rightarrow>
                (case readAllLocked io f of
                   Inl er \<Rightarrow> (Inl er, f)
                 | Inr existing \<Rightarrow>
                     if list_ex (\<lambda>p. ls_id p = ls_id l) existing then (Inr False, f)
                     else
                       (case io IoOpenAppend of
                          Some er \<Rightarrow> (Inl (store_err ''open file'' er), f)
                        | None \<Rightarrow>
                            (case encode_lines (\<lambda>_. io IoWrite) 0 [l] of
                               (done, er) \<Rightarrow>
                                 (let f' = f\<lparr>fl_lessons := Some (stored f @ done)\<rparr> in
                                  case first_failure [(''encode lesson'', er), (''close file'', io IoClose)] of
                                    Some e \<Rightarrow> (Inl e, f')
                                  | None \<Rightarrow> (Inr True, f')))))))"

definition Append :: "(string \<Rightarrow> string) \<Rightarrow> lesson_store \<Rightarrow> io \<Rightarrow> int \<Rightarrow> lesson \<Rightarrow> files \<Rightarrow> (err + unit) \<times> files" where
  "Append hash s io now l f =
     (case AppendNew hash s io now l f of
        (Inl er, f') \<Rightarrow> (Inl er, f') | (Inr _, f') \<Rightarrow> (Inr (), f'))"

definition store_List :: "lesson_store \<Rightarrow> io \<Rightarrow> files \<Rightarrow> err + lesson list" where
  "store_List s io f = (if lstore_path s = '''' then Inr [] else readAllLocked io f)"

section \<open>Filters\<close>

record lesson_filter =
  ft_topic :: string
  ft_confidence :: string
  ft_source :: string
  ft_since :: int
  ft_before :: int
  ft_ids :: "string list"
  ft_limit :: int
  ft_reverse :: bool

definition filter_isZero :: "lesson_filter \<Rightarrow> bool" where
  "filter_isZero q \<longleftrightarrow> ft_topic q = '''' \<and> ft_confidence q = '''' \<and> ft_source q = '''' \<and>
     ft_since q = zero_ns \<and> ft_before q = zero_ns \<and> ft_ids q = []"

definition validateIDPrefixes :: "string list \<Rightarrow> err option" where
  "validateIDPrefixes ids =
     (if list_ex (\<lambda>p. p \<noteq> '''' \<and> length p < 4) ids
      then Some (EMsg ''learning store: id prefix must be at least 4 chars'') else None)"

definition matchSource :: "string \<Rightarrow> string \<Rightarrow> bool" where
  "matchSource src q \<longleftrightarrow> q = '''' \<or> (if HasSuffix q '':'' then HasPrefix src q else src = q)"

text \<open>\<open>strings.EqualFold\<close>, on ASCII.\<close>

definition EqualFold :: "string \<Rightarrow> string \<Rightarrow> bool" where
  "EqualFold a b \<longleftrightarrow> ToLower a = ToLower b"

definition filter_match :: "lesson_filter \<Rightarrow> lesson \<Rightarrow> bool" where
  "filter_match q l \<longleftrightarrow>
     (ft_topic q \<noteq> '''' \<longrightarrow> Contains (ToLower (ls_topic l)) (ToLower (ft_topic q))) \<and>
     (ft_confidence q \<noteq> '''' \<longrightarrow> EqualFold (ls_confidence l) (ft_confidence q)) \<and>
     matchSource (ls_source l) (ft_source q) \<and>
     (ft_since q \<noteq> zero_ns \<longrightarrow> ft_since q \<le> ls_created l) \<and>
     (ft_before q \<noteq> zero_ns \<longrightarrow> ls_created l < ft_before q) \<and>
     (ft_ids q \<noteq> [] \<longrightarrow> list_ex (\<lambda>p. p \<noteq> '''' \<and> HasPrefix (ls_id l) p) (ft_ids q))"

text \<open>Newest first; lessons of one instant keep their order, as the insertion sort of a short slice leaves them.\<close>

definition newest_lessons :: "lesson list \<Rightarrow> lesson list" where
  "newest_lessons ls = sort_key (\<lambda>l. - ls_created l) ls"

definition cut :: "int \<Rightarrow> 'a list \<Rightarrow> 'a list" where
  "cut n xs = (if 0 < n \<and> n < int (length xs) then take (nat n) xs else xs)"

definition ListFiltered :: "lesson_store \<Rightarrow> io \<Rightarrow> lesson_filter \<Rightarrow> files \<Rightarrow> err + lesson list" where
  "ListFiltered s io q f =
     (case validateIDPrefixes (ft_ids q) of
        Some er \<Rightarrow> Inl er
      | None \<Rightarrow>
          (case store_List s io f of
             Inl er \<Rightarrow> Inl er
           | Inr ls \<Rightarrow>
               (let out = filter (filter_match q) ls
                in Inr (cut (ft_limit q) (if ft_reverse q then newest_lessons out else out)))))"

definition Recent :: "lesson_store \<Rightarrow> io \<Rightarrow> int \<Rightarrow> files \<Rightarrow> err + lesson list" where
  "Recent s io n f =
     (case store_List s io f of Inl er \<Rightarrow> Inl er | Inr ls \<Rightarrow> Inr (cut n (newest_lessons ls)))"

section \<open>Removal\<close>

text \<open>\<open>drops\<close> says which lessons the visitor does not keep; the result is their number.\<close>

definition rewriteLocked :: "io \<Rightarrow> (lesson \<Rightarrow> bool) \<Rightarrow> files \<Rightarrow> (err + nat) \<times> files" where
  "rewriteLocked io drops f =
     (case readAllLocked io f of
        Inl er \<Rightarrow> (Inl er, f)
      | Inr ls \<Rightarrow>
          (let kept = filter (\<lambda>l. \<not> drops l) ls; removed = length (filter drops ls) in
           if ls = [] \<or> length kept = length ls then (Inr removed, f)
           else (case writeAllLocked io kept f of
                   (Some er, f') \<Rightarrow> (Inl er, f') | (None, f') \<Rightarrow> (Inr removed, f'))))"

definition Delete :: "lesson_store \<Rightarrow> io \<Rightarrow> string list \<Rightarrow> files \<Rightarrow> (err + nat) \<times> files" where
  "Delete s io idPrefixes f =
     (if lstore_path s = '''' then (Inr 0, f)
      else
        (let valid = filter (\<lambda>p. p \<noteq> '''') (map TrimSpace idPrefixes) in
         case validateIDPrefixes valid of
           Some er \<Rightarrow> (Inl er, f)
         | None \<Rightarrow> if valid = [] then (Inr 0, f)
                   else rewriteLocked io (\<lambda>l. list_ex (HasPrefix (ls_id l)) valid) f))"

definition DeleteMatching :: "lesson_store \<Rightarrow> io \<Rightarrow> lesson_filter \<Rightarrow> files \<Rightarrow> (err + nat) \<times> files" where
  "DeleteMatching s io q f =
     (if lstore_path s = '''' then (Inr 0, f)
      else if filter_isZero q
      then (Inl (EMsg ''learning store: DeleteMatching requires at least one filter''), f)
      else (case validateIDPrefixes (ft_ids q) of
              Some er \<Rightarrow> (Inl er, f) | None \<Rightarrow> rewriteLocked io (filter_match q) f))"

definition supersedes :: "string set \<Rightarrow> lesson \<Rightarrow> bool" where
  "supersedes wanted l \<longleftrightarrow> ls_id l \<in> wanted \<and> ls_superseded_by l = ''''"

definition MarkSuperseded :: "lesson_store \<Rightarrow> io \<Rightarrow> string list \<Rightarrow> string \<Rightarrow> files \<Rightarrow> (err + nat) \<times> files" where
  "MarkSuperseded s io ids synthesisID f =
     (if lstore_path s = '''' then (Inr 0, f)
      else if TrimSpace synthesisID = ''''
      then (Inl (EMsg ''learning store: MarkSuperseded requires synthesisID''), f)
      else
        (let wanted = set (filter (\<lambda>i. i \<noteq> '''') (map TrimSpace ids)) in
         if wanted = {} then (Inr 0, f)
         else
           (case readAllLocked io f of
              Inl er \<Rightarrow> (Inl er, f)
            | Inr ls \<Rightarrow>
                (let updated = length (filter (supersedes wanted) ls) in
                 if updated = 0 then (Inr 0, f)
                 else (case writeAllLocked io
                         (map (\<lambda>l. if supersedes wanted l then l\<lparr>ls_superseded_by := synthesisID\<rparr> else l) ls) f of
                         (Some er, f') \<Rightarrow> (Inl er, f') | (None, f') \<Rightarrow> (Inr updated, f'))))))"

definition KeepSuperseded :: "lesson \<Rightarrow> bool" where
  "KeepSuperseded l \<longleftrightarrow> ls_superseded_by l \<noteq> ''''"

definition Clear :: "lesson_store \<Rightarrow> io \<Rightarrow> files \<Rightarrow> (err + nat) \<times> files" where
  "Clear s io f =
     (if lstore_path s = '''' then (Inr 0, f)
      else
        (case readAllLocked io f of
           Inl er \<Rightarrow> (Inl er, f)
         | Inr ls \<Rightarrow>
             if ls = [] then (Inr 0, f)
             else (case writeAllLocked io [] f of (Some er, f') \<Rightarrow> (Inl er, f') | (None, f') \<Rightarrow> (Inr (length ls), f'))))"

section \<open>Rotation\<close>

record rotate_opts =
  ro_keep_last :: int
  ro_max_bytes :: int
  ro_keep_fn :: "(lesson \<Rightarrow> bool) option"

definition hasBound :: "rotate_opts \<Rightarrow> bool" where
  "hasBound o1 \<longleftrightarrow> 0 < ro_keep_last o1 \<or> 0 < ro_max_bytes o1"

definition encodedLessonSize :: "lesson \<Rightarrow> err + int" where
  "encodedLessonSize l =
     (case marshal_lesson l of Inl er \<Rightarrow> Inl (store_err ''encode size'' er) | Inr t \<Rightarrow> Inr (int (length t) + 1))"

text \<open>The lessons newest first, from the last: how many of them fit, with \<open>used\<close> bytes taken.\<close>

fun lessons_that_fit :: "int \<Rightarrow> int \<Rightarrow> lesson list \<Rightarrow> err + nat" where
  "lessons_that_fit maxBytes used [] = Inr 0"
| "lessons_that_fit maxBytes used (l # ls) =
     (case encodedLessonSize l of
        Inl er \<Rightarrow> Inl er
      | Inr n \<Rightarrow>
          if used + n > maxBytes then Inr 0
          else (case lessons_that_fit maxBytes (used + n) ls of Inl er \<Rightarrow> Inl er | Inr k \<Rightarrow> Inr (Suc k)))"

definition keepIndexForMaxBytes :: "lesson list \<Rightarrow> int \<Rightarrow> err + nat" where
  "keepIndexForMaxBytes ls maxBytes =
     (if maxBytes \<le> 0 then Inr 0
      else (case lessons_that_fit maxBytes 0 (rev ls) of
              Inl er \<Rightarrow> Inl er
            | Inr k \<Rightarrow> Inr (if k = 0 \<and> ls \<noteq> [] then length ls - 1 else length ls - k)))"

text \<open>The first lesson that is kept for its place.\<close>

definition keep_from :: "rotate_opts \<Rightarrow> lesson list \<Rightarrow> err + nat" where
  "keep_from o1 ls =
     (let byLast = (if 0 < ro_keep_last o1 \<and> ro_keep_last o1 < int (length ls)
                    then length ls - nat (ro_keep_last o1) else 0) in
      if 0 < ro_max_bytes o1
      then (case keepIndexForMaxBytes ls (ro_max_bytes o1) of Inl er \<Rightarrow> Inl er | Inr byBytes \<Rightarrow> Inr (max byLast byBytes))
      else Inr byLast)"

text \<open>What is archived and what is kept.\<close>

definition rotate_split :: "(lesson \<Rightarrow> bool) option \<Rightarrow> nat \<Rightarrow> lesson list \<Rightarrow> lesson list \<times> lesson list" where
  "rotate_split keep n ls =
     (case keep of
        None \<Rightarrow> (take n ls, drop n ls)
      | Some k \<Rightarrow> (filter (\<lambda>l. \<not> k l) (take n ls), filter k (take n ls) @ drop n ls))"

definition Rotate :: "lesson_store \<Rightarrow> io \<Rightarrow> rotate_opts \<Rightarrow> files \<Rightarrow> (err + nat) \<times> files" where
  "Rotate s io o1 f =
     (if lstore_path s = '''' then (Inr 0, f)
      else if \<not> hasBound o1 then (Inl (EMsg ''learning store: Rotate requires KeepLast or MaxBytes''), f)
      else
        (case readAllLocked io f of
           Inl er \<Rightarrow> (Inl er, f)
         | Inr ls \<Rightarrow>
             if ls = [] then (Inr 0, f)
             else
               (case keep_from o1 ls of
                  Inl er \<Rightarrow> (Inl er, f)
                | Inr n \<Rightarrow>
                    if n = 0 then (Inr 0, f)
                    else
                      (case rotate_split (ro_keep_fn o1) n ls of (toArchive, toKeep) \<Rightarrow>
                         if toArchive = [] then (Inr 0, f)
                         else
                           (case appendArchiveLocked io toArchive f of
                              (Some er, f1) \<Rightarrow> (Inl er, f1)
                            | (None, f1) \<Rightarrow>
                                (case writeAllLocked io toKeep f1 of
                                   (Some er, f2) \<Rightarrow> (Inl er, f2)
                                 | (None, f2) \<Rightarrow> (Inr (length toArchive), f2)))))))"

text \<open>\<open>bytes\<close> is what \<open>os.Stat\<close> says of the file.\<close>

definition AutoRotateIfNeeded :: "lesson_store \<Rightarrow> io \<Rightarrow> int \<Rightarrow> rotate_opts \<Rightarrow> files \<Rightarrow> (err + nat) \<times> files" where
  "AutoRotateIfNeeded s io bytes o1 f =
     (if lstore_path s = '''' \<or> \<not> hasBound o1 \<or> fl_lessons f = None then (Inr 0, f)
      else
        (case io IoStat of
           Some er \<Rightarrow> (Inl (store_err ''stat'' er), f)
         | None \<Rightarrow>
             if 0 < ro_max_bytes o1 \<and> ro_max_bytes o1 < bytes then Rotate s io o1 f
             else if ro_keep_last o1 \<le> 0 then (Inr 0, f)
             else
               (case store_List s io f of
                  Inl er \<Rightarrow> (Inl er, f)
                | Inr ls \<Rightarrow> if int (length ls) \<le> ro_keep_last o1 then (Inr 0, f) else Rotate s io o1 f)))"

section \<open>Counting\<close>

definition count_in :: "string \<Rightarrow> (string \<rightharpoonup> nat) \<Rightarrow> (string \<rightharpoonup> nat)" where
  "count_in k m = m(k \<mapsto> (case m k of None \<Rightarrow> 1 | Some n \<Rightarrow> n + 1))"

record stats =
  sta_total :: nat
  sta_by_topic :: "string \<rightharpoonup> nat"
  sta_by_confidence :: "string \<rightharpoonup> nat"
  sta_by_source :: "string \<rightharpoonup> nat"
  sta_oldest :: int
  sta_newest :: int
  sta_bytes :: int

definition stats_zero :: stats where
  "stats_zero = \<lparr>sta_total = 0, sta_by_topic = Map.empty, sta_by_confidence = Map.empty, sta_by_source = Map.empty,
     sta_oldest = zero_ns, sta_newest = zero_ns, sta_bytes = 0\<rparr>"

definition count_lesson :: "lesson \<Rightarrow> stats \<Rightarrow> stats" where
  "count_lesson l s =
     s\<lparr>sta_total := sta_total s + 1, sta_by_topic := count_in (ls_topic l) (sta_by_topic s),
       sta_by_confidence := count_in (ls_confidence l) (sta_by_confidence s),
       sta_by_source := count_in (ls_source l) (sta_by_source s),
       sta_oldest := (if sta_oldest s = zero_ns \<or> ls_created l < sta_oldest s then ls_created l else sta_oldest s),
       sta_newest := (if sta_newest s < ls_created l then ls_created l else sta_newest s)\<rparr>"

definition Summary :: "lesson_store \<Rightarrow> io \<Rightarrow> int \<Rightarrow> files \<Rightarrow> err + stats" where
  "Summary s io bytes f =
     (if lstore_path s = '''' then Inr stats_zero
      else (case store_List s io f of
              Inl er \<Rightarrow> Inl er
            | Inr ls \<Rightarrow> Inr (fold count_lesson ls
                (stats_zero\<lparr>sta_bytes := (if fl_lessons f = None \<or> io IoStat \<noteq> None then 0 else bytes)\<rparr>))))"

definition archivePath :: "lesson_store \<Rightarrow> string" where
  "archivePath s =
     (let p = lstore_path s in
      if HasSuffix p ''.jsonl'' then take (length p - 6) p @ ''.archive.jsonl'' else p @ ''.archive'')"

section \<open>What the operations keep\<close>

lemma stored_update [simp]: "stored (f\<lparr>fl_lessons := Some ls\<rparr>) = ls" "stored (f\<lparr>fl_archive := as\<rparr>) = stored f"
  by (simp_all add: stored_def)

lemma readAll_stored: "readAllLocked io f = Inr ls \<Longrightarrow> ls = stored f"
  by (auto simp: readAllLocked_def stored_def split: option.splits)

lemma encode_lines_prefix: "encode_lines wr i ls = (sent, er) \<Longrightarrow> prefix sent ls \<and> (er = None \<longrightarrow> sent = ls)"
  by (induction wr i ls arbitrary: sent rule: encode_lines.induct)
    (auto split: sum.split_asm option.split_asm prod.split_asm, metis option.distinct(1))

lemma first_failure_None: "first_failure rs = None \<longleftrightarrow> (\<forall>(what, r) \<in> set rs. r = None)"
  by (induction rs rule: first_failure.induct) (auto split: option.splits)

text \<open>A file is replaced as a whole or not at all.\<close>

lemma writeAll_cases:
  "writeAllLocked io ls f = (er, f') \<Longrightarrow> f' = (if er = None then f\<lparr>fl_lessons := Some ls\<rparr> else f)"
  by (auto simp: writeAllLocked_def simp del: first_failure.simps split: option.splits)

lemma appendArchive_cases:
  assumes "appendArchiveLocked io ls f = (er, f')"
  shows "\<exists>moved. prefix moved ls \<and> f' = f\<lparr>fl_archive := fl_archive f @ moved\<rparr> \<and> (er = None \<longrightarrow> moved = ls)"
proof (cases "ls = [] \<or> first_failure [(''archive dir'', io IoArchiveDir), (''open archive'', io IoArchiveOpen)] \<noteq> None")
  case True
  with assms have "f' = f" "ls = [] \<or> er \<noteq> None"
    by (cases "first_failure [(''archive dir'', io IoArchiveDir), (''open archive'', io IoArchiveOpen)]";
        auto simp: appendArchiveLocked_def simp del: first_failure.simps split: if_splits)+
  then show ?thesis by (intro exI[of _ "[]"]) auto
next
  case False
  obtain sent e where enc: "encode_lines (\<lambda>i. io (IoArchiveWrite i)) 0 ls = (sent, e)" by fastforce
  with encode_lines_prefix[OF this] False assms show ?thesis
    by (intro exI[of _ sent]) (auto simp: appendArchiveLocked_def first_failure_None split: option.splits)
qed

lemma rotate_split_mset: "rotate_split keep n ls = (as, ks) \<Longrightarrow> mset as + mset ks = mset ls"
proof (cases keep)
  case (Some k)
  assume "rotate_split keep n ls = (as, ks)"
  moreover have "mset (filter (\<lambda>l. \<not> k l) xs) + mset (filter k xs) = mset xs" for xs
    by (induction xs) auto
  ultimately have "mset as + mset ks = mset (take n ls) + mset (drop n ls)"
    using Some by (auto simp: rotate_split_def simp flip: union_assoc)
  then show ?thesis by (metis append_take_drop_id mset_append)
qed (auto simp: rotate_split_def simp flip: mset_append)

lemma rotate_split_subseq:
  assumes "rotate_split keep n ls = (as, ks)"
  shows "subseq as ls" and "subseq ks ls"
proof -
  have "subseq (filter P (take n ls) @ drop n ls) (take n ls @ drop n ls)"
for P
    by (intro list_emb_append_mono subseq_filter_left) simp_all
  then have "subseq (filter P (take n ls) @ drop n ls) ls" for P by simp
  moreover have "subseq (filter P (take n ls)) ls" for P
    by (rule subseq_order.trans[OF subseq_filter_left prefix_imp_subseq[OF take_is_prefix]])
  ultimately show "subseq as ls" "subseq ks ls"
    using assms by (auto simp: rotate_split_def suffix_imp_subseq suffix_drop prefix_imp_subseq take_is_prefix split: option.splits)
qed

lemma rotate_split_length:
  "rotate_split None n ls = (as, ks) \<Longrightarrow> length ks = length ls - n"
  by (auto simp: rotate_split_def)

lemma keep_from_last:
  "keep_from o1 ls = Inr n \<Longrightarrow> 0 < ro_keep_last o1 \<Longrightarrow> int (length ls - n) \<le> ro_keep_last o1"
  by (auto simp: keep_from_def Let_def split: if_splits sum.splits)

text \<open>Every way out of a rotation, with the files it leaves.\<close>

lemma Rotate_cases:
  assumes "Rotate s io o1 f = (r, f')"
  shows "(\<exists>n ks moved. r = Inr (length moved) \<and> keep_from o1 (stored f) = Inr n \<and>
            rotate_split (ro_keep_fn o1) n (stored f) = (moved, ks) \<and> stored f' = ks \<and> fl_archive f' = fl_archive f @ moved)
       \<or> (r = Inr 0 \<and> f' = f \<and> (lstore_path s = '''' \<or> stored f = []))
       \<or> (\<exists>er moved. r = Inl er \<and> subseq moved (stored f) \<and> f' = f\<lparr>fl_archive := fl_archive f @ moved\<rparr>)"
proof -
  let ?P = "\<exists>n ks moved. r = Inr (length moved) \<and> keep_from o1 (stored f) = Inr n \<and>
    rotate_split (ro_keep_fn o1) n (stored f) = (moved, ks) \<and> stored f' = ks \<and> fl_archive f' = fl_archive f @ moved"
  let ?E = "\<exists>er moved. r = Inl er \<and> subseq moved (stored f) \<and> f' = f\<lparr>fl_archive := fl_archive f @ moved\<rparr>"
  have early: "r = Inl er \<Longrightarrow> f' = f \<Longrightarrow> ?E" for er by (intro exI[of _ er] exI[of _ "[]"]) simp
  consider "lstore_path s = ''''" | "lstore_path s \<noteq> ''''" "\<not> hasBound o1"
    | er where "lstore_path s \<noteq> ''''" "hasBound o1" "readAllLocked io f = Inl er"
    | "lstore_path s \<noteq> ''''" "hasBound o1" "readAllLocked io f = Inr (stored f)"
    by (cases "readAllLocked io f") (auto dest: readAll_stored)
  then show ?thesis
  proof cases
    case 1
    with assms show ?thesis by (simp add: Rotate_def)
  next
    case 2
    with assms have "\<exists>er. r = Inl er \<and> f' = f" by (auto simp: Rotate_def)
    with early show ?thesis by blast
  next
    case 3
    with assms have "\<exists>er. r = Inl er \<and> f' = f" by (auto simp: Rotate_def)
    with early show ?thesis by blast
  next
    case 4
    show ?thesis
    proof (cases "keep_from o1 (stored f)")
      case (Inl er)
      with 4 assms have "stored f = [] \<and> r = Inr 0 \<and> f' = f \<or> r = Inl er \<and> f' = f"
        by (auto simp: Rotate_def split: if_splits)
      with early show ?thesis by blast
    next
      case (Inr n)
      obtain as ks where sp: "rotate_split (ro_keep_fn o1) n (stored f) = (as, ks)" by fastforce
      show ?thesis
      proof (cases "stored f = [] \<or> n = 0 \<or> as = []")
        case True
        moreover have "n = 0 \<Longrightarrow> as = []" and "as = [] \<Longrightarrow> ks = stored f" using sp
          by (auto simp: rotate_split_def filter_empty_conv split: option.splits)
        ultimately show ?thesis using 4 assms Inr sp by (auto simp: Rotate_def split: if_splits)
      next
        case False
        obtain e1 f1 where ap: "appendArchiveLocked io as f = (e1, f1)" by fastforce
        from appendArchive_cases[OF this] obtain moved where m: "prefix moved as" "f1 = f\<lparr>fl_archive := fl_archive f @ moved\<rparr>"
          "e1 = None \<longrightarrow> moved = as" by blast
        have sub: "subseq moved (stored f)"
          using rotate_split_subseq(1)[OF sp] prefix_imp_subseq[OF m(1)] subseq_order.trans by blast
        obtain e2 f2 where wr: "writeAllLocked io ks f1 = (e2, f2)" by fastforce
        from writeAll_cases[OF this] False 4 assms Inr sp ap m sub wr show ?thesis
          by (auto simp: Rotate_def split: option.splits if_splits)
      qed
    qed
  qed
qed


definition sample_lesson :: "string \<Rightarrow> lesson" where
  "sample_lesson i = \<lparr>ls_id = i, ls_text = ''t'', ls_topic = '''', ls_source = ''agent'', ls_confidence = ''high'',
     ls_persona_delta = [], ls_rationale = '''', ls_evidence = [], ls_persona_param = '''', ls_persona_direction = '''',
     ls_persona_magnitude = '''', ls_superseded_by = '''', ls_created = 0\<rparr>"

definition sample_files :: files where
  "sample_files = \<lparr>fl_lessons = Some [sample_lesson ''a'', sample_lesson ''b'', sample_lesson ''c''], fl_archive = []\<rparr>"

lemma sample_rotation:
  "Rotate \<lparr>lstore_path = ''l'', lstore_redactor = None\<rparr> (\<lambda>_. None)
     \<lparr>ro_keep_last = 1, ro_max_bytes = 0, ro_keep_fn = None\<rparr> sample_files =
   (Inr 2, \<lparr>fl_lessons = Some [sample_lesson ''c''], fl_archive = [sample_lesson ''a'', sample_lesson ''b'']\<rparr>)"
  by code_simp


end
