(* ===== verification/Memory_Gate.thy ===== *)
theory Memory_Gate
  imports Store_Records Lesson_Store Completion_Gate "HOL-Library.AList"
begin

text \<open>
  \<open>internal/agentic/memory\<close>: what an agent may write to its lasting memory.  \<open>gate.go\<close> decides on a request
  from the verification runs of its task and keeps a row of \<open>memory_updates\<close> about it; \<open>learning.go\<close> and
  \<open>wiki.go\<close> write a lesson or a page behind that decision.  \<open>hash\<close> is SHA-256 in hexadecimal; the writers
  are parameters, functions from what they are given to their answer, and an outcome tells what
  they were given.
\<close>

section \<open>The gate\<close>

abbreviation MemoryUpdateStatusPending :: string where "MemoryUpdateStatusPending \<equiv> ''pending''"
abbreviation MemoryUpdateStatusApplied :: string where "MemoryUpdateStatusApplied \<equiv> ''applied''"
abbreviation MemoryUpdateStatusBlocked :: string where "MemoryUpdateStatusBlocked \<equiv> ''blocked''"
abbreviation MemoryUpdateStatusFailed :: string where "MemoryUpdateStatusFailed \<equiv> ''failed''"

abbreviation SourceAgentic :: string where "SourceAgentic \<equiv> ''agentic''"
abbreviation SourceUserExplicit :: string where "SourceUserExplicit \<equiv> ''user_explicit''"
abbreviation TargetLearningLesson :: string where "TargetLearningLesson \<equiv> ''learning.lesson''"
abbreviation TargetWikiPage :: string where "TargetWikiPage \<equiv> ''wiki.page''"
abbreviation OperationAppend :: string where "OperationAppend \<equiv> ''append''"
abbreviation OperationUpsert :: string where "OperationUpsert \<equiv> ''upsert''"

definition ErrMissingTaskID :: err where "ErrMissingTaskID = EMsg ''memory gate: missing task_id''"

record mem_request =
  mq_task_id :: int
  mq_receipt_id :: int
  mq_run_id :: int
  mq_target :: string
  mq_operation :: string
  mq_payload_hash :: string
  mq_source :: string
  mq_reason :: string

record mem_decision =
  md_allowed :: bool
  md_reason :: string
  md_run :: "verification_run option"
  md_update :: memory_update

text \<open>The row a request asks about or leaves.\<close>

definition mem_row :: "mem_request \<Rightarrow> string \<Rightarrow> string \<Rightarrow> memory_update" where
  "mem_row q status reason =
     \<lparr>mu_id = 0, mu_task_id = mq_task_id q, mu_receipt_id = nullableInt (mq_receipt_id q),
      mu_verification_run_id = nullableInt (mq_run_id q), mu_target = mq_target q, mu_operation = mq_operation q,
      mu_payload_hash = mq_payload_hash q, mu_status = status, mu_source = mq_source q, mu_reason = reason,
      mu_created_at = zero_time, mu_applied_at = None\<rparr>"

text \<open>\<open>None\<close> for \<open>sql.ErrNoRows\<close>.\<close>

definition findUpdate :: "mem_request \<Rightarrow> string \<Rightarrow> (db, memory_update option) act" where
  "findUpdate q status =
     bind (attempt (FindMemoryUpdate (mem_row q status ''''))) (\<lambda>r.
     case r of
       Inr u \<Rightarrow> ret (Some u)
     | Inl er \<Rightarrow> if err_is er ErrNoRows then ret None
                 else fail (EWrap ''memory gate: find existing update'' er))"

definition newest_run :: "int \<Rightarrow> verification_run list \<Rightarrow> verification_run option" where
  "newest_run wanted rs =
     fold (\<lambda>r latest.
        if wanted \<noteq> 0 \<and> vr_id r \<noteq> wanted then latest
        else (case latest of None \<Rightarrow> Some r | Some l \<Rightarrow> if vr_id l < vr_id r then Some r else latest)) rs None"

text \<open>The run and the reason why it blocks, empty where it does not.\<close>

definition run_verdict :: "verification_run option \<Rightarrow> string" where
  "run_verdict latest =
     (case latest of
        None \<Rightarrow> ''missing verification run''
      | Some r \<Rightarrow>
          if vr_verdict r = VerificationVerdictPassed then ''''
          else if vr_verdict r = VerificationVerdictFailed \<or> vr_verdict r = VerificationVerdictInconclusive
          then ''verification '' @ vr_verdict r
          else ''verification invalid'')"

definition latestVerification :: "mem_request \<Rightarrow> (db, verification_run option \<times> string) act" where
  "latestVerification q =
     bind (wrap_act ''memory gate: list verification runs'' (ListVerificationRunsByTask (mq_task_id q))) (\<lambda>rs.
     ret (newest_run (mq_run_id q) rs, run_verdict (newest_run (mq_run_id q) rs)))"

definition run_id :: "verification_run option \<Rightarrow> int" where
  "run_id r = (case r of None \<Rightarrow> 0 | Some x \<Rightarrow> vr_id x)"

definition createPending :: "mem_request \<Rightarrow> verification_run option \<Rightarrow> (db, mem_decision) act" where
  "createPending q run =
     bind (findUpdate q MemoryUpdateStatusPending) (\<lambda>e.
     case e of
       Some existing \<Rightarrow>
         ret \<lparr>md_allowed = True, md_reason = mu_reason existing, md_run = run, md_update = existing\<rparr>
     | None \<Rightarrow>
         bind (wrap_act ''memory gate: create pending update''
                 (CreateMemoryUpdate (mem_row q MemoryUpdateStatusPending (mq_reason q)))) (\<lambda>u.
         ret \<lparr>md_allowed = True, md_reason = ''allowed'', md_run = run, md_update = u\<rparr>))"

definition decide_explicit :: "mem_request \<Rightarrow> (db, mem_decision) act" where
  "decide_explicit q =
     bind (findUpdate q MemoryUpdateStatusApplied) (\<lambda>e.
     case e of
       Some existing \<Rightarrow>
         ret \<lparr>md_allowed = True, md_reason = ''already applied'', md_run = None, md_update = existing\<rparr>
     | None \<Rightarrow> createPending (q\<lparr>mq_reason := or_else (mq_reason q) ''explicit user memory''\<rparr>) None)"

definition decide_blocked :: "mem_request \<Rightarrow> verification_run option \<Rightarrow> string \<Rightarrow> (db, mem_decision) act" where
  "decide_blocked q0 run reason =
     (let q = q0\<lparr>mq_run_id := run_id run\<rparr> in
      bind (findUpdate q MemoryUpdateStatusBlocked) (\<lambda>e.
      case e of
        Some existing \<Rightarrow>
          ret \<lparr>md_allowed = False, md_reason = mu_reason existing, md_run = run, md_update = existing\<rparr>
      | None \<Rightarrow>
          bind (wrap_act ''memory gate: record blocked update''
                  (CreateMemoryUpdate (mem_row q MemoryUpdateStatusBlocked reason))) (\<lambda>u.
          ret \<lparr>md_allowed = False, md_reason = reason, md_run = run, md_update = u\<rparr>)))"

definition decide_passed :: "mem_request \<Rightarrow> verification_run option \<Rightarrow> (db, mem_decision) act" where
  "decide_passed q0 run =
     (let q = q0\<lparr>mq_run_id := run_id run, mq_reason := or_else (mq_reason q0) ''verification passed''\<rparr> in
      bind (findUpdate q MemoryUpdateStatusApplied) (\<lambda>e.
      case e of
        Some existing \<Rightarrow>
          ret \<lparr>md_allowed = True, md_reason = ''already applied'', md_run = run, md_update = existing\<rparr>
      | None \<Rightarrow> createPending q run))"

definition gate_Decide :: "mem_request \<Rightarrow> (db, mem_decision) act" where
  "gate_Decide q0 =
     (if mq_task_id q0 = 0 then fail ErrMissingTaskID
      else
        (let q = q0\<lparr>mq_source := or_else (mq_source q0) SourceAgentic\<rparr> in
         if mq_target q = '''' \<or> mq_operation q = '''' \<or> mq_payload_hash q = ''''
         then fail (EMsg ''memory gate: target, operation, and payload_hash are required'')
         else if mq_source q = SourceUserExplicit then decide_explicit q
         else
           bind (latestVerification q) (\<lambda>v.
           if snd v \<noteq> '''' then decide_blocked q (fst v) (snd v) else decide_passed q (fst v))))"

definition gate_MarkApplied :: "int \<Rightarrow> string \<Rightarrow> (db, memory_update) act" where
  "gate_MarkApplied i reason =
     bind now_ms (\<lambda>now.
     UpdateMemoryUpdateStatus i MemoryUpdateStatusApplied (or_else reason ''memory write applied'') (Some now))"

definition gate_MarkFailed :: "int \<Rightarrow> string \<Rightarrow> (db, memory_update) act" where
  "gate_MarkFailed i reason = UpdateMemoryUpdateStatus i MemoryUpdateStatusFailed reason None"

section \<open>Writing behind the gate\<close>

record write_request =
  wq_task_id :: int
  wq_receipt_id :: int
  wq_run_id :: int
  wq_source :: string
  wq_payload_hash :: string
  wq_redact :: "(string \<Rightarrow> string) option"

text \<open>What a write returns, its error beside its values, and what the writer was given.\<close>

record 'p write_outcome =
  wo_added :: bool
  wo_update :: "memory_update option"
  wo_err :: "err option"
  wo_written :: "'p list"

definition write_ask :: "write_request \<Rightarrow> string \<Rightarrow> string \<Rightarrow> string \<Rightarrow> mem_request" where
  "write_ask r target operation payload =
     \<lparr>mq_task_id = wq_task_id r, mq_receipt_id = wq_receipt_id r, mq_run_id = wq_run_id r, mq_target = target,
      mq_operation = operation, mq_payload_hash = payload, mq_source = wq_source r, mq_reason = ''''\<rparr>"

text \<open>The end of both writes, from the decision on; \<open>answer\<close> is the writer's.\<close>

definition write_decided :: "'p \<Rightarrow> err + bool \<Rightarrow> mem_decision \<Rightarrow> (db, 'p write_outcome) act" where
  "write_decided p answer d =
     (let u = md_update d; out = (\<lambda>added u er w. ret \<lparr>wo_added = added, wo_update = u, wo_err = er, wo_written = w\<rparr>) in
      if \<not> md_allowed d \<or> mu_status u = MemoryUpdateStatusApplied then out False (Some u) None []
      else
        (case answer of
           Inl er \<Rightarrow>
             bind (attempt (gate_MarkFailed (mu_id u) (err_text er))) (\<lambda>m.
             case m of
               Inl markErr \<Rightarrow>
                 out False (Some u) (Some (EMsg (err_text er @ ''; memory gate: mark failed: '' @ err_text markErr))) [p]
             | Inr failed \<Rightarrow> out False (Some failed) (Some er) [p])
         | Inr added \<Rightarrow>
             bind (attempt (gate_MarkApplied (mu_id u) (mu_reason u))) (\<lambda>m.
             case m of
               Inl er \<Rightarrow> out added (Some u) (Some er) [p]
             | Inr applied \<Rightarrow> out added (Some applied) None [p])))"

definition write_behind_gate :: "mem_request \<Rightarrow> 'p \<Rightarrow> err + bool \<Rightarrow> (db, 'p write_outcome) act" where
  "write_behind_gate q p answer = bind (gate_Decide q) (write_decided p answer)"

text \<open>
  The hash of a lesson, and the lesson as it is afterwards: its evidence is a slice that is redacted in
  place, its other fields are copies.
\<close>

definition hashLesson :: "(string \<Rightarrow> string) \<Rightarrow> (string \<Rightarrow> string) option \<Rightarrow> lesson \<Rightarrow> err + string \<times> lesson" where
  "hashLesson hash red l =
     (let r = redact_lesson red l in
      case marshal_lesson (r\<lparr>ls_created := zero_ns\<rparr>) of
        Inl er \<Rightarrow> Inl (EWrap ''memory gate: hash lesson'' er)
      | Inr t \<Rightarrow> Inr (hash t, l\<lparr>ls_evidence := ls_evidence r\<rparr>))"

type_synonym learning_writer = "lesson \<Rightarrow> err + bool"

definition AppendLegacyLearningLesson :: "learning_writer option \<Rightarrow> lesson \<Rightarrow> err + bool" where
  "AppendLegacyLearningLesson writer l = (case writer of None \<Rightarrow> Inr False | Some w \<Rightarrow> w l)"

definition AppendLearningLesson ::
  "(string \<Rightarrow> string) \<Rightarrow> write_request \<Rightarrow> learning_writer option \<Rightarrow> lesson \<Rightarrow> (db, lesson write_outcome) act" where
  "AppendLearningLesson hash r writer l =
     (case writer of
        None \<Rightarrow> fail (EMsg ''memory gate: nil learning writer'')
      | Some w \<Rightarrow>
          (case (if wq_payload_hash r = '''' then hashLesson hash (wq_redact r) l else Inr (wq_payload_hash r, l)) of
             Inl er \<Rightarrow> fail er
           | Inr (payload, l') \<Rightarrow>
               write_behind_gate (write_ask r TargetLearningLesson OperationAppend payload) l' (w l')))"

section \<open>Pages\<close>

text \<open>\<open>None\<close> stands for a nil slice or map; the keys of \<open>wp_extra\<close> are distinct.\<close>

record wiki_page =
  wp_path :: string
  wp_title :: string
  wp_type :: string
  wp_content :: string
  wp_tags :: "string list option"
  wp_created :: int
  wp_updated :: int
  wp_ttl :: string
  wp_confidence :: string
  wp_extra :: "(string \<times> json) list option"

text \<open>The texts of an extra field; where two keys become one, the later stays.\<close>

definition redact_extra :: "(string \<Rightarrow> string) \<Rightarrow> (string \<times> json) list \<Rightarrow> (string \<times> json) list" where
  "redact_extra f m =
     fold (\<lambda>(k, v) out. AList.update (f k) (case v of JStr s \<Rightarrow> JStr (f s) | _ \<Rightarrow> v) out) m []"

definition redact_page :: "(string \<Rightarrow> string) option \<Rightarrow> wiki_page \<Rightarrow> wiki_page" where
  "redact_page red p =
     (case red of
        None \<Rightarrow> p
      | Some f \<Rightarrow>
          p\<lparr>wp_path := f (wp_path p), wp_title := f (wp_title p), wp_content := f (wp_content p), wp_ttl := f (wp_ttl p),
            wp_confidence := f (wp_confidence p), wp_tags := map_option (map f) (wp_tags p),
            wp_extra := map_option (redact_extra f) (wp_extra p)\<rparr>)"

text \<open>\<open>json.Marshal\<close>: fields under their own names, the keys of a map in order.\<close>

definition page_json :: "wiki_page \<Rightarrow> json" where
  "page_json p = JObj
     [(''Path'', JStr (wp_path p)), (''Title'', JStr (wp_title p)), (''Type'', JStr (wp_type p)),
      (''Content'', JStr (wp_content p)),
      (''Tags'', case wp_tags p of None \<Rightarrow> JNull | Some ts \<Rightarrow> JArr (map JStr ts)),
      (''Created'', JStr (rfc3339 (wp_created p))), (''Updated'', JStr (rfc3339 (wp_updated p))),
      (''TTL'', JStr (wp_ttl p)), (''Confidence'', JStr (wp_confidence p)),
      (''Extra'', case wp_extra p of None \<Rightarrow> JNull | Some m \<Rightarrow> JObj (sort_key fst m))]"

text \<open>As for lessons: the tags are redacted in place.\<close>

definition hashWikiPage :: "(string \<Rightarrow> string) \<Rightarrow> (string \<Rightarrow> string) option \<Rightarrow> wiki_page \<Rightarrow> string \<times> wiki_page" where
  "hashWikiPage hash red p =
     (let r = redact_page red (p\<lparr>wp_created := zero_ns, wp_updated := zero_ns\<rparr>)
      in (hash (print_json (page_json r)), p\<lparr>wp_tags := wp_tags r\<rparr>))"

type_synonym wiki_writer = "wiki_page \<Rightarrow> err option"

definition UpsertWikiPage ::
  "(string \<Rightarrow> string) \<Rightarrow> write_request \<Rightarrow> wiki_writer option \<Rightarrow> wiki_page option \<Rightarrow> (db, wiki_page write_outcome) act" where
  "UpsertWikiPage hash r writer page =
     (case (writer, page) of
        (None, _) \<Rightarrow> fail (EMsg ''memory gate: nil wiki writer'')
      | (Some _, None) \<Rightarrow> fail (EMsg ''memory gate: nil wiki page'')
      | (Some w, Some p) \<Rightarrow>
          (case (if wq_payload_hash r = '''' then hashWikiPage hash (wq_redact r) p else (wq_payload_hash r, p)) of
             (payload, p') \<Rightarrow>
               write_behind_gate (write_ask r TargetWikiPage OperationUpsert payload) p'
                 (case w p' of None \<Rightarrow> Inr True | Some er \<Rightarrow> Inl er)))"

section \<open>A write rests on a passed verification\<close>

lemma triple_vacuous: "triple w (\<lambda>_. False) m Q E"
  by (simp add: triple_def)

lemma triple_ex: "(\<And>x. triple w (P x) m Q E) \<Longrightarrow> triple w (\<lambda>s. \<exists>x. P x s) m Q E"
  unfolding triple_def by (intro allI impI) (elim exE, simp)

lemma triple_both:
  "triple w P m Q E \<Longrightarrow> triple w P' m Q' E' \<Longrightarrow>
     triple w (\<lambda>s. P s \<and> P' s) m (\<lambda>a s. Q a s \<and> Q' a s) (\<lambda>er s. E er s \<and> E' er s)"
  unfolding triple_def by (fastforce split: prod.splits sum.splits)

lemma newest_run_in: "newest_run wanted rs = Some r \<Longrightarrow> r \<in> set rs \<and> (wanted \<noteq> 0 \<longrightarrow> vr_id r = wanted)"
proof -
  let ?f = "\<lambda>r latest. if wanted \<noteq> 0 \<and> vr_id r \<noteq> wanted then latest
        else (case latest of None \<Rightarrow> Some r | Some l \<Rightarrow> if vr_id l < vr_id r then Some r else latest)"
  have "fold ?f rs z = Some r \<Longrightarrow> z = Some r \<or> r \<in> set rs \<and> (wanted \<noteq> 0 \<longrightarrow> vr_id r = wanted)" for z
  proof (induction rs arbitrary: z)
    case (Cons x xs)
    from Cons.IH[of "?f x z"] Cons.prems show ?case by (auto split: if_splits option.splits)
  qed simp
  from this[of None] show "newest_run wanted rs = Some r \<Longrightarrow> ?thesis" by (simp add: newest_run_def)
qed

lemma run_verdict_passed:
  "run_verdict v = '''' \<longleftrightarrow> (\<exists>r. v = Some r \<and> vr_verdict r = VerificationVerdictPassed)"
  by (auto simp: run_verdict_def split: option.splits)

definition has_run :: "verification_run \<Rightarrow> db \<Rightarrow> bool" where
  "has_run r s \<longleftrightarrow> r \<in> set (tbl_rows (db_verifications s))"

lemma has_run_memory [simp]: "has_run r (s\<lparr>db_memory := t\<rparr>) = has_run r s"
  by (simp add: has_run_def)

lemma findUpdate_keeps [inv_intros]: "preserves (has_run r) (findUpdate q st)"
  unfolding findUpdate_def FindMemoryUpdate_def GetMemoryUpdate_def by (intro inv_intros)

lemma CreateMemoryUpdate_keeps [inv_intros]: "preserves (has_run r) (CreateMemoryUpdate x)"
  unfolding CreateMemoryUpdate_def findMemoryUpdateByKey_def GetMemoryUpdate_def
  by (intro inv_intros preserves_on_table) auto

lemma UpdateMemoryUpdateStatus_keeps [inv_intros]: "preserves (has_run r) (UpdateMemoryUpdateStatus i st reason at)"
  unfolding UpdateMemoryUpdateStatus_def GetMemoryUpdate_def by (intro inv_intros preserves_on_table) auto

lemma write_decided_keeps [inv_intros]: "preserves (has_run r) (write_decided p answer d)"
  unfolding write_decided_def gate_MarkApplied_def gate_MarkFailed_def Let_def by (intro inv_intros)

text \<open>What an allowed decision says of its run, unless the request is a user's own.\<close>

definition passed_for :: "mem_request \<Rightarrow> verification_run \<Rightarrow> bool" where
  "passed_for q r \<longleftrightarrow> vr_task_id r = mq_task_id q \<and> vr_verdict r = VerificationVerdictPassed \<and>
     (mq_run_id q \<noteq> 0 \<longrightarrow> vr_id r = mq_run_id q)"

definition rests_on_run :: "mem_request \<Rightarrow> mem_decision \<Rightarrow> db \<Rightarrow> bool" where
  "rests_on_run q d s \<longleftrightarrow> (md_allowed d \<longrightarrow> mq_source q = SourceUserExplicit \<or>
     (\<exists>r. md_run d = Some r \<and> has_run r s \<and> passed_for q r))"

lemma decide_blocked_rests: "triple w (\<lambda>_. True) (decide_blocked q run reason) (rests_on_run q') (\<lambda>_ _. True)"
  unfolding decide_blocked_def Let_def
  by (rule triple_bind[OF triple_trivial], rule triple_conseq[where P' = "\<lambda>_. True"])
    (auto intro!: triple_bind[OF triple_trivial] triple_ret simp: rests_on_run_def split: option.splits)

lemma explicit_rests:
  "mq_source q = SourceUserExplicit \<Longrightarrow> triple w (\<lambda>_. True) m (rests_on_run q) (\<lambda>_ _. True)"
  by (rule triple_conseq[OF triple_trivial]) (auto simp: rests_on_run_def)

lemma createPending_rests:
  assumes "stable w (has_run r)" and "passed_for q' r"
  shows "triple w (has_run r) (createPending q (Some r)) (rests_on_run q') (\<lambda>_ _. True)"
proof -
  have found: "triple w (has_run r) (findUpdate q st) (\<lambda>_. has_run r) (\<lambda>_ _. True)" for st
    by (rule triple_conseq[OF triple_preserves[OF findUpdate_keeps assms(1)]]) auto
  have made: "triple w (has_run r) (wrap_act m (CreateMemoryUpdate x)) (\<lambda>_. has_run r) (\<lambda>_ _. True)" for x m
    by (rule triple_conseq[OF triple_preserves[OF preserves_wrap[OF CreateMemoryUpdate_keeps] assms(1)]]) auto
  show ?thesis unfolding createPending_def
    by (rule triple_bind[OF found], split option.split)
      (auto intro!: triple_bind[OF made] triple_ret simp: rests_on_run_def assms(2))
qed

lemma decide_passed_rests:
  assumes "stable w (has_run r)" and "passed_for q' r"
  shows "triple w (has_run r) (decide_passed q (Some r)) (rests_on_run q') (\<lambda>_ _. True)"
proof -
  have found: "triple w (has_run r) (findUpdate q st) (\<lambda>_. has_run r) (\<lambda>_ _. True)" for st q
    by (rule triple_conseq[OF triple_preserves[OF findUpdate_keeps assms(1)]]) auto
  show ?thesis unfolding decide_passed_def Let_def
    by (rule triple_bind[OF found], split option.split)
      (auto intro!: createPending_rests assms triple_ret simp: rests_on_run_def assms(2))
qed

lemma latestVerification_run:
  "triple w (\<lambda>_. True) (latestVerification q)
    (\<lambda>v s. snd v = '''' \<longrightarrow> (\<exists>r. fst v = Some r \<and> has_run r s \<and> passed_for q r)) (\<lambda>_ _. True)"
proof -
  have list: "triple w (\<lambda>_. True) (wrap_act m (ListVerificationRunsByTask i))
      (\<lambda>rs s. \<forall>r \<in> set rs. has_run r s \<and> vr_task_id r = i) (\<lambda>_ _. True)" for i m
    unfolding ListVerificationRunsByTask_def
    by (intro triple_wrap triple_query) (auto simp: stable_def has_run_def)
  show ?thesis unfolding latestVerification_def
    by (rule triple_bind[OF list], rule triple_ret)
      (auto simp: run_verdict_passed passed_for_def dest: newest_run_in)
qed

lemma gate_Decide_rests:
  assumes "\<And>r. stable w (has_run r)"
  shows "triple w (\<lambda>_. True) (gate_Decide q0) (rests_on_run (q0\<lparr>mq_source := or_else (mq_source q0) SourceAgentic\<rparr>)) (\<lambda>_ _. True)"
    (is "triple w _ _ (rests_on_run ?q) _")
proof -
  have judged: "triple w (\<lambda>s. snd v = '''' \<longrightarrow> (\<exists>r. fst v = Some r \<and> has_run r s \<and> passed_for ?q r))
      (if snd v \<noteq> '''' then decide_blocked ?q (fst v) (snd v) else decide_passed ?q (fst v)) (rests_on_run ?q) (\<lambda>_ _. True)" for v
  proof (cases "snd v = ''''")
    case True
    have "triple w (\<lambda>s. fst v = Some r \<and> has_run r s \<and> passed_for ?q r) (decide_passed ?q (fst v)) (rests_on_run ?q) (\<lambda>_ _. True)" for r
      by (cases "fst v = Some r \<and> passed_for ?q r")
        (auto intro: triple_conseq[OF decide_passed_rests[OF assms]] triple_vacuous)
    from triple_ex[OF this] True show ?thesis by simp
  qed (auto intro: triple_conseq[OF decide_blocked_rests])
  show ?thesis
  proof (cases "mq_source ?q = SourceUserExplicit")
    case False
    then show ?thesis unfolding gate_Decide_def Let_def
      by (auto intro: triple_fail triple_bind[OF latestVerification_run judged])
  qed (rule explicit_rests)
qed

text \<open>What a write promises.\<close>

definition written_verified :: "mem_request \<Rightarrow> 'p \<Rightarrow> 'p write_outcome \<Rightarrow> db \<Rightarrow> bool" where
  "written_verified q p out s \<longleftrightarrow> (wo_written out \<noteq> [] \<longrightarrow>
     wo_written out = [p] \<and> (mq_source q = SourceUserExplicit \<or> (\<exists>r. has_run r s \<and> passed_for q r)))"

lemma write_decided_written:
  "triple w (\<lambda>_. True) (write_decided p answer d)
     (\<lambda>out _. wo_written out = [] \<or> (md_allowed d \<and> wo_written out = [p])) (\<lambda>_ _. True)"
  unfolding write_decided_def Let_def
  by (auto intro!: triple_ret triple_bind[OF triple_trivial] split: sum.splits)

lemma write_decided_rests:
  assumes "\<And>r. stable w (has_run r)"
  shows "triple w (rests_on_run q d) (write_decided p answer d) (written_verified q p) (\<lambda>_ _. True)"
proof (cases "md_allowed d \<and> mq_source q \<noteq> SourceUserExplicit")
  case True
  have "triple w (\<lambda>s. has_run r s \<and> passed_for q r) (write_decided p answer d) (written_verified q p) (\<lambda>_ _. True)" for r
  proof (cases "passed_for q r")
    case True
    have "triple w (has_run r) (write_decided p answer d) (\<lambda>_. has_run r) (\<lambda>_. has_run r)"
      by (rule triple_preserves[OF write_decided_keeps assms])
    from triple_both[OF this write_decided_written] True show ?thesis
      by (elim triple_conseq) (auto simp: written_verified_def)
  qed (simp add: triple_vacuous)
  from triple_ex[where P = "\<lambda>r s. has_run r s \<and> passed_for q r", OF this] show ?thesis
    by (rule triple_conseq) (use True in \<open>auto simp: rests_on_run_def\<close>)
next
  case False
  show ?thesis
    by (rule triple_conseq[OF write_decided_written]) (use False in \<open>auto simp: written_verified_def\<close>)
qed

lemma write_behind_gate_rests:
  assumes "\<And>r. stable w (has_run r)"
  shows "triple w (\<lambda>_. True) (write_behind_gate q p answer)
    (written_verified (q\<lparr>mq_source := or_else (mq_source q) SourceAgentic\<rparr>) p) (\<lambda>_ _. True)"
  unfolding write_behind_gate_def by (rule triple_bind[OF gate_Decide_rests write_decided_rests]) (rule assms)+

text \<open>
  C35: what is written to the memory of an agent rests on a passed verification.  If the verification runs of
  others stay as they are, whatever else happens between the statements and whatever fails, a lesson or a
  page reaches its writer only when the request is a user's own or the task has a run that passed, the one
  the request names if it names one.
\<close>

theorem memory_write_verified:
  assumes "\<And>r. stable w (\<lambda>s. r \<in> set (tbl_rows (db_verifications s)))"
    and "AppendLearningLesson hash q lw l w i s = (Inr out, j, s') \<and> wo_written out \<noteq> [] \<or>
         UpsertWikiPage hash q ww page w i s = (Inr out', j, s') \<and> wo_written out' \<noteq> []"
    and "wq_source q \<noteq> SourceUserExplicit"
  shows "\<exists>r \<in> set (tbl_rows (db_verifications s')). vr_task_id r = wq_task_id q \<and>
    vr_verdict r = VerificationVerdictPassed \<and> (wq_run_id q \<noteq> 0 \<longrightarrow> vr_id r = wq_run_id q)"
proof -
  have runs: "stable w (has_run r)" for r
    using assms(1)[of r] unfolding has_run_def .
  have gate: "\<exists>r. has_run r s' \<and> passed_for (write_ask q target op payload) r"
    if "write_behind_gate (write_ask q target op payload) p answer w i s = (Inr out, j, s')" "wo_written out \<noteq> []"
    for target op payload and p :: 'p and answer out
    using triple_run[OF write_behind_gate_rests[OF runs] _ that(1)] that(2) assms(3)
    by (auto simp: written_verified_def write_ask_def or_else_def passed_for_def split: if_splits)
  from assms(2) have "\<exists>r target op payload. has_run r s' \<and> passed_for (write_ask q target op payload) r"
    by (auto simp: AppendLearningLesson_def UpsertWikiPage_def fail_def dest!: gate
        split: option.splits sum.splits prod.splits if_splits)
  then show ?thesis by (auto simp: has_run_def passed_for_def write_ask_def)
qed

definition verified_task_db :: db where
  "verified_task_db = db_empty\<lparr>
     db_tasks := \<lparr>tbl_rows = [\<lparr>at_id = 1, at_goal_id = None, at_signal_id = None, at_parent_id = None,
        at_queue_task_id = None, at_title = ''t'', at_prompt = ''p'', at_status = TaskStatusRunning, at_priority = 0,
        at_risk_level = RiskLevelLow, at_autonomy_decision = PolicyDecisionObserve, at_approval_request_id = '''',
        at_verification_status = VerificationStatusPending, at_due_at = None, at_created_at = 0, at_updated_at = 0\<rparr>],
        tbl_next = 2\<rparr>,
     db_verifications := \<lparr>tbl_rows = [\<lparr>vr_id = 1, vr_task_id = 1, vr_verifier_actor_id = None,
        vr_criteria_json = '''', vr_evidence_refs_json = '''', vr_verdict = VerificationVerdictPassed,
        vr_reason = '''', vr_created_at = 6\<rparr>], tbl_next = 2\<rparr>\<rparr>"

definition sample_write :: write_request where
  "sample_write = \<lparr>wq_task_id = 1, wq_receipt_id = 0, wq_run_id = 0, wq_source = '''', wq_payload_hash = ''h'',
     wq_redact = None\<rparr>"

lemma sample_written:
  "case AppendLearningLesson (\<lambda>t. t) sample_write (Some (\<lambda>_. Inr True)) (sample_lesson ''a'') (calm_world 9) 0 verified_task_db of
     (Inr out, _, _) \<Rightarrow> wo_written out = [sample_lesson ''a''] \<and> wo_err out = None \<and>
       map_option mu_status (wo_update out) = Some MemoryUpdateStatusApplied
   | (Inl _, _, _) \<Rightarrow> False"
  by code_simp

theorem memory_write_verified_witness:
  "\<exists>out j s'. AppendLearningLesson (\<lambda>t. t) sample_write (Some (\<lambda>_. Inr True)) (sample_lesson ''a'') (calm_world 9) 0
       verified_task_db = (Inr out, j, s') \<and> wo_written out \<noteq> [] \<and>
     (\<exists>r \<in> set (tbl_rows (db_verifications s')). vr_task_id r = 1 \<and> vr_verdict r = VerificationVerdictPassed)"
proof -
  obtain out j s' where run: "AppendLearningLesson (\<lambda>t. t) sample_write (Some (\<lambda>_. Inr True)) (sample_lesson ''a'')
      (calm_world 9) 0 verified_task_db = (Inr out, j, s')" and "wo_written out \<noteq> []"
    using sample_written by (auto split: prod.splits sum.splits)
  moreover have "\<exists>r \<in> set (tbl_rows (db_verifications s')). vr_task_id r = wq_task_id sample_write \<and>
      vr_verdict r = VerificationVerdictPassed \<and> (wq_run_id sample_write \<noteq> 0 \<longrightarrow> vr_id r = wq_run_id sample_write)"
    by (rule memory_write_verified[OF _ disjI1[OF conjI[OF run]]])
      (use \<open>wo_written out \<noteq> []\<close> in \<open>simp_all add: stable_def sample_write_def\<close>)
  ultimately show ?thesis by (auto simp: sample_write_def)
qed

end
