(* ===== verification/Followups.thy ===== *)
theory Followups
  imports Task_Envelope
begin

text \<open>
  \<open>internal/agentic/followup\<close> and \<open>internal/agentic/signals\<close>: a verified task may leave a followup; when it is
  due it becomes a signal and a proposed task.  The bridge records what the scheduler, the ambient tasks
  and a submission by hand did as signals.  \<open>redact\<close> is the detector of secrets, \<open>hash\<close> is SHA-256 in
  hexadecimal.
\<close>

section \<open>Recording a followup\<close>

definition ErrVerificationNotPassed :: err where
  "ErrVerificationNotPassed = EMsg ''followup: verification not passed''"

text \<open>A cooldown is in milliseconds.\<close>

record followup_request =
  fq_task_id :: int
  fq_goal_id :: int
  fq_reason :: string
  fq_trigger_at :: int
  fq_wake_agent :: bool
  fq_cooldown :: int

definition bool_text :: "bool \<Rightarrow> string" where
  "bool_text b = (if b then ''true'' else ''false'')"

definition createDedupeKey :: "(string \<Rightarrow> string) \<Rightarrow> followup_request \<Rightarrow> string" where
  "createDedupeKey hash q =
     ''followup:task:'' @ itoa (fq_task_id q) @ '':goal:'' @ itoa (fq_goal_id q) @ '':wake:'' @ bool_text (fq_wake_agent q) @
     '':trigger:'' @ itoa (fq_trigger_at q) @ '':reason:'' @ hash (fq_reason q)"

definition last_run :: "verification_run list \<Rightarrow> verification_run option" where
  "last_run rs =
     fold (\<lambda>r latest. case latest of None \<Rightarrow> Some r | Some l \<Rightarrow> if vr_id l < vr_id r then Some r else latest) rs None"

definition followup_verification :: "int \<Rightarrow> (db, verification_run option) act" where
  "followup_verification taskID =
     bind (attempt (ListVerificationRunsByTask taskID)) (\<lambda>r.
     case r of
       Inl er \<Rightarrow> if err_is er ErrNoRows then ret None else fail (EWrap ''followup: list verification runs'' er)
     | Inr rs \<Rightarrow> ret (last_run rs))"

definition followup_record :: "(string \<Rightarrow> string) \<Rightarrow> followup_request \<Rightarrow> followup" where
  "followup_record hash q =
     \<lparr>fu_id = 0, fu_task_id = nullableInt (fq_task_id q), fu_goal_id = nullableInt (fq_goal_id q),
      fu_reason = fq_reason q, fu_status = FollowupStatusPending, fu_trigger_at = fq_trigger_at q,
      fu_created_task_id = None, fu_dedupe_key = createDedupeKey hash q, fu_failure_reason = '''',
      fu_processed_at = None, fu_wake_agent = fq_wake_agent q, fu_created_at = zero_time\<rparr>"

definition CreateFromVerifiedOutcome ::
  "(string \<Rightarrow> string) \<Rightarrow> (string \<Rightarrow> string) \<Rightarrow> followup_request \<Rightarrow> (db, followup) act" where
  "CreateFromVerifiedOutcome redact hash q0 =
     (if fq_task_id q0 = 0 then fail (EMsg ''followup: missing task_id'')
      else if fq_reason q0 = '''' then fail (EMsg ''followup: reason is required'')
      else
        bind (wrap_act ''followup: get task'' (GetAgenticTask (fq_task_id q0))) (\<lambda>task.
        let q = q0\<lparr>fq_reason := TrimSpace (redact (fq_reason q0)),
                   fq_goal_id := (if fq_goal_id q0 = 0 then intFromNull (at_goal_id task) else fq_goal_id q0)\<rparr>;
            make = bind (CreateOrGetFollowup (followup_record hash q)) (\<lambda>c. ret (fst c))
        in
        bind (followup_verification (fq_task_id q)) (\<lambda>run.
        if map_option vr_verdict run \<noteq> Some VerificationVerdictPassed then fail ErrVerificationNotPassed
        else if 0 < fq_cooldown q then
          bind (attempt (FindFollowupInCooldown (followup_record hash q) (fq_cooldown q))) (\<lambda>r.
          case r of
            Inr existing \<Rightarrow> ret existing
          | Inl er \<Rightarrow> if err_is er ErrNoRows then make else fail (EWrap ''followup: cooldown lookup'' er))
        else make)))"

section \<open>The scheduler of due followups\<close>

abbreviation SourceFollowup :: string where "SourceFollowup \<equiv> ''followup''"
abbreviation TypeFollowupDue :: string where "TypeFollowupDue \<equiv> ''followup_due''"

text \<open>The parts of a fingerprint, each ended by a zero byte.\<close>

definition fingerprint :: "(string \<Rightarrow> string) \<Rightarrow> string list \<Rightarrow> string" where
  "fingerprint hash parts = hash (concat (map (\<lambda>p. p @ [CHR 0x00]) parts))"

definition due_payload :: "(string \<Rightarrow> string) \<Rightarrow> followup \<Rightarrow> string" where
  "due_payload hash fu = print_json (JObj
     [(''followup_id'', JNum (itoa (fu_id fu))), (''parent_task_id'', JNum (itoa (intFromNull (fu_task_id fu)))),
      (''reason_hash'', JStr (hash (fu_reason fu))), (''trigger_at'', JNum (itoa (fu_trigger_at fu))),
      (''wake_agent'', JBool (fu_wake_agent fu))])"

definition due_key :: "followup \<Rightarrow> string" where
  "due_key fu = (if fu_dedupe_key fu = '''' then followupDedupeKey (fu_id fu) else fu_dedupe_key fu)"

definition due_signal :: "(string \<Rightarrow> string) \<Rightarrow> followup \<Rightarrow> int \<Rightarrow> goal_signal" where
  "due_signal hash fu now =
     \<lparr>gs_id = 0, gs_goal_id = fu_goal_id fu, gs_watcher_id = None, gs_source = SourceFollowup, gs_type = TypeFollowupDue,
      gs_payload_json = due_payload hash fu,
      gs_fingerprint = fingerprint hash [SourceFollowup, TypeFollowupDue, due_key fu, due_payload hash fu],
      gs_severity = 1, gs_status = SignalStatusNew, gs_dedupe_key = due_key fu, gs_observed_at = now\<rparr>"

definition createOrGetDueSignal :: "(string \<Rightarrow> string) \<Rightarrow> followup \<Rightarrow> (db, goal_signal) act" where
  "createOrGetDueSignal hash fu =
     bind now_ms (\<lambda>now. bind (CreateOrGetGoalSignal (due_signal hash fu now)) (\<lambda>c. ret (fst c)))"

text \<open>The first \<open>n\<close> runes of a text in UTF-8.\<close>

definition continuation :: "char \<Rightarrow> bool" where
  "continuation c \<longleftrightarrow> 128 \<le> (of_char c :: nat) \<and> (of_char c :: nat) < 192"

fun take_runes :: "nat \<Rightarrow> string \<Rightarrow> string" where
  "take_runes n [] = []"
| "take_runes n (c # s) =
     (if continuation c then c # take_runes n s else if n = 0 then [] else c # take_runes (n - 1) s)"

definition snippet :: "string \<Rightarrow> nat \<Rightarrow> string" where
  "snippet s limit =
     (if limit = 0 \<or> length (filter (\<lambda>c. \<not> continuation c) s) \<le> limit then s else take_runes limit s @ ''...'')"

definition safeReason :: "(string \<Rightarrow> string) \<Rightarrow> string \<Rightarrow> string" where
  "safeReason redact reason = snippet (redact reason) 300"

definition taskFromFollowup :: "(string \<Rightarrow> string) \<Rightarrow> followup \<Rightarrow> int \<Rightarrow> agentic_task" where
  "taskFromFollowup redact fu signalID =
     \<lparr>at_id = 0, at_goal_id = fu_goal_id fu, at_signal_id = nullableInt signalID, at_parent_id = fu_task_id fu,
      at_queue_task_id = None, at_title = ''Proposed follow-up task'',
      at_prompt = ''Follow-up proposal from verified task '' @ itoa (intFromNull (fu_task_id fu)) @ '': '' @
        safeReason redact (fu_reason fu) @
        ''. Review the parent task and decide the next bounded action. No daemon queue work has been enqueued.'',
      at_status = TaskStatusProposed, at_priority = 0, at_risk_level = RiskLevelLow,
      at_autonomy_decision = PolicyDecisionObserve, at_approval_request_id = '''',
      at_verification_status = VerificationStatusPending,
      at_due_at = (if fu_trigger_at fu = zero_time then None else Some (fu_trigger_at fu)),
      at_created_at = zero_time, at_updated_at = zero_time\<rparr>"

text \<open>What becomes of a followup: its status, the task, and the error that ends the run.\<close>

type_synonym followup_fate = "string \<times> int \<times> err option"

definition followup_fail :: "int \<Rightarrow> err \<Rightarrow> (db, followup_fate) act" where
  "followup_fail i cause =
     bind (attempt (MarkFollowupFailed i (err_text cause))) (\<lambda>r.
     ret (FollowupStatusFailed, 0,
       Some (case r of Inr _ \<Rightarrow> cause | Inl er \<Rightarrow> EMsg (err_text cause @ ''; mark failed: '' @ err_text er))))"

definition mark_fate :: "(db, followup) act \<Rightarrow> string \<Rightarrow> int \<Rightarrow> (db, followup_fate) act" where
  "mark_fate mark status taskID =
     bind (attempt mark) (\<lambda>r.
     ret (case r of Inl er \<Rightarrow> (FollowupStatusFailed, 0, Some er) | Inr _ \<Rightarrow> (status, taskID, None)))"

definition followup_created :: "followup \<Rightarrow> int \<Rightarrow> (db, followup_fate) act" where
  "followup_created fu taskID = mark_fate (MarkFollowupCreated (fu_id fu) taskID) FollowupStatusCreated taskID"

definition followup_task :: "(string \<Rightarrow> string) \<Rightarrow> followup \<Rightarrow> goal_signal \<Rightarrow> (db, followup_fate) act" where
  "followup_task redact fu signal =
     bind (attempt (GetAgenticTaskBySignalID (gs_id signal))) (\<lambda>t.
     case t of
       Inr task \<Rightarrow> followup_created fu (at_id task)
     | Inl er \<Rightarrow>
         if \<not> err_is er ErrNoRows then followup_fail (fu_id fu) er
         else
           bind (attempt (CreateAgenticTask (taskFromFollowup redact fu (gs_id signal)))) (\<lambda>c.
           case c of
             Inr task \<Rightarrow> followup_created fu (at_id task)
           | Inl er2 \<Rightarrow>
               bind (attempt (GetAgenticTaskBySignalID (gs_id signal))) (\<lambda>g.
               case g of
                 Inr task \<Rightarrow> followup_created fu (at_id task)
               | Inl _ \<Rightarrow> followup_fail (fu_id fu) er2)))"

definition followup_process ::
  "(string \<Rightarrow> string) \<Rightarrow> (string \<Rightarrow> string) \<Rightarrow> followup \<Rightarrow> (db, followup_fate) act" where
  "followup_process redact hash fu =
     (if intFromNull (fu_created_task_id fu) \<noteq> 0
      then followup_created fu (intFromNull (fu_created_task_id fu))
      else if \<not> fu_wake_agent fu
      then mark_fate (MarkFollowupSkipped (fu_id fu) ''wakeAgent=false'') FollowupStatusSkipped 0
      else
        bind (attempt (MarkFollowupProcessing (fu_id fu))) (\<lambda>p.
        case p of
          Inl er \<Rightarrow> ret (FollowupStatusFailed, 0, Some er)
        | Inr _ \<Rightarrow>
            bind (attempt (createOrGetDueSignal hash fu)) (\<lambda>r.
            case r of Inl er \<Rightarrow> followup_fail (fu_id fu) er | Inr signal \<Rightarrow> followup_task redact fu signal)))"

record followup_summary =
  fs_processed :: int
  fs_created :: int
  fs_skipped :: int
  fs_failed :: int
  fs_created_ids :: "int list"

definition followup_zero :: followup_summary where
  "followup_zero = \<lparr>fs_processed = 0, fs_created = 0, fs_skipped = 0, fs_failed = 0, fs_created_ids = []\<rparr>"

definition count_followup :: "string \<Rightarrow> int \<Rightarrow> followup_summary \<Rightarrow> followup_summary" where
  "count_followup status taskID s0 =
     (let s = s0\<lparr>fs_processed := fs_processed s0 + 1\<rparr> in
      if status = FollowupStatusCreated
      then s\<lparr>fs_created := fs_created s + 1,
             fs_created_ids := fs_created_ids s @ (if taskID \<noteq> 0 then [taskID] else [])\<rparr>
      else if status = FollowupStatusSkipped then s\<lparr>fs_skipped := fs_skipped s + 1\<rparr>
      else if status = FollowupStatusFailed then s\<lparr>fs_failed := fs_failed s + 1\<rparr>
      else s)"

fun process_due ::
  "(string \<Rightarrow> string) \<Rightarrow> (string \<Rightarrow> string) \<Rightarrow> followup list \<Rightarrow> followup_summary \<Rightarrow> (db, followup_summary \<times> err option) act" where
  "process_due redact hash [] acc = ret (acc, None)"
| "process_due redact hash (fu # fus) acc =
     bind (followup_process redact hash fu) (\<lambda>r. case r of (status, taskID, er) \<Rightarrow>
       (case er of
          Some e \<Rightarrow> ret (count_followup status taskID acc, Some e)
        | None \<Rightarrow> process_due redact hash fus (count_followup status taskID acc)))"

definition Followup_RunOnce ::
  "(string \<Rightarrow> string) \<Rightarrow> (string \<Rightarrow> string) \<Rightarrow> int \<Rightarrow> (db, followup_summary \<times> err option) act" where
  "Followup_RunOnce redact hash limit =
     bind now_ms (\<lambda>now.
     bind (attempt (ListDueFollowups now limit)) (\<lambda>r.
     case r of Inl er \<Rightarrow> ret (followup_zero, Some er) | Inr due \<Rightarrow> process_due redact hash due followup_zero))"

section \<open>The signal bridge\<close>

abbreviation SourceAmbient :: string where "SourceAmbient \<equiv> ''ambient''"
abbreviation SourceManual :: string where "SourceManual \<equiv> ''manual''"
abbreviation SourceScheduler :: string where "SourceScheduler \<equiv> ''scheduler''"
abbreviation TypeAmbientBootTask :: string where "TypeAmbientBootTask \<equiv> ''ambient_boot_task''"
abbreviation TypeDaemonSubmit :: string where "TypeDaemonSubmit \<equiv> ''daemon_submit''"
abbreviation TypeScheduledTask :: string where "TypeScheduledTask \<equiv> ''scheduled_task''"

text \<open>What the bridge reads of a scheduled and of an ambient task; instants are in nanoseconds.\<close>

record scheduled_task =
  sch_name :: string
  sch_type :: string
  sch_prompt :: string

record boot_task =
  bt_path :: string
  bt_title :: string
  bt_prompt :: string
  bt_schedule_type :: int
  bt_silent :: bool
  bt_tags :: "string list"

definition bridge_hash :: "(string \<Rightarrow> string) \<Rightarrow> string \<Rightarrow> string" where
  "bridge_hash hash s = (if s = '''' then '''' else hash s)"

definition sourceWatcher :: "string \<Rightarrow> (db, signal_watcher) act" where
  "sourceWatcher source =
     bind (CreateOrGetSignalWatcher
       \<lparr>sw_id = 0, sw_goal_id = None, sw_source = source,
        sw_config_json = print_json (JObj [(''bridge'', JStr ''agentic_pr3''), (''source'', JStr source)]),
        sw_enabled = True, sw_interval_s = 0, sw_last_cursor = '''', sw_created_at = zero_time, sw_updated_at = zero_time\<rparr>) (\<lambda>c. ret (fst c))"

definition occurrenceCursor ::
  "(string \<Rightarrow> string) \<Rightarrow> string \<Rightarrow> string \<Rightarrow> int \<Rightarrow> bool \<Rightarrow> err option \<Rightarrow> int \<Rightarrow> string" where
  "occurrenceCursor hash source identityHash queueTaskID existed eventErr observed =
     source @ '':'' @ identityHash @
     (if 0 < queueTaskID \<and> \<not> existed then '':queue:'' @ itoa queueTaskID
      else if 0 < queueTaskID then '':queue:'' @ itoa queueTaskID @ '':observed:'' @ itoa observed
      else (case eventErr of
              Some er \<Rightarrow> '':error:'' @ bridge_hash hash (err_text er) @ '':'' @ itoa observed
            | None \<Rightarrow> '':observed:'' @ itoa observed))"

definition manualCursor :: "int \<Rightarrow> bool \<Rightarrow> int \<Rightarrow> string" where
  "manualCursor queueTaskID existed observed =
     (if 0 < queueTaskID \<and> \<not> existed then ''manual:queue:'' @ itoa queueTaskID
      else if 0 < queueTaskID then ''manual:queue:'' @ itoa queueTaskID @ '':observed:'' @ itoa observed
      else ''manual:observed:'' @ itoa observed)"

definition bridge_record :: "(string \<Rightarrow> string) \<Rightarrow> goal_signal \<Rightarrow> (db, unit) act" where
  "bridge_record hash x =
     bind (CreateOrGetGoalSignal
       (if gs_fingerprint x = ''''
        then x\<lparr>gs_fingerprint := fingerprint hash [gs_source x, gs_type x, gs_dedupe_key x, gs_payload_json x]\<rparr>
        else x)) (\<lambda>_. ret ())"

text \<open>The end of the three records: the signal, then the watcher's cursor.\<close>

definition bridge_signal ::
  "(string \<Rightarrow> string) \<Rightarrow> string \<Rightarrow> string \<Rightarrow> (string \<times> json) list \<Rightarrow> string \<Rightarrow> int \<Rightarrow> signal_watcher \<Rightarrow> (db, unit) act" where
  "bridge_signal hash source typ body cursor observed watcher =
     bind (bridge_record hash
       \<lparr>gs_id = 0, gs_goal_id = None, gs_watcher_id = nullableInt (sw_id watcher), gs_source = source, gs_type = typ,
        gs_payload_json = print_json (JObj body), gs_fingerprint = '''', gs_severity = 1, gs_status = SignalStatusNew,
        gs_dedupe_key = cursor, gs_observed_at = observed div 1000000\<rparr>) (\<lambda>_.
     bind (UpdateSignalWatcherCursor (sw_id watcher) cursor) (\<lambda>_. ret ()))"

text \<open>\<open>json.Marshal\<close> writes the keys of a map in order.\<close>

definition RecordScheduledSignal ::
  "(string \<Rightarrow> string) \<Rightarrow> int \<Rightarrow> scheduled_task \<Rightarrow> int \<Rightarrow> bool \<Rightarrow> err option \<Rightarrow> (db, unit) act" where
  "RecordScheduledSignal hash observed task queueTaskID existed enqueueErr =
     bind (sourceWatcher SourceScheduler) (\<lambda>watcher.
     bridge_signal hash SourceScheduler TypeScheduledTask
       ((case enqueueErr of
           None \<Rightarrow> []
         | Some er \<Rightarrow> [(''enqueue_error'', JBool True), (''enqueue_error_hash'', JStr (bridge_hash hash (err_text er)))]) @
        [(''existed'', JBool existed), (''prompt_hash'', JStr (bridge_hash hash (sch_prompt task))),
         (''prompt_len'', JNum (itoa (int (length (sch_prompt task))))), (''queue_task_id'', JNum (itoa queueTaskID)),
         (''task_name_hash'', JStr (bridge_hash hash (sch_name task))), (''type'', JStr (sch_type task))])
       (occurrenceCursor hash ''scheduler'' (bridge_hash hash (sch_name task)) queueTaskID existed enqueueErr observed)
       observed watcher)"

definition RecordAmbientSignal :: "(string \<Rightarrow> string) \<Rightarrow> int \<Rightarrow> boot_task \<Rightarrow> (db, unit) act" where
  "RecordAmbientSignal hash observed task =
     bind (sourceWatcher SourceAmbient) (\<lambda>watcher.
     let identity = bridge_hash hash (if bt_path task = '''' then bt_title task else bt_path task) in
     bridge_signal hash SourceAmbient TypeAmbientBootTask
       [(''identity_hash'', JStr identity), (''path_hash'', JStr (bridge_hash hash (bt_path task))),
        (''prompt_hash'', JStr (bridge_hash hash (bt_prompt task))),
        (''prompt_len'', JNum (itoa (int (length (bt_prompt task))))), (''schedule'', JNum (itoa (bt_schedule_type task))),
        (''silent'', JBool (bt_silent task)), (''tag_count'', JNum (itoa (int (length (bt_tags task))))),
        (''title_hash'', JStr (bridge_hash hash (bt_title task)))]
       (''ambient:'' @ identity @ '':'' @ itoa observed) observed watcher)"

definition RecordManualSubmitSignal :: "(string \<Rightarrow> string) \<Rightarrow> int \<Rightarrow> string \<Rightarrow> int \<Rightarrow> bool \<Rightarrow> (db, unit) act" where
  "RecordManualSubmitSignal hash observed payload queueTaskID existed =
     bind (sourceWatcher SourceManual) (\<lambda>watcher.
     let parsed = ParseTaskPayload payload; prompt = (if tp_prompt parsed = '''' then payload else tp_prompt parsed) in
     bridge_signal hash SourceManual TypeDaemonSubmit
       [(''existed'', JBool existed), (''prompt_hash'', JStr (bridge_hash hash prompt)),
        (''prompt_len'', JNum (itoa (int (length prompt)))), (''queue_task_id'', JNum (itoa queueTaskID)),
        (''task_type'', JStr (tp_type parsed))]
       (manualCursor queueTaskID existed observed) observed watcher)"

end
