(* ===== verification/Activation.thy ===== *)
theory Activation
  imports Followups Enqueue_Service
begin

text \<open>
  \<open>internal/agentic/activation/activation.go\<close>: one activation turns due followups and new signals into
  proposed tasks and, where the configuration says so, hands the proposals of low risk to the queue.  A Go
  result that comes with an error is a pair; \<open>errors.Join\<close> is the list of the errors.
\<close>

abbreviation ExecutionPolicyProposeOnly :: string where "ExecutionPolicyProposeOnly \<equiv> ''propose_only''"
abbreviation ExecutionPolicyAutoEnqueueLowRisk :: string where
  "ExecutionPolicyAutoEnqueueLowRisk \<equiv> ''auto_enqueue_low_risk''"

record auto_enqueue_options =
  ao_enabled :: bool
  ao_limit :: int
  ao_operator_id :: string
  ao_reason :: string
  ao_max_risk :: string
  ao_enforcement :: string
  ao_completion_gate :: string

record auto_enqueue_result =
  ae_considered :: int
  ae_enqueued :: int
  ae_skipped :: int
  ae_failed :: int
  ae_task_ids :: "int list"
  ae_queue_ids :: "int list"

definition auto_zero :: auto_enqueue_result where
  "auto_zero = \<lparr>ae_considered = 0, ae_enqueued = 0, ae_skipped = 0, ae_failed = 0, ae_task_ids = [], ae_queue_ids = []\<rparr>"

text \<open>The enqueuer, \<open>None\<close> where there is none; it gives the outcome or a nil one.\<close>

type_synonym enqueuer = "enqueue_request \<Rightarrow> (db, enqueue_outcome option) act"

record activation_result =
  av_run_id :: int
  av_limit :: int
  av_policy :: string
  av_enqueue_performed :: bool
  av_status :: string
  av_reason :: string
  av_created_at :: int
  av_proposed :: "int list"
  av_auto :: auto_enqueue_result
  av_followups :: followup_summary
  av_signals :: triage_summary

section \<open>Risk\<close>

definition riskRank :: "string \<Rightarrow> int option" where
  "riskRank risk =
     (if risk = '''' \<or> risk = RiskLevelLow then Some 0
      else if risk = RiskLevelMedium then Some 1
      else if risk = RiskLevelHigh then Some 2
      else if risk = RiskLevelCritical then Some 3
      else None)"

definition riskAllowed :: "string \<Rightarrow> string \<Rightarrow> bool" where
  "riskAllowed taskRisk maxRisk =
     (case riskRank (ToLower (TrimSpace taskRisk)) of
        None \<Rightarrow> False
      | Some t \<Rightarrow> t \<le> (case riskRank maxRisk of None \<Rightarrow> 0 | Some m \<Rightarrow> m))"

section \<open>Enqueuing proposals\<close>

definition trimmed_or :: "string \<Rightarrow> string \<Rightarrow> string" where
  "trimmed_or s z = or_else (TrimSpace s) z"

definition max_risk :: "auto_enqueue_options \<Rightarrow> string" where
  "max_risk o1 = or_else (ToLower (TrimSpace (ao_max_risk o1))) RiskLevelLow"

text \<open>A proposal that may be enqueued without an operator.\<close>

definition auto_eligible :: "auto_enqueue_options \<Rightarrow> agentic_task \<Rightarrow> bool" where
  "auto_eligible o1 t \<longleftrightarrow> at_status t = TaskStatusProposed \<and> intFromNull (at_queue_task_id t) = 0 \<and>
     riskAllowed (at_risk_level t) (max_risk o1)"

definition auto_request :: "auto_enqueue_options \<Rightarrow> int \<Rightarrow> enqueue_request" where
  "auto_request o1 taskID =
     \<lparr>er_task_id = taskID, er_operator_id = trimmed_or (ao_operator_id o1) ''agentic-activation'',
      er_reason = trimmed_or (ao_reason o1) ''agentic activation auto enqueue'',
      er_enforcement = ao_enforcement o1, er_completion_gate = ao_completion_gate o1\<rparr>"

fun enqueue_proposed ::
  "auto_enqueue_options \<Rightarrow> enqueuer \<Rightarrow> int list \<Rightarrow> auto_enqueue_result \<Rightarrow> (db, auto_enqueue_result \<times> err option) act" where
  "enqueue_proposed o1 enq [] r = ret (r, None)"
| "enqueue_proposed o1 enq (i # is) r0 =
     (let r = r0\<lparr>ae_considered := ae_considered r0 + 1\<rparr>; failed = r\<lparr>ae_failed := ae_failed r + 1\<rparr> in
      bind (attempt (GetAgenticTask i)) (\<lambda>t.
      case t of
        Inl er \<Rightarrow> ret (failed, Some (EWrap (''activation: load proposed task '' @ itoa i @ '' for auto enqueue'') er))
      | Inr task \<Rightarrow>
          if \<not> auto_eligible o1 task then enqueue_proposed o1 enq is (r\<lparr>ae_skipped := ae_skipped r + 1\<rparr>)
          else
            bind (attempt (enq (auto_request o1 (at_id task)))) (\<lambda>e.
            case e of
              Inl er \<Rightarrow> ret (failed, Some er)
            | Inr None \<Rightarrow> ret (failed, Some (EMsg ''activation: auto enqueue returned nil result''))
            | Inr (Some out) \<Rightarrow>
                enqueue_proposed o1 enq is
                  (r\<lparr>ae_enqueued := ae_enqueued r + 1, ae_task_ids := ae_task_ids r @ [at_id task],
                     ae_queue_ids := ae_queue_ids r @ [eq_queue_task_id out]\<rparr>))))"

definition autoEnqueueProposed ::
  "auto_enqueue_options \<Rightarrow> enqueuer option \<Rightarrow> int list \<Rightarrow> (db, auto_enqueue_result \<times> err option) act" where
  "autoEnqueueProposed o1 enq ids =
     (if \<not> ao_enabled o1 then ret (auto_zero, None)
      else
        (case enq of
           None \<Rightarrow> ret (auto_zero, Some (EMsg ''activation: auto enqueue enabled without enqueue service''))
         | Some f \<Rightarrow>
             enqueue_proposed o1 f
               (if ao_limit o1 \<le> 0 \<or> int (length ids) < ao_limit o1 then ids else take (nat (ao_limit o1)) ids) auto_zero))"

section \<open>A run\<close>

text \<open>The proposals in the order they were made, each once.\<close>

definition activationTaskIDs :: "followup_summary \<Rightarrow> triage_summary \<Rightarrow> int list" where
  "activationTaskIDs f t =
     fold (\<lambda>i out. if i = 0 \<or> i \<in> set out then out else out @ [i])
       (fs_created_ids f @ ts_created_ids t @ ts_linked_ids t) []"

definition activation_row :: "activation_result \<Rightarrow> activation_run" where
  "activation_row r =
     \<lparr>ar_id = 0, ar_execution_policy = av_policy r, ar_limit = av_limit r,
      ar_followup_processed = fs_processed (av_followups r), ar_followup_created = fs_created (av_followups r),
      ar_followup_skipped = fs_skipped (av_followups r), ar_followup_failed = fs_failed (av_followups r),
      ar_signal_processed = ts_processed (av_signals r), ar_signal_created = ts_created (av_signals r),
      ar_signal_linked = ts_linked (av_signals r), ar_signal_failed = ts_failed (av_signals r),
      ar_enqueue_performed = av_enqueue_performed r, ar_proposed_task_ids = av_proposed r, ar_status = av_status r,
      ar_reason = av_reason r, ar_created_at = zero_time\<rparr>"

definition activation_record :: "activation_result \<Rightarrow> err option \<Rightarrow> (db, activation_result \<times> err list) act" where
  "activation_record r0 runErr =
     (let r = (case runErr of
                 None \<Rightarrow> r0 | Some er \<Rightarrow> r0\<lparr>av_status := ActivationRunStatusFailed, av_reason := err_text er\<rparr>);
          errs = (case runErr of None \<Rightarrow> [] | Some er \<Rightarrow> [er])
      in bind (attempt (CreateActivationRun (activation_row r))) (\<lambda>c.
         case c of
           Inl recordErr \<Rightarrow> ret (r, errs @ [recordErr])
         | Inr run \<Rightarrow> ret (r\<lparr>av_run_id := ar_id run, av_created_at := ar_created_at run\<rparr>, errs)))"

definition activation_start :: "auto_enqueue_options \<Rightarrow> int \<Rightarrow> activation_result" where
  "activation_start o1 limit =
     \<lparr>av_run_id = 0, av_limit = limit,
      av_policy = (if ao_enabled o1 then ExecutionPolicyAutoEnqueueLowRisk else ExecutionPolicyProposeOnly),
      av_enqueue_performed = False, av_status = ActivationRunStatusSucceeded, av_reason = '''', av_created_at = zero_time,
      av_proposed = [], av_auto = auto_zero, av_followups = followup_zero, av_signals = triage_zero\<rparr>"

definition Activation_RunOnce ::
  "(string \<Rightarrow> string) \<Rightarrow> (string \<Rightarrow> string) \<Rightarrow> auto_enqueue_options \<Rightarrow> enqueuer option \<Rightarrow> int
     \<Rightarrow> (db, activation_result \<times> err list) act" where
  "Activation_RunOnce redact hash o1 enq limit0 =
     (let limit = (if limit0 \<le> 0 then 25 else limit0); r0 = activation_start o1 limit in
      bind (Followup_RunOnce redact hash limit) (\<lambda>f. case f of (followups, fer) \<Rightarrow>
        let r1 = r0\<lparr>av_followups := followups\<rparr> in
        if fer \<noteq> None then activation_record r1 fer
        else
          bind (Triage_RunOnce limit) (\<lambda>t. case t of (signals, ter) \<Rightarrow>
            let ids = activationTaskIDs followups signals; r2 = r1\<lparr>av_signals := signals, av_proposed := ids\<rparr> in
            if ter \<noteq> None then activation_record r2 ter
            else
              bind (autoEnqueueProposed o1 enq ids) (\<lambda>a. case a of (auto, aer) \<Rightarrow>
                activation_record
                  (r2\<lparr>av_auto := auto, av_enqueue_performed := 0 < ae_enqueued auto\<rparr>) aer))))"

section \<open>What a run may touch\<close>

abbreviation keeps_queue :: "(db, 'a) act \<Rightarrow> bool" where
  "keeps_queue m \<equiv> (\<forall>q. preserves (\<lambda>s. db_queue s = q) m)"

lemma store_keeps_queue [inv_intros]:
  fixes q :: queue
  shows "preserves (\<lambda>s. db_queue s = q) (updateFollowupStatus i st reason at c)"
    and "preserves (\<lambda>s. db_queue s = q) (CreateOrGetGoalSignal x)"
    and "preserves (\<lambda>s. db_queue s = q) (CreateAgenticTask t)"
    and "preserves (\<lambda>s. db_queue s = q) (GetAgenticTaskBySignalID i)"
    and "preserves (\<lambda>s. db_queue s = q) (CreateActivationRun r)"
    and "preserves (\<lambda>s. db_queue s = q) (LinkAgenticTaskSignal i j)"
    and "preserves (\<lambda>s. db_queue s = q) (GetAgenticTaskByQueueTaskID i)"
    and "preserves (\<lambda>s. db_queue s = q) (GetGoalSignal i)"
    and "preserves (\<lambda>s. db_queue s = q) (updateGoalSignalStatusTx i st)"
  unfolding LinkAgenticTaskSignal_def GetAgenticTaskByQueueTaskID_def updateGoalSignalStatusTx_def updateFollowupStatus_def GetFollowup_def CreateOrGetGoalSignal_def CreateGoalSignal_def GetGoalSignal_def
    GetGoalSignalByDedupeKey_def CreateAgenticTask_def GetAgenticTask_def GetAgenticTaskBySignalID_def
    CreateActivationRun_def GetActivationRun_def
  by (intro inv_intros preserves_on_table; simp)+

lemma maybe_row_keeps [inv_intros]: "preserves I m \<Longrightarrow> preserves I (maybe_row m)"
  unfolding maybe_row_def by (intro inv_intros)

lemma followups_keep_queue [inv_intros]: "preserves (\<lambda>s. db_queue s = q) (Followup_RunOnce redact hash limit)"
proof -
  have process: "preserves (\<lambda>s. db_queue s = q) (followup_process redact hash fu)" for fu
    unfolding followup_process_def followup_task_def followup_created_def mark_fate_def followup_fail_def
      createOrGetDueSignal_def MarkFollowupProcessing_def MarkFollowupCreated_def MarkFollowupSkipped_def MarkFollowupFailed_def
    by (intro inv_intros)
  have all: "preserves (\<lambda>s. db_queue s = q) (process_due redact hash due acc)" for due acc
    by (induction due arbitrary: acc) (auto intro!: inv_intros process split: option.split)
  show ?thesis unfolding Followup_RunOnce_def ListDueFollowups_def by (intro inv_intros all)
qed

lemma triage_keeps_queue [inv_intros]: "preserves (\<lambda>s. db_queue s = q) (Triage_RunOnce limit)"
proof -
  have one: "preserves (\<lambda>s. db_queue s = q) (TriageGoalSignal i)" for i
    unfolding TriageGoalSignal_def triageGoalSignalTx_def triage_existing_def triage_fresh_def by (intro inv_intros)
  have all: "preserves (\<lambda>s. db_queue s = q) (triage_all xs acc)" for xs acc
    by (induction xs arbitrary: acc) (auto intro!: inv_intros one split: sum.split)
  show ?thesis unfolding Triage_RunOnce_def ListGoalSignalsByStatus_def by (intro inv_intros all)
qed

text \<open>
  An enqueuer that first looks at the task: it goes on only with the request of this configuration for a
  proposal that is not linked to the queue and within the risk that is allowed.
\<close>

definition guarded_enqueuer :: "auto_enqueue_options \<Rightarrow> enqueuer \<Rightarrow> enqueuer" where
  "guarded_enqueuer o1 enq req = (\<lambda>w i s.
     case tbl_get at_id (er_task_id req) (db_tasks s) of
       Some t \<Rightarrow> if auto_eligible o1 t \<and> req = auto_request o1 (at_id t) then enq req w i s
                 else (Inl (EMsg ''not eligible''), i, s)
     | None \<Rightarrow> (Inl (EMsg ''not eligible''), i, s))"

lemma bind_cong_run: "(\<And>a. k a w = k' a w) \<Longrightarrow> bind m k w = bind m k' w"
  by (simp add: bind_def fun_eq_iff split: prod.split sum.split)

lemma bind_cong_first: "m w = m' w \<Longrightarrow> bind m k w = bind m' k w"
  by (simp add: bind_def fun_eq_iff)

lemma if_cong_run: "a w = a' w \<Longrightarrow> b w = b' w \<Longrightarrow> (if c then a else b) w = (if c then a' else b') w"
  by simp

lemma GetAgenticTask_quiet:
  "GetAgenticTask i (quiet w) n s = (Inr t, m, s') \<Longrightarrow> s' = s \<and> tbl_get at_id (at_id t) (db_tasks s) = Some t"
  by (auto simp: GetAgenticTask_def query_def Let_def get_row_Inr split: option.splits dest: tbl_get_SomeD)

lemma enqueue_guarded:
  "enqueue_proposed o1 (guarded_enqueuer o1 enq) ids r (quiet w) n s = enqueue_proposed o1 enq ids r (quiet w) n s"
proof (induction ids arbitrary: r n s)
  case (Cons i ids)
  obtain g m s' where get: "GetAgenticTask i (quiet w) n s = (g, m, s')" by (cases "GetAgenticTask i (quiet w) n s")
  show ?case
  proof (cases g)
    case (Inr t)
    then have t: "tbl_get at_id (at_id t) (db_tasks s') = Some t"
      using GetAgenticTask_quiet get by metis
    have "guarded_enqueuer o1 enq (auto_request o1 (at_id t)) (quiet w) m s' = enq (auto_request o1 (at_id t)) (quiet w) m s'"
      if "auto_eligible o1 t"
      using that t by (simp add: guarded_enqueuer_def auto_request_def)
    then show ?thesis
      by (auto simp: bind_def attempt_def get Inr Let_def Cons.IH split: prod.split sum.split option.split)
  qed (simp add: bind_def attempt_def get Let_def)
qed simp


end
