(* ===== verification/Path_Guard.thy ===== *)
theory Path_Guard
  imports Go_Path Go_Net Prelude
begin

text \<open>
  \<open>internal/tools/pathguard.go\<close>: where the tools of an agent may read and write.  The file system is a
  parameter, what \<open>EvalSymlinks\<close>, \<open>Stat\<close>, \<open>MkdirAll\<close> and \<open>RemoveAll\<close> answer.
\<close>

section \<open>More of path/filepath\<close>

text \<open>The last element of a path, its trailing slashes left out.\<close>

definition after_last_slash :: "string \<Rightarrow> string" where
  "after_last_slash p = rev (takeWhile (\<lambda>c. c \<noteq> CHR ''/'') (rev p))"

definition path_Base :: "string \<Rightarrow> string" where
  "path_Base p =
     (if p = '''' then ''.''
      else (let q = TrimRightSet {CHR ''/''} p in if q = '''' then ''/'' else after_last_slash q))"

text \<open>
  \<open>Rel\<close> on the components of the two paths: those after their common part, two dots for each that is
  left of the base.  A base that goes up itself has no answer.
\<close>

fun strip_common :: "string list \<Rightarrow> string list \<Rightarrow> string list \<times> string list" where
  "strip_common (b # bs) (t # ts) = (if b = t then strip_common bs ts else (b # bs, t # ts))"
| "strip_common bs ts = (bs, ts)"

definition path_Rel :: "string \<Rightarrow> string \<Rightarrow> string option" where
  "path_Rel base targ =
     (if Clean base = Clean targ then Some ''.''
      else if IsAbs base \<noteq> IsAbs targ then None
      else
        (case strip_common (clean_comps base) (if Clean targ = ''.'' then [''.''] else clean_comps targ) of
           (bs, ts) \<Rightarrow>
             if bs \<noteq> [] \<and> hd bs = ''..'' then None
             else Some (Join ''/'' (map (\<lambda>_. ''..'') bs @ ts))))"

section \<open>The guard\<close>

record path_guard =
  pg_work_dir :: string
  pg_protected :: "string list"
  pg_home :: string

definition expandHome :: "string \<Rightarrow> string \<Rightarrow> string" where
  "expandHome home p =
     (if p = ''~'' then home else if HasPrefix p ''~/'' then path_Join [home, drop 2 p] else p)"

definition NewPathGuard :: "string \<Rightarrow> string \<Rightarrow> string list \<Rightarrow> path_guard" where
  "NewPathGuard home workDir protectedPaths =
     \<lparr>pg_work_dir = workDir,
      pg_protected = map (\<lambda>p0. let p = expandHome home p0 in
        Clean (if IsAbs p then p else path_Join [workDir, p])) protectedPaths,
      pg_home = home\<rparr>"

abbreviation sessionWorkDirSubdir :: string where "sessionWorkDirSubdir \<equiv> ''sessions''"

text \<open>\<open>strings.ReplaceAll(s, "..", "")\<close>.\<close>

fun drop_dots :: "string \<Rightarrow> string" where
  "drop_dots (a # b # s) =
     (if a = CHR ''.'' \<and> b = CHR ''.'' then drop_dots s else a # drop_dots (b # s))"
| "drop_dots s = s"

definition sanitizeSessionID :: "string \<Rightarrow> string" where
  "sanitizeSessionID sessionID =
     (let cleaned = TrimSpace (drop_dots (path_Base sessionID))
      in if cleaned = '''' \<or> cleaned = ''.'' then ''_invalid'' else cleaned)"

definition SessionWorkDir :: "path_guard \<Rightarrow> string \<Rightarrow> string" where
  "SessionWorkDir g sessionID =
     (if sessionID = '''' then pg_work_dir g
      else path_Join [pg_work_dir g, sessionWorkDirSubdir, sanitizeSessionID sessionID])"

text \<open>\<open>mkdir\<close> and \<open>remove\<close> are what the file system answers.\<close>

definition EnsureSessionWorkDir :: "(string \<Rightarrow> err option) \<Rightarrow> path_guard \<Rightarrow> string \<Rightarrow> err + string" where
  "EnsureSessionWorkDir mkdir g sessionID =
     (let dir = SessionWorkDir g sessionID in
      if sessionID = '''' then Inr dir
      else (case mkdir dir of
              Some er \<Rightarrow> Inl (EWrap (''create session workspace '' @ quoted dir) er) | None \<Rightarrow> Inr dir))"

text \<open>The directory that is removed, if any, and the error.\<close>

definition PurgeSessionWorkDir :: "(string \<Rightarrow> err option) \<Rightarrow> path_guard \<Rightarrow> string \<Rightarrow> string option \<times> err option" where
  "PurgeSessionWorkDir remove g sessionID =
     (if sessionID = '''' then (None, None)
      else
        (let dir = SessionWorkDir g sessionID; root = path_Join [pg_work_dir g, sessionWorkDirSubdir];
             refused = (None, Some (EMsg (''refusing to purge '' @ quoted dir @ '': outside session root '' @ quoted root)))
         in case path_Rel root dir of
              None \<Rightarrow> refused
            | Some rel \<Rightarrow>
                if rel = ''.'' \<or> HasPrefix rel ''..'' then refused
                else (Some dir, map_option (EWrap (''purge session workspace '' @ quoted dir)) (remove dir))))"

definition ResolveIn :: "path_guard \<Rightarrow> string \<Rightarrow> string \<Rightarrow> err + string" where
  "ResolveIn g cwd rawPath =
     (if rawPath = '''' then Inl (EMsg ''empty path'')
      else (let p = expandHome (pg_home g) rawPath in Inr (Clean (if IsAbs p then p else path_Join [cwd, p]))))"

definition Resolve :: "path_guard \<Rightarrow> string \<Rightarrow> err + string" where
  "Resolve g rawPath = ResolveIn g (pg_work_dir g) rawPath"

definition pathWithin :: "string \<Rightarrow> string \<Rightarrow> bool" where
  "pathWithin root candidate =
     (case path_Rel root candidate of
        None \<Rightarrow> False
      | Some rel \<Rightarrow> rel = ''.'' \<or> (rel \<noteq> ''..'' \<and> \<not> HasPrefix rel ''../''))"

text \<open>
  \<open>evalSymlinksAllowingMissing\<close> on a clean path, given by its components, the last one first: \<open>Dir\<close> leaves the
  last one out.
\<close>

fun eval_missing :: "(string \<Rightarrow> err + string) \<Rightarrow> bool \<Rightarrow> string list \<Rightarrow> err + string" where
  "eval_missing ev rooted [] =
     (case ev (path_text rooted []) of
        Inr real \<Rightarrow> Inr real
      | Inl _ \<Rightarrow> Inl (EMsg (''no existing ancestor for '' @ quoted (path_text rooted []))))"
| "eval_missing ev rooted (c # st) =
     (case ev (path_text rooted (rev (c # st))) of
        Inr real \<Rightarrow> Inr real
      | Inl _ \<Rightarrow>
          (case eval_missing ev rooted st of
             Inl er \<Rightarrow> Inl er
           | Inr parentReal \<Rightarrow> Inr (path_Join [parentReal, c])))"

definition evalSymlinksAllowingMissing :: "(string \<Rightarrow> err + string) \<Rightarrow> string \<Rightarrow> err + string" where
  "evalSymlinksAllowingMissing ev path = eval_missing ev (IsAbs path) (rev (clean_comps path))"

definition ResolveSessionScoped :: "(string \<Rightarrow> err + string) \<Rightarrow> string \<Rightarrow> string \<Rightarrow> err + string" where
  "ResolveSessionScoped ev sessionDir rawPath =
     (if rawPath = '''' then Inl (EMsg ''empty path'')
      else if rawPath = ''~'' \<or> HasPrefix rawPath ''~/''
      then Inl (EMsg ''tilde paths not allowed in session scope'')
      else
        (let cleaned = Clean (if IsAbs rawPath then rawPath else path_Join [sessionDir, rawPath]) in
         case ev sessionDir of
           Inl er \<Rightarrow> Inl (EWrap ''resolve session root'' er)
         | Inr sessionReal \<Rightarrow>
             (case evalSymlinksAllowingMissing ev cleaned of
                Inl er \<Rightarrow> Inl (EWrap ''resolve target'' er)
              | Inr canonical \<Rightarrow>
                  if \<not> pathWithin sessionReal canonical then Inl (EMsg ''path escapes session workspace'')
                  else Inr cleaned)))"

text \<open>\<open>stat\<close> tells whether the path is a directory.\<close>

definition ResolveWorkingDir ::
  "(string \<Rightarrow> err + string) \<Rightarrow> (string \<Rightarrow> err + bool) \<Rightarrow> path_guard \<Rightarrow> string \<Rightarrow> string \<Rightarrow> err + string" where
  "ResolveWorkingDir ev stat g sessionDir rawPath =
     (if rawPath = '''' then Inl (EMsg ''empty path'')
      else
        (let p = expandHome (pg_home g) rawPath;
             cleaned = Clean (if IsAbs p then p else path_Join [sessionDir, p]) in
         case ev sessionDir of
           Inl er \<Rightarrow> Inl (EWrap ''resolve session root'' er)
         | Inr rootReal \<Rightarrow>
             (case ev cleaned of
                Inl er \<Rightarrow> Inl (EWrap ''working directory does not exist or is not resolvable'' er)
              | Inr candidateReal \<Rightarrow>
                  (case stat candidateReal of
                     Inl er \<Rightarrow> Inl (EWrap ''stat working directory'' er)
                   | Inr isDir \<Rightarrow>
                       if \<not> isDir then Inl (EMsg ''working_dir is not a directory'')
                       else if \<not> pathWithin rootReal candidateReal
                       then Inl (EMsg ''working_dir escapes session root'')
                       else Inr candidateReal))))"

text \<open>The error is wrapped for the user, with the code and the hint of its entry in the catalogue.\<close>

definition denied_write :: "string \<Rightarrow> string \<Rightarrow> err" where
  "denied_write absPath pp =
     EMsg (''ELN-020 Permission denied: write denied: '' @ quoted absPath @ '' is under protected path '' @ quoted pp @
       [CHR 0x0A] @ ''Hint: Check permission.allow in config.yaml or move the file inside the project root.'')"

definition CheckWrite :: "path_guard \<Rightarrow> string \<Rightarrow> err option" where
  "CheckWrite g absPath =
     (let cleaned = Clean absPath in
      map_option (denied_write absPath)
        (find (\<lambda>pp. cleaned = pp \<or> HasPrefix cleaned (pp @ ''/'')) (pg_protected g)))"

text \<open>\<open>internal/tools/scope.go\<close>: what a call of a tool may touch.\<close>

record tool_scope =
  sc_read :: "string list"
  sc_write :: "string list"
  sc_network :: bool
  sc_persistent :: bool

definition ConservativeScope :: tool_scope where
  "ConservativeScope = \<lparr>sc_read = [], sc_write = [], sc_network = True, sc_persistent = True\<rparr>"

fun first_denied :: "path_guard \<Rightarrow> string list \<Rightarrow> err option" where
  "first_denied g [] = None"
| "first_denied g (p # ps) = (case CheckWrite g p of Some er \<Rightarrow> Some er | None \<Rightarrow> first_denied g ps)"

definition CheckScope :: "path_guard \<Rightarrow> tool_scope \<Rightarrow> err option" where
  "CheckScope g sc = first_denied g (sc_write sc)"

section \<open>Containment\<close>

lemma strip_common_split:
  "strip_common bs ts = (b, t) \<Longrightarrow> \<exists>p. bs = p @ b \<and> ts = p @ t \<and> (b = [] \<or> t = [] \<or> hd b \<noteq> hd t)"
  by (induction bs ts rule: strip_common.induct) (auto split: if_splits intro: exI[of _ "[]"] exI[of _ "_ # _"])

lemma strip_common_prefix: "fst (strip_common bs ts) = [] \<longleftrightarrow> prefix bs ts"
  by (induction bs ts rule: strip_common.induct) auto

lemma abs_comps: "IsAbs p \<Longrightarrow> c \<in> set (clean_comps p) \<Longrightarrow> comp_ok c \<and> c \<noteq> ''..''"
  using stack_ok_comps[OF clean_comps_ok[of p], of c] by simp

lemma Join_first: "\<exists>r. Join ''/'' (c # cs) = c @ r \<and> (r = [] \<longleftrightarrow> cs = []) \<and> (r \<noteq> [] \<longrightarrow> hd r = CHR ''/'')"
  by (cases cs) auto

lemma dotdot_Join:
  assumes "comp_ok c" and "c \<noteq> ''..''"
  shows "Join ''/'' (c # cs) \<noteq> ''..'' \<and> \<not> HasPrefix (Join ''/'' (c # cs)) ''../''"
proof -
  obtain r where r: "Join ''/'' (c # cs) = c @ r" "r \<noteq> [] \<longrightarrow> hd r = CHR ''/''" using Join_first[of c cs] by blast
  from assms have c: "CHR ''/'' \<notin> set c" "c \<noteq> []" "c \<noteq> ''.''" by (auto simp: comp_ok_def)
  consider a where "c = [a]" | a b where "c = [a, b]" | a b d s where "c = a # b # d # s"
    using c(2) by (metis list.exhaust)
  then show ?thesis
  proof cases
    case 1
    with c assms(2) r show ?thesis by (cases r) (auto simp: HasPrefix_def)
  next
    case 2
    with c assms(2) r show ?thesis by (cases r) (auto simp: HasPrefix_def)
  next
    case 3
    with c r show ?thesis by (auto simp: HasPrefix_def)
  qed
qed

text \<open>\<open>pathWithin\<close> is the prefix order on the components: no name is taken for a longer one.\<close>

lemma pathWithin_iff:
  assumes "IsAbs root" and "IsAbs p"
  shows "pathWithin root p \<longleftrightarrow> prefix (clean_comps root) (clean_comps p)"
proof (cases "Clean root = Clean p")
  case True
  then have "clean_comps root = clean_comps p"
    using path_text_comps(2)[OF clean_comps_ok] unfolding Clean_def by metis
  with True show ?thesis by (simp add: pathWithin_def path_Rel_def)
next
  case False
  obtain b t where bt: "strip_common (clean_comps root) (clean_comps p) = (b, t)" by fastforce
  from strip_common_split[OF this] obtain q where q: "clean_comps root = q @ b" "clean_comps p = q @ t" by blast
  have b_ok: "hd b \<noteq> ''..''" if "b \<noteq> []"
    using that abs_comps[OF assms(1), of "hd b"] q(1) by auto
  have not_dot: "Clean p \<noteq> ''.''" using assms(2) by (auto simp: Clean_def path_text_def)
  have rel: "path_Rel root p = Some (Join ''/'' (map (\<lambda>_. ''..'') b @ t))"
    using False assms bt b_ok not_dot by (auto simp: path_Rel_def)
  show ?thesis
  proof (cases b)
    case Nil
    with False q assms have "t \<noteq> []" by (auto simp: Clean_def)
    then obtain c cs where t: "t = c # cs" by (cases t) auto
    with q(2) abs_comps[OF assms(2), of c] have "comp_ok c \<and> c \<noteq> ''..''" by auto
    with dotdot_Join[of c cs] show ?thesis by (simp add: pathWithin_def rel Nil t q)
  next
    case (Cons x xs)
    then have "\<not> prefix (clean_comps root) (clean_comps p)"
      using strip_common_prefix[of "clean_comps root" "clean_comps p"] bt by simp
    moreover obtain r where "Join ''/'' (''..'' # map (\<lambda>_. ''..'') xs @ t) = ''..'' @ r" "r \<noteq> [] \<longrightarrow> hd r = CHR ''/''"
      using Join_first[of "''..''" "map (\<lambda>_. ''..'') xs @ t"] by blast
    ultimately show ?thesis by (cases r) (auto simp: pathWithin_def rel Cons HasPrefix_def)
  qed
qed

lemma comps_Clean: "clean_comps (Clean p) = clean_comps p" "IsAbs (Clean p) = IsAbs p"
  using path_text_comps[OF clean_comps_ok[of p]] by (simp_all add: Clean_def)

lemma Split_append_sep: "Split x (a @ x # b) = Split x a @ Split x b"
  by (induction a) (auto split: list.splits)

lemma join_comp:
  assumes "IsAbs d" and "comp_ok c" and "c \<noteq> ''..''"
  shows "IsAbs (path_Join [d, c])" and "clean_comps (path_Join [d, c]) = clean_comps d @ [c]"
proof -
  have ne: "d \<noteq> []" "c \<noteq> []" using assms by (auto simp: IsAbs_def HasPrefix_def comp_ok_def)
  then have join: "path_Join [d, c] = Clean (d @ CHR ''/'' # c)" by (simp add: path_Join_def)
  have rooted: "IsAbs (d @ CHR ''/'' # c)" using assms(1) by (auto simp: IsAbs_def HasPrefix_def)
  have "clean_comps (d @ CHR ''/'' # c) = clean_comps d @ [c]"
    using assms rooted Split_no_sep[of "CHR ''/''" c]
    by (simp add: clean_comps_def Split_append_sep clean_step_def comp_ok_def)
  with path_text_comps[OF clean_comps_ok[of "d @ CHR ''/'' # c"]] rooted
  show "IsAbs (path_Join [d, c])" "clean_comps (path_Join [d, c]) = clean_comps d @ [c]"
    by (simp_all add: join Clean_def)
qed

lemma eval_missing_deepest:
  assumes "eval_missing ev True st = Inr real" and "stack_ok True st"
    and "\<And>p r. IsAbs p \<Longrightarrow> ev p = Inr r \<Longrightarrow> IsAbs r"
  shows "IsAbs real \<and> (\<exists>there missing dir. rev st = there @ missing \<and> ev (path_text True there) = Inr dir \<and>
    (\<forall>n \<in> {length there <.. length st}. \<exists>er. ev (path_text True (take n (rev st))) = Inl er) \<and>
    clean_comps real = clean_comps dir @ missing)"
  using assms(1,2)
proof (induction st arbitrary: real)
  case Nil
  then show ?case using assms(3) path_text_comps(1)[of True "[]"] by (fastforce split: sum.splits)
next
  case (Cons c st)
  show ?case
  proof (cases "ev (path_text True (rev (c # st)))")
    case (Inr r)
    with Cons.prems have "real = r" by simp
    moreover have "IsAbs r" using Inr assms(3) path_text_comps(1)[of True "rev (c # st)"] Cons.prems(2) by simp
    ultimately show ?thesis
      using Inr by (intro conjI exI[of _ "rev (c # st)"] exI[of _ "[]"] exI[of _ r]) auto
  next
    case (Inl er)
    with Cons.prems obtain p where p: "eval_missing ev True st = Inr p" "real = path_Join [p, c]"
      by (auto split: sum.splits)
    with Cons obtain there missing dir where IH: "IsAbs p" "rev st = there @ missing" "ev (path_text True there) = Inr dir"
      "\<forall>n \<in> {length there <.. length st}. \<exists>er. ev (path_text True (take n (rev st))) = Inl er"
      "clean_comps p = clean_comps dir @ missing" by auto
    have c: "comp_ok c" "c \<noteq> ''..''" using Cons.prems(2) by auto
    have "\<exists>er. ev (path_text True (take n (rev (c # st)))) = Inl er" if "n \<in> {length there <.. length (c # st)}" for n
      using IH(4) Inl that by (cases "n = length (c # st)") auto
    with IH c join_comp[OF IH(1) c] show ?thesis
      by (intro conjI exI[of _ there] exI[of _ "missing @ [c]"] exI[of _ dir]) (simp_all add: p(2))
  qed
qed

section \<open>Session directories\<close>

lemma sublist_TrimSpace: "sublist (TrimSpace s) s"
  unfolding TrimSpace_def TrimLeft_def
  by (meson TrimRight_prefix prefix_imp_sublist sublist_order.order.trans suffix_imp_sublist trim_front_suffix)

lemma drop_dots_set: "set (drop_dots s) \<subseteq> set s"
  by (induction s rule: drop_dots.induct) auto

lemma drop_dots_none: "\<not> sublist ''..'' (drop_dots s)"
proof (induction s rule: drop_dots.induct)
  case (1 a b s)
  show ?case
  proof (cases "a = CHR ''.'' \<and> b = CHR ''.''")
    case False
    have "\<exists>r. drop_dots (b # s) = b # r" if "b \<noteq> CHR ''.''"
      using that by (cases s) auto
    with 1(2)[OF False] False show ?thesis by (auto simp: sublist_Cons_right)
  qed (use 1 in simp)
qed (auto simp: sublist_Cons_right)

definition only_slashes :: "string \<Rightarrow> bool" where
  "only_slashes s \<longleftrightarrow> s \<noteq> '''' \<and> set s \<subseteq> {CHR ''/''}"

lemma Base_no_slash: "\<not> only_slashes s \<Longrightarrow> CHR ''/'' \<notin> set (path_Base s)"
proof -
  assume not_only: "\<not> only_slashes s"
  have "TrimRightSet {CHR ''/''} s \<noteq> ''''" if "s \<noteq> ''''"
    using not_only that by (auto simp: only_slashes_def TrimRightSet_def dropWhile_eq_Nil_conv)
  then show ?thesis
    by (auto simp: path_Base_def Let_def after_last_slash_def dest: set_takeWhileD)
qed

text \<open>The name of a session is one component of a path, unless its id is nothing but slashes.\<close>

lemma sanitized_name:
  assumes "\<not> only_slashes sid"
  shows "comp_ok (sanitizeSessionID sid)" and "sanitizeSessionID sid \<noteq> ''..''"
proof -
  let ?c = "TrimSpace (drop_dots (path_Base sid))"
  have "set ?c \<subseteq> set (path_Base sid)"
    using set_mono_sublist[OF sublist_TrimSpace] drop_dots_set by (meson order_trans)
  then have "CHR ''/'' \<notin> set ?c" using Base_no_slash[OF assms] by blast
  moreover have "?c \<noteq> ''..''"
    using sublist_TrimSpace[of "drop_dots (path_Base sid)"] drop_dots_none[of "path_Base sid"] by metis
  ultimately show "comp_ok (sanitizeSessionID sid)" "sanitizeSessionID sid \<noteq> ''..''"
    by (auto simp: sanitizeSessionID_def Let_def comp_ok_def)
qed

lemma sanitized_slashes: "only_slashes sid \<Longrightarrow> sanitizeSessionID sid = ''/''"
proof -
  assume "only_slashes sid"
  then have "path_Base sid = ''/''"
    by (auto simp: only_slashes_def path_Base_def TrimRightSet_def dropWhile_eq_Nil_conv)
  then show ?thesis by (simp add: sanitizeSessionID_def) code_simp
qed

lemma session_dir:
  assumes "IsAbs (pg_work_dir g)" and "sid \<noteq> ''''"
  shows "clean_comps (SessionWorkDir g sid) = clean_comps (pg_work_dir g) @
    (if only_slashes sid then [''sessions''] else [''sessions'', sanitizeSessionID sid])"
proof -
  let ?n = "sanitizeSessionID sid" and ?w = "pg_work_dir g"
  have w: "?w \<noteq> ''''" using assms(1) by (auto simp: IsAbs_def HasPrefix_def)
  have n: "?n \<noteq> ''''" using sanitized_name(1)[of sid] sanitized_slashes[of sid] by (cases "only_slashes sid") (auto simp: comp_ok_def)
  have dir: "SessionWorkDir g sid = Clean (?w @ CHR ''/'' # ''sessions'' @ CHR ''/'' # ?n)"
    using assms(2) w n by (simp add: SessionWorkDir_def path_Join_def)
  have rooted: "IsAbs (?w @ CHR ''/'' # ''sessions'' @ CHR ''/'' # ?n)"
    using assms(1) by (auto simp: IsAbs_def HasPrefix_def)
  have "Split (CHR ''/'') (?w @ CHR ''/'' # ''sessions'' @ CHR ''/'' # ?n) =
      Split (CHR ''/'') ?w @ ''sessions'' # Split (CHR ''/'') ?n"
    using Split_append_sep[of "CHR ''/''" ?w] Split_append_sep[of "CHR ''/''" "''sessions''"] by simp
  moreover have "foldl (clean_step True) st (Split (CHR ''/'') ?n) = (if only_slashes sid then st else ?n # st)" for st
    using sanitized_name[of sid] sanitized_slashes[of sid] Split_no_sep[of "CHR ''/''" ?n]
    by (cases "only_slashes sid") (simp_all add: clean_step_def comp_ok_def)
  ultimately have "clean_comps (?w @ CHR ''/'' # ''sessions'' @ CHR ''/'' # ?n) = clean_comps ?w @
      (if only_slashes sid then [''sessions''] else [''sessions'', ?n])"
    using assms(1) rooted by (simp add: clean_comps_def clean_step_def)
  then show ?thesis by (simp only: dir comps_Clean)
qed

text \<open>A purge removes a directory strictly below that of all sessions.\<close>

lemma purge_below:
  assumes "PurgeSessionWorkDir remove g sid = (Some dir, er)" and "IsAbs (pg_work_dir g)"
  shows "strict_prefix (clean_comps (pg_work_dir g) @ [''sessions'']) (clean_comps dir)"
proof -
  from assms(1) have sid: "sid \<noteq> ''''" and dir: "dir = SessionWorkDir g sid"
    and rel: "path_Rel (path_Join [pg_work_dir g, ''sessions'']) dir \<noteq> Some ''.''"
    by (auto simp: PurgeSessionWorkDir_def Let_def split: if_splits option.splits)
  have root: "clean_comps (path_Join [pg_work_dir g, ''sessions'']) = clean_comps (pg_work_dir g) @ [''sessions'']"
    and rooted: "IsAbs (path_Join [pg_work_dir g, ''sessions''])"
    using join_comp[OF assms(2), of "''sessions''"] by (simp_all add: comp_ok_def)
  have "\<not> only_slashes sid"
  proof
    assume "only_slashes sid"
    with session_dir[OF assms(2) sid] root dir have "clean_comps dir = clean_comps (path_Join [pg_work_dir g, ''sessions''])" by simp
    moreover have "IsAbs dir" using sid dir assms(2) rooted
      by (auto simp: SessionWorkDir_def path_Join_def Clean_def IsAbs_def HasPrefix_def path_text_def)
    ultimately have "path_Rel (path_Join [pg_work_dir g, ''sessions'']) dir = Some ''.''"
      using rooted by (simp add: path_Rel_def Clean_def)
    with rel show False by simp
  qed
  with session_dir[OF assms(2) sid] dir show ?thesis by (simp add: strict_prefix_def)
qed

text \<open>
  A path a file tool is given stays inside its session.  The deepest directory on it that exists is
  really at \<open>dir\<close>, nothing below that exists yet, and \<open>dir\<close> with the missing names after it is at or under the
  real directory of the session, component by component; no missing name goes up.
\<close>

theorem session_scope_contained:
  assumes "ResolveSessionScoped ev sessionDir raw = Inr path" and "IsAbs sessionDir"
    and "\<And>p r. IsAbs p \<Longrightarrow> ev p = Inr r \<Longrightarrow> IsAbs r"
  shows "\<exists>root dir there missing. ev sessionDir = Inr root \<and> path = path_text True (there @ missing) \<and>
    ev (path_text True there) = Inr dir \<and> ''..'' \<notin> set missing \<and>
    (\<forall>n. length there < n \<and> n \<le> length (there @ missing) \<longrightarrow>
       (\<exists>er. ev (path_text True (take n (there @ missing))) = Inl er)) \<and>
    prefix (clean_comps root) (clean_comps dir @ missing)"
proof -
  from assms(1) obtain root real where root: "ev sessionDir = Inr root" and within: "pathWithin root real"
    and eval: "evalSymlinksAllowingMissing ev path = Inr real"
    and path: "path = Clean (if IsAbs raw then raw else path_Join [sessionDir, raw])"
    by (auto simp: ResolveSessionScoped_def Let_def split: if_splits sum.splits)
  have "IsAbs (path_Join [sessionDir, raw])"
  proof -
    have ne: "sessionDir \<noteq> ''''" using assms(2) by (auto simp: IsAbs_def HasPrefix_def)
    have "IsAbs (sessionDir @ x)" for x using assms(2) by (auto simp: IsAbs_def HasPrefix_def)
    with ne show ?thesis by (simp add: path_Join_def comps_Clean(2) assms(2))
  qed
  then have rooted: "IsAbs path" by (simp add: path comps_Clean(2))
  let ?cs = "clean_comps path"
  have ok: "stack_ok True (rev ?cs)" using clean_comps_ok[of path] rooted by simp
  have as_text: "path = path_text True ?cs"
    using rooted by (simp add: path comps_Clean Clean_idem flip: Clean_def)
       (metis Clean_def Clean_idem comps_Clean)
  have "eval_missing ev True (rev ?cs) = Inr real" using eval rooted by (simp add: evalSymlinksAllowingMissing_def)
  then have "IsAbs real \<and> (\<exists>there missing dir. rev (rev ?cs) = there @ missing \<and> ev (path_text True there) = Inr dir \<and>
    (\<forall>n \<in> {length there <.. length (rev ?cs)}. \<exists>er. ev (path_text True (take n (rev (rev ?cs)))) = Inl er) \<and>
    clean_comps real = clean_comps dir @ missing)"
    using ok by (rule eval_missing_deepest) (rule assms(3))
  then obtain there missing dir where ev: "IsAbs real" "?cs = there @ missing" "ev (path_text True there) = Inr dir"
    "\<forall>n \<in> {length there <.. length ?cs}. \<exists>er. ev (path_text True (take n ?cs)) = Inl er"
    "clean_comps real = clean_comps dir @ missing"
    unfolding rev_rev_ident length_rev by blast
  have "IsAbs root" using assms(2,3) root by blast
  with within ev(1,5) have "prefix (clean_comps root) (clean_comps dir @ missing)" by (simp add: pathWithin_iff)
  moreover have "''..'' \<notin> set missing" using abs_comps[OF rooted] ev(2) by auto
  ultimately show ?thesis using root as_text ev by (intro exI[of _ root] exI[of _ dir] exI[of _ there] exI[of _ missing]) auto
qed

definition sample_links :: "string \<Rightarrow> err + string" where
  "sample_links p = (if p = ''/s'' then Inr ''/real/s'' else if p = ''/'' then Inr ''/'' else Inl (EMsg ''no such file''))"

theorem session_scope_contained_witness:
  "\<exists>dir missing. sample_links ''/s'' = Inr dir \<and> missing = [''a''] \<and>
     prefix (clean_comps ''/real/s'') (clean_comps dir @ missing)"
proof -
  have run: "ResolveSessionScoped sample_links ''/s'' ''a'' = Inr ''/s/a''" by code_simp
  have abs: "IsAbs ''/s''" by code_simp
  have links: "IsAbs r" if "sample_links p = Inr r" for p r
    using that by (auto simp: sample_links_def IsAbs_def HasPrefix_def split: if_splits)
  from session_scope_contained[OF run abs links] show ?thesis
    by (auto simp: sample_links_def path_text_def)
qed

end
