(* ===== verification/Agent_Messages.thy ===== *)
theory Agent_Messages
  imports Go_Net Followups
begin

text \<open>
  The messages of a conversation (\<open>internal/llm/message.go\<close>, \<open>toolconv.go\<close>) and what the agent loop does to
  them between turns (\<open>internal/agent/agent.go\<close>): results appended, token estimates, oversized and old
  results cut down.  The JSON of messages is not modelled.
\<close>

section \<open>Messages\<close>

abbreviation RoleUser :: string where "RoleUser \<equiv> ''user''"
abbreviation RoleAssistant :: string where "RoleAssistant \<equiv> ''assistant''"
abbreviation RoleSystem :: string where "RoleSystem \<equiv> ''system''"

record tool_use =
  tu_id :: string
  tu_name :: string
  tu_input :: string

datatype block =
    TextBlock string
  | ToolUseBlock tool_use
  | ToolResultBlock string string bool
  | ThinkingBlock string
  | ImageBlock string string

record message =
  ms_role :: string
  ms_source :: string
  ms_content :: "block list"

definition NewTextMessage :: "string \<Rightarrow> string \<Rightarrow> message" where
  "NewTextMessage role text = \<lparr>ms_role = role, ms_source = '''', ms_content = [TextBlock text]\<rparr>"

definition NewUserMessage :: "string \<Rightarrow> message" where
  "NewUserMessage text = NewTextMessage RoleUser text"

definition NewAssistantMessage :: "string \<Rightarrow> message" where
  "NewAssistantMessage text = NewTextMessage RoleAssistant text"

definition NewToolResultMessage :: "string \<Rightarrow> string \<Rightarrow> bool \<Rightarrow> message" where
  "NewToolResultMessage i content isErr =
     \<lparr>ms_role = RoleUser, ms_source = '''', ms_content = [ToolResultBlock i content isErr]\<rparr>"

definition block_text :: "block \<Rightarrow> string" where
  "block_text b = (case b of TextBlock t \<Rightarrow> t | _ \<Rightarrow> '''')"

definition message_Text :: "message \<Rightarrow> string" where
  "message_Text m = concat (map block_text (ms_content m))"

fun is_result :: "block \<Rightarrow> bool" where
  "is_result (ToolResultBlock _ _ _) = True"
| "is_result _ = False"

definition hasToolResults :: "message \<Rightarrow> bool" where
  "hasToolResults m = list_ex is_result (ms_content m)"

definition AppendToolResult :: "message list \<Rightarrow> string \<Rightarrow> string \<Rightarrow> bool \<Rightarrow> message list" where
  "AppendToolResult ms i content isErr =
     (if ms \<noteq> [] \<and> ms_role (last ms) = RoleUser \<and> hasToolResults (last ms)
      then butlast ms @ [(last ms)\<lparr>ms_content := ms_content (last ms) @ [ToolResultBlock i content isErr]\<rparr>]
      else ms @ [NewToolResultMessage i content isErr])"

definition block_tool :: "block \<Rightarrow> tool_use list" where
  "block_tool b = (case b of ToolUseBlock u \<Rightarrow> [u] | _ \<Rightarrow> [])"

definition ExtractToolUseBlocks :: "message \<Rightarrow> tool_use list" where
  "ExtractToolUseBlocks m = concat (map block_tool (ms_content m))"

text \<open>An empty input stands for the empty object.\<close>

definition BuildAssistantMessage :: "string list \<Rightarrow> tool_use list \<Rightarrow> message" where
  "BuildAssistantMessage textParts toolCalls =
     \<lparr>ms_role = RoleAssistant, ms_source = '''',
      ms_content = (if concat textParts = '''' then [] else [TextBlock (concat textParts)]) @
        map (\<lambda>c. ToolUseBlock (if tu_input c = '''' then c\<lparr>tu_input := ''{}''\<rparr> else c)) toolCalls\<rparr>"

definition isEmptyAssistantMessage :: "message \<Rightarrow> bool" where
  "isEmptyAssistantMessage m \<longleftrightarrow>
     ms_content m = [] \<or> (message_Text m = '''' \<and> ExtractToolUseBlocks m = [])"

section \<open>Estimates\<close>

text \<open>More than one character in twenty of JSON: the quotient of the two counts is compared exactly.\<close>

definition estimateTextTokens :: "string \<Rightarrow> nat" where
  "estimateTextTokens text =
     (if text = '''' then 0
      else
        (let jsonChars = length (filter (\<lambda>c. c \<in> set ''{}[]'' \<or> c = CHR 0x22) text) in
         if 20 * jsonChars > length text then length text * 2 div 7 else length text div 4))"

definition block_tokens :: "block \<Rightarrow> nat" where
  "block_tokens b =
     (case b of
        TextBlock t \<Rightarrow> estimateTextTokens t
      | ToolUseBlock u \<Rightarrow> length (tu_name u) div 4 + length (tu_input u) * 2 div 7
      | ToolResultBlock _ c _ \<Rightarrow> estimateTextTokens c
      | ThinkingBlock t \<Rightarrow> estimateTextTokens t
      | ImageBlock _ _ \<Rightarrow> 1600)"

definition estimateRequestTokens :: "message list \<Rightarrow> nat" where
  "estimateRequestTokens ms = sum_list (map (\<lambda>m. 4 + sum_list (map block_tokens (ms_content m))) ms)"

section \<open>Replies that only announce\<close>

definition isAckOnly :: "string \<Rightarrow> bool" where
  "isAckOnly text0 =
     (let text = TrimSpace text0 in
      length text \<le> 500 \<and> text \<noteq> '''' \<and>
      list_ex (HasPrefix text)
        [''I'' @ [CHR 0x27] @ ''ll '', ''I will '', ''Let me '', ''I'' @ [CHR 0x27] @ ''m going to '', ''I need to '',
         ''First, I'' @ [CHR 0x27] @ ''ll '', ''I should ''])"

section \<open>Oversized results\<close>

definition toolResultPerToolLimit :: nat where "toolResultPerToolLimit = 50000"
definition toolResultTotalLimit :: nat where "toolResultTotalLimit = 200000"
definition toolResultHistoryStage1Limit :: nat where "toolResultHistoryStage1Limit = 10000"
definition toolResultHistoryStage2Limit :: nat where "toolResultHistoryStage2Limit = 2000"

definition truncated_text :: "string \<Rightarrow> string" where
  "truncated_text c = take 2000 c @ [CHR 0x0A, CHR 0x0A] @ ''[Output truncated. '' @ itoa (int (length c)) @
     '' total characters. Read specific sections with offset/limit for details.]''"

definition cap_result :: "block \<Rightarrow> block" where
  "cap_result b =
     (case b of
        ToolResultBlock i c e \<Rightarrow> if length c > toolResultPerToolLimit then ToolResultBlock i (truncated_text c) e else b
      | _ \<Rightarrow> b)"

definition result_size :: "block \<Rightarrow> nat" where
  "result_size b = (case b of ToolResultBlock _ c _ \<Rightarrow> length c | _ \<Rightarrow> 0)"

text \<open>The first of the largest results.\<close>

fun largest_result :: "nat \<Rightarrow> (nat \<times> nat) option \<Rightarrow> block list \<Rightarrow> nat option" where
  "largest_result i best [] = map_option fst best"
| "largest_result i best (b # bs) =
     largest_result (Suc i)
       (if \<not> is_result b then best
        else (case best of
                None \<Rightarrow> Some (i, result_size b)
              | Some (j, n) \<Rightarrow> if n < result_size b then Some (i, result_size b) else best)) bs"

definition cut_result :: "block \<Rightarrow> block" where
  "cut_result b = (case b of ToolResultBlock i c e \<Rightarrow> ToolResultBlock i (truncated_text c) e | _ \<Rightarrow> b)"

text \<open>While the results together are too large, the largest is cut; \<open>None\<close> for a loop that does not end.\<close>

partial_function (option) cut_largest :: "block list \<Rightarrow> block list option" where
  "cut_largest bs =
     (if sum_list (map result_size bs) \<le> toolResultTotalLimit then Some bs
      else (case largest_result 0 None bs of
              None \<Rightarrow> Some bs
            | Some i \<Rightarrow> if result_size (bs ! i) \<le> 2000 then Some bs
                        else cut_largest (bs[i := cut_result (bs ! i)])))"

declare cut_largest.simps [code]

definition truncateToolResults :: "message list \<Rightarrow> message list option" where
  "truncateToolResults ms =
     (if ms = [] \<or> ms_role (last ms) \<noteq> RoleUser then Some ms
      else map_option (\<lambda>bs. butlast ms @ [(last ms)\<lparr>ms_content := bs\<rparr>])
        (cut_largest (map cap_result (ms_content (last ms)))))"

section \<open>Old results\<close>

definition attenuationMarker :: string where "attenuationMarker = ''[attenuated/''"

definition hasToolResultBlocks :: "message \<Rightarrow> bool" where
  "hasToolResultBlocks m \<longleftrightarrow> ms_role m = RoleUser \<and> list_ex is_result (ms_content m)"

definition countToolResultTurns :: "message list \<Rightarrow> nat" where
  "countToolResultTurns ms = length (filter hasToolResultBlocks ms)"

text \<open>A result that was cut before: what it holds, how large it was, when, and whether nothing is left.\<close>

record attenuated =
  an_preview :: string
  an_original :: int
  an_turns :: int
  an_stale :: bool

text \<open>
  \<open>Sscanf\<close> of a number after a literal: the digits, with a sign, as far as they go, and the rest.  White
  space in front of a number is skipped.
\<close>

definition scan_int :: "string \<Rightarrow> (int \<times> string) option" where
  "scan_int s0 =
     (let s = dropWhile (\<lambda>c. c = CHR '' '') s0;
          sign = (if s \<noteq> [] \<and> hd s \<in> {CHR ''-'', CHR ''+''} then [hd s] else []);
          t = drop (length sign) s; ds = takeWhile (\<lambda>c. digit_val c \<noteq> None) t
      in if ds = [] then None
         else map_option (\<lambda>i. (i, drop (length ds) t)) (ParseInt (sign @ ds)))"

definition scan_literal :: "string \<Rightarrow> string \<Rightarrow> string option" where
  "scan_literal lit s = (if HasPrefix s lit then Some (drop (length lit) s) else None)"

text \<open>Two numbers: \<open>front\<close>, the first, \<open>between\<close>, the second, and a closing bracket.\<close>

definition scan_two :: "string \<Rightarrow> string \<Rightarrow> string \<Rightarrow> (int \<times> int) option" where
  "scan_two front between s =
     (case scan_literal front s of None \<Rightarrow> None
      | Some s1 \<Rightarrow> (case scan_int s1 of None \<Rightarrow> None
      | Some (a, s2) \<Rightarrow> (case scan_literal between s2 of None \<Rightarrow> None
      | Some s3 \<Rightarrow> (case scan_int s3 of None \<Rightarrow> None
      | Some (b, s4) \<Rightarrow> (case scan_literal '']'' s4 of None \<Rightarrow> None | Some _ \<Rightarrow> Some (a, b))))))"

definition stale_of :: "(int \<times> int) option \<Rightarrow> attenuated option" where
  "stale_of r = map_option (\<lambda>(t, n). \<lparr>an_preview = '''', an_original = n, an_turns = t, an_stale = True\<rparr>) r"

definition parseAttenuatedToolResult :: "string \<Rightarrow> attenuated option" where
  "parseAttenuatedToolResult content =
     (if HasPrefix content ''[stale tool result, turns=''
      then stale_of (scan_two ''[stale tool result, turns='' '', original='' content)
      else if \<not> HasPrefix content attenuationMarker then None
      else if HasPrefix content (attenuationMarker @ ''stale tool result, turns='')
      then stale_of (scan_two (attenuationMarker @ ''stale tool result, turns='') '', original='' content)
      else if CHR '']'' \<notin> set content then None
      else
        (let header = takeWhile (\<lambda>c. c \<noteq> CHR '']'') content @ '']''; rest = drop (length header) content in
         map_option (\<lambda>(t, n).
           \<lparr>an_preview = (if HasPrefix rest [CHR 0x0A, CHR 0x0A] then drop 2 rest else rest),
            an_original = n, an_turns = t, an_stale = False\<rparr>)
           (scan_two (attenuationMarker @ ''turns='') '' original='' header)))"

definition buildAttenuatedToolResult :: "string \<Rightarrow> int \<Rightarrow> nat \<Rightarrow> int \<Rightarrow> string" where
  "buildAttenuatedToolResult content turnsAgo limit originalSize =
     (let header = attenuationMarker @ ''turns='' @ itoa turnsAgo @ '' original='' @ itoa originalSize @ '']'' in
      if limit \<le> length header then take limit header
      else
        (let room = limit - length header in
         if 2 < room then header @ [CHR 0x0A, CHR 0x0A] @ take (room - 2) content
         else header @ take room content))"

definition buildStaleToolResultPlaceholder :: "int \<Rightarrow> int \<Rightarrow> string" where
  "buildStaleToolResultPlaceholder turnsAgo originalSize =
     ''[stale tool result, turns='' @ itoa turnsAgo @ '', original='' @ itoa originalSize @ '']''"

definition attenuate_text :: "int \<Rightarrow> nat \<Rightarrow> string \<Rightarrow> string" where
  "attenuate_text turnsAgo limit content =
     (let prior = parseAttenuatedToolResult content in
      if (case prior of None \<Rightarrow> False | Some p \<Rightarrow> turnsAgo \<le> an_turns p) then content
      else
        (let source = (case prior of None \<Rightarrow> content | Some p \<Rightarrow> an_preview p);
             originalSize = (case prior of None \<Rightarrow> int (length content) | Some p \<Rightarrow> an_original p)
         in if length source \<le> limit then content
            else buildAttenuatedToolResult source turnsAgo limit originalSize))"

definition stale_text :: "int \<Rightarrow> string \<Rightarrow> string" where
  "stale_text turnsAgo content =
     (case parseAttenuatedToolResult content of
        None \<Rightarrow> buildStaleToolResultPlaceholder turnsAgo (int (length content))
      | Some p \<Rightarrow>
          if an_stale p \<and> turnsAgo \<le> an_turns p then content
          else buildStaleToolResultPlaceholder turnsAgo (an_original p))"

definition map_results :: "(string \<Rightarrow> string) \<Rightarrow> message \<Rightarrow> message" where
  "map_results f m = m\<lparr>ms_content :=
     map (\<lambda>b. case b of ToolResultBlock i c e \<Rightarrow> ToolResultBlock i (f c) e | _ \<Rightarrow> b) (ms_content m)\<rparr>"

definition attenuateToolResultMessage :: "int \<Rightarrow> nat \<Rightarrow> message \<Rightarrow> message" where
  "attenuateToolResultMessage turnsAgo limit m = map_results (attenuate_text turnsAgo limit) m"

definition replaceWithStaleToolResultPlaceholder :: "int \<Rightarrow> message \<Rightarrow> message" where
  "replaceWithStaleToolResultPlaceholder turnsAgo m = map_results (stale_text turnsAgo) m"

definition attenuate_turn :: "int \<Rightarrow> message \<Rightarrow> message" where
  "attenuate_turn turnsAgo m =
     (if turnsAgo \<le> 1 then m
      else if turnsAgo = 2 then attenuateToolResultMessage turnsAgo toolResultHistoryStage1Limit m
      else if turnsAgo = 3 then attenuateToolResultMessage turnsAgo toolResultHistoryStage2Limit m
      else replaceWithStaleToolResultPlaceholder turnsAgo m)"

fun attenuate_from :: "int \<Rightarrow> int \<Rightarrow> message list \<Rightarrow> message list" where
  "attenuate_from current turn [] = []"
| "attenuate_from current turn (m # ms) =
     (if hasToolResultBlocks m then attenuate_turn (current - turn) m # attenuate_from current (turn + 1) ms
      else m # attenuate_from current turn ms)"

definition attenuateHistoricalToolResults :: "message list \<Rightarrow> int \<Rightarrow> message list" where
  "attenuateHistoricalToolResults ms currentTurnIdx =
     (if currentTurnIdx < 0 then ms else attenuate_from currentTurnIdx 0 ms)"

section \<open>When cutting ends\<close>

lemma truncated_length:
  "length (truncated_text c) = min 2000 (length c) + 94 + length (itoa (int (length c)))"
  by (simp add: truncated_text_def)

lemma nat_digits_length: "n < 10 ^ k \<Longrightarrow> 0 < k \<Longrightarrow> length (nat_digits n) \<le> k"
proof (induction n arbitrary: k rule: nat_digits.induct)
  case (1 n)
  show ?case
  proof (cases "n < 10")
    case True
    then show ?thesis using "1.prems" by (subst nat_digits.simps) simp
  next
    case False
    with "1.prems" obtain m where k: "k = Suc m" "0 < m" by (cases k; cases "k - 1") auto
    with "1.prems" have "n div 10 < 10 ^ m" by (simp add: less_mult_imp_div_less mult.commute)
    with "1.IH"[OF False this k(2)] False show ?thesis by (subst nat_digits.simps) (simp add: k(1))
  qed
qed

lemma itoa_length: "1 \<le> length (itoa (int n))" "n < 10 ^ 19 \<Longrightarrow> length (itoa (int n)) \<le> 19"
  using nat_digits_Cons[of n] nat_digits_length[of n 19] by (auto simp: itoa_def)

text \<open>The best of a prefix: nothing without a result, and otherwise the place and size of a largest one.\<close>

definition best_of :: "block list \<Rightarrow> (nat \<times> nat) option \<Rightarrow> bool" where
  "best_of bs best =
     (case best of
        None \<Rightarrow> \<not> list_ex is_result bs
      | Some (j, n) \<Rightarrow> j < length bs \<and> is_result (bs ! j) \<and> n = result_size (bs ! j) \<and>
          list_all (\<lambda>b. is_result b \<longrightarrow> result_size b \<le> n) bs)"

lemma best_of_step:
  assumes "best_of ps best"
  shows "best_of (ps @ [b])
    (if \<not> is_result b then best
     else (case best of None \<Rightarrow> Some (length ps, result_size b)
           | Some (j, n) \<Rightarrow> if n < result_size b then Some (length ps, result_size b) else best))"
  using assms by (cases best) (fastforce simp: best_of_def nth_append list_ex_iff list_all_iff)+

lemma largest_result_best:
  "best_of ps best \<Longrightarrow> \<exists>best'. best_of (ps @ bs) best' \<and> largest_result (length ps) best bs = map_option fst best'"
proof (induction bs arbitrary: ps best)
  case (Cons b bs)
  from Cons.IH[OF best_of_step[OF Cons.prems, of b]] show ?case by simp
qed auto

lemma largest_result_Some:
  assumes "largest_result 0 None bs = Some i"
  shows "i < length bs" "is_result (bs ! i)" "\<And>b. b \<in> set bs \<Longrightarrow> is_result b \<Longrightarrow> result_size b \<le> result_size (bs ! i)"
proof -
  obtain n where "best_of bs (Some (i, n))"
    using largest_result_best[of "[]" None bs] assms by (auto simp: best_of_def[of "[]"] eq_commute[of "Some i"])
  then show "i < length bs" "is_result (bs ! i)" "\<And>b. b \<in> set bs \<Longrightarrow> is_result b \<Longrightarrow> result_size b \<le> result_size (bs ! i)"
    by (auto simp: best_of_def list_all_iff)
qed

lemma largest_result_None: "largest_result 0 None bs = None \<Longrightarrow> \<not> list_ex is_result bs"
  using largest_result_best[of "[]" None bs] by (auto simp: best_of_def split: option.splits)

lemma is_result_cases: obtains (result) i c e where "b = ToolResultBlock i c e" | (other) "\<not> is_result b"
  by (cases b) auto

lemma result_size_other: "\<not> is_result b \<Longrightarrow> result_size b = 0"
  by (cases b) (simp_all add: result_size_def)

lemma cut_result_is: "is_result b \<Longrightarrow> is_result (cut_result b)"
  by (cases b rule: is_result_cases) (simp_all add: cut_result_def)

text \<open>A cut result keeps 2000 bytes and gains the note, which is at least 95 and at most 113 bytes.\<close>

lemma cut_size_lower: "is_result b \<Longrightarrow> 2000 \<le> result_size b \<Longrightarrow> 2095 \<le> result_size (cut_result b)"
  using itoa_length(1)[of "result_size b"]
  by (cases b rule: is_result_cases) (simp_all add: cut_result_def result_size_def truncated_length)

lemma cut_size_upper: "is_result b \<Longrightarrow> result_size b < 10 ^ 19 \<Longrightarrow> result_size (cut_result b) \<le> 2113"
  using itoa_length(2)[of "result_size b"]
  by (cases b rule: is_result_cases) (simp_all add: cut_result_def result_size_def truncated_length)

subsection \<open>Too many results for the limit\<close>

definition crowded :: "block list \<Rightarrow> bool" where
  "crowded bs \<longleftrightarrow> 96 \<le> length bs \<and> list_all (\<lambda>b. is_result b \<and> 2095 \<le> result_size b) bs"

lemma sum_sizes_ge: "list_all (\<lambda>b. m \<le> result_size b) bs \<Longrightarrow> m * length bs \<le> sum_list (map result_size bs)"
  by (induction bs) auto

lemma crowded_over: "crowded bs \<Longrightarrow> toolResultTotalLimit < sum_list (map result_size bs)"
  using sum_sizes_ge[of 2095 bs] by (auto simp: crowded_def toolResultTotalLimit_def list_all_iff)

lemma crowded_cut:
  assumes "crowded bs" "i < length bs" shows "crowded (bs[i := cut_result (bs ! i)])"
proof -
  have "is_result (bs ! i)" "2000 \<le> result_size (bs ! i)"
    using assms by (auto simp: crowded_def list_all_length intro: order_trans[of _ 2095])
  then show ?thesis using assms
    by (auto simp: crowded_def list_all_length nth_list_update cut_result_is cut_size_lower)
qed

lemma cut_largest_stuck: "crowded bs \<Longrightarrow> cut_largest bs = None"
proof -
  have "\<not> crowded bs" if "cut_largest bs = Some r" for r
  proof (rule cut_largest.raw_induct[of "\<lambda>x _. \<not> crowded x", OF _ that])
    fix f :: "block list \<Rightarrow> block list option" and x y
    assume IH: "\<And>x y. f x = Some y \<Longrightarrow> \<not> crowded x"
      and step: "(if sum_list (map result_size x) \<le> toolResultTotalLimit then Some x
        else (case largest_result 0 None x of
                None \<Rightarrow> Some x
              | Some i \<Rightarrow> if result_size (x ! i) \<le> 2000 then Some x
                          else f (x[i := cut_result (x ! i)]))) = Some y"
    show "\<not> crowded x"
    proof
      assume c: "crowded x"
      then obtain i where i: "largest_result 0 None x = Some i"
        using largest_result_None[of x]
        by (cases x; cases "largest_result 0 None x") (auto simp: crowded_def)
      note large = largest_result_Some[OF i]
      have "\<not> result_size (x ! i) \<le> 2000" using c large(1) by (auto simp: crowded_def list_all_length)
      with step i crowded_over[OF c] have "f (x[i := cut_result (x ! i)]) = Some y" by simp
      from IH[OF this] crowded_cut[OF c large(1)] show False by simp
    qed
  qed
  then show "crowded bs \<Longrightarrow> cut_largest bs = None" by (cases "cut_largest bs") auto
qed

subsection \<open>Few enough to end\<close>

definition few_results :: "block list \<Rightarrow> bool" where
  "few_results bs \<longleftrightarrow> length (filter is_result bs) \<le> 94 \<and> list_all (\<lambda>b. result_size b < 10 ^ 19) bs"

abbreviation uncut :: "block list \<Rightarrow> nat" where
  "uncut bs \<equiv> length (filter (\<lambda>b. 2113 < result_size b) bs)"

lemma sum_sizes_le:
  "(\<And>b. b \<in> set bs \<Longrightarrow> is_result b \<Longrightarrow> result_size b \<le> m) \<Longrightarrow>
     sum_list (map result_size bs) \<le> m * length (filter is_result bs)"
proof (induction bs)
  case (Cons b bs)
  then have "sum_list (map result_size bs) \<le> m * length (filter is_result bs)" by simp
  with Cons.prems[of b] show ?case by (cases b rule: is_result_cases) (auto simp: result_size_other)
qed simp

lemma filter_length_update:
  "i < length xs \<Longrightarrow> length (filter P (xs[i := y])) + of_bool (P (xs ! i)) = length (filter P xs) + of_bool (P y)"
proof (induction xs arbitrary: i)
  case (Cons x xs)
  then show ?case by (cases i) (use Cons.IH in force)+
qed simp

lemma few_cut:
  assumes "few_results bs" "i < length bs" "is_result (bs ! i)" "2113 < result_size (bs ! i)"
  shows "few_results (bs[i := cut_result (bs ! i)])" "uncut (bs[i := cut_result (bs ! i)]) < uncut bs"
proof -
  have up: "result_size (cut_result (bs ! i)) \<le> 2113"
    using assms by (auto simp: few_results_def list_all_length intro: cut_size_upper)
  show "few_results (bs[i := cut_result (bs ! i)])"
    using assms up filter_length_update[of i bs is_result "cut_result (bs ! i)"] cut_result_is
    by (auto simp: few_results_def list_all_length nth_list_update)
  show "uncut (bs[i := cut_result (bs ! i)]) < uncut bs"
    using filter_length_update[of i bs "\<lambda>b. 2113 < result_size b" "cut_result (bs ! i)"] assms(2,4) up by simp
qed

lemma cut_largest_ends: "few_results bs \<Longrightarrow> \<exists>r. cut_largest bs = Some r"
proof (induction "uncut bs" arbitrary: bs rule: less_induct)
  case less
  show ?case
  proof (cases "largest_result 0 None bs")
    case (Some i)
    note large = largest_result_Some[OF Some]
    show ?thesis
    proof (cases "result_size (bs ! i) \<le> 2113")
      case True
      then have "sum_list (map result_size bs) \<le> 2113 * length (filter is_result bs)"
        using large(3) by (intro sum_sizes_le) (blast intro: order_trans)
      also have "\<dots> \<le> toolResultTotalLimit" using less.prems by (simp add: few_results_def toolResultTotalLimit_def)
      finally show ?thesis by (subst cut_largest.simps) simp
    next
      case False
      with few_cut[OF less.prems large(1,2)] less.hyps show ?thesis
        by (subst cut_largest.simps) (simp add: Some)
    qed
  qed (subst cut_largest.simps, simp)
qed

subsection \<open>A turn of tool results\<close>

lemma cap_result_is [simp]: "is_result (cap_result b) = is_result b"
  by (cases b) (simp_all add: cap_result_def)

lemma cap_size_lower: "is_result b \<Longrightarrow> 2095 \<le> result_size b \<Longrightarrow> 2095 \<le> result_size (cap_result b)"
  using cut_size_lower[of b] by (cases b rule: is_result_cases) (auto simp: cap_result_def cut_result_def)

lemma cap_size_upper: "result_size b < 10 ^ 19 \<Longrightarrow> result_size (cap_result b) < 10 ^ 19"
proof (cases b rule: is_result_cases)
  case (result i c e)
  assume "result_size b < 10 ^ 19"
  with cut_size_upper[of b] result show ?thesis by (auto simp: cap_result_def cut_result_def)
qed (auto simp: result_size_other)

lemma crowded_cap: "crowded bs \<Longrightarrow> crowded (map cap_result bs)"
  by (auto simp: crowded_def list_all_iff cap_size_lower)

lemma few_cap: "few_results bs \<Longrightarrow> few_results (map cap_result bs)"
  using cap_size_upper by (auto simp: few_results_def list_all_iff filter_map comp_def)

text \<open>A block without the text of its result.\<close>

definition shell :: "block \<Rightarrow> block" where
  "shell b = (case b of ToolResultBlock i _ e \<Rightarrow> ToolResultBlock i '''' e | _ \<Rightarrow> b)"

lemma shell_cut: "shell (cut_result b) = shell b" "shell (cap_result b) = shell b"
  by (cases b; simp add: shell_def cut_result_def cap_result_def)+

lemma cut_largest_shell: "cut_largest bs = Some r \<Longrightarrow> map shell r = map shell bs"
proof (rule cut_largest.raw_induct[of "\<lambda>x y. map shell y = map shell x"])
  fix f :: "block list \<Rightarrow> block list option" and x y
  assume IH: "\<And>x y. f x = Some y \<Longrightarrow> map shell y = map shell x"
    and step: "(if sum_list (map result_size x) \<le> toolResultTotalLimit then Some x
      else (case largest_result 0 None x of
              None \<Rightarrow> Some x
            | Some i \<Rightarrow> if result_size (x ! i) \<le> 2000 then Some x
                        else f (x[i := cut_result (x ! i)]))) = Some y"
  have "map shell (x[i := cut_result (x ! i)]) = map shell x" for i
    by (cases "i < length x") (simp_all add: map_update shell_cut list_update_same_conv list_update_beyond)
  with step IH show "map shell y = map shell x" by (auto split: if_splits option.splits)
qed


definition sample_results :: "nat \<Rightarrow> message" where
  "sample_results n = \<lparr>ms_role = RoleUser, ms_source = '''', ms_content =
     replicate n (ToolResultBlock ''call'' (replicate 3000 (CHR ''x'')) False)\<rparr>"


end
