(* ===== verification/Agent_Tools.thy ===== *)
theory Agent_Tools
  imports Gateway Path_Guard Agent_Messages "HOL-Library.AList"
begin

text \<open>
  How the agent runs the tools a model asks for: the permission engine (\<open>internal/agent/permission.go\<close>),
  the hooks (\<open>hooks.go\<close>), the partition of the calls of a turn into batches that may run together and
  their execution (\<open>executor.go\<close>, and the functions of \<open>agent.go\<close> around it), and the footer that tells
  what changed on disk (\<open>mutation_footer.go\<close>).  The executor of the tools, the hooks and the prompter are
  actions on a state of any type; a call of one batch runs after the other in an order a ranking chooses,
  any order being some ranking's, and what the others do meanwhile is the interference of the world.
  A run may also not return at all, when the analysis of a command or a tool does not: its value is \<open>None\<close>.
  Progress events and logging are not modelled.
\<close>

section \<open>Runs\<close>

type_synonym ('s, 'a) run = "('s, 'a option) act"

definition give :: "'a \<Rightarrow> ('s, 'a) run" where
  "give a = ret (Some a)"

definition never :: "('s, 'a) run" where
  "never = ret None"

definition andthen :: "('s, 'a) run \<Rightarrow> ('a \<Rightarrow> ('s, 'b) run) \<Rightarrow> ('s, 'b) run" where
  "andthen m k = bind m (\<lambda>x. case x of None \<Rightarrow> never | Some a \<Rightarrow> k a)"

text \<open>An action that returns, as a run; and \<open>if err != nil\<close> after a run.\<close>

definition returns :: "('s, 'a) act \<Rightarrow> ('s, 'a) run" where
  "returns m = bind m give"

definition attempt_run :: "('s, 'a) run \<Rightarrow> ('s, err + 'a) run" where
  "attempt_run m = bind (attempt m) (\<lambda>r. case r of
     Inl er \<Rightarrow> give (Inl er) | Inr None \<Rightarrow> never | Inr (Some a) \<Rightarrow> give (Inr a))"

text \<open>A look at the shared state: others may have changed it meanwhile.\<close>

definition look :: "('s \<Rightarrow> 'a) \<Rightarrow> ('s, 'a) act" where
  "look f = (\<lambda>w i s. let s0 = w_other w i s in (Inr (f s0), Suc i, s0))"

section \<open>Permissions\<close>

datatype permission_mode = ModeDefault | ModeAcceptEdits | ModePlan | ModeBypass

fun permission_mode_String :: "permission_mode \<Rightarrow> string" where
  "permission_mode_String ModeAcceptEdits = ''accept_edits''"
| "permission_mode_String ModePlan = ''plan''"
| "permission_mode_String ModeBypass = ''bypass''"
| "permission_mode_String ModeDefault = ''default''"

text \<open>Tools may change the mode while the agent runs: it is read from the state.\<close>

type_synonym 's prompter = "string \<Rightarrow> string \<Rightarrow> ('s, bool) act"

record 's permission =
  pm_allow :: "string list"
  pm_deny :: "string list"
  pm_prompter :: "'s prompter option"
  pm_mode :: "'s \<Rightarrow> permission_mode"

text \<open>\<open>safety\<close> is \<open>AnalyzeCommandSafety\<close>; an input that cannot be decoded is not dangerous.\<close>

definition isDangerousBashInput :: "safety \<Rightarrow> string \<Rightarrow> (err + bool) option" where
  "isDangerousBashInput safety input =
     (case unmarshal_struct set_bash_field \<lparr>bi_command = '''', bi_cmd = ''''\<rparr> input of
        (p, ok) \<Rightarrow>
          if \<not> ok then Some (Inr False)
          else
            (let command = (if bi_command p = '''' then bi_cmd p else bi_command p) in
             if command = '''' then Some (Inr False) else map_option (map_sum id fst) (safety command)))"

definition isReadOnly :: "string \<Rightarrow> bool" where
  "isReadOnly name \<longleftrightarrow> name \<in> set
     [''read_file'', ''glob'', ''grep'', ''web_fetch'', ''web_search'', ''wiki_search'', ''wiki_read'',
      ''conversation_search'', ''cross_project_search'', ''cross_project_conversation_search'',
      ''tool_search'', ''code_symbols'', ''command_catalog'', ''runtime_command'', ''todo_write'', ''task_list'',
      ''task_get'', ''task_output'', ''task_monitor'', ''ask_user_question'', ''user_question_list'',
      ''user_question_wait'', ''schedule_list'', ''worktree_list'',
      ''agentic_actor_graph'', ''agentic_task_evidence'', ''agentic_delegate_list'', ''agentic_message_list'',
      ''enter_plan_mode'', ''exit_plan_mode'']"

definition isEditTool :: "string \<Rightarrow> bool" where
  "isEditTool name \<longleftrightarrow> name \<in> set [''write_file'', ''edit_file'', ''wiki_write'']"

text \<open>The steps after the check of dangerous commands; then the whole check.\<close>

definition check_listed :: "'s permission \<Rightarrow> permission_mode \<Rightarrow> string \<Rightarrow> string \<Rightarrow> ('s, bool) run" where
  "check_listed p mode name input =
     (if name \<in> set (pm_allow p) then give True
      else if mode = ModePlan then give (isReadOnly name)
      else if mode = ModeAcceptEdits \<and> (isReadOnly name \<or> isEditTool name) then give True
      else (case pm_prompter p of None \<Rightarrow> give True | Some ask \<Rightarrow> returns (ask name input)))"

definition permission_Check :: "safety \<Rightarrow> 's permission \<Rightarrow> string \<Rightarrow> string \<Rightarrow> ('s, bool) run" where
  "permission_Check safety p name input =
     bind (look (pm_mode p)) (\<lambda>mode.
     if name \<in> set (pm_deny p) then give False
     else if mode = ModeBypass then give True
     else
       (case (if name = ''bash'' then isDangerousBashInput safety input else Some (Inr False)) of
          None \<Rightarrow> never
        | Some (Inl _) \<Rightarrow> never
        | Some (Inr True) \<Rightarrow> (case pm_prompter p of None \<Rightarrow> give False | Some ask \<Rightarrow> returns (ask name input))
        | Some (Inr False) \<Rightarrow> check_listed p mode name input))"

section \<open>Results and hooks\<close>

record mutation_diagnostic =
  dg_line :: int
  dg_column :: int
  dg_error :: string
  dg_severity :: string
  dg_source :: string

record file_mutation =
  fm_operation :: string
  fm_path :: string
  fm_changed :: bool
  fm_before_exists :: bool
  fm_after_exists :: bool
  fm_before_hash :: string
  fm_after_hash :: string
  fm_before_lines :: int
  fm_after_lines :: int
  fm_line_delta :: int
  fm_language :: string
  fm_status :: string
  fm_new_count :: int
  fm_existing_count :: int
  fm_resolved_count :: int
  fm_new_diagnostics :: "mutation_diagnostic list"
  fm_failure_family :: string

record exec_result = tool_result +
  rx_mutation :: "file_mutation option"

definition error_result :: "string \<Rightarrow> exec_result" where
  "error_result msg = \<lparr>rs_output = msg, rs_is_error = True, rx_mutation = None\<rparr>"

datatype hook_action = HookAllow | HookDeny

text \<open>
  The two ends of a tool hook: the one before a call says whether it may run and why not, the one after it
  may change the result and may fail.
\<close>

record 's tool_hook =
  th_pre :: "string \<Rightarrow> string \<Rightarrow> ('s, hook_action \<times> string) act"
  th_post :: "string \<Rightarrow> string \<Rightarrow> exec_result \<Rightarrow> ('s, exec_result \<times> err option) act"

fun RunPreToolUse :: "'s tool_hook list \<Rightarrow> string \<Rightarrow> string \<Rightarrow> ('s, hook_action \<times> string) act" where
  "RunPreToolUse [] name params = ret (HookAllow, '''')"
| "RunPreToolUse (h # hs) name params =
     bind (th_pre h name params) (\<lambda>r.
     if fst r = HookDeny then ret r else RunPreToolUse hs name params)"

fun RunPostToolUse :: "'s tool_hook list \<Rightarrow> string \<Rightarrow> string \<Rightarrow> exec_result \<Rightarrow> ('s, exec_result \<times> err option) act" where
  "RunPostToolUse [] name params x = ret (x, None)"
| "RunPostToolUse (h # hs) name params x =
     bind (th_post h name params x) (\<lambda>r.
     if snd r \<noteq> None then ret r else RunPostToolUse hs name params (fst r))"

section \<open>Collecting the calls that may run\<close>

text \<open>
  A tool as the registry has it.  Its answers to questions about an input are functions of that input.
\<close>

record tool =
  tl_name :: string
  tl_description :: string
  tl_schema :: string
  tl_defers :: bool
  tl_safe :: "string \<Rightarrow> bool"
  tl_scope :: "string \<Rightarrow> tool_scope"
  tl_cancel :: bool

text \<open>The registry: a map by name, listed in any order.\<close>

definition reg_Get :: "tool list \<Rightarrow> string \<Rightarrow> tool option" where
  "reg_Get reg name = find (\<lambda>t. tl_name t = name) reg"

text \<open>
  The part of the agent that runs tools.  The executor is told whether its context is cancelled, the id of
  the call, the name and the input; its value is the result, \<open>None\<close> for nil.  \<open>tc_finalize\<close> is there when the
  executor is a finalizer of results; \<open>tc_notify\<close> is the read tracker; \<open>tc_rank\<close> orders a batch.
\<close>

type_synonym 's tool_executor = "bool \<Rightarrow> string \<Rightarrow> string \<Rightarrow> string \<Rightarrow> ('s, exec_result option) run"

record 's tool_config =
  tc_safety :: safety
  tc_permission :: "'s permission"
  tc_hooks :: "'s tool_hook list"
  tc_registry :: "tool list"
  tc_executor :: "'s tool_executor"
  tc_finalize :: "(bool \<Rightarrow> string \<Rightarrow> string \<Rightarrow> string \<Rightarrow> exec_result \<Rightarrow> ('s, unit) act) option"
  tc_notify :: "string \<Rightarrow> ('s, unit) act"
  tc_rank :: "nat \<Rightarrow> nat"

record tool_exec =
  tx_id :: string
  tx_name :: string
  tx_output :: string
  tx_is_error :: bool
  tx_duration :: int
  tx_mutation :: "file_mutation option"

definition tool_exec_zero :: tool_exec where
  "tool_exec_zero = \<lparr>tx_id = '''', tx_name = '''', tx_output = '''', tx_is_error = False, tx_duration = 0,
     tx_mutation = None\<rparr>"

definition refused :: "tool_use \<Rightarrow> string \<Rightarrow> tool_exec" where
  "refused c msg = tool_exec_zero\<lparr>tx_id := tu_id c, tx_output := msg, tx_is_error := True\<rparr>"

text \<open>What becomes of one call: \<open>None\<close> when it is approved, and its result when it is not.\<close>

definition approve_call :: "'s tool_config \<Rightarrow> tool_use \<Rightarrow> ('s, tool_exec option) run" where
  "approve_call a c =
     andthen (wrap_act ''permission check'' (permission_Check (tc_safety a) (tc_permission a) (tu_name c) (tu_input c)))
       (\<lambda>allowed.
        if \<not> allowed then give (Some (refused c (''permission denied for tool '' @ quoted (tu_name c))))
        else
          bind (wrap_act ''pre-tool hook'' (RunPreToolUse (tc_hooks a) (tu_name c) (tu_input c))) (\<lambda>h.
          give (if fst h = HookDeny
                then Some (refused c (''hook denied tool '' @ quoted (tu_name c) @ '': '' @ snd h))
                else None)))"

type_synonym approved = "tool_use \<times> nat"

fun collect_from ::
  "'s tool_config \<Rightarrow> nat \<Rightarrow> tool_use list \<Rightarrow> tool_exec list \<Rightarrow> approved list \<Rightarrow> ('s, tool_exec list \<times> approved list) run" where
  "collect_from a i [] results approved = give (results, approved)"
| "collect_from a i (c # cs) results approved =
     andthen (approve_call a c) (\<lambda>r.
     case r of
       Some x \<Rightarrow> collect_from a (Suc i) cs (results @ [x]) approved
     | None \<Rightarrow> collect_from a (Suc i) cs (results @ [tool_exec_zero]) (approved @ [(c, i)]))"

definition collectApprovedToolCalls ::
  "'s tool_config \<Rightarrow> tool_use list \<Rightarrow> ('s, tool_exec list \<times> approved list) run" where
  "collectApprovedToolCalls a calls = collect_from a 0 calls [] []"

section \<open>Batches\<close>

record sched_call =
  sch_call :: tool_use
  sch_index :: nat
  sch_safe :: bool
  sch_scope :: tool_scope
  sch_cancel :: bool

definition scheduled :: "tool list \<Rightarrow> approved \<Rightarrow> sched_call" where
  "scheduled reg ap =
     (case reg_Get reg (tu_name (fst ap)) of
        None \<Rightarrow> \<lparr>sch_call = fst ap, sch_index = snd ap, sch_safe = False, sch_scope = ConservativeScope, sch_cancel = False\<rparr>
      | Some t \<Rightarrow> \<lparr>sch_call = fst ap, sch_index = snd ap, sch_safe = tl_safe t (tu_input (fst ap)),
                  sch_scope = tl_scope t (tu_input (fst ap)), sch_cancel = tl_cancel t\<rparr>)"

definition hasPathPrefix :: "string \<Rightarrow> string \<Rightarrow> bool" where
  "hasPathPrefix path pre =
     (case path_Rel pre path of
        None \<Rightarrow> False
      | Some rel \<Rightarrow> rel = ''.'' \<or> (rel \<noteq> ''..'' \<and> \<not> HasPrefix rel ''../''))"

definition pathsIntersect :: "string \<Rightarrow> string \<Rightarrow> bool" where
  "pathsIntersect pathA pathB \<longleftrightarrow>
     pathA = '''' \<or> pathB = '''' \<or>
     (let a = Clean pathA; b = Clean pathB in
      \<not> IsAbs a \<or> \<not> IsAbs b \<or> a = b \<or> hasPathPrefix a b \<or> hasPathPrefix b a)"

definition anyPairIntersects :: "string list \<Rightarrow> string list \<Rightarrow> bool" where
  "anyPairIntersects pathsA pathsB = list_ex (\<lambda>a. list_ex (pathsIntersect a) pathsB) pathsA"

definition isConservativeScope :: "tool_scope \<Rightarrow> bool" where
  "isConservativeScope s \<longleftrightarrow> sc_read s = [] \<and> sc_write s = [] \<and> sc_network s \<and> sc_persistent s"

definition scopeDisjoint :: "tool_scope \<Rightarrow> tool_scope \<Rightarrow> bool" where
  "scopeDisjoint a b \<longleftrightarrow>
     \<not> isConservativeScope a \<and> \<not> isConservativeScope b \<and>
     \<not> anyPairIntersects (sc_write a) (sc_write b) \<and> \<not> anyPairIntersects (sc_write a) (sc_read b) \<and>
     \<not> anyPairIntersects (sc_read a) (sc_write b)"

definition canRunTogether :: "sched_call \<Rightarrow> sched_call \<Rightarrow> bool" where
  "canRunTogether a b \<longleftrightarrow> (sch_safe a \<and> sch_safe b) \<or> scopeDisjoint (sch_scope a) (sch_scope b)"

definition canJoinBatch :: "sched_call \<Rightarrow> sched_call list \<Rightarrow> bool" where
  "canJoinBatch c current = list_all (canRunTogether c) current"

fun batches_from :: "sched_call list \<Rightarrow> sched_call list \<Rightarrow> sched_call list list" where
  "batches_from current [] = (if current = [] then [] else [current])"
| "batches_from current (c # cs) =
     (if current = [] \<or> canJoinBatch c current then batches_from (current @ [c]) cs
      else current # batches_from [c] cs)"

definition partitionToolCalls :: "tool list \<Rightarrow> approved list \<Rightarrow> sched_call list list" where
  "partitionToolCalls reg aps = batches_from [] (map (scheduled reg) aps)"

section \<open>Running a batch\<close>

record tool_stat =
  tst_calls :: nat
  tst_errors :: nat
  tst_total :: int

type_synonym tool_stats = "(string \<times> tool_stat) list"

definition mergeToolStat :: "string \<Rightarrow> int \<Rightarrow> bool \<Rightarrow> tool_stats \<Rightarrow> tool_stats" where
  "mergeToolStat name dur hadErr m =
     (let acc = (case map_of m name of None \<Rightarrow> \<lparr>tst_calls = 0, tst_errors = 0, tst_total = 0\<rparr> | Some t \<Rightarrow> t) in
      AList.update name
        (acc\<lparr>tst_calls := tst_calls acc + 1,
             tst_errors := tst_errors acc + (if hadErr then 1 else 0),
             tst_total := tst_total acc + dur\<rparr>) m)"

text \<open>What the executor's answer counts as, and the error that ends the batch when the tool asks for it.\<close>

definition exec_answer :: "err + exec_result option \<Rightarrow> exec_result" where
  "exec_answer r =
     (case r of
        Inl er \<Rightarrow> error_result (err_text er)
      | Inr None \<Rightarrow> error_result ''tool returned nil result''
      | Inr (Some x) \<Rightarrow> x)"

definition fatal_error :: "string \<Rightarrow> err + exec_result option \<Rightarrow> err option" where
  "fatal_error name r =
     (let what = ''tool execution failed: '' @ name in
      case r of
        Inl er \<Rightarrow> Some (EWrap what er)
      | Inr _ \<Rightarrow>
          (let x = exec_answer r; msg = TrimSpace (rs_output x) in
           if rs_is_error x then Some (EWrap what (EMsg (if msg = '''' then ''tool returned error'' else msg))) else None))"

text \<open>The end of a call that is not fatal: the hooks, and the finalizer's last word.\<close>

definition after_hooks ::
  "'s tool_config \<Rightarrow> bool \<Rightarrow> tool_use \<Rightarrow> exec_result \<Rightarrow> ('s, exec_result) act" where
  "after_hooks a cancelled c x =
     bind (attempt (RunPostToolUse (tc_hooks a) (tu_name c) (tu_input c) x)) (\<lambda>h.
     let y = (case h of Inl _ \<Rightarrow> x | Inr (y, _) \<Rightarrow> y) in
     case tc_finalize a of
       None \<Rightarrow> ret y
     | Some finalize \<Rightarrow>
         bind (attempt (finalize cancelled (tu_id c) (tu_name c) (tu_input c) y)) (\<lambda>f.
         ret (case f of
                Inl er \<Rightarrow> error_result (''tool result finalizer error: '' @ err_text er)
              | Inr _ \<Rightarrow> y)))"

record batch_state =
  bt_results :: "tool_exec list"
  bt_stats :: tool_stats
  bt_fatal :: "err option"

definition finish_call ::
  "'s tool_config \<Rightarrow> sched_call \<Rightarrow> int \<Rightarrow> err + exec_result option \<Rightarrow> batch_state \<Rightarrow> ('s, batch_state) act" where
  "finish_call a sc dur r b0 =
     (let c = sch_call sc; x = exec_answer r;
          b = b0\<lparr>bt_stats := mergeToolStat (tu_name c) dur (rs_is_error x) (bt_stats b0)\<rparr>
      in case (if sch_cancel sc then fatal_error (tu_name c) r else None) of
           Some er \<Rightarrow> ret (if bt_fatal b = None then b\<lparr>bt_fatal := Some er\<rparr> else b)
         | None \<Rightarrow>
             bind (after_hooks a (bt_fatal b \<noteq> None) c x) (\<lambda>y.
             ret (b\<lparr>bt_results := (bt_results b)[sch_index sc :=
               \<lparr>tx_id = tu_id c, tx_name = tu_name c, tx_output = rs_output y, tx_is_error = rs_is_error y,
                tx_duration = dur, tx_mutation = rx_mutation y\<rparr>]\<rparr>)))"

definition run_call :: "'s tool_config \<Rightarrow> sched_call \<Rightarrow> batch_state \<Rightarrow> ('s, batch_state) run" where
  "run_call a sc b =
     (let c = sch_call sc in
      bind now_ms (\<lambda>t0.
      andthen (attempt_run (tc_executor a (bt_fatal b \<noteq> None) (tu_id c) (tu_name c) (tu_input c))) (\<lambda>r.
      bind now_ms (\<lambda>t1.
      bind (attempt (tc_notify a (tu_name c))) (\<lambda>_.
      returns (finish_call a sc (t1 - t0) r b))))))"

fun run_calls :: "'s tool_config \<Rightarrow> sched_call list \<Rightarrow> batch_state \<Rightarrow> ('s, batch_state) run" where
  "run_calls a [] b = give b"
| "run_calls a (sc # scs) b = andthen (run_call a sc b) (run_calls a scs)"

definition executeToolBatch ::
  "'s tool_config \<Rightarrow> sched_call list \<Rightarrow> tool_exec list \<times> tool_stats \<Rightarrow> ('s, tool_exec list \<times> tool_stats) run" where
  "executeToolBatch a batch acc =
     andthen (run_calls a (sort_key (\<lambda>sc. tc_rank a (sch_index sc)) batch)
               \<lparr>bt_results = fst acc, bt_stats = snd acc, bt_fatal = None\<rparr>) (\<lambda>b.
     case bt_fatal b of Some er \<Rightarrow> fail er | None \<Rightarrow> give (bt_results b, bt_stats b))"

fun execute_batches ::
  "'s tool_config \<Rightarrow> sched_call list list \<Rightarrow> tool_exec list \<times> tool_stats \<Rightarrow> ('s, tool_exec list \<times> tool_stats) run" where
  "execute_batches a [] acc = give acc"
| "execute_batches a (batch # bs) acc = andthen (executeToolBatch a batch acc) (execute_batches a bs)"

definition executeApprovedToolCalls ::
  "'s tool_config \<Rightarrow> approved list \<Rightarrow> tool_exec list \<times> tool_stats \<Rightarrow> ('s, tool_exec list \<times> tool_stats) run" where
  "executeApprovedToolCalls a aps acc = execute_batches a (partitionToolCalls (tc_registry a) aps) acc"

section \<open>The verifier's footer\<close>

definition mutationVerifierFooterHeader :: string where
  "mutationVerifierFooterHeader = ''[Filesystem mutation verifier]''"

definition filterMutationRecords :: "file_mutation list \<Rightarrow> file_mutation list" where
  "filterMutationRecords ms = filter (\<lambda>m. \<not> (TrimSpace (fm_operation m) = '''' \<and> TrimSpace (fm_path m) = '''')) ms"

definition emptyAsUnknown :: "string \<Rightarrow> string" where
  "emptyAsUnknown v = (let t = TrimSpace v in if t = '''' then ''(unknown)'' else t)"

definition emptyAsNone :: "string \<Rightarrow> string" where
  "emptyAsNone v = (let t = TrimSpace v in if t = '''' then ''none'' else t)"

definition compactMutationDiagnosticError :: "string \<Rightarrow> string" where
  "compactMutationDiagnosticError v0 =
     (let v = map (\<lambda>c. if c = CHR 0x0A \<or> c = CHR 0x09 then CHR '' '' else c) (TrimSpace v0) in
      if v = '''' then ''(unknown)'' else if length v \<le> 96 then v else take 96 v @ ''...'')"

definition signed_itoa :: "int \<Rightarrow> string" where
  "signed_itoa n = (if n < 0 then itoa n else ''+'' @ itoa n)"

definition diagnostic_line :: "nat \<Rightarrow> mutation_diagnostic \<Rightarrow> string" where
  "diagnostic_line i d =
     '' new_diag_'' @ itoa (int (Suc i)) @ ''='' @ emptyAsUnknown (dg_source d) @ '':'' @ itoa (dg_line d) @ '':'' @
     itoa (dg_column d) @ '':'' @ compactMutationDiagnosticError (dg_error d)"

definition mutation_line :: "file_mutation \<Rightarrow> string" where
  "mutation_line m =
     ''- '' @ emptyAsUnknown (fm_operation m) @ '' '' @ emptyAsUnknown (fm_path m) @ '' changed='' @
     bool_text (fm_changed m) @ '' before_exists='' @ bool_text (fm_before_exists m) @ '' after_exists='' @
     bool_text (fm_after_exists m) @ '' lines='' @ itoa (fm_before_lines m) @ ''->'' @ itoa (fm_after_lines m) @
     '' line_delta='' @ signed_itoa (fm_line_delta m) @
     (if fm_before_hash m \<noteq> '''' \<or> fm_after_hash m \<noteq> ''''
      then '' hash='' @ emptyAsNone (fm_before_hash m) @ ''->'' @ emptyAsNone (fm_after_hash m) else '''') @
     (if fm_status m \<noteq> ''''
      then '' diagnostics='' @ fm_status m @ '' language='' @ emptyAsUnknown (fm_language m) @ '' new='' @
        itoa (fm_new_count m) @ '' existing='' @ itoa (fm_existing_count m) @ '' resolved='' @
        itoa (fm_resolved_count m) @
        concat (map (\<lambda>(i, d). diagnostic_line i d) (enumerate 0 (take 3 (fm_new_diagnostics m))))
      else '''') @
     (if fm_failure_family m \<noteq> '''' then '' failure_family='' @ fm_failure_family m else '''') @ [CHR 0x0A]"

definition formatMutationVerifierFooter :: "file_mutation list \<Rightarrow> string" where
  "formatMutationVerifierFooter ms0 =
     (let ms = filterMutationRecords ms0 in
      if ms = [] then ''''
      else mutationVerifierFooterHeader @ [CHR 0x0A] @ concat (map mutation_line ms) @
        ''Use this verified disk-delta evidence before claiming file changes. If an intended edit has no '' @
        ''matching changed=true mutation, continue with the smallest corrective action or report incomplete work.'')"

section \<open>A turn\<close>

definition toolExecResultMutations :: "tool_exec list \<Rightarrow> file_mutation list" where
  "toolExecResultMutations rs = List.map_filter tx_mutation rs"

definition append_result :: "message list \<Rightarrow> tool_exec \<Rightarrow> message list" where
  "append_result ms r = (if tx_id r = '''' then ms else AppendToolResult ms (tx_id r) (tx_output r) (tx_is_error r))"

definition appendToolResults :: "message list \<Rightarrow> tool_exec list \<Rightarrow> message list" where
  "appendToolResults ms rs =
     (let footer = formatMutationVerifierFooter (toolExecResultMutations (filter (\<lambda>r. tx_id r \<noteq> '''') rs));
          ms1 = foldl append_result ms rs
      in if footer \<noteq> '''' then ms1 @ [NewUserMessage footer] else ms1)"

text \<open>The messages, the statistics and the mutations of the turn.\<close>

definition executeToolsWithStats ::
  "'s tool_config \<Rightarrow> message list \<Rightarrow> tool_use list \<Rightarrow> tool_stats
     \<Rightarrow> ('s, message list \<times> tool_stats \<times> file_mutation list) run" where
  "executeToolsWithStats a ms calls stats =
     andthen (collectApprovedToolCalls a calls) (\<lambda>(results, approved).
     andthen (executeApprovedToolCalls a approved (results, stats)) (\<lambda>(results, stats).
     give (appendToolResults ms results, stats, toolExecResultMutations results)))"

section \<open>Only permitted calls run\<close>

text \<open>What the engine makes sure of, in a mode, before a call may run; the prompter's answer aside.\<close>

definition may_run :: "safety \<Rightarrow> 's permission \<Rightarrow> permission_mode \<Rightarrow> string \<Rightarrow> string \<Rightarrow> bool" where
  "may_run safety p m name input \<longleftrightarrow>
     name \<notin> set (pm_deny p) \<and>
     (m = ModeBypass \<or>
      (if name = ''bash'' \<and> isDangerousBashInput safety input = Some (Inr True) then pm_prompter p \<noteq> None
       else name \<in> set (pm_allow p) \<or> m \<noteq> ModePlan \<or> isReadOnly name))"

lemma andthen_Some:
  "andthen m k w i s = (Inr (Some b), j, s') \<longleftrightarrow>
     (\<exists>a i' s1. m w i s = (Inr (Some a), i', s1) \<and> k a w i' s1 = (Inr (Some b), j, s'))"
  by (auto simp: andthen_def bind_def never_def ret_def split: prod.splits sum.splits option.splits)

lemma bind_Inr:
  "bind m k w i s = (Inr b, j, s') \<longleftrightarrow> (\<exists>a i' s1. m w i s = (Inr a, i', s1) \<and> k a w i' s1 = (Inr b, j, s'))"
  by (auto simp: bind_def split: prod.splits sum.splits)

lemma give_Some: "give a w i s = (Inr (Some b), j, s') \<longleftrightarrow> b = a \<and> j = i \<and> s' = s"
  by (auto simp: give_def ret_def)

lemma never_Some [simp]: "never w i s \<noteq> (Inr (Some b), j, s')"
  by (simp add: never_def ret_def)

lemma wrap_act_Inr: "wrap_act x m w i s = (Inr a, j, s') \<longleftrightarrow> m w i s = (Inr a, j, s')"
  by (auto simp: wrap_act_def split: prod.splits)

lemmas run_simps = andthen_Some bind_Inr give_Some wrap_act_Inr

lemma andthen_cong:
  assumes "m w = m' w" and "\<And>a i j s s'. m w i s = (Inr (Some a), j, s') \<Longrightarrow> k a w = k' a w"
  shows "andthen m k w = andthen m' k' w"
  using assms by (auto simp: andthen_def bind_def fun_eq_iff split: prod.splits sum.splits option.splits)

lemma check_permitted:
  assumes "permission_Check safety p name input w i s = (Inr (Some True), j, s')" and "\<And>s. pm_mode p s = m"
  shows "may_run safety p m name input"
  using assms
  by (auto simp: permission_Check_def check_listed_def may_run_def run_simps look_def Let_def
      split: if_splits option.splits sum.splits bool.splits)

lemma approve_permitted:
  assumes "approve_call a c w i s = (Inr (Some None), j, s')" and "\<And>s. pm_mode (tc_permission a) s = m"
  shows "may_run (tc_safety a) (tc_permission a) m (tu_name c) (tu_input c)"
  using assms check_permitted[OF _ assms(2)] by (auto simp: approve_call_def run_simps split: if_splits)

lemma collect_permitted:
  assumes "collect_from a n cs rs aps w i s = (Inr (Some (rs', aps')), j, s')"
    and "\<And>s. pm_mode (tc_permission a) s = m"
    and "\<forall>(c, k) \<in> set aps. may_run (tc_safety a) (tc_permission a) m (tu_name c) (tu_input c)"
  shows "\<forall>(c, k) \<in> set aps'. may_run (tc_safety a) (tc_permission a) m (tu_name c) (tu_input c)"
  using assms(1,3)
proof (induction cs arbitrary: n rs aps i s)
  case (Cons c cs)
  from Cons.prems(1) obtain r i' s1 where r: "approve_call a c w i s = (Inr (Some r), i', s1)"
    and rest: "(case r of None \<Rightarrow> collect_from a (Suc n) cs (rs @ [tool_exec_zero]) (aps @ [(c, n)])
      | Some x \<Rightarrow> collect_from a (Suc n) cs (rs @ [x]) aps) w i' s1 = (Inr (Some (rs', aps')), j, s')"
    by (auto simp: andthen_Some)
  show ?case
  proof (cases r)
    case None
    with approve_permitted[OF _ assms(2)] r rest Cons.IH Cons.prems(2) show ?thesis by fastforce
  next
    case (Some x)
    with rest Cons.IH Cons.prems(2) show ?thesis by fastforce
  qed
qed (simp add: give_Some)

definition guarded_executor :: "'s tool_config \<Rightarrow> permission_mode \<Rightarrow> 's tool_executor" where
  "guarded_executor a m cancelled i name input =
     (if may_run (tc_safety a) (tc_permission a) m name input then tc_executor a cancelled i name input
      else fail (EMsg ''not permitted''))"

abbreviation with_guard :: "'s tool_config \<Rightarrow> permission_mode \<Rightarrow> 's tool_config" where
  "with_guard a m \<equiv> a\<lparr>tc_executor := guarded_executor a m\<rparr>"

lemma guard_outside:
  "approve_call (a\<lparr>tc_executor := e\<rparr>) = approve_call a"
  "after_hooks (a\<lparr>tc_executor := e\<rparr>) = after_hooks a"
  "finish_call (a\<lparr>tc_executor := e\<rparr>) = finish_call a"
proof -
  show hooks: "after_hooks (a\<lparr>tc_executor := e\<rparr>) = after_hooks a" by (intro ext) (simp add: after_hooks_def cong: option.case_cong)
  show "approve_call (a\<lparr>tc_executor := e\<rparr>) = approve_call a" by (intro ext) (simp add: approve_call_def cong: if_cong)
  show "finish_call (a\<lparr>tc_executor := e\<rparr>) = finish_call a" unfolding finish_call_def hooks ..
qed

lemma collect_guard: "collect_from (a\<lparr>tc_executor := e\<rparr>) n cs rs aps = collect_from a n cs rs aps"
  by (induction cs arbitrary: n rs aps) (simp_all add: guard_outside cong: option.case_cong)

definition call_permitted :: "'s tool_config \<Rightarrow> permission_mode \<Rightarrow> sched_call \<Rightarrow> bool" where
  "call_permitted a m sc \<longleftrightarrow>
     may_run (tc_safety a) (tc_permission a) m (tu_name (sch_call sc)) (tu_input (sch_call sc))"

lemma run_calls_guard:
  "list_all (call_permitted a m) scs \<Longrightarrow> run_calls (with_guard a m) scs = run_calls a scs"
proof (induction scs)
  case (Cons sc scs)
  then have "run_call (with_guard a m) sc = run_call a sc"
    by (simp add: run_call_def guard_outside guarded_executor_def call_permitted_def fun_eq_iff Let_def)
  with Cons show ?case by (intro ext) simp
qed (intro ext, simp)

lemma execute_batches_guard:
  "list_all (list_all (call_permitted a m)) bs \<Longrightarrow> execute_batches (with_guard a m) bs = execute_batches a bs"
proof (induction bs)
  case (Cons b bs)
  from Cons.prems have "executeToolBatch (with_guard a m) b = executeToolBatch a b"
    by (intro ext) (simp add: executeToolBatch_def run_calls_guard list_all_iff)
  with Cons show ?case by (intro ext) simp
qed (intro ext, simp)

lemma batches_concat: "concat (batches_from current cs) = current @ cs"
  by (induction current cs rule: batches_from.induct) auto

lemma scheduled_fields [simp]: "sch_call (scheduled reg ap) = fst ap" "sch_index (scheduled reg ap) = snd ap"
  by (simp_all add: scheduled_def split: option.splits)

lemma partition_calls:
  "list_all (list_all P) (partitionToolCalls reg aps) \<longleftrightarrow> list_all (\<lambda>ap. P (scheduled reg ap)) aps"
proof -
  have "list_all (list_all P) bs = list_all P (concat bs)" for bs :: "sched_call list list"
    by (induction bs) auto
  then show ?thesis by (simp only: partitionToolCalls_def batches_concat append_Nil list.pred_map comp_def)
qed

lemma execute_guard:
  assumes "\<And>s. pm_mode (tc_permission a) s = m"
  shows "executeToolsWithStats (with_guard a m) ms calls stats w = executeToolsWithStats a ms calls stats w"
proof -
  have "execute_batches (with_guard a m) (partitionToolCalls (tc_registry a) aps) acc =
      execute_batches a (partitionToolCalls (tc_registry a) aps) acc"
    if "collect_from a 0 calls [] [] w i s = (Inr (Some (rs, aps)), j, s')" for rs aps i s j s' acc
  proof -
    have "list_all (list_all (call_permitted a m)) (partitionToolCalls (tc_registry a) aps)"
      unfolding partition_calls using collect_permitted[OF that assms]
      by (auto simp: call_permitted_def list_all_iff)
    then show ?thesis by (simp add: execute_batches_guard)
  qed
  then show ?thesis
    unfolding executeToolsWithStats_def collectApprovedToolCalls_def executeApprovedToolCalls_def collect_guard
    by (intro andthen_cong) auto
qed

section \<open>Every call is answered\<close>

text \<open>After some calls: a call waits among the approved ones, at its place, or has its result.\<close>

definition collected :: "tool_use list \<Rightarrow> tool_exec list \<Rightarrow> approved list \<Rightarrow> bool" where
  "collected before rs aps \<longleftrightarrow>
     length rs = length before \<and> (\<forall>(c, k) \<in> set aps. k < length before \<and> c = before ! k) \<and>
     (\<forall>k < length before. k \<in> snd ` set aps \<or> tx_id (rs ! k) = tu_id (before ! k))"

lemma collected_step:
  assumes "collected before rs aps"
  shows "tx_id x = tu_id c \<Longrightarrow> collected (before @ [c]) (rs @ [x]) aps"
    "collected (before @ [c]) (rs @ [x]) (aps @ [(c, length before)])"
  using assms by (fastforce simp: collected_def nth_append less_Suc_eq split: prod.splits)+

lemma approve_id: "approve_call a c w i s = (Inr (Some (Some x)), j, s') \<Longrightarrow> tx_id x = tu_id c"
  by (auto simp: approve_call_def run_simps refused_def split: if_splits)

lemma collect_collected:
  "collect_from a (length before) cs rs aps w i s = (Inr (Some (rs', aps')), j, s') \<Longrightarrow> collected before rs aps \<Longrightarrow>
     collected (before @ cs) rs' aps'"
proof (induction cs arbitrary: before rs aps i s)
  case (Cons c cs)
  from Cons.prems(1) obtain r i' s1 where r: "approve_call a c w i s = (Inr (Some r), i', s1)"
    and rest: "(case r of None \<Rightarrow> collect_from a (Suc (length before)) cs (rs @ [tool_exec_zero]) (aps @ [(c, length before)])
      | Some x \<Rightarrow> collect_from a (Suc (length before)) cs (rs @ [x]) aps) w i' s1 = (Inr (Some (rs', aps')), j, s')"
    by (auto simp: andthen_Some)
  note IH = Cons.IH[of "before @ [c]", simplified]
  show ?case
  proof (cases r)
    case None
    with rest IH[OF _ collected_step(2)[OF Cons.prems(2)]] show ?thesis by simp
  next
    case (Some x)
    have "tx_id x = tu_id c" using r unfolding Some by (rule approve_id)
    with Some rest IH[OF _ collected_step(1)[OF Cons.prems(2)]] show ?thesis by simp
  qed
qed (simp add: give_Some)

text \<open>The ids among the results after some calls have run.\<close>

definition ids_after :: "string list \<Rightarrow> sched_call list \<Rightarrow> string list" where
  "ids_after ids scs = foldl (\<lambda>ids sc. ids[sch_index sc := tu_id (sch_call sc)]) ids scs"

lemma ids_after_simps [simp]:
  "ids_after ids [] = ids"
  "ids_after ids (sc # scs) = ids_after (ids[sch_index sc := tu_id (sch_call sc)]) scs"
  by (simp_all add: ids_after_def)

lemma finish_call_ids:
  assumes "finish_call a sc dur r b w i s = (Inr b', j, s')" and "bt_fatal b' = None"
  shows "bt_fatal b = None \<and> map tx_id (bt_results b') = ids_after (map tx_id (bt_results b)) [sc]"
  using assms by (auto simp: finish_call_def Let_def bind_Inr ret_def map_update split: option.splits if_splits)

lemma run_calls_ids:
  "run_calls a scs b w i s = (Inr (Some b'), j, s') \<Longrightarrow> bt_fatal b' = None \<Longrightarrow>
     bt_fatal b = None \<and> map tx_id (bt_results b') = ids_after (map tx_id (bt_results b)) scs"
proof (induction scs arbitrary: b i s)
  case (Cons sc scs)
  from Cons.prems(1) obtain b1 i1 s1 where one: "run_call a sc b w i s = (Inr (Some b1), i1, s1)"
    and rest: "run_calls a scs b1 w i1 s1 = (Inr (Some b'), j, s')" by (auto simp: andthen_Some)
  from Cons.IH[OF rest Cons.prems(2)] have b1: "bt_fatal b1 = None"
    "map tx_id (bt_results b') = ids_after (map tx_id (bt_results b1)) scs" by auto
  from one have "\<exists>dur r i' s'. finish_call a sc dur r b w i' s' = (Inr b1, i1, s1)"
    by (auto simp: run_call_def Let_def run_simps returns_def)
  with finish_call_ids[OF _ b1(1)] b1(2) show ?case by fastforce
qed (simp add: give_Some)

lemma ids_after_nth:
  assumes "\<forall>sc \<in> set scs. sch_index sc < length K \<longrightarrow> tu_id (sch_call sc) = K ! sch_index sc"
    and "length ids = length K" and "k < length K" and "k \<in> sch_index ` set scs \<or> ids ! k = K ! k"
  shows "ids_after ids scs ! k = K ! k"
  using assms
proof (induction scs arbitrary: ids)
  case (Cons sc scs)
  let ?ids = "ids[sch_index sc := tu_id (sch_call sc)]"
  have "ids_after ?ids scs ! k = K ! k"
    by (rule Cons.IH) (use Cons.prems in \<open>cases "k = sch_index sc"; auto\<close>)+
  then show ?case by simp
qed simp

lemma ids_after_length [simp]: "length (ids_after ids scs) = length ids"
  by (induction scs arbitrary: ids) auto

lemma executeToolBatch_ids:
  assumes "executeToolBatch a batch (rs, st) w i s = (Inr (Some (rs', st')), j, s')"
  shows "\<exists>scs. set scs = set batch \<and> map tx_id rs' = ids_after (map tx_id rs) scs"
proof -
  let ?scs = "sort_key (\<lambda>sc. tc_rank a (sch_index sc)) batch"
  from assms obtain b i1 s1 where
    "run_calls a ?scs \<lparr>bt_results = rs, bt_stats = st, bt_fatal = None\<rparr> w i s = (Inr (Some b), i1, s1)"
    "bt_fatal b = None" "rs' = bt_results b"
    by (auto simp: executeToolBatch_def andthen_Some give_Some fail_def split: option.splits)
  with run_calls_ids show ?thesis by (intro exI[of _ ?scs]) fastforce
qed

lemma execute_batches_ids:
  "execute_batches a bs (rs, st) w i s = (Inr (Some (rs', st')), j, s') \<Longrightarrow>
     \<exists>scs. set scs = set (concat bs) \<and> map tx_id rs' = ids_after (map tx_id rs) scs"
proof (induction bs arbitrary: rs st i s)
  case (Cons b bs)
  from Cons.prems obtain rs1 st1 i1 s1 where one: "executeToolBatch a b (rs, st) w i s = (Inr (Some (rs1, st1)), i1, s1)"
    and rest: "execute_batches a bs (rs1, st1) w i1 s1 = (Inr (Some (rs', st')), j, s')"
    by (auto simp: andthen_Some)
  from executeToolBatch_ids[OF one] Cons.IH[OF rest] obtain xs ys where
    "set xs = set b" "map tx_id rs1 = ids_after (map tx_id rs) xs" "set ys = set (concat bs)"
    "map tx_id rs' = ids_after (map tx_id rs1) ys" by blast
  then show ?case by (intro exI[of _ "xs @ ys"]) (simp add: ids_after_def)
qed (auto simp: give_Some intro: exI[of _ "[]"])

lemma executed_ids:
  assumes "collectApprovedToolCalls a calls w i s = (Inr (Some (rs, aps)), i', s1)"
    and "executeApprovedToolCalls a aps (rs, st) w i' s1 = (Inr (Some (rs', st')), j, s')"
  shows "map tx_id rs' = map tu_id calls"
proof -
  have col: "collected calls rs aps"
    using collect_collected[of a "[]" calls "[]" "[]"] assms(1) by (simp add: collectApprovedToolCalls_def collected_def)
  from execute_batches_ids[OF assms(2)[unfolded executeApprovedToolCalls_def]]
  obtain scs where scs: "set scs = scheduled (tc_registry a) ` set aps" "map tx_id rs' = ids_after (map tx_id rs) scs"
    by (auto simp: partitionToolCalls_def batches_concat)
  have len: "length rs' = length calls" using arg_cong[OF scs(2), of length] col by (simp add: collected_def)
  have "map tx_id rs' ! k = tu_id (calls ! k)" if "k < length calls" for k
    using ids_after_nth[of scs "map tu_id calls" "map tx_id rs" k] col that scs
    by (fastforce simp: collected_def image_iff)
  with len show ?thesis by (intro nth_equalityI) auto
qed

text \<open>
  A conversation in which every call that has an id is answered: the message after it is the user's, and its
  results are for just these calls, in their order.
\<close>

definition result_id :: "block \<Rightarrow> string list" where
  "result_id b = (case b of ToolResultBlock i _ _ \<Rightarrow> [i] | _ \<Rightarrow> [])"

definition result_ids :: "message \<Rightarrow> string list" where
  "result_ids m = concat (map result_id (ms_content m))"

definition asked_ids :: "message \<Rightarrow> string list" where
  "asked_ids m =
     (if ms_role m = RoleAssistant then filter (\<lambda>i. i \<noteq> '''') (map tu_id (ExtractToolUseBlocks m)) else [])"

fun calls_answered :: "message list \<Rightarrow> bool" where
  "calls_answered [] = True"
| "calls_answered (m # ms) \<longleftrightarrow>
     (asked_ids m \<noteq> [] \<longrightarrow> (case ms of [] \<Rightarrow> False | r # _ \<Rightarrow> ms_role r = RoleUser \<and> result_ids r = asked_ids m)) \<and>
     calls_answered ms"

definition result_block :: "tool_exec \<Rightarrow> block" where
  "result_block r = ToolResultBlock (tx_id r) (tx_output r) (tx_is_error r)"

abbreviation has_id :: "tool_exec \<Rightarrow> bool" where
  "has_id r \<equiv> tx_id r \<noteq> ''''"

lemma append_more:
  "ms_role m = RoleUser \<Longrightarrow> hasToolResults m \<Longrightarrow>
     foldl append_result (ms @ [m]) rs = ms @ [m\<lparr>ms_content := ms_content m @ map result_block (filter has_id rs)\<rparr>]"
proof (induction rs arbitrary: m)
  case (Cons r rs)
  show ?case
  proof (cases "has_id r")
    case True
    let ?m = "m\<lparr>ms_content := ms_content m @ [result_block r]\<rparr>"
    have "append_result (ms @ [m]) r = ms @ [?m]"
      using True Cons.prems by (simp add: append_result_def AppendToolResult_def result_block_def)
    moreover have "hasToolResults ?m" using Cons.prems(2) by (simp add: hasToolResults_def)
    ultimately show ?thesis using Cons.IH[of ?m] Cons.prems(1) True by simp
  qed (use Cons in \<open>simp add: append_result_def\<close>)
qed simp

lemma append_results:
  assumes "ms \<noteq> [] \<Longrightarrow> ms_role (last ms) \<noteq> RoleUser"
  shows "foldl append_result ms rs =
    ms @ (if filter has_id rs = [] then []
          else [\<lparr>ms_role = RoleUser, ms_source = '''', ms_content = map result_block (filter has_id rs)\<rparr>])"
proof (induction rs)
  case (Cons r rs)
  show ?case
  proof (cases "has_id r")
    case True
    then have "append_result ms r = ms @ [NewToolResultMessage (tx_id r) (tx_output r) (tx_is_error r)]"
      using assms by (auto simp: append_result_def AppendToolResult_def)
    moreover have "hasToolResults (NewToolResultMessage i c e)" "ms_role (NewToolResultMessage i c e) = RoleUser" for i c e
      by (simp_all add: hasToolResults_def NewToolResultMessage_def)
    ultimately show ?thesis
      using True append_more by (simp add: NewToolResultMessage_def result_block_def)
  qed (use Cons in \<open>simp add: append_result_def\<close>)
qed simp

lemma answered_append: "calls_answered ms \<Longrightarrow> calls_answered ms' \<Longrightarrow> calls_answered (ms @ ms')"
  by (induction ms rule: calls_answered.induct) (auto split: list.splits simp: neq_Nil_conv)

lemma answered_user: "ms_role m = RoleUser \<Longrightarrow> calls_answered [m]"
  by (simp add: asked_ids_def)

lemma result_ids_blocks: "concat (map result_id (map result_block rs)) = map tx_id rs"
  by (induction rs) (simp_all add: result_id_def result_block_def)

lemma append_answered:
  assumes "calls_answered ms" and "ms_role m = RoleAssistant" and "map tx_id rs = map tu_id (ExtractToolUseBlocks m)"
  shows "calls_answered (appendToolResults (ms @ [m]) rs)"
proof -
  have ids: "asked_ids m = map tx_id (filter has_id rs)"
    by (simp add: asked_ids_def assms(2) flip: assms(3)) (simp add: filter_map comp_def)
  have blocks: "concat (map (result_id \<circ> result_block) (filter has_id rs)) = asked_ids m"
    using result_ids_blocks[of "filter has_id rs"] by (simp add: ids)
  have "calls_answered (foldl append_result (ms @ [m]) rs)"
    using append_results[of "ms @ [m]" rs] assms
    by (auto simp: result_ids_def blocks ids asked_ids_def[of "message.make _ _ _", unfolded message.defs]
        intro!: answered_append)
  then show ?thesis
    by (auto simp: appendToolResults_def Let_def NewUserMessage_def NewTextMessage_def
        intro!: answered_append answered_user)
qed

lemma execute_answered:
  assumes "executeToolsWithStats a (ms @ [m]) (ExtractToolUseBlocks m) st w i s = (Inr (Some (ms', st', mu)), j, s')"
    and "calls_answered ms" and "ms_role m = RoleAssistant"
  shows "calls_answered ms'"
  using assms executed_ids append_answered
  by (fastforce simp: executeToolsWithStats_def andthen_Some give_Some)

section \<open>What runs together\<close>

lemma batches_together:
  "sorted_wrt (\<lambda>x y. canRunTogether y x) current \<Longrightarrow> b \<in> set (batches_from current cs) \<Longrightarrow>
     sorted_wrt (\<lambda>x y. canRunTogether y x) b"
  by (induction current cs rule: batches_from.induct)
    (auto simp: canJoinBatch_def list_all_iff sorted_wrt_append split: if_splits)

text \<open>The batches hold the calls in their order, and of two calls of a batch the later can run with the earlier.\<close>

lemma partition_together:
  "concat (partitionToolCalls reg aps) = map (scheduled reg) aps \<and>
   (\<forall>b \<in> set (partitionToolCalls reg aps). sorted_wrt (\<lambda>x y. canRunTogether y x) b)"
  using batches_together[of "[]"] by (auto simp: partitionToolCalls_def batches_concat)

end
