(* ===== verification/Agent_Loop.thy ===== *)
theory Agent_Loop
  imports Agent_Tools Error_Class "HOL-Library.List_Lexorder"
begin

text \<open>
  The loop of the agent, \<open>internal/agent/agent.go\<close>: a message to the model, the tools it asks for, and again,
  until the model stops or the iterations are used up; the calls of the provider with their retries, the
  compression of long histories, the effort asked of the model (\<open>reasoning_effort.go\<close>), the tools whose schemas
  are shown on demand and the reflection at the end.  The provider is a parameter: the events it streams, what
  it answers, and what is known of its errors.  \<open>None\<close> as the value of a run is one that does not return.
  The schedule of retries and all telemetry are not modelled, nor is the sharing of message contents with the
  slices of the caller, which the attenuation of old results changes as well.
\<close>

section \<open>Reasoning effort\<close>

definition criticalKeywords :: "string list" where
  "criticalKeywords = [
     ''root cause'', ''security'', ''threat model'', ''architecture'', ''race condition'', ''critical'',
     ''autonomous'']"

definition effortWorkKeywords :: "string list" where
  "effortWorkKeywords = [
     ''implement'', ''refactor'', ''debug'', ''repair'', ''fix'', ''benchmark'', ''v8'', ''pull request'',
     ''merge'', ''ci'', ''test'', ''daemon'', ''provider'', ''policy'',
     [CHR 0xEA, CHR 0xB5, CHR 0xAC, CHR 0xED, CHR 0x98, CHR 0x84],
     [CHR 0xEC, CHR 0x88, CHR 0x98, CHR 0xEC, CHR 0xA0, CHR 0x95],
     [CHR 0xEA, CHR 0xB3, CHR 0xA0, CHR 0xEC, CHR 0xB3, CHR 0x90],
     [CHR 0xEB, CHR 0x94, CHR 0x94, CHR 0xEB, CHR 0xB2, CHR 0x84, CHR 0xEA, CHR 0xB7, CHR 0xB8],
     [CHR 0xEB, CHR 0xB2, CHR 0xA4, CHR 0xEC, CHR 0xB9, CHR 0x98, CHR 0xEB, CHR 0xA7, CHR 0x88, CHR 0xED, CHR 0x81, CHR 0xAC],
     [CHR 0xEB, CHR 0xB9, CHR 0x84, CHR 0xEA, CHR 0xB5, CHR 0x90],
     [CHR 0xEB, CHR 0xA8, CHR 0xB8, CHR 0xEC, CHR 0xA7, CHR 0x80],
     [CHR 0xED, CHR 0x85, CHR 0x8C, CHR 0xEC, CHR 0x8A, CHR 0xA4, CHR 0xED, CHR 0x8A, CHR 0xB8],
     [CHR 0xEC, CHR 0x9E, CHR 0x90, CHR 0xEC, CHR 0x9C, CHR 0xA8]]"

definition simpleStatusKeywords :: "string list" where
  "simpleStatusKeywords = [
     ''what'', ''when'', ''where'', ''who'', ''translate'', ''summarize'', ''progress'', ''percentage'',
     ''percent'', ''completion'', ''status'', ''time'', ''date'',
     [CHR 0xEA, CHR 0xB0, CHR 0x84, CHR 0xEB, CHR 0x8B, CHR 0xA8],
     [CHR 0xEB, CHR 0xB2, CHR 0x88, CHR 0xEC, CHR 0x97, CHR 0xAD],
     [CHR 0xEC, CHR 0x9A, CHR 0x94, CHR 0xEC, CHR 0x95, CHR 0xBD],
     [CHR 0xEC, CHR 0xA7, CHR 0x84, CHR 0xED, CHR 0x96, CHR 0x89, CHR 0xEB, CHR 0x8F, CHR 0x84],
     [CHR 0xEC, CHR 0x99, CHR 0x84, CHR 0xEC, CHR 0x84, CHR 0xB1, CHR 0xEB, CHR 0x8F, CHR 0x84],
     [CHR 0xED, CHR 0x8D, CHR 0xBC, CHR 0xEC, CHR 0x84, CHR 0xBC, CHR 0xED, CHR 0x8A, CHR 0xB8],
     [CHR 0xED, CHR 0x8D, CHR 0xBC, CHR 0xEC, CHR 0x84, CHR 0xBC, CHR 0xED, CHR 0x8B, CHR 0xB0, CHR 0xEC, CHR 0xA7, CHR 0x80],
     [CHR 0xEC, CHR 0x83, CHR 0x81, CHR 0xED, CHR 0x83, CHR 0x9C]]"

definition workActionKeywords :: "string list" where
  "workActionKeywords = [
     ''implement'', ''refactor'', ''debug'', ''diagnose'', ''repair'', ''fix'', ''run'', ''rerun'',
     ''execute'', ''merge'', ''baseline'', ''failure'', ''failing'', ''failed'', ''error'', ''broken'',
     ''regression'', ''timeout'', [CHR 0xEA, CHR 0xB5, CHR 0xAC, CHR 0xED, CHR 0x98, CHR 0x84],
     [CHR 0xEC, CHR 0x88, CHR 0x98, CHR 0xEC, CHR 0xA0, CHR 0x95],
     [CHR 0xEA, CHR 0xB3, CHR 0xA0, CHR 0xEC, CHR 0xB3, CHR 0x90],
     [CHR 0xEB, CHR 0x94, CHR 0x94, CHR 0xEB, CHR 0xB2, CHR 0x84, CHR 0xEA, CHR 0xB7, CHR 0xB8],
     [CHR 0xEC, CHR 0xA7, CHR 0x84, CHR 0xEB, CHR 0x8B, CHR 0xA8],
     [CHR 0xEB, CHR 0x8F, CHR 0x8C, CHR 0xEB, CHR 0xA0, CHR 0xA4],
     [CHR 0xEC, CHR 0x8B, CHR 0xA4, CHR 0xED, CHR 0x96, CHR 0x89],
     [CHR 0xEC, CHR 0x9E, CHR 0xAC, CHR 0xEC, CHR 0x8B, CHR 0xA4, CHR 0xED, CHR 0x96, CHR 0x89],
     [CHR 0xEB, CHR 0xA8, CHR 0xB8, CHR 0xEC, CHR 0xA7, CHR 0x80],
     [CHR 0xEC, CHR 0x8B, CHR 0xA4, CHR 0xED, CHR 0x8C, CHR 0xA8],
     [CHR 0xEC, CHR 0x97, CHR 0x90, CHR 0xEB, CHR 0x9F, CHR 0xAC],
     [CHR 0xEC, CHR 0x98, CHR 0xA4, CHR 0xEB, CHR 0xA5, CHR 0x98],
     [CHR 0xEB, CHR 0xAC, CHR 0xB8, CHR 0xEC, CHR 0xA0, CHR 0x9C],
     [CHR 0xEC, CHR 0x9B, CHR 0x90, CHR 0xEC, CHR 0x9D, CHR 0xB8]]"

definition questionWords :: "string list" where
  "questionWords = [
     ''why'', ''how'', [CHR 0xEB, CHR 0xAD, CHR 0x90], [CHR 0xEC, CHR 0x99, CHR 0x9C],
     [CHR 0xEC, CHR 0x96, CHR 0xB4, CHR 0xEB, CHR 0x96, CHR 0xBB, CHR 0xEA, CHR 0xB2, CHR 0x8C],
     [CHR 0xEB, CHR 0xA7, CHR 0x9E, CHR 0xEC, CHR 0x95, CHR 0x84],
     [CHR 0xEC, CHR 0x9D, CHR 0xB8, CHR 0xEA, CHR 0xB0, CHR 0x80],
     [CHR 0xEA, CHR 0xB1, CHR 0xB0, CHR 0xEC, CHR 0x95, CHR 0xBC]]"


definition isQuestionLike :: "string \<Rightarrow> bool" where
  "isQuestionLike text \<longleftrightarrow> CHR ''?'' \<in> set text \<or> containsAny text questionWords"

text \<open>The last text a user wrote.\<close>

fun last_user_text :: "message list \<Rightarrow> string" where
  "last_user_text [] = ''''"
| "last_user_text (m # rev_ms) =
     (if ms_role m = RoleUser \<and> TrimSpace (message_Text m) \<noteq> '''' then TrimSpace (message_Text m)
      else last_user_text rev_ms)"

definition userTaskText :: "message list \<Rightarrow> string" where
  "userTaskText ms = last_user_text (rev ms)"

record effort_decision =
  ef_effort :: string
  ef_mode :: string
  ef_reason :: string

definition effort :: "string \<Rightarrow> string \<Rightarrow> effort_decision" where
  "effort e reason = \<lparr>ef_effort = e, ef_mode = '''', ef_reason = reason\<rparr>"

definition autoReasoningEffortDecision :: "message list \<Rightarrow> effort_decision" where
  "autoReasoningEffortDecision ms =
     (let text = ToLower (TrimSpace (userTaskText ms)) in
      if text = '''' then effort '''' ''empty_task''
      else if containsAny text criticalKeywords then effort ''xhigh'' ''critical_keyword''
      else if length text > 600 then effort ''high'' ''long_task''
      else if length text \<le> 180 \<and> (isQuestionLike text \<or> containsAny text simpleStatusKeywords) \<and>
        \<not> containsAny text workActionKeywords then effort ''low'' ''simple_keyword''
      else if containsAny text effortWorkKeywords then effort ''high'' ''work_keyword''
      else if length text \<le> 160 \<and> containsAny text simpleStatusKeywords then effort ''low'' ''simple_keyword''
      else effort ''medium'' ''default_medium'')"

text \<open>\<open>caps\<close> is the provider's capability: empty for one that takes an effort.\<close>

definition providerUnsupportedAutoEffort :: "string \<Rightarrow> string" where
  "providerUnsupportedAutoEffort caps =
     (if caps = ''ignored'' then ''provider_effort_ignored''
      else if caps = ''unsupported'' then ''provider_effort_unsupported''
      else if caps = ''thinking_budget_only'' then ''provider_effort_thinking_budget_only''
      else '''')"

definition auto_effort :: "string \<Rightarrow> string \<Rightarrow> string \<Rightarrow> effort_decision" where
  "auto_effort caps e reason =
     (let unsupported = providerUnsupportedAutoEffort caps in
      if unsupported \<noteq> '''' then \<lparr>ef_effort = '''', ef_mode = ''auto'', ef_reason = unsupported\<rparr>
      else \<lparr>ef_effort = e, ef_mode = ''auto'', ef_reason = reason\<rparr>)"

definition resolveReasoningEffortDecision :: "string \<Rightarrow> string \<Rightarrow> string \<Rightarrow> message list \<Rightarrow> effort_decision" where
  "resolveReasoningEffortDecision caps mode configured ms =
     (if ToLower (TrimSpace mode) = ''auto'' then
        (let d = autoReasoningEffortDecision ms in
         if ef_effort d \<noteq> '''' then auto_effort caps (ef_effort d) (ef_reason d)
         else if TrimSpace configured \<noteq> '''' then auto_effort caps (TrimSpace configured) ''configured_fallback''
         else auto_effort caps ''medium'' ''empty_task_default'')
      else \<lparr>ef_effort = TrimSpace configured, ef_mode = ''manual'', ef_reason = ''manual''\<rparr>)"

section \<open>Tools shown on demand\<close>

record tool_def =
  tdf_name :: string
  tdf_description :: string
  tdf_schema :: string

definition ToolSearchName :: string where "ToolSearchName = ''tool_search''"

definition ToolSchemaDeferReason :: "tool \<Rightarrow> string" where
  "ToolSchemaDeferReason t =
     (if tl_name t = ToolSearchName then ''''
      else if HasPrefix (tl_name t) ''mcp_'' then ''mcp_prefix''
      else if tl_defers t then ''tool_declared_deferred'' else '''')"

definition ShouldDeferToolSchema :: "tool \<Rightarrow> bool" where
  "ShouldDeferToolSchema t \<longleftrightarrow> ToolSchemaDeferReason t \<noteq> ''''"

definition shouldHideDeferredTool :: "tool \<Rightarrow> string list \<Rightarrow> bool" where
  "shouldHideDeferredTool t loaded \<longleftrightarrow> ShouldDeferToolSchema t \<and> tl_name t \<notin> set loaded"

definition hasToolSearch :: "tool list \<Rightarrow> bool" where
  "hasToolSearch all = list_ex (\<lambda>t. tl_name t = ToolSearchName) all"

definition ToolExposureSearchFirst :: string where "ToolExposureSearchFirst = ''search_first''"

definition buildToolDefsWithLoaded :: "tool list \<Rightarrow> string \<Rightarrow> string list \<Rightarrow> tool_def list" where
  "buildToolDefsWithLoaded reg mode loaded =
     (let search = (mode = ToolExposureSearchFirst \<and> hasToolSearch reg) in
      sort_key tdf_name
        (map (\<lambda>t. \<lparr>tdf_name = tl_name t, tdf_description = tl_description t, tdf_schema = tl_schema t\<rparr>)
          (filter (\<lambda>t. \<not> (search \<and> shouldHideDeferredTool t loaded)) reg)))"

text \<open>The names in the matches a search answered with.\<close>

definition set_match_name :: "string \<Rightarrow> json \<Rightarrow> string \<Rightarrow> string \<times> bool" where
  "set_match_name k v name = (if k = ''name'' then dec_string v name else (name, True))"

definition match_names :: "json \<Rightarrow> string list \<times> bool" where
  "match_names j =
     (case j of
        JArr js \<Rightarrow> (map (\<lambda>x. fst (dec_struct set_match_name x '''')) js,
                    list_all (\<lambda>x. snd (dec_struct set_match_name x '''')) js)
      | JNull \<Rightarrow> ([], True)
      | _ \<Rightarrow> ([], False))"

definition set_matches :: "string \<Rightarrow> json \<Rightarrow> string list \<Rightarrow> string list \<times> bool" where
  "set_matches k v names =
     (if k = ''matches'' then (case match_names v of (ns, ok) \<Rightarrow> (if ok \<or> ns \<noteq> [] then ns else names, ok))
      else (names, True))"

definition load_match :: "tool list \<Rightarrow> string \<Rightarrow> string list \<Rightarrow> string list" where
  "load_match reg name0 loaded =
     (let name = TrimSpace name0 in
      case (if name = '''' then None else reg_Get reg name) of
        None \<Rightarrow> loaded
      | Some t \<Rightarrow> if ShouldDeferToolSchema t then List.insert (tl_name t) loaded else loaded)"

definition addDeferredToolSearchMatches :: "tool list \<Rightarrow> string \<Rightarrow> string list \<Rightarrow> string list" where
  "addDeferredToolSearchMatches reg content loaded =
     (case unmarshal_struct set_matches [] content of
        (names, ok) \<Rightarrow> if ok then fold (load_match reg) names loaded else loaded)"

definition load_block :: "tool list \<Rightarrow> string list \<Rightarrow> block \<Rightarrow> string list \<Rightarrow> string list" where
  "load_block reg ids b loaded =
     (case b of
        ToolResultBlock i content isErr \<Rightarrow>
          if \<not> isErr \<and> i \<in> set ids then addDeferredToolSearchMatches reg content loaded else loaded
      | _ \<Rightarrow> loaded)"

definition updateLoadedDeferredTools :: "tool list \<Rightarrow> string list \<Rightarrow> tool_use list \<Rightarrow> message list \<Rightarrow> string list" where
  "updateLoadedDeferredTools reg loaded calls ms =
     (let ids = map tu_id (filter (\<lambda>c. tu_name c = ToolSearchName) calls) in
      if ids = [] then loaded
      else fold (\<lambda>m. fold (load_block reg ids) (ms_content m)) (filter (\<lambda>m. ms_role m = RoleUser) ms) loaded)"

section \<open>The status in an error\<close>

text \<open>
  The regular expressions look for a status between 400 and 599; each is read here from the left at every place
  of the text.  \<open>status_digits\<close> reads the three digits, \<open>prev\<close> says whether a word character precedes.
\<close>

definition re_space :: "char \<Rightarrow> bool" where
  "re_space c \<longleftrightarrow> c \<in> {CHR 0x09, CHR 0x0A, CHR 0x0C, CHR 0x0D, CHR '' ''}"

definition skip_re_space :: "string \<Rightarrow> string" where
  "skip_re_space s = dropWhile re_space s"

definition status_digits :: "string \<Rightarrow> (int \<times> string) option" where
  "status_digits s =
     (case s of
        a # b # c # rest \<Rightarrow>
          if a \<in> {CHR ''4'', CHR ''5''} \<and> is_digit b \<and> is_digit c
          then map_option (\<lambda>n. (n, rest)) (ParseInt [a, b, c]) else None
      | _ \<Rightarrow> None)"

definition status_word :: "string \<Rightarrow> int option" where
  "status_word s = (case status_digits s of Some (n, rest) \<Rightarrow> if starts_word rest then None else Some n | None \<Rightarrow> None)"

text \<open>One of the words at the front, and what follows it.\<close>

definition after_word :: "string list \<Rightarrow> string \<Rightarrow> string option" where
  "after_word ws s = map_option (\<lambda>w. drop (length w) s) (find (\<lambda>w. HasPrefix (ToLower s) w) ws)"

definition status_keyword_here :: "bool \<Rightarrow> string \<Rightarrow> int option" where
  "status_keyword_here prev s =
     (if prev then None
      else
        (case after_word [''http'', ''status'', ''code''] s of
           None \<Rightarrow> None
         | Some r \<Rightarrow>
             (let r1 = skip_re_space r;
                  r2 = (case r1 of c # cs \<Rightarrow> if c = CHR '':'' \<or> c = CHR ''='' then cs else r1 | [] \<Rightarrow> [])
              in status_word (skip_re_space r2))))"

definition status_paren_here :: "bool \<Rightarrow> string \<Rightarrow> int option" where
  "status_paren_here prev s =
     (case s of
        c # r \<Rightarrow>
          if c = CHR ''('' then
            (case status_digits r of Some (n, d # _) \<Rightarrow> if d = CHR '')'' then Some n else None | _ \<Rightarrow> None)
          else None
      | [] \<Rightarrow> None)"

definition status_prefix_here :: "bool \<Rightarrow> string \<Rightarrow> int option" where
  "status_prefix_here prev s =
     (if prev then None
      else
        (case after_word [''anthropic'', ''openai'', ''ollama'', ''responses'', ''codex''] s of
           None \<Rightarrow> None
         | Some r \<Rightarrow>
             (case skip_re_space r of
                c # cs \<Rightarrow> if c = CHR '':'' then status_word (skip_re_space cs) else None
              | [] \<Rightarrow> None)))"

definition status_text_here :: "bool \<Rightarrow> string \<Rightarrow> int option" where
  "status_text_here prev s =
     (if prev then None
      else
        (case status_digits s of
           None \<Rightarrow> None
         | Some (n, r) \<Rightarrow>
             if skip_re_space r = r then None
             else
               (case after_word [''too many requests'', ''payment required'', ''bad gateway'', ''service unavailable'',
                    ''gateway timeout'', ''forbidden'', ''unauthorized'', ''not found'', ''request too large'',
                    ''payload too large''] (skip_re_space r) of
                  None \<Rightarrow> None
                | Some rest \<Rightarrow> if starts_word rest then None else Some n)))"

fun find_status :: "(bool \<Rightarrow> string \<Rightarrow> int option) \<Rightarrow> bool \<Rightarrow> string \<Rightarrow> int option" where
  "find_status here prev [] = here prev []"
| "find_status here prev (c # s) =
     (case here prev (c # s) of Some n \<Rightarrow> Some n | None \<Rightarrow> find_status here (word_char c) s)"

definition status_in_text :: "string \<Rightarrow> int" where
  "status_in_text message =
     (case List.map_filter (\<lambda>here. find_status here False message)
        [status_keyword_here, status_paren_here, status_prefix_here, status_text_here] of
        [] \<Rightarrow> 0 | n # _ \<Rightarrow> n)"

text \<open>\<open>coded\<close> is the status an error of the provider carries, if it carries one.\<close>

definition extractStatusCode :: "int option \<Rightarrow> err \<Rightarrow> int" where
  "extractStatusCode coded er =
     (case coded of
        Some n \<Rightarrow> if 400 \<le> n \<and> n \<le> 599 then n else status_in_text (err_text er)
      | None \<Rightarrow> status_in_text (err_text er))"

section \<open>The provider\<close>

record usage =
  us_input :: int
  us_output :: int
  us_cache_read :: int
  us_cache_write :: int

definition usage_zero :: usage where
  "usage_zero = \<lparr>us_input = 0, us_output = 0, us_cache_read = 0, us_cache_write = 0\<rparr>"

definition add_usage :: "usage \<Rightarrow> usage \<Rightarrow> usage" where
  "add_usage a b = \<lparr>us_input = us_input a + us_input b, us_output = us_output a + us_output b,
     us_cache_read = us_cache_read a + us_cache_read b, us_cache_write = us_cache_write a + us_cache_write b\<rparr>"

text \<open>A request; the temperature and the thinking budget are always 0 here.\<close>

record llm_request =
  rq_model :: string
  rq_messages :: "message list"
  rq_tools :: "tool_def list"
  rq_max_tokens :: int
  rq_system :: string
  rq_effort :: string
  rq_cache :: bool
  rq_session :: string

text \<open>The events of a stream; a tool call or a usage that is nil is \<open>None\<close>.\<close>

datatype stream_event =
    EventTextDelta string
  | EventToolUseStart "tool_use option"
  | EventToolUseDelta "tool_use option"
  | EventToolUseDone "tool_use option"
  | EventDone "usage option"
  | EventError err

record chat_response =
  ch_content :: string
  ch_calls :: "tool_use list"
  ch_usage :: usage

text \<open>
  \<open>pv_classified\<close>, \<open>pv_meta\<close> and \<open>pv_status\<close> tell what is in the chain of an error: a classified error with its
  category and message, a provider's error with its name and status, and a status.
\<close>

record 's provider =
  pv_name :: string
  pv_effort :: string
  pv_stream :: "llm_request \<Rightarrow> ('s, stream_event list \<times> err option) act"
  pv_chat :: "llm_request \<Rightarrow> ('s, chat_response) act"
  pv_classified :: "err \<Rightarrow> (category \<times> string) option"
  pv_meta :: "err \<Rightarrow> (string \<times> int) option"
  pv_status :: "err \<Rightarrow> int option"

record accumulated =
  ac_text :: "string list"
  ac_calls :: "tool_use list"
  ac_pending :: "string \<rightharpoonup> tool_use"
  ac_usage :: usage

definition accumulated_zero :: accumulated where
  "accumulated_zero = \<lparr>ac_text = [], ac_calls = [], ac_pending = Map.empty, ac_usage = usage_zero\<rparr>"

fun accumulate :: "stream_event \<Rightarrow> accumulated \<Rightarrow> accumulated" where
  "accumulate (EventTextDelta t) a = (if t = '''' then a else a\<lparr>ac_text := ac_text a @ [t]\<rparr>)"
| "accumulate (EventToolUseStart (Some c)) a = a\<lparr>ac_pending := (ac_pending a)(tu_id c \<mapsto> c\<lparr>tu_input := ''''\<rparr>)\<rparr>"
| "accumulate (EventToolUseDelta (Some c)) a =
     (case ac_pending a (tu_id c) of
        None \<Rightarrow> a
      | Some t \<Rightarrow> a\<lparr>ac_pending := (ac_pending a)(tu_id c \<mapsto> t\<lparr>tu_input := tu_input t @ tu_input c\<rparr>)\<rparr>)"
| "accumulate (EventToolUseDone (Some c)) a =
     (case ac_pending a (tu_id c) of
        None \<Rightarrow> a
      | Some t \<Rightarrow> a\<lparr>ac_calls := ac_calls a @ [if tu_input c = '''' then t else t\<lparr>tu_input := tu_input c\<rparr>],
                   ac_pending := (ac_pending a)(tu_id c := None)\<rparr>)"
| "accumulate (EventDone (Some u)) a = a\<lparr>ac_usage := u\<rparr>"
| "accumulate _ a = a"

definition stream :: "'s provider \<Rightarrow> llm_request \<Rightarrow> ('s, message \<times> usage) act" where
  "stream p req =
     bind (pv_stream p req) (\<lambda>(events, er).
     case er of
       Some e \<Rightarrow> fail e
     | None \<Rightarrow> (let a = fold accumulate events accumulated_zero in
               ret (BuildAssistantMessage (ac_text a) (ac_calls a), ac_usage a)))"

definition chatFallback :: "'s provider \<Rightarrow> llm_request \<Rightarrow> ('s, message \<times> usage) act" where
  "chatFallback p req =
     bind (wrap_act ''chat fallback'' (pv_chat p req)) (\<lambda>r.
     ret (BuildAssistantMessage [ch_content r] (ch_calls r), ch_usage r))"

section \<open>Retries\<close>

definition retryMaxAttempts :: nat where "retryMaxAttempts = 3"

text \<open>A failure: the error, and the classified error in its chain.\<close>

record failure =
  fa_err :: err
  fa_class :: "(category \<times> string) option"

definition class_retryable :: "category \<times> string \<Rightarrow> bool" where
  "class_retryable c = rv_retryable (defaultRecovery (fst c))"

definition empty_response_error :: "err \<Rightarrow> err" where
  "empty_response_error er =
     EMsg (''ELN-120 Empty LLM response: '' @ err_text er @ [CHR 0x0A] @
       ''Hint: Retry with a rephrased prompt. Check for content policy restrictions.'')"

definition empty_reply_nudge :: string where
  "empty_reply_nudge = ''The previous attempt returned an empty response. You must either provide a concrete answer '' @
     ''or call tools. Do not return empty content.''"

definition classified :: "'s provider \<Rightarrow> int \<Rightarrow> llm_request \<Rightarrow> err \<Rightarrow> category \<times> string" where
  "classified p window req er =
     (case pv_classified p er of
        Some c \<Rightarrow> c
      | None \<Rightarrow>
          (let k = Classify None (pv_meta p er) er
                \<lparr>cl_provider = pv_name p, cl_status = extractStatusCode (pv_status p er) er,
                 cl_tokens_used = int (estimateRequestTokens (rq_messages req)), cl_context_limit = window,
                 cl_message_count = int (length (rq_messages req)), cl_empty_response = False\<rparr>;
               m = TrimSpace (err_text er)
           in (k, if m = '''' then category_text k else m)))"

text \<open>
  The attempts that are left; the last failure is the one of the attempt before.  Before a further attempt the
  context is asked, and the wait, which is not modelled, comes to its end.
\<close>

type_synonym reply = "message \<times> llm_request \<times> usage"

fun stream_attempts ::
  "'s provider \<Rightarrow> int \<Rightarrow> (category \<times> string \<Rightarrow> ('s, unit) act) \<Rightarrow> nat \<Rightarrow> failure option \<Rightarrow> llm_request
     \<Rightarrow> ('s, failure + reply) act" where
  "stream_attempts p window observe 0 prior req =
     ret (Inl (case prior of
       None \<Rightarrow> \<lparr>fa_err = EMsg ''llm provider error: %!w(<nil>)'', fa_class = None\<rparr>
     | Some f \<Rightarrow> f\<lparr>fa_err := EWrap ''llm provider error'' (fa_err f)\<rparr>))"
| "stream_attempts p window observe (Suc n) prior req =
     bind (if prior = None then ret None else ctx_check) (\<lambda>over.
     case over of
       Some er \<Rightarrow> ret (Inl \<lparr>fa_err = er, fa_class = None\<rparr>)
     | None \<Rightarrow>
         bind (attempt (stream p req)) (\<lambda>r.
         case r of
           Inr (msg, u) \<Rightarrow>
             if \<not> isEmptyAssistantMessage msg then ret (Inr (msg, req, u))
             else
               bind (attempt (chatFallback p req)) (\<lambda>fb.
               if (case fb of Inr (m, _) \<Rightarrow> \<not> isEmptyAssistantMessage m | Inl _ \<Rightarrow> False)
               then ret (Inr (fst (projr fb), req, snd (projr fb)))
               else
                 (let er = (case fb of Inl e \<Rightarrow> e | Inr _ \<Rightarrow> EMsg ''empty assistant response'') in
                  stream_attempts p window observe n
                    (Some \<lparr>fa_err = empty_response_error er, fa_class = pv_classified p er\<rparr>)
                    (req\<lparr>rq_messages := rq_messages req @ [NewUserMessage empty_reply_nudge]\<rparr>)))
         | Inl er \<Rightarrow>
             (let c = classified p window req er in
              bind (attempt (observe c)) (\<lambda>h.
              case h of
                Inl e \<Rightarrow> ret (Inl \<lparr>fa_err = EWrap ''classified-error hook'' e, fa_class = pv_classified p e\<rparr>)
              | Inr _ \<Rightarrow>
                  (let f = \<lparr>fa_err = EMsg (snd c), fa_class = Some c\<rparr> in
                   if class_retryable c then stream_attempts p window observe n (Some f) req else ret (Inl f))))))"

section \<open>The agent\<close>

definition defaultMaxTokens :: int where "defaultMaxTokens = 8192"
definition maxConsecutiveCompressFailures :: nat where "maxConsecutiveCompressFailures = 3"

text \<open>
  The hooks of the loop by their kinds: before each iteration, before and after a call of the model (the first
  may change the request), on a classified error, at the end.
\<close>

record 's loop_hooks =
  lh_iteration :: "(nat \<Rightarrow> nat \<Rightarrow> ('s, unit) act) list"
  lh_pre_llm :: "(llm_request \<Rightarrow> ('s, llm_request) act) list"
  lh_post_llm :: "(llm_request \<Rightarrow> string \<times> tool_use list \<Rightarrow> usage \<Rightarrow> ('s, unit) act) list"
  lh_error :: "(category \<times> string \<Rightarrow> ('s, unit) act) list"
  lh_stop :: "('s, unit) act list"

definition run_hooks :: "('s, unit) act list \<Rightarrow> ('s, unit) act" where
  "run_hooks hs = foldA (\<lambda>_ h. h) () hs"

definition RunOnIterationStart :: "'s loop_hooks \<Rightarrow> nat \<Rightarrow> nat \<Rightarrow> ('s, unit) act" where
  "RunOnIterationStart h iteration maxIterations = run_hooks (map (\<lambda>f. f iteration maxIterations) (lh_iteration h))"

definition RunPreLLMCall :: "'s loop_hooks \<Rightarrow> llm_request \<Rightarrow> ('s, llm_request) act" where
  "RunPreLLMCall h req = foldA (\<lambda>r f. f r) req (lh_pre_llm h)"

definition RunPostLLMCall :: "'s loop_hooks \<Rightarrow> llm_request \<Rightarrow> string \<times> tool_use list \<Rightarrow> usage \<Rightarrow> ('s, unit) act" where
  "RunPostLLMCall h req resp u = run_hooks (map (\<lambda>f. f req resp u) (lh_post_llm h))"

definition RunOnClassifiedError :: "'s loop_hooks \<Rightarrow> category \<times> string \<Rightarrow> ('s, unit) act" where
  "RunOnClassifiedError h c = run_hooks (map (\<lambda>f. f c) (lh_error h))"

text \<open>Every stop hook runs; the errors are only logged.\<close>

definition RunOnStop :: "'s loop_hooks \<Rightarrow> ('s, unit) act" where
  "RunOnStop h = foldA (\<lambda>_ f. bind (attempt f) (\<lambda>_. ret ())) () (lh_stop h)"

record 's agent =
  ag_tools :: "'s tool_config"
  ag_hooks :: "'s loop_hooks"
  ag_provider :: "'s provider"
  ag_model :: string
  ag_system :: string
  ag_effort :: string
  ag_effort_mode :: string
  ag_exposure :: string
  ag_max :: nat
  ag_compress :: "(message list \<Rightarrow> ('s, message list) act) option"
  ag_window :: int
  ag_reflect :: bool
  ag_session :: string

text \<open>The number of failures in a row lives in the agent, from one run to the next.\<close>

definition tryCompress :: "'s agent \<Rightarrow> nat \<Rightarrow> message list \<Rightarrow> ('s, nat \<times> message list option) act" where
  "tryCompress a fails ms =
     (case ag_compress a of
        None \<Rightarrow> ret (fails, None)
      | Some compress \<Rightarrow>
          if fails \<ge> maxConsecutiveCompressFailures then ret (fails, None)
          else bind (attempt (compress ms)) (\<lambda>r.
               ret (case r of Inl _ \<Rightarrow> (fails + 1, None) | Inr ms' \<Rightarrow> (0, Some ms'))))"

text \<open>Eighty per cent of the window, truncated.\<close>

definition maybeProactiveCompress :: "'s agent \<Rightarrow> nat \<Rightarrow> message list \<Rightarrow> ('s, nat \<times> message list) act" where
  "maybeProactiveCompress a fails ms =
     (if ag_compress a = None \<or> ag_window a \<le> 0 \<or> int (estimateRequestTokens ms) \<le> ag_window a * 4 div 5
      then ret (fails, ms)
      else bind (tryCompress a fails ms) (\<lambda>(n, r). ret (n, case r of None \<Rightarrow> ms | Some ms' \<Rightarrow> ms')))"

definition streamWithRetry :: "'s agent \<Rightarrow> llm_request \<Rightarrow> ('s, failure + reply) act" where
  "streamWithRetry a req =
     stream_attempts (ag_provider a) (ag_window a) (RunOnClassifiedError (ag_hooks a)) retryMaxAttempts None req"

section \<open>The loop\<close>

abbreviation FinishReasonStop :: string where "FinishReasonStop \<equiv> ''stop''"
abbreviation FinishReasonBudgetExceeded :: string where "FinishReasonBudgetExceeded \<equiv> ''budget_exceeded''"
abbreviation FinishReasonAckLoop :: string where "FinishReasonAckLoop \<equiv> ''ack_loop''"
abbreviation FinishReasonError :: string where "FinishReasonError \<equiv> ''error''"

record loop_state =
  lo_messages :: "message list"
  lo_loaded :: "string list"
  lo_usage :: usage
  lo_ack :: nat
  lo_iterations :: nat
  lo_reason :: string
  lo_stats :: tool_stats
  lo_mutations :: "file_mutation list"
  lo_class :: "(category \<times> string) option"
  lo_effort :: effort_decision
  lo_fails :: nat

datatype turn_end = Continue | Break | Failed err

definition budget_warning :: "nat \<Rightarrow> nat \<Rightarrow> message list" where
  "budget_warning iter limit =
     (if 9 * limit \<le> 10 * iter then
        [NewUserMessage (''[BUDGET WARNING: Only '' @ itoa (int (limit - iter)) @ '' iterations remaining. Preserve every '' @
           ''explicit completion requirement from the user prompt. If a required edit, regression test, or '' @
           ''verification command is still missing, make that smallest remaining tool call now. Only provide your '' @
           ''final response when no required tool call remains; otherwise state the work is incomplete.]'')]
      else if 7 * limit \<le> 10 * iter then
        [NewUserMessage (''[BUDGET: Iteration '' @ itoa (int iter) @ ''/'' @ itoa (int limit) @ ''. '' @ itoa (int (limit - iter)) @
           '' remaining. Start consolidating your work. Preserve explicit completion requirements; prioritize the '' @
           ''smallest remaining required edit, regression test, or verification command before final reporting.]'')]
      else [])"

definition ack_nudge :: string where
  "ack_nudge = ''[System: Continue now. Execute the required tool calls. Do not describe what you plan to do '' @
     [CHR 0xE2, CHR 0x80, CHR 0x94] @ '' do it.]''"

definition loop_request :: "'s agent \<Rightarrow> loop_state \<Rightarrow> llm_request" where
  "loop_request a st =
     \<lparr>rq_model = ag_model a, rq_messages = lo_messages st,
      rq_tools = buildToolDefsWithLoaded (tc_registry (ag_tools a)) (ag_exposure a) (lo_loaded st),
      rq_max_tokens = defaultMaxTokens, rq_system = ag_system a, rq_effort = ef_effort (lo_effort st),
      rq_cache = (pv_name (ag_provider a) = ''anthropic''), rq_session = ag_session a\<rparr>"

text \<open>The tools of a reply, and their results in the messages; on an error the messages are lost.\<close>

definition tools_turn :: "'s agent \<Rightarrow> loop_state \<Rightarrow> tool_use list \<Rightarrow> ('s, loop_state \<times> turn_end) run" where
  "tools_turn a st calls =
     andthen (attempt_run (executeToolsWithStats (ag_tools a) (lo_messages st) calls (lo_stats st))) (\<lambda>r.
     case r of
       Inl er \<Rightarrow> give (st\<lparr>lo_messages := []\<rparr>, Failed er)
     | Inr (ms, stats, mu) \<Rightarrow>
         (case truncateToolResults ms of
            None \<Rightarrow> never
          | Some ms' \<Rightarrow>
              give (st\<lparr>lo_messages := attenuateHistoricalToolResults ms' (int (countToolResultTurns ms') - 1),
                       lo_loaded := updateLoadedDeferredTools (tc_registry (ag_tools a)) (lo_loaded st) calls ms,
                       lo_stats := stats, lo_mutations := lo_mutations st @ mu\<rparr>, Continue)))"

definition reply_turn :: "'s agent \<Rightarrow> loop_state \<Rightarrow> reply \<Rightarrow> ('s, loop_state \<times> turn_end) run" where
  "reply_turn a st0 r =
     (case r of (msg, req, u) \<Rightarrow>
        bind (attempt (RunPostLLMCall (ag_hooks a) req (message_Text msg, ExtractToolUseBlocks msg) u)) (\<lambda>h.
        case h of
          Inl er \<Rightarrow> give (st0, Failed (EWrap ''post-llm hook'' er))
        | Inr _ \<Rightarrow>
            (let st = st0\<lparr>lo_usage := add_usage (lo_usage st0) u, lo_messages := lo_messages st0 @ [msg]\<rparr>;
                 calls = ExtractToolUseBlocks msg
             in if calls \<noteq> [] then tools_turn a (st\<lparr>lo_ack := 0\<rparr>) calls
                else if \<not> isAckOnly (message_Text msg) then give (st\<lparr>lo_reason := FinishReasonStop\<rparr>, Break)
                else if lo_ack st < 2
                then give (st\<lparr>lo_ack := lo_ack st + 1, lo_messages := lo_messages st @ [NewUserMessage ack_nudge]\<rparr>, Continue)
                else give (st\<lparr>lo_reason := FinishReasonAckLoop\<rparr>, Break))))"

definition note_failure :: "loop_state \<Rightarrow> failure \<Rightarrow> loop_state" where
  "note_failure st f = (case fa_class f of None \<Rightarrow> st | Some c \<Rightarrow> st\<lparr>lo_class := Some c\<rparr>)"

definition asks_compression :: "'s agent \<Rightarrow> failure \<Rightarrow> bool" where
  "asks_compression a f \<longleftrightarrow>
     ag_compress a \<noteq> None \<and> (case fa_class f of None \<Rightarrow> False | Some c \<Rightarrow> rv_compress (defaultRecovery (fst c)))"

text \<open>A call of the model that failed: once more with a compressed history where that may help.\<close>

definition failed_turn :: "'s agent \<Rightarrow> loop_state \<Rightarrow> llm_request \<Rightarrow> failure \<Rightarrow> ('s, loop_state \<times> turn_end) run" where
  "failed_turn a st0 req f =
     (let st = note_failure st0 f in
      if \<not> asks_compression a f then give (st, Failed (fa_err f))
      else
        bind (tryCompress a (lo_fails st) (lo_messages st)) (\<lambda>(n, c).
        case c of
          None \<Rightarrow> give (st\<lparr>lo_fails := n\<rparr>, Failed (fa_err f))
        | Some ms \<Rightarrow>
            bind (streamWithRetry a (req\<lparr>rq_messages := ms\<rparr>)) (\<lambda>r.
            case r of
              Inl f2 \<Rightarrow> give (note_failure (st\<lparr>lo_fails := n, lo_messages := ms\<rparr>) f2, Failed (fa_err f2))
            | Inr reply \<Rightarrow> reply_turn a (st\<lparr>lo_fails := n, lo_messages := ms\<rparr>) reply)))"

definition loop_turn :: "'s agent \<Rightarrow> nat \<Rightarrow> loop_state \<Rightarrow> ('s, loop_state \<times> turn_end) run" where
  "loop_turn a iter st0 =
     bind (attempt (RunOnIterationStart (ag_hooks a) (iter + 1) (ag_max a))) (\<lambda>h.
     case h of
       Inl er \<Rightarrow> give (st0, Failed (EWrap ''iteration hook'' er))
     | Inr _ \<Rightarrow>
         bind (maybeProactiveCompress a (lo_fails st0) (lo_messages st0 @ budget_warning iter (ag_max a))) (\<lambda>(n, ms).
         let st = st0\<lparr>lo_iterations := lo_iterations st0 + 1, lo_messages := ms, lo_fails := n,
                      lo_effort := resolveReasoningEffortDecision (pv_effort (ag_provider a)) (ag_effort_mode a)
                                     (ag_effort a) ms\<rparr>
         in bind (attempt (RunPreLLMCall (ag_hooks a) (loop_request a st))) (\<lambda>p.
            case p of
              Inl er \<Rightarrow> give (st, Failed (EWrap ''pre-llm hook'' er))
            | Inr req \<Rightarrow>
                bind (streamWithRetry a req) (\<lambda>r.
                case r of Inl f \<Rightarrow> failed_turn a st req f | Inr reply \<Rightarrow> reply_turn a st reply))))"

text \<open>The turns from the \<open>iter\<close>th on, while there are some left.\<close>

fun loop_turns :: "'s agent \<Rightarrow> nat \<Rightarrow> nat \<Rightarrow> loop_state \<Rightarrow> ('s, loop_state \<times> err option) run" where
  "loop_turns a iter 0 st = give (st, None)"
| "loop_turns a iter (Suc left) st =
     andthen (loop_turn a iter st) (\<lambda>(st', e).
     case e of
       Continue \<Rightarrow> loop_turns a (iter + 1) left st'
     | Break \<Rightarrow> give (st', None)
     | Failed er \<Rightarrow> give (st', Some er))"

section \<open>A run\<close>

definition finalizeToolStats :: "tool_stats \<Rightarrow> tool_stats" where
  "finalizeToolStats m = sort_key fst m"

record run_result =
  rr_messages :: "message list"
  rr_usage :: usage
  rr_stats :: tool_stats
  rr_mutations :: "file_mutation list"
  rr_iterations :: nat
  rr_reason :: string
  rr_effort :: effort_decision
  rr_loaded :: "string list"

definition sortedLoadedDeferredTools :: "string list \<Rightarrow> string list" where
  "sortedLoadedDeferredTools loaded = sort loaded"

definition start_state :: "nat \<Rightarrow> message list \<Rightarrow> loop_state" where
  "start_state fails ms =
     \<lparr>lo_messages = ms, lo_loaded = [], lo_usage = usage_zero, lo_ack = 0, lo_iterations = 0,
      lo_reason = FinishReasonBudgetExceeded, lo_stats = [], lo_mutations = [], lo_class = None,
      lo_effort = \<lparr>ef_effort = '''', ef_mode = '''', ef_reason = ''''\<rparr>, lo_fails = fails\<rparr>"

definition still_asking :: "message list \<Rightarrow> bool" where
  "still_asking ms \<longleftrightarrow> ms \<noteq> [] \<and> ms_role (last ms) = RoleAssistant \<and> ExtractToolUseBlocks (last ms) \<noteq> []"

definition loop_result :: "loop_state \<Rightarrow> run_result" where
  "loop_result st =
     \<lparr>rr_messages = lo_messages st, rr_usage = lo_usage st, rr_stats = finalizeToolStats (lo_stats st), rr_mutations = lo_mutations st,
      rr_iterations = lo_iterations st, rr_reason = lo_reason st, rr_effort = lo_effort st,
      rr_loaded = sortedLoadedDeferredTools (lo_loaded st)\<rparr>"

definition finish_run :: "'s agent \<Rightarrow> loop_state \<Rightarrow> err option \<Rightarrow> ('s, err + run_result) act" where
  "finish_run a st failed =
     (case failed of
        Some er \<Rightarrow> ret (Inl er)
      | None \<Rightarrow>
          if still_asking (lo_messages st)
          then ret (Inl (EMsg (''max iterations exceeded: model kept requesting tools after '' @ itoa (int (ag_max a)) @
                 '' iterations'')))
          else bind (RunOnStop (ag_hooks a)) (\<lambda>_. ret (Inr (loop_result st))))"

section \<open>Reflection\<close>

definition reflectionSkipCategories :: "category list" where
  "reflectionSkipCategories = [RateLimit, Auth, AuthPermanent, Billing, Overloaded]"

definition wantsReflection :: "string \<Rightarrow> category option \<Rightarrow> bool \<Rightarrow> bool" where
  "wantsReflection fr cat cancelled \<longleftrightarrow>
     \<not> cancelled \<and> (case cat of None \<Rightarrow> True | Some k \<Rightarrow> k \<notin> set reflectionSkipCategories) \<and>
     fr \<in> {FinishReasonError, FinishReasonBudgetExceeded, FinishReasonAckLoop}"

record reflection_input =
  ri_reason :: string
  ri_messages :: "message list"
  ri_category :: "category option"
  ri_summary :: string
  ri_cancelled :: bool

definition fireReflectionHook :: "'s agent \<Rightarrow> loop_state \<Rightarrow> err + run_result \<Rightarrow> ('s, reflection_input option) act" where
  "fireReflectionHook a st r =
     (if \<not> ag_reflect a then ret None
      else
        bind ctx_check (\<lambda>over.
        let fr = (case r of Inl _ \<Rightarrow> FinishReasonError | Inr x \<Rightarrow> rr_reason x);
            cat = map_option fst (lo_class st);
            summary = (case lo_class st of
                         Some c \<Rightarrow> snd c
                       | None \<Rightarrow> (case r of Inl er \<Rightarrow> err_text er | Inr _ \<Rightarrow> ''''));
            cancelled = (over = Some ErrCanceled)
        in ret (if wantsReflection fr cat cancelled
                then Some \<lparr>ri_reason = fr, ri_messages = lo_messages st, ri_category = cat, ri_summary = summary,
                           ri_cancelled = cancelled\<rparr>
                else None)))"

text \<open>
  The end of a run: what it returns, what is handed to the reflection, and the failures of compression in a
  row that the agent remembers.
\<close>

record run_end =
  re_result :: "err + run_result"
  re_reflection :: "reflection_input option"
  re_fails :: nat

definition Agent_Run :: "'s agent \<Rightarrow> nat \<Rightarrow> message list \<Rightarrow> ('s, run_end) run" where
  "Agent_Run a fails ms =
     andthen (loop_turns a 0 (ag_max a) (start_state fails ms)) (\<lambda>(st, failed).
     bind (finish_run a st failed) (\<lambda>r.
     bind (fireReflectionHook a st r) (\<lambda>f.
     give \<lparr>re_result = r, re_reflection = f, re_fails = lo_fails st\<rparr>)))"

section \<open>Only permitted calls run\<close>

lemma turns_guard:
  assumes "\<And>s. pm_mode (tc_permission (ag_tools a)) s = m"
  shows "loop_turns (a\<lparr>ag_tools := with_guard (ag_tools a) m\<rparr>) iter left st = loop_turns a iter left st"
proof -
  let ?b = "a\<lparr>ag_tools := with_guard (ag_tools a) m\<rparr>"
  have "executeToolsWithStats (with_guard (ag_tools a) m) = executeToolsWithStats (ag_tools a)"
    by (intro ext, rule fun_cong, rule fun_cong) (rule execute_guard[OF assms])
  then have tools: "tools_turn ?b = tools_turn a"
    by (intro ext) (simp add: tools_turn_def cong: option.case_cong sum.case_cong)
  have reply: "reply_turn ?b = reply_turn a"
    unfolding reply_turn_def tools by simp
  have retry: "streamWithRetry ?b = streamWithRetry a" "tryCompress ?b = tryCompress a"
    "asks_compression ?b = asks_compression a" "loop_request ?b = loop_request a"
    by (intro ext, simp add: streamWithRetry_def tryCompress_def asks_compression_def loop_request_def)+
  have compress: "maybeProactiveCompress ?b = maybeProactiveCompress a"
    unfolding maybeProactiveCompress_def retry by simp
  have failed: "failed_turn ?b = failed_turn a"
    unfolding failed_turn_def retry reply by simp
  have turn: "loop_turn ?b = loop_turn a"
    unfolding loop_turn_def retry compress failed reply by simp
  show ?thesis by (induction left arbitrary: iter st) (simp_all add: turn cong: turn_end.case_cong)
qed


section \<open>Every call is answered\<close>

text \<open>What the answers depend on: the roles, and the blocks without the texts of results.\<close>

definition outline :: "message \<Rightarrow> string \<times> block list" where
  "outline m = (ms_role m, map shell (ms_content m))"

lemma shell_ids: "block_tool (shell b) = block_tool b" "result_id (shell b) = result_id b"
  by (cases b; simp add: shell_def block_tool_def result_id_def)+

lemma outline_ids:
  assumes "outline m = outline m'" shows "asked_ids m = asked_ids m'" "result_ids m = result_ids m'"
proof -
  have "map (block_tool \<circ> shell) (ms_content m) = map (block_tool \<circ> shell) (ms_content m')"
    "map (result_id \<circ> shell) (ms_content m) = map (result_id \<circ> shell) (ms_content m')"
    using assms by (simp_all add: outline_def flip: map_map)
  then show "asked_ids m = asked_ids m'" "result_ids m = result_ids m'"
    using assms by (simp_all add: outline_def asked_ids_def result_ids_def ExtractToolUseBlocks_def shell_ids comp_def)
qed

lemma answered_outline: "map outline ms = map outline ms' \<Longrightarrow> calls_answered ms = calls_answered ms'"
proof (induction ms arbitrary: ms')
  case (Cons m ms)
  then obtain m' ns where ms': "ms' = m' # ns" "outline m = outline m'" "map outline ms = map outline ns" by auto
  have next_one: "(case ms of [] \<Rightarrow> False | r # _ \<Rightarrow> ms_role r = RoleUser \<and> result_ids r = ids) =
      (case ns of [] \<Rightarrow> False | r # _ \<Rightarrow> ms_role r = RoleUser \<and> result_ids r = ids)" for ids
  proof (cases ms)
    case (Cons r rs)
    with ms'(3) obtain r' rs' where ns: "ns = r' # rs'" "outline r = outline r'" by auto
    then have "ms_role r = ms_role r'" by (simp add: outline_def)
    with Cons ns outline_ids(2)[OF ns(2)] show ?thesis by simp
  qed (use ms'(3) in simp)
  show ?case unfolding ms'(1) calls_answered.simps outline_ids(1)[OF ms'(2)] next_one Cons.IH[OF ms'(3)] ..
qed auto

lemma truncate_outline: "truncateToolResults ms = Some ms' \<Longrightarrow> map outline ms' = map outline ms"
proof -
  assume t: "truncateToolResults ms = Some ms'"
  show ?thesis
  proof (cases "ms = [] \<or> ms_role (last ms) \<noteq> RoleUser")
    case True
    with t show ?thesis by (auto simp: truncateToolResults_def)
  next
    case False
    with t obtain bs where bs: "cut_largest (map cap_result (ms_content (last ms))) = Some bs"
      "ms' = butlast ms @ [(last ms)\<lparr>ms_content := bs\<rparr>]"
      by (auto simp: truncateToolResults_def)
    from cut_largest_shell[OF bs(1)] have "outline ((last ms)\<lparr>ms_content := bs\<rparr>) = outline (last ms)"
      by (simp add: outline_def comp_def shell_cut)
    with bs(2) have "map outline ms' = map outline (butlast ms @ [last ms])" by simp
    with False show ?thesis by simp
  qed
qed

lemma map_results_outline: "outline (map_results f m) = outline m"
  by (simp add: outline_def map_results_def shell_def split: block.split)

lemma attenuate_outline: "map outline (attenuateHistoricalToolResults ms n) = map outline ms"
proof -
  have "outline (attenuate_turn k m) = outline m" for k m
    by (simp add: attenuate_turn_def attenuateToolResultMessage_def replaceWithStaleToolResultPlaceholder_def
        map_results_outline)
  then have "map outline (attenuate_from n k ms) = map outline ms" for k
    by (induction ms arbitrary: k) auto
  then show ?thesis by (simp add: attenuateHistoricalToolResults_def)
qed

definition compress_answers :: "'s agent \<Rightarrow> bool" where
  "compress_answers a \<longleftrightarrow>
     (\<forall>compress ms w i s ms' j s'. ag_compress a = Some compress \<longrightarrow> compress ms w i s = (Inr ms', j, s') \<longrightarrow>
        calls_answered ms \<longrightarrow> calls_answered ms')"

lemma answered_text: "calls_answered ms \<Longrightarrow> calls_answered (ms @ [NewUserMessage t])"
  by (rule answered_append) (simp_all add: NewUserMessage_def NewTextMessage_def asked_ids_def)

lemma attempt_run_Inr:
  "attempt_run m w i s = (Inr (Some (Inr a)), j, s') \<longleftrightarrow> m w i s = (Inr (Some a), j, s')"
  by (auto simp: attempt_run_def bind_def attempt_def give_def never_def ret_def split: prod.splits sum.splits option.splits)

lemma attempt_Inr: "attempt m w i s = (Inr r, j, s') \<longleftrightarrow> m w i s = (r, j, s')"
  by (auto simp: attempt_def split: prod.splits)

lemma tools_turn_answers:
  assumes "tools_turn a st (ExtractToolUseBlocks m) w i s = (Inr (Some (st', e)), j, s')" and "\<And>er. e \<noteq> Failed er"
    and "lo_messages st = ms @ [m]" and "calls_answered ms" and "ms_role m = RoleAssistant"
  shows "calls_answered (lo_messages st')"
proof -
  from assms(1) obtain r i1 s1 where run: "attempt_run (executeToolsWithStats (ag_tools a) (ms @ [m])
      (ExtractToolUseBlocks m) (lo_stats st)) w i s = (Inr (Some r), i1, s1)"
    and rest: "(case r of Inl er \<Rightarrow> give (st\<lparr>lo_messages := []\<rparr>, Failed er)
      | Inr (ms, stats, mu) \<Rightarrow> (case truncateToolResults ms of None \<Rightarrow> never | Some ms' \<Rightarrow>
          give (st\<lparr>lo_messages := attenuateHistoricalToolResults ms' (int (countToolResultTurns ms') - 1),
            lo_loaded := updateLoadedDeferredTools (tc_registry (ag_tools a)) (lo_loaded st) (ExtractToolUseBlocks m) ms,
            lo_stats := stats, lo_mutations := lo_mutations st @ mu\<rparr>, Continue))) w i1 s1 = (Inr (Some (st', e)), j, s')"
    unfolding tools_turn_def assms(3) andthen_Some by blast
  obtain ms1 stats mu where r: "r = Inr (ms1, stats, mu)"
    using rest assms(2) by (cases r) (auto simp: give_Some)
  with run rest obtain ms2 where
    exec: "executeToolsWithStats (ag_tools a) (ms @ [m]) (ExtractToolUseBlocks m) (lo_stats st) w i s =
      (Inr (Some (ms1, stats, mu)), i1, s1)" and cut: "truncateToolResults ms1 = Some ms2"
    and st': "lo_messages st' = attenuateHistoricalToolResults ms2 (int (countToolResultTurns ms2) - 1)"
    by (auto simp: give_Some attempt_run_Inr split: option.splits)
  have "map outline (lo_messages st') = map outline ms1"
    using st' truncate_outline[OF cut] attenuate_outline by metis
  with answered_outline execute_answered[OF exec assms(4,5)] show ?thesis by blast
qed

text \<open>What holds of the value of an action, wherever it runs; its rules.\<close>

definition yields :: "('a \<Rightarrow> bool) \<Rightarrow> ('s, 'a) act \<Rightarrow> bool" where
  "yields P m \<longleftrightarrow> (\<forall>w i s a j s'. m w i s = (Inr a, j, s') \<longrightarrow> P a)"

abbreviation ends :: "('a \<Rightarrow> bool) \<Rightarrow> ('s, 'a) run \<Rightarrow> bool" where
  "ends P \<equiv> yields (pred_option P)"

lemma yieldsD: "yields P m \<Longrightarrow> m w i s = (Inr a, j, s') \<Longrightarrow> P a"
  unfolding yields_def by blast

lemma yields_any: "yields (\<lambda>_. True) m"
  by (simp add: yields_def)

lemma yields_mono: "yields Q m \<Longrightarrow> (\<And>a. Q a \<Longrightarrow> P a) \<Longrightarrow> yields P m"
  by (auto simp: yields_def)

lemma yields_ret [simp]: "yields P (ret a) = P a"
  by (simp add: yields_def ret_def)

lemma yields_give [simp]: "ends P (give a) = P a"
  by (simp add: give_def)

lemma yields_never [simp]: "ends P never"
  by (simp add: never_def)

lemma yields_fail [simp]: "yields P (fail er)"
  by (simp add: yields_def fail_def)

lemma yields_bind: "yields Q m \<Longrightarrow> (\<And>a. Q a \<Longrightarrow> yields P (k a)) \<Longrightarrow> yields P (bind m k)"
  unfolding yields_def bind_Inr by blast

lemmas yields_then = yields_bind[OF yields_any]

lemma yields_andthen: "ends Q m \<Longrightarrow> (\<And>a. Q a \<Longrightarrow> ends P (k a)) \<Longrightarrow> ends P (andthen m k)"
  unfolding andthen_def by (erule yields_bind) (auto split: option.split)

lemma yields_attempt: "yields P m \<Longrightarrow> yields (pred_sum (\<lambda>_. True) P) (attempt m)"
proof -
  assume "yields P m"
  then have "pred_sum (\<lambda>_. True) P r" if "m w i s = (r, j, s')" for w i s r j s'
    using that by (cases r) (auto dest: yieldsD)
  then show ?thesis by (auto simp: yields_def attempt_Inr)
qed

lemma yields_wrap: "yields P m \<Longrightarrow> yields P (wrap_act x m)"
  by (auto simp: yields_def wrap_act_Inr)

lemma BuildAssistant_role [simp]: "ms_role (BuildAssistantMessage ts cs) = RoleAssistant"
  by (simp add: BuildAssistantMessage_def)

definition from_assistant :: "failure + reply \<Rightarrow> bool" where
  "from_assistant r \<longleftrightarrow> pred_sum (\<lambda>_. True) (\<lambda>(m, _). ms_role m = RoleAssistant) r"

lemma from_assistant_simps [simp]:
  "from_assistant (Inl f)" "from_assistant (Inr (m, req, u)) \<longleftrightarrow> ms_role m = RoleAssistant"
  by (simp_all add: from_assistant_def)

lemma stream_role: "yields (\<lambda>(m, _). ms_role m = RoleAssistant) (stream p req)"
  unfolding stream_def by (rule yields_then) (auto split: option.split simp: Let_def)

lemma fallback_role: "yields (\<lambda>(m, _). ms_role m = RoleAssistant) (chatFallback p req)"
  unfolding chatFallback_def by (rule yields_then) simp

lemma stream_attempts_role: "yields from_assistant (stream_attempts p window observe n prior req)"
proof (induction n arbitrary: prior req)
  case (Suc n)
  show ?case
    unfolding stream_attempts.simps
    apply (rule yields_then)
    apply (split option.split, intro conjI allI impI)
    subgoal
      apply (rule yields_bind[OF yields_attempt[OF stream_role]])
      apply (split sum.split, intro conjI allI impI)
      subgoal by (auto simp: Let_def intro!: yields_then Suc.IH split: sum.split)
      subgoal
        apply (split prod.split, intro allI impI)
        apply (split if_split, intro conjI impI)
        subgoal by simp
        subgoal
          apply (rule yields_bind[OF yields_attempt[OF fallback_role]])
          by (auto simp: Let_def intro!: Suc.IH split: sum.splits)
        done
      done
    subgoal by simp
    done
qed simp

lemma streamWithRetry_role: "yields from_assistant (streamWithRetry a req)"
  unfolding streamWithRetry_def by (rule stream_attempts_role)

text \<open>The loop: a turn that goes on or stops leaves every call answered.\<close>

definition kept :: "loop_state \<times> turn_end \<Rightarrow> bool" where
  "kept r \<longleftrightarrow> (case snd r of Failed _ \<Rightarrow> True | _ \<Rightarrow> calls_answered (lo_messages (fst r)))"

lemma kept_simps [simp]:
  "kept (st, Failed er)" "kept (st, Continue) = calls_answered (lo_messages st)" "kept (st, Break) = calls_answered (lo_messages st)"
  by (simp_all add: kept_def)

lemma answered_reply:
  "calls_answered ms \<Longrightarrow> ExtractToolUseBlocks m = [] \<Longrightarrow> calls_answered (ms @ [m])"
  by (rule answered_append) (simp_all add: asked_ids_def)

lemma tools_turn_kept:
  "lo_messages st = ms @ [m] \<Longrightarrow> calls_answered ms \<Longrightarrow> ms_role m = RoleAssistant \<Longrightarrow>
     ends kept (tools_turn a st (ExtractToolUseBlocks m))"
  unfolding yields_def kept_def using tools_turn_answers
  by (fastforce split: turn_end.split option.split simp: pred_option_def)

lemma reply_turn_kept:
  assumes "calls_answered (lo_messages st)" and "ms_role m = RoleAssistant"
  shows "ends kept (reply_turn a st (m, req, u))"
  unfolding reply_turn_def
  using assms
  by (auto simp: Let_def answered_reply intro!: yields_then answered_text[of "lo_messages st @ [m]", simplified]
      tools_turn_kept[of _ "lo_messages st"] split: sum.split)

lemma tryCompress_kept:
  assumes "compress_answers a" and "calls_answered ms"
  shows "yields (\<lambda>(n, r). pred_option calls_answered r) (tryCompress a n ms)"
proof (cases "ag_compress a")
  case (Some f)
  with assms have "yields calls_answered (f ms)" by (auto simp: yields_def compress_answers_def)
  from yields_attempt[OF this] Some show ?thesis
    by (auto simp: tryCompress_def split: sum.split intro!: yields_bind)
qed (simp add: tryCompress_def)

lemma failed_turn_kept:
  assumes "compress_answers a" and "calls_answered (lo_messages st)"
  shows "ends kept (failed_turn a st req f)"
proof -
  have note_messages: "lo_messages (note_failure st f) = lo_messages st" for st f
    by (simp add: note_failure_def split: option.split)
  show ?thesis
    unfolding failed_turn_def Let_def
    using assms tryCompress_kept[OF assms(1), of "lo_messages (note_failure st f)"] stream_attempts_role
    by (auto simp: note_messages streamWithRetry_def split: option.split sum.split prod.split
        intro!: reply_turn_kept yields_bind[of "\<lambda>(n, r). pred_option calls_answered r"] yields_bind[of from_assistant])
qed

lemma budget_answered: "calls_answered ms \<Longrightarrow> calls_answered (ms @ budget_warning iter limit)"
  by (simp add: budget_warning_def answered_text)

lemma proactive_kept:
  assumes "compress_answers a" and "calls_answered ms"
  shows "yields (\<lambda>(n, ms'). calls_answered ms') (maybeProactiveCompress a n ms)"
  unfolding maybeProactiveCompress_def
  using assms tryCompress_kept[OF assms]
  by (auto intro!: yields_bind[of "\<lambda>(n, r). pred_option calls_answered r"] split: option.split)

lemma loop_turn_kept:
  assumes "compress_answers a" and "calls_answered (lo_messages st)"
  shows "ends kept (loop_turn a iter st)"
  unfolding loop_turn_def
  apply (rule yields_then)
  apply (split sum.split, intro conjI allI impI, simp)
  apply (rule yields_bind[OF proactive_kept[OF assms(1) budget_answered[OF assms(2)]]])
  apply (clarsimp simp: Let_def)
  apply (rule yields_then)
  apply (split sum.split, intro conjI allI impI, simp)
  apply (rule yields_bind[OF streamWithRetry_role])
  apply (auto split: sum.split intro!: failed_turn_kept reply_turn_kept assms)
  done

lemma loop_turns_kept:
  assumes "compress_answers a"
  shows "calls_answered (lo_messages st) \<Longrightarrow>
    ends (\<lambda>(st', failed). failed = None \<longrightarrow> calls_answered (lo_messages st')) (loop_turns a iter left st)"
proof (induction left arbitrary: iter st)
  case (Suc left)
  show ?case
    unfolding loop_turns.simps
    by (rule yields_andthen[OF loop_turn_kept[OF assms Suc.prems]]) (auto split: turn_end.split intro!: Suc.IH)
qed simp

text \<open>
  C40: every tool call of a conversation is answered.  When the messages an agent starts from answer every call
  in them, and compressing a history keeps that, so do the messages of a run that ends without an error: the
  message after a call is the user's and has a result for each call with an id, in the order of the calls,
  whatever was denied, failed, ran together, was cut to size or replaced by a placeholder.
\<close>

theorem run_answers_calls:
  assumes "Agent_Run a fails ms w i s = (Inr (Some e), j, s')" and "re_result e = Inr r" and "calls_answered ms"
    and "\<And>compress ms w i s ms' j s'. ag_compress a = Some compress \<Longrightarrow> compress ms w i s = (Inr ms', j, s') \<Longrightarrow>
      calls_answered ms \<Longrightarrow> calls_answered ms'"
  shows "calls_answered (rr_messages r)"
proof -
  have compress: "compress_answers a" using assms(4) unfolding compress_answers_def by blast
  have "calls_answered (lo_messages (start_state fails ms))" using assms(3) by (simp add: start_state_def)
  note turns = loop_turns_kept[OF compress this]
  have "ends (\<lambda>e. pred_sum (\<lambda>_. True) (\<lambda>r. calls_answered (rr_messages r)) (re_result e)) (Agent_Run a fails ms)"
    unfolding Agent_Run_def
  proof (rule yields_andthen[OF turns], clarsimp)
    fix st :: loop_state and failed :: "err option" assume st: "failed = None \<longrightarrow> calls_answered (lo_messages st)"
    have "yields (pred_sum (\<lambda>_. True) (\<lambda>r. calls_answered (rr_messages r))) (finish_run a st failed)"
      using st by (auto simp: finish_run_def loop_result_def split: option.split intro!: yields_then)
    then show "ends (\<lambda>e. pred_sum (\<lambda>_. True) (\<lambda>r. calls_answered (rr_messages r)) (re_result e))
      (bind (finish_run a st failed) (\<lambda>r. bind (fireReflectionHook a st r) (\<lambda>f.
        give \<lparr>re_result = r, re_reflection = f, re_fails = lo_fails st\<rparr>)))"
      by (rule yields_bind) (auto intro!: yields_then)
  qed
  from yieldsD[OF this assms(1)] assms(2) show ?thesis by simp
qed

section \<open>A sample\<close>

text \<open>A model that asks for one tool and then answers, in plan mode.\<close>

definition sample_call :: "string \<Rightarrow> tool_use" where
  "sample_call name = \<lparr>tu_id = ''1'', tu_name = name, tu_input = ''''\<rparr>"

definition sample_agent :: "string \<Rightarrow> nat agent" where
  "sample_agent name =
     \<lparr>ag_tools = \<lparr>tc_safety = (\<lambda>_. Some (Inr (False, ''''))),
        tc_permission = \<lparr>pm_allow = [], pm_deny = [], pm_prompter = None, pm_mode = (\<lambda>_. ModePlan)\<rparr>,
        tc_hooks = [], tc_registry = [],
        tc_executor = (\<lambda>_ _ _ _. give (Some \<lparr>rs_output = ''ok'', rs_is_error = False, rx_mutation = None\<rparr>)),
        tc_finalize = None, tc_notify = (\<lambda>_. ret ()), tc_rank = (\<lambda>k. k)\<rparr>,
      ag_hooks = \<lparr>lh_iteration = [], lh_pre_llm = [], lh_post_llm = [], lh_error = [], lh_stop = []\<rparr>,
      ag_provider = \<lparr>pv_name = ''p'', pv_effort = '''',
        pv_stream = (\<lambda>req w i s. (Inr (if s = 0 then [EventToolUseStart (Some (sample_call name)),
          EventToolUseDone (Some (sample_call name))] else [EventTextDelta ''done''], None), i, s + 1)),
        pv_chat = (\<lambda>_. fail (EMsg ''none'')), pv_classified = (\<lambda>_. None), pv_meta = (\<lambda>_. None),
        pv_status = (\<lambda>_. None)\<rparr>,
      ag_model = ''m'', ag_system = '''', ag_effort = '''', ag_effort_mode = '''', ag_exposure = '''', ag_max = 2,
      ag_compress = None, ag_window = 0, ag_reflect = False, ag_session = ''''\<rparr>"

lemma truncate_small: "ms \<noteq> [] \<Longrightarrow> ms_role (last ms) = RoleUser \<Longrightarrow> list_all (\<lambda>b. result_size b \<le> 50000) (ms_content (last ms)) \<Longrightarrow>
  sum_list (map result_size (ms_content (last ms))) \<le> 200000 \<Longrightarrow> truncateToolResults ms = Some ms"
proof -
  assume a: "ms_role (last ms) = RoleUser" "ms \<noteq> []" "list_all (\<lambda>b. result_size b \<le> 50000) (ms_content (last ms))"
    "sum_list (map result_size (ms_content (last ms))) \<le> 200000"
  have "cap_result b = b" if "result_size b \<le> 50000" for b
    using that by (cases b) (simp_all add: cap_result_def result_size_def toolResultPerToolLimit_def)
  with a have "map cap_result (ms_content (last ms)) = ms_content (last ms)" by (simp add: list_all_iff map_idI)
  with a show ?thesis by (simp add: truncateToolResults_def cut_largest.simps toolResultTotalLimit_def)
qed

abbreviation sample_messages :: "message list" where
  "sample_messages \<equiv> [NewUserMessage ''go'', BuildAssistantMessage [] [sample_call ''grep''], NewToolResultMessage ''1'' ''ok'' False]"

lemma sample_batch:
  "executeToolsWithStats (ag_tools (sample_agent ''grep'')) [NewUserMessage ''go'', BuildAssistantMessage [] [sample_call ''grep'']]
     [sample_call ''grep''\<lparr>tu_input := ''{}''\<rparr>] [] (calm_world 0) 0 (Suc 0) =
   (Inr (Some (sample_messages, [(''grep'', \<lparr>tst_calls = 1, tst_errors = 0, tst_total = 0\<rparr>)], [])), 3, Suc 0)" 
  by code_simp

lemma sample_stream:
  "streamWithRetry (sample_agent ''grep'') req (calm_world 0) i 0 =
     (Inr (Inr (BuildAssistantMessage [] [sample_call ''grep''], req, usage_zero)), i, 1)"
  "streamWithRetry (sample_agent ''grep'') req (calm_world 0) i (Suc 0) =
     (Inr (Inr (BuildAssistantMessage [''done''] [], req, usage_zero)), i, Suc (Suc 0))"
  by (simp_all add: streamWithRetry_def retryMaxAttempts_def numeral_3_eq_3 bind_def ret_def attempt_def stream_def sample_agent_def accumulated_zero_def
    isEmptyAssistantMessage_def BuildAssistantMessage_def ExtractToolUseBlocks_def block_tool_def sample_call_def message_Text_def block_text_def)

lemma sample_turn1:
  "\<exists>st. loop_turn (sample_agent ''grep'') 0 (start_state 0 [NewUserMessage ''go'']) (calm_world 0) 0 0 =
     (Inr (Some (st, Continue)), 3, Suc 0) \<and> lo_messages st = sample_messages \<and> lo_fails st = 0"
proof -
  have calls: "ExtractToolUseBlocks (BuildAssistantMessage [] [sample_call ''grep'']) = [sample_call ''grep''\<lparr>tu_input := ''{}''\<rparr>]" by code_simp
  have trunc: "truncateToolResults sample_messages = Some sample_messages"
    by (rule truncate_small) (simp_all add: NewToolResultMessage_def result_size_def)
  have att: "attenuateHistoricalToolResults sample_messages (int (countToolResultTurns sample_messages) - 1) = sample_messages" by code_simp
  have hooks: "ag_hooks (sample_agent n) = \<lparr>lh_iteration = [], lh_pre_llm = [], lh_post_llm = [], lh_error = [], lh_stop = []\<rparr>"
    "ag_compress (sample_agent n) = None" "ag_max (sample_agent n) = 2" for n by (simp_all add: sample_agent_def)
  show ?thesis
    by (simp add: Let_def loop_turn_def RunOnIterationStart_def RunPreLLMCall_def run_hooks_def hooks bind_def attempt_def ret_def maybeProactiveCompress_def
      budget_warning_def start_state_def sample_stream reply_turn_def RunPostLLMCall_def calls tools_turn_def andthen_def attempt_run_def sample_batch
      give_def trunc att)
qed

abbreviation sample_end :: "message list" where
  "sample_end \<equiv> sample_messages @ [BuildAssistantMessage [''done''] []]"

lemma sample_turn2:
  assumes "lo_messages st = sample_messages"
  shows "\<exists>st'. loop_turn (sample_agent ''grep'') 1 st (calm_world 0) 3 (Suc 0) =
     (Inr (Some (st', Break)), 3, Suc (Suc 0)) \<and> lo_messages st' = sample_end"
proof -
  have calls: "ExtractToolUseBlocks (BuildAssistantMessage [''done''] []) = []" by code_simp
  have said: "message_Text (BuildAssistantMessage [''done''] []) = ''done''" by code_simp
  have ack: "\<not> isAckOnly ''done''"
  proof -
    have "TrimSpace ''done'' = ''done''" by code_simp
    then show ?thesis by (simp add: isAckOnly_def HasPrefix_def)
  qed
  have hooks: "ag_hooks (sample_agent n) = \<lparr>lh_iteration = [], lh_pre_llm = [], lh_post_llm = [], lh_error = [], lh_stop = []\<rparr>"
    "ag_compress (sample_agent n) = None" "ag_max (sample_agent n) = 2" for n by (simp_all add: sample_agent_def)
  show ?thesis using assms
    by (simp add: Let_def loop_turn_def RunOnIterationStart_def RunPreLLMCall_def run_hooks_def hooks bind_def attempt_def ret_def maybeProactiveCompress_def
      budget_warning_def sample_stream reply_turn_def RunPostLLMCall_def calls said ack give_def)
qed

lemma sample_run:
  "\<exists>e r. Agent_Run (sample_agent ''grep'') 0 [NewUserMessage ''go''] (calm_world 0) 0 0 = (Inr (Some e), 3, Suc (Suc 0)) \<and>
     re_result e = Inr r \<and> rr_messages r = sample_end"
proof -
  obtain st where one: "loop_turn (sample_agent ''grep'') 0 (start_state 0 [NewUserMessage ''go'']) (calm_world 0) 0 0 =
     (Inr (Some (st, Continue)), 3, Suc 0)" "lo_messages st = sample_messages"
    using sample_turn1 by blast
  obtain st' where two: "loop_turn (sample_agent ''grep'') 1 st (calm_world 0) 3 (Suc 0) =
     (Inr (Some (st', Break)), 3, Suc (Suc 0))" "lo_messages st' = sample_end"
    using sample_turn2[OF one(2)] by blast
  have cfg: "ag_max (sample_agent n) = Suc (Suc 0)" "ag_hooks (sample_agent n) = \<lparr>lh_iteration = [], lh_pre_llm = [], lh_post_llm = [], lh_error = [], lh_stop = []\<rparr>"
    "\<not> ag_reflect (sample_agent n)" for n by (simp_all add: sample_agent_def)
  have "\<not> still_asking sample_end" by code_simp
  with one two show ?thesis
    by (simp add: Agent_Run_def cfg andthen_def bind_def ret_def give_def finish_run_def RunOnStop_def fireReflectionHook_def loop_result_def)
qed

lemma run_answers_calls_witness:
  "\<exists>e r. Agent_Run (sample_agent ''grep'') 0 [NewUserMessage ''go''] (calm_world 0) 0 0 = (Inr (Some e), 3, Suc (Suc 0)) \<and>
     re_result e = Inr r \<and> length (rr_messages r) = 4 \<and> calls_answered (rr_messages r)"
proof -
  obtain e r where run: "Agent_Run (sample_agent ''grep'') 0 [NewUserMessage ''go''] (calm_world 0) 0 0 = (Inr (Some e), 3, Suc (Suc 0))"
    "re_result e = Inr r" "rr_messages r = sample_end"
    using sample_run by blast
  have start: "calls_answered [NewUserMessage ''go'']" by code_simp
  have none: "ag_compress (sample_agent ''grep'') = None" by (simp add: sample_agent_def)
  have "calls_answered (rr_messages r)"
    by (rule run_answers_calls[OF run(1,2) start]) (simp add: none)
  with run show ?thesis by auto
qed


end
