(* ===== verification/Delegation_Tools.thy ===== *)
theory Delegation_Tools
  imports Enqueue_Service Gateway Lesson_Store
begin

text \<open>
  The tools an agent delegates with, \<open>internal/agentic/tools/delegate_create_tool.go\<close>,
  \<open>delegate_enqueue_tool.go\<close> and \<open>delegate_list_tool.go\<close>: a child task is recorded as proposed under
  an edge \<open>delegates_to\<close>, and only a task under such an edge is handed to the enqueue service, which
  \<open>cmd/elnath/runtime.go\<close> connects to \<open>Enqueue_Service\<close>.  The store is there; a tool answers every
  error of it as a result.  A panic of the service is the error \<open>nil_panic\<close>, which no tool catches.
\<close>

section \<open>Parameters and answers\<close>

definition answer_error :: "string \<Rightarrow> ('s, tool_result) act" where
  "answer_error msg = ret (ErrorResult msg)"

definition SuccessResult :: "string \<Rightarrow> tool_result" where
  "SuccessResult output = \<lparr>rs_output = output, rs_is_error = False\<rparr>"

definition answer_json :: "json \<Rightarrow> ('s, tool_result) act" where
  "answer_json j = ret (SuccessResult (print_json j))"

text \<open>\<open>if err != nil { return ErrorResult(...) }\<close> after a call of the store.\<close>

definition or_answer :: "('s, 'a) act \<Rightarrow> (err \<Rightarrow> string) \<Rightarrow> ('a \<Rightarrow> ('s, tool_result) act) \<Rightarrow> ('s, tool_result) act" where
  "or_answer m msg k =
     bind (attempt m) (\<lambda>r. case r of Inl er \<Rightarrow> answer_error (msg er) | Inr a \<Rightarrow> k a)"

text \<open>Parameters that are not there leave the zero input; the text of a JSON error is left out.\<close>

definition with_input ::
  "(string \<Rightarrow> json \<Rightarrow> 'i \<Rightarrow> 'i \<times> bool) \<Rightarrow> 'i \<Rightarrow> string \<Rightarrow> ('i \<Rightarrow> ('s, tool_result) act) \<Rightarrow> ('s, tool_result) act" where
  "with_input set_field zero params k =
     (if params = '''' then k zero
      else case unmarshal_struct set_field zero params of
             (input, ok) \<Rightarrow> if ok then k input else answer_error ''invalid params'')"

definition failed_with :: "string \<Rightarrow> err \<Rightarrow> string" where
  "failed_with what er = what @ '': '' @ err_text er"

definition missing_or :: "string \<Rightarrow> err \<Rightarrow> string" where
  "missing_or what er = (if err_is er ErrNoRows then what @ '' not found'' else failed_with what er)"

definition num_member :: "string \<Rightarrow> int \<Rightarrow> string \<times> json" where
  "num_member k v = (k, JNum (itoa v))"

definition opt_num :: "string \<Rightarrow> int \<Rightarrow> (string \<times> json) list" where
  "opt_num k v = (if v = 0 then [] else [num_member k v])"

definition opt_flag :: "string \<Rightarrow> bool \<Rightarrow> (string \<times> json) list" where
  "opt_flag k b = (if b then [(k, JBool True)] else [])"

text \<open>The receipt every answer carries; members that are zero are left out.\<close>

record agentic_receipt =
  gr_tool :: string
  gr_action :: string
  gr_read_only :: bool
  gr_persistent :: bool
  gr_execution_policy :: string
  gr_parent_task_id :: int
  gr_child_task_id :: int
  gr_task_id :: int
  gr_queue_task_id :: int
  gr_decision_id :: int
  gr_decision_status :: string
  gr_status :: string
  gr_edge_type :: string
  gr_enqueued :: bool
  gr_deduplicated :: bool
  gr_total :: int
  gr_from_actor_id :: int
  gr_to_actor_id :: int
  gr_actor_id :: int
  gr_handoff_id :: int
  gr_box :: string
  gr_delivered :: bool

definition agentic_receipt_of :: "string \<Rightarrow> string \<Rightarrow> bool \<Rightarrow> string \<Rightarrow> agentic_receipt" where
  "agentic_receipt_of name action read_only policy =
     \<lparr>gr_tool = name, gr_action = action, gr_read_only = read_only, gr_persistent = \<not> read_only,
      gr_execution_policy = policy, gr_parent_task_id = 0, gr_child_task_id = 0, gr_task_id = 0,
      gr_queue_task_id = 0, gr_decision_id = 0, gr_decision_status = '''', gr_status = '''', gr_edge_type = '''',
      gr_enqueued = False, gr_deduplicated = False, gr_total = 0, gr_from_actor_id = 0, gr_to_actor_id = 0,
      gr_actor_id = 0, gr_handoff_id = 0, gr_box = '''', gr_delivered = False\<rparr>"

definition agentic_receipt_json :: "agentic_receipt \<Rightarrow> json" where
  "agentic_receipt_json r = JObj (
     [(''tool'', JStr (gr_tool r)), (''action'', JStr (gr_action r)), (''read_only'', JBool (gr_read_only r)),
      (''persistent'', JBool (gr_persistent r)), (''execution_policy'', JStr (gr_execution_policy r))] @
     opt_num ''parent_task_id'' (gr_parent_task_id r) @ opt_num ''child_task_id'' (gr_child_task_id r) @
     opt_num ''task_id'' (gr_task_id r) @ opt_num ''queue_task_id'' (gr_queue_task_id r) @
     opt_num ''decision_id'' (gr_decision_id r) @ opt_member ''decision_status'' (gr_decision_status r) @
     opt_member ''status'' (gr_status r) @ opt_member ''edge_type'' (gr_edge_type r) @
     opt_flag ''enqueued'' (gr_enqueued r) @ opt_flag ''deduplicated'' (gr_deduplicated r) @
     opt_num ''total'' (gr_total r) @ opt_num ''from_actor_id'' (gr_from_actor_id r) @
     opt_num ''to_actor_id'' (gr_to_actor_id r) @ opt_num ''actor_id'' (gr_actor_id r) @
     opt_num ''handoff_id'' (gr_handoff_id r) @ opt_member ''box'' (gr_box r) @
     opt_flag ''delivered'' (gr_delivered r))"

section \<open>Creating a delegated task\<close>

definition DelegateCreateToolName :: string where "DelegateCreateToolName = ''agentic_delegate_create''"
definition delegateEdgeType :: string where "delegateEdgeType = ''delegates_to''"

record delegate_create_input =
  ci_parent_task_id :: int
  ci_title :: string
  ci_prompt :: string
  ci_priority :: int
  ci_risk_level :: string

definition delegate_create_zero :: delegate_create_input where
  "delegate_create_zero = \<lparr>ci_parent_task_id = 0, ci_title = '''', ci_prompt = '''', ci_priority = 0, ci_risk_level = ''''\<rparr>"

definition set_create_field :: "string \<Rightarrow> json \<Rightarrow> delegate_create_input \<Rightarrow> delegate_create_input \<times> bool" where
  "set_create_field k v p =
     (if k = ''parent_task_id'' then (case dec_int64 v (ci_parent_task_id p) of (x, ok) \<Rightarrow> (p\<lparr>ci_parent_task_id := x\<rparr>, ok))
      else if k = ''title'' then (case dec_string v (ci_title p) of (x, ok) \<Rightarrow> (p\<lparr>ci_title := x\<rparr>, ok))
      else if k = ''prompt'' then (case dec_string v (ci_prompt p) of (x, ok) \<Rightarrow> (p\<lparr>ci_prompt := x\<rparr>, ok))
      else if k = ''priority'' then (case dec_int64 v (ci_priority p) of (x, ok) \<Rightarrow> (p\<lparr>ci_priority := x\<rparr>, ok))
      else if k = ''risk_level'' then (case dec_string v (ci_risk_level p) of (x, ok) \<Rightarrow> (p\<lparr>ci_risk_level := x\<rparr>, ok))
      else (p, True))"

definition normalizeDelegateRisk :: "string \<Rightarrow> string option" where
  "normalizeDelegateRisk risk =
     (let r = ToLower (TrimSpace risk) in
      if r = '''' then Some RiskLevelLow
      else if r \<in> {RiskLevelLow, RiskLevelMedium, RiskLevelHigh, RiskLevelCritical} then Some r else None)"

text \<open>The priority asked for, else the parent's, else 1.\<close>

definition delegate_priority :: "int \<Rightarrow> agentic_task option \<Rightarrow> int" where
  "delegate_priority asked parent =
     (if asked > 0 then asked
      else case parent of Some p \<Rightarrow> if at_priority p > 0 then at_priority p else 1 | None \<Rightarrow> 1)"

definition delegate_child :: "string \<Rightarrow> string \<Rightarrow> int \<Rightarrow> string \<Rightarrow> agentic_task option \<Rightarrow> agentic_task" where
  "delegate_child title prompt priority risk parent =
     \<lparr>at_id = 0, at_goal_id = Option.bind parent at_goal_id, at_signal_id = Option.bind parent at_signal_id,
      at_parent_id = map_option at_id parent, at_queue_task_id = None, at_title = title, at_prompt = prompt,
      at_status = TaskStatusProposed, at_priority = priority, at_risk_level = risk,
      at_autonomy_decision = PolicyDecisionObserveOnly, at_approval_request_id = '''',
      at_verification_status = VerificationStatusPending, at_due_at = None, at_created_at = zero_time,
      at_updated_at = zero_time\<rparr>"

definition delegate_edge :: "int \<Rightarrow> int \<Rightarrow> task_edge" where
  "delegate_edge parent child =
     \<lparr>te_parent_id = parent, te_child_id = child, te_edge_type = delegateEdgeType, te_created_at = zero_time\<rparr>"

definition delegate_create_json :: "delegate_create_input \<Rightarrow> agentic_task \<Rightarrow> string \<Rightarrow> json" where
  "delegate_create_json input created edgeType = JObj (
     opt_num ''parent_task_id'' (ci_parent_task_id input) @
     [num_member ''child_task_id'' (at_id created), (''status'', JStr (at_status created))] @
     opt_member ''edge_type'' edgeType @
     [(''enqueued'', JBool False),
      (''boundary'', JStr ''delegation intent recorded; child task is proposed and not enqueued''),
      (''receipt'', agentic_receipt_json (agentic_receipt_of DelegateCreateToolName ''create'' False ''agentic_delegation_intent''
        \<lparr>gr_parent_task_id := ci_parent_task_id input, gr_child_task_id := at_id created,
         gr_status := at_status created, gr_edge_type := edgeType\<rparr>))])"

text \<open>The parent named in the input, if one is.\<close>

definition delegate_parent :: "int \<Rightarrow> (agentic_task option \<Rightarrow> (db, tool_result) act) \<Rightarrow> (db, tool_result) act" where
  "delegate_parent pid k =
     (if pid = 0 then k None
      else or_answer (GetAgenticTask pid)
        (missing_or (DelegateCreateToolName @ '': parent task '' @ itoa pid)) (\<lambda>p. k (Some p)))"

definition record_delegation ::
  "delegate_create_input \<Rightarrow> agentic_task \<Rightarrow> agentic_task option \<Rightarrow> (db, tool_result) act" where
  "record_delegation input child parent =
     or_answer (CreateAgenticTask child) (failed_with (DelegateCreateToolName @ '': create child task'')) (\<lambda>created.
     case parent of
       None \<Rightarrow> answer_json (delegate_create_json input created '''')
     | Some p \<Rightarrow>
         or_answer (CreateTaskEdge (delegate_edge (at_id p) (at_id created)))
           (failed_with (DelegateCreateToolName @ '': create task edge''))
           (\<lambda>_. answer_json (delegate_create_json input created delegateEdgeType)))"

definition DelegateCreate_Execute :: "string \<Rightarrow> (db, tool_result) act" where
  "DelegateCreate_Execute params =
     with_input set_create_field delegate_create_zero params (\<lambda>input.
     let title = TrimSpace (ci_title input); prompt = TrimSpace (ci_prompt input) in
     if title = '''' then answer_error (DelegateCreateToolName @ '': title is required'')
     else if prompt = '''' then answer_error (DelegateCreateToolName @ '': prompt is required'')
     else
       delegate_parent (ci_parent_task_id input) (\<lambda>parent.
       case normalizeDelegateRisk (ci_risk_level input) of
         None \<Rightarrow> answer_error (DelegateCreateToolName @ '': risk_level must be low, medium, high, or critical'')
       | Some risk \<Rightarrow>
           record_delegation input
             (delegate_child title prompt (delegate_priority (ci_priority input) parent) risk parent) parent))"

section \<open>Handing a delegated task to the queue\<close>

definition DelegateEnqueueToolName :: string where "DelegateEnqueueToolName = ''agentic_delegate_enqueue''"

record delegate_enqueue_result =
  dr_queue_task_id :: int
  dr_existed :: bool
  dr_decision_id :: int
  dr_decision_status :: string

record delegate_enqueue_input =
  ei_child_task_id :: int
  ei_parent_task_id :: int
  ei_operator_id :: string
  ei_reason :: string
  ei_enforcement :: string
  ei_completion_gate :: string

definition delegate_enqueue_zero :: delegate_enqueue_input where
  "delegate_enqueue_zero = \<lparr>ei_child_task_id = 0, ei_parent_task_id = 0, ei_operator_id = '''', ei_reason = '''',
     ei_enforcement = '''', ei_completion_gate = ''''\<rparr>"

definition set_enqueue_field :: "string \<Rightarrow> json \<Rightarrow> delegate_enqueue_input \<Rightarrow> delegate_enqueue_input \<times> bool" where
  "set_enqueue_field k v p =
     (if k = ''child_task_id'' then (case dec_int64 v (ei_child_task_id p) of (x, ok) \<Rightarrow> (p\<lparr>ei_child_task_id := x\<rparr>, ok))
      else if k = ''parent_task_id'' then (case dec_int64 v (ei_parent_task_id p) of (x, ok) \<Rightarrow> (p\<lparr>ei_parent_task_id := x\<rparr>, ok))
      else if k = ''operator_id'' then (case dec_string v (ei_operator_id p) of (x, ok) \<Rightarrow> (p\<lparr>ei_operator_id := x\<rparr>, ok))
      else if k = ''reason'' then (case dec_string v (ei_reason p) of (x, ok) \<Rightarrow> (p\<lparr>ei_reason := x\<rparr>, ok))
      else if k = ''agentic_enforcement'' then (case dec_string v (ei_enforcement p) of (x, ok) \<Rightarrow> (p\<lparr>ei_enforcement := x\<rparr>, ok))
      else if k = ''agentic_completion_gate''
      then (case dec_string v (ei_completion_gate p) of (x, ok) \<Rightarrow> (p\<lparr>ei_completion_gate := x\<rparr>, ok))
      else (p, True))"

definition delegate_enqueue_json :: "delegate_enqueue_input \<Rightarrow> int \<Rightarrow> int \<Rightarrow> delegate_enqueue_result \<Rightarrow> json" where
  "delegate_enqueue_json input parentID childID r = JObj (
     [num_member ''parent_task_id'' parentID, num_member ''child_task_id'' childID,
      num_member ''queue_task_id'' (dr_queue_task_id r), (''enqueued'', JBool (dr_queue_task_id r \<noteq> 0)),
      (''deduplicated'', JBool (dr_existed r))] @
     opt_num ''decision_id'' (dr_decision_id r) @ opt_member ''decision_status'' (dr_decision_status r) @
     opt_member ''requested_enforcement'' (ei_enforcement input) @
     opt_member ''requested_completion_gate'' (ei_completion_gate input) @
     [(''boundary'', JStr ''delegated child task enqueued through daemon queue; execution remains queue/receipt backed''),
      (''receipt'', agentic_receipt_json (agentic_receipt_of DelegateEnqueueToolName ''enqueue'' False ''agentic_delegation_enqueue''
        \<lparr>gr_parent_task_id := parentID, gr_child_task_id := childID, gr_queue_task_id := dr_queue_task_id r,
         gr_decision_id := dr_decision_id r, gr_decision_status := dr_decision_status r,
         gr_enqueued := (dr_queue_task_id r \<noteq> 0), gr_deduplicated := dr_existed r\<rparr>))])"

type_synonym delegate_service = "enqueue_request \<Rightarrow> (db, delegate_enqueue_result) act"

text \<open>The call of the service; its panics go on.\<close>

definition call_service ::
  "delegate_service \<Rightarrow> enqueue_request \<Rightarrow> (delegate_enqueue_result \<Rightarrow> (db, tool_result) act) \<Rightarrow> (db, tool_result) act" where
  "call_service service req k =
     bind (attempt (service req)) (\<lambda>r.
     case r of
       Inl er \<Rightarrow> if er = nil_panic then fail nil_panic else answer_error (failed_with DelegateEnqueueToolName er)
     | Inr a \<Rightarrow> k a)"

definition DelegateEnqueue_Execute :: "delegate_service option \<Rightarrow> string \<Rightarrow> (db, tool_result) act" where
  "DelegateEnqueue_Execute service params =
     with_input set_enqueue_field delegate_enqueue_zero params (\<lambda>input.
     if ei_child_task_id input = 0 then answer_error (DelegateEnqueueToolName @ '': child_task_id is required'')
     else
       or_answer (GetAgenticTask (ei_child_task_id input))
         (missing_or (DelegateEnqueueToolName @ '': child task '' @ itoa (ei_child_task_id input))) (\<lambda>child.
       let parentID = (if ei_parent_task_id input = 0 then intFromNull (at_parent_id child) else ei_parent_task_id input) in
       if parentID = 0 then answer_error (DelegateEnqueueToolName @ '': child task is not a delegated child'')
       else
         or_answer (GetTaskEdge parentID (at_id child) delegateEdgeType)
           (\<lambda>er. if err_is er ErrNoRows then DelegateEnqueueToolName @ '': delegates_to edge not found for delegated child''
                 else failed_with (DelegateEnqueueToolName @ '': delegates_to edge lookup'') er) (\<lambda>_.
         case service of
           None \<Rightarrow> answer_error (DelegateEnqueueToolName @ '': enqueue service unavailable'')
         | Some run \<Rightarrow>
             call_service run
               \<lparr>er_task_id = at_id child, er_operator_id = TrimSpace (ei_operator_id input),
                er_reason = TrimSpace (ei_reason input), er_enforcement = ei_enforcement input,
                er_completion_gate = ei_completion_gate input\<rparr>
               (\<lambda>r. answer_json (delegate_enqueue_json input parentID (at_id child) r)))))"

text \<open>The service the runtime gives the tool.\<close>

definition EnqueueDelegated ::
  "(string \<Rightarrow> string \<Rightarrow> (db, int \<times> bool) act) \<Rightarrow> (string \<Rightarrow> string) \<Rightarrow> enqueue_options \<Rightarrow> delegate_service" where
  "EnqueueDelegated enq redact opts req =
     bind (Enqueue enq redact opts req) (\<lambda>out.
     ret \<lparr>dr_queue_task_id = eq_queue_task_id out, dr_existed = eq_existed out,
          dr_decision_id = ed_id (eq_decision out), dr_decision_status = ed_status (eq_decision out)\<rparr>)"

section \<open>Listing delegated tasks\<close>

definition DelegateListToolName :: string where "DelegateListToolName = ''agentic_delegate_list''"

text \<open>An instant as \<open>RFC3339Nano\<close> in UTC, of a year from 0 on; the zero instant is empty.\<close>

definition formatEvidenceTime :: "int \<Rightarrow> string" where
  "formatEvidenceTime t = (if t = zero_time then '''' else rfc3339 (t * 1000000))"

definition set_parent_field :: "string \<Rightarrow> json \<Rightarrow> int \<Rightarrow> int \<times> bool" where
  "set_parent_field k v p = (if k = ''parent_task_id'' then dec_int64 v p else (p, True))"

definition delegate_list_item :: "task_edge \<Rightarrow> agentic_task \<Rightarrow> json" where
  "delegate_list_item edge child = JObj (
     [num_member ''task_id'' (at_id child), (''title'', JStr (at_title child)), (''status'', JStr (at_status child)),
      num_member ''priority'' (at_priority child), (''risk_level'', JStr (at_risk_level child)),
      (''edge_type'', JStr (te_edge_type edge)),
      (''enqueued'', JBool (intFromNull (at_queue_task_id child) \<noteq> 0))] @
     opt_num ''queue_task_id'' (intFromNull (at_queue_task_id child)) @
     opt_member ''created_at'' (formatEvidenceTime (at_created_at child)))"

definition delegate_list_json :: "int \<Rightarrow> json list \<Rightarrow> json" where
  "delegate_list_json parentID children = JObj
     [num_member ''parent_task_id'' parentID, num_member ''total'' (int (length children)), (''children'', JArr children),
      (''receipt'', agentic_receipt_json (agentic_receipt_of DelegateListToolName ''list'' True ''agentic_delegation_observation''
        \<lparr>gr_parent_task_id := parentID, gr_total := int (length children)\<rparr>))]"

text \<open>One item after the other, until a task cannot be read.\<close>

fun list_children ::
  "string \<Rightarrow> (task_edge \<Rightarrow> agentic_task \<Rightarrow> 'a) \<Rightarrow> 'a list \<Rightarrow> task_edge list \<Rightarrow> ('a list \<Rightarrow> (db, tool_result) act) \<Rightarrow> (db, tool_result) act" where
  "list_children name item acc [] k = k acc"
| "list_children name item acc (edge # edges) k =
     or_answer (GetAgenticTask (te_child_id edge)) (failed_with (name @ '': child task '' @ itoa (te_child_id edge)))
       (\<lambda>child. list_children name item (acc @ [item edge child]) edges k)"

definition DelegateList_Execute :: "string \<Rightarrow> (db, tool_result) act" where
  "DelegateList_Execute params =
     with_input set_parent_field 0 params (\<lambda>parentID.
     if parentID = 0 then answer_error (DelegateListToolName @ '': parent_task_id is required'')
     else
       or_answer (GetAgenticTask parentID) (missing_or (DelegateListToolName @ '': parent task '' @ itoa parentID)) (\<lambda>_.
       or_answer (ListTaskEdgesByParent parentID delegateEdgeType)
         (failed_with (DelegateListToolName @ '': list edges'')) (\<lambda>edges.
       list_children DelegateListToolName delegate_list_item [] edges
         (\<lambda>children. answer_json (delegate_list_json parentID children)))))"

section \<open>Only proposals\<close>

interpretation agentic_tasks: keyed_table at_id mk_task
  by unfold_locales (simp add: mk_task_def Let_def split: prod.splits)

lemma create_run:
  assumes "CreateAgenticTask x (quiet w) i s = (r, j, s')" and "keys_ok at_id (db_tasks s)"
  shows "s' = s \<and> isl r \<or>
    (\<exists>row now. row = mk_task (x, now) (tbl_next (db_tasks s)) \<and> s' = s\<lparr>db_tasks := tbl_insert (mk_task (x, now)) (db_tasks s)\<rparr> \<and>
       (\<forall>k. r = Inr k \<longrightarrow> k = row))"
proof -
  have got: "get_row at_id (tbl_next (db_tasks s)) (tbl_insert (mk_task (x, now)) (db_tasks s)) = Inr (mk_task (x, now) (tbl_next (db_tasks s)))" for now
    using agentic_tasks.get_inserted[OF assms(2)] by (simp add: get_row_def)
  show ?thesis
    using assms(1)
    by (auto simp: CreateAgenticTask_def bind_def now_ms_def on_table_def exec_def query_def GetAgenticTask_def Let_def
      try_insert_def got split: option.splits sum.splits prod.splits if_splits)
qed

lemma edge_run:
  assumes "CreateTaskEdge e (quiet w) i s = (r, j, s')"
  shows "s' = s \<and> isl r \<or> (\<exists>e'. edge_key e' = edge_key e \<and> s' = s\<lparr>db_edges := db_edges s @ [e']\<rparr>)"
proof -
  let ?e = "e\<lparr>te_created_at := default_time (te_created_at e) (clock (w_env w) i)\<rparr>"
  have "s' = s \<and> isl r \<or> s' = s\<lparr>db_edges := db_edges s @ [?e]\<rparr>"
    using assms
    by (auto simp: CreateTaskEdge_def bind_def now_ms_def exec_def query_def GetTaskEdge_def Let_def
        split: option.splits sum.splits prod.splits if_splits)
  moreover have "edge_key ?e = edge_key e" by (simp add: edge_key_def)
  ultimately show ?thesis by metis
qed

lemma or_answer_run:
  "or_answer m msg k w i s = (case m w i s of
     (Inl er, j, s') \<Rightarrow> (Inr (ErrorResult (msg er)), j, s') | (Inr a, j, s') \<Rightarrow> k a w j s')"
  by (simp add: or_answer_def bind_def attempt_def answer_error_def ret_def split: prod.split sum.split)

text \<open>What a delegation may write: at most one proposal, and an edge from its parent to it.\<close>

definition proposal :: "agentic_task \<Rightarrow> bool" where
  "proposal k \<longleftrightarrow> at_status k = TaskStatusProposed \<and> at_queue_task_id k = None \<and>
     at_autonomy_decision k = PolicyDecisionObserveOnly"

definition recorded :: "db \<Rightarrow> agentic_task list \<Rightarrow> task_edge list \<Rightarrow> db \<Rightarrow> bool" where
  "recorded s new edges s' \<longleftrightarrow>
     s' = s\<lparr>db_tasks := (db_tasks s)\<lparr>tbl_rows := tbl_rows (db_tasks s) @ new,
              tbl_next := tbl_next (db_tasks s) + int (length new)\<rparr>, db_edges := db_edges s @ edges\<rparr> \<and>
     length new \<le> 1 \<and> list_all proposal new \<and>
     (\<forall>e \<in> set edges. \<exists>k \<in> set new. edge_key e = (intFromNull (at_parent_id k), at_id k, delegateEdgeType))"

definition complete_delegation :: "err + tool_result \<Rightarrow> agentic_task list \<Rightarrow> task_edge list \<Rightarrow> bool" where
  "complete_delegation r new edges \<longleftrightarrow>
     (\<exists>x. r = Inr x \<and> (\<not> rs_is_error x \<longrightarrow> (\<exists>k. new = [k] \<and> (at_parent_id k \<noteq> None \<longrightarrow> edges \<noteq> []))))"

lemma recorded_none: "recorded s [] [] s"
  by (simp add: recorded_def)

lemma child_row:
  assumes "\<And>p. parent = Some p \<Longrightarrow> at_id p \<noteq> 0"
  shows "proposal (mk_task (delegate_child title prompt priority risk parent, now) n)"
    "at_parent_id (mk_task (delegate_child title prompt priority risk parent, now) n) = map_option at_id parent"
    "at_id (mk_task (delegate_child title prompt priority risk parent, now) n) = n"
  using assms by (auto simp: proposal_def mk_task_def delegate_child_def Let_def norm_null_def nullableInt_def intFromNull_def split: option.splits)

lemma record_delegation_run:
  assumes "record_delegation input (delegate_child title prompt priority risk parent) parent (quiet w) i s = (r, j, s')"
    and "keys_ok at_id (db_tasks s)" and parent: "\<And>p. parent = Some p \<Longrightarrow> at_id p \<noteq> 0"
  shows "\<exists>new edges. recorded s new edges s' \<and> complete_delegation r new edges"
proof -
  let ?child = "delegate_child title prompt priority risk parent"
  obtain r1 j1 s1 where one: "CreateAgenticTask ?child (quiet w) i s = (r1, j1, s1)" by (metis prod_cases3)
  consider "s1 = s" "isl r1" | row now where "row = mk_task (?child, now) (tbl_next (db_tasks s))"
      "s1 = s\<lparr>db_tasks := tbl_insert (mk_task (?child, now)) (db_tasks s)\<rparr>" "\<And>k. r1 = Inr k \<Longrightarrow> k = row"
    using create_run[OF one assms(2)] by blast
  then show ?thesis
  proof cases
    case 1
    then obtain er where "r1 = Inl er" by (auto simp: isl_def)
    with 1 one assms(1) have "s' = s" "\<exists>m. r = Inr (ErrorResult m)"
      by (auto simp: record_delegation_def or_answer_run)
    then show ?thesis using recorded_none[of s]
      by (intro exI[of _ "[]"]) (auto simp: complete_delegation_def ErrorResult_def)
  next
    case (2 row now)
    have row: "proposal row" "at_parent_id row = map_option at_id parent" "at_id row = tbl_next (db_tasks s)"
      using child_row[of parent, OF parent] 2(1) by simp_all
    have state: "recorded s [row] es (s1\<lparr>db_edges := db_edges s @ es\<rparr>)"
      if "\<And>e. e \<in> set es \<Longrightarrow> edge_key e = (intFromNull (at_parent_id row), at_id row, delegateEdgeType)" for es
      using that row(1) 2(1,2) by (simp add: recorded_def tbl_insert_def)
    show ?thesis
    proof (cases r1)
      case (Inl er)
      with one assms(1) have "s' = s1" "r = Inr (ErrorResult (failed_with (DelegateCreateToolName @ '': create child task'') er))"
        by (auto simp: record_delegation_def or_answer_run)
      then show ?thesis using state[of "[]"] 2(2)
        by (intro exI[of _ "[row]"] exI[of _ "[]"]) (simp add: complete_delegation_def ErrorResult_def)
    next
      case (Inr k)
      then have k: "k = row" using 2(3) by simp
      show ?thesis
      proof (cases parent)
        case None
        with one assms(1) Inr have "s' = s1" "\<exists>x. r = Inr x"
          by (auto simp: record_delegation_def or_answer_run answer_json_def ret_def)
        then show ?thesis using state[of "[]"] 2(2) row(2) None
          by (intro exI[of _ "[row]"] exI[of _ "[]"]) (auto simp: complete_delegation_def)
      next
        case (Some p)
        obtain r2 j2 s2 where two: "CreateTaskEdge (delegate_edge (at_id p) (at_id row)) (quiet w) j1 s1 = (r2, j2, s2)"
          by (metis prod_cases3)
        have run: "s' = s2" "\<exists>x. r = Inr x \<and> (rs_is_error x \<longleftrightarrow> isl r2)"
          using one assms(1) Inr two Some k
          by (auto simp: record_delegation_def or_answer_run answer_json_def ret_def ErrorResult_def SuccessResult_def split: sum.splits)
        from edge_run[OF two] show ?thesis
        proof (elim disjE exE conjE)
          assume "s2 = s1" "isl r2"
          with run state[of "[]"] 2(2) show ?thesis
            by (intro exI[of _ "[row]"] exI[of _ "[]"]) (auto simp: complete_delegation_def)
        next
          fix e' assume e: "edge_key e' = edge_key (delegate_edge (at_id p) (at_id row))" "s2 = s1\<lparr>db_edges := db_edges s1 @ [e']\<rparr>"
          have "recorded s [row] [e'] s2"
            using state[of "[e']"] e row(2) Some 2(2) by (simp add: edge_key_def delegate_edge_def)
          with run show ?thesis by (auto simp: complete_delegation_def)
        qed
      qed
    qed
  qed
qed



section \<open>Only delegated tasks are enqueued\<close>

definition delegated :: "int \<Rightarrow> db \<Rightarrow> bool" where
  "delegated child s \<longleftrightarrow> (\<exists>e \<in> set (db_edges s). te_child_id e = child \<and> te_edge_type e = delegateEdgeType)"

definition for_delegated :: "delegate_service \<Rightarrow> delegate_service" where
  "for_delegated service req = (\<lambda>w i s.
     if delegated (er_task_id req) s then service req w i s else (Inl (EMsg ''not delegated''), i, s))"

lemma edge_then_service:
  "or_answer (GetTaskEdge p c delegateEdgeType) msg (\<lambda>_. call_service (for_delegated service) (req\<lparr>er_task_id := c\<rparr>) k) =
   or_answer (GetTaskEdge p c delegateEdgeType) msg (\<lambda>_. call_service service (req\<lparr>er_task_id := c\<rparr>) k)"
proof (intro ext)
  fix w i s
  have "delegated c s'" if "GetTaskEdge p c delegateEdgeType w i s = (Inr e, j, s')" for e j s'
    using that
    by (auto simp: GetTaskEdge_def query_def Let_def one_row_Inr delegated_def edge_key_def
        dest!: first_row_in split: option.splits sum.splits)
  then show "or_answer (GetTaskEdge p c delegateEdgeType) msg (\<lambda>_. call_service (for_delegated service) (req\<lparr>er_task_id := c\<rparr>) k) w i s =
    or_answer (GetTaskEdge p c delegateEdgeType) msg (\<lambda>_. call_service service (req\<lparr>er_task_id := c\<rparr>) k) w i s"
    by (auto simp: or_answer_run call_service_def bind_def attempt_def for_delegated_def split: prod.split sum.split)
qed

lemma request_task: "\<lparr>er_task_id = c, er_operator_id = x, er_reason = y, er_enforcement = z, er_completion_gate = g\<rparr> =
  \<lparr>er_task_id = 0, er_operator_id = x, er_reason = y, er_enforcement = z, er_completion_gate = g\<rparr>\<lparr>er_task_id := c\<rparr>"
  by simp

text \<open>
  C11: Only delegated tasks reach the queue.  The tool \<open>agentic_delegate_enqueue\<close> with any service is the tool
  with the service that first refuses every task no \<open>delegates_to\<close> edge leads to: for every input, and
  whatever other processes do to the database and the driver answers.
\<close>

theorem delegated_only_enqueued:
  "DelegateEnqueue_Execute (Some service) params =
   DelegateEnqueue_Execute (Some (\<lambda>req w i s.
     if \<exists>e \<in> set (db_edges s). te_child_id e = er_task_id req \<and> te_edge_type e = delegateEdgeType
     then service req w i s else (Inl (EMsg ''not delegated''), i, s))) params"
proof -
  have guard: "(\<lambda>req w i s. if \<exists>e \<in> set (db_edges s). te_child_id e = er_task_id req \<and> te_edge_type e = delegateEdgeType
     then service req w i s else (Inl (EMsg ''not delegated''), i, s)) = for_delegated service"
    by (intro ext) (simp add: for_delegated_def delegated_def)
  show ?thesis
    unfolding guard DelegateEnqueue_Execute_def option.case
    unfolding request_task[of "at_id _"] edge_then_service ..
qed

lemma enqueue_delegated_triple:
  assumes "env_int64 (w_env w)"
  shows "triple (quiet w) enqueue_db_ok (EnqueueDelegated queue_EnqueueTx redact opts req)
     (\<lambda>r s. linked_to (er_task_id req) (dr_queue_task_id r) s) (\<lambda>_ _. True)"
  unfolding EnqueueDelegated_def
  by (rule triple_bind[OF Enqueue_links[OF assms]]) (auto intro: triple_ret)


section \<open>A delegation\<close>

text \<open>The task of the examples delegates, and the child is enqueued.\<close>

definition create_params :: string where
  "create_params = print_json (JObj [(''parent_task_id'', JNum ''1''), (''title'', JStr ''t''), (''prompt'', JStr ''p'')])"

definition delegated_db :: db where
  "delegated_db = snd (snd (DelegateCreate_Execute create_params (calm_world 9) 0 proposed_db))"

definition enqueue_params :: string where
  "enqueue_params = print_json (JObj [(''child_task_id'', JNum ''2'')])"

lemma created_run:
  "case DelegateCreate_Execute create_params (calm_world 9) 0 proposed_db of
     (Inr x, j, s') \<Rightarrow> \<not> rs_is_error x \<and> length (tbl_rows (db_tasks s')) = 2 \<and> length (db_edges s') = 1 | _ \<Rightarrow> False"
  by code_simp

lemma delegated_db_ok: "enqueue_db_ok delegated_db"
proof -
  have "tbl_rows (db_queue delegated_db) = [] \<and> tbl_next (db_queue delegated_db) = 1 \<and>
    tbl_rows (db_enqueues delegated_db) = [] \<and> tbl_next (db_enqueues delegated_db) = 1"
    by code_simp
  then have "db_queue delegated_db = tbl_empty" "db_enqueues delegated_db = tbl_empty"
    by (simp_all add: tbl_empty_def)
  with proposed_db_ok(2) show ?thesis by (simp add: enqueue_db_ok_def db_empty_def)
qed

lemma linked_run:
  "case fst (DelegateEnqueue_Execute (Some (EnqueueDelegated queue_EnqueueTx (\<lambda>s. s) enqueue_defaults)) enqueue_params (calm_world 9) 0 delegated_db) of
     Inr x \<Rightarrow> \<not> rs_is_error x | Inl _ \<Rightarrow> False"
  by code_simp



end
