(* ===== verification/Actor_Tools.thy ===== *)
theory Actor_Tools
  imports Delegation_Tools
begin

text \<open>
  The tools about the actors of a task, \<open>internal/agentic/tools/actor_message_tool.go\<close> and
  \<open>actor_graph_tool.go\<close>: messages between two actors, kept as JSON in the outbox of one and the inbox of the
  other beside a handoff, and the list of actors and handoffs.  The clock is read in milliseconds; the texts
  of JSON errors are left out.
\<close>

section \<open>Mailboxes\<close>

record mailbox_message =
  mm_handoff_id :: int
  mm_from_actor_id :: int
  mm_to_actor_id :: int
  mm_summary :: string
  mm_text :: string
  mm_read :: bool
  mm_created_at :: string

definition mailbox_message_zero :: mailbox_message where
  "mailbox_message_zero = \<lparr>mm_handoff_id = 0, mm_from_actor_id = 0, mm_to_actor_id = 0, mm_summary = '''', mm_text = '''',
     mm_read = False, mm_created_at = ''''\<rparr>"

definition mailbox_message_json :: "mailbox_message \<Rightarrow> json" where
  "mailbox_message_json m = JObj (
     [num_member ''handoff_id'' (mm_handoff_id m), num_member ''from_actor_id'' (mm_from_actor_id m),
      num_member ''to_actor_id'' (mm_to_actor_id m)] @ opt_member ''summary'' (mm_summary m) @
     [(''text'', JStr (mm_text m))] @ opt_flag ''read'' (mm_read m) @ [(''created_at'', JStr (mm_created_at m))])"

definition set_mailbox_field :: "string \<Rightarrow> json \<Rightarrow> mailbox_message \<Rightarrow> mailbox_message \<times> bool" where
  "set_mailbox_field k v p =
     (if k = ''handoff_id'' then (case dec_int64 v (mm_handoff_id p) of (x, ok) \<Rightarrow> (p\<lparr>mm_handoff_id := x\<rparr>, ok))
      else if k = ''from_actor_id'' then (case dec_int64 v (mm_from_actor_id p) of (x, ok) \<Rightarrow> (p\<lparr>mm_from_actor_id := x\<rparr>, ok))
      else if k = ''to_actor_id'' then (case dec_int64 v (mm_to_actor_id p) of (x, ok) \<Rightarrow> (p\<lparr>mm_to_actor_id := x\<rparr>, ok))
      else if k = ''summary'' then (case dec_string v (mm_summary p) of (x, ok) \<Rightarrow> (p\<lparr>mm_summary := x\<rparr>, ok))
      else if k = ''text'' then (case dec_string v (mm_text p) of (x, ok) \<Rightarrow> (p\<lparr>mm_text := x\<rparr>, ok))
      else if k = ''read'' then (case dec_bool v (mm_read p) of (x, ok) \<Rightarrow> (p\<lparr>mm_read := x\<rparr>, ok))
      else if k = ''created_at'' then (case dec_string v (mm_created_at p) of (x, ok) \<Rightarrow> (p\<lparr>mm_created_at := x\<rparr>, ok))
      else (p, True))"

definition dec_mailbox :: "json \<Rightarrow> mailbox_message list option" where
  "dec_mailbox j =
     (case j of
        JArr js \<Rightarrow>
          (let rs = map (\<lambda>x. dec_struct set_mailbox_field x mailbox_message_zero) js in
           if list_all snd rs then Some (map fst rs) else None)
      | JNull \<Rightarrow> Some []
      | _ \<Rightarrow> None)"

definition parseActorMessages :: "string \<Rightarrow> mailbox_message list option" where
  "parseActorMessages raw0 =
     (let raw = TrimSpace raw0 in
      if raw = '''' then Some [] else Option.bind (json_parse raw) dec_mailbox)"

definition appendActorMessage :: "string \<Rightarrow> mailbox_message \<Rightarrow> string option" where
  "appendActorMessage raw m =
     map_option (\<lambda>ms. print_json (JArr (map mailbox_message_json (ms @ [m])))) (parseActorMessages raw)"

definition normalizeActorMessageBox :: "string \<Rightarrow> string option" where
  "normalizeActorMessageBox box =
     (let b = ToLower (TrimSpace box) in
      if b = '''' \<or> b = ''inbox'' then Some ''inbox'' else if b = ''outbox'' then Some ''outbox'' else None)"

section \<open>Sending\<close>

definition ActorMessageSendToolName :: string where "ActorMessageSendToolName = ''agentic_message_send''"
definition actorMessageHandoffType :: string where "actorMessageHandoffType = ''actor_message''"

record message_send_input =
  mi_task_id :: int
  mi_from_actor_id :: int
  mi_to_actor_id :: int
  mi_summary :: string
  mi_message :: string

definition message_send_zero :: message_send_input where
  "message_send_zero = \<lparr>mi_task_id = 0, mi_from_actor_id = 0, mi_to_actor_id = 0, mi_summary = '''', mi_message = ''''\<rparr>"

definition set_send_field :: "string \<Rightarrow> json \<Rightarrow> message_send_input \<Rightarrow> message_send_input \<times> bool" where
  "set_send_field k v p =
     (if k = ''task_id'' then (case dec_int64 v (mi_task_id p) of (x, ok) \<Rightarrow> (p\<lparr>mi_task_id := x\<rparr>, ok))
      else if k = ''from_actor_id'' then (case dec_int64 v (mi_from_actor_id p) of (x, ok) \<Rightarrow> (p\<lparr>mi_from_actor_id := x\<rparr>, ok))
      else if k = ''to_actor_id'' then (case dec_int64 v (mi_to_actor_id p) of (x, ok) \<Rightarrow> (p\<lparr>mi_to_actor_id := x\<rparr>, ok))
      else if k = ''summary'' then (case dec_string v (mi_summary p) of (x, ok) \<Rightarrow> (p\<lparr>mi_summary := x\<rparr>, ok))
      else if k = ''message'' then (case dec_string v (mi_message p) of (x, ok) \<Rightarrow> (p\<lparr>mi_message := x\<rparr>, ok))
      else (p, True))"

definition formatActorGraphTime :: "int \<Rightarrow> string" where
  "formatActorGraphTime t = (if t = zero_time then '''' else rfc3339 (t * 1000000))"

definition message_send_json :: "message_send_input \<Rightarrow> mailbox_message \<Rightarrow> json" where
  "message_send_json input m = JObj (
     [num_member ''task_id'' (mi_task_id input), num_member ''from_actor_id'' (mm_from_actor_id m),
      num_member ''to_actor_id'' (mm_to_actor_id m), num_member ''handoff_id'' (mm_handoff_id m)] @
     opt_member ''summary'' (mm_summary m) @
     [(''delivered'', JBool True),
      (''boundary'', JStr ''mailbox record only; no actor is resumed or executed automatically''),
      (''receipt'', agentic_receipt_json (agentic_receipt_of ActorMessageSendToolName ''send'' False ''agentic_actor_message_send''
        \<lparr>gr_task_id := mi_task_id input, gr_from_actor_id := mm_from_actor_id m, gr_to_actor_id := mm_to_actor_id m,
         gr_handoff_id := mm_handoff_id m, gr_delivered := True\<rparr>))])"

definition message_handoff :: "message_send_input \<Rightarrow> int \<Rightarrow> int \<Rightarrow> actor_handoff" where
  "message_handoff input sender recipient =
     \<lparr>ah_id = 0, ah_task_id = mi_task_id input, ah_from_actor_id = sender, ah_to_actor_id = recipient,
      ah_handoff_type = actorMessageHandoffType,
      ah_payload_json = print_json (JObj [(''message'', JStr (TrimSpace (mi_message input))),
                                          (''summary'', JStr (TrimSpace (mi_summary input)))]),
      ah_status = ''created'', ah_created_at = zero_time\<rparr>"

text \<open>The mailboxes, once the handoff is there.\<close>

definition deliver_message ::
  "message_send_input \<Rightarrow> agent_actor \<Rightarrow> agent_actor \<Rightarrow> actor_handoff \<Rightarrow> int \<Rightarrow> (db, tool_result) act" where
  "deliver_message input sender recipient handoff now =
     (let m = \<lparr>mm_handoff_id = ah_id handoff, mm_from_actor_id = aa_id sender, mm_to_actor_id = aa_id recipient,
               mm_summary = TrimSpace (mi_summary input), mm_text = TrimSpace (mi_message input), mm_read = False,
               mm_created_at = formatActorGraphTime now\<rparr>
      in case appendActorMessage (aa_outbox_json sender) m of
           None \<Rightarrow> answer_error (ActorMessageSendToolName @ '': append sender outbox'')
         | Some outbox \<Rightarrow>
             (case appendActorMessage (aa_inbox_json recipient) m of
                None \<Rightarrow> answer_error (ActorMessageSendToolName @ '': append recipient inbox'')
              | Some inbox \<Rightarrow>
                  or_answer (UpdateAgentActor (sender\<lparr>aa_outbox_json := outbox\<rparr>))
                    (failed_with (ActorMessageSendToolName @ '': update sender'')) (\<lambda>_.
                  or_answer (UpdateAgentActor (recipient\<lparr>aa_inbox_json := inbox\<rparr>))
                    (failed_with (ActorMessageSendToolName @ '': update recipient'')) (\<lambda>_.
                  answer_json (message_send_json input m)))))"

definition send_message :: "message_send_input \<Rightarrow> (db, tool_result) act" where
  "send_message input =
     (if mi_task_id input = 0 then answer_error (ActorMessageSendToolName @ '': task_id is required'')
      else if mi_from_actor_id input = 0 \<or> mi_to_actor_id input = 0
      then answer_error (ActorMessageSendToolName @ '': from_actor_id and to_actor_id are required'')
      else if mi_from_actor_id input = mi_to_actor_id input
      then answer_error (ActorMessageSendToolName @ '': recipient must differ from sender'')
      else if TrimSpace (mi_message input) = '''' then answer_error (ActorMessageSendToolName @ '': message is required'')
      else
        or_answer (GetAgenticTask (mi_task_id input))
          (missing_or (ActorMessageSendToolName @ '': task '' @ itoa (mi_task_id input))) (\<lambda>_.
        or_answer (GetAgentActor (mi_from_actor_id input))
          (failed_with (ActorMessageSendToolName @ '': from_actor_id '' @ itoa (mi_from_actor_id input))) (\<lambda>sender.
        or_answer (GetAgentActor (mi_to_actor_id input))
          (failed_with (ActorMessageSendToolName @ '': to_actor_id '' @ itoa (mi_to_actor_id input))) (\<lambda>recipient.
        if aa_task_id sender \<noteq> mi_task_id input \<or> aa_task_id recipient \<noteq> mi_task_id input
        then answer_error (ActorMessageSendToolName @ '': both actors must belong to task'')
        else
          or_answer (CreateActorHandoff (message_handoff input (aa_id sender) (aa_id recipient)))
            (failed_with (ActorMessageSendToolName @ '': create handoff'')) (\<lambda>handoff.
          bind now_ms (deliver_message input sender recipient handoff))))))"

definition ActorMessageSend_Execute :: "string \<Rightarrow> (db, tool_result) act" where
  "ActorMessageSend_Execute params = with_input set_send_field message_send_zero params send_message"

section \<open>Listing\<close>

definition ActorMessageListToolName :: string where "ActorMessageListToolName = ''agentic_message_list''"

record message_list_input =
  ml_task_id :: int
  ml_actor_id :: int
  ml_box :: string

definition message_list_zero :: message_list_input where
  "message_list_zero = \<lparr>ml_task_id = 0, ml_actor_id = 0, ml_box = ''''\<rparr>"

definition set_list_field :: "string \<Rightarrow> json \<Rightarrow> message_list_input \<Rightarrow> message_list_input \<times> bool" where
  "set_list_field k v p =
     (if k = ''task_id'' then (case dec_int64 v (ml_task_id p) of (x, ok) \<Rightarrow> (p\<lparr>ml_task_id := x\<rparr>, ok))
      else if k = ''actor_id'' then (case dec_int64 v (ml_actor_id p) of (x, ok) \<Rightarrow> (p\<lparr>ml_actor_id := x\<rparr>, ok))
      else if k = ''box'' then (case dec_string v (ml_box p) of (x, ok) \<Rightarrow> (p\<lparr>ml_box := x\<rparr>, ok))
      else (p, True))"

definition message_list_json :: "int \<Rightarrow> int \<Rightarrow> string \<Rightarrow> mailbox_message list \<Rightarrow> json" where
  "message_list_json task actor box ms = JObj
     [num_member ''task_id'' task, num_member ''actor_id'' actor, (''box'', JStr box),
      num_member ''total'' (int (length ms)), (''messages'', JArr (map mailbox_message_json ms)),
      (''receipt'', agentic_receipt_json (agentic_receipt_of ActorMessageListToolName ''list'' True ''agentic_actor_message_observation''
        \<lparr>gr_task_id := task, gr_actor_id := actor, gr_box := box, gr_total := int (length ms)\<rparr>))]"

definition box_json :: "string \<Rightarrow> agent_actor \<Rightarrow> string" where
  "box_json box actor = (if box = ''outbox'' then aa_outbox_json actor else aa_inbox_json actor)"

definition list_messages :: "message_list_input \<Rightarrow> (db, tool_result) act" where
  "list_messages input =
     (if ml_task_id input = 0 then answer_error (ActorMessageListToolName @ '': task_id is required'')
      else if ml_actor_id input = 0 then answer_error (ActorMessageListToolName @ '': actor_id is required'')
      else
        (case normalizeActorMessageBox (ml_box input) of
           None \<Rightarrow> answer_error (ActorMessageListToolName @ '': box must be inbox or outbox'')
         | Some box \<Rightarrow>
             or_answer (GetAgenticTask (ml_task_id input))
               (missing_or (ActorMessageListToolName @ '': task '' @ itoa (ml_task_id input))) (\<lambda>_.
             or_answer (GetAgentActor (ml_actor_id input))
               (failed_with (ActorMessageListToolName @ '': actor_id '' @ itoa (ml_actor_id input))) (\<lambda>actor.
             if aa_task_id actor \<noteq> ml_task_id input
             then answer_error (ActorMessageListToolName @ '': actor must belong to task'')
             else
               (case parseActorMessages (box_json box actor) of
                  None \<Rightarrow> answer_error (ActorMessageListToolName @ '': parse '' @ box)
                | Some ms \<Rightarrow> answer_json (message_list_json (ml_task_id input) (aa_id actor) box ms))))))"

definition ActorMessageList_Execute :: "string \<Rightarrow> (db, tool_result) act" where
  "ActorMessageList_Execute params = with_input set_list_field message_list_zero params list_messages"

section \<open>The graph of actors\<close>

definition ActorGraphToolName :: string where "ActorGraphToolName = ''agentic_actor_graph''"

definition set_task_field :: "string \<Rightarrow> json \<Rightarrow> int \<Rightarrow> int \<times> bool" where
  "set_task_field k v p = (if k = ''task_id'' then dec_int64 v p else (p, True))"

definition graph_actor_json :: "agent_actor \<Rightarrow> json" where
  "graph_actor_json a = JObj (
     [num_member ''id'' (aa_id a), (''role'', JStr (aa_role a)), (''status'', JStr (aa_status a))] @
     opt_member ''created_at'' (formatActorGraphTime (aa_created_at a)) @
     opt_member ''updated_at'' (formatActorGraphTime (aa_updated_at a)))"

text \<open>The role of an actor, of the last one listed under its id; empty when it is not listed.\<close>

definition role_of :: "agent_actor list \<Rightarrow> int \<Rightarrow> string" where
  "role_of actors i = (case find (\<lambda>a. aa_id a = i) (rev actors) of None \<Rightarrow> '''' | Some a \<Rightarrow> aa_role a)"

definition graph_handoff_json :: "agent_actor list \<Rightarrow> actor_handoff \<Rightarrow> json" where
  "graph_handoff_json actors h = JObj (
     [num_member ''id'' (ah_id h), num_member ''from_actor_id'' (ah_from_actor_id h)] @
     opt_member ''from_role'' (role_of actors (ah_from_actor_id h)) @
     [num_member ''to_actor_id'' (ah_to_actor_id h)] @ opt_member ''to_role'' (role_of actors (ah_to_actor_id h)) @
     [(''type'', JStr (ah_handoff_type h)), (''status'', JStr (ah_status h))] @
     opt_member ''created_at'' (formatActorGraphTime (ah_created_at h)))"

definition actor_graph_json :: "agentic_task \<Rightarrow> agent_actor list \<Rightarrow> actor_handoff list \<Rightarrow> json" where
  "actor_graph_json task actors handoffs = JObj (
     [num_member ''task_id'' (at_id task), (''task_status'', JStr (at_status task))] @
     opt_member ''task_title'' (at_title task) @
     [num_member ''total_actors'' (int (length actors)), (''actors'', JArr (map graph_actor_json actors)),
      num_member ''total_handoffs'' (int (length handoffs)),
      (''handoffs'', JArr (map (graph_handoff_json actors) handoffs))])"

definition ActorGraph_Execute :: "string \<Rightarrow> (db, tool_result) act" where
  "ActorGraph_Execute params =
     with_input set_task_field 0 params (\<lambda>taskID.
     if taskID = 0 then answer_error (ActorGraphToolName @ '': task_id is required'')
     else
       or_answer (GetAgenticTask taskID) (missing_or (ActorGraphToolName @ '': task '' @ itoa taskID)) (\<lambda>task.
       or_answer (ListAgentActorsByTask taskID) (failed_with (ActorGraphToolName @ '': list actors'')) (\<lambda>actors.
       or_answer (ListActorHandoffsByTask taskID) (failed_with (ActorGraphToolName @ '': list handoffs'')) (\<lambda>handoffs.
       answer_json (actor_graph_json task actors handoffs)))))"

section \<open>Mailboxes keep what is put in\<close>

definition mail_ok :: "mailbox_message \<Rightarrow> bool" where
  "mail_ok m \<longleftrightarrow> int64 (mm_handoff_id m) \<and> int64 (mm_from_actor_id m) \<and> int64 (mm_to_actor_id m)"

lemma mailbox_keys [simp]:
  "ToLower ''handoff_id'' = ''handoff_id''" "ToLower ''from_actor_id'' = ''from_actor_id''"
  "ToLower ''to_actor_id'' = ''to_actor_id''" "ToLower ''summary'' = ''summary''" "ToLower ''text'' = ''text''"
  "ToLower ''read'' = ''read''" "ToLower ''created_at'' = ''created_at''"
  by (simp_all add: ToLower_def lower_char_def)

lemma mailbox_fields:
  "int64 i \<Longrightarrow> set_mailbox_field ''handoff_id'' (JNum (itoa i)) p = (p\<lparr>mm_handoff_id := i\<rparr>, True)"
  "int64 i \<Longrightarrow> set_mailbox_field ''from_actor_id'' (JNum (itoa i)) p = (p\<lparr>mm_from_actor_id := i\<rparr>, True)"
  "int64 i \<Longrightarrow> set_mailbox_field ''to_actor_id'' (JNum (itoa i)) p = (p\<lparr>mm_to_actor_id := i\<rparr>, True)"
  "set_mailbox_field ''summary'' (JStr s) p = (p\<lparr>mm_summary := s\<rparr>, True)"
  "set_mailbox_field ''text'' (JStr s) p = (p\<lparr>mm_text := s\<rparr>, True)"
  "set_mailbox_field ''read'' (JBool b) p = (p\<lparr>mm_read := b\<rparr>, True)"
  "set_mailbox_field ''created_at'' (JStr s) p = (p\<lparr>mm_created_at := s\<rparr>, True)"
  by (simp_all add: set_mailbox_field_def dec_int64_def dec_string_def dec_bool_def ParseInt_itoa int64_def)

lemma decode_message:
  "mail_ok m \<Longrightarrow> dec_struct set_mailbox_field (mailbox_message_json m) mailbox_message_zero = (m, True)"
  by (cases m) (simp add: mail_ok_def dec_struct_def mailbox_message_json_def mailbox_message_zero_def num_member_def
      opt_member_def opt_flag_def mailbox_fields)

lemma print_array_trimmed: "TrimSpace (print_json (JArr js)) = print_json (JArr js)"
proof (rule trimmed_TrimSpace)
  obtain t where t: "print_json (JArr js) = CHR ''['' # t @ '']''" by simp
  then show "trimmed (print_json (JArr js))"
    by (auto simp: trimmed_def go_spaces_def suffix_def prefix_def)
qed

lemma parse_mailbox_print:
  assumes "\<And>m. m \<in> set ms \<Longrightarrow> mail_ok m"
  shows "parseActorMessages (print_json (JArr (map mailbox_message_json ms))) = Some ms"
proof -
  have "json_wf (JArr (map mailbox_message_json ms))"
    by (auto simp: list_all_iff mailbox_message_json_def num_member_def opt_member_def opt_flag_def)
  then have parsed: "json_parse (print_json (JArr (map mailbox_message_json ms))) = Some (JArr (map mailbox_message_json ms))"
    by (rule json_parse_print)
  have "map (\<lambda>x. dec_struct set_mailbox_field x mailbox_message_zero) (map mailbox_message_json ms) = map (\<lambda>m. (m, True)) ms"
    using assms decode_message by simp
  then have "dec_mailbox (JArr (map mailbox_message_json ms)) = Some ms"
    unfolding dec_mailbox_def json.case Let_def by (simp only:) (simp add: list_all_iff comp_def)
  then show ?thesis
    unfolding parseActorMessages_def print_array_trimmed Let_def parsed by simp
qed

lemma dec_int64_range: "dec_int64 j old = (x, ok) \<Longrightarrow> int64 old \<Longrightarrow> int64 x"
  by (auto simp: dec_int64_def ParseInt_def int64_def Let_def split: json.splits option.splits if_splits list.splits)

lemma set_mailbox_ok: "mail_ok p \<Longrightarrow> mail_ok (fst (set_mailbox_field k v p))"
  by (auto simp: set_mailbox_field_def mail_ok_def dec_int64_range split: prod.splits)

lemma dec_members_keep:
  "P p \<Longrightarrow> (\<And>k v p. P p \<Longrightarrow> P (fst (set_field k v p))) \<Longrightarrow> P (fst (dec_members set_field kvs p))"
  by (induction kvs arbitrary: p) (auto split: prod.splits, metis fst_conv)

lemma parse_mailbox_ok:
  assumes "parseActorMessages raw = Some ms" and "m \<in> set ms"
  shows "mail_ok m"
proof -
  have "mail_ok mailbox_message_zero" by (simp add: mail_ok_def mailbox_message_zero_def)
  then have "mail_ok (fst (dec_struct set_mailbox_field x mailbox_message_zero))" for x
    using dec_members_keep[of mail_ok mailbox_message_zero set_mailbox_field] set_mailbox_ok
    by (auto simp: dec_struct_def split: json.split)
  then have "mail_ok m" if "dec_mailbox j = Some ms" for j
    using that assms(2) by (cases j) (auto simp: dec_mailbox_def Let_def split: if_splits)
  with assms show ?thesis
    by (auto simp: parseActorMessages_def Let_def bind_eq_Some_conv split: if_splits)
qed

lemma append_message:
  assumes "appendActorMessage raw m = Some raw'" and "mail_ok m"
  shows "\<exists>ms. parseActorMessages raw = Some ms \<and> parseActorMessages raw' = Some (ms @ [m]) \<and> raw' \<noteq> ''''"
proof -
  from assms(1) obtain ms where ms: "parseActorMessages raw = Some ms"
    and raw': "raw' = print_json (JArr (map mailbox_message_json (ms @ [m])))"
    by (auto simp: appendActorMessage_def)
  have "parseActorMessages raw' = Some (ms @ [m])"
    unfolding raw' by (rule parse_mailbox_print) (use parse_mailbox_ok[OF ms] assms(2) in auto)
  with ms raw' show ?thesis by simp
qed

section \<open>Delivery\<close>

interpretation handoffs: keyed_table ah_id mk_handoff
  by unfold_locales (simp add: mk_handoff_def split: prod.splits)

text \<open>An update of an actor that succeeds changes its row and no other, and leaves the other boxes it was read with.\<close>

definition mailbox :: "string \<Rightarrow> db \<Rightarrow> int \<Rightarrow> mailbox_message list option" where
  "mailbox box s i = Option.bind (tbl_get aa_id i (db_actors s)) (\<lambda>a. parseActorMessages (box_json box a))"

lemma update_actor_run:
  assumes "UpdateAgentActor x (quiet w) i s = (Inr a, j, s')" and "tbl_get aa_id (aa_id x) (db_actors s) = Some old"
  shows "\<exists>now. s' = s\<lparr>db_actors := tbl_update (\<lambda>r. aa_id r = aa_id x)
    (\<lambda>r. (merge_actor x old now)\<lparr>aa_id := aa_id r, aa_created_at := aa_created_at r\<rparr>) (db_actors s)\<rparr>"
  using assms
  by (auto simp: UpdateAgentActor_def bind_def fail_def now_ms_def GetAgentActor_def query_def get_row_def on_table_def exec_def Let_def
      dest!: try_update_Inr split: if_splits option.splits sum.splits prod.splits)

lemma or_answer_ok:
  assumes "or_answer m msg k w i s = (Inr x, j, s')" and "\<not> rs_is_error x"
  obtains a i1 s1 where "m w i s = (Inr a, i1, s1)" "k a w i1 s1 = (Inr x, j, s')"
  using assms by (auto simp: or_answer_run ErrorResult_def split: prod.splits sum.splits)

lemma answer_error_ok: "answer_error msg w i s = (Inr x, j, s') \<Longrightarrow> rs_is_error x"
  by (auto simp: answer_error_def ret_def ErrorResult_def)

lemma read_ok:
  "GetAgenticTask c (quiet w) i s = (Inr k, j, s') \<Longrightarrow> s' = s"
  "GetAgentActor c (quiet w) i s = (Inr a, j, s') \<Longrightarrow> s' = s \<and> tbl_get aa_id c (db_actors s) = Some a \<and> aa_id a = c"
  by (auto simp: GetAgenticTask_def GetAgentActor_def query_def get_row_Inr Let_def dest: tbl_get_SomeD split: option.splits)

lemma read_task_ok:
  "or_answer (GetAgenticTask c) msg k (quiet w) i s = (Inr x, j, s') \<Longrightarrow> \<not> rs_is_error x \<Longrightarrow>
     \<exists>a i'. k a (quiet w) i' s = (Inr x, j, s')"
  by (erule (1) or_answer_ok) (metis read_ok(1))

lemma read_actor_ok:
  "or_answer (GetAgentActor c) msg k (quiet w) i s = (Inr x, j, s') \<Longrightarrow> \<not> rs_is_error x \<Longrightarrow>
     \<exists>a i'. tbl_get aa_id c (db_actors s) = Some a \<and> aa_id a = c \<and> k a (quiet w) i' s = (Inr x, j, s')"
  by (erule (1) or_answer_ok) (metis read_ok(2))

lemma handoff_ok:
  assumes "CreateActorHandoff x (quiet w) i s = (Inr h, j, s')" and "keys_ok ah_id (db_handoffs s)"
  shows "db_actors s' = db_actors s \<and> tbl_get ah_id (ah_id h) (db_handoffs s') = Some h \<and> int64 (ah_id h) \<and>
    ah_from_actor_id h = ah_from_actor_id x \<and> ah_to_actor_id h = ah_to_actor_id x"
proof -
  obtain now where row: "h = mk_handoff (x, now) (tbl_next (db_handoffs s))" "tbl_next (db_handoffs s) \<le> max_key"
      and s': "s' = s\<lparr>db_handoffs := tbl_insert (mk_handoff (x, now)) (db_handoffs s)\<rparr>"
    using assms(1) handoffs.get_inserted[OF assms(2)]
    by (auto simp: CreateActorHandoff_def bind_def now_ms_def on_table_def exec_def query_def getActorHandoff_def Let_def
      try_insert_def get_row_Inr split: option.splits sum.splits prod.splits if_splits)
  have "0 < tbl_next (db_handoffs s)" using assms(2) by (simp add: keys_ok_def)
  with row s' handoffs.get_inserted[OF assms(2), of "(x, now)"] show ?thesis
    by (simp add: handoffs.key_mk int64_def max_key_def) (simp add: mk_handoff_def)
qed

lemma updated_boxes:
  assumes "UpdateAgentActor x (quiet w) i s = (Inr a, j, s')" and "tbl_get aa_id (aa_id x) (db_actors s) = Some old"
  shows "db_handoffs s' = db_handoffs s" "k \<noteq> aa_id x \<Longrightarrow> tbl_get aa_id k (db_actors s') = tbl_get aa_id k (db_actors s)"
    "\<exists>r. tbl_get aa_id (aa_id x) (db_actors s') = Some r \<and> aa_inbox_json r = or_else (aa_inbox_json x) (aa_inbox_json old) \<and>
       aa_outbox_json r = or_else (aa_outbox_json x) (aa_outbox_json old)"
proof -
  obtain now where s': "s' = s\<lparr>db_actors := tbl_update (\<lambda>r. aa_id r = aa_id x)
    (\<lambda>r. (merge_actor x old now)\<lparr>aa_id := aa_id r, aa_created_at := aa_created_at r\<rparr>) (db_actors s)\<rparr>"
    using update_actor_run[OF assms] by blast
  show "db_handoffs s' = db_handoffs s" by (simp add: s')
  show "tbl_get aa_id k (db_actors s') = tbl_get aa_id k (db_actors s)" if "k \<noteq> aa_id x"
    using that by (cases "tbl_get aa_id k (db_actors s)") (auto simp: s' tbl_get_update dest: tbl_get_SomeD)
  show "\<exists>r. tbl_get aa_id (aa_id x) (db_actors s') = Some r \<and> aa_inbox_json r = or_else (aa_inbox_json x) (aa_inbox_json old) \<and>
       aa_outbox_json r = or_else (aa_outbox_json x) (aa_outbox_json old)"
    using assms(2) tbl_get_SomeD[OF assms(2)] by (auto simp: s' tbl_get_update merge_actor_def Let_def)
qed

lemma or_else_same [simp]: "or_else a a = a"
  by (simp add: or_else_def)

text \<open>A message that is sent: both actors are there, the handoff is written and the boxes are delivered.\<close>

lemma send_ok:
  assumes "send_message input (quiet w) i s = (Inr x, j, s')" and "\<not> rs_is_error x" and "keys_ok ah_id (db_handoffs s)"
  obtains sender recipient h n s1 where
    "TrimSpace (mi_message input) \<noteq> ''''" "mi_from_actor_id input \<noteq> mi_to_actor_id input"
    "tbl_get aa_id (mi_from_actor_id input) (db_actors s) = Some sender" "aa_id sender = mi_from_actor_id input"
    "tbl_get aa_id (mi_to_actor_id input) (db_actors s) = Some recipient" "aa_id recipient = mi_to_actor_id input"
    "db_actors s1 = db_actors s" "tbl_get ah_id (ah_id h) (db_handoffs s1) = Some h" "int64 (ah_id h)"
    "ah_from_actor_id h = mi_from_actor_id input" "ah_to_actor_id h = mi_to_actor_id input"
    "deliver_message input sender recipient h (clock (w_env w) n) (quiet w) (Suc n) s1 = (Inr x, j, s')"
proof -
  obtain sender recipient i3 where
    acts: "TrimSpace (mi_message input) \<noteq> ''''" "mi_from_actor_id input \<noteq> mi_to_actor_id input"
      "tbl_get aa_id (mi_from_actor_id input) (db_actors s) = Some sender" "aa_id sender = mi_from_actor_id input"
      "tbl_get aa_id (mi_to_actor_id input) (db_actors s) = Some recipient" "aa_id recipient = mi_to_actor_id input"
    and run: "or_answer (CreateActorHandoff (message_handoff input (mi_from_actor_id input) (mi_to_actor_id input)))
      (failed_with (ActorMessageSendToolName @ '': create handoff'')) (\<lambda>handoff.
        bind now_ms (deliver_message input sender recipient handoff)) (quiet w) i3 s = (Inr x, j, s')"
    using assms(1,2)
    by (auto simp: send_message_def dest: answer_error_ok dest!: read_task_ok read_actor_ok split: if_splits)
  obtain h n s1 where made: "CreateActorHandoff (message_handoff input (mi_from_actor_id input) (mi_to_actor_id input)) (quiet w) i3 s = (Inr h, n, s1)"
    and rest: "bind now_ms (deliver_message input sender recipient h) (quiet w) n s1 = (Inr x, j, s')"
    by (rule or_answer_ok[OF run assms(2)])
  show ?thesis
    by (rule that[OF acts, of s1 h n])
      (use handoff_ok[OF made assms(3)] rest in \<open>simp_all add: message_handoff_def bind_def now_ms_def\<close>)
qed

text \<open>The boxes after a delivery.\<close>

lemma deliver_ok:
  assumes "deliver_message input sender recipient h now (quiet w) i s = (Inr x, j, s')" and "\<not> rs_is_error x"
    and sender: "tbl_get aa_id f (db_actors s) = Some sender" "aa_id sender = f"
    and recipient: "tbl_get aa_id t (db_actors s) = Some recipient" "aa_id recipient = t"
    and "f \<noteq> t" and "int64 (ah_id h)" "int64 f" "int64 t"
  shows "\<exists>m outs ins. mm_text m = TrimSpace (mi_message input) \<and> \<not> mm_read m \<and> mm_handoff_id m = ah_id h \<and>
    db_handoffs s' = db_handoffs s \<and>
    mailbox ''outbox'' s f = Some outs \<and> mailbox ''outbox'' s' = (mailbox ''outbox'' s)(f \<mapsto> outs @ [m]) \<and>
    mailbox ''inbox'' s t = Some ins \<and> mailbox ''inbox'' s' = (mailbox ''inbox'' s)(t \<mapsto> ins @ [m])"
proof -
  define m where "m = \<lparr>mm_handoff_id = ah_id h, mm_from_actor_id = f, mm_to_actor_id = t,
     mm_summary = TrimSpace (mi_summary input), mm_text = TrimSpace (mi_message input), mm_read = False,
     mm_created_at = formatActorGraphTime now\<rparr>"
  have ok: "mail_ok m" using assms(8-10) by (simp add: m_def mail_ok_def)
  obtain outbox inbox where app: "appendActorMessage (aa_outbox_json sender) m = Some outbox"
      "appendActorMessage (aa_inbox_json recipient) m = Some inbox"
    and run: "or_answer (UpdateAgentActor (sender\<lparr>aa_outbox_json := outbox\<rparr>))
                    (failed_with (ActorMessageSendToolName @ '': update sender'')) (\<lambda>_.
                  or_answer (UpdateAgentActor (recipient\<lparr>aa_inbox_json := inbox\<rparr>))
                    (failed_with (ActorMessageSendToolName @ '': update recipient'')) (\<lambda>_.
                  answer_json (message_send_json input m))) (quiet w) i s = (Inr x, j, s')"
    using assms(1,2) sender(2) recipient(2)
    by (auto simp: deliver_message_def Let_def m_def dest: answer_error_ok split: option.splits)
  obtain a i1 s1 where first: "UpdateAgentActor (sender\<lparr>aa_outbox_json := outbox\<rparr>) (quiet w) i s = (Inr a, i1, s1)"
    and run1: "or_answer (UpdateAgentActor (recipient\<lparr>aa_inbox_json := inbox\<rparr>))
                    (failed_with (ActorMessageSendToolName @ '': update recipient'')) (\<lambda>_.
                  answer_json (message_send_json input m)) (quiet w) i1 s1 = (Inr x, j, s')"
    by (rule or_answer_ok[OF run assms(2)])
  obtain b i2 where second: "UpdateAgentActor (recipient\<lparr>aa_inbox_json := inbox\<rparr>) (quiet w) i1 s1 = (Inr b, i2, s')"
    by (rule or_answer_ok[OF run1 assms(2)]) (auto simp: answer_json_def ret_def)
  obtain outs where outs: "parseActorMessages (aa_outbox_json sender) = Some outs" "parseActorMessages outbox = Some (outs @ [m])" "outbox \<noteq> ''''"
    using append_message[OF app(1) ok] by blast
  obtain ins where ins: "parseActorMessages (aa_inbox_json recipient) = Some ins" "parseActorMessages inbox = Some (ins @ [m])" "inbox \<noteq> ''''"
    using append_message[OF app(2) ok] by blast
  have "tbl_get aa_id (aa_id (sender\<lparr>aa_outbox_json := outbox\<rparr>)) (db_actors s) = Some sender" using sender by simp
  from updated_boxes[OF first this] obtain r1 where one: "db_handoffs s1 = db_handoffs s"
    "\<And>k. k \<noteq> f \<Longrightarrow> tbl_get aa_id k (db_actors s1) = tbl_get aa_id k (db_actors s)"
    "tbl_get aa_id f (db_actors s1) = Some r1" "aa_inbox_json r1 = aa_inbox_json sender" "aa_outbox_json r1 = outbox"
    using sender(2) outs(3) by (auto simp: or_else_def)
  have "tbl_get aa_id (aa_id (recipient\<lparr>aa_inbox_json := inbox\<rparr>)) (db_actors s1) = Some recipient"
    using one(2)[of t] assms(7) recipient by simp
  from updated_boxes[OF second this] obtain r2 where two: "db_handoffs s' = db_handoffs s"
    "\<And>k. k \<noteq> t \<Longrightarrow> tbl_get aa_id k (db_actors s') = tbl_get aa_id k (db_actors s1)"
    "tbl_get aa_id t (db_actors s') = Some r2" "aa_inbox_json r2 = inbox" "aa_outbox_json r2 = aa_outbox_json recipient"
    using recipient(2) ins(3) one(1) by (auto simp: or_else_def)
  have boxes: "mailbox ''outbox'' s' k = ((mailbox ''outbox'' s)(f \<mapsto> outs @ [m])) k"
    "mailbox ''inbox'' s' k = ((mailbox ''inbox'' s)(t \<mapsto> ins @ [m])) k" for k
    using one(2)[of k] two(2)[of k] one(3-5) two(3-5) sender(1) recipient(1) assms(7) outs ins
    by (cases "k = f"; cases "k = t"; simp add: mailbox_def box_json_def)+
  have "mailbox ''outbox'' s' = (mailbox ''outbox'' s)(f \<mapsto> outs @ [m])" "mailbox ''inbox'' s' = (mailbox ''inbox'' s)(t \<mapsto> ins @ [m])"
    using boxes by (simp_all add: fun_eq_iff)
  moreover have "mailbox ''outbox'' s f = Some outs" "mailbox ''inbox'' s t = Some ins"
    using sender(1) recipient(1) outs(1) ins(1) by (simp_all add: mailbox_def box_json_def)
  moreover have "mm_text m = TrimSpace (mi_message input) \<and> \<not> mm_read m \<and> mm_handoff_id m = ah_id h"
    by (simp add: m_def)
  ultimately show ?thesis using two(1) by blast
qed


text \<open>Listing shows a mailbox and changes nothing.\<close>

lemma list_shows_mailbox:
  assumes "list_messages input (quiet w) i s = (Inr x, j, s')" and "\<not> rs_is_error x"
  shows "s' = s \<and> (\<exists>box ms. normalizeActorMessageBox (ml_box input) = Some box \<and> mailbox box s (ml_actor_id input) = Some ms \<and>
    rs_output x = print_json (message_list_json (ml_task_id input) (ml_actor_id input) box ms))"
  using assms
  by (auto simp: list_messages_def mailbox_def answer_json_def ret_def SuccessResult_def dest: answer_error_ok
      dest!: read_task_ok read_actor_ok split: if_splits option.splits)

section \<open>A message\<close>

definition sample_actor :: "int \<Rightarrow> string \<Rightarrow> agent_actor" where
  "sample_actor i inbox = \<lparr>aa_id = i, aa_task_id = 1, aa_role = ''r'', aa_state_json = ''{}'', aa_inbox_json = inbox,
     aa_outbox_json = ''[]'', aa_tool_allowlist_json = ''[]'', aa_budget_json = ''{}'', aa_status = ''created'',
     aa_created_at = 0, aa_updated_at = 0\<rparr>"

definition actors_db :: db where
  "actors_db = proposed_db\<lparr>db_actors := \<lparr>tbl_rows = [sample_actor 1 ''[]'', sample_actor 2 ''''], tbl_next = 3\<rparr>\<rparr>"

definition sample_message :: message_send_input where
  "sample_message = \<lparr>mi_task_id = 1, mi_from_actor_id = 1, mi_to_actor_id = 2, mi_summary = '''', mi_message = '' hi ''\<rparr>"

lemma sent_run:
  "case send_message sample_message (calm_world zero_time) 0 actors_db of (Inr x, j, s') \<Rightarrow> \<not> rs_is_error x | _ \<Rightarrow> False"
  by code_simp


end
