(* ===== verification/Evidence_Tools.thy ===== *)
theory Evidence_Tools
  imports Actor_Tools Daemon_Worker Followups "HOL-Library.AList" "HOL-Library.List_Lexorder" "HOL-Library.Char_ord"
begin

text \<open>
  The tools that summarise what is known of a task, \<open>internal/agentic/tools/task_evidence_tool.go\<close> and
  \<open>delegate_status_tool.go\<close>: counts of its receipts, verification runs, completion gates and memory updates
  and the latest of each, and the same for the children it delegated, with their rows of the daemon's queue.
\<close>

section \<open>Counts and latest rows\<close>

definition taskEvidenceTextLimit :: nat where "taskEvidenceTextLimit = 180"

definition truncateEvidenceText :: "string \<Rightarrow> string" where
  "truncateEvidenceText s =
     (if length (filter (\<lambda>c. \<not> continuation c) s) \<le> taskEvidenceTextLimit then s else take_runes taskEvidenceTextLimit s)"

text \<open>How often each value of a column occurs; a map is encoded in the order of its keys.\<close>

fun count_values :: "string list \<Rightarrow> (string \<times> nat) list \<Rightarrow> (string \<times> nat) list" where
  "count_values [] m = m"
| "count_values (k # ks) m =
     count_values ks (AList.update k (Suc (case map_of m k of None \<Rightarrow> 0 | Some n \<Rightarrow> n)) m)"

definition counts_json :: "(string \<times> nat) list \<Rightarrow> json" where
  "counts_json m = JObj (map (\<lambda>(k, n). num_member k (int n)) (sort_key fst m))"

definition countReceiptStatuses :: "tool_receipt list \<Rightarrow> (string \<times> nat) list" where
  "countReceiptStatuses rs = count_values (map tr_status rs) []"

definition countVerificationVerdicts :: "verification_run list \<Rightarrow> (string \<times> nat) list" where
  "countVerificationVerdicts rs = count_values (map vr_verdict rs) []"

definition countCompletionGateStatuses :: "completion_gate list \<Rightarrow> (string \<times> nat) list" where
  "countCompletionGateStatuses gs = count_values (map cg_status gs) []"

definition countMemoryUpdateStatuses :: "memory_update list \<Rightarrow> (string \<times> nat) list" where
  "countMemoryUpdateStatuses us = count_values (map mu_status us) []"

text \<open>The last row as a member, if there is a row.\<close>

definition latest_member :: "string \<Rightarrow> ('r \<Rightarrow> json) \<Rightarrow> 'r list \<Rightarrow> (string \<times> json) list" where
  "latest_member k item rs = (if rs = [] then [] else [(k, item (last rs))])"

definition null_time_text :: "int option \<Rightarrow> string" where
  "null_time_text t = (case t of None \<Rightarrow> '''' | Some ms \<Rightarrow> formatEvidenceTime ms)"

definition receipt_item :: "tool_receipt \<Rightarrow> json" where
  "receipt_item r = JObj (
     [num_member ''id'' (tr_id r)] @ opt_num ''actor_id'' (intFromNull (tr_actor_id r)) @
     [(''tool_name'', JStr (tr_tool_name r))] @ opt_member ''tool_call_id'' (tr_tool_call_id r) @
     [(''status'', JStr (tr_status r))] @
     opt_member ''failure_reason'' (truncateEvidenceText (tr_failure_reason r)) @
     opt_member ''output_summary'' (truncateEvidenceText (tr_output_summary r)) @
     [(''reversible'', JBool (tr_reversible r))] @
     opt_member ''started_at'' (formatEvidenceTime (tr_started_at r)) @
     opt_member ''completed_at'' (null_time_text (tr_completed_at r)))"

definition verification_item :: "verification_run \<Rightarrow> json" where
  "verification_item r = JObj (
     [num_member ''id'' (vr_id r)] @ opt_num ''verifier_actor_id'' (intFromNull (vr_verifier_actor_id r)) @
     [(''verdict'', JStr (vr_verdict r))] @ opt_member ''reason'' (truncateEvidenceText (vr_reason r)) @
     opt_member ''created_at'' (formatEvidenceTime (vr_created_at r)))"

definition gate_item :: "completion_gate \<Rightarrow> json" where
  "gate_item g = JObj (
     [num_member ''id'' (cg_id g)] @ opt_num ''queue_task_id'' (intFromNull (cg_queue_task_id g)) @
     opt_num ''verification_run_id'' (intFromNull (cg_verification_run_id g)) @ [(''status'', JStr (cg_status g))] @
     opt_member ''reason'' (truncateEvidenceText (cg_reason g)) @
     opt_member ''updated_at'' (formatEvidenceTime (cg_updated_at g)))"

definition memory_item :: "memory_update \<Rightarrow> json" where
  "memory_item u = JObj (
     [num_member ''id'' (mu_id u)] @ opt_num ''receipt_id'' (intFromNull (mu_receipt_id u)) @
     opt_num ''verification_run_id'' (intFromNull (mu_verification_run_id u)) @
     [(''target'', JStr (mu_target u)), (''operation'', JStr (mu_operation u)), (''status'', JStr (mu_status u))] @
     opt_member ''source'' (mu_source u) @ opt_member ''reason'' (truncateEvidenceText (mu_reason u)) @
     opt_member ''applied_at'' (null_time_text (mu_applied_at u)))"

section \<open>The evidence of a task\<close>

definition TaskEvidenceToolName :: string where "TaskEvidenceToolName = ''agentic_task_evidence''"

definition task_evidence_json ::
  "agentic_task \<Rightarrow> tool_receipt list \<Rightarrow> verification_run list \<Rightarrow> completion_gate list \<Rightarrow> memory_update list \<Rightarrow> json" where
  "task_evidence_json task receipts runs gates updates = JObj (
     [num_member ''task_id'' (at_id task), (''task_status'', JStr (at_status task))] @
     opt_member ''task_title'' (at_title task) @
     [(''totals'', JObj [num_member ''receipts'' (int (length receipts)), num_member ''verification_runs'' (int (length runs)),
        num_member ''completion_gates'' (int (length gates)), num_member ''memory_updates'' (int (length updates))]),
      (''receipt_status_counts'', counts_json (countReceiptStatuses receipts)),
      (''verification_verdicts'', counts_json (countVerificationVerdicts runs)),
      (''completion_gate_statuses'', counts_json (countCompletionGateStatuses gates)),
      (''memory_update_statuses'', counts_json (countMemoryUpdateStatuses updates))] @
     latest_member ''latest_receipt'' receipt_item receipts @ latest_member ''latest_verification'' verification_item runs @
     latest_member ''latest_completion_gate'' gate_item gates @ latest_member ''latest_memory_update'' memory_item updates)"

definition TaskEvidence_Execute :: "string \<Rightarrow> (db, tool_result) act" where
  "TaskEvidence_Execute params =
     with_input set_task_field 0 params (\<lambda>taskID.
     if taskID = 0 then answer_error (TaskEvidenceToolName @ '': task_id is required'')
     else
       or_answer (GetAgenticTask taskID) (missing_or (TaskEvidenceToolName @ '': task '' @ itoa taskID)) (\<lambda>task.
       or_answer (ListToolActionReceiptsByTask taskID) (failed_with (TaskEvidenceToolName @ '': list receipts'')) (\<lambda>receipts.
       or_answer (ListVerificationRunsByTask taskID) (failed_with (TaskEvidenceToolName @ '': list verification'')) (\<lambda>runs.
       or_answer (ListCompletionGatesByTask taskID) (failed_with (TaskEvidenceToolName @ '': list completion gates'')) (\<lambda>gates.
       or_answer (ListMemoryUpdatesByTask taskID) (failed_with (TaskEvidenceToolName @ '': list memory updates'')) (\<lambda>updates.
       answer_json (task_evidence_json task receipts runs gates updates)))))))"

section \<open>The status of delegated tasks\<close>

definition DelegateStatusToolName :: string where "DelegateStatusToolName = ''agentic_delegate_status''"

definition set_status_field :: "string \<Rightarrow> json \<Rightarrow> int \<times> int \<Rightarrow> (int \<times> int) \<times> bool" where
  "set_status_field k v p =
     (if k = ''parent_task_id'' then (case dec_int64 v (fst p) of (x, ok) \<Rightarrow> ((x, snd p), ok))
      else if k = ''child_task_id'' then (case dec_int64 v (snd p) of (x, ok) \<Rightarrow> ((fst p, x), ok))
      else (p, True))"

definition status_decision_json :: "enqueue_decision \<Rightarrow> json" where
  "status_decision_json d = JObj (
     [num_member ''id'' (ed_id d)] @ opt_num ''queue_task_id'' (intFromNull (ed_queue_task_id d)) @
     [(''decision'', JStr (ed_decision d)), (''status'', JStr (ed_status d))] @
     opt_member ''reason'' (truncateEvidenceText (ed_reason d)) @
     opt_member ''requested_enforcement'' (ed_requested_enforcement d) @
     opt_member ''requested_completion_gate'' (ed_requested_completion_gate d) @
     opt_member ''failure_reason'' (truncateEvidenceText (ed_failure_reason d)) @
     opt_member ''updated_at'' (formatEvidenceTime (ed_updated_at d)))"

text \<open>What the queue says of the child; it is not asked when there is no queue or the child was never enqueued.\<close>

record queue_view =
  qv_found :: bool
  qv_status :: string
  qv_progress :: string
  qv_summary :: string
  qv_updated_at :: string
  qv_completed_at :: string
  qv_error :: string

definition queue_view_zero :: queue_view where
  "queue_view_zero = \<lparr>qv_found = False, qv_status = '''', qv_progress = '''', qv_summary = '''', qv_updated_at = '''',
     qv_completed_at = '''', qv_error = ''''\<rparr>"

definition attachQueueStatus :: "bool \<Rightarrow> int \<Rightarrow> (db, queue_view) act" where
  "attachQueueStatus has_queue q =
     (if q = 0 \<or> \<not> has_queue then ret queue_view_zero
      else
        bind (attempt (queue_Get q)) (\<lambda>r.
        ret (case r of
               Inl er \<Rightarrow> queue_view_zero\<lparr>qv_error := truncateEvidenceText (err_text er)\<rparr>
             | Inr t \<Rightarrow> \<lparr>qv_found = True, qv_status = status_text (tk_status t), qv_progress = truncateEvidenceText (tk_progress t),
                        qv_summary = truncateEvidenceText (tk_summary t), qv_updated_at = formatEvidenceTime (tk_updated_at t),
                        qv_completed_at = (if tk_completed_at t = zero_time then '''' else formatEvidenceTime (tk_completed_at t)),
                        qv_error = ''''\<rparr>)))"

definition opt_counts :: "string \<Rightarrow> (string \<times> nat) list \<Rightarrow> (string \<times> json) list" where
  "opt_counts k m = (if m = [] then [] else [(k, counts_json m)])"

definition child_status_json ::
  "task_edge \<Rightarrow> agentic_task \<Rightarrow> enqueue_decision list \<Rightarrow> tool_receipt list \<Rightarrow> verification_run list
     \<Rightarrow> completion_gate list \<Rightarrow> queue_view \<Rightarrow> json" where
  "child_status_json edge child decisions receipts runs gates q = JObj (
     [num_member ''task_id'' (at_id child)] @ opt_member ''title'' (at_title child) @
     [(''status'', JStr (at_status child)), num_member ''priority'' (at_priority child)] @
     opt_member ''risk_level'' (at_risk_level child) @
     [(''edge_type'', JStr (te_edge_type edge)), (''enqueued'', JBool (intFromNull (at_queue_task_id child) \<noteq> 0))] @
     opt_num ''queue_task_id'' (intFromNull (at_queue_task_id child)) @ [(''queue_found'', JBool (qv_found q))] @
     opt_member ''queue_status'' (qv_status q) @ opt_member ''queue_progress'' (qv_progress q) @
     opt_member ''queue_summary'' (qv_summary q) @ opt_member ''queue_updated_at'' (qv_updated_at q) @
     opt_member ''queue_completed_at'' (qv_completed_at q) @ opt_member ''queue_error'' (qv_error q) @
     latest_member ''latest_enqueue_decision'' status_decision_json decisions @
     [(''totals'', JObj [num_member ''enqueue_decisions'' (int (length decisions)), num_member ''receipts'' (int (length receipts)),
        num_member ''verification_runs'' (int (length runs)), num_member ''completion_gates'' (int (length gates))])] @
     opt_counts ''receipt_status_counts'' (countReceiptStatuses receipts) @
     opt_counts ''verification_verdicts'' (countVerificationVerdicts runs) @
     opt_counts ''completion_gate_statuses'' (countCompletionGateStatuses gates) @
     latest_member ''latest_receipt'' receipt_item receipts @ latest_member ''latest_verification'' verification_item runs @
     latest_member ''latest_completion_gate'' gate_item gates @
     opt_member ''created_at'' (formatEvidenceTime (at_created_at child)) @
     opt_member ''updated_at'' (formatEvidenceTime (at_updated_at child)))"

definition listing_error :: "string \<Rightarrow> int \<Rightarrow> err \<Rightarrow> string" where
  "listing_error what i er =
     DelegateStatusToolName @ '': list '' @ what @ '' for child '' @ itoa i @ '': '' @ err_text er"

definition childStatus ::
  "bool \<Rightarrow> task_edge \<Rightarrow> agentic_task \<Rightarrow> (json \<Rightarrow> (db, tool_result) act) \<Rightarrow> (db, tool_result) act" where
  "childStatus has_queue edge child k =
     (let i = at_id child in
      or_answer (ListTaskEnqueueDecisionsByTask i) (listing_error ''enqueue decisions'' i) (\<lambda>decisions.
      or_answer (ListToolActionReceiptsByTask i) (listing_error ''receipts'' i) (\<lambda>receipts.
      or_answer (ListVerificationRunsByTask i) (listing_error ''verification'' i) (\<lambda>runs.
      or_answer (ListCompletionGatesByTask i) (listing_error ''completion gates'' i) (\<lambda>gates.
      bind (attachQueueStatus has_queue (intFromNull (at_queue_task_id child))) (\<lambda>q.
      k (child_status_json edge child decisions receipts runs gates q)))))))"

fun statuses_of ::
  "bool \<Rightarrow> int \<Rightarrow> json list \<Rightarrow> task_edge list \<Rightarrow> (json list \<Rightarrow> (db, tool_result) act) \<Rightarrow> (db, tool_result) act" where
  "statuses_of has_queue only acc [] k = k acc"
| "statuses_of has_queue only acc (edge # edges) k =
     (if only \<noteq> 0 \<and> te_child_id edge \<noteq> only then statuses_of has_queue only acc edges k
      else
        or_answer (GetAgenticTask (te_child_id edge))
          (failed_with (DelegateStatusToolName @ '': child task '' @ itoa (te_child_id edge))) (\<lambda>child.
        childStatus has_queue edge child (\<lambda>item. statuses_of has_queue only (acc @ [item]) edges k)))"

definition delegate_status_json :: "int \<Rightarrow> int \<Rightarrow> json list \<Rightarrow> json" where
  "delegate_status_json parentID childID children = JObj (
     [num_member ''parent_task_id'' parentID] @ opt_num ''child_task_id'' childID @
     [num_member ''total'' (int (length children)), (''children'', JArr children),
      (''receipt'', agentic_receipt_json (agentic_receipt_of DelegateStatusToolName ''status'' True ''agentic_delegation_observation''
        \<lparr>gr_parent_task_id := parentID, gr_child_task_id := childID, gr_total := int (length children)\<rparr>))])"

definition DelegateStatus_Execute :: "bool \<Rightarrow> string \<Rightarrow> (db, tool_result) act" where
  "DelegateStatus_Execute has_queue params =
     with_input set_status_field (0, 0) params (\<lambda>(parentID, childID).
     if parentID = 0 then answer_error (DelegateStatusToolName @ '': parent_task_id is required'')
     else
       or_answer (GetAgenticTask parentID) (missing_or (DelegateStatusToolName @ '': parent task '' @ itoa parentID)) (\<lambda>_.
       or_answer (ListTaskEdgesByParent parentID delegateEdgeType)
         (failed_with (DelegateStatusToolName @ '': list edges'')) (\<lambda>edges.
       statuses_of has_queue childID [] edges (\<lambda>children.
       if childID \<noteq> 0 \<and> children = []
       then answer_error (DelegateStatusToolName @ '': child task '' @ itoa childID @ '' is not delegated by parent task '' @ itoa parentID)
       else answer_json (delegate_status_json parentID childID children)))))"

section \<open>Observing changes nothing\<close>

text \<open>The tools that only observe keep whatever the other writers keep.\<close>

lemma preserves_or_answer [inv_intros]:
  "preserves I m \<Longrightarrow> (\<And>a. preserves I (k a)) \<Longrightarrow> preserves I (or_answer m msg k)"
  unfolding or_answer_def answer_error_def by (auto intro!: inv_intros)

lemma preserves_with_input [inv_intros]:
  "(\<And>input. preserves I (k input)) \<Longrightarrow> preserves I (with_input set_field zero params k)"
  unfolding with_input_def answer_error_def by (auto intro!: inv_intros)

lemma preserves_answer [inv_intros]: "preserves I (answer_error msg)" "preserves I (answer_json j)"
  unfolding answer_error_def answer_json_def by (auto intro!: inv_intros)

lemmas store_reads = GetAgenticTask_def GetAgentActor_def ListTaskEdgesByParent_def ListAgentActorsByTask_def
  ListActorHandoffsByTask_def ListToolActionReceiptsByTask_def ListVerificationRunsByTask_def ListCompletionGatesByTask_def
  ListMemoryUpdatesByTask_def ListTaskEnqueueDecisionsByTask_def

lemma preserves_evidence: "preserves I (TaskEvidence_Execute params)"
  unfolding TaskEvidence_Execute_def store_reads by (auto intro!: inv_intros)

lemma preserves_queue_Get: "preserves I (queue_Get q)"
  unfolding preserves_def by (simp add: queue_Get_def queue_call_def Let_def)

lemma preserves_queue_status: "preserves I (attachQueueStatus b q)"
  unfolding attachQueueStatus_def by (auto intro!: inv_intros preserves_queue_Get split: option.splits)

lemma preserves_statuses:
  "(\<And>js. preserves I (k js)) \<Longrightarrow> preserves I (statuses_of b only acc es k)"
  by (induction es arbitrary: acc) (auto simp: childStatus_def store_reads intro!: inv_intros preserves_queue_status)

lemma preserves_delegate_status: "preserves I (DelegateStatus_Execute b params)"
  unfolding DelegateStatus_Execute_def store_reads by (auto intro!: inv_intros preserves_statuses)

lemma preserves_actor_graph: "preserves I (ActorGraph_Execute params)"
  unfolding ActorGraph_Execute_def store_reads by (auto intro!: inv_intros)

lemma preserves_list_messages: "preserves I (ActorMessageList_Execute params)"
  unfolding ActorMessageList_Execute_def list_messages_def store_reads by (auto intro!: inv_intros)

lemma preserves_list_children:
  "(\<And>js. preserves I (k js)) \<Longrightarrow> preserves I (list_children nm item acc es k)"
  by (induction es arbitrary: acc) (auto simp: store_reads intro!: inv_intros)

lemma preserves_delegate_list: "preserves I (DelegateList_Execute params)"
  unfolding DelegateList_Execute_def store_reads by (auto intro!: inv_intros preserves_list_children)


end
