(* ===== verification/Context_Window.thy ===== *)
theory Context_Window
  imports Agent_Loop "HOL-Library.Sublist"
begin

text \<open>
  The context window, \<open>internal/conversation/context.go\<close> with the summaries of \<open>structured_summary.go\<close> and
  \<open>compact_summary.go\<close>: a history that is too long for the model is summarised by a model and, where that does
  not help, cut; \<open>cmd/elnath/runtime.go\<close> and \<open>internal/orchestrator/single.go\<close> hand it to the agent.  The
  provider, the memory of the process and what runs after a compression are parameters; so is what the
  threshold leaves of a budget, a product of floating point numbers.
\<close>

section \<open>Transcripts\<close>

definition messageSummaryLabel :: "message \<Rightarrow> string" where
  "messageSummaryLabel m =
     (case filter (\<lambda>b. is_result b \<or> block_tool b \<noteq> []) (ms_content m) of
        b # _ \<Rightarrow> if is_result b then ''tool_result'' else ''tool_use''
      | [] \<Rightarrow> if ms_role m = '''' then ''message'' else ms_role m)"

definition summary_part :: "block \<Rightarrow> string list" where
  "summary_part b =
     (case b of
        TextBlock t \<Rightarrow> if TrimSpace t = '''' then [] else [TrimSpace t]
      | ToolUseBlock u \<Rightarrow> [if tu_input u = '''' then tu_name u else tu_name u @ '' '' @ TrimSpace (tu_input u)]
      | ToolResultBlock _ c e \<Rightarrow> [if e then ''error: '' @ TrimSpace c else TrimSpace c]
      | ThinkingBlock t \<Rightarrow> if TrimSpace t = '''' then [] else [TrimSpace t]
      | ImageBlock _ _ \<Rightarrow> [''[image]''])"

definition compactSummaryText :: "message \<Rightarrow> string" where
  "compactSummaryText m =
     (let parts = concat (map summary_part (ms_content m)) in
      if parts = [] then ''(empty)'' else Join '' | '' parts)"

definition compressionTranscript :: "message list \<Rightarrow> string" where
  "compressionTranscript ms =
     (if ms = [] then ''(none)''
      else TrimSpace (concat (map (\<lambda>m. messageSummaryLabel m @ '': '' @ compactSummaryText m @ [CHR 0x0A]) ms)))"

section \<open>Structured summaries\<close>

fun unix_newlines :: "string \<Rightarrow> string" where
  "unix_newlines [] = []"
| "unix_newlines [c] = [if c = CHR 0x0D then CHR 0x0A else c]"
| "unix_newlines (c # d # s) =
     (if c = CHR 0x0D \<and> d = CHR 0x0A then CHR 0x0A # unix_newlines s
      else (if c = CHR 0x0D then CHR 0x0A else c) # unix_newlines (d # s))"

definition normalizeStructuredSummary :: "string \<Rightarrow> string" where
  "normalizeStructuredSummary content = TrimSpace (unix_newlines content)"

text \<open>
  The two regular expressions of a heading, \<open>^\s*##\s+.+$\<close> and \<open>^\s*##\s*([1-9])\.\s+.+$\<close>, at the start of a
  line: white space takes newlines too, so a match may begin on the empty lines before a heading, and the text
  after the number may stand on the next line.  In a text without white space at its end neither has to give
  anything back.  The result is the number (or nothing) and what follows the match.
\<close>

definition heading_text :: "string \<Rightarrow> string option" where
  "heading_text s =
     (case s of
        c # _ \<Rightarrow> if re_space c \<and> skip_re_space s \<noteq> '''' then Some (dropWhile (\<lambda>c. c \<noteq> CHR 0x0A) (skip_re_space s)) else None
      | [] \<Rightarrow> None)"

definition heading_here :: "bool \<Rightarrow> string \<Rightarrow> (char \<times> string) option" where
  "heading_here numbered s =
     (case skip_re_space s of
        a # b # r \<Rightarrow>
          if a = CHR ''#'' \<and> b = CHR ''#'' then
            (if \<not> numbered then map_option (Pair CHR ''#'') (heading_text r)
             else
               (case skip_re_space r of
                  d # p # r' \<Rightarrow>
                    if d \<in> set ''123456789'' \<and> p = CHR ''.'' then map_option (Pair d) (heading_text r') else None
                | _ \<Rightarrow> None))
          else None
      | _ \<Rightarrow> None)"

lemma skip_shorter: "length (skip_re_space s) \<le> length s"
  by (simp add: skip_re_space_def length_dropWhile_le)

lemma heading_text_shorter: "heading_text s = Some r \<Longrightarrow> length r \<le> length s"
  using length_dropWhile_le[of "\<lambda>c. c \<noteq> CHR 0x0A" "skip_re_space s"] skip_shorter[of s]
  by (cases s) (auto simp: heading_text_def split: if_splits)

lemma heading_shorter:
  assumes "heading_here b s = Some (d, r)" shows "length r < length s"
proof -
  obtain x y t where s: "skip_re_space s = x # y # t"
    using assms by (auto simp: heading_here_def split: list.splits)
  have "length r \<le> length t"
  proof (cases b)
    case True
    with assms s obtain n p t' where t: "skip_re_space t = n # p # t'" and r: "heading_text t' = Some r"
      by (auto simp: heading_here_def split: list.splits if_splits)
    show ?thesis using heading_text_shorter[OF r] skip_shorter[of t] t by simp
  next
    case False
    with assms s show ?thesis by (auto simp: heading_here_def split: if_splits dest: heading_text_shorter)
  qed
  with skip_shorter[of s] s show ?thesis by simp
qed

definition next_line :: "string \<Rightarrow> string" where
  "next_line s = drop 1 (dropWhile (\<lambda>c. c \<noteq> CHR 0x0A) s)"

lemma next_line_length: "length (next_line s) \<le> length s" "length (next_line (c # s)) < Suc (length s)"
  using length_dropWhile_le[of "\<lambda>c. c \<noteq> CHR 0x0A" s] by (auto simp: next_line_def diff_le_mono)

text \<open>Every match from the left that does not overlap the one before.\<close>

function (sequential) headings :: "bool \<Rightarrow> string \<Rightarrow> char list" where
  "headings b [] = []"
| "headings b (c # s) =
     (case heading_here b (c # s) of
        Some (d, r) \<Rightarrow> d # headings b (next_line r)
      | None \<Rightarrow> headings b (next_line (c # s)))"
  by pat_completeness auto
termination
  by (relation "measure (\<lambda>(_, s). length s)")
    (auto simp: next_line_length dest!: heading_shorter intro: le_less_trans[OF next_line_length(1)])

definition parseStructuredSummary :: "string \<Rightarrow> string option" where
  "parseStructuredSummary content =
     (let body = normalizeStructuredSummary content in
      if HasPrefix body ''# Session Summary'' \<and> length (headings False body) = 9 \<and> headings True body = ''123456789''
      then Some body else None)"

definition isStructuredSummaryMessage :: "message \<Rightarrow> bool" where
  "isStructuredSummaryMessage m \<longleftrightarrow> ms_role m = RoleAssistant \<and> parseStructuredSummary (message_Text m) \<noteq> None"

text \<open>The latest summary, and the messages after it.\<close>

fun latestStructuredSummary :: "message list \<Rightarrow> (string \<times> message list) option" where
  "latestStructuredSummary [] = None"
| "latestStructuredSummary (m # ms) =
     (case latestStructuredSummary ms of
        Some r \<Rightarrow> Some r
      | None \<Rightarrow>
          if ms_role m = RoleAssistant then map_option (\<lambda>body. (body, ms)) (parseStructuredSummary (message_Text m)) else None)"

section \<open>Requests for a summary\<close>

definition compressionSummaryMaxTokens :: int where "compressionSummaryMaxTokens = 2048"
definition summaryReturnMessage :: string where "summaryReturnMessage = ''Return only the requested summary.''"

definition structuredSummaryConversationPlaceholder :: string where
  "structuredSummaryConversationPlaceholder = ''<INSERT CONVERSATION HERE>''"
definition structuredSummaryExistingPlaceholder :: string where
  "structuredSummaryExistingPlaceholder = ''<INSERT EXISTING SUMMARY HERE>''"
definition structuredSummaryNewMessagesPlaceholder :: string where
  "structuredSummaryNewMessagesPlaceholder = ''<INSERT NEW MESSAGES HERE>''"

abbreviation nl :: string where "nl \<equiv> [CHR 0x0A]"

definition structuredSummaryTemplate :: string where
  "structuredSummaryTemplate = Join nl [
     ''# Session Summary'',
     '''',
     ''## 1. User goal'',
     ''<primary objective the user is working toward, one paragraph>'',
     '''',
     ''## 2. Completed steps'',
     ''<bullet list of concrete actions taken, in chronological order; keep every entry below 25 words>'',
     '''',
     ''## 3. Current focus'',
     ''<what the agent is actively working on right now, one paragraph>'',
     '''',
     ''## 4. Files touched'',
     ''<list '' @ [CHR 0x22] @ ''path - action (read/write/edit)'' @ [CHR 0x22] @ '' entries; do not include ephemeral tool_result markers>'',
     '''',
     ''## 5. Outstanding TODOs'',
     ''<bullet list of work items not yet started; cross-reference user goal>'',
     '''',
     ''## 6. Blockers / unresolved'',
     ''<list known blockers with symptoms; empty list allowed>'',
     '''',
     ''## 7. Key decisions'',
     ''<bullet list of decisions with one-line rationale each>'',
     '''',
     ''## 8. Open questions'',
     ''<questions the agent has for the user, or ambiguities requiring clarification>'',
     '''',
     ''## 9. Next action'',
     ''<single most specific next step, expressed as an imperative sentence>'']"

definition structuredSummaryPromptNewSession :: string where
  "structuredSummaryPromptNewSession =
     Join nl [
       ''You are compressing a conversation. Produce a structured summary using this exact template:'',
       '''',
       ''''] @ structuredSummaryTemplate @
     Join nl [
       '''',
       '''',
       ''Rules:'',
       ''- Fill every section. Write '' @ [CHR 0x22] @ ''(none)'' @ [CHR 0x22] @ '' if a section has no content yet.'',
       ''- Keep total output under 2000 tokens.'',
       ''- Do not echo raw tool outputs or code blocks from the conversation.'',
       ''- Section 9 must be an imperative sentence.'',
       '''',
       ''Conversation:'',
       ''''] @ structuredSummaryConversationPlaceholder"

definition structuredSummaryPromptIterative :: string where
  "structuredSummaryPromptIterative =
     Join nl [
       ''You are updating a structured conversation summary. Merge the new messages into the existing summary.'',
       '''',
       ''Existing summary:'',
       ''''] @ structuredSummaryExistingPlaceholder @
     Join nl [
       '''',
       '''',
       ''New messages since last compression:'',
       ''''] @ structuredSummaryNewMessagesPlaceholder @
     Join nl [
       '''',
       '''',
       ''Rules:'',
       ''- Use the same 9-section template as the existing summary.'',
       ''- Preserve section 1 (user goal) unless the user has explicitly pivoted.'',
       ''- Add to section 2 (completed steps) rather than rewriting prior entries.'',
       ''- Move items from section 5 (Outstanding TODOs) to section 2 when they finish.'',
       ''- Keep total output under 2000 tokens.'',
       ''- Do not echo raw tool outputs or code blocks.'',
       ''- Section 9 must be an imperative sentence.'',
       '''',
       ''Output only the updated summary, no preamble.'']"

definition legacyUnstructuredSummaryPrompt :: string where
  "legacyUnstructuredSummaryPrompt = Join nl [
     ''Summarize the following conversation history concisely.'',
     ''Preserve key decisions, facts, and context needed to continue the conversation.'',
     ''Output only the summary, no preamble.'']"


text \<open>\<open>strings.Replace(s, old, new, 1)\<close> for a text that is not empty.\<close>

fun replace_first :: "string \<Rightarrow> string \<Rightarrow> string \<Rightarrow> string" where
  "replace_first old new [] = []"
| "replace_first old new (c # s) =
     (if HasPrefix (c # s) old then new @ drop (length old) (c # s) else c # replace_first old new s)"

definition summary_request :: "string \<Rightarrow> string \<Rightarrow> llm_request" where
  "summary_request system msg =
     \<lparr>rq_model = '''', rq_messages = [NewUserMessage msg], rq_tools = [], rq_max_tokens = compressionSummaryMaxTokens,
      rq_system = system, rq_effort = '''', rq_cache = False, rq_session = ''''\<rparr>"

definition newSessionSummaryRequest :: "message list \<Rightarrow> llm_request" where
  "newSessionSummaryRequest ms = summary_request
     (replace_first structuredSummaryConversationPlaceholder (compressionTranscript ms) structuredSummaryPromptNewSession)
     summaryReturnMessage"

definition iterativeSummaryRequest :: "string \<Rightarrow> message list \<Rightarrow> llm_request" where
  "iterativeSummaryRequest existing ms = summary_request
     (replace_first structuredSummaryNewMessagesPlaceholder (compressionTranscript ms)
       (replace_first structuredSummaryExistingPlaceholder existing structuredSummaryPromptIterative))
     summaryReturnMessage"

definition legacySummaryRequest :: "message list \<Rightarrow> llm_request" where
  "legacySummaryRequest ms = summary_request legacyUnstructuredSummaryPrompt (compressionTranscript ms)"

section \<open>The window\<close>

definition recentTurnsToKeep :: nat where "recentTurnsToKeep = 4"
definition snipSafetyMarginTokens :: int where "snipSafetyMarginTokens = 3000"
definition maxCompressionAttempts :: nat where "maxCompressionAttempts = 3"

definition EstimateTokens :: "message list \<Rightarrow> int" where
  "EstimateTokens ms = int (sum_list (map (\<lambda>m. 4 + sum_list (map block_tokens (ms_content m))) ms))"

text \<open>Blocks of white space and messages without blocks are dropped; what is kept loses its source.\<close>

definition keep_block :: "block \<Rightarrow> bool" where
  "keep_block b = (case b of TextBlock t \<Rightarrow> TrimSpace t \<noteq> '''' | _ \<Rightarrow> True)"

definition microCompress :: "message list \<Rightarrow> message list" where
  "microCompress ms =
     map (\<lambda>m. \<lparr>ms_role = ms_role m, ms_source = '''', ms_content = filter keep_block (ms_content m)\<rparr>)
       (filter (\<lambda>m. filter keep_block (ms_content m) \<noteq> []) ms)"

definition validCompressionResult :: "message list \<Rightarrow> bool" where
  "validCompressionResult ms =
     (case ms of [] \<Rightarrow> False | m # _ \<Rightarrow> ms_role m \<noteq> '''' \<and> TrimSpace (message_Text m) \<noteq> '''')"

definition messageImportance :: "message \<Rightarrow> nat" where
  "messageImportance m = 1 + sum_list (map (\<lambda>b. case b of
       ToolUseBlock _ \<Rightarrow> 3
     | ToolResultBlock _ _ e \<Rightarrow> if e then 5 else 2
     | TextBlock t \<Rightarrow>
         if containsAny (ToLower t) [''decision:'', ''important:'', ''error:'', ''warning:'', ''conclusion:'', ''plan:''] then 2 else 0
     | _ \<Rightarrow> 0) (ms_content m))"

text \<open>How many messages from the end fit the budget; the list comes reversed.\<close>

fun fitting :: "int \<Rightarrow> int \<Rightarrow> message list \<Rightarrow> nat" where
  "fitting budget used [] = 0"
| "fitting budget used (m # ms) =
     (if used + EstimateTokens [m] > budget then 0 else Suc (fitting budget (used + EstimateTokens [m]) ms))"

text \<open>The last message of no messages is a slice out of range.\<close>

definition slice_panic :: err where
  "slice_panic = EMsg ''runtime error: slice bounds out of range''"

definition last_message :: "message list \<Rightarrow> err + message list" where
  "last_message ms = (if ms = [] then Inl slice_panic else Inr [last ms])"

definition snip :: "message list \<Rightarrow> int \<Rightarrow> err + message list" where
  "snip ms maxTokens =
     (let budget = maxTokens - snipSafetyMarginTokens; n = fitting budget 0 (rev ms) in
      if budget \<le> 0 then last_message ms
      else if n = 0 then last_message ms
      else Inr (drop (length ms - n) ms))"

definition ask_summary ::
  "'s provider \<Rightarrow> message list \<Rightarrow> message list \<Rightarrow> llm_request \<Rightarrow> ('s, message list) act" where
  "ask_summary p toSummarize recent req =
     bind (wrap_act ''auto-compress: summarize'' (pv_chat p req)) (\<lambda>r.
     if parseStructuredSummary (ch_content r) \<noteq> None then ret (NewAssistantMessage (ch_content r) # recent)
     else
       bind (wrap_act ''auto-compress: legacy fallback'' (pv_chat p (legacySummaryRequest toSummarize))) (\<lambda>r'.
       ret (NewAssistantMessage (ch_content r') # recent)))"

definition flatSummarize :: "'s provider \<Rightarrow> message list \<Rightarrow> message list \<Rightarrow> ('s, message list) act" where
  "flatSummarize p toSummarize recent =
     (case latestStructuredSummary toSummarize of
        None \<Rightarrow> ask_summary p toSummarize recent (newSessionSummaryRequest toSummarize)
      | Some (existing, later) \<Rightarrow>
          if later = [] then fail (EMsg ''auto-compress: no new messages after structured summary'')
          else ask_summary p toSummarize recent (iterativeSummaryRequest existing later))"

definition autoCompress :: "'s provider \<Rightarrow> message list \<Rightarrow> ('s, message list) act" where
  "autoCompress p ms =
     (let keepCount = recentTurnsToKeep * 2 in
      if length ms \<le> keepCount then ret ms
      else flatSummarize p (take (length ms - keepCount) ms) (drop (length ms - keepCount) ms))"

text \<open>
  A window with the provider it is given: \<open>cw_limit\<close> is what the threshold leaves of a budget, \<open>cw_pressure\<close>
  reads whether the process has outgrown the memory limit of the context, \<open>cw_on_auto\<close> runs after each summary.
\<close>

record 's context_window =
  cw_limit :: "int \<Rightarrow> int"
  cw_pressure :: "('s, bool) act"
  cw_on_auto :: "('s, unit) act option"

definition run_on_auto :: "'s context_window \<Rightarrow> ('s, unit) act" where
  "run_on_auto cw = (case cw_on_auto cw of None \<Rightarrow> ret () | Some f \<Rightarrow> f)"

definition hard_cut :: "message list \<Rightarrow> int \<Rightarrow> ('s, nat \<times> message list) act" where
  "hard_cut ms maxTokens = bind (lift_result (snip ms maxTokens)) (\<lambda>ms'. ret (0, ms'))"

text \<open>The attempts that are left are counted down; the result says how many summaries were taken.\<close>

fun compress_rounds ::
  "'s context_window \<Rightarrow> 's provider option \<Rightarrow> int \<Rightarrow> nat \<Rightarrow> message list \<Rightarrow> ('s, nat \<times> message list) act" where
  "compress_rounds cw p maxTokens 0 ms = hard_cut ms maxTokens"
| "compress_rounds cw p maxTokens (Suc n) ms =
     (if EstimateTokens ms \<le> maxTokens then ret (0, ms)
      else
        bind (cw_pressure cw) (\<lambda>under_pressure.
        if under_pressure then hard_cut ms maxTokens
        else
          (case p of
             None \<Rightarrow> hard_cut ms maxTokens
           | Some pr \<Rightarrow>
               if EstimateTokens ms > cw_limit cw maxTokens then
                 bind (attempt (autoCompress pr ms)) (\<lambda>r.
                 case r of
                   Inl _ \<Rightarrow> hard_cut ms maxTokens
                 | Inr ms' \<Rightarrow>
                     if validCompressionResult ms' then
                       bind (run_on_auto cw) (\<lambda>_.
                       bind (compress_rounds cw p maxTokens n ms') (\<lambda>(k, ms''). ret (Suc k, ms'')))
                     else hard_cut ms maxTokens)
               else hard_cut ms maxTokens)))"

definition CompressMessages ::
  "'s context_window \<Rightarrow> 's provider option \<Rightarrow> message list \<Rightarrow> int \<Rightarrow> ('s, nat \<times> message list) act" where
  "CompressMessages cw p ms maxTokens = compress_rounds cw p maxTokens maxCompressionAttempts (microCompress ms)"

definition Fit :: "message list \<Rightarrow> int \<Rightarrow> err + message list" where
  "Fit ms maxTokens =
     (let ms' = microCompress ms in if EstimateTokens ms' \<le> maxTokens then Inr ms' else snip ms' maxTokens)"

definition ResolveCompressionBudget :: "int \<Rightarrow> int \<Rightarrow> int" where
  "ResolveCompressionBudget providerCW configMax =
     (if providerCW > 0 \<and> configMax > 0 then (if providerCW < configMax then providerCW else configMax)
      else if providerCW > 0 then providerCW
      else if configMax > 0 then configMax
      else 100000)"

text \<open>The window of the runtime, which tells the hooks of a compression how many messages went in and came out.\<close>

definition hooked_CompressMessages ::
  "'s context_window \<Rightarrow> (nat \<Rightarrow> nat \<Rightarrow> ('s, unit) act) option \<Rightarrow> 's provider option \<Rightarrow> message list \<Rightarrow> int \<Rightarrow> ('s, message list) act" where
  "hooked_CompressMessages cw hooks p ms maxTokens =
     bind (CompressMessages cw p ms maxTokens) (\<lambda>(n, ms').
     case hooks of
       Some run \<Rightarrow> if n > 0 then bind (run (length ms) (length ms')) (\<lambda>_. ret ms') else ret ms'
     | None \<Rightarrow> ret ms')"

text \<open>What the single workflow gives its agent.\<close>

definition compressFn ::
  "'s context_window \<Rightarrow> (nat \<Rightarrow> nat \<Rightarrow> ('s, unit) act) option \<Rightarrow> 's provider \<Rightarrow> int \<Rightarrow> (message list \<Rightarrow> ('s, message list) act) option" where
  "compressFn cw hooks p budget =
     (if budget > 0 then Some (\<lambda>ms. hooked_CompressMessages cw hooks (Some p) ms budget) else None)"

section \<open>What is kept\<close>

lemma Estimate_Nil [simp]: "EstimateTokens [] = 0"
  and Estimate_Cons: "EstimateTokens (m # ms) = EstimateTokens [m] + EstimateTokens ms"
  and Estimate_rev [simp]: "EstimateTokens (rev ms) = EstimateTokens ms"
  by (simp_all add: EstimateTokens_def rev_map[symmetric])

lemma fitting_fits:
  "used \<le> budget \<Longrightarrow> used + EstimateTokens (take (fitting budget used ms) ms) \<le> budget"
proof (induction ms arbitrary: used)
  case (Cons m ms)
  have "used + EstimateTokens [m] \<le> budget \<Longrightarrow>
      used + (EstimateTokens [m] + EstimateTokens (take (fitting budget (used + EstimateTokens [m]) ms) ms)) \<le> budget"
    using Cons.IH[of "used + EstimateTokens [m]"] by (simp add: add.assoc)
  with Cons.prems show ?case by (simp add: Estimate_Cons[of m "take n ms" for n])
qed simp

lemma fitting_bound: "fitting budget used ms \<le> length ms"
  by (induction ms arbitrary: used) auto

lemma snip_keeps:
  assumes "snip ms maxTokens = Inr r"
  shows "suffix r ms" and "r \<noteq> []" and "EstimateTokens r \<le> maxTokens \<or> r = [last ms]"
proof -
  let ?n = "fitting (maxTokens - snipSafetyMarginTokens) 0 (rev ms)"
  consider (one) "ms \<noteq> []" "r = [last ms]" | (cut) "0 < maxTokens - snipSafetyMarginTokens" "?n \<noteq> 0" "r = drop (length ms - ?n) ms"
    using assms by (auto simp: snip_def last_message_def Let_def split: if_splits)
  then have "suffix r ms \<and> r \<noteq> [] \<and> (EstimateTokens r \<le> maxTokens \<or> r = [last ms])"
  proof cases
    case one
    then have "ms = butlast ms @ r" by simp
    then have "suffix r ms" unfolding suffix_def by (rule exI)
    with one show ?thesis by simp
  next
    case cut
    have n: "?n \<le> length ms" using fitting_bound[of _ _ "rev ms"] by simp
    have "r = rev (take ?n (rev ms))" using cut(3) n by (simp add: rev_take)
    then have "EstimateTokens r \<le> maxTokens - snipSafetyMarginTokens"
      using fitting_fits[of 0 "maxTokens - snipSafetyMarginTokens" "rev ms"] cut(1) by simp
    with cut n show ?thesis by (auto simp: suffix_drop snipSafetyMarginTokens_def)
  qed
  then show "suffix r ms" and "r \<noteq> []" and "EstimateTokens r \<le> maxTokens \<or> r = [last ms]" by auto
qed

lemma snip_returns: "ms \<noteq> [] \<Longrightarrow> \<exists>r. snip ms maxTokens = Inr r"
  by (auto simp: snip_def last_message_def Let_def)

text \<open>A compressed history: the end of the old one, at most one summary in front of it.\<close>

definition compressed_from :: "message list \<Rightarrow> message list \<Rightarrow> bool" where
  "compressed_from ms r \<longleftrightarrow>
     (\<exists>s e. r = s @ e \<and> suffix e ms \<and> (e = [] \<longrightarrow> ms = []) \<and> (s = [] \<or> (\<exists>t. s = [NewAssistantMessage t])))"

lemma compressed_refl: "compressed_from ms ms"
  unfolding compressed_from_def by (rule exI[of _ "[]"]) auto

lemma compressed_last: "compressed_from ms r \<Longrightarrow> ms \<noteq> [] \<Longrightarrow> r \<noteq> [] \<and> last r = last ms"
  by (auto simp: compressed_from_def suffix_def)

lemma compressed_suffix:
  assumes "compressed_from ms r" "suffix r' r" "r' \<noteq> []" "ms \<noteq> []" shows "compressed_from ms r'"
proof -
  from assms(1) obtain s e where r: "r = s @ e" "suffix e ms" "e \<noteq> []" and s: "s = [] \<or> (\<exists>t. s = [NewAssistantMessage t])"
    using assms(4) by (auto simp: compressed_from_def)
  show ?thesis
  proof (cases "suffix r' e")
    case True
    then show ?thesis unfolding compressed_from_def using assms(3) suffix_order.trans[OF True r(2)]
      by (intro exI[of _ "[]"] exI[of _ r']) auto
  next
    case False
    with assms(2) r(1) s have "r' = r" by (auto simp: suffix_append suffix_Cons)
    with assms(1) show ?thesis by simp
  qed
qed

lemma compressed_summary:
  assumes "compressed_from ms r" "8 < length r"
  shows "compressed_from ms (NewAssistantMessage t # drop (length r - 8) r)"
proof -
  from assms(1) obtain s e where r: "r = s @ e" "suffix e ms" and "s = [] \<or> (\<exists>t. s = [NewAssistantMessage t])"
    unfolding compressed_from_def by blast
  then have "length s \<le> 1" by auto
  with r(1)
  have "drop (length r - 8) r = drop (length r - 8 - length s) e" using assms(2) by simp
  moreover have "suffix (drop n e) ms" for n using r(2) suffix_drop suffix_order.trans by blast
  moreover have "drop (length r - 8) r \<noteq> []" using assms(2) by simp
  ultimately show ?thesis unfolding compressed_from_def
    by (intro exI[of _ "[NewAssistantMessage t]"] exI[of _ "drop (length r - 8) r"]) auto
qed

lemma autoCompress_keeps:
  assumes "compressed_from ms r" shows "yields (compressed_from ms) (autoCompress p r)"
proof (cases "length r \<le> 8")
  case True
  with assms show ?thesis by (simp add: autoCompress_def recentTurnsToKeep_def)
next
  case False
  then have "\<And>t. compressed_from ms (NewAssistantMessage t # drop (length r - 8) r)"
    using compressed_summary[OF assms] by simp
  with False show ?thesis
    by (auto simp: autoCompress_def recentTurnsToKeep_def flatSummarize_def ask_summary_def Let_def
        intro!: yields_then split: option.splits)
qed

text \<open>An action that returns whatever the driver does, and what it returns.\<close>

definition delivers :: "('a \<Rightarrow> bool) \<Rightarrow> ('s, 'a) act \<Rightarrow> bool" where
  "delivers P m \<longleftrightarrow> (\<forall>w i s. \<exists>a j s'. m w i s = (Inr a, j, s') \<and> P a)"

lemma delivers_ret [simp]: "delivers P (ret a) = P a"
  by (simp add: delivers_def ret_def)

lemma delivers_bind: "delivers Q m \<Longrightarrow> (\<And>a. Q a \<Longrightarrow> delivers P (k a)) \<Longrightarrow> delivers P (bind m k)"
  unfolding delivers_def bind_Inr by blast

lemma delivers_mono: "delivers Q m \<Longrightarrow> (\<And>a. Q a \<Longrightarrow> P a) \<Longrightarrow> delivers P m"
  unfolding delivers_def by blast

lemma delivers_attempt:
  assumes "yields P m" shows "delivers (pred_sum (\<lambda>_. True) P) (attempt m)"
proof -
  have "pred_sum (\<lambda>_. True) P r" if "m w i s = (r, j, s')" for w i s r j s'
    using that yieldsD[OF assms] by (cases r) auto
  then show ?thesis by (fastforce simp: delivers_def attempt_def split: prod.splits)
qed

definition good_cut :: "message list \<Rightarrow> int \<Rightarrow> message list \<Rightarrow> bool" where
  "good_cut ms maxTokens r \<longleftrightarrow>
     compressed_from ms r \<and> (EstimateTokens r \<le> maxTokens \<or> (ms \<noteq> [] \<and> r = [last ms]))"

lemma hard_cut_good:
  assumes "compressed_from ms r" "ms \<noteq> []"
  shows "delivers (\<lambda>(k, r'). k = 0 \<and> good_cut ms maxTokens r') (hard_cut r maxTokens)"
proof -
  have r: "r \<noteq> []" "last r = last ms" using compressed_last[OF assms] by auto
  obtain r' where r': "snip r maxTokens = Inr r'" using snip_returns[OF r(1)] by blast
  from snip_keeps[OF r'] r(2) compressed_suffix[OF assms(1)] assms(2) show ?thesis
    by (auto simp: hard_cut_def r' good_cut_def lift_result_def bind_def ret_def delivers_def)
qed

text \<open>In Go neither reading the memory statistics nor the callback can fail.\<close>

definition steady :: "'s context_window \<Rightarrow> bool" where
  "steady cw \<longleftrightarrow> delivers (\<lambda>_. True) (cw_pressure cw) \<and> delivers (\<lambda>_. True) (run_on_auto cw)"

lemma rounds_good:
  assumes "steady cw" and "ms \<noteq> []" and "compressed_from ms r"
  shows "delivers (\<lambda>(k, r'). k \<le> n \<and> good_cut ms maxTokens r') (compress_rounds cw p maxTokens n r)"
  using assms(3)
proof (induction n arbitrary: r)
  case 0
  then show ?case by (auto intro: delivers_mono[OF hard_cut_good[OF _ assms(2)]])
next
  case (Suc n)
  have cut: "delivers (\<lambda>(k, r'). k \<le> Suc n \<and> good_cut ms maxTokens r') (hard_cut r maxTokens)"
    by (rule delivers_mono[OF hard_cut_good[OF Suc.prems assms(2)]]) auto
  have again: "delivers (\<lambda>(k, r'). k \<le> Suc n \<and> good_cut ms maxTokens r')
      (bind (run_on_auto cw) (\<lambda>_. bind (compress_rounds cw p maxTokens n r1) (\<lambda>(k, r2). ret (Suc k, r2))))"
    if "compressed_from ms r1" for r1
    using assms(1) that by (auto simp: steady_def intro!: delivers_bind[OF _ delivers_bind[OF Suc.IH]])
  have summarised: "delivers (\<lambda>(k, r'). k \<le> Suc n \<and> good_cut ms maxTokens r')
      (bind (attempt (autoCompress pr r)) (\<lambda>a. case a of Inl _ \<Rightarrow> hard_cut r maxTokens
        | Inr r1 \<Rightarrow> if validCompressionResult r1 then
            bind (run_on_auto cw) (\<lambda>_. bind (compress_rounds cw p maxTokens n r1) (\<lambda>(k, r2). ret (Suc k, r2)))
          else hard_cut r maxTokens))" for pr
    by (rule delivers_bind[OF delivers_attempt[OF autoCompress_keeps[OF Suc.prems]]])
      (auto intro: cut again split: sum.split)
  have pressure: "delivers (\<lambda>_. True) (cw_pressure cw)" using assms(1) by (simp add: steady_def)
  show ?case
    using Suc.prems cut summarised
    by (auto simp: good_cut_def intro!: delivers_bind[OF pressure] split: option.split)
qed

lemma compression_good:
  assumes "steady cw" and "0 \<le> maxTokens"
  shows "delivers (\<lambda>(k, r). k \<le> maxCompressionAttempts \<and> good_cut (microCompress ms) maxTokens r) (CompressMessages cw p ms maxTokens)"
proof (cases "microCompress ms = []")
  case True
  with assms(2) show ?thesis
    by (simp add: CompressMessages_def maxCompressionAttempts_def numeral_3_eq_3 good_cut_def compressed_refl)
next
  case False
  from rounds_good[OF assms(1) this compressed_refl] show ?thesis unfolding CompressMessages_def .
qed

text \<open>Compression keeps the calls of a history answered: what is cut is cut from the front.\<close>

lemma answered_suffix: "calls_answered (s @ e) \<Longrightarrow> calls_answered e"
  by (induction s) auto

lemma answered_compressed: "compressed_from ms r \<Longrightarrow> calls_answered ms \<Longrightarrow> calls_answered r"
  by (auto simp: compressed_from_def suffix_def NewAssistantMessage_def NewTextMessage_def asked_ids_def
      ExtractToolUseBlocks_def block_tool_def dest: answered_suffix)

definition stripped :: "message \<Rightarrow> message" where
  "stripped m = \<lparr>ms_role = ms_role m, ms_source = '''', ms_content = filter keep_block (ms_content m)\<rparr>"

lemma stripped_ids [simp]: "asked_ids (stripped m) = asked_ids m" "result_ids (stripped m) = result_ids m"
proof -
  have "concat (map block_tool (filter keep_block bs)) = concat (map block_tool bs)"
    "concat (map result_id (filter keep_block bs)) = concat (map result_id bs)" for bs
    by (induction bs) (auto simp: keep_block_def block_tool_def result_id_def split: block.splits)
  then show "asked_ids (stripped m) = asked_ids m" "result_ids (stripped m) = result_ids m"
    by (simp_all add: stripped_def asked_ids_def result_ids_def ExtractToolUseBlocks_def)
qed

lemma emptied_ids:
  assumes "filter keep_block (ms_content m) = []" shows "asked_ids m = []" "result_ids m = []"
proof -
  have "asked_ids (stripped m) = []" "result_ids (stripped m) = []"
    using assms by (simp_all add: stripped_def asked_ids_def result_ids_def ExtractToolUseBlocks_def del: stripped_ids)
  then show "asked_ids m = []" "result_ids m = []" by simp_all
qed

lemma micro_answered: "calls_answered ms \<Longrightarrow> calls_answered (microCompress ms)"
proof (induction ms)
  case (Cons m ms)
  have micro: "microCompress (m # ms) =
      (if filter keep_block (ms_content m) = [] then microCompress ms else stripped m # microCompress ms)" for m ms
    by (simp add: microCompress_def stripped_def)
  show ?case
  proof (cases "asked_ids m = []")
    case True
    with Cons show ?thesis by (auto simp: micro)
  next
    case False
    with Cons.prems obtain r ns where ms: "ms = r # ns" "ms_role r = RoleUser" "result_ids r = asked_ids m"
      by (auto split: list.splits)
    with False have kept: "filter keep_block (ms_content m) \<noteq> []" "filter keep_block (ms_content r) \<noteq> []"
      using emptied_ids[of m] emptied_ids[of r] by auto
    have "ms_role (stripped r) = RoleUser" using ms(2) by (simp add: stripped_def)
    with Cons kept ms show ?thesis by (simp add: micro)
  qed
qed (simp add: microCompress_def)

section \<open>Properties\<close>

text \<open>
  C8: Compression always ends with a history that fits, and keeps its end.  Over any provider, whatever it answers
  and however it fails, CompressMessages takes at most three summaries and returns the end of the history, free
  of blank blocks and with at most one summary in front of it; its estimate is within the budget, or it is the
  last message alone.
\<close>

theorem compression_fits:
  assumes "steady cw" and "0 \<le> maxTokens"
  shows "\<exists>k r j s'. CompressMessages cw p ms maxTokens w i s = (Inr (k, r), j, s') \<and> k \<le> maxCompressionAttempts \<and>
    compressed_from (microCompress ms) r \<and>
    (EstimateTokens r \<le> maxTokens \<or> (microCompress ms \<noteq> [] \<and> r = [last (microCompress ms)]))"
  using compression_good[OF assms, where ms = ms and p = p] unfolding delivers_def good_cut_def by fastforce

text \<open>
  C14: The agent's compression keeps every call answered.  An agent whose compression is the window of the runtime,
  as the single workflow sets it up, fulfils the condition under which its runs leave no call without its result.
\<close>

theorem window_keeps_answers:
  assumes "steady cw" and "ag_compress a = compressFn cw hooks p budget"
  shows "compress_answers a"
proof -
  have "calls_answered r" if run: "CompressMessages cw (Some p) ms budget w i s = (Inr (k, r), j, s')"
    and "calls_answered ms" "0 < budget" for ms w i s k r j s'
  proof -
    have "compressed_from (microCompress ms) r"
      using compression_good[OF assms(1) less_imp_le[OF that(3)], where ms = ms and p = "Some p"] run
      unfolding delivers_def good_cut_def by (auto dest!: spec[of _ w] spec[of _ i] spec[of _ s])
    with that(2) show ?thesis by (blast intro: answered_compressed micro_answered)
  qed
  with assms(2) show ?thesis
    by (fastforce simp: compress_answers_def compressFn_def hooked_CompressMessages_def bind_Inr ret_def
        split: if_splits option.splits)
qed

text \<open>
  The threshold plays no part.  Whatever share of the budget it leaves, a history within the budget is only
  freed of blank blocks, and a longer one is treated as if the whole budget were the threshold: the 80 per cent of
  the documentation start nothing.
\<close>

theorem threshold_idle:
  assumes "cw_limit cw maxTokens \<le> maxTokens"
  shows "CompressMessages cw p ms maxTokens =
    (if EstimateTokens (microCompress ms) \<le> maxTokens then ret (0, microCompress ms)
     else CompressMessages (cw\<lparr>cw_limit := (\<lambda>n. n)\<rparr>) p ms maxTokens)"
proof -
  have "compress_rounds cw q maxTokens n r = compress_rounds (cw\<lparr>cw_limit := (\<lambda>n. n)\<rparr>) q maxTokens n r" for n q r
  proof (induction n arbitrary: q r)
    case (Suc n)
    show ?case
    proof (cases "EstimateTokens r \<le> maxTokens")
      case False
      then have "cw_limit cw maxTokens < EstimateTokens r" using assms by simp
      with False show ?thesis
        by (simp add: run_on_auto_def Suc.IH cong: if_cong option.case_cong sum.case_cong)
    qed simp
  qed simp
  then have "CompressMessages cw p ms maxTokens = CompressMessages (cw\<lparr>cw_limit := (\<lambda>n. n)\<rparr>) p ms maxTokens"
    by (simp only: CompressMessages_def)
  then show ?thesis by (auto simp: CompressMessages_def maxCompressionAttempts_def numeral_3_eq_3)
qed

section \<open>Examples\<close>

definition still_window :: "nat context_window" where
  "still_window = \<lparr>cw_limit = (\<lambda>n. n * 4 div 5), cw_pressure = ret False, cw_on_auto = None\<rparr>"

lemma still_steady: "steady still_window"
  by (simp add: steady_def still_window_def run_on_auto_def)

definition picture :: "string \<Rightarrow> message" where
  "picture role = \<lparr>ms_role = role, ms_source = '''', ms_content = [ImageBlock ''png'' '''', TextBlock ''here'']\<rparr>"

text \<open>
  Up to eight messages are never summarised: the three attempts count, run what runs after a summary, ask the
  provider nothing, and the history is cut.
\<close>

lemma short_history_only_cut:
  assumes "cw_pressure cw = ret False" and "cw_on_auto cw = None" and "cw_limit cw maxTokens \<le> maxTokens"
    and "length r \<le> 8" and "validCompressionResult r" and "maxTokens < EstimateTokens r"
  shows "compress_rounds cw (Some pr) maxTokens n r = bind (lift_result (snip r maxTokens)) (\<lambda>r'. ret (n, r'))"
proof (induction n)
  case (Suc n)
  have "cw_limit cw maxTokens < EstimateTokens r" using assms(3,6) by simp
  with assms Suc show ?case
    by (simp add: autoCompress_def recentTurnsToKeep_def run_on_auto_def fun_eq_iff bind_def ret_def attempt_def lift_result_def fail_def
        split: sum.split)
qed (simp add: hard_cut_def)

text \<open>The cut falls between a call and its result, which is then the answer to nothing.\<close>

definition cut_history :: "message list" where
  "cut_history = [picture RoleUser, picture RoleUser,
     \<lparr>ms_role = RoleAssistant, ms_source = '''', ms_content = [ToolUseBlock \<lparr>tu_id = ''c1'', tu_name = ''bash'', tu_input = replicate 40 CHR ''x''\<rparr>]\<rparr>,
     NewToolResultMessage ''c1'' ''ok'' False]"

lemma snip_orphans_result:
  "calls_answered cut_history \<and> snip cut_history 3010 = Inr [NewToolResultMessage ''c1'' ''ok'' False]"
  by code_simp

lemma compression_fits_witness:
  "\<exists>k r j s'. CompressMessages still_window None cut_history 3010 (calm_world 0) 0 0 = (Inr (k, r), j, s') \<and>
    k \<le> maxCompressionAttempts \<and> compressed_from (microCompress cut_history) r \<and>
    (EstimateTokens r \<le> 3010 \<or> (microCompress cut_history \<noteq> [] \<and> r = [last (microCompress cut_history)]))"
  by (rule compression_fits[OF still_steady]) simp

lemma window_keeps_answers_witness:
  "compress_answers (sample_agent ''grep''\<lparr>ag_compress := compressFn still_window None (ag_provider (sample_agent ''grep'')) 5000\<rparr>)"
  by (rule window_keeps_answers[OF still_steady, where hooks = None]) simp

lemma threshold_idle_witness:
  "CompressMessages still_window None cut_history 4000 =
    (if EstimateTokens (microCompress cut_history) \<le> 4000 then ret (0, microCompress cut_history)
     else CompressMessages (still_window\<lparr>cw_limit := (\<lambda>n. n)\<rparr>) None cut_history 4000)"
  by (rule threshold_idle) (simp add: still_window_def)

end
