(* ===== verification/Consolidation_Lock.thy ===== *)
theory Consolidation_Lock
  imports Go_Strings
begin

text \<open>
  The gate in front of the consolidation of lessons, \<open>internal/learning/consolidator_gate.go\<close>: a lock file whose
  modification time is the time of the last consolidation.  Every system call of \<open>Acquire\<close> and of the
  function it returns is a step, and the steps of several processes interleave.  A fault makes a call fail.
  Times are in milliseconds; a file has a number of its own, so that writing through a handle does
  not touch a file that has replaced it.  Process ids are not used twice.
\<close>

section \<open>The file and the gate\<close>

record lock_file =
  lf_ino :: nat
  lf_body :: string
  lf_mtime :: int

record gate =
  gt_min_interval :: int
  gt_min_sessions :: int
  gt_holder_stale :: int

definition NewGate :: gate where
  "NewGate = \<lparr>gt_min_interval = 24 * 60 * 60000, gt_min_sessions = 5, gt_holder_stale = 60 * 60000\<rparr>"

definition LastConsolidatedAt :: "err option \<Rightarrow> lock_file option \<Rightarrow> err + int" where
  "LastConsolidatedAt bad file =
     (case bad of
        Some er \<Rightarrow> Inl (EWrap ''consolidation gate: stat'' er)
      | None \<Rightarrow> Inr (case file of None \<Rightarrow> zero_time | Some f \<Rightarrow> lf_mtime f))"

text \<open>The reason of an answer, without its text.\<close>

datatype gate_reason =
    ReadFailed err
  | TimeGate int int
  | CountFailed err
  | SessionGate int int
  | Ready

definition ShouldRun :: "gate \<Rightarrow> (int \<Rightarrow> err + int) \<Rightarrow> err option \<Rightarrow> lock_file option \<Rightarrow> int \<Rightarrow> bool \<times> gate_reason" where
  "ShouldRun g sessions bad file now =
     (case LastConsolidatedAt bad file of
        Inl er \<Rightarrow> (False, ReadFailed er)
      | Inr lastAt \<Rightarrow>
          if lastAt \<noteq> zero_time \<and> now - lastAt < gt_min_interval g then (False, TimeGate (now - lastAt) (gt_min_interval g))
          else
            (case sessions lastAt of
               Inl er \<Rightarrow> (False, CountFailed er)
             | Inr n \<Rightarrow>
                 if n < gt_min_sessions g then (False, SessionGate n (gt_min_sessions g)) else (True, Ready)))"

section \<open>Acquiring and releasing, call by call\<close>

text \<open>
  Where a process is: before each call of \<open>Acquire\<close>, refused, holding the lock with the modification time it
  found, and, after work that failed, before each call of the function that gives the lock back.
\<close>

datatype at =
    Idle
  | AtStat int
  | AtRead int
  | AtCheck int int nat
  | AtRemove int nat
  | AtMkdir int
  | AtCreate int
  | AtWrite int nat
  | AtClose int nat
  | AtDrop string nat
  | Refused string
  | Holding int nat
  | AtRelease int nat
  | AtRewind int nat
  | Ended
  | Dead

text \<open>What the body of a lock file says of its holder; a body that is no pid counts as that of a living one.\<close>

definition holder_pid :: "string \<Rightarrow> int option" where
  "holder_pid body = (case ParseInt (TrimSpace body) of Some pid \<Rightarrow> if pid \<le> 0 then None else Some pid | None \<Rightarrow> None)"

definition lock_held :: string where "lock_held = ''consolidation lock: held''"

fun acquire_step ::
  "gate \<Rightarrow> int \<Rightarrow> (int \<Rightarrow> bool) \<Rightarrow> int \<Rightarrow> nat \<Rightarrow> bool \<Rightarrow> at \<Rightarrow> lock_file option \<Rightarrow> at \<times> lock_file option" where
  "acquire_step g self alive tm fresh bad Idle file = (AtStat tm, file)"
| "acquire_step g self alive tm fresh bad (AtStat now) file =
     (if bad then (Refused ''consolidation lock: stat'', file)
      else
        (case file of
           None \<Rightarrow> (AtMkdir zero_time, file)
         | Some f \<Rightarrow>
             if now - lf_mtime f \<ge> gt_holder_stale g then (AtRemove (lf_mtime f) (lf_ino f), file)
             else (AtRead (lf_mtime f), file)))"
| "acquire_step g self alive tm fresh bad (AtRead prior) file =
     (case (if bad then None else file) of
        None \<Rightarrow> (Refused lock_held, file)
      | Some f \<Rightarrow>
          (case holder_pid (lf_body f) of
             None \<Rightarrow> (Refused lock_held, file)
           | Some pid \<Rightarrow> (AtCheck prior pid (lf_ino f), file)))"
| "acquire_step g self alive tm fresh bad (AtCheck prior pid ino) file =
     (if alive pid then (Refused lock_held, file) else (AtRemove prior ino, file))"
| "acquire_step g self alive tm fresh bad (AtRemove prior ino) file =
     (if bad then (Refused ''consolidation lock: remove prior'', file) else (AtMkdir prior, None))"
| "acquire_step g self alive tm fresh bad (AtMkdir prior) file =
     (if bad then (Refused ''consolidation lock: mkdir'', file) else (AtCreate prior, file))"
| "acquire_step g self alive tm fresh bad (AtCreate prior) file =
     (if bad then (Refused ''consolidation lock: create'', file)
      else if file \<noteq> None then (Refused ''consolidation lock: lost race'', file)
      else (AtWrite prior fresh, Some \<lparr>lf_ino = fresh, lf_body = '''', lf_mtime = tm\<rparr>))"
| "acquire_step g self alive tm fresh bad (AtWrite prior ino) file =
     (if bad then (AtDrop ''consolidation lock: write'' ino, file)
      else (AtClose prior ino,
        map_option (\<lambda>f. if lf_ino f = ino then f\<lparr>lf_body := itoa self, lf_mtime := tm\<rparr> else f) file))"
| "acquire_step g self alive tm fresh bad (AtClose prior ino) file =
     (if bad then (AtDrop ''consolidation lock: close'' ino, file) else (Holding prior ino, file))"
| "acquire_step g self alive tm fresh bad (AtDrop msg ino) file = (Refused msg, if bad then file else None)"
| "acquire_step g self alive tm fresh bad (AtRelease prior ino) file =
     (if prior = zero_time then (Ended, if bad then file else None)
      else
        (AtRewind prior ino,
         if bad then file
         else Some (case file of
            None \<Rightarrow> \<lparr>lf_ino = fresh, lf_body = '''', lf_mtime = tm\<rparr>
          | Some f \<Rightarrow> f\<lparr>lf_body := '''', lf_mtime := tm\<rparr>)))"
| "acquire_step g self alive tm fresh bad (AtRewind prior ino) file =
     (Ended, if bad then file else map_option (\<lambda>f. f\<lparr>lf_mtime := prior\<rparr>) file)"
| "acquire_step g self alive tm fresh bad pc file = (pc, file)"

section \<open>Several processes\<close>

record gate_world =
  gw_time :: int
  gw_file :: "lock_file option"
  gw_next :: nat
  gw_at :: "int \<Rightarrow> at"

definition gw_alive :: "gate_world \<Rightarrow> int \<Rightarrow> bool" where
  "gw_alive w pid \<longleftrightarrow> gw_at w pid \<noteq> Dead"

definition move :: "gate \<Rightarrow> int \<Rightarrow> bool \<Rightarrow> gate_world \<Rightarrow> gate_world" where
  "move g p bad w =
     (case acquire_step g p (gw_alive w) (gw_time w) (gw_next w) bad (gw_at w p) (gw_file w) of
        (pc, file) \<Rightarrow> w\<lparr>gw_file := file, gw_next := Suc (gw_next w), gw_at := (gw_at w)(p := pc)\<rparr>)"

text \<open>The file a process has created and not yet given back.\<close>

fun owned :: "at \<Rightarrow> nat option" where
  "owned (AtWrite _ ino) = Some ino"
| "owned (AtClose _ ino) = Some ino"
| "owned (AtDrop _ ino) = Some ino"
| "owned (Holding _ ino) = Some ino"
| "owned (AtRelease _ ino) = Some ino"
| "owned (AtRewind _ ino) = Some ino"
| "owned _ = None"

text \<open>
  \<open>prompt\<close>: nobody keeps the lock for as long as the gate takes it for abandoned.  \<open>undisturbed\<close>: the file that is
  removed is the one that was found to be abandoned; the code does not make sure of that.
\<close>

definition prompt :: "gate \<Rightarrow> gate_world \<Rightarrow> int \<Rightarrow> bool" where
  "prompt g w t \<longleftrightarrow> (\<forall>p f. owned (gw_at w p) \<noteq> None \<longrightarrow> gw_file w = Some f \<longrightarrow> t - lf_mtime f < gt_holder_stale g)"

definition undisturbed :: "at \<Rightarrow> lock_file option \<Rightarrow> bool" where
  "undisturbed pc file \<longleftrightarrow> (case (pc, file) of (AtRemove _ ino, Some f) \<Rightarrow> lf_ino f = ino | _ \<Rightarrow> True)"

inductive gate_step :: "gate \<Rightarrow> bool \<Rightarrow> gate_world \<Rightarrow> gate_world \<Rightarrow> bool" for g careful where
  tick: "gw_time w \<le> t \<Longrightarrow> prompt g w t \<Longrightarrow> gate_step g careful w (w\<lparr>gw_time := t\<rparr>)"
| call: "gw_at w p \<noteq> Dead \<Longrightarrow> 0 < p \<Longrightarrow> p < 2 ^ 63 \<Longrightarrow> careful \<longrightarrow> undisturbed (gw_at w p) (gw_file w) \<Longrightarrow>
    gate_step g careful w (move g p bad w)"
| succeed: "gw_at w p = Holding prior ino \<Longrightarrow> gate_step g careful w (w\<lparr>gw_at := (gw_at w)(p := Ended)\<rparr>)"
| fail: "gw_at w p = Holding prior ino \<Longrightarrow> gate_step g careful w (w\<lparr>gw_at := (gw_at w)(p := AtRelease prior ino)\<rparr>)"
| again: "gw_at w p \<in> {Ended} \<union> range Refused \<Longrightarrow> gate_step g careful w (w\<lparr>gw_at := (gw_at w)(p := Idle)\<rparr>)"
| die: "gate_step g careful w (w\<lparr>gw_at := (gw_at w)(p := Dead)\<rparr>)"

text \<open>Nobody has begun, and the file, if there is one, is an old one.\<close>

definition at_rest :: "gate_world \<Rightarrow> bool" where
  "at_rest w \<longleftrightarrow> (\<forall>p. gw_at w p \<in> {Idle, Dead}) \<and> (\<forall>f. gw_file w = Some f \<longrightarrow> lf_ino f < gw_next w)"

section \<open>What a holder writes\<close>

lemma trimmed_plain: "(\<And>c. c \<in> set s \<Longrightarrow> plain_char c) \<Longrightarrow> trimmed s"
  unfolding trimmed_def plain_char_def
  by (metis (no_types, opaque_lifting) hd_in_set in_mono set_mono_prefix set_mono_suffix go_spaces_not_Nil)

lemma digits_val_digits: "digits_val acc s = Some n \<Longrightarrow> c \<in> set s \<Longrightarrow> digit_val c \<noteq> None"
  by (induction s arbitrary: acc) (auto split: option.splits)

lemma digit_plain: "digit_val c \<noteq> None \<Longrightarrow> plain_char c"
proof -
  have "list_all (\<lambda>p. list_all (\<lambda>c. digit_val c = None) p) go_spaces" by code_simp
  then show "digit_val c \<noteq> None \<Longrightarrow> plain_char c" by (auto simp: plain_char_def list_all_iff)
qed

lemma itoa_trimmed: "0 < p \<Longrightarrow> TrimSpace (itoa p) = itoa p"
  using digits_val_digits[OF digits_val_nat_digits] digit_plain
  by (intro trimmed_TrimSpace trimmed_plain) (auto simp: itoa_def)

lemma holder_itoa: "0 < p \<Longrightarrow> p < 2 ^ 63 \<Longrightarrow> holder_pid (itoa p) = Some p"
  by (simp add: holder_pid_def itoa_trimmed ParseInt_itoa)

lemma holder_empty: "holder_pid '''' = None"
  by code_simp

section \<open>One holder\<close>

text \<open>
  The invariant: a process that owns a lock finds it in place, recent and with its own pid or nothing in it; there
  is one owner at most; and nobody is about to remove a file that is owned.
\<close>

definition in_place :: "gate \<Rightarrow> gate_world \<Rightarrow> int \<Rightarrow> nat \<Rightarrow> bool" where
  "in_place g w p ino \<longleftrightarrow> 0 < p \<and> p < 2 ^ 63 \<and>
     (case gw_file w of None \<Rightarrow> False
      | Some f \<Rightarrow> lf_ino f = ino \<and> lf_body f \<in> {'''', itoa p} \<and> gw_time w - lf_mtime f < gt_holder_stale g)"

definition waits_well :: "gate_world \<Rightarrow> at \<Rightarrow> bool" where
  "waits_well w pc \<longleftrightarrow>
     (case pc of
        AtStat now \<Rightarrow> now \<le> gw_time w
      | AtCheck _ pid ino \<Rightarrow> ino < gw_next w \<and> (\<forall>q. owned (gw_at w q) = Some ino \<longrightarrow> q = pid)
      | AtRemove _ ino \<Rightarrow> ino < gw_next w \<and> (\<forall>q. owned (gw_at w q) \<noteq> Some ino)
      | _ \<Rightarrow> True)"

definition lock_inv :: "gate \<Rightarrow> gate_world \<Rightarrow> bool" where
  "lock_inv g w \<longleftrightarrow>
     (\<forall>p ino. owned (gw_at w p) = Some ino \<longrightarrow> in_place g w p ino) \<and>
     (\<forall>p q i j. owned (gw_at w p) = Some i \<longrightarrow> owned (gw_at w q) = Some j \<longrightarrow> p = q) \<and>
     (\<forall>f. gw_file w = Some f \<longrightarrow> lf_ino f < gw_next w) \<and>
     (\<forall>p. waits_well w (gw_at w p))"

lemma lock_invD:
  assumes "lock_inv g w"
  shows "owned (gw_at w p) = Some ino \<Longrightarrow> in_place g w p ino"
    and "owned (gw_at w p) = Some i \<Longrightarrow> owned (gw_at w q) = Some j \<Longrightarrow> p = q"
    and "gw_file w = Some f \<Longrightarrow> lf_ino f < gw_next w"
    and "waits_well w (gw_at w p)"
  using assms unfolding lock_inv_def by blast+

lemma waits_mono:
  "waits_well w pc \<Longrightarrow> gw_time w \<le> gw_time w' \<Longrightarrow> gw_next w \<le> gw_next w' \<Longrightarrow>
   (\<And>r ino. ino < gw_next w \<Longrightarrow> owned (gw_at w' r) = Some ino \<Longrightarrow> owned (gw_at w r) = Some ino) \<Longrightarrow> waits_well w' pc"
  by (cases pc) (auto simp: waits_well_def intro: less_le_trans)

text \<open>
  A step of one process: what the others own and wait for is as before, provided what the process now owns it owned
  before or is a new file, and the file is still that of the others.
\<close>

lemma inv_step:
  assumes inv: "lock_inv g w" and w': "w' = w\<lparr>gw_file := fl, gw_next := n, gw_at := (gw_at w)(p := pc)\<rparr>"
    and n: "gw_next w \<le> n" and numbered: "\<And>f. fl = Some f \<Longrightarrow> lf_ino f < n"
    and mine: "\<And>ino. owned pc = Some ino \<Longrightarrow> in_place g w' p ino \<and> (owned (gw_at w p) = Some ino \<or> ino = gw_next w \<and> gw_file w = None)"
    and others: "\<And>q ino. q \<noteq> p \<Longrightarrow> owned (gw_at w q) = Some ino \<Longrightarrow> fl = gw_file w"
    and waits: "waits_well w' pc"
  shows "lock_inv g w'"
proof -
  have alone: "q = p" if "owned pc = Some i" "owned (gw_at w q) = Some j" for q i j
  proof (cases "owned (gw_at w p) = Some i")
    case True
    then show ?thesis using lock_invD(2)[OF inv that(2)] by blast
  next
    case False
    with mine[OF that(1)] lock_invD(1)[OF inv that(2)] show ?thesis by (simp add: in_place_def split: option.splits)
  qed
  have old: "in_place g w' q ino" if "q \<noteq> p" "owned (gw_at w q) = Some ino" for q ino
    using lock_invD(1)[OF inv that(2)] others[OF that] by (simp add: in_place_def w' split: option.splits)
  have "in_place g w' q ino" if "owned (gw_at w' q) = Some ino" for q ino
    using that old mine by (cases "q = p") (auto simp: w')
  moreover have "q = r" if "owned (gw_at w' q) = Some i" "owned (gw_at w' r) = Some j" for q r i j
  proof -
    have own: "owned (gw_at w' x) = (if x = p then owned pc else owned (gw_at w x))" for x by (simp add: w')
    show ?thesis
    proof (cases "q = p \<or> r = p")
      case True
      then show ?thesis using that alone own by metis
    next
      case False
      then show ?thesis using that lock_invD(2)[OF inv] own by metis
    qed
  qed
  moreover have "waits_well w' (gw_at w' q)" for q
  proof (cases "q = p")
    case False
    have "owned (gw_at w r) = Some ino \<or> ino = gw_next w" if "owned (gw_at w' r) = Some ino" for r ino
      using that mine by (auto simp: w' split: if_splits)
    then have old: "owned (gw_at w r) = Some ino" if "ino < gw_next w" "owned (gw_at w' r) = Some ino" for r ino
      using that by blast
    from lock_invD(4)[OF inv, of q] have "waits_well w' (gw_at w q)"
      by (rule waits_mono) (simp add: w', simp add: w' n, rule old)
    then show ?thesis using False by (simp add: w')
  qed (use waits in \<open>simp add: w'\<close>)
  moreover have "lf_ino f < gw_next w'" if "gw_file w' = Some f" for f using that numbered by (simp add: w')
  ultimately show ?thesis unfolding lock_inv_def by blast
qed

text \<open>A call that goes through, and what has to be shown of it.\<close>

definition calls :: "gate \<Rightarrow> gate_world \<Rightarrow> int \<Rightarrow> bool \<Rightarrow> at \<Rightarrow> lock_file option \<Rightarrow> bool" where
  "calls g w p bad pc fl \<longleftrightarrow>
     lock_inv g w \<and> 0 < gt_holder_stale g \<and> 0 < p \<and> p < 2 ^ 63 \<and> undisturbed (gw_at w p) (gw_file w) \<and>
     acquire_step g p (gw_alive w) (gw_time w) (gw_next w) bad (gw_at w p) (gw_file w) = (pc, fl)"

lemma call_numbered: "calls g w p bad pc fl \<Longrightarrow> fl = Some f \<Longrightarrow> lf_ino f < Suc (gw_next w)"
  using lock_invD(3)[of g w] unfolding calls_def
  by (cases "gw_at w p") (auto split: if_splits option.splits intro: less_SucI)

lemma call_mine:
  assumes c: "calls g w p bad pc fl" and "owned pc = Some ino"
  shows "in_place g (w\<lparr>gw_file := fl, gw_next := Suc (gw_next w), gw_at := (gw_at w)(p := pc)\<rparr>) p ino \<and>
    (owned (gw_at w p) = Some ino \<or> ino = gw_next w \<and> gw_file w = None)"
  using assms(2) c lock_invD(1)[of g w p ino] unfolding calls_def
  by (cases "gw_at w p") (auto simp: in_place_def split: if_splits option.splits)

lemma call_others:
  assumes c: "calls g w p bad pc fl" and "q \<noteq> p" and "owned (gw_at w q) = Some ino"
  shows "fl = gw_file w"
proof -
  have inv: "lock_inv g w" using c by (simp add: calls_def)
  obtain f where f: "gw_file w = Some f" "lf_ino f = ino"
    using lock_invD(1)[OF inv assms(3)] by (auto simp: in_place_def split: option.splits)
  have none: "owned (gw_at w p) = None"
    using lock_invD(2)[OF inv _ assms(3), of p] assms(2) by (cases "owned (gw_at w p)") auto
  show ?thesis using c none lock_invD(4)[OF inv, of p] f assms(3) unfolding calls_def
    by (cases "gw_at w p") (auto simp: undisturbed_def waits_well_def split: if_splits option.splits)
qed

lemma call_waits:
  assumes c: "calls g w p bad pc fl"
  shows "waits_well (w\<lparr>gw_file := fl, gw_next := Suc (gw_next w), gw_at := (gw_at w)(p := pc)\<rparr>) pc"
proof (cases "gw_at w p")
  case (AtStat now)
  note inv = c[unfolded calls_def, THEN conjunct1] and step = c[unfolded calls_def]
  from AtStat have now: "now \<le> gw_time w" using lock_invD(4)[OF inv, of p] by (simp add: waits_well_def)
  have "owned (gw_at w q) \<noteq> Some (lf_ino f)" if "gw_file w = Some f" "gt_holder_stale g \<le> now - lf_mtime f" for q f
  proof
    assume "owned (gw_at w q) = Some (lf_ino f)"
    from lock_invD(1)[OF inv this] that now show False by (simp add: in_place_def)
  qed
  with AtStat step lock_invD(3)[OF inv] show ?thesis
    by (auto simp: waits_well_def less_Suc_eq split: if_splits option.splits)
next
  case (AtRead prior)
  note inv = c[unfolded calls_def, THEN conjunct1] and step = c[unfolded calls_def]
  have "q = d" if "gw_file w = Some f" "holder_pid (lf_body f) = Some d" "owned (gw_at w q) = Some (lf_ino f)" for q f d
    using lock_invD(1)[OF inv that(3)] that(1,2) by (auto simp: in_place_def holder_itoa holder_empty)
  with AtRead step lock_invD(3)[OF inv] show ?thesis
    by (auto simp: waits_well_def less_Suc_eq split: if_splits option.splits)
next
  case (AtCheck prior d ino)
  note inv = c[unfolded calls_def, THEN conjunct1] and step = c[unfolded calls_def]
  from AtCheck lock_invD(4)[OF inv, of p] have "ino < gw_next w" "\<And>q. owned (gw_at w q) = Some ino \<Longrightarrow> q = d"
    by (auto simp: waits_well_def)
  moreover have "owned (gw_at w d) = None" if "\<not> gw_alive w d" using that by (simp add: gw_alive_def)
  ultimately show ?thesis using AtCheck step by (auto simp: waits_well_def split: if_splits)
next
  case (Refused m)
  with c have "pc = Refused m" by (simp add: calls_def)
  then show ?thesis by (simp add: waits_well_def)
next
  case (Holding prior ino)
  with c have "pc = Holding prior ino" by (simp add: calls_def)
  then show ?thesis by (simp add: waits_well_def)
qed (use c in \<open>auto simp: calls_def waits_well_def split: if_splits option.splits\<close>)

lemma inv_call:
  assumes "lock_inv g w" "0 < gt_holder_stale g" "0 < p" "p < 2 ^ 63" "gw_at w p \<noteq> Dead" "undisturbed (gw_at w p) (gw_file w)"
  shows "lock_inv g (move g p bad w)"
proof -
  obtain pc fl where step: "acquire_step g p (gw_alive w) (gw_time w) (gw_next w) bad (gw_at w p) (gw_file w) = (pc, fl)"
    by fastforce
  have c: "calls g w p bad pc fl" using assms step by (simp add: calls_def)
  have "move g p bad w = w\<lparr>gw_file := fl, gw_next := Suc (gw_next w), gw_at := (gw_at w)(p := pc)\<rparr>"
    using step by (simp add: move_def)
  then show ?thesis
    using inv_step[OF assms(1) refl le_SucI[OF order_refl] call_numbered[OF c] call_mine[OF c] call_others[OF c] call_waits[OF c]]
    by simp
qed

text \<open>The other steps change what one process does, and leave the fl.\<close>

lemma inv_at:
  assumes "lock_inv g w" "owned pc = None \<or> owned pc = owned (gw_at w p)" "pc \<in> {Idle, Ended, Dead} \<or> (\<exists>x i. pc = AtRelease x i)"
  shows "lock_inv g (w\<lparr>gw_at := (gw_at w)(p := pc)\<rparr>)"
proof (rule inv_step[OF assms(1), where fl = "gw_file w" and n = "gw_next w" and p = p and pc = pc])
  show "waits_well (w\<lparr>gw_at := (gw_at w)(p := pc)\<rparr>) pc" using assms(3) by (auto simp: waits_well_def)
next
  show "in_place g (w\<lparr>gw_at := (gw_at w)(p := pc)\<rparr>) p ino \<and> (owned (gw_at w p) = Some ino \<or> ino = gw_next w \<and> gw_file w = None)"
    if "owned pc = Some ino" for ino
    using lock_invD(1)[OF assms(1), of p ino] assms(2) that by (auto simp: in_place_def split: option.splits)
qed (use lock_invD(3)[OF assms(1)] in simp_all)

lemma inv_tick:
  assumes "lock_inv g w" "gw_time w \<le> t" "prompt g w t" shows "lock_inv g (w\<lparr>gw_time := t\<rparr>)"
proof -
  have "in_place g (w\<lparr>gw_time := t\<rparr>) p ino" if "owned (gw_at w p) = Some ino" for p ino
    using lock_invD(1)[OF assms(1) that] assms(3) that by (auto simp: in_place_def prompt_def split: option.splits)
  moreover have "waits_well (w\<lparr>gw_time := t\<rparr>) (gw_at w p)" for p
    using lock_invD(4)[OF assms(1), of p] by (rule waits_mono) (use assms(2) in simp_all)
  moreover have same: "gw_at (w\<lparr>gw_time := t\<rparr>) = gw_at w" "gw_file (w\<lparr>gw_time := t\<rparr>) = gw_file w"
    "gw_next (w\<lparr>gw_time := t\<rparr>) = gw_next w" by simp_all
  ultimately show ?thesis using lock_invD(2,3)[OF assms(1)] unfolding lock_inv_def same by blast
qed

lemma inv_gate_step:
  assumes "gate_step g True w w'" "0 < gt_holder_stale g" "lock_inv g w" shows "lock_inv g w'"
  using assms by (induction rule: gate_step.induct) (auto intro: inv_tick inv_call inv_at)

lemma inv_rest: "at_rest w \<Longrightarrow> lock_inv g w"
proof -
  assume w: "at_rest w"
  then have "gw_at w p = Idle \<or> gw_at w p = Dead" for p by (auto simp: at_rest_def)
  then have "owned (gw_at w p) = None \<and> waits_well w (gw_at w p)" for p
    by (rule disjE[of "gw_at w p = Idle"]) (simp_all add: waits_well_def)
  with w show ?thesis unfolding lock_inv_def at_rest_def by simp
qed

lemma inv_reachable:
  assumes "(gate_step g True)\<^sup>*\<^sup>* w0 w" "at_rest w0" "0 < gt_holder_stale g" shows "lock_inv g w"
  using assms(1) by (induction rule: rtranclp_induct) (auto intro: inv_rest inv_gate_step assms(2,3))

section \<open>Properties\<close>

text \<open>
  C22: One consolidation at a time.  However the calls of any number of processes interleave, fail and break
  off, two processes never hold the lock at once and the holder's file is in place, as long as nobody holds
  it for longer than the gate takes it for abandoned and the file an acquisition removes is the one it has looked at.
\<close>

theorem lock_exclusive:
  assumes "(gate_step g True)\<^sup>*\<^sup>* w0 w" and "at_rest w0" and "0 < gt_holder_stale g"
    and "gw_at w p = Holding prior ino" and "gw_at w q = Holding prior' ino'"
  shows "p = q \<and> in_place g w p ino"
  using lock_invD(1)[OF inv_reachable[OF assms(1-3)], of p ino] lock_invD(2)[OF inv_reachable[OF assms(1-3)], of p ino q ino']
    assms(4,5) by simp

text \<open>The calls of a list, one after the other.\<close>

definition run_calls :: "gate \<Rightarrow> (int \<times> bool) list \<Rightarrow> gate_world \<Rightarrow> gate_world" where
  "run_calls g cs w = foldl (\<lambda>w (p, bad). move g p bad w) w cs"

fun calls_allowed :: "gate \<Rightarrow> bool \<Rightarrow> (int \<times> bool) list \<Rightarrow> gate_world \<Rightarrow> bool" where
  "calls_allowed g careful [] w = True"
| "calls_allowed g careful ((p, bad) # cs) w \<longleftrightarrow>
     gw_at w p \<noteq> Dead \<and> 0 < p \<and> p < 2 ^ 63 \<and> (\<not> careful \<or> undisturbed (gw_at w p) (gw_file w)) \<and>
     calls_allowed g careful cs (move g p bad w)"

lemma calls_reach: "calls_allowed g careful cs w \<Longrightarrow> (gate_step g careful)\<^sup>*\<^sup>* w (run_calls g cs w)"
proof (induction cs arbitrary: w)
  case (Cons c cs)
  obtain p bad where c: "c = (p, bad)" by fastforce
  with Cons.prems have "gate_step g careful w (move g p bad w)" by (auto intro: gate_step.call)
  moreover have "(gate_step g careful)\<^sup>*\<^sup>* (move g p bad w) (run_calls g cs (move g p bad w))"
    using Cons c by simp
  ultimately show ?case by (simp add: c run_calls_def converse_rtranclp_into_rtranclp)
qed (simp add: run_calls_def)

definition abandoned :: gate_world where
  "abandoned = \<lparr>gw_time = 10000000, gw_file = Some \<lparr>lf_ino = 0, lf_body = '''', lf_mtime = 0\<rparr>, gw_next = 1, gw_at = (\<lambda>_. Idle)\<rparr>"

lemma abandoned_rest: "at_rest abandoned"
  by (simp add: at_rest_def abandoned_def)

lemma lock_exclusive_witness:
  "(1 :: int) = 1 \<and> in_place NewGate (run_calls NewGate (replicate 7 (1, False)) abandoned) 1 5"
proof (rule lock_exclusive[OF calls_reach abandoned_rest])
  show "calls_allowed NewGate True (replicate 7 (1, False)) abandoned" by code_simp
  show "gw_at (run_calls NewGate (replicate 7 (1, False)) abandoned) 1 = Holding 0 5"
    "gw_at (run_calls NewGate (replicate 7 (1, False)) abandoned) 1 = Holding 0 5" by code_simp+
  show "0 < gt_holder_stale NewGate" by (simp add: NewGate_def)
qed

text \<open>
  The condition on what is removed is needed, and the code does not see to it: two processes that both find an
  abandoned lock take it one after the other, the second by removing the lock the first one holds.
\<close>

lemma abandoned_lock_taken_twice:
  "\<exists>w. (gate_step NewGate False)\<^sup>*\<^sup>* abandoned w \<and> gw_at w 1 = Holding 0 7 \<and> gw_at w 2 = Holding 0 12"
proof -
  let ?cs = "replicate 2 (1, False) @ replicate 2 (2, False) @ replicate 5 (1, False) @ replicate 5 (2, False) :: (int \<times> bool) list"
  have "calls_allowed NewGate False ?cs abandoned" by code_simp
  note run = calls_reach[OF this]
  have
    "gw_at (run_calls NewGate ?cs abandoned) 1 = Holding 0 7" "gw_at (run_calls NewGate ?cs abandoned) 2 = Holding 0 12"
    by code_simp+
  with run show ?thesis by blast
qed

text \<open>Work that fails leaves the time of the last consolidation as it was.\<close>

lemma failure_rewinds:
  assumes "gw_at w p = AtRelease prior ino" and "in_place g w p ino"
  shows "LastConsolidatedAt None (gw_file (run_calls g [(p, False), (p, False)] w)) = Inr prior"
  using assms by (auto simp: run_calls_def move_def in_place_def LastConsolidatedAt_def split: option.splits)

end
