(* ===== verification/Consolidation.thy ===== *)
theory Consolidation
  imports Context_Window Consolidation_Lock Lesson_Store
begin

text \<open>
  The consolidation of lessons, \<open>internal/learning/consolidator.go\<close> and \<open>consolidator_prompt.go\<close> with
  \<open>internal/wiki/synthesis.go\<close>: behind the gate, the recent lessons are shown to a model, what it makes of them
  becomes pages of the wiki, and the lessons a page stands for are marked as superseded.  The model,
  SHA-256, the wiki and the outcome of every system call are arguments.  Times are in nanoseconds, as in
  \<open>Lesson_Store\<close>; the gate counts milliseconds.
\<close>

section \<open>Synthesis pages\<close>

definition SynthesisIDPrefix :: string where "SynthesisIDPrefix = ''synth-''"

text \<open>\<open>hash\<close> is the SHA-256 of a text in hexadecimal.\<close>

definition SynthesisID :: "(string \<Rightarrow> string) \<Rightarrow> string \<Rightarrow> string" where
  "SynthesisID hash body = SynthesisIDPrefix @ take 8 (hash body)"

definition slug_char :: "char \<Rightarrow> bool" where
  "slug_char c \<longleftrightarrow> (97 \<le> (of_char c :: nat) \<and> (of_char c :: nat) \<le> 122) \<or> is_digit c"

fun dash_runs :: "bool \<Rightarrow> string \<Rightarrow> string" where
  "dash_runs dashed [] = []"
| "dash_runs dashed (c # s) =
     (if slug_char c then c # dash_runs False s
      else if dashed then dash_runs True s else CHR ''-'' # dash_runs True s)"

text \<open>A dash is not written before the first letter; one at the end is cut off.\<close>

definition SynthesisSlug :: "string \<Rightarrow> string" where
  "SynthesisSlug topic =
     (let s = ToLower (TrimSpace topic);
          slug = TrimRightSet {CHR ''-''} (dash_runs False (dropWhile (\<lambda>c. \<not> slug_char c) s))
      in if s = '''' \<or> slug = '''' then ''misc'' else slug)"

record synthesis_page =
  sp_path :: string
  sp_title :: string
  sp_tags :: "string list"
  sp_content :: string
  sp_source_event :: string

definition date_text :: "int \<Rightarrow> string" where
  "date_text t = take 10 (rfc3339 t)"

definition BuildSynthesisPage :: "(string \<Rightarrow> string) \<Rightarrow> string \<Rightarrow> string \<Rightarrow> string \<Rightarrow> string list \<Rightarrow> int \<Rightarrow> synthesis_page" where
  "BuildSynthesisPage hash synthesisID0 primaryTopic body tags created =
     (let synthesisID = (if synthesisID0 = '''' then SynthesisID hash body else synthesisID0);
          idSuffix = take 8 (if HasPrefix synthesisID SynthesisIDPrefix then drop (length SynthesisIDPrefix) synthesisID else synthesisID);
          cleanTags = filter (\<lambda>t. t \<noteq> '''') (map TrimSpace tags);
          blank = (TrimSpace primaryTopic = '''')
      in \<lparr>sp_path = ''synthesis/'' @ SynthesisSlug primaryTopic @ ''/'' @ date_text created @ ''-'' @ idSuffix @ ''.md'',
          sp_title = (if blank then ''Synthesis '' @ date_text created
                      else ''Synthesis: '' @ primaryTopic @ '' ('' @ date_text created @ '')''),
          sp_tags = (if cleanTags = [] \<and> \<not> blank then [primaryTopic] else cleanTags),
          sp_content = body, sp_source_event = synthesisID\<rparr>)"

section \<open>The prompt\<close>

abbreviation em_dash :: string where "em_dash \<equiv> [CHR 0xE2, CHR 0x80, CHR 0x94]"

definition consolidationSystemPrompt :: string where
  "consolidationSystemPrompt = Join nl [
     ''You consolidate raw lessons into durable syntheses for Elnath'' @ [CHR 0x27] @ ''s learning store.'',
     ''Output STRICT JSON matching the syntheses schema. No commentary, no code fences.'',
     '''',
     ''Rules:'',
     ''- 0-N syntheses per run. Prefer emitting none over forcing weak syntheses.'',
     ''- Each synthesis must supersede at least 2 raw lessons.'',
     ''- synthesis_text <= 400 chars. Lead with the durable insight, not the evidence.'',
     ''- superseded_lesson_ids MUST be exact IDs from the provided raw lessons. Do not invent.'',
     ''- topic_tags: 1-5 short labels that categorize the insight.'',
     ''- confidence: '' @ [CHR 0x22] @ ''high'' @ [CHR 0x22] @ '' only when 3+ independent lessons agree. '' @ [CHR 0x22] @ ''medium'' @ [CHR 0x22] @ '' when 2-3 agree. '' @ [CHR 0x22] @ ''low'' @ [CHR 0x22] @ '' rarely.'',
     ''- Skip lessons already well-represented in prior syntheses '' @ em_dash @ '' do not re-consolidate.'',
     '''',
     ''Schema (top-level):'',
     ''{ '' @ [CHR 0x22] @ ''syntheses'' @ [CHR 0x22] @ '': ['',
     ''    { '' @ [CHR 0x22] @ ''synthesis_text'' @ [CHR 0x22] @ '': string,'',
     ''      '' @ [CHR 0x22] @ ''topic_tags'' @ [CHR 0x22] @ '': [string],'',
     ''      '' @ [CHR 0x22] @ ''superseded_lesson_ids'' @ [CHR 0x22] @ '': [string],'',
     ''      '' @ [CHR 0x22] @ ''confidence'' @ [CHR 0x22] @ '': '' @ [CHR 0x22] @ ''high'' @ [CHR 0x22] @ '' | '' @ [CHR 0x22] @ ''medium'' @ [CHR 0x22] @ '' | '' @ [CHR 0x22] @ ''low'' @ [CHR 0x22] @ '' } ] }'']"

record synthesis_entry =
  se_id :: string
  se_topic :: string
  se_summary :: string

text \<open>At most \<open>n\<close> runes; what is cut ends with three dots.\<close>

definition truncate_text :: "string \<Rightarrow> nat \<Rightarrow> string" where
  "truncate_text s n =
     (if length (filter (\<lambda>c. \<not> continuation c) s) \<le> n then s else take_runes (n - 3) s @ ''...'')"

definition prior_line :: "synthesis_entry \<Rightarrow> string" where
  "prior_line s = ''- ['' @ se_id s @ ''] '' @ se_topic s @ '': '' @ truncate_text (se_summary s) 120 @ nl"

definition lesson_line :: "lesson \<Rightarrow> string" where
  "lesson_line l =
     ''- ['' @ ls_id l @ ''] '' @ truncate_text (if ls_topic l = '''' then ''(no topic)'' else ls_topic l) 80 @
     '' | conf='' @ ls_confidence l @ '' | '' @ truncate_text (ls_text l) 160 @ nl"

definition listing :: "('a \<Rightarrow> string) \<Rightarrow> 'a list \<Rightarrow> string" where
  "listing line xs = (if xs = [] then ''(none)'' @ nl @ nl else concat (map line xs) @ nl)"

definition BuildConsolidationPrompt :: "lesson list \<Rightarrow> synthesis_entry list \<Rightarrow> string \<Rightarrow> string \<times> string" where
  "BuildConsolidationPrompt lessons prior session =
     (consolidationSystemPrompt,
      Join nl [''# Dream: Lesson Consolidation'', '''',
        ''You are performing a reflective pass over accumulated raw lessons to synthesize durable knowledge.'', '''',
        ''---'', '''',
        ''## Phase 1 '' @ em_dash @ '' Orient'', '''',
        ''Prior syntheses ('' @ itoa (int (length prior)) @ ''):'',
        listing prior_line prior @ ''Recent raw lessons ('' @ itoa (int (length lessons)) @ ''):'',
        listing lesson_line lessons @ ''Session context:'',
        (if TrimSpace session = '''' then ''(none)'' else TrimSpace session), '''',
        ''## Phase 2 '' @ em_dash @ '' Gather'', '''',
        ''Group the raw lessons by semantic topic '' @ em_dash @ '' two lessons with different wording but the same underlying insight belong together. Literal-prefix matching is not sufficient.'', '''',
        ''## Phase 3 '' @ em_dash @ '' Consolidate'', '''',
        ''For each group with 2+ lessons expressing the same insight:'',
        ''- Write one synthesis capturing the shared takeaway'',
        ''- List the superseded lesson IDs from the list above'',
        ''- Assign confidence based on how many independent lessons support it'', '''',
        ''Skip groups already covered by a prior synthesis.'', '''',
        ''## Phase 4 '' @ em_dash @ '' Prune'', '''',
        ''Return JSON only. Each synthesis'' @ [CHR 0x27] @ ''s superseded_lesson_ids names the raw lessons it supersedes.'', ''''])"

section \<open>The answer\<close>

record synthesis_item =
  si_text :: string
  si_topic_tags :: "string list"
  si_lesson_ids :: "string list"
  si_confidence :: string

definition synthesis_item_zero :: synthesis_item where
  "synthesis_item_zero = \<lparr>si_text = '''', si_topic_tags = [], si_lesson_ids = [], si_confidence = ''''\<rparr>"

definition set_item_field :: "string \<Rightarrow> json \<Rightarrow> synthesis_item \<Rightarrow> synthesis_item \<times> bool" where
  "set_item_field k v p =
     (if k = ''synthesis_text'' then (case dec_string v (si_text p) of (x, ok) \<Rightarrow> (p\<lparr>si_text := x\<rparr>, ok))
      else if k = ''topic_tags'' then (case dec_strings v (si_topic_tags p) of (x, ok) \<Rightarrow> (p\<lparr>si_topic_tags := x\<rparr>, ok))
      else if k = ''superseded_lesson_ids'' then (case dec_strings v (si_lesson_ids p) of (x, ok) \<Rightarrow> (p\<lparr>si_lesson_ids := x\<rparr>, ok))
      else if k = ''confidence'' then (case dec_string v (si_confidence p) of (x, ok) \<Rightarrow> (p\<lparr>si_confidence := x\<rparr>, ok))
      else (p, True))"

definition set_syntheses :: "string \<Rightarrow> json \<Rightarrow> synthesis_item list \<Rightarrow> synthesis_item list \<times> bool" where
  "set_syntheses k v old =
     (if k = ''syntheses'' then
        (case v of
           JArr js \<Rightarrow> (map (\<lambda>x. fst (dec_struct set_item_field x synthesis_item_zero)) js,
                       list_all (\<lambda>x. snd (dec_struct set_item_field x synthesis_item_zero)) js)
         | JNull \<Rightarrow> ([], True)
         | _ \<Rightarrow> (old, False))
      else (old, True))"

definition normalizeConfidence :: "string \<Rightarrow> string" where
  "normalizeConfidence v0 =
     (let v = ToLower (TrimSpace v0) in if v \<in> {''high'', ''medium'', ''low''} then v else '''')"

text \<open>The ids in their order, each once; an id nobody has shown the model spoils the item.\<close>

fun known_ids :: "string set \<Rightarrow> string list \<Rightarrow> string list \<Rightarrow> string list option" where
  "known_ids valid ids [] = Some ids"
| "known_ids valid ids (i0 # is) =
     (let i = TrimSpace i0 in
      if i = '''' \<or> i \<in> set ids then known_ids valid ids is
      else if i \<notin> valid then None
      else known_ids valid (ids @ [i]) is)"

definition validateSynthesisItem :: "string set \<Rightarrow> synthesis_item \<Rightarrow> synthesis_item option" where
  "validateSynthesisItem valid item =
     (let body = TrimSpace (si_text item);
          tags = filter (\<lambda>t. t \<noteq> '''') (map TrimSpace (si_topic_tags item));
          confidence = normalizeConfidence (si_confidence item)
      in if body = '''' \<or> tags = [] \<or> confidence = '''' then None
         else
           (case known_ids valid [] (si_lesson_ids item) of
              None \<Rightarrow> None
            | Some ids \<Rightarrow>
                if length ids < 2 then None
                else Some \<lparr>si_text = body, si_topic_tags = tags, si_lesson_ids = ids, si_confidence = confidence\<rparr>))"

definition ParseConsolidationResponse :: "string \<Rightarrow> string set \<Rightarrow> synthesis_item list option" where
  "ParseConsolidationResponse content valid =
     (case unmarshal_struct set_syntheses [] (TrimSpace content) of
        (items, ok) \<Rightarrow> if ok then Some (List.map_filter (validateSynthesisItem valid) items) else None)"

section \<open>A run\<close>

record consolidation_state =
  cs_last_run_at :: int
  cs_last_success_at :: int
  cs_last_error :: string
  cs_run_count :: int
  cs_success_count :: int
  cs_last_synth_count :: nat
  cs_last_superseded :: nat
  cs_last_active_count :: nat

datatype skipped = NotSkipped | GateClosed gate_reason | NotAcquired err | TooFewLessons

record consolidation_result =
  rr_skipped :: skipped
  rr_synthesis_count :: nat
  rr_superseded_count :: nat
  rr_error :: "err option"

record consolidator =
  cn_store :: lesson_store
  cn_gate :: gate
  cn_model :: string
  cn_max_lessons :: int
  cn_prefix :: string

text \<open>
  What the world answers: the lock and the sessions the gate looks at, whether the lock is taken, the state file,
  the calls of the lesson store, the model, and the wiki, asked to create the page of the \<open>i\<close>-th item.
\<close>

record answers =
  an_now :: int
  an_stat :: "err option"
  an_lock :: "lock_file option"
  an_sessions :: "int \<Rightarrow> err + int"
  an_acquire :: "err option"
  an_state :: consolidation_state
  an_recent :: io
  an_chat :: "llm_request \<Rightarrow> err + chat_response"
  an_create :: "nat \<Rightarrow> synthesis_page \<Rightarrow> err option"
  an_mark :: "nat \<Rightarrow> io"

text \<open>What a run leaves: its result, the lessons, the pages created, the state written, and whether the lock was given back.\<close>

record outcome =
  oc_result :: consolidation_result
  oc_files :: files
  oc_pages :: "synthesis_page list"
  oc_state :: "consolidation_state option"
  oc_released :: bool

definition result_zero :: consolidation_result where
  "result_zero = \<lparr>rr_skipped = NotSkipped, rr_synthesis_count = 0, rr_superseded_count = 0, rr_error = None\<rparr>"

definition consolidation_request :: "consolidator \<Rightarrow> int \<Rightarrow> lesson list \<Rightarrow> llm_request" where
  "consolidation_request c runs active =
     (case BuildConsolidationPrompt active [] (''run #'' @ itoa runs @ '', '' @ itoa (int (length active)) @ '' active lessons'') of
        (system, user) \<Rightarrow>
          \<lparr>rq_model = cn_model c, rq_messages = [NewUserMessage user], rq_tools = [], rq_max_tokens = 4096,
           rq_system = cn_prefix c @ system, rq_effort = '''', rq_cache = True, rq_session = ''''\<rparr>)"

text \<open>One item after the other: a page that cannot be created, or lessons that cannot be marked, are passed over.\<close>

fun apply_items ::
  "(string \<Rightarrow> string) \<Rightarrow> consolidator \<Rightarrow> answers \<Rightarrow> nat \<Rightarrow> synthesis_item list \<Rightarrow> files \<Rightarrow> synthesis_page list \<Rightarrow> nat \<Rightarrow>
     files \<times> synthesis_page list \<times> nat" where
  "apply_items hash c a i [] f pages n = (f, pages, n)"
| "apply_items hash c a i (item # items) f pages n =
     (let synthID = SynthesisID hash (si_text item);
          primaryTopic = (case si_topic_tags item of [] \<Rightarrow> '''' | t # _ \<Rightarrow> t);
          page = BuildSynthesisPage hash synthID primaryTopic (si_text item) (si_topic_tags item) (an_now a)
      in case an_create a i page of
           Some _ \<Rightarrow> apply_items hash c a (Suc i) items f pages n
         | None \<Rightarrow>
             (case MarkSuperseded (cn_store c) (an_mark a i) (si_lesson_ids item) synthID f of
                (Inl _, f') \<Rightarrow> apply_items hash c a (Suc i) items f' (pages @ [page]) n
              | (Inr k, f') \<Rightarrow> apply_items hash c a (Suc i) items f' (pages @ [page]) (n + k)))"

definition failRun :: "files \<Rightarrow> consolidation_state \<Rightarrow> err \<Rightarrow> outcome" where
  "failRun f st er =
     \<lparr>oc_result = result_zero\<lparr>rr_error := Some er\<rparr>, oc_files = f, oc_pages = [],
      oc_state = Some (st\<lparr>cs_last_error := err_text er\<rparr>), oc_released = True\<rparr>"

definition skipRun :: "files \<Rightarrow> skipped \<Rightarrow> consolidation_state option \<Rightarrow> bool \<Rightarrow> outcome" where
  "skipRun f why st released =
     \<lparr>oc_result = result_zero\<lparr>rr_skipped := why\<rparr>, oc_files = f, oc_pages = [], oc_state = st, oc_released = released\<rparr>"

definition active_lessons :: "consolidator \<Rightarrow> answers \<Rightarrow> files \<Rightarrow> err + lesson list" where
  "active_lessons c a f =
     (case Recent (cn_store c) (an_recent a) (cn_max_lessons c) f of
        Inl er \<Rightarrow> Inl er
      | Inr ls \<Rightarrow> Inr (filter (\<lambda>l. ls_superseded_by l = '''') ls))"

definition finish_consolidation ::
  "(string \<Rightarrow> string) \<Rightarrow> consolidator \<Rightarrow> answers \<Rightarrow> consolidation_state \<Rightarrow> synthesis_item list \<Rightarrow> files \<Rightarrow> outcome" where
  "finish_consolidation hash c a st items f =
     (case apply_items hash c a 0 items f [] 0 of
        (f', pages, n) \<Rightarrow>
          \<lparr>oc_result = result_zero\<lparr>rr_synthesis_count := length pages, rr_superseded_count := n\<rparr>, oc_files = f', oc_pages = pages,
           oc_state = Some (st\<lparr>cs_last_success_at := an_now a, cs_success_count := cs_success_count st + 1,
             cs_last_synth_count := length pages, cs_last_superseded := n, cs_last_error := ''''\<rparr>),
           oc_released = False\<rparr>)"

definition Consolidator_Run :: "(string \<Rightarrow> string) \<Rightarrow> consolidator \<Rightarrow> answers \<Rightarrow> files \<Rightarrow> outcome" where
  "Consolidator_Run hash c a f =
     (case ShouldRun (cn_gate c) (an_sessions a) (an_stat a) (an_lock a) (an_now a div 1000000) of
        (False, why) \<Rightarrow> skipRun f (GateClosed why) None False
      | (True, _) \<Rightarrow>
          (case an_acquire a of
             Some er \<Rightarrow> skipRun f (NotAcquired er) None False
           | None \<Rightarrow>
               (let st0 = (an_state a)\<lparr>cs_run_count := cs_run_count (an_state a) + 1, cs_last_run_at := an_now a\<rparr> in
                case active_lessons c a f of
                  Inl er \<Rightarrow> failRun f st0 (EWrap ''read lessons'' er)
                | Inr active \<Rightarrow>
                    (let st = st0\<lparr>cs_last_active_count := length active\<rparr> in
                     if length active < 2
                     then skipRun f TooFewLessons (Some (st\<lparr>cs_last_error := ''insufficient active lessons''\<rparr>)) True
                     else
                       (case an_chat a (consolidation_request c (cs_run_count st) active) of
                          Inl er \<Rightarrow> failRun f st (EWrap ''llm call'' er)
                        | Inr resp \<Rightarrow>
                            (case ParseConsolidationResponse (ch_content resp) (set (map ls_id active)) of
                               None \<Rightarrow> failRun f st (EMsg ''parse response: parse consolidation response'')
                             | Some items \<Rightarrow> finish_consolidation hash c a st items f))))))"

section \<open>What is superseded\<close>

definition shown_ids :: "consolidator \<Rightarrow> answers \<Rightarrow> files \<Rightarrow> string set" where
  "shown_ids c a f = (case active_lessons c a f of Inl _ \<Rightarrow> {} | Inr ls \<Rightarrow> set (map ls_id ls))"

text \<open>A lesson before and after: as it was, or, so far in force and shown to the model, superseded by a page.\<close>

definition consolidated :: "(string \<Rightarrow> string) \<Rightarrow> string set \<Rightarrow> synthesis_page list \<Rightarrow> lesson \<Rightarrow> lesson \<Rightarrow> bool" where
  "consolidated hash shown pages l l' \<longleftrightarrow> l' = l \<or>
     (ls_superseded_by l = '''' \<and> ls_id l \<in> shown \<and>
      (\<exists>p \<in> set pages. sp_source_event p = SynthesisID hash (sp_content p) \<and> l' = l\<lparr>ls_superseded_by := sp_source_event p\<rparr>))"

definition files_consolidated :: "(string \<Rightarrow> string) \<Rightarrow> string set \<Rightarrow> synthesis_page list \<Rightarrow> files \<Rightarrow> files \<Rightarrow> bool" where
  "files_consolidated hash shown pages f f' \<longleftrightarrow>
     fl_archive f' = fl_archive f \<and> list_all2 (consolidated hash shown pages) (stored f) (stored f')"

lemma consolidated_refl: "files_consolidated hash shown pages f f"
  by (simp add: files_consolidated_def consolidated_def list_all2_refl)

lemma consolidated_more:
  "files_consolidated hash shown pages f f' \<Longrightarrow> files_consolidated hash shown (pages @ ps) f f'"
  by (auto simp: files_consolidated_def consolidated_def elim!: list_all2_mono)

lemma SynthesisID_some: "SynthesisID hash body \<noteq> ''''"
  by (simp add: SynthesisID_def SynthesisIDPrefix_def)

lemma page_facts:
  "sp_source_event (BuildSynthesisPage hash (SynthesisID hash body) t body tags now) = SynthesisID hash body"
  "sp_content (BuildSynthesisPage hash (SynthesisID hash body) t body tags now) = body"
  by (simp_all add: BuildSynthesisPage_def SynthesisID_some Let_def)

lemma mark_lessons:
  assumes "MarkSuperseded s io ids sid f = (r, f')" and "\<And>i. i \<in> set ids \<Longrightarrow> TrimSpace i = i"
  shows "fl_archive f' = fl_archive f \<and>
    list_all2 (\<lambda>l l'. l' = l \<or> (ls_superseded_by l = '''' \<and> ls_id l \<in> set ids \<and> l' = l\<lparr>ls_superseded_by := sid\<rparr>)) (stored f) (stored f')"
proof -
  let ?wanted = "set (filter (\<lambda>i. i \<noteq> '''') (map TrimSpace ids))"
  let ?mark = "\<lambda>l. if supersedes ?wanted l then l\<lparr>ls_superseded_by := sid\<rparr> else l"
  have "f' = f \<or> (fl_lessons f \<noteq> None \<and> f' = f\<lparr>fl_lessons := Some (map ?mark (stored f))\<rparr>)"
    using assms(1) by (auto simp: MarkSuperseded_def readAllLocked_def writeAllLocked_def stored_def Let_def
        split: if_splits option.splits sum.splits prod.splits)
  then show ?thesis
  proof
    assume f': "fl_lessons f \<noteq> None \<and> f' = f\<lparr>fl_lessons := Some (map ?mark (stored f))\<rparr>"
    have "supersedes ?wanted l \<Longrightarrow> ls_superseded_by l = '''' \<and> ls_id l \<in> set ids" for l
      using assms(2) by (auto simp: supersedes_def)
    then have "list_all2 (\<lambda>l l'. l' = l \<or> (ls_superseded_by l = '''' \<and> ls_id l \<in> set ids \<and> l' = l\<lparr>ls_superseded_by := sid\<rparr>))
        (stored f) (map ?mark (stored f))"
      by (auto simp: list_all2_conv_all_nth)
    moreover have "stored f' = map ?mark (stored f)" using f' by (simp add: stored_def)
    ultimately show ?thesis using f' by simp
  qed (simp add: list_all2_refl)
qed

definition trusted_id :: "string set \<Rightarrow> string \<Rightarrow> bool" where
  "trusted_id shown i \<longleftrightarrow> TrimSpace i = i \<and> i \<in> shown"

definition trusted :: "string set \<Rightarrow> synthesis_item \<Rightarrow> bool" where
  "trusted shown item \<longleftrightarrow> list_all (trusted_id shown) (si_lesson_ids item)"

lemma known_ids_trusted:
  "known_ids valid acc ids = Some r \<Longrightarrow> list_all (trusted_id valid) acc \<Longrightarrow> list_all (trusted_id valid) r"
proof (induction valid acc ids rule: known_ids.induct)
  case (2 valid acc i0 "is")
  have "trusted_id valid (TrimSpace i0) \<longleftrightarrow> TrimSpace i0 \<in> valid" by (simp add: trusted_id_def)
  with 2 show ?case by (simp add: Let_def split: if_splits)
qed simp

lemma parsed_trusted:
  assumes "ParseConsolidationResponse content valid = Some items" shows "list_all (trusted valid) items"
proof -
  have "trusted valid item" if "validateSynthesisItem valid x = Some item" for x item
    using that known_ids_trusted[of valid "[]"]
    by (auto simp: validateSynthesisItem_def trusted_def Let_def split: if_splits option.splits)
  with assms show ?thesis
    by (auto simp: ParseConsolidationResponse_def list_all_iff map_filter_def split: prod.splits if_splits)
qed

lemma consolidated_mark:
  assumes before: "files_consolidated hash shown pages f f1" and trusted: "trusted shown item"
    and mark: "MarkSuperseded s io (si_lesson_ids item) (SynthesisID hash (si_text item)) f1 = (r, f2)"
    and page: "sp_source_event p = SynthesisID hash (si_text item)" "sp_content p = si_text item"
  shows "files_consolidated hash shown (pages @ [p]) f f2"
proof -
  note marked = mark_lessons[OF mark]
  have "list_all2 (\<lambda>l l'. l' = l \<or> (ls_superseded_by l = '''' \<and> ls_id l \<in> set (si_lesson_ids item) \<and>
      l' = l\<lparr>ls_superseded_by := SynthesisID hash (si_text item)\<rparr>)) (stored f1) (stored f2)"
    and archive: "fl_archive f2 = fl_archive f1"
    using marked trusted by (auto simp: trusted_def trusted_id_def list_all_iff)
  moreover have "list_all2 (consolidated hash shown pages) (stored f) (stored f1)"
    and "fl_archive f1 = fl_archive f" using before by (simp_all add: files_consolidated_def)
  moreover have "consolidated hash shown (pages @ [p]) l l2"
    if "consolidated hash shown pages l l1" and "l2 = l1 \<or> (ls_superseded_by l1 = '''' \<and> ls_id l1 \<in> set (si_lesson_ids item) \<and>
      l2 = l1\<lparr>ls_superseded_by := SynthesisID hash (si_text item)\<rparr>)" for l l1 l2
    using that trusted page SynthesisID_some[of hash] by (auto simp: consolidated_def trusted_def trusted_id_def list_all_iff)
  ultimately show ?thesis
    unfolding files_consolidated_def by (auto intro: list_all2_trans[of "consolidated hash shown pages", rotated])
qed

lemma apply_consolidates:
  assumes "apply_items hash c a i items f1 pages n = (f', ps, k)" and "list_all (trusted shown) items"
    and "files_consolidated hash shown pages f f1"
  shows "files_consolidated hash shown ps f f'"
  using assms
proof (induction items arbitrary: i f1 pages n)
  case (Cons item items)
  let ?p = "BuildSynthesisPage hash (SynthesisID hash (si_text item)) (case si_topic_tags item of [] \<Rightarrow> '''' | t # _ \<Rightarrow> t)
    (si_text item) (si_topic_tags item) (an_now a)"
  show ?case
  proof (cases "an_create a i ?p")
    case None
    obtain r f2 where mark: "MarkSuperseded (cn_store c) (an_mark a i) (si_lesson_ids item) (SynthesisID hash (si_text item)) f1 = (r, f2)"
      by fastforce
    have "files_consolidated hash shown (pages @ [?p]) f f2"
      by (rule consolidated_mark[OF Cons.prems(3) _ mark page_facts]) (use Cons.prems(2) in simp)
    with Cons.IH Cons.prems(1,2) None mark show ?thesis by (auto simp: Let_def split: sum.splits)
  qed (use Cons in \<open>auto simp: Let_def\<close>)
qed simp

section \<open>Properties\<close>

text \<open>
  C32: Consolidation loses no lesson and believes no invented id.  Whatever the model answers and whichever calls
  fail, a run leaves the lessons and the archive as they were, but for lessons in force that it had shown to
  the model, which may now be superseded by a page that was created in this run and whose id is that of its text; and
  nothing at all changes without a page.
\<close>

theorem consolidation_sound:
  "files_consolidated hash (shown_ids c a f) (oc_pages (Consolidator_Run hash c a f)) f (oc_files (Consolidator_Run hash c a f))"
proof -
  have "files_consolidated hash (shown_ids c a f) (oc_pages (finish_consolidation hash c a st items f)) f
      (oc_files (finish_consolidation hash c a st items f))"
    if "ParseConsolidationResponse content (shown_ids c a f) = Some items" for st items content
  proof -
    obtain f' ps k where run: "apply_items hash c a 0 items f [] 0 = (f', ps, k)" by (metis prod_cases3)
    from apply_consolidates[OF run parsed_trusted[OF that] consolidated_refl] show ?thesis
      by (simp add: finish_consolidation_def run)
  qed
  then show ?thesis
    by (auto simp: Consolidator_Run_def skipRun_def failRun_def Let_def consolidated_refl shown_ids_def
        split: prod.splits bool.splits option.splits sum.splits)
qed

text \<open>The lock is given back exactly when it was taken and the run did not reach its end.\<close>

lemma lock_kept_on_success:
  "oc_released (Consolidator_Run hash c a f) \<longleftrightarrow>
     fst (ShouldRun (cn_gate c) (an_sessions a) (an_stat a) (an_lock a) (an_now a div 1000000)) \<and> an_acquire a = None \<and>
     (rr_error (oc_result (Consolidator_Run hash c a f)) \<noteq> None \<or> rr_skipped (oc_result (Consolidator_Run hash c a f)) = TooFewLessons)"
  by (auto simp: Consolidator_Run_def skipRun_def failRun_def finish_consolidation_def result_zero_def Let_def
      split: prod.splits bool.splits option.splits sum.splits)

end
