(* ===== verification/File_Calls.thy ===== *)
theory File_Calls
  imports Path_Guard
begin

text \<open>
  Programs over the calls the file tools make to the operating system.  A program is a tree: at each call it
  branches on what the system may answer, so whatever is shown of all its ways holds for every state of the disk,
  every failure and every other process that changes files in between.
\<close>

section \<open>Programs\<close>

record file_info =
  fi_is_dir :: bool
  fi_mtime :: int

text \<open>
  What a walk meets: the path, whether it is to be passed over (a directory, or an error), and the information on
  it, unless that cannot be had.
\<close>

record walk_entry =
  we_path :: string
  we_skip :: bool
  we_info :: "file_info option"

text \<open>
  \<open>Links\<close> asks for \<open>EvalSymlinks\<close> as it answers at that moment, \<open>WriteTemp\<close> writes and closes a new temporary
  file, \<open>WalkDir\<close> gives the entries in their order and \<open>Glob\<close> the matches of a pattern.
\<close>

datatype 'a prog =
    Ret 'a
  | Links "(string \<Rightarrow> err + string) \<Rightarrow> 'a prog"
  | MkdirAll string "err option \<Rightarrow> 'a prog"
  | Stat string "err + file_info \<Rightarrow> 'a prog"
  | Lstat string "err + file_info \<Rightarrow> 'a prog"
  | ReadFile string "err + string \<Rightarrow> 'a prog"
  | WriteFile string string "err option \<Rightarrow> 'a prog"
  | CreateTemp string "err + string \<Rightarrow> 'a prog"
  | WriteTemp string string "err option \<Rightarrow> 'a prog"
  | Remove string "err option \<Rightarrow> 'a prog"
  | Rename string string "err option \<Rightarrow> 'a prog"
  | WalkDir string "walk_entry list \<Rightarrow> 'a prog"
  | Glob string "err + string list \<Rightarrow> 'a prog"

primrec pbind :: "'a prog \<Rightarrow> ('a \<Rightarrow> 'b prog) \<Rightarrow> 'b prog" where
  "pbind (Ret x) f = f x"
| "pbind (Links k) f = Links (\<lambda>a. pbind (k a) f)"
| "pbind (MkdirAll p k) f = MkdirAll p (\<lambda>a. pbind (k a) f)"
| "pbind (Stat p k) f = Stat p (\<lambda>a. pbind (k a) f)"
| "pbind (Lstat p k) f = Lstat p (\<lambda>a. pbind (k a) f)"
| "pbind (ReadFile p k) f = ReadFile p (\<lambda>a. pbind (k a) f)"
| "pbind (WriteFile p t k) f = WriteFile p t (\<lambda>a. pbind (k a) f)"
| "pbind (CreateTemp p k) f = CreateTemp p (\<lambda>a. pbind (k a) f)"
| "pbind (WriteTemp p t k) f = WriteTemp p t (\<lambda>a. pbind (k a) f)"
| "pbind (Remove p k) f = Remove p (\<lambda>a. pbind (k a) f)"
| "pbind (Rename p q k) f = Rename p q (\<lambda>a. pbind (k a) f)"
| "pbind (WalkDir p k) f = WalkDir p (\<lambda>a. pbind (k a) f)"
| "pbind (Glob p k) f = Glob p (\<lambda>a. pbind (k a) f)"

lemma pbind_Ret [simp]: "pbind p Ret = p"
  by (induction p) simp_all

lemma pbind_assoc [simp]: "pbind (pbind p f) g = pbind p (\<lambda>x. pbind (f x) g)"
  by (induction p) simp_all

section \<open>Ways through a program\<close>

text \<open>A call with its answer.\<close>

datatype event =
    AskedLinks "string \<Rightarrow> err + string"
  | MadeDir string "err option"
  | AskedStat string "err + file_info"
  | AskedLstat string "err + file_info"
  | DidRead string "err + string"
  | DidWrite string string "err option"
  | MadeTemp string "err + string"
  | FilledTemp string string "err option"
  | DidRemove string "err option"
  | DidRename string string "err option"
  | Walked string "walk_entry list"
  | Globbed string "err + string list"

inductive goes :: "'a prog \<Rightarrow> event list \<Rightarrow> 'a \<Rightarrow> bool" where
  goes_ret: "goes (Ret x) [] x"
| goes_links: "goes (k a) tr x \<Longrightarrow> goes (Links k) (AskedLinks a # tr) x"
| goes_mkdir: "goes (k a) tr x \<Longrightarrow> goes (MkdirAll p k) (MadeDir p a # tr) x"
| goes_stat: "goes (k a) tr x \<Longrightarrow> goes (Stat p k) (AskedStat p a # tr) x"
| goes_lstat: "goes (k a) tr x \<Longrightarrow> goes (Lstat p k) (AskedLstat p a # tr) x"
| goes_read: "goes (k a) tr x \<Longrightarrow> goes (ReadFile p k) (DidRead p a # tr) x"
| goes_write: "goes (k a) tr x \<Longrightarrow> goes (WriteFile p t k) (DidWrite p t a # tr) x"
| goes_temp: "goes (k a) tr x \<Longrightarrow> goes (CreateTemp p k) (MadeTemp p a # tr) x"
| goes_fill: "goes (k a) tr x \<Longrightarrow> goes (WriteTemp p t k) (FilledTemp p t a # tr) x"
| goes_remove: "goes (k a) tr x \<Longrightarrow> goes (Remove p k) (DidRemove p a # tr) x"
| goes_rename: "goes (k a) tr x \<Longrightarrow> goes (Rename p q k) (DidRename p q a # tr) x"
| goes_walk: "goes (k a) tr x \<Longrightarrow> goes (WalkDir p k) (Walked p a # tr) x"
| goes_glob: "goes (k a) tr x \<Longrightarrow> goes (Glob p k) (Globbed p a # tr) x"

inductive_simps goes_simps [simp]:
  "goes (Ret x) tr y"
  "goes (Links k) tr y"
  "goes (MkdirAll p k) tr y"
  "goes (Stat p k) tr y"
  "goes (Lstat p k) tr y"
  "goes (ReadFile p k) tr y"
  "goes (WriteFile p t k) tr y"
  "goes (CreateTemp p k) tr y"
  "goes (WriteTemp p t k) tr y"
  "goes (Remove p k) tr y"
  "goes (Rename p q k) tr y"
  "goes (WalkDir p k) tr y"
  "goes (Glob p k) tr y"

lemma goes_bind: "goes (pbind p f) tr y \<longleftrightarrow> (\<exists>t1 t2 x. tr = t1 @ t2 \<and> goes p t1 x \<and> goes (f x) t2 y)"
proof (induction p arbitrary: tr)
  case (Ret x)
  then show ?case by auto
qed (simp_all, (metis append_Cons)+)

text \<open>What a call may change, with the calls that only look left out.\<close>

fun changes :: "event \<Rightarrow> bool" where
  "changes (MadeDir p a) = True"
| "changes (DidWrite p t a) = True"
| "changes (MadeTemp p a) = True"
| "changes (FilledTemp p t a) = True"
| "changes (DidRemove p a) = True"
| "changes (DidRename p q a) = True"
| "changes _ = False"

text \<open>Every program comes to its end, whatever it is told.\<close>

lemma goes_through: "\<exists>tr x. goes p tr x"
  by (induction p) (meson goes.intros rangeI)+

text \<open>\<open>every P p\<close>: all calls on all ways through \<open>p\<close> satisfy \<open>P\<close>.\<close>

primrec every :: "(event \<Rightarrow> bool) \<Rightarrow> 'a prog \<Rightarrow> bool" where
  "every P (Ret x) \<longleftrightarrow> True"
| "every P (Links k) \<longleftrightarrow> (\<forall>a. P (AskedLinks a) \<and> every P (k a))"
| "every P (MkdirAll p k) \<longleftrightarrow> (\<forall>a. P (MadeDir p a) \<and> every P (k a))"
| "every P (Stat p k) \<longleftrightarrow> (\<forall>a. P (AskedStat p a) \<and> every P (k a))"
| "every P (Lstat p k) \<longleftrightarrow> (\<forall>a. P (AskedLstat p a) \<and> every P (k a))"
| "every P (ReadFile p k) \<longleftrightarrow> (\<forall>a. P (DidRead p a) \<and> every P (k a))"
| "every P (WriteFile p t k) \<longleftrightarrow> (\<forall>a. P (DidWrite p t a) \<and> every P (k a))"
| "every P (CreateTemp p k) \<longleftrightarrow> (\<forall>a. P (MadeTemp p a) \<and> every P (k a))"
| "every P (WriteTemp p t k) \<longleftrightarrow> (\<forall>a. P (FilledTemp p t a) \<and> every P (k a))"
| "every P (Remove p k) \<longleftrightarrow> (\<forall>a. P (DidRemove p a) \<and> every P (k a))"
| "every P (Rename p q k) \<longleftrightarrow> (\<forall>a. P (DidRename p q a) \<and> every P (k a))"
| "every P (WalkDir p k) \<longleftrightarrow> (\<forall>a. P (Walked p a) \<and> every P (k a))"
| "every P (Glob p k) \<longleftrightarrow> (\<forall>a. P (Globbed p a) \<and> every P (k a))"

lemma every_goes: "goes p tr x \<Longrightarrow> every P p \<Longrightarrow> list_all P tr"
  by (induction rule: goes.induct) auto

lemma every_bind: "every P p \<Longrightarrow> (\<And>x. every P (f x)) \<Longrightarrow> every P (pbind p f)"
  by (induction p) auto

section \<open>Following a way\<close>

text \<open>What a program returns when its calls are answered as in a list of events, if it makes just these calls.\<close>

primrec follow :: "'a prog \<Rightarrow> event list \<Rightarrow> 'a option" where
  "follow (Ret x) tr = (if tr = [] then Some x else None)"
| "follow (Links k) tr = (case tr of AskedLinks a # t \<Rightarrow> follow (k a) t | _ \<Rightarrow> None)"
| "follow (MkdirAll p k) tr = (case tr of MadeDir p' a # t \<Rightarrow> if p' = p then follow (k a) t else None | _ \<Rightarrow> None)"
| "follow (Stat p k) tr = (case tr of AskedStat p' a # t \<Rightarrow> if p' = p then follow (k a) t else None | _ \<Rightarrow> None)"
| "follow (Lstat p k) tr = (case tr of AskedLstat p' a # t \<Rightarrow> if p' = p then follow (k a) t else None | _ \<Rightarrow> None)"
| "follow (ReadFile p k) tr = (case tr of DidRead p' a # t \<Rightarrow> if p' = p then follow (k a) t else None | _ \<Rightarrow> None)"
| "follow (WriteFile p x k) tr =
     (case tr of DidWrite p' x' a # t \<Rightarrow> if p' = p \<and> x' = x then follow (k a) t else None | _ \<Rightarrow> None)"
| "follow (CreateTemp p k) tr = (case tr of MadeTemp p' a # t \<Rightarrow> if p' = p then follow (k a) t else None | _ \<Rightarrow> None)"
| "follow (WriteTemp p x k) tr =
     (case tr of FilledTemp p' x' a # t \<Rightarrow> if p' = p \<and> x' = x then follow (k a) t else None | _ \<Rightarrow> None)"
| "follow (Remove p k) tr = (case tr of DidRemove p' a # t \<Rightarrow> if p' = p then follow (k a) t else None | _ \<Rightarrow> None)"
| "follow (Rename p q k) tr =
     (case tr of DidRename p' q' a # t \<Rightarrow> if p' = p \<and> q' = q then follow (k a) t else None | _ \<Rightarrow> None)"
| "follow (WalkDir p k) tr = (case tr of Walked p' a # t \<Rightarrow> if p' = p then follow (k a) t else None | _ \<Rightarrow> None)"
| "follow (Glob p k) tr = (case tr of Globbed p' a # t \<Rightarrow> if p' = p then follow (k a) t else None | _ \<Rightarrow> None)"

lemma follow_goes: "follow p tr = Some x \<longleftrightarrow> goes p tr x"
  by (induction p arbitrary: tr) (auto split: list.splits event.splits if_splits)

end
