(* ===== verification/Read_Tracker.thy ===== *)
theory Read_Tracker
  imports File_Calls Agent_Tools
begin

text \<open>
  \<open>internal/tools/read_tracker.go\<close>: a read or a search that is repeated while nothing has changed is not
  answered again.  The two maps of the tracker are functions; times are in nanoseconds.
\<close>

section \<open>The tracker\<close>

record read_key =
  rk_tool :: string
  rk_path :: string
  rk_offset :: int
  rk_limit :: int
  rk_query :: string

record read_tracker =
  rt_seen :: "read_key \<Rightarrow> int option"
  rt_consecutive :: "read_key \<Rightarrow> nat"
  rt_last :: "read_key option"

definition NewReadTracker :: read_tracker where
  "NewReadTracker = \<lparr>rt_seen = Map.empty, rt_consecutive = (\<lambda>_. 0), rt_last = None\<rparr>"

definition NotifyTool :: "string \<Rightarrow> read_tracker \<Rightarrow> read_tracker" where
  "NotifyTool toolName t =
     (if toolName \<in> {''read_file'', ''grep'', ''glob''} then t
      else t\<lparr>rt_consecutive := (\<lambda>_. 0), rt_last := None\<rparr>)"

definition ResetDedup :: "read_tracker \<Rightarrow> read_tracker" where
  "ResetDedup t = t\<lparr>rt_seen := Map.empty\<rparr>"

definition RefreshPath :: "string \<Rightarrow> read_tracker \<Rightarrow> read_tracker" where
  "RefreshPath path t = t\<lparr>rt_seen := (\<lambda>k. if rk_path k = path then None else rt_seen t k)\<rparr>"

definition unchangedMessage :: "read_key \<Rightarrow> string" where
  "unchangedMessage k =
     (if rk_tool k = ''grep''
      then ''[Search unchanged since last grep for '' @ quoted (rk_query k) @ '' in '' @ rk_path k @
        ''. Use a different pattern or path.]''
      else
        (let start = (if rk_offset k > 0 then rk_offset k else 1);
             last = (if rk_limit k > 0 then start + rk_limit k - 1 else start)
         in ''[File unchanged since last read at line '' @ itoa start @ ''-'' @ itoa last @
            ''. Use edit_file to make changes, or read a different section.]''))"

definition warningMessage :: "read_key \<Rightarrow> string" where
  "warningMessage k =
     (if rk_tool k = ''grep''
      then ''[WARNING: You have run this exact grep 3 times. Consider making your edit or searching a different path.]''
      else ''[WARNING: You have read this exact file region 3 times. Consider making your edit or reading a different file.]'')"

definition blockedMessage :: "read_key \<Rightarrow> string" where
  "blockedMessage k =
     (if rk_tool k = ''grep''
      then ''[BLOCKED: You have run this exact grep 4 times consecutively. The content has not changed. Proceed with editing or move to a different file.]''
      else ''[BLOCKED: You have read this exact region 4 times consecutively. The content has not changed. Proceed with editing or move to a different file.]'')"

text \<open>The check of a key at the modification time that was found for its path.\<close>

definition check_at :: "read_key \<Rightarrow> int \<Rightarrow> read_tracker \<Rightarrow> string \<times> read_tracker" where
  "check_at key modTime t =
     (let n = (if rt_last t = Some key then rt_consecutive t key + 1 else 1);
          t1 = t\<lparr>rt_consecutive := (rt_consecutive t)(key := n), rt_last := Some key\<rparr>
      in if rt_seen t key \<noteq> Some modTime
         then ('''', t1\<lparr>rt_seen := (rt_seen t)(key := Some modTime), rt_consecutive := (rt_consecutive t1)(key := 1)\<rparr>)
         else if n \<ge> 4 then (blockedMessage key, t1)
         else (unchangedMessage key @ (if n = 3 then [CHR 0x0A] @ warningMessage key else ''''), t1))"

text \<open>A file has its own time, a directory the latest of what is below it.\<close>

definition trackedModTime :: "string \<Rightarrow> (err + int) prog" where
  "trackedModTime path = Stat path (\<lambda>r.
     case r of
       Inl er \<Rightarrow> Ret (Inl er)
     | Inr info \<Rightarrow>
         if \<not> fi_is_dir info then Ret (Inr (fi_mtime info))
         else WalkDir path (\<lambda>es. Ret (Inr (foldl
           (\<lambda>latest e. case we_info e of
              Some i \<Rightarrow> if \<not> we_skip e \<and> fi_mtime i > latest then fi_mtime i else latest
            | None \<Rightarrow> latest) (fi_mtime info) es))))"

text \<open>A tool without a tracker asks nothing.\<close>

definition check :: "read_key \<Rightarrow> read_tracker option \<Rightarrow> (string \<times> read_tracker option) prog" where
  "check key tk =
     (case tk of
        None \<Rightarrow> Ret ('''', None)
      | Some t \<Rightarrow> pbind (trackedModTime (rk_path key)) (\<lambda>r.
          case r of
            Inl _ \<Rightarrow> Ret ('''', Some t)
          | Inr modTime \<Rightarrow> Ret (apsnd Some (check_at key modTime t))))"

definition CheckRead :: "string \<Rightarrow> int \<Rightarrow> int \<Rightarrow> read_tracker option \<Rightarrow> (string \<times> read_tracker option) prog" where
  "CheckRead path offset limit =
     check \<lparr>rk_tool = ''read'', rk_path = path, rk_offset = offset, rk_limit = limit, rk_query = ''''\<rparr>"

definition CheckGrep :: "string \<Rightarrow> string \<Rightarrow> read_tracker option \<Rightarrow> (string \<times> read_tracker option) prog" where
  "CheckGrep path q =
     check \<lparr>rk_tool = ''grep'', rk_path = path, rk_offset = 0, rk_limit = 0, rk_query = q\<rparr>"

section \<open>What the tracker has seen\<close>

text \<open>The life of a tracker: checks with the times they found, and what makes it forget.\<close>

datatype track_step = Checked read_key int | Notified string | Forgot | Refreshed string

fun track :: "track_step \<Rightarrow> read_tracker \<Rightarrow> string \<times> read_tracker" where
  "track (Checked k m) t = check_at k m t"
| "track (Notified name) t = ('''', NotifyTool name t)"
| "track Forgot t = ('''', ResetDedup t)"
| "track (Refreshed p) t = ('''', RefreshPath p t)"

fun tracks :: "track_step list \<Rightarrow> read_tracker \<Rightarrow> read_tracker" where
  "tracks [] t = t"
| "tracks (s # ss) t = tracks ss (snd (track s t))"

text \<open>The time the last check of a key found, unless it has been forgotten since.\<close>

fun last_found :: "track_step list \<Rightarrow> read_key \<Rightarrow> int option" where
  "last_found [] k = None"
| "last_found (Checked k' m # ss) k = (if k' = k then Some m else last_found ss k)"
| "last_found (Notified name # ss) k = last_found ss k"
| "last_found (Forgot # ss) k = None"
| "last_found (Refreshed p # ss) k = (if rk_path k = p then None else last_found ss k)"

lemma seen_last_found: "rt_seen (tracks ss NewReadTracker) k = last_found (rev ss) k"
proof (induction ss rule: rev_induct)
  case (snoc s ss)
  have more: "tracks (ss @ [s]) t = snd (track s (tracks ss t))" for t
    by (induction ss arbitrary: t) simp_all
  show ?case
    using snoc unfolding more by (cases s) (auto simp: check_at_def NotifyTool_def ResetDedup_def RefreshPath_def Let_def)
qed (simp add: NewReadTracker_def)

lemma messages_some: "unchangedMessage k \<noteq> ''''" "blockedMessage k \<noteq> ''''"
  by (simp_all add: unchangedMessage_def blockedMessage_def Let_def)

text \<open>
  A read is held back only for want of news.  In every life of a tracker, a check is answered by a message
  exactly when the last check of the same key found the same time and the path has not been written through the
  tools, nor the tracker reset, since.
\<close>

theorem held_back_only_unchanged:
  "fst (track (Checked k m) (tracks ss NewReadTracker)) \<noteq> '''' \<longleftrightarrow> last_found (rev ss) k = Some m"
  using messages_some by (simp add: check_at_def Let_def seen_last_found)

end
