(* ===== verification/Line_Diff.thy ===== *)
theory Line_Diff
  imports Agent_Loop "HOL-Library.Product_Lexorder" "HOL-Library.Multiset"
begin

text \<open>
  Which diagnostics an edit brings and which it only moves, \<open>internal/tools/code_symbols.go\<close> 869--1132:
  the lines of the old text are mapped to those of the new one by a longest common subsequence, the old
  diagnostics are moved along, and the new ones are compared with them by their fingerprints.  SHA-256 is an
  argument.
\<close>

section \<open>Lines\<close>

definition TrimSuffix :: "string \<Rightarrow> string \<Rightarrow> string" where
  "TrimSuffix s p = (if HasSuffix s p then take (length s - length p) s else s)"

definition codeSymbolComparableLines :: "string \<Rightarrow> string list" where
  "codeSymbolComparableLines src =
     (let t = TrimSuffix (ReplaceAll src [CHR 0x0D, CHR 0x0A] [CHR 0x0A]) [CHR 0x0A] in
      if t = '''' then [] else Split (CHR 0x0A) t)"

definition codeSymbolSourceLine :: "string \<Rightarrow> int \<Rightarrow> string" where
  "codeSymbolSourceLine src line =
     (if line \<le> 0 then ''''
      else
        (let lines = Split (CHR 0x0A) src in
         if line > int (length lines) then '''' else TrimSpace (lines ! nat (line - 1))))"

section \<open>The longest common subsequence\<close>

text \<open>
  The table is one array, filled from its end: row \<open>i\<close>, column \<open>j\<close> holds how much the rests of the two texts
  from there have in common.
\<close>

definition dp_index :: "nat \<Rightarrow> nat \<Rightarrow> nat \<Rightarrow> nat" where
  "dp_index m i j = i * (m + 1) + j"

definition dp_cell :: "'a list \<Rightarrow> 'a list \<Rightarrow> nat \<Rightarrow> nat list \<Rightarrow> nat \<Rightarrow> nat list" where
  "dp_cell bs as i dp j =
     (let m = length as in
      if bs ! i = as ! j then dp[dp_index m i j := 1 + dp ! dp_index m (i + 1) (j + 1)]
      else if dp ! dp_index m (i + 1) j \<ge> dp ! dp_index m i (j + 1)
      then dp[dp_index m i j := dp ! dp_index m (i + 1) j]
      else dp[dp_index m i j := dp ! dp_index m i (j + 1)])"

definition dp_row :: "'a list \<Rightarrow> 'a list \<Rightarrow> nat list \<Rightarrow> nat \<Rightarrow> nat list" where
  "dp_row bs as dp i = foldl (dp_cell bs as i) dp (rev [0..<length as])"

definition dp_table :: "'a list \<Rightarrow> 'a list \<Rightarrow> nat list" where
  "dp_table bs as =
     foldl (dp_row bs as) (replicate ((length bs + 1) * (length as + 1)) 0) (rev [0..<length bs])"

text \<open>The walk through the table; the entries of the mapping in the order they are made.\<close>

function lcs_walk :: "'a list \<Rightarrow> 'a list \<Rightarrow> nat list \<Rightarrow> nat \<Rightarrow> nat \<Rightarrow> (nat \<times> nat) list" where
  "lcs_walk bs as dp i j =
     (if i < length bs \<and> j < length as then
        (if bs ! i = as ! j then (i + 1, j + 1) # lcs_walk bs as dp (i + 1) (j + 1)
         else if dp ! dp_index (length as) (i + 1) j \<ge> dp ! dp_index (length as) i (j + 1)
         then lcs_walk bs as dp (i + 1) j
         else lcs_walk bs as dp i (j + 1))
      else [])"
  by pat_completeness auto
termination
  by (relation "measure (\<lambda>(bs, as, dp, i, j). length bs - i + (length as - j))") auto

declare lcs_walk.simps [simp del]

definition lcsLineMapping :: "'a list \<Rightarrow> 'a list \<Rightarrow> (nat \<times> nat) list" where
  "lcsLineMapping bs as = lcs_walk bs as (dp_table bs as) 0 0"

section \<open>Texts too long for the table\<close>

fun common_prefix :: "'a list \<Rightarrow> 'a list \<Rightarrow> nat" where
  "common_prefix (b # bs) (a # as) = (if b = a then Suc (common_prefix bs as) else 0)"
| "common_prefix bs as = 0"

definition buildPrefixSuffixLineShift :: "'a list \<Rightarrow> 'a list \<Rightarrow> int \<Rightarrow> int option" where
  "buildPrefixSuffixLineShift bs as line =
     (let p = common_prefix bs as;
          q = common_prefix (rev (drop p bs)) (rev (drop p as));
          afterLine = line + (int (length as) - int (length bs))
      in if line \<le> 0 then None
         else if line \<le> int p then Some line
         else if line > int (length bs) - int q
         then (if afterLine > 0 \<and> afterLine \<le> int (length as) then Some afterLine else None)
         else None)"

definition maxLineShiftCells :: nat where "maxLineShiftCells = 2000000"

definition buildCodeLineShift :: "string \<Rightarrow> string \<Rightarrow> int \<Rightarrow> int option" where
  "buildCodeLineShift beforeSrc afterSrc =
     (let bs = codeSymbolComparableLines beforeSrc; as = codeSymbolComparableLines afterSrc in
      if bs = [] \<and> as = [] then (\<lambda>line. if line > 0 then Some line else None)
      else if Join [CHR 0x0A] bs = Join [CHR 0x0A] as
      then (\<lambda>line. if line > 0 \<and> line \<le> int (length as) then Some line else None)
      else if length bs * length as > maxLineShiftCells then buildPrefixSuffixLineShift bs as
      else
        (let mapping = lcsLineMapping bs as in
         (\<lambda>line. if line \<le> 0 then None else map_option int (map_of mapping (nat line)))))"

section \<open>Diagnostics\<close>

record code_error =
  ce_file :: string
  ce_line :: int
  ce_column :: int
  ce_error :: string
  ce_severity :: string
  ce_source :: string
  ce_line_text :: string
  ce_fingerprint :: string

record code_delta =
  cd_status :: string
  cd_file :: string
  cd_before_line :: int
  cd_before_column :: int
  cd_after_line :: int
  cd_after_column :: int
  cd_error :: string
  cd_severity :: string
  cd_source :: string
  cd_line_text :: string
  cd_fingerprint :: string

record delta_summary =
  ds_existing_count :: nat
  ds_new_count :: nat
  ds_resolved_count :: nat
  ds_existing :: "code_delta list"
  ds_new :: "code_delta list"
  ds_resolved :: "code_delta list"

definition codeSymbolDiagnosticFingerprint :: "(string \<Rightarrow> string) \<Rightarrow> code_error \<Rightarrow> string" where
  "codeSymbolDiagnosticFingerprint hash d =
     take 16 (hash (Join [CHR 0x00]
       [ce_file d, itoa (ce_line d), itoa (ce_column d), ce_severity d, ce_source d, ce_error d]))"

definition newCodeSymbolDiagnostic ::
  "(string \<Rightarrow> string) \<Rightarrow> string \<Rightarrow> int \<Rightarrow> int \<Rightarrow> string \<Rightarrow> string \<Rightarrow> code_error" where
  "newCodeSymbolDiagnostic hash filePath line column msg src =
     (let d = \<lparr>ce_file = filePath, ce_line = line, ce_column = column, ce_error = msg, ce_severity = ''error'',
        ce_source = ''go/parser'', ce_line_text = codeSymbolSourceLine src line, ce_fingerprint = ''''\<rparr>
      in d\<lparr>ce_fingerprint := codeSymbolDiagnosticFingerprint hash d\<rparr>)"

definition shiftCodeDiagnostic ::
  "(string \<Rightarrow> string) \<Rightarrow> (int \<Rightarrow> int option) \<Rightarrow> string \<Rightarrow> string \<Rightarrow> code_error \<Rightarrow> code_error option" where
  "shiftCodeDiagnostic hash shift currentSrc currentRel d =
     map_option (\<lambda>afterLine.
       let s = d\<lparr>ce_file := currentRel, ce_line := afterLine, ce_line_text := codeSymbolSourceLine currentSrc afterLine\<rparr>
       in s\<lparr>ce_fingerprint := codeSymbolDiagnosticFingerprint hash s\<rparr>) (shift (ce_line d))"

text \<open>
  \<open>sort.Slice\<close> with the comparison of the source; entries that agree in all five keep their order here, where
  the library promises nothing.
\<close>

definition sortCodeDiagnosticDeltas :: "code_delta list \<Rightarrow> code_delta list" where
  "sortCodeDiagnosticDeltas =
     sort_key (\<lambda>d. (cd_file d, cd_after_line d, cd_before_line d, cd_after_column d, cd_error d))"

definition existing_delta :: "string \<Rightarrow> code_error \<Rightarrow> code_error \<Rightarrow> code_error \<Rightarrow> code_delta" where
  "existing_delta rel original shifted d =
     \<lparr>cd_status = ''existing_shifted'', cd_file = rel, cd_before_line = ce_line original,
      cd_before_column = ce_column original, cd_after_line = ce_line shifted, cd_after_column = ce_column shifted,
      cd_error = ce_error d, cd_severity = ce_severity d, cd_source = ce_source d, cd_line_text = ce_line_text d,
      cd_fingerprint = ce_fingerprint d\<rparr>"

definition new_delta :: "string \<Rightarrow> code_error \<Rightarrow> code_delta" where
  "new_delta rel d =
     \<lparr>cd_status = ''new'', cd_file = rel, cd_before_line = 0, cd_before_column = 0, cd_after_line = ce_line d,
      cd_after_column = ce_column d, cd_error = ce_error d, cd_severity = ce_severity d, cd_source = ce_source d,
      cd_line_text = ce_line_text d, cd_fingerprint = ce_fingerprint d\<rparr>"

definition gone_delta :: "string \<Rightarrow> code_error \<Rightarrow> code_delta" where
  "gone_delta rel d =
     \<lparr>cd_status = ''resolved'', cd_file = rel, cd_before_line = ce_line d, cd_before_column = ce_column d,
      cd_after_line = 0, cd_after_column = 0, cd_error = ce_error d, cd_severity = ce_severity d,
      cd_source = ce_source d, cd_line_text = ce_line_text d, cd_fingerprint = ce_fingerprint d\<rparr>"

definition resolved_delta :: "string \<Rightarrow> code_error \<Rightarrow> code_error \<Rightarrow> code_delta" where
  "resolved_delta rel original d =
     \<lparr>cd_status = ''resolved'', cd_file = rel, cd_before_line = ce_line original, cd_before_column = ce_column original,
      cd_after_line = ce_line d, cd_after_column = ce_column d, cd_error = ce_error original,
      cd_severity = ce_severity original, cd_source = ce_source original, cd_line_text = ce_line_text original,
      cd_fingerprint = ce_fingerprint d\<rparr>"

text \<open>A map by fingerprint, in which a later diagnostic replaces an earlier one.\<close>

definition by_key :: "(code_error \<times> 'a) list \<Rightarrow> string \<Rightarrow> 'a option" where
  "by_key ps = map_of (rev (map (\<lambda>(d, x). (ce_fingerprint d, x)) ps))"

definition compareCodeDiagnostics ::
  "(string \<Rightarrow> string) \<Rightarrow> code_error list \<Rightarrow> code_error list \<Rightarrow> string \<Rightarrow> string \<Rightarrow> string \<Rightarrow> delta_summary" where
  "compareCodeDiagnostics hash baseline current baselineSrc currentSrc currentRel =
     (let moved = map (\<lambda>d. (shiftCodeDiagnostic hash (buildCodeLineShift baselineSrc currentSrc) currentSrc currentRel d, d)) baseline;
          shifted = List.map_filter (\<lambda>(s, d). map_option (\<lambda>x. (x, d)) s) moved;
          originalByShiftedKey = by_key shifted;
          baselineByKey = by_key (map (\<lambda>(s, _). (s, s)) shifted);
          currentByKey = by_key (map (\<lambda>d. (d, d)) current);
          existing = List.map_filter (\<lambda>d. map_option (\<lambda>s.
             existing_delta currentRel (the (originalByShiftedKey (ce_fingerprint d))) s d) (baselineByKey (ce_fingerprint d))) current;
          new = map (new_delta currentRel) (filter (\<lambda>d. baselineByKey (ce_fingerprint d) = None) current);
          resolved = map (\<lambda>(_, d). gone_delta currentRel d) (filter (\<lambda>(s, _). s = None) moved) @
            map (\<lambda>(s, _). resolved_delta currentRel (the (originalByShiftedKey (ce_fingerprint s))) s)
              (filter (\<lambda>(s, _). currentByKey (ce_fingerprint s) = None) shifted)
      in \<lparr>ds_existing_count = length existing, ds_new_count = length new, ds_resolved_count = length resolved,
          ds_existing = sortCodeDiagnosticDeltas existing, ds_new = sortCodeDiagnosticDeltas new,
          ds_resolved = sortCodeDiagnosticDeltas resolved\<rparr>)"

section \<open>The mapping is a longest one\<close>

fun lcs :: "'a list \<Rightarrow> 'a list \<Rightarrow> nat" where
  "lcs (x # xs) (y # ys) = (if x = y then Suc (lcs xs ys) else max (lcs xs (y # ys)) (lcs (x # xs) ys))"
| "lcs xs ys = 0"

lemma lcs_Nil [simp]: "lcs xs [] = 0"
  by (cases xs) simp_all

lemma lcs_longest: "subseq zs xs \<Longrightarrow> subseq zs ys \<Longrightarrow> length zs \<le> lcs xs ys"
proof (induction xs ys arbitrary: zs rule: lcs.induct)
  case (1 x xs y ys)
  show ?case
  proof (cases zs)
    case (Cons z zs')
    show ?thesis
    proof (cases "z = x \<and> z = y")
      case True
      with 1(1)[of zs'] 1(4,5) Cons show ?thesis by auto
    next
      case False
      show ?thesis
      proof (cases "z = x")
        case True
        with False have "z \<noteq> y" by simp
        then have "subseq zs ys" using 1(5) Cons by (simp add: subseq_Cons2_neq)
        with 1(3)[of zs] 1(4) True False show ?thesis by auto
      next
        case not_x: False
        then have sub: "subseq zs xs" using 1(4) Cons by (simp add: subseq_Cons2_neq)
        show ?thesis
        proof (cases "x = y")
          case True
          then have "subseq zs ys" using 1(5) Cons not_x by (simp add: subseq_Cons2_neq)
          with 1(1)[of zs'] sub True Cons show ?thesis by (auto dest: subseq_Cons')
        next
          case False
          with 1(2)[of zs] sub 1(5) show ?thesis by auto
        qed
      qed
    qed
  qed simp
qed auto

lemma dp_index_inj: "j \<le> m \<Longrightarrow> j' \<le> m \<Longrightarrow> dp_index m i j = dp_index m i' j' \<longleftrightarrow> i = i' \<and> j = j'"
proof
  assume le: "j \<le> m" "j' \<le> m" and eq: "dp_index m i j = dp_index m i' j'"
  have "k * Suc m + l = dp_index m k l" "l \<le> m \<Longrightarrow> (k * Suc m + l) div Suc m = k" for k l
    by (simp add: dp_index_def, subst div_mult_self3) simp_all
  from this(2)[OF le(1), of i] this(2)[OF le(2), of i'] have "dp_index m i j div Suc m = i" "dp_index m i' j' div Suc m = i'"
    by (simp_all add: dp_index_def)
  with eq have "i = i'" by simp
  with eq show "i = i' \<and> j = j'" by (simp add: dp_index_def)
qed simp

lemma dp_index_less: "i \<le> n \<Longrightarrow> j \<le> m \<Longrightarrow> dp_index m i j < (n + 1) * (m + 1)"
proof -
  assume "i \<le> n" "j \<le> m"
  then have "i * (m + 1) + j < i * (m + 1) + (m + 1)" by simp
  also have "\<dots> \<le> (n + 1) * (m + 1)" using mult_le_mono1[OF \<open>i \<le> n\<close>, of "m + 1"] by simp
  finally show ?thesis by (simp add: dp_index_def)
qed

text \<open>The table when the entries from row \<open>i\<close>, column \<open>j\<close> on have been filled.\<close>

definition filled :: "'a list \<Rightarrow> 'a list \<Rightarrow> nat \<Rightarrow> nat \<Rightarrow> nat list \<Rightarrow> bool" where
  "filled bs as i j dp \<longleftrightarrow> length dp = (length bs + 1) * (length as + 1) \<and>
     (\<forall>i' \<le> length bs. \<forall>j' \<le> length as. dp ! dp_index (length as) i' j' =
        (if i < i' \<or> i' = i \<and> j \<le> j' then lcs (drop i' bs) (drop j' as) else 0))"

lemma filled_cell:
  assumes "filled bs as i (Suc j) dp" and "i < length bs" and "j < length as"
  shows "filled bs as i j (dp_cell bs as i dp j)"
proof -
  let ?x = "\<lambda>i j. dp_index (length as) i j" and ?n = "length bs" and ?m = "length as"
  have len: "length dp = (?n + 1) * (?m + 1)" using assms(1) by (simp add: filled_def)
  have old: "dp ! ?x i' j' = (if i < i' \<or> i' = i \<and> Suc j \<le> j' then lcs (drop i' bs) (drop j' as) else 0)"
    if "i' \<le> ?n" "j' \<le> ?m" for i' j' using assms(1) that unfolding filled_def by blast
  have here: "drop i bs = bs ! i # drop (Suc i) bs" "drop j as = as ! j # drop (Suc j) as"
    using assms(2,3) by (simp_all add: Cons_nth_drop_Suc)
  have "dp_cell bs as i dp j = dp[?x i j := lcs (drop i bs) (drop j as)]"
    using old[of "i + 1" "j + 1"] old[of "i + 1" j] old[of i "j + 1"] assms(2,3)
    by (simp add: dp_cell_def Let_def here max_def)
  moreover have "dp[?x i j := v] ! ?x i' j' = (if i' = i \<and> j' = j then v else dp ! ?x i' j')"
    if "i' \<le> ?n" "j' \<le> ?m" for v i' j'
    using that assms(2,3) dp_index_inj[of j ?m j' i i'] dp_index_less[of i ?n j ?m] len
    by (auto simp: nth_list_update)
  moreover have "(if i' = i \<and> j' = j then lcs (drop i bs) (drop j as) else dp ! ?x i' j') =
      (if i < i' \<or> i' = i \<and> j \<le> j' then lcs (drop i' bs) (drop j' as) else 0)" if "i' \<le> ?n" "j' \<le> ?m" for i' j'
    using old[OF that] by (auto simp: le_Suc_eq Suc_le_eq le_less)
  ultimately show ?thesis using len unfolding filled_def by simp
qed

lemma filled_row:
  assumes "filled bs as i j dp" and "i < length bs" and "j \<le> length as"
  shows "filled bs as i 0 (foldl (dp_cell bs as i) dp (rev [0..<j]))"
  using assms(1,3)
proof (induction j arbitrary: dp)
  case (Suc j)
  then show ?case using filled_cell[OF Suc.prems(1) assms(2)] by simp
qed simp

lemma filled_rows:
  "filled bs as i 0 dp \<Longrightarrow> i \<le> length bs \<Longrightarrow> filled bs as 0 0 (foldl (dp_row bs as) dp (rev [0..<i]))"
proof (induction i arbitrary: dp)
  case (Suc i)
  have "filled bs as i (length as) dp"
    using Suc.prems unfolding filled_def by (auto simp: not_less_eq_eq Suc_le_eq)
  with Suc show ?case using filled_row[of bs as i "length as" dp] by (simp add: dp_row_def)
qed simp

lemma dp_table_lcs:
  assumes "i \<le> length bs" and "j \<le> length as"
  shows "dp_table bs as ! dp_index (length as) i j = lcs (drop i bs) (drop j as)"
proof -
  have "filled bs as (length bs) 0 (replicate ((length bs + 1) * (length as + 1)) 0)"
    using dp_index_less[of _ "length bs" _ "length as"] unfolding filled_def
    by (simp add: nth_replicate del: replicate_Suc mult_Suc)
  from filled_rows[OF this] assms show ?thesis by (auto simp: filled_def dp_table_def)
qed

lemma walk_entries:
  "(a, b) \<in> set (lcs_walk bs as dp i j) \<Longrightarrow>
   i < a \<and> a \<le> length bs \<and> j < b \<and> b \<le> length as \<and> bs ! (a - 1) = as ! (b - 1)"
proof (induction bs as dp i j rule: lcs_walk.induct)
  case (1 bs as dp i j)
  from 1(4) show ?case
    using 1(1-3) by (subst (asm) lcs_walk.simps) (force split: if_splits)
qed

lemma walk_sorted: "sorted_wrt (\<lambda>p q. fst p < fst q \<and> snd p < snd q) (lcs_walk bs as dp i j)"
proof (induction bs as dp i j rule: lcs_walk.induct)
  case (1 bs as dp i j)
  have "i + 1 < a \<and> j + 1 < b" if "(a, b) \<in> set (lcs_walk bs as dp (i + 1) (j + 1))" for a b
    using walk_entries[OF that] by simp
  with 1 show ?case by (subst lcs_walk.simps) auto
qed

lemma walk_length: "length (lcs_walk bs as (dp_table bs as) i j) = lcs (drop i bs) (drop j as)"
proof (induction bs as "dp_table bs as" i j rule: lcs_walk.induct)
  case (1 bs as i j)
  show ?case
  proof (cases "i < length bs \<and> j < length as")
    case True
    then have here: "drop i bs = bs ! i # drop (Suc i) bs" "drop j as = as ! j # drop (Suc j) as"
      by (simp_all add: Cons_nth_drop_Suc)
    have table: "dp_table bs as ! dp_index (length as) (i + 1) j = lcs (drop (Suc i) bs) (drop j as)"
      "dp_table bs as ! dp_index (length as) i (j + 1) = lcs (drop i bs) (drop (Suc j) as)"
      using True dp_table_lcs[of "i + 1" bs j as] dp_table_lcs[of i bs "j + 1" as] by simp_all
    show ?thesis
    proof (cases "bs ! i = as ! j")
      case eq: True
      with 1(1) True show ?thesis by (subst lcs_walk.simps) (simp add: here)
    next
      case ne: False
      show ?thesis
      proof (cases "lcs (drop (Suc i) bs) (drop j as) \<ge> lcs (drop i bs) (drop (Suc j) as)")
        case le: True
        have "length (lcs_walk bs as (dp_table bs as) (i + 1) j) = lcs (drop (i + 1) bs) (drop j as)"
          by (rule 1(2)) (use True ne le table in auto)
        with True ne le table show ?thesis by (subst lcs_walk.simps) (simp add: here max_def)
      next
        case gt: False
        have "length (lcs_walk bs as (dp_table bs as) i (j + 1)) = lcs (drop i bs) (drop (j + 1) as)"
          by (rule 1(3)) (use True ne gt table in auto)
        with True ne gt table show ?thesis by (subst lcs_walk.simps) (simp add: here max_def)
      qed
    qed
  next
    case False
    then have "drop i bs = [] \<or> drop j as = []" by auto
    with False show ?thesis by (subst lcs_walk.simps) auto
  qed
qed

lemma walk_common:
  "subseq (map (\<lambda>p. bs ! (fst p - 1)) (lcs_walk bs as dp i j)) (drop i bs) \<and>
   subseq (map (\<lambda>p. as ! (snd p - 1)) (lcs_walk bs as dp i j)) (drop j as)"
proof (induction bs as dp i j rule: lcs_walk.induct)
  case (1 bs as dp i j)
  show ?case
  proof (cases "i < length bs \<and> j < length as")
    case True
    then have "drop i bs = bs ! i # drop (Suc i) bs" "drop j as = as ! j # drop (Suc j) as"
      by (simp_all add: Cons_nth_drop_Suc)
    with 1 True show ?thesis by (subst (1 2) lcs_walk.simps) auto
  qed (subst (1 2) lcs_walk.simps, auto)
qed

section \<open>Properties\<close>

text \<open>
  C19: The lines an edit keeps are found, and as many as can be.  The mapping takes lines of the old text to equal
  lines of the new one, each at most once and in their order, and no sequence of lines that is in both texts has
  more lines than the mapping.
\<close>

theorem line_mapping_longest:
  fixes bs as :: "'a list"
  shows "\<exists>zs. zs = map (\<lambda>p. bs ! (fst p - 1)) (lcsLineMapping bs as) \<and> subseq zs bs \<and> subseq zs as \<and>
    (\<forall>ws. subseq ws bs \<and> subseq ws as \<longrightarrow> length ws \<le> length zs) \<and>
    sorted_wrt (\<lambda>p q. fst p < fst q \<and> snd p < snd q) (lcsLineMapping bs as) \<and>
    list_all (\<lambda>(i, j). 1 \<le> i \<and> i \<le> length bs \<and> 1 \<le> j \<and> j \<le> length as \<and> bs ! (i - 1) = as ! (j - 1)) (lcsLineMapping bs as)"
proof -
  let ?ps = "lcsLineMapping bs as"
  have entry: "i \<ge> 1 \<and> i \<le> length bs \<and> j \<ge> 1 \<and> j \<le> length as \<and> bs ! (i - 1) = as ! (j - 1)" if "(i, j) \<in> set ?ps" for i j
    using walk_entries[OF that[unfolded lcsLineMapping_def]] by simp
  then have same: "map (\<lambda>p. bs ! (fst p - 1)) ?ps = map (\<lambda>p. as ! (snd p - 1)) ?ps" by fastforce
  have "subseq (map (\<lambda>p. bs ! (fst p - 1)) ?ps) bs \<and> subseq (map (\<lambda>p. as ! (snd p - 1)) ?ps) as"
    using walk_common[of bs as "dp_table bs as" 0 0] by (simp add: lcsLineMapping_def)
  then have "subseq (map (\<lambda>p. bs ! (fst p - 1)) ?ps) bs \<and> subseq (map (\<lambda>p. bs ! (fst p - 1)) ?ps) as"
    unfolding same .
  moreover have "length ws \<le> length ?ps" if "subseq ws bs" "subseq ws as" for ws
    using lcs_longest[OF that] walk_length[of bs as 0 0] by (simp add: lcsLineMapping_def)
  moreover have "sorted_wrt (\<lambda>p q. fst p < fst q \<and> snd p < snd q) ?ps" by (simp add: lcsLineMapping_def walk_sorted)
  ultimately show ?thesis using entry by (auto simp: list_all_iff)
qed

lemma line_mapping_longest_witness:
  "lcsLineMapping [''a'', ''b'', ''c'', ''d''] [''b'', ''x'', ''d''] = [(2, 1), (4, 3)] \<and>
   length [''b'', ''d''] \<le> length (lcsLineMapping [''a'', ''b'', ''c'', ''d''] [''b'', ''x'', ''d''])"
proof -
  have map: "lcsLineMapping [''a'', ''b'', ''c'', ''d''] [''b'', ''x'', ''d''] = [(2, 1), (4, 3)]" by code_simp
  have "subseq [''b'', ''d''] [''a'', ''b'', ''c'', ''d'']" "subseq [''b'', ''d''] [''b'', ''x'', ''d'']" by code_simp+
  with line_mapping_longest[of "[''a'', ''b'', ''c'', ''d'']" "[''b'', ''x'', ''d'']"] map show ?thesis by auto
qed

section \<open>Every diagnostic is accounted for\<close>

text \<open>What a diagnostic and the entry that reports it have in common.\<close>

definition ce_news :: "code_error \<Rightarrow> string \<times> string \<times> string \<times> string" where
  "ce_news d = (ce_error d, ce_severity d, ce_source d, ce_fingerprint d)"

definition cd_news :: "code_delta \<Rightarrow> string \<times> string \<times> string \<times> string" where
  "cd_news d = (cd_error d, cd_severity d, cd_source d, cd_fingerprint d)"

definition moved_keys :: "(string \<Rightarrow> string) \<Rightarrow> code_error list \<Rightarrow> string \<Rightarrow> string \<Rightarrow> string \<Rightarrow> string list" where
  "moved_keys hash baseline baselineSrc currentSrc rel = map ce_fingerprint
     (List.map_filter (shiftCodeDiagnostic hash (buildCodeLineShift baselineSrc currentSrc) currentSrc rel) baseline)"

lemma by_key_None: "by_key ps k = None \<longleftrightarrow> k \<notin> ce_fingerprint ` fst ` set ps"
  by (force simp: by_key_def map_of_eq_None_iff)

lemma map_filter_pairs:
  "map fst (List.map_filter (\<lambda>(s, d). map_option (\<lambda>x. (x, d)) s) (map (\<lambda>d. (f d, d)) ds)) = List.map_filter f ds"
  by (induction ds) (auto simp: map_filter_simps split: option.splits)

lemma map_filter_Some: "List.map_filter (\<lambda>x. map_option (g x) (f x)) xs = map (\<lambda>x. g x (the (f x))) (filter (\<lambda>x. f x \<noteq> None) xs)"
  by (induction xs) (auto simp: map_filter_simps split: option.splits)

lemma mset_map_sort: "mset (map f (sort_key k xs)) = mset (map f xs)"
  by (simp only: mset_map mset_sort)

lemma news: "cd_news (existing_delta rel original shifted d) = ce_news d" "cd_news (new_delta rel d) = ce_news d"
  by (simp_all add: cd_news_def ce_news_def existing_delta_def new_delta_def)


end
