(* ===== verification/Mutations.thy ===== *)
theory Mutations
  imports Line_Diff
begin

text \<open>
  What a file tool reports of the change it made, \<open>internal/tools/mutation.go\<close>: hashes, lines, and the diagnostics
  the change brings.  The Go parser, the Python and the TypeScript compiler are arguments, asked for what they find
  in a text.
\<close>

section \<open>Paths and counts\<close>

text \<open>\<open>filepath.Ext\<close>: from the last dot of the last element on.\<close>

definition path_Ext :: "string \<Rightarrow> string" where
  "path_Ext p =
     (let b = after_last_slash p in
      if CHR ''.'' \<in> set b then CHR ''.'' # rev (takeWhile (\<lambda>c. c \<noteq> CHR ''.'') (rev b)) else '''')"

text \<open>\<open>filepath.Dir\<close>: what stands before the last element, cleaned.\<close>

definition path_Dir :: "string \<Rightarrow> string" where
  "path_Dir p = Clean (rev (dropWhile (\<lambda>c. c \<noteq> CHR ''/'') (rev p)))"

definition relPath :: "string \<Rightarrow> string \<Rightarrow> string" where
  "relPath base path = (case path_Rel base path of None \<Rightarrow> path | Some rel \<Rightarrow> rel)"

definition mutationDiagnosticLanguage :: "string \<Rightarrow> string" where
  "mutationDiagnosticLanguage absPath =
     (let ext = ToLower (path_Ext absPath) in
      if ext = ''.go'' then ''go''
      else if ext \<in> {''.py'', ''.pyw''} then ''python''
      else if ext \<in> {''.js'', ''.jsx'', ''.mjs'', ''.cjs''} then ''javascript''
      else if ext \<in> {''.ts'', ''.tsx''} then ''typescript''
      else if ext = ''.json'' then ''json''
      else if ext \<in> {''.yaml'', ''.yml''} then ''yaml''
      else if ext \<in> {''.md'', ''.mdx''} then ''markdown''
      else if ext \<in> {''.sh'', ''.bash'', ''.zsh''} then ''shell''
      else ''unknown'')"

definition cleanMutationPath :: "string \<Rightarrow> string" where
  "cleanMutationPath path = (let p = TrimSpace path in if p = '''' then '''' else Clean p)"

definition countMutationLines :: "string \<Rightarrow> bool \<Rightarrow> int" where
  "countMutationLines data there =
     (if \<not> there \<or> data = '''' then 0
      else int (length (filter (\<lambda>c. c = CHR 0x0A) data)) + (if HasSuffix data [CHR 0x0A] then 0 else 1))"

definition mutationHash :: "(string \<Rightarrow> string) \<Rightarrow> string \<Rightarrow> bool \<Rightarrow> string" where
  "mutationHash hash data there = (if there then ''sha256:'' @ hash data else '''')"

definition NewFileMutation ::
  "(string \<Rightarrow> string) \<Rightarrow> string \<Rightarrow> string \<Rightarrow> string \<Rightarrow> bool \<Rightarrow> string \<Rightarrow> bool \<Rightarrow> file_mutation" where
  "NewFileMutation hash operation path before beforeExists after afterExists =
     (let beforeLines = countMutationLines before beforeExists; afterLines = countMutationLines after afterExists in
      \<lparr>fm_operation = TrimSpace operation, fm_path = cleanMutationPath path,
       fm_changed = (beforeExists \<noteq> afterExists \<or> before \<noteq> after),
       fm_before_exists = beforeExists, fm_after_exists = afterExists,
       fm_before_hash = mutationHash hash before beforeExists, fm_after_hash = mutationHash hash after afterExists,
       fm_before_lines = beforeLines, fm_after_lines = afterLines, fm_line_delta = afterLines - beforeLines,
       fm_language = '''', fm_status = '''', fm_new_count = 0, fm_existing_count = 0, fm_resolved_count = 0,
       fm_new_diagnostics = [], fm_failure_family = ''''\<rparr>)"

section \<open>What the compilers say\<close>

text \<open>
  \<open>Errors\<close> are the positions and messages of a list of scanner errors; the output and the error of a compiler that
  refuses a text are those of \<open>Rejected\<close>.
\<close>

datatype go_answer = Parsed | Errors "(int \<times> int \<times> string) list" | OtherError string
datatype compiler_answer = NotConfigured | Unavailable | Accepted | Rejected string err
datatype script_answer = ScriptNotConfigured | ScriptUnavailable | ScriptOutput string

record compilers =
  cp_go :: "string \<Rightarrow> string \<Rightarrow> go_answer"
  cp_python :: "string \<Rightarrow> string \<Rightarrow> compiler_answer"
  cp_typescript :: "string \<Rightarrow> string \<Rightarrow> string \<Rightarrow> script_answer"

definition parseGoDiagnosticsFromSource ::
  "(string \<Rightarrow> string) \<Rightarrow> compilers \<Rightarrow> string \<Rightarrow> string \<Rightarrow> string \<Rightarrow> code_error list" where
  "parseGoDiagnosticsFromSource hash cp absPath basePath src =
     (case cp_go cp absPath src of
        Parsed \<Rightarrow> []
      | Errors es \<Rightarrow>
          map (\<lambda>(line, column, msg). newCodeSymbolDiagnostic hash (relPath basePath absPath) line column msg src)
            (sort_key id es)
      | OtherError msg \<Rightarrow>
          [\<lparr>ce_file = relPath basePath absPath, ce_line = 0, ce_column = 0, ce_error = msg, ce_severity = '''',
            ce_source = '''', ce_line_text = '''', ce_fingerprint = ''''\<rparr>])"

text \<open>The first match of \<open>(?i)\bline\s+(\d+)\b\<close>; the flag says whether a letter, digit or underscore stands before.\<close>

definition word_char :: "char \<Rightarrow> bool" where
  "word_char c \<longleftrightarrow> is_digit c \<or> c = CHR ''_'' \<or> (let n = (of_char (lower_char c) :: nat) in 97 \<le> n \<and> n \<le> 122)"

fun python_line_number :: "bool \<Rightarrow> string \<Rightarrow> string option" where
  "python_line_number before [] = None"
| "python_line_number before (c # s) =
     (let r = drop 4 (c # s); t = skip_re_space r; digits = takeWhile is_digit t; rest = dropWhile is_digit t in
      if \<not> before \<and> map lower_char (take 4 (c # s)) = ''line'' \<and> t \<noteq> r \<and> digits \<noteq> '''' \<and>
         (rest = '''' \<or> \<not> word_char (hd rest))
      then Some digits else python_line_number (word_char c) s)"

definition pythonDiagnosticColumn :: "string \<Rightarrow> int" where
  "pythonDiagnosticColumn out =
     (case find (\<lambda>l. CHR ''^'' \<in> set l) (Split (CHR 0x0A) out) of
        None \<Rightarrow> 0
      | Some l \<Rightarrow> int (length (takeWhile (\<lambda>c. c \<noteq> CHR ''^'') l)) + 1)"

definition TrimPrefix :: "string \<Rightarrow> string \<Rightarrow> string" where
  "TrimPrefix s p = (if HasPrefix s p then drop (length p) s else s)"

definition pythonDiagnosticMessage :: "string \<Rightarrow> err \<Rightarrow> string" where
  "pythonDiagnosticMessage out er =
     (case find (\<lambda>l. \<not> (l = '''' \<or> CHR ''^'' \<in> set l \<or> HasPrefix l ''File ''))
         (map TrimSpace (rev (Split (CHR 0x0A) out))) of
        Some l \<Rightarrow> TrimPrefix l ''Sorry: ''
      | None \<Rightarrow> err_text er)"

definition pythonDiagnosticFromCompileOutput ::
  "(string \<Rightarrow> string) \<Rightarrow> string \<Rightarrow> string \<Rightarrow> string \<Rightarrow> err \<Rightarrow> code_error" where
  "pythonDiagnosticFromCompileOutput hash filePath src out er =
     (let line = (case python_line_number False out of
                    Some ds \<Rightarrow> (case ParseInt ds of Some n \<Rightarrow> if n > 0 then n else 1 | None \<Rightarrow> 1)
                  | None \<Rightarrow> 1);
          d = \<lparr>ce_file = filePath, ce_line = line, ce_column = pythonDiagnosticColumn out,
               ce_error = pythonDiagnosticMessage out er, ce_severity = ''error'', ce_source = ''python/py_compile'',
               ce_line_text = codeSymbolSourceLine src line, ce_fingerprint = ''''\<rparr>
      in d\<lparr>ce_fingerprint := codeSymbolDiagnosticFingerprint hash d\<rparr>)"

text \<open>The diagnostics, a status and whether there was an answer.\<close>

definition parsePythonDiagnosticsFromSource ::
  "(string \<Rightarrow> string) \<Rightarrow> compilers \<Rightarrow> string \<Rightarrow> string \<Rightarrow> string \<Rightarrow> code_error list \<times> string \<times> bool" where
  "parsePythonDiagnosticsFromSource hash cp absPath basePath src =
     (case cp_python cp absPath src of
        NotConfigured \<Rightarrow> ([], ''diagnostics_not_configured'', False)
      | Unavailable \<Rightarrow> ([], ''diagnostics_unavailable'', False)
      | Accepted \<Rightarrow> ([], '''', True)
      | Rejected out er \<Rightarrow> ([pythonDiagnosticFromCompileOutput hash (relPath basePath absPath) src out er], '''', True))"

record typescript_payload =
  tp_line :: int
  tp_column :: int
  tp_severity :: string
  tp_message :: string
  tp_code :: int
  tp_source :: string

definition payload_zero :: typescript_payload where
  "payload_zero = \<lparr>tp_line = 0, tp_column = 0, tp_severity = '''', tp_message = '''', tp_code = 0, tp_source = ''''\<rparr>"

definition set_payload_field :: "string \<Rightarrow> json \<Rightarrow> typescript_payload \<Rightarrow> typescript_payload \<times> bool" where
  "set_payload_field k v p =
     (if k = ''line'' then (case dec_int64 v (tp_line p) of (x, ok) \<Rightarrow> (p\<lparr>tp_line := x\<rparr>, ok))
      else if k = ''column'' then (case dec_int64 v (tp_column p) of (x, ok) \<Rightarrow> (p\<lparr>tp_column := x\<rparr>, ok))
      else if k = ''severity'' then (case dec_string v (tp_severity p) of (x, ok) \<Rightarrow> (p\<lparr>tp_severity := x\<rparr>, ok))
      else if k = ''message'' then (case dec_string v (tp_message p) of (x, ok) \<Rightarrow> (p\<lparr>tp_message := x\<rparr>, ok))
      else if k = ''code'' then (case dec_int64 v (tp_code p) of (x, ok) \<Rightarrow> (p\<lparr>tp_code := x\<rparr>, ok))
      else if k = ''source'' then (case dec_string v (tp_source p) of (x, ok) \<Rightarrow> (p\<lparr>tp_source := x\<rparr>, ok))
      else (p, True))"

text \<open>Whether TypeScript was found, and its diagnostics.\<close>

definition set_typescript_output ::
  "string \<Rightarrow> json \<Rightarrow> bool \<times> typescript_payload list \<Rightarrow> (bool \<times> typescript_payload list) \<times> bool" where
  "set_typescript_output k v out =
     (if k = ''configured'' then (case dec_bool v (fst out) of (x, ok) \<Rightarrow> ((x, snd out), ok))
      else if k = ''error'' then (out, snd (dec_string v ''''))
      else if k = ''diagnostics'' then
        (case v of
           JArr js \<Rightarrow> ((fst out, map (\<lambda>x. fst (dec_struct set_payload_field x payload_zero)) js),
                       list_all (\<lambda>x. snd (dec_struct set_payload_field x payload_zero)) js)
         | JNull \<Rightarrow> ((fst out, []), True)
         | _ \<Rightarrow> (out, False))
      else (out, True))"

definition typescriptDiagnosticsFromPayload ::
  "(string \<Rightarrow> string) \<Rightarrow> string \<Rightarrow> string \<Rightarrow> typescript_payload list \<Rightarrow> code_error list" where
  "typescriptDiagnosticsFromPayload hash filePath src ps = map (\<lambda>p.
     let or_else = (\<lambda>x y. if x = '''' then y else x);
         line = (if tp_line p \<le> 0 then 1 else tp_line p);
         d = \<lparr>ce_file = filePath, ce_line = line, ce_column = (if tp_column p \<le> 0 then 1 else tp_column p),
              ce_error = or_else (TrimSpace (tp_message p)) ''typescript syntax check failed'',
              ce_severity = or_else (TrimSpace (tp_severity p)) ''error'',
              ce_source = or_else (TrimSpace (tp_source p)) ''typescript/transpileModule'',
              ce_line_text = codeSymbolSourceLine src line, ce_fingerprint = ''''\<rparr>
     in d\<lparr>ce_fingerprint := codeSymbolDiagnosticFingerprint hash d\<rparr>) ps"

definition parseTypeScriptFamilyDiagnosticsFromSource ::
  "(string \<Rightarrow> string) \<Rightarrow> compilers \<Rightarrow> string \<Rightarrow> string \<Rightarrow> string \<Rightarrow> code_error list \<times> string \<times> bool" where
  "parseTypeScriptFamilyDiagnosticsFromSource hash cp absPath basePath src =
     (case cp_typescript cp absPath basePath src of
        ScriptNotConfigured \<Rightarrow> ([], ''diagnostics_not_configured'', False)
      | ScriptUnavailable \<Rightarrow> ([], ''diagnostics_unavailable'', False)
      | ScriptOutput out \<Rightarrow>
          (case unmarshal_struct set_typescript_output (False, []) out of
             ((configured, ps), ok) \<Rightarrow>
               if \<not> ok then ([], ''diagnostics_unavailable'', False)
               else if \<not> configured then ([], ''diagnostics_not_configured'', False)
               else (typescriptDiagnosticsFromPayload hash (relPath basePath absPath) src ps, '''', True)))"

definition mutationDiagnosticsFromSource ::
  "(string \<Rightarrow> string) \<Rightarrow> compilers \<Rightarrow> string \<Rightarrow> string \<Rightarrow> string \<Rightarrow> bool \<Rightarrow> string \<Rightarrow> code_error list \<times> string \<times> bool" where
  "mutationDiagnosticsFromSource hash cp absPath basePath src there language =
     (if \<not> there then ([], '''', True)
      else if language = ''go'' then (parseGoDiagnosticsFromSource hash cp absPath basePath src, '''', True)
      else if language = ''python'' then parsePythonDiagnosticsFromSource hash cp absPath basePath src
      else if language = ''typescript'' \<or> language = ''javascript''
      then parseTypeScriptFamilyDiagnosticsFromSource hash cp absPath basePath src
      else ([], ''diagnostics_not_configured'', False))"

section \<open>The report\<close>

definition firstNonEmptyMutationDiagnosticStatus :: "string list \<Rightarrow> string" where
  "firstNonEmptyMutationDiagnosticStatus vs =
     (case find (\<lambda>v. v \<noteq> '''') (map TrimSpace vs) of Some v \<Rightarrow> v | None \<Rightarrow> '''')"

definition fileMutationDiagnosticsFromDelta :: "code_delta list \<Rightarrow> nat \<Rightarrow> mutation_diagnostic list" where
  "fileMutationDiagnosticsFromDelta ds limit =
     map (\<lambda>d. \<lparr>dg_line = cd_after_line d, dg_column = cd_after_column d, dg_error = cd_error d,
               dg_severity = cd_severity d, dg_source = cd_source d\<rparr>) (take limit ds)"

definition AnnotateMutationDiagnostics ::
  "(string \<Rightarrow> string) \<Rightarrow> compilers \<Rightarrow> string \<Rightarrow> string \<Rightarrow> string \<Rightarrow> bool \<Rightarrow> string \<Rightarrow> bool \<Rightarrow> file_mutation \<Rightarrow> file_mutation" where
  "AnnotateMutationDiagnostics hash cp absPath basePath0 before beforeExists after afterExists m =
     (let language = mutationDiagnosticLanguage absPath;
          basePath = (if TrimSpace basePath0 = '''' then path_Dir absPath else basePath0) in
      case mutationDiagnosticsFromSource hash cp absPath basePath before beforeExists language of
        (baseline, baselineStatus, baselineOK) \<Rightarrow>
      case mutationDiagnosticsFromSource hash cp absPath basePath after afterExists language of
        (current, currentStatus, currentOK) \<Rightarrow>
      if \<not> baselineOK \<or> \<not> currentOK then
        m\<lparr>fm_language := language,
          fm_status := firstNonEmptyMutationDiagnosticStatus [currentStatus, baselineStatus, ''diagnostics_not_configured'']\<rparr>
      else
        (let delta = compareCodeDiagnostics hash baseline current before after (relPath basePath absPath) in
         m\<lparr>fm_language := language,
           fm_status := (if ds_new_count delta > 0 then ''new_diagnostics_found'' else ''diagnostic_delta_clean''),
           fm_new_count := int (ds_new_count delta), fm_existing_count := int (ds_existing_count delta),
           fm_resolved_count := int (ds_resolved_count delta),
           fm_new_diagnostics := fileMutationDiagnosticsFromDelta (ds_new delta) 3\<rparr>))"

record adapter_policy =
  ap_language :: string
  ap_status :: string
  ap_adapter :: string
  ap_command :: string
  ap_timeout_ms :: int
  ap_scope :: string
  ap_notes :: string

definition MutationDiagnosticAdapterPolicies :: "bool \<Rightarrow> bool \<Rightarrow> adapter_policy list" where
  "MutationDiagnosticAdapterPolicies python node =
     (let typescriptStatus = (if node then ''conditional'' else ''diagnostics_not_configured'') in
      [\<lparr>ap_language = ''go'', ap_status = ''available'', ap_adapter = ''go/parser'', ap_command = '''', ap_timeout_ms = 0,
        ap_scope = ''syntax'', ap_notes = ''in-process parser diagnostic delta''\<rparr>,
       \<lparr>ap_language = ''python'', ap_status = (if python then ''available'' else ''diagnostics_not_configured''),
        ap_adapter = ''python/py_compile'', ap_command = ''python3'', ap_timeout_ms = 2000, ap_scope = ''syntax'',
        ap_notes = ''best-effort temp-file syntax diagnostic delta''\<rparr>,
       \<lparr>ap_language = ''typescript'', ap_status = typescriptStatus, ap_adapter = ''typescript/transpileModule'',
        ap_command = ''node'', ap_timeout_ms = 2000, ap_scope = ''syntax'',
        ap_notes = ''best-effort temp-file syntax diagnostic delta; requires a project-local or globally resolvable typescript module''\<rparr>,
       \<lparr>ap_language = ''javascript'', ap_status = typescriptStatus, ap_adapter = ''typescript/transpileModule'',
        ap_command = ''node'', ap_timeout_ms = 2000, ap_scope = ''syntax'',
        ap_notes = ''best-effort temp-file syntax diagnostic delta via TypeScript parser; requires a project-local or globally resolvable typescript module''\<rparr>])"

section \<open>What a report says\<close>

text \<open>The diagnostics do not touch the evidence of the change itself.\<close>

lemma annotated_evidence:
  "let m' = AnnotateMutationDiagnostics hash cp absPath basePath before b after a m in
   fm_changed m' = fm_changed m \<and> fm_before_hash m' = fm_before_hash m \<and> fm_after_hash m' = fm_after_hash m \<and>
   fm_path m' = fm_path m \<and> fm_line_delta m' = fm_line_delta m"
  by (simp add: AnnotateMutationDiagnostics_def Let_def split: prod.splits)

end
