(* ===== verification/File_Tools.thy ===== *)
theory File_Tools
  imports Read_Tracker Mutations
begin

text \<open>
  The tools an agent reads and changes files with, \<open>internal/tools/file.go\<close>: \<open>read_file\<close>, \<open>write_file\<close>,
  \<open>edit_file\<close>, \<open>glob\<close> and \<open>grep\<close>, as programs over the calls of \<open>File_Calls\<close>.  SHA-256, the compilers behind the
  diagnostics and the engine of regular expressions are arguments.
\<close>

section \<open>More of strings\<close>

definition rune_count :: "string \<Rightarrow> nat" where
  "rune_count s = length (filter (\<lambda>c. \<not> continuation c) s)"

text \<open>\<open>strings.Count\<close> and \<open>strings.Replace\<close>, once or everywhere; an empty text is found around every rune.\<close>

fun count_from :: "nat \<Rightarrow> string \<Rightarrow> string \<Rightarrow> nat" where
  "count_from 0 sub s = 0"
| "count_from (Suc n) sub [] = 0"
| "count_from (Suc n) sub (c # s) =
     (if prefix sub (c # s) then Suc (count_from n sub (drop (length sub) (c # s))) else count_from n sub s)"

definition strings_Count :: "string \<Rightarrow> string \<Rightarrow> nat" where
  "strings_Count s sub = (if sub = '''' then rune_count s + 1 else count_from (length s + 1) sub s)"

fun replace_once :: "string \<Rightarrow> string \<Rightarrow> string \<Rightarrow> string" where
  "replace_once old new [] = (if old = [] then new else [])"
| "replace_once old new (c # s) =
     (if prefix old (c # s) then new @ drop (length old) (c # s) else c # replace_once old new s)"

definition insert_between :: "string \<Rightarrow> string \<Rightarrow> string" where
  "insert_between new s = concat (map (\<lambda>c. if continuation c then [c] else new @ [c]) s) @ new"

definition replace_everywhere :: "string \<Rightarrow> string \<Rightarrow> string \<Rightarrow> string" where
  "replace_everywhere s old new = (if old = '''' then insert_between new s else ReplaceAll s old new)"

definition toolMaxOutputBytes :: nat where "toolMaxOutputBytes = 65536"

definition truncateOutput :: "string \<Rightarrow> nat \<Rightarrow> string" where
  "truncateOutput out limit =
     (if limit = 0 \<or> length out \<le> limit then out
      else
        (let suffix = [CHR 0x0A] @ ''... [output truncated to '' @ itoa (int limit) @ '' bytes]'' @ [CHR 0x0A]
         in take (limit - length suffix) out @ suffix))"

section \<open>Where a path leads\<close>

text \<open>What the context says of the session.\<close>

record file_ctx =
  fx_session :: string
  fx_root :: bool

definition sessionScopedPathsEnabled :: "file_ctx \<Rightarrow> bool" where
  "sessionScopedPathsEnabled cx \<longleftrightarrow> fx_root cx \<or> fx_session cx \<noteq> ''''"

definition SessionWorkDirFromContext :: "file_ctx \<Rightarrow> path_guard \<Rightarrow> (err + string) prog" where
  "SessionWorkDirFromContext cx g =
     (if fx_root cx then Ret (Inr (pg_work_dir g))
      else if fx_session cx = '''' then Ret (EnsureSessionWorkDir (\<lambda>_. None) g (fx_session cx))
      else MkdirAll (SessionWorkDir g (fx_session cx)) (\<lambda>a. Ret (EnsureSessionWorkDir (\<lambda>_. a) g (fx_session cx))))"

definition resolveFileTarget :: "path_guard \<Rightarrow> file_ctx \<Rightarrow> string \<Rightarrow> (err + string) prog" where
  "resolveFileTarget g cx rawPath =
     (if \<not> sessionScopedPathsEnabled cx then Ret (Resolve g rawPath)
      else pbind (SessionWorkDirFromContext cx g) (\<lambda>d.
        case d of
          Inl er \<Rightarrow> Ret (Inl er)
        | Inr sessionDir \<Rightarrow> Links (\<lambda>ev. Ret (ResolveSessionScoped ev sessionDir rawPath))))"

definition resolvedReadScope :: "path_guard \<Rightarrow> string \<Rightarrow> tool_scope" where
  "resolvedReadScope g rawPath =
     (case Resolve g rawPath of
        Inl _ \<Rightarrow> ConservativeScope
      | Inr dest \<Rightarrow> \<lparr>sc_read = [dest], sc_write = [], sc_network = False, sc_persistent = False\<rparr>)"

definition resolvedWriteScope :: "path_guard \<Rightarrow> string \<Rightarrow> tool_scope" where
  "resolvedWriteScope g rawPath =
     (case Resolve g rawPath of
        Inl _ \<Rightarrow> ConservativeScope
      | Inr dest \<Rightarrow> \<lparr>sc_read = [], sc_write = [dest], sc_network = False, sc_persistent = True\<rparr>)"

definition resolvedBaseReadScope :: "path_guard \<Rightarrow> string \<Rightarrow> tool_scope" where
  "resolvedBaseReadScope g rawPath =
     (if rawPath = '''' then \<lparr>sc_read = [pg_work_dir g], sc_write = [], sc_network = False, sc_persistent = False\<rparr>
      else resolvedReadScope g rawPath)"

definition resolveSearchBase :: "path_guard \<Rightarrow> file_ctx \<Rightarrow> string \<Rightarrow> string \<Rightarrow> (err + string) prog" where
  "resolveSearchBase g cx sessionBase rawPath =
     (if rawPath = '''' then Ret (Inr sessionBase)
      else if \<not> sessionScopedPathsEnabled cx then Ret (ResolveIn g sessionBase rawPath)
      else Links (\<lambda>ev.
        case ResolveSessionScoped ev sessionBase rawPath of
          Inl er \<Rightarrow> Ret (Inl er)
        | Inr scoped \<Rightarrow> Stat scoped (\<lambda>r. Ret
            (case r of
               Inl er \<Rightarrow> Inl (EWrap ''search path must resolve to a directory inside session workspace'' er)
             | Inr info \<Rightarrow>
                 if fi_is_dir info then Inr scoped
                 else Inl (EMsg ''search path must resolve to a directory inside session workspace'')))))"

definition success_result :: "string \<Rightarrow> exec_result" where
  "success_result out = \<lparr>rs_output = out, rs_is_error = False, rx_mutation = None\<rparr>"

text \<open>Every tool answers with a result and its tracker.\<close>

type_synonym tool_answer = "(exec_result \<times> read_tracker option) prog"

abbreviation answers_error :: "string \<Rightarrow> read_tracker option \<Rightarrow> tool_answer" where
  "answers_error msg tk \<equiv> Ret (error_result msg, tk)"

abbreviation answers_text :: "string \<Rightarrow> read_tracker option \<Rightarrow> tool_answer" where
  "answers_text out tk \<equiv> Ret (success_result out, tk)"

section \<open>read_file\<close>

record read_params =
  rp_path :: string
  rp_offset :: int
  rp_limit :: int

definition set_read_field :: "string \<Rightarrow> json \<Rightarrow> read_params \<Rightarrow> read_params \<times> bool" where
  "set_read_field k v p =
     (if k = ''file_path'' then (case dec_string v (rp_path p) of (x, ok) \<Rightarrow> (p\<lparr>rp_path := x\<rparr>, ok))
      else if k = ''offset'' then (case dec_int64 v (rp_offset p) of (x, ok) \<Rightarrow> (p\<lparr>rp_offset := x\<rparr>, ok))
      else if k = ''limit'' then (case dec_int64 v (rp_limit p) of (x, ok) \<Rightarrow> (p\<lparr>rp_limit := x\<rparr>, ok))
      else (p, True))"

definition numbered_line :: "nat \<Rightarrow> string \<Rightarrow> string" where
  "numbered_line n line =
     (let t = itoa (int n) in replicate (6 - length t) CHR '' '' @ t @ [CHR 0x09] @ line @ [CHR 0x0A])"

definition shown_lines :: "string \<Rightarrow> int \<Rightarrow> int \<Rightarrow> string" where
  "shown_lines data offset limit =
     (let lines = Split (CHR 0x0A) data; start = (if offset > 0 then nat (offset - 1) else 0) in
      if start \<ge> length lines then ''''
      else
        (let rest = drop start lines; chosen = (if limit > 0 then take (nat limit) rest else rest)
         in truncateOutput (concat (map (\<lambda>(i, l). numbered_line (start + i + 1) l) (enumerate 0 chosen))) toolMaxOutputBytes))"

definition ReadTool_Execute :: "path_guard \<Rightarrow> file_ctx \<Rightarrow> string \<Rightarrow> read_tracker option \<Rightarrow> tool_answer" where
  "ReadTool_Execute g cx params tk =
     (case unmarshal_struct set_read_field \<lparr>rp_path = '''', rp_offset = 0, rp_limit = 0\<rparr> params of
        (p, ok) \<Rightarrow>
          if \<not> ok then answers_error ''invalid params'' tk
          else pbind (resolveFileTarget g cx (rp_path p)) (\<lambda>r.
            case r of
              Inl er \<Rightarrow> answers_error (err_text er) tk
            | Inr dest \<Rightarrow> pbind (CheckRead dest (rp_offset p) (rp_limit p) tk) (\<lambda>(msg, tk').
                if msg \<noteq> '''' then answers_text msg tk'
                else ReadFile dest (\<lambda>a.
                  case a of
                    Inl er \<Rightarrow> answers_error (''read_file: '' @ err_text er) tk'
                  | Inr data \<Rightarrow>
                      if CHR 0x00 \<in> set (take 8192 data)
                      then answers_error (''read_file: '' @ rp_path p @ '' appears to be a binary file'') tk'
                      else answers_text (shown_lines data (rp_offset p) (rp_limit p)) tk'))))"

section \<open>What a change reports\<close>

definition MutationDisplayPath :: "file_ctx \<Rightarrow> path_guard \<Rightarrow> string \<Rightarrow> string \<Rightarrow> string prog" where
  "MutationDisplayPath cx g dest fallback =
     pbind (SessionWorkDirFromContext cx g) (\<lambda>d.
       case d of
         Inr base \<Rightarrow>
           if TrimSpace base \<noteq> '''' then Ret (relPath base dest)
           else if TrimSpace (pg_work_dir g) \<noteq> '''' then Ret (relPath (pg_work_dir g) dest)
           else Ret (cleanMutationPath fallback)
       | Inl _ \<Rightarrow>
           if TrimSpace (pg_work_dir g) \<noteq> '''' then Ret (relPath (pg_work_dir g) dest)
           else Ret (cleanMutationPath fallback))"

definition mutationDiagnosticsBasePath :: "file_ctx \<Rightarrow> path_guard \<Rightarrow> string prog" where
  "mutationDiagnosticsBasePath cx g =
     pbind (SessionWorkDirFromContext cx g) (\<lambda>d.
       Ret (case d of Inr base \<Rightarrow> if TrimSpace base \<noteq> '''' then base else pg_work_dir g | Inl _ \<Rightarrow> pg_work_dir g))"

record tool_deps =
  td_hash :: "string \<Rightarrow> string"
  td_compilers :: compilers

text \<open>The answer of a tool that has changed a file.\<close>

definition changed_file ::
  "tool_deps \<Rightarrow> path_guard \<Rightarrow> file_ctx \<Rightarrow> string \<Rightarrow> string \<Rightarrow> string \<Rightarrow> string \<Rightarrow> string \<Rightarrow> bool \<Rightarrow> string \<Rightarrow>
     read_tracker option \<Rightarrow> tool_answer" where
  "changed_file td g cx operation out dest rawPath before beforeExists after tk =
     pbind (MutationDisplayPath cx g dest rawPath) (\<lambda>shown.
     pbind (mutationDiagnosticsBasePath cx g) (\<lambda>base.
     Ret ((success_result out)\<lparr>rx_mutation := Some (AnnotateMutationDiagnostics (td_hash td) (td_compilers td) dest base
            before beforeExists after True (NewFileMutation (td_hash td) operation shown before beforeExists after True))\<rparr>,
          map_option (RefreshPath dest) tk)))"

section \<open>write_file\<close>

record write_params =
  wp_path :: string
  wp_content :: string

definition set_write_field :: "string \<Rightarrow> json \<Rightarrow> write_params \<Rightarrow> write_params \<times> bool" where
  "set_write_field k v p =
     (if k = ''file_path'' then (case dec_string v (wp_path p) of (x, ok) \<Rightarrow> (p\<lparr>wp_path := x\<rparr>, ok))
      else if k = ''content'' then (case dec_string v (wp_content p) of (x, ok) \<Rightarrow> (p\<lparr>wp_content := x\<rparr>, ok))
      else (p, True))"

definition write_atomically ::
  "tool_deps \<Rightarrow> path_guard \<Rightarrow> file_ctx \<Rightarrow> write_params \<Rightarrow> string \<Rightarrow> string \<Rightarrow> bool \<Rightarrow> read_tracker option \<Rightarrow> tool_answer" where
  "write_atomically td g cx p dest before beforeExists tk =
     CreateTemp (path_Dir dest) (\<lambda>t.
       case t of
         Inl er \<Rightarrow> answers_error (''write_file temp: '' @ err_text er) tk
       | Inr tmpName \<Rightarrow> WriteTemp tmpName (wp_content p) (\<lambda>a.
           case a of
             Some er \<Rightarrow> Remove tmpName (\<lambda>_. answers_error (''write_file: '' @ err_text er) tk)
           | None \<Rightarrow> Rename tmpName dest (\<lambda>a.
               case a of
                 Some er \<Rightarrow> Remove tmpName (\<lambda>_. answers_error (''write_file rename: '' @ err_text er) tk)
               | None \<Rightarrow> changed_file td g cx ''write_file'' (''wrote '' @ wp_path p) dest (wp_path p) before beforeExists
                   (wp_content p) tk)))"

definition WriteTool_Execute :: "tool_deps \<Rightarrow> path_guard \<Rightarrow> file_ctx \<Rightarrow> string \<Rightarrow> read_tracker option \<Rightarrow> tool_answer" where
  "WriteTool_Execute td g cx params tk =
     (case unmarshal_struct set_write_field \<lparr>wp_path = '''', wp_content = ''''\<rparr> params of
        (p, ok) \<Rightarrow>
          if \<not> ok then answers_error ''invalid params'' tk
          else
            (case CheckScope g (resolvedWriteScope g (wp_path p)) of
               Some er \<Rightarrow> answers_error (err_text er) tk
             | None \<Rightarrow> pbind (resolveFileTarget g cx (wp_path p)) (\<lambda>r.
                 case r of
                   Inl er \<Rightarrow> answers_error (err_text er) tk
                 | Inr dest \<Rightarrow> MkdirAll (path_Dir dest) (\<lambda>a.
                     case a of
                       Some er \<Rightarrow> answers_error (''write_file mkdir: '' @ err_text er) tk
                     | None \<Rightarrow> ReadFile dest (\<lambda>b.
                         case b of
                           Inr before \<Rightarrow>
                             if before = wp_content p
                             then answers_error (''write_file: content already matches '' @ wp_path p) tk
                             else write_atomically td g cx p dest before True tk
                         | Inl _ \<Rightarrow> write_atomically td g cx p dest '''' False tk)))))"

section \<open>edit_file\<close>

record edit_params =
  ep_path :: string
  ep_old :: string
  ep_new :: string
  ep_all :: bool

definition set_edit_field :: "string \<Rightarrow> json \<Rightarrow> edit_params \<Rightarrow> edit_params \<times> bool" where
  "set_edit_field k v p =
     (if k = ''file_path'' then (case dec_string v (ep_path p) of (x, ok) \<Rightarrow> (p\<lparr>ep_path := x\<rparr>, ok))
      else if k = ''old_string'' then (case dec_string v (ep_old p) of (x, ok) \<Rightarrow> (p\<lparr>ep_old := x\<rparr>, ok))
      else if k = ''new_string'' then (case dec_string v (ep_new p) of (x, ok) \<Rightarrow> (p\<lparr>ep_new := x\<rparr>, ok))
      else if k = ''replace_all'' then (case dec_bool v (ep_all p) of (x, ok) \<Rightarrow> (p\<lparr>ep_all := x\<rparr>, ok))
      else (p, True))"

definition edit_zero :: edit_params where
  "edit_zero = \<lparr>ep_path = '''', ep_old = '''', ep_new = '''', ep_all = False\<rparr>"

text \<open>\<open>strings.SplitAfter\<close> at the ends of lines, without an empty last line.\<close>

definition splitEditLines :: "string \<Rightarrow> string list" where
  "splitEditLines s =
     (let ls = Split (CHR 0x0A) s in
      map (\<lambda>l. l @ [CHR 0x0A]) (butlast ls) @ (if last ls = '''' then [] else [last ls]))"

definition TrimLeftSet :: "char set \<Rightarrow> string \<Rightarrow> string" where
  "TrimLeftSet cs s = dropWhile (\<lambda>c. c \<in> cs) s"

abbreviation trim_indent :: "string \<Rightarrow> string" where
  "trim_indent \<equiv> TrimLeftSet {CHR '' '', CHR 0x09}"

definition lineBody :: "string \<Rightarrow> string" where
  "lineBody line = TrimSuffix (TrimSuffix line [CHR 0x0A]) [CHR 0x0D]"

definition lineEnding :: "string \<Rightarrow> string" where
  "lineEnding line =
     (if HasSuffix line [CHR 0x0D, CHR 0x0A] then [CHR 0x0D, CHR 0x0A]
      else if HasSuffix line [CHR 0x0A] then [CHR 0x0A] else '''')"

definition leadingWhitespace :: "string \<Rightarrow> string" where
  "leadingWhitespace s = take (length s - length (trim_indent s)) s"

definition linesMatchIgnoringIndent :: "string list \<Rightarrow> string list \<Rightarrow> bool" where
  "linesMatchIgnoringIndent os ls \<longleftrightarrow>
     length os = length ls \<and> list_all2 (\<lambda>a b. trim_indent (lineBody a) = trim_indent (lineBody b)) os ls"

definition firstNonBlankIndent :: "string list \<Rightarrow> string" where
  "firstNonBlankIndent ls =
     (case find (\<lambda>l. TrimSpace (lineBody l) \<noteq> '''') ls of None \<Rightarrow> '''' | Some l \<Rightarrow> leadingWhitespace (lineBody l))"

definition adjustReplacementIndent :: "string \<Rightarrow> string \<Rightarrow> string \<Rightarrow> string" where
  "adjustReplacementIndent newString oldBase targetBase =
     concat (map (\<lambda>line.
       if TrimSpace (lineBody line) \<noteq> '''' \<and> oldBase \<noteq> '''' \<and> HasPrefix (lineBody line) oldBase
       then targetBase @ TrimPrefix (lineBody line) oldBase @ lineEnding line else line) (splitEditLines newString))"

text \<open>The blocks of lines that match: the first line, the first byte and the end of each.\<close>

fun edit_matches :: "string list \<Rightarrow> nat \<Rightarrow> nat \<Rightarrow> string list \<Rightarrow> (nat \<times> nat \<times> nat) list" where
  "edit_matches oldLines i off [] = []"
| "edit_matches oldLines i off (l # ls) =
     (if length (l # ls) < length oldLines then []
      else
        (let block = take (length oldLines) (l # ls) in
         (if linesMatchIgnoringIndent block oldLines then [(i, off, off + length (concat block))] else []) @
         edit_matches oldLines (Suc i) (off + length l) ls))"

text \<open>The new text, or the reason why there is none, if there is one.\<close>

definition indentInsensitiveReplacement :: "string \<Rightarrow> string \<Rightarrow> string \<Rightarrow> bool \<Rightarrow> string + string" where
  "indentInsensitiveReplacement original oldString newString replaceAll =
     (let originalLines = splitEditLines original; oldLines = splitEditLines oldString; n = length oldLines in
      if replaceAll \<or> CHR 0x0A \<notin> set oldString \<or> TrimSpace oldString = '''' then Inl ''''
      else if n < 2 \<or> n > length originalLines then Inl ''''
      else
        (case edit_matches oldLines 0 0 originalLines of
           [] \<Rightarrow> Inl ''''
         | [(lineStart, byteStart, byteEnd)] \<Rightarrow>
             (let block = take n (drop lineStart originalLines);
                  adjusted = adjustReplacementIndent newString (firstNonBlankIndent oldLines) (firstNonBlankIndent block);
                  ending = lineEnding (originalLines ! (lineStart + n - 1))
              in Inr (take byteStart original @
                   (if ending \<noteq> '''' \<and> \<not> HasSuffix adjusted [CHR 0x0A] then adjusted @ ending else adjusted) @
                   drop byteEnd original))
         | ms \<Rightarrow> Inl (''indent-insensitive old_string found '' @ itoa (int (length ms)) @ '' times'')))"

definition write_edited ::
  "tool_deps \<Rightarrow> path_guard \<Rightarrow> file_ctx \<Rightarrow> edit_params \<Rightarrow> string \<Rightarrow> string \<Rightarrow> string \<Rightarrow> string \<Rightarrow> read_tracker option \<Rightarrow> tool_answer" where
  "write_edited td g cx p note dest original updated tk =
     WriteFile dest updated (\<lambda>a.
       case a of
         Some er \<Rightarrow> answers_error (''edit_file write: '' @ err_text er) tk
       | None \<Rightarrow> changed_file td g cx ''edit_file'' (''edited '' @ ep_path p @ note) dest (ep_path p) original True updated tk)"

definition edit_content ::
  "tool_deps \<Rightarrow> path_guard \<Rightarrow> file_ctx \<Rightarrow> edit_params \<Rightarrow> string \<Rightarrow> string \<Rightarrow> read_tracker option \<Rightarrow> tool_answer" where
  "edit_content td g cx p dest original tk =
     (if ep_old p = ep_new p
      then answers_error (''edit_file: old_string and new_string are identical in '' @ ep_path p) tk
      else
        (let count = strings_Count original (ep_old p) in
         if count = 0 then
           (case indentInsensitiveReplacement original (ep_old p) (ep_new p) (ep_all p) of
              Inr updated \<Rightarrow> write_edited td g cx p '' (indent-insensitive match)'' dest original updated tk
            | Inl errMsg \<Rightarrow>
                if errMsg \<noteq> '''' then answers_error (''edit_file: '' @ errMsg @ '' in '' @ ep_path p) tk
                else answers_error (''edit_file: old_string not found in '' @ ep_path p) tk)
         else if \<not> ep_all p \<and> count > 1
         then answers_error (''edit_file: old_string found '' @ itoa (int count) @ '' times in '' @ ep_path p @
           '' (use replace_all=true or make it unique)'') tk
         else write_edited td g cx p '''' dest original
           (if ep_all p then replace_everywhere original (ep_old p) (ep_new p)
            else replace_once (ep_old p) (ep_new p) original) tk))"

definition edit_target ::
  "tool_deps \<Rightarrow> path_guard \<Rightarrow> file_ctx \<Rightarrow> edit_params \<Rightarrow> read_tracker option \<Rightarrow> err + string \<Rightarrow> tool_answer" where
  "edit_target td g cx p tk r =
     (case r of
        Inl er \<Rightarrow> answers_error (err_text er) tk
      | Inr dest \<Rightarrow> ReadFile dest (\<lambda>a.
          case a of
            Inl er \<Rightarrow> answers_error (''edit_file read: '' @ err_text er) tk
          | Inr original \<Rightarrow> edit_content td g cx p dest original tk))"

definition EditTool_Execute :: "tool_deps \<Rightarrow> path_guard \<Rightarrow> file_ctx \<Rightarrow> string \<Rightarrow> read_tracker option \<Rightarrow> tool_answer" where
  "EditTool_Execute td g cx params tk =
     (case unmarshal_struct set_edit_field edit_zero params of
        (p, ok) \<Rightarrow>
          if \<not> ok then answers_error ''invalid params'' tk
          else
            (case CheckScope g (resolvedWriteScope g (ep_path p)) of
               Some er \<Rightarrow> answers_error (err_text er) tk
             | None \<Rightarrow> pbind (resolveFileTarget g cx (ep_path p)) (edit_target td g cx p tk)))"

section \<open>Patterns of names\<close>

text \<open>
  \<open>filepath.Match\<close>, True where it matches without an error.  A rune is its bytes, and the order of runes that of
  their bytes.
\<close>

definition first_rune :: "string \<Rightarrow> string" where
  "first_rune s = take (1 + length (takeWhile continuation (tl s))) s"

definition class_rune :: "string \<Rightarrow> (string \<times> string) option" where
  "class_rune p =
     (let q = (if p \<noteq> [] \<and> hd p = CHR 0x5C then tl p else p) in
      if p = [] \<or> hd p = CHR ''-'' \<or> hd p = CHR '']'' \<or> q = [] then None
      else
        (let r = first_rune q; rest = drop (length r) q in if rest = [] then None else Some (r, rest)))"

text \<open>The ranges of a class up to its end: whether one holds the rune, and what follows.\<close>

fun class_ranges :: "nat \<Rightarrow> bool \<Rightarrow> bool \<Rightarrow> string \<Rightarrow> string \<Rightarrow> (bool \<times> string) option" where
  "class_ranges 0 some hit r p = None"
| "class_ranges (Suc n) some hit r p =
     (if some \<and> p \<noteq> [] \<and> hd p = CHR '']'' then Some (hit, tl p)
      else
        (case class_rune p of
           None \<Rightarrow> None
         | Some (lo, rest) \<Rightarrow>
             (case (if hd rest = CHR ''-'' then class_rune (tl rest) else Some (lo, rest)) of
                None \<Rightarrow> None
              | Some (hi, rest') \<Rightarrow> class_ranges n True (hit \<or> (lo \<le> r \<and> r \<le> hi)) r rest')))"

definition match_class :: "string \<Rightarrow> string \<Rightarrow> (bool \<times> string) option" where
  "match_class r p =
     (let negated = (p \<noteq> [] \<and> hd p = CHR ''^'') in
      map_option (apfst (\<lambda>hit. hit \<noteq> negated)) (class_ranges (length p + 1) False False r (if negated then tl p else p)))"

fun match_name :: "nat \<Rightarrow> string \<Rightarrow> string \<Rightarrow> bool" where
  "match_name 0 p s = False"
| "match_name (Suc n) [] s \<longleftrightarrow> s = []"
| "match_name (Suc n) (c # p) s \<longleftrightarrow>
     (if c = CHR ''*'' then
        match_name n p s \<or> (s \<noteq> [] \<and> hd s \<noteq> CHR ''/'' \<and> match_name n (c # p) (tl s))
      else if s = [] then False
      else if c = CHR ''?'' then hd s \<noteq> CHR ''/'' \<and> match_name n p (drop (length (first_rune s)) s)
      else if c = CHR ''['' then
        (case match_class (first_rune s) p of
           Some (True, rest) \<Rightarrow> match_name n rest (drop (length (first_rune s)) s)
         | _ \<Rightarrow> False)
      else if c = CHR 0x5C then (case p of d # q \<Rightarrow> d = hd s \<and> match_name n q (tl s) | [] \<Rightarrow> False)
      else c = hd s \<and> match_name n p (tl s))"

definition path_Match :: "string \<Rightarrow> string \<Rightarrow> bool" where
  "path_Match pat name = match_name (length pat + length name + 1) pat name"

section \<open>glob\<close>

record glob_params =
  gp_pattern :: string
  gp_path :: string

definition set_glob_field :: "string \<Rightarrow> json \<Rightarrow> glob_params \<Rightarrow> glob_params \<times> bool" where
  "set_glob_field k v p =
     (if k = ''pattern'' then (case dec_string v (gp_pattern p) of (x, ok) \<Rightarrow> (p\<lparr>gp_pattern := x\<rparr>, ok))
      else if k = ''path'' then (case dec_string v (gp_path p) of (x, ok) \<Rightarrow> (p\<lparr>gp_path := x\<rparr>, ok))
      else (p, True))"

record file_entry =
  fe_path :: string
  fe_mtime :: int

definition rel_or_empty :: "string \<Rightarrow> string \<Rightarrow> string" where
  "rel_or_empty base p = (case path_Rel base p of Some rel \<Rightarrow> rel | None \<Rightarrow> '''')"

text \<open>What stands before the first two stars and after them.\<close>

fun split_stars :: "string \<Rightarrow> string \<times> string" where
  "split_stars (a # b # s) =
     (if a = CHR ''*'' \<and> b = CHR ''*'' then ('''', s) else apfst (Cons a) (split_stars (b # s)))"
| "split_stars s = (s, '''')"

definition walked_entry :: "string \<Rightarrow> string \<Rightarrow> walk_entry \<Rightarrow> file_entry option" where
  "walked_entry baseDir tail e =
     (if we_skip e then None
      else
        (case path_Rel baseDir (we_path e) of
           None \<Rightarrow> None
         | Some rel \<Rightarrow>
             if tail \<noteq> '''' \<and> \<not> path_Match tail (path_Base (we_path e)) then None
             else map_option (\<lambda>i. \<lparr>fe_path = rel, fe_mtime = fi_mtime i\<rparr>) (we_info e)))"

definition recursiveGlob :: "string \<Rightarrow> string \<Rightarrow> string \<Rightarrow> file_entry list prog" where
  "recursiveGlob searchBase baseDir pat =
     (case split_stars pat of
        (before, after) \<Rightarrow>
          WalkDir (path_Join [searchBase, Clean before]) (\<lambda>es.
            Ret (List.map_filter (walked_entry baseDir (TrimPrefix after ''/'')) es)))"

fun found_entries :: "string \<Rightarrow> string list \<Rightarrow> file_entry list prog" where
  "found_entries base [] = Ret []"
| "found_entries base (f # fs) = Lstat f (\<lambda>r. pbind (found_entries base fs) (\<lambda>es. Ret
     (case r of
        Inr i \<Rightarrow> if fi_is_dir i then es else \<lparr>fe_path = rel_or_empty base f, fe_mtime = fi_mtime i\<rparr> # es
      | Inl _ \<Rightarrow> es)))"

definition glob_answer :: "file_entry list \<Rightarrow> exec_result" where
  "glob_answer es =
     (if es = [] then success_result ''(no matches)''
      else success_result (Join [CHR 0x0A] (map fe_path (sort_key (\<lambda>e. - fe_mtime e) es))))"

definition glob_in :: "string \<Rightarrow> string \<Rightarrow> string \<Rightarrow> exec_result prog" where
  "glob_in searchBase sessionBase pat =
     (if Contains pat ''**'' then pbind (recursiveGlob searchBase sessionBase pat) (\<lambda>es. Ret (glob_answer es))
      else Glob (path_Join [searchBase, pat]) (\<lambda>r.
        case r of
          Inl er \<Rightarrow> Ret (error_result (''glob: '' @ err_text er))
        | Inr found \<Rightarrow> pbind (found_entries sessionBase found) (\<lambda>es. Ret (glob_answer es))))"

definition GlobTool_Execute :: "path_guard \<Rightarrow> file_ctx \<Rightarrow> string \<Rightarrow> exec_result prog" where
  "GlobTool_Execute g cx params =
     (case unmarshal_struct set_glob_field \<lparr>gp_pattern = '''', gp_path = ''''\<rparr> params of
        (p, ok) \<Rightarrow>
          if \<not> ok then Ret (error_result ''invalid params'')
          else pbind (SessionWorkDirFromContext cx g) (\<lambda>d.
            case d of
              Inl er \<Rightarrow> Ret (error_result (''session workspace: '' @ err_text er))
            | Inr sessionBase \<Rightarrow> pbind (resolveSearchBase g cx sessionBase (gp_path p)) (\<lambda>r.
                case r of
                  Inl er \<Rightarrow> Ret (error_result (err_text er))
                | Inr searchBase \<Rightarrow> glob_in searchBase sessionBase (gp_pattern p))))"

section \<open>grep\<close>

definition grepMaxMatches :: nat where "grepMaxMatches = 100"

record grep_params =
  gr_pattern :: string
  gr_path :: string
  gr_include :: string

definition set_grep_field :: "string \<Rightarrow> json \<Rightarrow> grep_params \<Rightarrow> grep_params \<times> bool" where
  "set_grep_field k v p =
     (if k = ''pattern'' then (case dec_string v (gr_pattern p) of (x, ok) \<Rightarrow> (p\<lparr>gr_pattern := x\<rparr>, ok))
      else if k = ''path'' then (case dec_string v (gr_path p) of (x, ok) \<Rightarrow> (p\<lparr>gr_path := x\<rparr>, ok))
      else if k = ''include'' then (case dec_string v (gr_include p) of (x, ok) \<Rightarrow> (p\<lparr>gr_include := x\<rparr>, ok))
      else (p, True))"

text \<open>The matching lines of one file, as many as there is still room for.\<close>

definition grep_lines :: "(string \<Rightarrow> bool) \<Rightarrow> string \<Rightarrow> string \<Rightarrow> nat \<Rightarrow> string list" where
  "grep_lines re rel data room =
     take room (map (\<lambda>(i, line). rel @ '':'' @ itoa (int i + 1) @ '': '' @ line @ [CHR 0x0A])
       (filter (\<lambda>(i, line). re line) (enumerate 0 (Split (CHR 0x0A) data))))"

text \<open>The files one after the other, until there are enough matches.\<close>

fun grep_files :: "(string \<Rightarrow> bool) \<Rightarrow> string \<Rightarrow> string \<Rightarrow> walk_entry list \<Rightarrow> string list \<Rightarrow> string list prog" where
  "grep_files re base incl [] acc = Ret acc"
| "grep_files re base incl (e # es) acc =
     (if we_skip e \<or> (incl \<noteq> '''' \<and> \<not> path_Match incl (path_Base (we_path e))) then grep_files re base incl es acc
      else if length acc \<ge> grepMaxMatches then Ret acc
      else ReadFile (we_path e) (\<lambda>a.
        case a of
          Inl _ \<Rightarrow> grep_files re base incl es acc
        | Inr data \<Rightarrow> grep_files re base incl es
            (acc @ grep_lines re (rel_or_empty base (we_path e)) data (grepMaxMatches - length acc))))"

definition grep_answer :: "string list \<Rightarrow> exec_result" where
  "grep_answer ls =
     (if ls = [] then success_result ''(no matches)''
      else success_result (concat ls @
        (if length ls \<ge> grepMaxMatches
         then ''... (output truncated at '' @ itoa (int grepMaxMatches) @ '' matches)'' @ [CHR 0x0A] else '''')))"

definition GrepTool_Execute ::
  "(string \<Rightarrow> err + (string \<Rightarrow> bool)) \<Rightarrow> path_guard \<Rightarrow> file_ctx \<Rightarrow> string \<Rightarrow> read_tracker option \<Rightarrow> tool_answer" where
  "GrepTool_Execute compile g cx params tk =
     (case unmarshal_struct set_grep_field \<lparr>gr_pattern = '''', gr_path = '''', gr_include = ''''\<rparr> params of
        (p, ok) \<Rightarrow>
          if \<not> ok then answers_error ''invalid params'' tk
          else
            (case compile (gr_pattern p) of
               Inl er \<Rightarrow> answers_error (''grep: invalid pattern: '' @ err_text er) tk
             | Inr re \<Rightarrow> pbind (SessionWorkDirFromContext cx g) (\<lambda>d.
                 case d of
                   Inl er \<Rightarrow> answers_error (''session workspace: '' @ err_text er) tk
                 | Inr sessionBase \<Rightarrow> pbind (resolveSearchBase g cx sessionBase (gr_path p)) (\<lambda>r.
                     case r of
                       Inl er \<Rightarrow> answers_error (err_text er) tk
                     | Inr searchRoot \<Rightarrow> pbind (CheckGrep searchRoot (gr_pattern p) tk) (\<lambda>(msg, tk').
                         if msg \<noteq> '''' then answers_text msg tk'
                         else WalkDir searchRoot (\<lambda>es.
                           pbind (grep_files re sessionBase (gr_include p) es []) (\<lambda>ls. Ret (grep_answer ls, tk'))))))))"

section \<open>Which files are touched\<close>

text \<open>The file whose content a call reads or replaces.\<close>

fun touched :: "event \<Rightarrow> string option" where
  "touched (DidRead p a) = Some p"
| "touched (DidWrite p t a) = Some p"
| "touched (DidRename q p a) = Some p"
| "touched _ = None"

definition touching :: "string set \<Rightarrow> event \<Rightarrow> bool" where
  "touching ps e \<longleftrightarrow> (\<forall>p. touched e = Some p \<longrightarrow> p \<in> ps)"

lemma touching_simps [simp]:
  "touching ps (DidRead p a) \<longleftrightarrow> p \<in> ps" "touching ps (DidWrite p t b) \<longleftrightarrow> p \<in> ps" "touching ps (DidRename q p b) \<longleftrightarrow> p \<in> ps"
  "touched e = None \<Longrightarrow> touching ps e"
  by (simp_all add: touching_def)

lemma session_dir_quiet [simp]: "every (touching ps) (SessionWorkDirFromContext cx g)"
  by (simp add: SessionWorkDirFromContext_def)

lemma session_dir_value:
  "goes (SessionWorkDirFromContext cx g) tr (Inr d) \<Longrightarrow> d = (if fx_root cx then pg_work_dir g else SessionWorkDir g (fx_session cx))"
  by (auto simp: SessionWorkDirFromContext_def EnsureSessionWorkDir_def Let_def split: if_splits option.splits)

lemma target_quiet [simp]: "every (touching ps) (resolveFileTarget g cx raw)"
  by (auto simp: resolveFileTarget_def intro!: every_bind split: sum.splits)

lemma check_quiet [simp]: "every (touching ps) (check k tk)"
  by (auto simp: check_def trackedModTime_def intro!: every_bind split: sum.splits option.splits)

lemma changed_file_quiet [simp]: "every (touching ps) (changed_file td g cx op out dest raw before b after tk)"
  by (auto simp: changed_file_def MutationDisplayPath_def mutationDiagnosticsBasePath_def intro!: every_bind split: sum.splits)

lemma write_touches [simp]: "every (touching {dest}) (write_atomically td g cx p dest before b tk)"
  by (auto simp: write_atomically_def split: sum.splits option.splits)

lemma edit_touches [simp]: "every (touching {dest}) (edit_content td g cx p dest original tk)"
  by (auto simp: edit_content_def write_edited_def Let_def split: sum.splits option.splits list.splits)

text \<open>A tool that resolves a path first and then works on what it leads to.\<close>

definition works_on :: "path_guard \<Rightarrow> file_ctx \<Rightarrow> string \<Rightarrow> 'a prog \<Rightarrow> bool" where
  "works_on g cx raw q \<longleftrightarrow> (\<forall>tr r. goes q tr r \<longrightarrow> list_all (touching {}) tr \<or>
     (\<exists>t1 t2 dest. tr = t1 @ t2 \<and> goes (resolveFileTarget g cx raw) t1 (Inr dest) \<and> list_all (touching {dest}) t2))"

lemma works_onI:
  assumes "\<And>dest. every (touching {dest}) (f (Inr dest))" and "\<And>er. every (touching {}) (f (Inl er))"
  shows "works_on g cx raw (pbind (resolveFileTarget g cx raw) f)"
  unfolding works_on_def
proof (intro allI impI)
  fix tr r
  assume "goes (pbind (resolveFileTarget g cx raw) f) tr r"
  then obtain t1 t2 x where run: "tr = t1 @ t2" "goes (resolveFileTarget g cx raw) t1 x" "goes (f x) t2 r"
    by (auto simp: goes_bind)
  show "list_all (touching {}) tr \<or> (\<exists>t1 t2 dest. tr = t1 @ t2 \<and> goes (resolveFileTarget g cx raw) t1 (Inr dest) \<and> list_all (touching {dest}) t2)"
  proof (cases x)
    case (Inl er)
    with run every_goes[OF run(2) target_quiet, of "{}"] every_goes[OF run(3), of "touching {}"] assms(2) show ?thesis by simp
  next
    case (Inr dest)
    with run every_goes[OF run(3)] assms(1) show ?thesis by blast
  qed
qed

lemma works_on_answer [simp]: "works_on g cx raw (Ret x)"
  by (simp add: works_on_def)

lemma tools_work_on:
  "\<exists>raw. works_on g cx raw (ReadTool_Execute g cx params tk)"
  "\<exists>raw. works_on g cx raw (WriteTool_Execute td g cx params tk)"
  "\<exists>raw. works_on g cx raw (EditTool_Execute td g cx params tk)"
proof -
  show "\<exists>raw. works_on g cx raw (ReadTool_Execute g cx params tk)"
    by (rule exI[of _ "rp_path (fst (unmarshal_struct set_read_field \<lparr>rp_path = '''', rp_offset = 0, rp_limit = 0\<rparr> params))"])
      (auto simp: ReadTool_Execute_def CheckRead_def split: prod.splits if_splits sum.splits intro!: works_onI every_bind)
  show "\<exists>raw. works_on g cx raw (WriteTool_Execute td g cx params tk)"
    by (rule exI[of _ "wp_path (fst (unmarshal_struct set_write_field \<lparr>wp_path = '''', wp_content = ''''\<rparr> params))"])
      (auto simp: WriteTool_Execute_def split: prod.splits if_splits sum.splits option.splits intro!: works_onI)
  show "\<exists>raw. works_on g cx raw (EditTool_Execute td g cx params tk)"
    by (rule exI[of _ "ep_path (fst (unmarshal_struct set_edit_field edit_zero params))"])
      (auto simp: EditTool_Execute_def edit_target_def split: prod.splits if_splits sum.splits option.splits intro!: works_onI)
qed

text \<open>
  A path is kept within a directory: the deepest directory on it that exists is really at \<open>dir\<close>, nothing below that
  exists yet, and \<open>dir\<close> with the missing names after it is at or under the real place of the directory, component by
  component; no missing name goes up.
\<close>

definition kept_within :: "(string \<Rightarrow> err + string) \<Rightarrow> string \<Rightarrow> string \<Rightarrow> bool" where
  "kept_within ev base path \<longleftrightarrow> (\<exists>root dir there missing. ev base = Inr root \<and> path = path_text True (there @ missing) \<and>
     ev (path_text True there) = Inr dir \<and> ''..'' \<notin> set missing \<and>
     (\<forall>n. length there < n \<and> n \<le> length (there @ missing) \<longrightarrow>
        (\<exists>er. ev (path_text True (take n (there @ missing))) = Inl er)) \<and>
     prefix (clean_comps root) (clean_comps dir @ missing))"

definition session_top :: "path_guard \<Rightarrow> file_ctx \<Rightarrow> string" where
  "session_top g cx = (if fx_root cx then pg_work_dir g else SessionWorkDir g (fx_session cx))"

lemma session_top_abs: "IsAbs (pg_work_dir g) \<Longrightarrow> IsAbs (session_top g cx)"
proof -
  assume abs: "IsAbs (pg_work_dir g)"
  then have "pg_work_dir g \<noteq> ''''" by (auto simp: IsAbs_def HasPrefix_def)
  moreover have "IsAbs (pg_work_dir g @ x)" for x using abs by (auto simp: IsAbs_def HasPrefix_def)
  ultimately have "IsAbs (path_Join (pg_work_dir g # es))" for es
    using abs by (cases "filter (\<lambda>e. e \<noteq> '''') es") (auto simp: path_Join_def comps_Clean(2))
  with abs show ?thesis by (simp add: session_top_def SessionWorkDir_def)
qed

text \<open>
  C37: The file tools of a session stay in its directory.  Along every way through \<open>read_file\<close>, \<open>write_file\<close> and
  \<open>edit_file\<close>, whatever the calls answer, each file whose content is read or replaced is kept within the session's
  directory by the links as they were when the path was resolved.
\<close>

theorem file_tools_stay_within:
  assumes "goes q tr r" and "q \<in> {ReadTool_Execute g cx params tk, WriteTool_Execute td g cx params tk, EditTool_Execute td g cx params tk}"
    and "sessionScopedPathsEnabled cx" and "IsAbs (pg_work_dir g)"
    and "\<And>ev p x. AskedLinks ev \<in> set tr \<Longrightarrow> IsAbs p \<Longrightarrow> ev p = Inr x \<Longrightarrow> IsAbs x"
    and "e \<in> set tr" and "touched e = Some path"
  shows "\<exists>ev. AskedLinks ev \<in> set tr \<and> kept_within ev (session_top g cx) path"
proof -
  obtain raw where "works_on g cx raw q" using assms(2) tools_work_on by blast
  then obtain t1 t2 dest where run: "tr = t1 @ t2" "goes (resolveFileTarget g cx raw) t1 (Inr dest)" "list_all (touching {dest}) t2"
    using assms(1,6,7) unfolding works_on_def list_all_iff touching_def by blast
  have "path = dest"
    using every_goes[OF run(2) target_quiet, of "{}"] assms(6,7) run(1,3) by (auto simp: list_all_iff touching_def)
  from run(2) assms(3) obtain u1 u2 x where bound: "t1 = u1 @ u2" "goes (SessionWorkDirFromContext cx g) u1 x"
    and rest: "goes (case x of Inl er \<Rightarrow> Ret (Inl er) | Inr d \<Rightarrow> Links (\<lambda>ev. Ret (ResolveSessionScoped ev d raw))) u2 (Inr dest)"
    by (auto simp: resolveFileTarget_def goes_bind)
  from rest obtain d ev0 where last: "x = Inr d" "u2 = [AskedLinks ev0]" "ResolveSessionScoped ev0 d raw = Inr dest"
    by (cases x) auto
  then obtain ev where ev: "AskedLinks ev \<in> set t1" "ResolveSessionScoped ev (session_top g cx) raw = Inr dest"
    using session_dir_value[of cx g u1 d] bound by (auto simp: session_top_def)
  have "kept_within ev (session_top g cx) dest"
    unfolding kept_within_def
    by (rule session_scope_contained[OF ev(2) session_top_abs[OF assms(4)]]) (use assms(5) ev(1) run(1) in auto)
  with ev(1) run(1) \<open>path = dest\<close> show ?thesis by auto
qed

section \<open>What an edit does\<close>

lemma Join_first_char: "Join sep ((x # p) # ps) = x # Join sep (p # ps)"
  by (cases ps) simp_all

lemma Join_cons_Nil: "ps \<noteq> [] \<Longrightarrow> Join [x] ([] # ps) = x # Join [x] ps"
  by (cases ps) simp_all

lemma Split_then_Join: "Join [x] (Split x s) = s"
  by (induction x s rule: Split.induct) (auto simp: Join_first_char Join_cons_Nil split: list.splits)

lemma Join_lines: "ls \<noteq> [] \<Longrightarrow> concat (map (\<lambda>l. l @ [x]) (butlast ls)) @ last ls = Join [x] ls"
  by (induction ls rule: induct_list012) auto

lemma concat_splitEditLines: "concat (splitEditLines s) = s"
  using Join_lines[of "Split (CHR 0x0A) s" "CHR 0x0A"]
  by (cases "last (Split (CHR 0x0A) s) = ''''") (simp_all add: splitEditLines_def Let_def Split_then_Join)

lemma count_from_0: "sub \<noteq> [] \<Longrightarrow> length s < n \<Longrightarrow> count_from n sub s = 0 \<longleftrightarrow> \<not> Contains s sub"
  by (induction n sub s rule: count_from.induct) auto

lemma Count_0: "strings_Count s sub = 0 \<longleftrightarrow> \<not> Contains s sub"
  by (cases s) (auto simp: strings_Count_def count_from_0)

lemma replace_once_splits:
  "Contains s old \<Longrightarrow> \<exists>pre post. s = pre @ old @ post \<and> replace_once old new s = pre @ new @ post"
proof (induction s)
  case (Cons c s)
  show ?case
  proof (cases "prefix old (c # s)")
    case True
    then obtain post where post: "c # s = old @ post" by (auto simp: prefix_def)
    have "replace_once old new (c # s) = new @ drop (length old) (c # s)" using True by simp
    also have "drop (length old) (c # s) = post" unfolding post by simp
    finally show ?thesis using post by (intro exI[of _ "[]"] exI[of _ post]) (simp del: replace_once.simps)
  next
    case False
    with Cons obtain pre post where "s = pre @ old @ post" "replace_once old new s = pre @ new @ post" by auto
    with False show ?thesis by (intro exI[of _ "c # pre"] exI[of _ post]) auto
  qed
qed auto

lemma edit_matches_sound:
  "(i, b, e) \<in> set (edit_matches old i0 off ls) \<Longrightarrow> \<exists>A B C. ls = A @ B @ C \<and> i = i0 + length A \<and>
     b = off + length (concat A) \<and> e = b + length (concat B) \<and> length B = length old \<and> linesMatchIgnoringIndent B old"
proof (induction old i0 off ls rule: edit_matches.induct)
  case (2 old i0 off l ls)
  from 2(2) have long: "length old \<le> length (l # ls)" by (auto split: if_splits)
  consider (here) "i = i0" "b = off" "e = off + length (concat (take (length old) (l # ls)))"
      "linesMatchIgnoringIndent (take (length old) (l # ls)) old"
    | (later) "(i, b, e) \<in> set (edit_matches old (Suc i0) (off + length l) ls)"
    using 2(2) by (auto simp: Let_def split: if_splits)
  then show ?case
  proof cases
    case here
    then show ?thesis
      using long by (intro exI[of _ "[]"] exI[of _ "take (length old) (l # ls)"] exI[of _ "drop (length old) (l # ls)"])
        (simp del: take_Cons')
  next
    case later
    from 2(1)[OF _ refl later] long obtain A B C where "ls = A @ B @ C" "i = Suc i0 + length A"
      "b = off + length l + length (concat A)" "e = b + length (concat B)" "length B = length old" "linesMatchIgnoringIndent B old"
      by fastforce
    then show ?thesis by (intro exI[of _ "l # A"] exI[of _ B] exI[of _ C]) simp
  qed
qed simp

lemma edit_matches_complete:
  "linesMatchIgnoringIndent B old \<Longrightarrow> old \<noteq> [] \<Longrightarrow>
   i0 + length A \<in> fst ` set (edit_matches old i0 off (A @ B @ C))"
proof (induction A arbitrary: i0 off)
  case Nil
  then have len: "length B = length old" by (simp add: linesMatchIgnoringIndent_def)
  then have "take (length old) (B @ C) = B" by (simp flip: len)
  moreover obtain b B' where "B = b # B'" using Nil(2) len by (cases B) auto
  ultimately show ?case using Nil len by (simp add: Let_def image_iff del: take_Cons')
next
  case (Cons a A)
  have "length B = length old" using Cons.prems by (simp add: linesMatchIgnoringIndent_def)
  moreover have "Suc i0 + length A \<in> fst ` set (edit_matches old (Suc i0) (off + length a) (A @ B @ C))"
    using Cons by blast
  ultimately show ?case by (auto simp: Let_def)
qed

text \<open>
  An exact edit puts the new text for the old one: everywhere, or at the only place where it is found.  An edit that minds no
  indentation replaces the only block of lines that agree with those of the old text but for the white space they
  begin with, and leaves all others alone.
\<close>

definition exact_edit :: "edit_params \<Rightarrow> string \<Rightarrow> string \<Rightarrow> bool" where
  "exact_edit p original updated \<longleftrightarrow> Contains original (ep_old p) \<and>
     (if ep_all p then updated = replace_everywhere original (ep_old p) (ep_new p)
      else strings_Count original (ep_old p) = 1 \<and>
        (\<exists>pre post. original = pre @ ep_old p @ post \<and> updated = pre @ ep_new p @ post))"

definition indented_edit :: "edit_params \<Rightarrow> string \<Rightarrow> string \<Rightarrow> bool" where
  "indented_edit p original updated \<longleftrightarrow> \<not> ep_all p \<and> \<not> Contains original (ep_old p) \<and>
     (\<exists>A B C new. splitEditLines original = A @ B @ C \<and> linesMatchIgnoringIndent B (splitEditLines (ep_old p)) \<and>
        updated = concat A @ new @ concat C \<and>
        (\<forall>A' B' C'. splitEditLines original = A' @ B' @ C' \<and> linesMatchIgnoringIndent B' (splitEditLines (ep_old p)) \<longrightarrow> A' = A))"

lemma indented_edits:
  assumes "indentInsensitiveReplacement original (ep_old p) (ep_new p) (ep_all p) = Inr updated"
    and "\<not> Contains original (ep_old p)"
  shows "indented_edit p original updated"
proof -
  let ?ls = "splitEditLines original" and ?old = "splitEditLines (ep_old p)"
  obtain i b e new where found: "edit_matches ?old 0 0 ?ls = [(i, b, e)]"
    and updated: "updated = take b original @ new @ drop e original" and few: "2 \<le> length ?old" "\<not> ep_all p"
    using assms(1) by (auto simp: indentInsensitiveReplacement_def Let_def split: if_splits list.splits prod.splits)
  from edit_matches_sound[of i b e ?old 0 0 ?ls] found obtain A B C where at: "?ls = A @ B @ C" "i = length A"
    "b = length (concat A)" "e = b + length (concat B)" "linesMatchIgnoringIndent B ?old" by auto
  have whole: "original = concat A @ concat B @ concat C" using concat_splitEditLines[of original] at(1) by simp
  have "A' = A" if "?ls = A' @ B' @ C'" "linesMatchIgnoringIndent B' ?old" for A' B' C'
  proof -
    have "?old \<noteq> []" using few by auto
    from edit_matches_complete[OF that(2) this, of 0 A' 0 C'] that(1) found have "length A' = i" by simp
    with at(1,2) that(1) show ?thesis by (metis append_eq_append_conv)
  qed
  moreover have "updated = concat A @ new @ concat C" using updated whole at(3,4) by simp
  ultimately show ?thesis using at(1,5) few assms(2) unfolding indented_edit_def by blast
qed

fun is_write :: "event \<Rightarrow> bool" where
  "is_write (DidWrite p t a) = True"
| "is_write _ = False"

text \<open>A write that has succeeded.\<close>

fun wrote :: "event \<Rightarrow> bool" where
  "wrote (DidWrite p t a) \<longleftrightarrow> a = None"
| "wrote _ \<longleftrightarrow> False"

lemma wrote_write: "wrote e \<Longrightarrow> is_write e"
  by (cases e) simp_all

abbreviation no_write :: "event \<Rightarrow> bool" where "no_write \<equiv> \<lambda>e. \<not> is_write e"

lemma session_dir_writes [simp]: "every no_write (SessionWorkDirFromContext cx g)"
  by (simp add: SessionWorkDirFromContext_def)

lemma target_writes [simp]: "every no_write (resolveFileTarget g cx raw)"
  by (auto simp: resolveFileTarget_def intro!: every_bind split: sum.splits)

lemma changed_file_writes [simp]: "every no_write (changed_file td g cx op out dest raw before b after tk)"
  by (auto simp: changed_file_def MutationDisplayPath_def mutationDiagnosticsBasePath_def intro!: every_bind split: sum.splits)

lemma changed_file_ok:
  "goes (changed_file td g cx op out dest raw before b after tk) tr (res, tk') \<Longrightarrow> \<not> rs_is_error res \<and> filter is_write tr = []"
proof
  assume run: "goes (changed_file td g cx op out dest raw before b after tk) tr (res, tk')"
  then show "\<not> rs_is_error res" unfolding changed_file_def goes_bind by (auto simp: success_result_def)
  show "filter is_write tr = []" using every_goes[OF run changed_file_writes] by (simp add: filter_empty_conv list_all_iff)
qed

lemma edit_content_goes:
  assumes "goes (edit_content td g cx p dest original tk) tr (res, tk')"
  shows "if rs_is_error res then list_all (\<lambda>e. \<not> wrote e) tr
    else \<exists>updated. filter is_write tr = [DidWrite dest updated None] \<and> (exact_edit p original updated \<or> indented_edit p original updated)"
proof -
  have written: "if rs_is_error res then list_all (\<lambda>e. \<not> wrote e) tr else filter is_write tr = [DidWrite dest updated None]"
    if "goes (write_edited td g cx p remark dest original updated tk) tr (res, tk')" for remark updated
  proof -
    from that obtain a rest where run: "tr = DidWrite dest updated a # rest"
      "goes (case a of Some er \<Rightarrow> answers_error (''edit_file write: '' @ err_text er) tk
        | None \<Rightarrow> changed_file td g cx ''edit_file'' (''edited '' @ ep_path p @ remark) dest (ep_path p) original True updated tk)
        rest (res, tk')"
      by (auto simp: write_edited_def)
    show ?thesis
    proof (cases a)
      case None
      with run changed_file_ok[of td g cx _ _ dest _ original True updated tk rest res tk'] show ?thesis by simp
    next
      case (Some er)
      with run show ?thesis by (simp add: error_result_def)
    qed
  qed
  have "rs_is_error res \<and> tr = [] \<or>
    (\<exists>remark updated. goes (write_edited td g cx p remark dest original updated tk) tr (res, tk') \<and>
       (exact_edit p original updated \<or> indented_edit p original updated))"
  proof (cases "ep_old p = ep_new p \<or> (\<not> ep_all p \<and> strings_Count original (ep_old p) > 1)")
    case True
    with assms show ?thesis by (auto simp: edit_content_def error_result_def Let_def split: if_splits)
  next
    case False
    show ?thesis
    proof (cases "strings_Count original (ep_old p) = 0")
      case True
      show ?thesis
      proof (cases "indentInsensitiveReplacement original (ep_old p) (ep_new p) (ep_all p)")
        case (Inl msg)
        with assms True False show ?thesis by (auto simp: edit_content_def error_result_def split: if_splits)
      next
        case (Inr updated)
        have "goes (write_edited td g cx p '' (indent-insensitive match)'' dest original updated tk) tr (res, tk')"
          using assms True False Inr by (simp add: edit_content_def)
        moreover have "indented_edit p original updated" using indented_edits[OF Inr] True by (simp add: Count_0)
        ultimately show ?thesis by blast
      qed
    next
      case pos: False
      then have there: "Contains original (ep_old p)" by (simp add: Count_0)
      let ?new = "if ep_all p then replace_everywhere original (ep_old p) (ep_new p) else replace_once (ep_old p) (ep_new p) original"
      have "exact_edit p original ?new"
        using False pos there replace_once_splits[OF there, of "ep_new p"] by (auto simp: exact_edit_def)
      moreover have "goes (write_edited td g cx p '''' dest original ?new tk) tr (res, tk')"
        using assms False pos by (cases "ep_all p") (auto simp: edit_content_def Let_def)
      ultimately show ?thesis by blast
    qed
  qed
  with written show ?thesis by fastforce
qed


section \<open>Samples\<close>

definition plain_deps :: tool_deps where
  "plain_deps = \<lparr>td_hash = (\<lambda>s. s),
     td_compilers = \<lparr>cp_go = (\<lambda>_ _. Parsed), cp_python = (\<lambda>_ _. NotConfigured), cp_typescript = (\<lambda>_ _ _. ScriptNotConfigured)\<rparr>\<rparr>"

definition small_guard :: path_guard where
  "small_guard = \<lparr>pg_work_dir = ''/w'', pg_protected = [''/w/sessions/s/keep''], pg_home = ''/h''\<rparr>"

definition small_ctx :: file_ctx where
  "small_ctx = \<lparr>fx_session = ''s'', fx_root = False\<rparr>"

definition edit_call :: "string \<Rightarrow> string \<Rightarrow> string \<Rightarrow> string" where
  "edit_call path old new = print_json (JObj [(''file_path'', JStr path), (''old_string'', JStr old), (''new_string'', JStr new)])"

text \<open>Links that lead nowhere else.\<close>

definition no_links :: "string \<Rightarrow> err + string" where "no_links p = Inr p"

definition edit_way :: "string \<Rightarrow> string \<Rightarrow> string \<Rightarrow> event list" where
  "edit_way dest original updated =
     [MadeDir ''/w/sessions/s'' None, AskedLinks no_links, DidRead dest (Inr original), DidWrite dest updated None,
      MadeDir ''/w/sessions/s'' None, MadeDir ''/w/sessions/s'' None]"

text \<open>What the answer of a tool says, along a way.\<close>

definition said :: "tool_answer \<Rightarrow> event list \<Rightarrow> (bool \<times> string) option" where
  "said q tr = map_option (\<lambda>(res, tk). (rs_is_error res, rs_output res)) (follow q tr)"

lemma said_goes: "said q tr = Some (e, out) \<Longrightarrow> \<exists>res tk'. goes q tr (res, tk') \<and> rs_is_error res = e \<and> rs_output res = out"
  by (auto simp: said_def simp flip: follow_goes)

lemma sample_edit:
  "said (EditTool_Execute plain_deps small_guard small_ctx (edit_call ''a.txt'' ''b'' ''x'') None)
     (edit_way ''/w/sessions/s/a.txt'' ''abc'' ''axc'') = Some (False, ''edited a.txt'')"
  by code_simp


lemma file_tools_stay_within_witness:
  "kept_within no_links ''/w/sessions/s'' ''/w/sessions/s/a.txt''"
proof -
  obtain res tk where run: "goes (EditTool_Execute plain_deps small_guard small_ctx (edit_call ''a.txt'' ''b'' ''x'') None)
      (edit_way ''/w/sessions/s/a.txt'' ''abc'' ''axc'') (res, tk)"
    using said_goes[OF sample_edit] by blast
  have here: "sessionScopedPathsEnabled small_ctx" "IsAbs (pg_work_dir small_guard)"
    "session_top small_guard small_ctx = ''/w/sessions/s''" by code_simp+
  have "\<exists>ev. AskedLinks ev \<in> set (edit_way ''/w/sessions/s/a.txt'' ''abc'' ''axc'') \<and>
      kept_within ev (session_top small_guard small_ctx) ''/w/sessions/s/a.txt''"
    by (rule file_tools_stay_within[OF run _ here(1,2), where e = "DidRead ''/w/sessions/s/a.txt'' (Inr ''abc'')"])
      (auto simp: edit_way_def no_links_def)
  then show ?thesis by (auto simp: edit_way_def here(3))
qed

section \<open>What the tools do not promise\<close>

text \<open>
  A relative path is checked against the protected ones as if it lay in the working directory, and written in that of
  the session: a protected directory of the session is written to.
\<close>

lemma protected_relative_written:
  "said (EditTool_Execute plain_deps small_guard small_ctx (edit_call ''keep/a.txt'' ''b'' ''x'') None)
     (edit_way ''/w/sessions/s/keep/a.txt'' ''abc'' ''axc'') = Some (False, ''edited keep/a.txt'') \<and>
   CheckWrite small_guard ''/w/sessions/s/keep/a.txt'' \<noteq> None"
  by code_simp

text \<open>A pattern that goes up leaves the session, and so does a walk from it.\<close>

lemma glob_leaves_session:
  "glob_in ''/w/sessions/s'' ''/w/sessions/s'' ''../*'' = Glob ''/w/sessions/*'' (\<lambda>r.
     case r of Inl er \<Rightarrow> Ret (error_result (''glob: '' @ err_text er))
       | Inr found \<Rightarrow> pbind (found_entries ''/w/sessions/s'' found) (\<lambda>es. Ret (glob_answer es)))"
  "follow (recursiveGlob ''/w/sessions/s'' ''/w/sessions/s'' ''../../**'')
     [Walked ''/w'' [\<lparr>we_path = ''/w/secret'', we_skip = False, we_info = Some \<lparr>fi_is_dir = False, fi_mtime = 1\<rparr>\<rparr>]] =
   Some [\<lparr>fe_path = ''../../secret'', fe_mtime = 1\<rparr>]"
proof -
  have "\<not> Contains ''../*'' ''**''" "path_Join [''/w/sessions/s'', ''../*''] = ''/w/sessions/*''" by code_simp+
  then show "glob_in ''/w/sessions/s'' ''/w/sessions/s'' ''../*'' = Glob ''/w/sessions/*'' (\<lambda>r.
     case r of Inl er \<Rightarrow> Ret (error_result (''glob: '' @ err_text er))
       | Inr found \<Rightarrow> pbind (found_entries ''/w/sessions/s'' found) (\<lambda>es. Ret (glob_answer es)))"
    by (simp only: glob_in_def if_False simp_thms)
  show "follow (recursiveGlob ''/w/sessions/s'' ''/w/sessions/s'' ''../../**'')
     [Walked ''/w'' [\<lparr>we_path = ''/w/secret'', we_skip = False, we_info = Some \<lparr>fi_is_dir = False, fi_mtime = 1\<rparr>\<rparr>]] =
   Some [\<lparr>fe_path = ''../../secret'', fe_mtime = 1\<rparr>]" by code_simp
qed

text \<open>Lines that are deleted by an edit that minds no indentation leave an empty line behind.\<close>

lemma deletion_leaves_line:
  "indentInsensitiveReplacement ([CHR 0x09] @ ''a'' @ [CHR 0x0A] @ ''b'' @ [CHR 0x0A] @ ''c'') (''a'' @ [CHR 0x0A] @ '' b'') '''' False =
   Inr ([CHR 0x0A] @ ''c'')"
  by code_simp

text \<open>A read that fails is noted as done: the next one is told that the file has not changed.\<close>

lemma failed_read_seen:
  "map_option (\<lambda>(res, tk). (rs_is_error res, map_option (\<lambda>t. fst (check_at
       \<lparr>rk_tool = ''read'', rk_path = ''/w/a'', rk_offset = 0, rk_limit = 0, rk_query = ''''\<rparr> 7 t)) tk))
     (follow (ReadTool_Execute small_guard \<lparr>fx_session = '''', fx_root = False\<rparr> (print_json (JObj [(''file_path'', JStr ''a'')])) (Some NewReadTracker))
       [AskedStat ''/w/a'' (Inr \<lparr>fi_is_dir = False, fi_mtime = 7\<rparr>), DidRead ''/w/a'' (Inl (EMsg ''permission denied''))]) =
   Some (True, Some ''[File unchanged since last read at line 1-1. Use edit_file to make changes, or read a different section.]'')"
  by code_simp

end
