(* ===== verification/Spec2Isabelle.thy ===== *)
theory Spec2Isabelle
  imports Queue_Properties Gateway_Properties Enqueue_Service Worker_Properties
    Netproxy_Handlers Memory_Gate Activation Path_Guard Agent_Loop Evidence_Tools
    Consolidation File_Tools
begin

text \<open>
  Elnath is an assistant that runs tasks in a background daemon.  This library models its control
  plane: the queue the daemon claims its work from (\<open>internal/daemon\<close>), the store of goals, signals,
  tasks, policy decisions, receipts and approvals (\<open>internal/agentic\<close>), and the guard every tool call of
  an agent passes (\<open>internal/agentic/tools\<close>, \<open>internal/agentic/policy\<close>, \<open>internal/tools/bash.go\<close>).

  How the parts interact.  Signals become proposed tasks (triage); an operator's decision turns a
  proposed task into a row of the queue (\<open>Enqueue_Service\<close>); a worker of the daemon claims the row
  (\<open>Task_Queue.Next\<close>) and takes it to its end (\<open>Daemon_Worker.worker_step\<close>); while the task runs, each tool
  call goes through \<open>Gateway.Execute\<close>, which asks the policy, records a decision and a receipt and, where the
  policy says so, waits for an approval that an operator gives through \<open>Approval_Store\<close>; the worker asks the
  completion gate (\<open>Completion_Gate\<close>), closes the row, tells the task's envelope (\<open>Task_Envelope\<close>) and has the
  completion delivered (\<open>Delivery_Router\<close>).  All of it shares one SQLite database.

  Theories, in the order of their imports.
  \<^item> \<open>Prelude\<close>: errors as values, the environment of clocks and driver faults, ranges of integers.
  \<^item> \<open>Go_Strings\<close>, \<open>Go_Path\<close>, \<open>Json\<close>: the functions of Go's standard library the sources use:
    \<open>strings\<close>, \<open>strconv\<close>, \<open>path/filepath\<close>, \<open>encoding/json\<close> (parser, printer and their round trip).
  \<^item> \<open>Tables\<close>, \<open>Db_Actions\<close>: SQL tables with their keys and unique indexes; actions on a database that
    read clocks, meet faults and are interleaved with other writers between statements and, in a
    transaction, not at all; the judgements \<open>preserves\<close> and \<open>triple\<close> with their rules.
  \<^item> \<open>Delivery_Target\<close>, \<open>Task_Payload\<close>: \<open>internal/daemon/delivery_target.go\<close>, \<open>task_payload.go\<close> and
    \<open>internal/identity\<close>.
  \<^item> \<open>Task_Queue\<close>, \<open>Queue_Invariants\<close>, \<open>Queue_Properties\<close>: \<open>internal/daemon/queue.go\<close>, every method
    statement by statement; the invariant of its rows, the life of a task and the histories of
    interleaved operations; claims C1 to C7 and C9.
  \<^item> \<open>Approval_Store\<close>: \<open>internal/daemon/approval_store.go\<close>.
  \<^item> \<open>Agentic_Types\<close>, \<open>Store_Tasks\<close>, \<open>Store_Records\<close>: \<open>internal/agentic/types.go\<close>, \<open>schema.go\<close> and
    \<open>store.go\<close>, a definition for each method.
  \<^item> \<open>Bash_Safety\<close>: \<open>AnalyzeCommandSafety\<close> over the syntax tree of a command; C12 and C13.
  \<^item> \<open>Agentic_Policy\<close>: the evaluator; C16 and C18.
  \<^item> \<open>Approvals_Bridge\<close>, \<open>Gateway\<close>, \<open>Gateway_Properties\<close>: approvals for policy decisions and the tool
    gateway; C21, C23 and C25.
  \<^item> \<open>Enqueue_Service\<close>: \<open>internal/agentic/enqueue\<close>, with the contract of its queue as a locale; C26 and C28.
  \<^item> \<open>Completion_Gate\<close>, \<open>Task_Envelope\<close>: \<open>internal/agentic/completion\<close>, and \<open>runtime\<close>, \<open>verification\<close>,
    \<open>actors\<close> and \<open>triage\<close> beside it.
  \<^item> \<open>Progress_Events\<close>, \<open>Delivery_Router\<close>: \<open>internal/daemon/progress.go\<close> and \<open>delivery.go\<close>; C29.
  \<^item> \<open>Error_Class\<close>: \<open>internal/agent/errorclass\<close>, with its regular expressions and what they match.
  \<^item> \<open>Daemon_Worker\<close>, \<open>Worker_Properties\<close>: the turn of a worker in \<open>internal/daemon/daemon.go\<close>, the
    classification of failures and submission; C30 and C31.

  \<^item> \<open>Go_Net\<close>, \<open>Netproxy_Policy\<close>, \<open>Netproxy_Handlers\<close>: addresses and names of Go's \<open>net\<close>; the rules and the
    evaluation of \<open>internal/tools/netproxy_policy.go\<close> and \<open>netproxy_event.go\<close>; the HTTP CONNECT and SOCKS5
    handlers of \<open>netproxy_proxy.go\<close> from the first byte to the dial; C33.
  \<^item> \<open>Lesson_Store\<close>: \<open>internal/learning/store.go\<close>, every method over a file and an archive whose system calls
    may fail one by one; C34.
  \<^item> \<open>Memory_Gate\<close>: \<open>internal/agentic/memory\<close>, the gate in front of lessons and wiki pages; C35.
  \<^item> \<open>Followups\<close>, \<open>Activation\<close>: \<open>internal/agentic/followup\<close>, \<open>signals\<close> and \<open>activation\<close>, where proposed tasks
    come from and when they are enqueued without an operator; C36.
  \<^item> \<open>Path_Guard\<close>: \<open>internal/tools/pathguard.go\<close> and \<open>scope.go\<close>, over \<open>EvalSymlinks\<close> as a parameter.
  \<^item> \<open>Agent_Messages\<close>: the messages of \<open>internal/llm\<close> and what \<open>internal/agent/agent.go\<close> does to the results in
    them; C38.
  \<^item> \<open>Agent_Tools\<close>: the permission engine, the hooks, the batches of tool calls and the footer on mutations
    (\<open>internal/agent/permission.go\<close>, \<open>hooks.go\<close>, \<open>executor.go\<close>, \<open>mutation_footer.go\<close>).
  \<^item> \<open>Agent_Loop\<close>: \<open>Agent.Run\<close> in \<open>agent.go\<close> with everything it calls: effort, deferred tools, the provider's
    stream, retries, compression, reflection; C39 and C40.
  \<^item> \<open>Delegation_Tools\<close>, \<open>Actor_Tools\<close>, \<open>Evidence_Tools\<close>: the tools of \<open>internal/agentic/tools\<close> an agent plans with:
    delegation of tasks and their way to the queue through \<open>Enqueue_Service\<close>, the mailboxes of actors, and
    the summaries of what is known of a task; C10, C11 and C15, C20, C24.
  \<^item> \<open>Context_Window\<close>: \<open>internal/conversation/context.go\<close> with \<open>structured_summary.go\<close> and \<open>compact_summary.go\<close>,
    how a history that is too long is summarised and cut, and that this is the compression \<open>Agent_Loop\<close> relies on;
    C8 and C14.
  \<^item> \<open>Consolidation_Lock\<close>, \<open>Consolidation\<close>: \<open>internal/learning/consolidator_gate.go\<close>, the gate and the lock
    with the calls of several processes interleaved (C22), and \<open>consolidator.go\<close> with its prompt, its answer and
    the pages of \<open>internal/wiki/synthesis.go\<close> (C32).
  \<^item> \<open>Line_Diff\<close>, \<open>Mutations\<close>: the part of \<open>internal/tools/code_symbols.go\<close> that maps the lines of a text to those of
    its successor and compares their diagnostics (C19, C27), and \<open>mutation.go\<close>, what is reported of a change.
  \<^item> \<open>File_Calls\<close>, \<open>Read_Tracker\<close>, \<open>File_Tools\<close>: programs over the calls to the operating system as trees that branch on
    every answer, \<open>internal/tools/read_tracker.go\<close>, and the tools of \<open>file.go\<close> as such programs; C17 and C37.

  Parameters.  The shell parser, the executor of the tools, the runner of the agent (with what it
  streams and which timers end it), the sinks, SHA-256, the detector of secrets, name resolution, the
  dialler, \<open>EvalSymlinks\<close>, the model's provider, the hooks of the agent, its prompter and its compression,
  what the threshold of the context window leaves of a budget, the memory of the process, the wiki, the compilers behind
  the diagnostics and the engine of regular expressions of grep are arguments of the definitions that use them.  The driver of the database is the environment: each
  statement may fail with any error it chooses, and other processes may change the database between
  two statements outside a transaction, in any way a \<open>stable\<close> hypothesis admits.

  Loops.  Retries on a busy database are bounded by the source's own constants.  The wait for an
  approval polls for ever in the source and has fuel here, None standing for a wait that is still
  going on.  \<open>unwrapArgs\<close> and \<open>cut_largest\<close> are partial functions, because the source's loops may not end
  (\<open>timeout_hangs\<close> in \<open>Bash_Safety\<close>, and C38).  Compression counts its three attempts down.

  Not modelled: the texts of JSON errors and invalid UTF-8; the rate a float carries beyond its
  decimal text; migrations of old database files; constructors that only fill a struct; logging; the agent's
  progress events and the waits between its retries; the
  language model clients, the terminal and messenger front ends, the sandbox and everything else that
  is input and output.
\<close>

end
